(* ===== verification/Prelude.thy ===== *)
theory Prelude
  imports Complex_Main "HOL-Library.Word"
begin

section \<open>Prelude\<close>

text \<open>
  What every theory of the development shares: the collections of facts its proofs use, the
  type of a call that may throw, and generic lemmas on lists that the components apply. Nothing
  here models code of the repository.
\<close>

named_theorems handler_defs
  \<open>definitions of event handlers, unfolded when a property is checked on one step\<close>
named_theorems view_defs
  \<open>definitions of rendered views, unfolded when their controls are enumerated\<close>
named_theorems text_defs
  \<open>definitions of the literal texts of the user interface\<close>
named_theorems js_eval
  \<open>equations that evaluate JavaScript primitives on concrete values\<close>

subsection \<open>Results that may be an exception\<close>

text \<open>
  A call that may throw returns a value of the sum type: \<^term>\<open>Inl e\<close> is the exception,
  \<^term>\<open>Inr v\<close> the normal return. \<open>try_catch\<close> is the \<open>try\<close>/\<open>catch\<close> statement.
\<close>

type_synonym ('e, 'a) thrown = "'e + 'a"

definition try_catch :: "('e, 'a) thrown \<Rightarrow> ('a \<Rightarrow> 'b) \<Rightarrow> ('e \<Rightarrow> 'b) \<Rightarrow> 'b" where
  "try_catch m ok handler = (case m of Inl e \<Rightarrow> handler e | Inr v \<Rightarrow> ok v)"

lemma try_catch_simps [simp]:
  "try_catch (Inr v) ok handler = ok v"
  "try_catch (Inl e) ok handler = handler e"
  by (simp_all add: try_catch_def)

subsection \<open>Lists\<close>

text \<open>\<open>show_if c xs\<close> is the JSX idiom \<open>{c && ...}\<close> for a list of children.\<close>

definition show_if :: "bool \<Rightarrow> 'a list \<Rightarrow> 'a list" where
  "show_if c xs = (if c then xs else [])"

lemma show_if_simps [simp]: "show_if True xs = xs" "show_if False xs = []"
  by (simp_all add: show_if_def)

lemma set_show_if [simp]: "set (show_if c xs) = (if c then set xs else {})"
  by (simp add: show_if_def)

lemma concat_map_show_if [simp]: "concat (map f (show_if c xs)) = show_if c (concat (map f xs))"
  by (simp add: show_if_def)

text \<open>\<open>map_index f xs\<close> is \<open>xs.map((x, i) => f(i, x))\<close>.\<close>

definition map_index :: "(nat \<Rightarrow> 'a \<Rightarrow> 'b) \<Rightarrow> 'a list \<Rightarrow> 'b list" where
  "map_index f xs = map (\<lambda>(i, x). f i x) (zip [0..<length xs] xs)"

lemma length_map_index [simp]: "length (map_index f xs) = length xs"
  by (simp add: map_index_def)

lemma nth_map_index [simp]: "i < length xs \<Longrightarrow> map_index f xs ! i = f i (xs ! i)"
  by (simp add: map_index_def)

lemma map_map_index: "map g (map_index f xs) = map_index (\<lambda>i x. g (f i x)) xs"
  by (simp add: map_index_def case_prod_unfold)

lemma map_index_const: "map_index (\<lambda>_ x. f x) xs = map f xs"
  by (rule nth_equalityI) simp_all

lemma set_map_index: "set (map_index f xs) = {f i (xs ! i) | i. i < length xs}"
  by (simp add: set_conv_nth) (metis nth_map_index)

lemma takeWhile_append_all:
  "\<forall>x \<in> set xs. P x \<Longrightarrow> takeWhile P (xs @ ys) = xs @ takeWhile P ys"
  by simp

lemma takeWhile_stop:
  "\<forall>x \<in> set xs. P x \<Longrightarrow> ys = [] \<or> \<not> P (hd ys) \<Longrightarrow> takeWhile P (xs @ ys) = xs"
  by (cases ys) auto

lemma dropWhile_stop:
  "\<forall>x \<in> set xs. P x \<Longrightarrow> ys = [] \<or> \<not> P (hd ys) \<Longrightarrow> dropWhile P (xs @ ys) = ys"
  by (cases ys) auto

text \<open>A list read from the left up to a separator splits in one way only.\<close>

lemma append_sep_cancel:
  assumes "xs @ c # ys = xs' @ c # ys'" and "c \<notin> set xs" and "c \<notin> set xs'"
  shows "xs = xs' \<and> ys = ys'"
proof -
  have "takeWhile (\<lambda>x. x \<noteq> c) (xs @ c # ys) = xs"
    using assms(2) by (intro takeWhile_stop) auto
  moreover have "takeWhile (\<lambda>x. x \<noteq> c) (xs' @ c # ys') = xs'"
    using assms(3) by (intro takeWhile_stop) auto
  ultimately have "xs = xs'" using assms(1) by metis
  then show ?thesis using assms(1) by simp
qed

end
