(* ===== verification/JsNumber.thy ===== *)
theory JsNumber
  imports Prelude
begin

section \<open>JavaScript numbers\<close>

text \<open>
  A JavaScript number is an IEEE 754 double. A finite double is modelled by the rational number
  it denotes, and every operation of the language that may not be exact ends with
  \<open>rnd\<close>, the rounding to the nearest double, ties to even, with overflow to an infinity.
  The two zeros are one value here: the sources never divide by a zero and never call
  \<open>Object.is\<close>, the only ways to tell them apart.
\<close>

datatype jsnum = JNaN | JPosInf | JNegInf | JFin rat

subsection \<open>Rounding a rational to an integer\<close>

definition round_half_even :: "rat \<Rightarrow> int" where
  "round_half_even x =
     (let f = \<lfloor>x\<rfloor>; d = x - of_int f
      in if d < 1/2 \<or> (d = 1/2 \<and> even f) then f else f + 1)"

lemma round_half_even_of_int [simp]: "round_half_even (of_int n) = n"
  by (simp add: round_half_even_def)

lemma round_half_even_near: "\<bar>of_int (round_half_even x) - x\<bar> \<le> 1/2"
proof -
  have "of_int \<lfloor>x\<rfloor> \<le> x" "x < of_int \<lfloor>x\<rfloor> + 1" by linarith+
  then show ?thesis unfolding round_half_even_def Let_def by (auto simp: abs_le_iff)
qed

lemma round_half_even_ge: "of_int n \<le> x \<Longrightarrow> n \<le> round_half_even x"
  using le_floor_iff[of n x] by (auto simp: round_half_even_def Let_def)

lemma round_half_even_le:
  assumes "x \<le> of_int n" shows "round_half_even x \<le> n"
proof (cases "x = of_int n")
  case False
  with assms have "\<lfloor>x\<rfloor> < n" by (simp add: floor_less_iff)
  then show ?thesis by (auto simp: round_half_even_def Let_def)
qed simp

subsection \<open>The position of the leading digit\<close>

text \<open>
  \<open>ndig b n\<close> counts the base \<open>b\<close> digits of an integer; \<open>ilog b r\<close> is the greatest \<open>k\<close> with
  \<open>b ^ k \<le> r\<close>, for a base \<open>b \<ge> 2\<close> and \<open>r > 0\<close>.
\<close>

function ndig :: "int \<Rightarrow> int \<Rightarrow> nat" where
  "ndig b n = (if n \<le> 0 \<or> b < 2 then 0 else Suc (ndig b (n div b)))"
  by pat_completeness auto
termination
  by (relation "measure (\<lambda>(b, n). nat n)") (auto simp: nat_less_iff int_div_less_self)

declare ndig.simps [simp del]

lemma ndig_bounds:
  assumes "1 < b" "0 < n"
  shows "0 < ndig b n \<and> b ^ (ndig b n - 1) \<le> n \<and> n < b ^ ndig b n"
  using assms
proof (induction b n rule: ndig.induct)
  case (1 b n)
  have step: "ndig b n = Suc (ndig b (n div b))"
    using "1.prems" by (subst ndig.simps) auto
  show ?case
  proof (cases "n < b")
    case True
    have "n div b = 0" using True "1.prems" by simp
    moreover have "ndig b 0 = 0" by (subst ndig.simps) simp
    ultimately have "ndig b n = 1" by (simp add: step)
    then show ?thesis using True "1.prems" by simp
  next
    case False
    then have q: "0 < n div b" using "1.prems" by (simp add: pos_imp_zdiv_pos_iff)
    let ?m = "ndig b (n div b)"
    have IH: "0 < ?m" "b ^ (?m - 1) \<le> n div b" "n div b < b ^ ?m"
      using "1.IH" "1.prems" q by auto
    have dm: "n = b * (n div b) + n mod b" "0 \<le> n mod b" "n mod b < b"
      using "1.prems" by simp_all
    have "b * b ^ (?m - 1) \<le> b * (n div b)" using IH(2) "1.prems" by simp
    moreover have "b * b ^ (?m - 1) = b ^ ?m" using IH(1) by (simp flip: power_Suc)
    moreover have "b * (n div b + 1) \<le> b * b ^ ?m" using IH(3) "1.prems" by simp
    then have "b * (n div b) + b \<le> b * b ^ ?m" by (simp add: distrib_left)
    ultimately have "b ^ ?m \<le> n" "n < b * b ^ ?m" using dm by linarith+
    then show ?thesis by (simp add: step)
  qed
qed

definition ilog :: "int \<Rightarrow> rat \<Rightarrow> int" where
  "ilog b r =
     (let (p, q) = quotient_of r;
          k = int (ndig b p) - int (ndig b q)
      in if of_int b powi k \<le> r then k else k - 1)"

lemma ilog_bounds:
  assumes "1 < b" and "0 < r"
  shows "of_int b powi ilog b r \<le> r" and "r < of_int b powi (ilog b r + 1)"
proof -
  obtain p q where pq: "quotient_of r = (p, q)" by fastforce
  have q: "0 < q" and r: "r = of_int p / of_int q"
    using quotient_of_denom_pos[OF pq] quotient_of_div[OF pq] by auto
  have p: "0 < p"
    using assms(2) q by (simp add: r zero_less_divide_iff)
  define m n where "m = ndig b p" and "n = ndig b q"
  define B where "B = (of_int b :: rat)"
  have B: "1 < B" using assms(1) by (simp add: B_def)
  have mb: "0 < m" "b ^ (m - 1) \<le> p" "p < b ^ m"
    and nb: "0 < n" "b ^ (n - 1) \<le> q" "q < b ^ n"
    using ndig_bounds assms(1) p q by (simp_all add: m_def n_def)
  note m0 = mb(1) and n0 = nb(1)
  have P: "B ^ (m - 1) \<le> of_int p" "of_int p < B ^ m"
    using mb(2,3) unfolding B_def by (simp_all only: of_int_le_iff of_int_less_iff flip: of_int_power)
  have Q: "B ^ (n - 1) \<le> of_int q" "of_int q < B ^ n"
    using nb(2,3) unfolding B_def by (simp_all only: of_int_le_iff of_int_less_iff flip: of_int_power)
  define k where "k = int m - int n"
  have Bq: "0 < (of_int q :: rat)" and Bp: "0 < (of_int p :: rat)" using q p by simp_all
  have split: "B powi (k + 1) = B ^ m / B ^ (n - 1)" "B powi (k - 1) = B ^ (m - 1) / B ^ n"
  proof -
    have e: "k + 1 = int m - int (n - 1)" "k - 1 = int (m - 1) - int n"
      using n0 m0 by (simp_all add: k_def of_nat_diff)
    show "B powi (k + 1) = B ^ m / B ^ (n - 1)" "B powi (k - 1) = B ^ (m - 1) / B ^ n"
      unfolding e using B by (subst power_int_diff; simp)+
  qed
  have up: "r < B powi (k + 1)"
    unfolding split r using P(2) Q(1) B Bp by (intro frac_less) (auto intro: zero_less_power)
  have lo: "B powi (k - 1) < r"
    unfolding split r using P(1) Q(2) B Bp Bq
    by (intro frac_less2) (auto intro: zero_less_power)
  have il: "ilog b r = (if B powi k \<le> r then k else k - 1)"
    by (simp add: ilog_def pq k_def m_def n_def B_def)
  show "of_int b powi ilog b r \<le> r" "r < of_int b powi (ilog b r + 1)"
    using up lo by (simp_all add: il flip: B_def)
qed

subsection \<open>Rounding to a double\<close>

text \<open>
  \<open>ulp_exp x\<close> is the exponent of the unit in the last place of the doubles around \<open>x\<close>:
  53 significant bits, and never below the subnormals' \<open>2 ^ -1074\<close>. \<open>round_rat\<close> rounds to a
  multiple of that unit and \<open>rnd\<close> adds the overflow.
\<close>

definition ulp_exp :: "rat \<Rightarrow> int" where
  "ulp_exp x = max (- 1074) (ilog 2 \<bar>x\<bar> - 52)"

definition round_rat :: "rat \<Rightarrow> rat" where
  "round_rat x =
     (if x = 0 then 0
      else of_int (round_half_even (x / 2 powi ulp_exp x)) * 2 powi ulp_exp x)"

definition of_rounded :: "rat \<Rightarrow> jsnum" where
  "of_rounded y =
     (if 2 powi 1024 \<le> y then JPosInf
      else if y \<le> - (2 powi 1024) then JNegInf
      else JFin y)"

definition rnd :: "rat \<Rightarrow> jsnum" where
  "rnd x = of_rounded (round_rat x)"

text \<open>The literal \<open>n\<close> of the source, for an integer with an exact double.\<close>

definition jint :: "int \<Rightarrow> jsnum" where
  "jint n = JFin (of_int n)"

lemma jint_inject [simp]: "jint m = jint n \<longleftrightarrow> m = n"
  by (simp add: jint_def)

lemma jint_neq [simp]:
  "jint n \<noteq> JNaN" "jint n \<noteq> JPosInf" "jint n \<noteq> JNegInf"
  by (simp_all add: jint_def)

definition max_safe :: int where
  "max_safe = 2 ^ 53 - 1"

lemma ulp_exp_small:
  assumes "x \<noteq> 0" "\<bar>x\<bar> < 2 ^ 53" shows "ulp_exp x \<le> 0"
proof -
  have "2 powi ilog 2 \<bar>x\<bar> \<le> \<bar>x\<bar>" using assms(1) ilog_bounds(1)[of 2 "\<bar>x\<bar>"] by simp
  also have "\<dots> < 2 powi 53" using assms(2) by simp
  finally have "ilog 2 \<bar>x\<bar> < 53"
    using power_int_increasing[of 53 "ilog 2 \<bar>x\<bar>" "2::rat"] by linarith
  then show ?thesis by (simp add: ulp_exp_def)
qed

lemma ulp_exp_large:
  assumes "2 ^ 53 \<le> \<bar>x\<bar>"
  shows "1 \<le> ulp_exp x" and "2 ^ 52 \<le> \<bar>x\<bar> / 2 powi ulp_exp x"
proof -
  have "(0::rat) < 2 ^ 53" by simp
  with assms have x0: "0 < \<bar>x\<bar>" by linarith
  have "2 powi 53 < (2::rat) powi (ilog 2 \<bar>x\<bar> + 1)"
    using assms ilog_bounds(2)[OF _ x0, of 2] by simp
  then have il: "53 \<le> ilog 2 \<bar>x\<bar>"
    using power_int_increasing[of "ilog 2 \<bar>x\<bar> + 1" 53 "2::rat"] by linarith
  then show "1 \<le> ulp_exp x" by (simp add: ulp_exp_def)
  have u: "ulp_exp x = ilog 2 \<bar>x\<bar> - 52" using il by (simp add: ulp_exp_def)
  have "2 ^ 52 * 2 powi ulp_exp x = (2::rat) powi ilog 2 \<bar>x\<bar>"
    unfolding u by (simp add: power_int_diff)
  also have "\<dots> \<le> \<bar>x\<bar>" using ilog_bounds(1)[OF _ x0, of 2] by simp
  finally show "2 ^ 52 \<le> \<bar>x\<bar> / 2 powi ulp_exp x"
    by (simp add: pos_le_divide_eq)
qed

lemma powi_neg_int: "e \<le> 0 \<Longrightarrow> (2::rat) powi e * of_int (2 ^ nat (- e)) = 1"
  by (auto simp: power_int_def field_simps)

text \<open>Rounding is odd, so it is enough to look at one sign.\<close>

lemma round_half_even_minus: "round_half_even (- x) = - round_half_even x"
proof (cases "x = of_int \<lfloor>x\<rfloor>")
  case True
  then show ?thesis by (metis of_int_minus round_half_even_of_int)
next
  case False
  have b: "of_int \<lfloor>x\<rfloor> < x" "x < of_int \<lfloor>x\<rfloor> + 1" using False by linarith+
  then have f: "\<lfloor>- x\<rfloor> = - \<lfloor>x\<rfloor> - 1" by (intro floor_unique) auto
  show ?thesis using b unfolding round_half_even_def Let_def f by auto
qed

lemma round_rat_minus: "round_rat (- x) = - round_rat x"
proof -
  have "ulp_exp (- x) = ulp_exp x" by (simp add: ulp_exp_def)
  then show ?thesis
    using round_half_even_minus[of "x / 2 powi ulp_exp x"] by (simp add: round_rat_def)
qed

text \<open>
  The two facts the components use: rounding stays on the same side of every integer up to
  \<open>2 ^ 53\<close>, and therefore fixes those integers.
\<close>

lemma scaled_int:
  assumes "e \<le> 0"
  obtains k :: int where "0 < k" "\<And>n. of_int n / 2 powi e = (of_int (n * k) :: rat)"
    "\<And>n. of_int (n * k) * 2 powi e = (of_int n :: rat)"
proof
  let ?k = "2 ^ nat (- e) :: int"
  show "0 < ?k" by simp
  have k: "(2::rat) powi e * of_int ?k = 1" using powi_neg_int[OF assms] .
  then show "of_int (n * ?k) * 2 powi e = (of_int n :: rat)" for n
    by (simp only: of_int_mult mult.assoc mult.commute[of "of_int ?k"] mult_1_right)
  then show "of_int n / 2 powi e = (of_int (n * ?k) :: rat)" for n
    by (metis nonzero_mult_div_cancel_right power_int_not_zero zero_neq_numeral)
qed

lemma round_rat_small:
  assumes "x \<noteq> 0" "\<bar>x\<bar> < 2 ^ 53"
  shows "of_int n \<le> x \<Longrightarrow> of_int n \<le> round_rat x"
    and "x \<le> of_int n \<Longrightarrow> round_rat x \<le> of_int n"
proof -
  let ?e = "ulp_exp x" and ?r = "round_half_even (x / 2 powi ulp_exp x)"
  obtain k where k: "0 < k" "\<And>n. of_int n / 2 powi ?e = (of_int (n * k) :: rat)"
    "\<And>n. of_int (n * k) * 2 powi ?e = (of_int n :: rat)"
    using scaled_int[OF ulp_exp_small[OF assms]] by blast
  have rr: "round_rat x = of_int ?r * 2 powi ?e" using assms(1) by (simp add: round_rat_def)
  have pos: "0 \<le> (2::rat) powi ?e" by simp
  { assume "of_int n \<le> x"
    then have "(of_int (n * k) :: rat) \<le> x / 2 powi ?e"
      unfolding k(2)[symmetric] by (rule divide_right_mono) simp
    then have "(of_int (n * k) :: rat) \<le> of_int ?r"
      by (simp only: of_int_le_iff round_half_even_ge)
    from mult_right_mono[OF this pos] show "of_int n \<le> round_rat x"
      unfolding rr k(3) . }
  { assume "x \<le> of_int n"
    then have "x / 2 powi ?e \<le> (of_int (n * k) :: rat)"
      unfolding k(2)[symmetric] by (rule divide_right_mono) simp
    then have "of_int ?r \<le> (of_int (n * k) :: rat)"
      by (simp only: of_int_le_iff round_half_even_le)
    from mult_right_mono[OF this pos] show "round_rat x \<le> of_int n"
      unfolding rr k(3) . }
qed

lemma round_rat_big:
  assumes "2 ^ 53 \<le> x" shows "2 ^ 53 \<le> round_rat x"
proof -
  have "(0::rat) < 2 ^ 53" by simp
  with assms have x0: "0 < x" by linarith
  then have ax: "\<bar>x\<bar> = x" by simp
  note u = ulp_exp_large[of x, unfolded ax, OF assms]
  have "(2::rat) powi 1 \<le> 2 powi ulp_exp x" using u(1) by (intro power_int_increasing) auto
  then have u2: "2 \<le> (2::rat) powi ulp_exp x" by simp
  have "of_int (2 ^ 52) \<le> x / 2 powi ulp_exp x" using u(2) by simp
  from round_half_even_ge[OF this]
  have "(2 ^ 52 :: rat) \<le> of_int (round_half_even (x / 2 powi ulp_exp x))"
    by (metis of_int_le_iff of_int_numeral of_int_power)
  from mult_mono[OF this u2]
  have "2 ^ 52 * 2 \<le> of_int (round_half_even (x / 2 powi ulp_exp x)) * (2::rat) powi ulp_exp x"
    using \<open>(2 ^ 52 :: rat) \<le> of_int (round_half_even (x / 2 powi ulp_exp x))\<close>
    by (meson order_trans zero_le_numeral zero_le_power)
  then show ?thesis using x0 by (simp add: round_rat_def)
qed

lemma round_rat_2_53: "round_rat (2 ^ 53) = 2 ^ 53"
  by code_simp

lemma round_rat_pos:
  assumes n: "n \<le> 2 ^ 53" and x: "0 \<le> x"
  shows "of_int n \<le> x \<Longrightarrow> of_int n \<le> round_rat x"
    and "x \<le> of_int n \<Longrightarrow> round_rat x \<le> of_int n"
proof -
  have n': "(of_int n :: rat) \<le> 2 ^ 53"
    using n by (metis of_int_le_iff of_int_numeral of_int_power)
  { assume le: "of_int n \<le> x"
    show "of_int n \<le> round_rat x"
    proof (cases "x = 0 \<or> 2 ^ 53 \<le> x")
      case True
      then show ?thesis using round_rat_big[of x] n' le by (auto simp: round_rat_def)
    next
      case False
      then show ?thesis using round_rat_small(1)[OF _ _ le] x by auto
    qed }
  { assume ge: "x \<le> of_int n"
    show "round_rat x \<le> of_int n"
    proof (cases "x = 0 \<or> x = 2 ^ 53")
      case True
      then show ?thesis using ge using round_rat_2_53 by (auto simp: round_rat_def[of 0])
    next
      case False
      then have "\<bar>x\<bar> < 2 ^ 53" using ge n' x by (auto simp: order_less_le)
      then show ?thesis using round_rat_small(2)[OF _ _ ge] False by auto
    qed }
qed

lemma round_rat_ge:
  assumes "\<bar>n\<bar> \<le> 2 ^ 53" "of_int n \<le> x" shows "of_int n \<le> round_rat x"
proof (cases "0 \<le> x")
  case True
  then show ?thesis using round_rat_pos(1)[of n x] assms by auto
next
  case False
  then show ?thesis
    using round_rat_pos(2)[of "- n" "- x"] assms by (auto simp: round_rat_minus)
qed

lemma round_rat_le:
  assumes "\<bar>n\<bar> \<le> 2 ^ 53" "x \<le> of_int n" shows "round_rat x \<le> of_int n"
  using round_rat_ge[of "- n" "- x"] assms by (simp add: round_rat_minus)

lemma round_rat_int: "\<bar>n\<bar> \<le> 2 ^ 53 \<Longrightarrow> round_rat (of_int n) = of_int n"
  by (simp add: antisym round_rat_ge round_rat_le)

text \<open>Rounding moves a number by at most half a unit in the last place.\<close>

lemma round_rat_error:
  assumes "\<bar>x\<bar> < 2 powi k" and "- 1021 \<le> k"
  shows "\<bar>round_rat x - x\<bar> \<le> 2 powi (k - 54)"
proof (cases "x = 0")
  case False
  let ?u = "2 powi ulp_exp x :: rat"
  have "(2::rat) powi ilog 2 \<bar>x\<bar> < 2 powi k"
    using ilog_bounds(1)[of 2 "\<bar>x\<bar>"] False assms(1) by simp
  then have "ilog 2 \<bar>x\<bar> < k"
    using power_int_increasing[of k "ilog 2 \<bar>x\<bar>" "2::rat"] by linarith
  then have e: "ulp_exp x \<le> k - 53" using assms(2) by (simp add: ulp_exp_def)
  have u: "0 < ?u" by simp
  have "round_rat x - x = (of_int (round_half_even (x / ?u)) - x / ?u) * ?u"
    using False u by (simp add: round_rat_def field_simps)
  then have "\<bar>round_rat x - x\<bar> = \<bar>of_int (round_half_even (x / ?u)) - x / ?u\<bar> * ?u"
    using u by (simp add: abs_mult)
  also have "\<dots> \<le> 1/2 * ?u"
    using round_half_even_near by (rule mult_right_mono) simp
  also have "\<dots> \<le> 1/2 * 2 powi (k - 53)"
    using e by (intro mult_left_mono power_int_increasing) auto
  also have "\<dots> = 2 powi (k - 54)"
    using power_int_add_1[of "2::rat" "k - 54"] by simp
  finally show ?thesis .
qed (simp add: round_rat_def)

lemma of_rounded_fin [simp]: "\<bar>y\<bar> \<le> 2 ^ 53 \<Longrightarrow> of_rounded y = JFin y"
  by (auto simp: of_rounded_def)

lemma of_rounded_FinD: "of_rounded y = JFin z \<Longrightarrow> z = y"
  by (simp add: of_rounded_def split: if_splits)

lemma rnd_int: "\<bar>n\<bar> \<le> 2 ^ 53 \<Longrightarrow> rnd (of_int n) = jint n"
proof -
  assume n: "\<bar>n\<bar> \<le> 2 ^ 53"
  then have "\<bar>of_int n :: rat\<bar> \<le> 2 ^ 53"
    by (metis of_int_abs of_int_le_iff of_int_numeral of_int_power)
  then show ?thesis using n by (simp add: rnd_def round_rat_int jint_def)
qed

text \<open>An integer whose rounding is below \<open>2 ^ 53\<close> was not rounded at all.\<close>

lemma rnd_int_exact:
  assumes "rnd (of_int n) = JFin y" and "\<bar>y\<bar> < 2 ^ 53"
  shows "y = of_int n"
proof (cases "\<bar>n\<bar> \<le> 2 ^ 53")
  case True
  then show ?thesis using assms(1) rnd_int by (simp add: jint_def)
next
  case False
  have y: "y = round_rat (of_int n)"
    using assms(1) by (auto simp: rnd_def dest: of_rounded_FinD)
  have "2 ^ 53 \<le> \<bar>round_rat (of_int n)\<bar>"
  proof (cases "0 \<le> n")
    case True
    then have "of_int (2 ^ 53) \<le> (of_int n :: rat)" using False by (simp only: of_int_le_iff)
    then show ?thesis using round_rat_big[of "of_int n"] by simp
  next
    case neg: False
    then have "of_int (2 ^ 53) \<le> (of_int (- n) :: rat)" using False by (simp only: of_int_le_iff)
    then show ?thesis using round_rat_big[of "- of_int n"] by (simp add: round_rat_minus)
  qed
  then show ?thesis using assms(2) y by simp
qed

subsection \<open>Operators of the language\<close>

instantiation jsnum :: "{plus, minus, times, inverse}"
begin

fun plus_jsnum :: "jsnum \<Rightarrow> jsnum \<Rightarrow> jsnum" where
  "plus_jsnum JNaN _ = JNaN"
| "plus_jsnum _ JNaN = JNaN"
| "plus_jsnum (JFin x) (JFin y) = rnd (x + y)"
| "plus_jsnum JPosInf JNegInf = JNaN"
| "plus_jsnum JNegInf JPosInf = JNaN"
| "plus_jsnum JPosInf _ = JPosInf"
| "plus_jsnum _ JPosInf = JPosInf"
| "plus_jsnum JNegInf _ = JNegInf"
| "plus_jsnum _ JNegInf = JNegInf"

fun neg_jsnum :: "jsnum \<Rightarrow> jsnum" where
  "neg_jsnum JNaN = JNaN"
| "neg_jsnum JPosInf = JNegInf"
| "neg_jsnum JNegInf = JPosInf"
| "neg_jsnum (JFin x) = JFin (- x)"

definition minus_jsnum :: "jsnum \<Rightarrow> jsnum \<Rightarrow> jsnum" where
  "a - b = a + neg_jsnum (b :: jsnum)"

text \<open>The sign of an infinite product or quotient.\<close>

definition inf_sign :: "rat \<Rightarrow> jsnum" where
  "inf_sign x = (if x = 0 then JNaN else if 0 < x then JPosInf else JNegInf)"

fun times_jsnum :: "jsnum \<Rightarrow> jsnum \<Rightarrow> jsnum" where
  "times_jsnum JNaN _ = JNaN"
| "times_jsnum _ JNaN = JNaN"
| "times_jsnum (JFin x) (JFin y) = rnd (x * y)"
| "times_jsnum JPosInf (JFin y) = inf_sign y"
| "times_jsnum JNegInf (JFin y) = inf_sign (- y)"
| "times_jsnum (JFin x) JPosInf = inf_sign x"
| "times_jsnum (JFin x) JNegInf = inf_sign (- x)"
| "times_jsnum JPosInf JPosInf = JPosInf"
| "times_jsnum JNegInf JNegInf = JPosInf"
| "times_jsnum JPosInf JNegInf = JNegInf"
| "times_jsnum JNegInf JPosInf = JNegInf"

fun divide_jsnum :: "jsnum \<Rightarrow> jsnum \<Rightarrow> jsnum" where
  "divide_jsnum JNaN _ = JNaN"
| "divide_jsnum _ JNaN = JNaN"
| "divide_jsnum (JFin x) (JFin y) = (if y = 0 then inf_sign x else rnd (x / y))"
| "divide_jsnum (JFin x) JPosInf = JFin 0"
| "divide_jsnum (JFin x) JNegInf = JFin 0"
| "divide_jsnum JPosInf (JFin y) = (if y < 0 then JNegInf else JPosInf)"
| "divide_jsnum JNegInf (JFin y) = (if y < 0 then JPosInf else JNegInf)"
| "divide_jsnum _ _ = JNaN"

definition inverse_jsnum :: "jsnum \<Rightarrow> jsnum" where
  "inverse_jsnum a = divide (JFin 1) a"

instance ..

end

text \<open>\<open>===\<close>, \<open><\<close> and \<open><=\<close>: every comparison with \<open>NaN\<close> is false.\<close>

definition jeq :: "jsnum \<Rightarrow> jsnum \<Rightarrow> bool" where
  "jeq a b \<longleftrightarrow> a = b \<and> a \<noteq> JNaN"

fun jless :: "jsnum \<Rightarrow> jsnum \<Rightarrow> bool" where
  "jless JNaN _ = False"
| "jless _ JNaN = False"
| "jless (JFin x) (JFin y) = (x < y)"
| "jless JNegInf b = (b \<noteq> JNegInf)"
| "jless _ JNegInf = False"
| "jless _ JPosInf = True"
| "jless JPosInf _ = False"

definition jle :: "jsnum \<Rightarrow> jsnum \<Rightarrow> bool" where
  "jle a b \<longleftrightarrow> jless a b \<or> jeq a b"

text \<open>A number used as a condition: false for \<open>0\<close> and \<open>NaN\<close>.\<close>

definition jtruthy :: "jsnum \<Rightarrow> bool" where
  "jtruthy a \<longleftrightarrow> a \<noteq> JNaN \<and> a \<noteq> JFin 0"

subsection \<open>Library functions\<close>

fun isInteger :: "jsnum \<Rightarrow> bool" where
  "isInteger (JFin x) = (of_int \<lfloor>x\<rfloor> = x)"
| "isInteger _ = False"

fun isSafeInteger :: "jsnum \<Rightarrow> bool" where
  "isSafeInteger (JFin x) = (of_int \<lfloor>x\<rfloor> = x \<and> \<bar>x\<bar> \<le> of_int max_safe)"
| "isSafeInteger _ = False"

fun math_ceil :: "jsnum \<Rightarrow> jsnum" where
  "math_ceil (JFin x) = JFin (of_int \<lceil>x\<rceil>)"
| "math_ceil a = a"

definition math_max :: "jsnum \<Rightarrow> jsnum \<Rightarrow> jsnum" where
  "math_max a b = (if a = JNaN \<or> b = JNaN then JNaN else if jless a b then b else a)"

definition math_min :: "jsnum \<Rightarrow> jsnum \<Rightarrow> jsnum" where
  "math_min a b = (if a = JNaN \<or> b = JNaN then JNaN else if jless b a then b else a)"

subsection \<open>Exact arithmetic on safe integers\<close>

lemma jint_add: "\<bar>m + n\<bar> \<le> 2 ^ 53 \<Longrightarrow> jint m + jint n = jint (m + n)"
  using rnd_int[of "m + n"] by (simp add: jint_def)

lemma jint_diff: "\<bar>m - n\<bar> \<le> 2 ^ 53 \<Longrightarrow> jint m - jint n = jint (m - n)"
  using rnd_int[of "m - n"] by (simp add: jint_def minus_jsnum_def)

lemma jint_mult: "\<bar>m * n\<bar> \<le> 2 ^ 53 \<Longrightarrow> jint m * jint n = jint (m * n)"
  using rnd_int[of "m * n"] by (simp add: jint_def)

lemma jeq_jint [simp]: "jeq (jint m) (jint n) \<longleftrightarrow> m = n"
  by (simp add: jeq_def)

lemma jless_jint [simp]: "jless (jint m) (jint n) \<longleftrightarrow> m < n"
  by (simp add: jint_def)

lemma jle_jint [simp]: "jle (jint m) (jint n) \<longleftrightarrow> m \<le> n"
  by (auto simp: jle_def)

lemma jtruthy_jint [simp]: "jtruthy (jint n) \<longleftrightarrow> n \<noteq> 0"
  by (simp add: jtruthy_def jint_def)

lemma isInteger_jint [simp]: "isInteger (jint n)"
  by (simp add: jint_def)

lemma isSafeInteger_jint [simp]: "isSafeInteger (jint n) \<longleftrightarrow> \<bar>n\<bar> \<le> max_safe"
  by (simp add: jint_def) (metis of_int_abs of_int_le_iff)

lemma math_max_jint [simp]: "math_max (jint m) (jint n) = jint (max m n)"
  by (simp add: math_max_def)

lemma math_min_jint [simp]: "math_min (jint m) (jint n) = jint (min m n)"
  by (simp add: math_min_def)

lemma isInteger_cases:
  assumes "isInteger a" obtains n where "a = jint n"
  using assms by (cases a) (auto simp: jint_def)

lemma isSafeInteger_cases:
  assumes "isSafeInteger a" obtains n where "a = jint n" "\<bar>n\<bar> \<le> max_safe"
proof -
  from assms have "isInteger a" by (cases a) auto
  then obtain n where "a = jint n" by (rule isInteger_cases)
  then show thesis using assms that by simp
qed

lemmas jint_arith = jint_add jint_diff jint_mult

subsection \<open>Numbers past the safe range stay past it\<close>

definition past_safe :: "jsnum \<Rightarrow> bool" where
  "past_safe a \<longleftrightarrow> (case a of JPosInf \<Rightarrow> True | JFin x \<Rightarrow> 2 ^ 53 \<le> x | _ \<Rightarrow> False)"

lemma past_safe_rnd: "2 ^ 53 \<le> x \<Longrightarrow> past_safe (rnd x)"
proof -
  assume "2 ^ 53 \<le> x"
  then have b: "2 ^ 53 \<le> round_rat x" by (rule round_rat_big)
  then have "\<not> round_rat x \<le> - (2 powi 1024)" by simp
  then show ?thesis using b by (simp add: past_safe_def rnd_def of_rounded_def)
qed

lemma past_safe_rnd_int: "2 ^ 53 \<le> n \<Longrightarrow> past_safe (rnd (of_int n))"
proof -
  assume "2 ^ 53 \<le> n"
  then have "of_int (2 ^ 53) \<le> (of_int n :: rat)" by (simp only: of_int_le_iff)
  then show ?thesis by (intro past_safe_rnd) simp
qed

lemma past_safe_times: "past_safe a \<Longrightarrow> 0 < n \<Longrightarrow> past_safe (a * jint n)"
proof (cases a)
  case (JFin x)
  assume a: "past_safe a" "0 < n"
  then have x: "2 ^ 53 \<le> x" using JFin by (simp add: past_safe_def)
  have "(1::rat) \<le> of_int n" using a(2) by simp
  then have "2 ^ 53 * 1 \<le> x * of_int n" using x by (intro mult_mono) auto
  then show ?thesis by (simp add: JFin jint_def past_safe_rnd)
qed (auto simp: past_safe_def jint_def inf_sign_def)

lemma past_safe_plus: "past_safe a \<Longrightarrow> 0 \<le> n \<Longrightarrow> past_safe (a + jint n)"
proof (cases a)
  case (JFin x)
  assume a: "past_safe a" "0 \<le> n"
  then have "2 ^ 53 \<le> x" "(0::rat) \<le> of_int n" using JFin by (simp_all add: past_safe_def)
  then have "2 ^ 53 \<le> x + of_int n" by linarith
  then show ?thesis by (simp add: JFin jint_def past_safe_rnd)
qed (auto simp: past_safe_def jint_def)

lemma past_safe_not_safe: "past_safe a \<Longrightarrow> \<not> isSafeInteger a"
  by (cases a) (auto simp: past_safe_def max_safe_def)

lemma rnd_int_cases:
  obtains "n \<le> 2 ^ 53" "0 \<le> n" "rnd (of_int n) = jint n" | "n < 0" | "past_safe (rnd (of_int n))" "2 ^ 53 < n"
  using rnd_int[of n] past_safe_rnd_int[of n] by (cases "n < 0"; cases "n \<le> 2 ^ 53") auto

end
