(* ===== verification/JsString.thy ===== *)
theory JsString
  imports JsNumber
begin

unbundle bit_operations_syntax

section \<open>JavaScript strings\<close>

text \<open>
  A JavaScript string is a sequence of 16-bit code units, and so is its model: \<open>length\<close> counts
  code units as the source's \<open>.length\<close> does, and a Chinese character is one unit. \<open>js\<close> embeds
  an ASCII literal. This theory models the string methods the sources call and the decimal
  notation of natural numbers, with the lemmas on them that the components share.
\<close>

type_synonym unit16 = "16 word"
type_synonym jsstr = "unit16 list"

definition js :: "string \<Rightarrow> jsstr" where
  "js s = map of_char s"

lemma js_append: "js (s @ t) = js s @ js t"
  by (simp add: js_def)

lemma js_Nil [simp]: "js [] = []"
  by (simp add: js_def)

lemma length_js [simp]: "length (js s) = length s"
  by (simp add: js_def)

text \<open>Two literals are the same string only if they are the same literal.\<close>

lemma js_eq_iff: "js s = js t \<longleftrightarrow> s = t"
proof -
  have "inj (of_char :: char \<Rightarrow> unit16)"
  proof (rule injI)
    fix c d :: char
    assume "(of_char c :: unit16) = of_char d"
    then have "unat (of_nat (of_char c) :: unit16) = unat (of_nat (of_char d) :: unit16)" by (simp only: of_nat_of_char)
    moreover have "(of_char e :: nat) < 2 ^ 16" for e :: char
      using nat_of_char_less_256[of e] by (rule less_trans) simp
    ultimately show "c = d" by (simp add: unat_of_nat take_bit_nat_eq_self)
  qed
  then show ?thesis by (simp add: js_def inj_map_eq_map)
qed

subsection \<open>Characters\<close>

text \<open>The white space and line terminators that \<open>trim\<close> and \<open>Number\<close> remove.\<close>

definition is_ws :: "unit16 \<Rightarrow> bool" where
  "is_ws c \<longleftrightarrow> c \<in> {0x9, 0xA, 0xB, 0xC, 0xD, 0x20, 0xA0, 0x1680, 0x2028, 0x2029, 0x202F, 0x205F,
     0x3000, 0xFEFF} \<or> 0x2000 \<le> c \<and> c \<le> 0x200A"

definition is_digit :: "unit16 \<Rightarrow> bool" where
  "is_digit c \<longleftrightarrow> 0x30 \<le> c \<and> c \<le> 0x39"

definition digit_val :: "unit16 \<Rightarrow> int" where
  "digit_val c = uint c - 48"

definition digit_char :: "int \<Rightarrow> unit16" where
  "digit_char d = word_of_int (48 + d)"

lemma uint_digit_char [simp]: "0 \<le> d \<Longrightarrow> d < 10 \<Longrightarrow> uint (digit_char d) = 48 + d"
  unfolding digit_char_def by (subst uint_word_of_int) simp

lemma digit_val_char [simp]: "0 \<le> d \<Longrightarrow> d < 10 \<Longrightarrow> digit_val (digit_char d) = d"
  by (simp add: digit_val_def)

lemma is_digit_char [simp]: "0 \<le> d \<Longrightarrow> d < 10 \<Longrightarrow> is_digit (digit_char d)"
  by (simp add: is_digit_def word_le_def)

lemma digit_val_zero [simp]: "digit_val 0x30 = 0"
  by (simp add: digit_val_def)

lemma is_digit_uint: "is_digit c \<longleftrightarrow> 48 \<le> uint c \<and> uint c \<le> 57"
  by (simp add: is_digit_def word_le_def)

lemma digit_val_bounds: "is_digit c \<Longrightarrow> 0 \<le> digit_val c \<and> digit_val c < 10"
  by (auto simp: is_digit_uint digit_val_def)

lemma is_digit_ws [simp]: "is_digit c \<Longrightarrow> \<not> is_ws c"
  by (auto simp: is_digit_def is_ws_def word_le_def)

subsection \<open>String methods\<close>

definition trim :: "jsstr \<Rightarrow> jsstr" where
  "trim s = rev (dropWhile is_ws (rev (dropWhile is_ws s)))"

definition starts_with :: "jsstr \<Rightarrow> jsstr \<Rightarrow> bool" where
  "starts_with p s \<longleftrightarrow> take (length p) s = p"

definition ends_with :: "jsstr \<Rightarrow> jsstr \<Rightarrow> bool" where
  "ends_with p s \<longleftrightarrow> starts_with (rev p) (rev s)"

definition pad_start :: "nat \<Rightarrow> unit16 \<Rightarrow> jsstr \<Rightarrow> jsstr" where
  "pad_start n c s = replicate (n - length s) c @ s"

definition pad_end :: "nat \<Rightarrow> unit16 \<Rightarrow> jsstr \<Rightarrow> jsstr" where
  "pad_end n c s = s @ replicate (n - length s) c"

fun join :: "jsstr \<Rightarrow> jsstr list \<Rightarrow> jsstr" where
  "join sep [] = []"
| "join sep [s] = s"
| "join sep (s # t # ts) = s @ sep @ join sep (t # ts)"

text \<open>\<open>s.split(sep)\<close>; with an empty separator the parts are the code units.\<close>

function split_from :: "jsstr \<Rightarrow> jsstr \<Rightarrow> jsstr \<Rightarrow> jsstr list" where
  "split_from sep acc s =
     (if s = [] \<or> sep = [] then [rev acc @ s]
      else if starts_with sep s then rev acc # split_from sep [] (drop (length sep) s)
      else split_from sep (hd s # acc) (tl s))"
  by pat_completeness auto
termination
  by (relation "measure (\<lambda>(sep, acc, s). length s)") (auto simp: starts_with_def)

declare split_from.simps [simp del]

definition js_split :: "jsstr \<Rightarrow> jsstr \<Rightarrow> jsstr list" where
  "js_split sep s = (if sep = [] then map (\<lambda>c. [c]) s else split_from sep [] s)"

lemma split_from_Nil [simp]: "split_from sep acc [] = [rev acc]"
  by (subst split_from.simps) simp

lemma split_from_match:
  "sep \<noteq> [] \<Longrightarrow> split_from sep acc (sep @ t) = rev acc # split_from sep [] t"
  by (subst split_from.simps) (auto simp: starts_with_def)

lemma split_from_skip:
  "sep \<noteq> [] \<Longrightarrow> \<not> starts_with sep (c # t) \<Longrightarrow> split_from sep acc (c # t) = split_from sep (c # acc) t"
  by (subst split_from.simps) auto

lemma split_from_acc:
  "split_from sep acc s = (case split_from sep [] s of [] \<Rightarrow> [] | p # ps \<Rightarrow> (rev acc @ p) # ps)"
proof (induction "length s" arbitrary: acc s rule: less_induct)
  case less
  show ?case
  proof (cases "s = [] \<or> sep = [] \<or> starts_with sep s")
    case True
    then show ?thesis by (subst (1 2) split_from.simps) auto
  next
    case False
    then obtain c t where s: "s = c # t" by (cases s) auto
    have "split_from sep (c # acc) t =
        (case split_from sep [] t of [] \<Rightarrow> [] | p # ps \<Rightarrow> (rev (c # acc) @ p) # ps)"
      by (rule less) (simp add: s)
    moreover have "split_from sep [c] t =
        (case split_from sep [] t of [] \<Rightarrow> [] | p # ps \<Rightarrow> (rev [c] @ p) # ps)"
      by (rule less) (simp add: s)
    ultimately show ?thesis
      using False by (simp add: s split_from_skip split: list.splits)
  qed
qed

text \<open>Splitting at a single character.\<close>

lemma split_from_char:
  "c \<notin> set s \<Longrightarrow> split_from [c] acc (s @ t) = split_from [c] (rev s @ acc) t"
  by (induction s arbitrary: acc) (auto simp: split_from_skip starts_with_def)

lemma js_split_char_none: "c \<notin> set s \<Longrightarrow> js_split [c] s = [s]"
  using split_from_char[of c s "[]" "[]"] by (simp add: js_split_def)

lemma js_split_char_some: "c \<notin> set s \<Longrightarrow> js_split [c] (s @ c # t) = s # js_split [c] t"
  using split_from_char[of c s "[]" "c # t"] split_from_match[of "[c]" "rev s" t]
  by (simp add: js_split_def)

lemma trim_id: "s = [] \<or> \<not> is_ws (hd s) \<and> \<not> is_ws (last s) \<Longrightarrow> trim s = s"
proof (cases "s = []")
  case False
  assume "s = [] \<or> \<not> is_ws (hd s) \<and> \<not> is_ws (last s)"
  with False have "\<not> is_ws (hd s)" "\<not> is_ws (hd (rev s))" by (simp_all add: hd_rev)
  then have "dropWhile is_ws s = s" "dropWhile is_ws (rev s) = rev s"
    by (metis dropWhile_eq_self_iff)+
  then show ?thesis by (simp add: trim_def)
qed (simp add: trim_def)

lemma trim_no_ws: "\<forall>c \<in> set s. \<not> is_ws c \<Longrightarrow> trim s = s"
  by (rule trim_id) (auto simp: neq_Nil_conv)

lemma set_trim: "set (trim s) \<subseteq> set s"
  unfolding trim_def by (metis set_dropWhileD set_rev subsetI)

lemma trim_ends:
  assumes "trim s \<noteq> []" shows "\<not> is_ws (hd (trim s))" and "\<not> is_ws (last (trim s))"
proof -
  let ?u = "dropWhile is_ws s"
  have t: "rev (trim s) = dropWhile is_ws (rev ?u)" by (simp add: trim_def)
  then show "\<not> is_ws (last (trim s))"
    using assms hd_dropWhile[of is_ws "rev ?u"] by (metis hd_rev rev_is_Nil_conv)
  have "rev ?u = takeWhile is_ws (rev ?u) @ rev (trim s)" by (simp add: t)
  then have "?u = trim s @ rev (takeWhile is_ws (rev ?u))"
    by (metis rev_append rev_rev_ident)
  then have "hd ?u = hd (trim s)" "?u \<noteq> []" using assms by (metis hd_append2, metis Nil_is_append_conv)
  then show "\<not> is_ws (hd (trim s))" using hd_dropWhile[of is_ws s] by metis
qed

lemma trim_idem [simp]: "trim (trim s) = trim s"
  using trim_ends[of s] trim_id[of "trim s"] by blast

lemma length_pad_start [simp]: "length (pad_start n c s) = max n (length s)"
  by (simp add: pad_start_def)

lemma pad_end_two:
  "pad_end 2 c [] = [c, c]" "pad_end 2 c [a] = [a, c]" "pad_end 2 c [a, b] = [a, b]"
  by (simp_all add: pad_end_def numeral_2_eq_2)

lemma length_pad_end [simp]: "length (pad_end n c s) = max n (length s)"
  by (simp add: pad_end_def)

subsection \<open>Decimal notation of a natural number\<close>

function dec :: "int \<Rightarrow> jsstr" where
  "dec n = (if n < 10 then [digit_char n] else dec (n div 10) @ [digit_char (n mod 10)])"
  by pat_completeness auto
termination
  by (relation "measure nat") auto

declare dec.simps [simp del]

definition undec :: "jsstr \<Rightarrow> int" where
  "undec s = foldl (\<lambda>a c. 10 * a + digit_val c) 0 s"

lemma foldl_undec:
  "foldl (\<lambda>a c. 10 * a + digit_val c) a s = a * 10 ^ length s + undec s"
proof (induction s arbitrary: a)
  case (Cons c s)
  show ?case
    using Cons[of "10 * a + digit_val c"] Cons[of "digit_val c"]
    by (simp add: undec_def algebra_simps)
qed (simp add: undec_def)

lemma undec_Nil [simp]: "undec [] = 0"
  by (simp add: undec_def)

lemma undec_append: "undec (s @ t) = undec s * 10 ^ length t + undec t"
  using foldl_undec[of "undec s" t] by (simp add: undec_def)

lemma undec_single [simp]: "undec [c] = digit_val c"
  by (simp add: undec_def)

lemma undec_Cons: "undec (c # s) = digit_val c * 10 ^ length s + undec s"
  using undec_append[of "[c]" s] by simp

lemma undec_zeros [simp]: "undec (replicate k 0x30) = 0"
  by (induction k) (auto simp: undec_Cons digit_val_def)

lemma undec_bounds: "\<forall>c \<in> set s. is_digit c \<Longrightarrow> 0 \<le> undec s \<and> undec s < 10 ^ length s"
proof (induction s)
  case (Cons c s)
  then have s: "0 \<le> undec s" "undec s < 10 ^ length s" by auto
  have c: "0 \<le> digit_val c" "digit_val c \<le> 9" using Cons.prems digit_val_bounds[of c] by auto
  then have "digit_val c * 10 ^ length s \<le> 9 * (10::int) ^ length s" by (intro mult_right_mono) auto
  moreover have "(10::int) ^ length (c # s) = 9 * 10 ^ length s + 10 ^ length s" by simp
  moreover have "0 \<le> digit_val c * (10::int) ^ length s" using c by simp
  ultimately show ?case using s unfolding undec_Cons by linarith
qed simp

lemma dec_digits: "0 \<le> n \<Longrightarrow> \<forall>c \<in> set (dec n). is_digit c"
  by (induction n rule: dec.induct) (subst dec.simps, auto)

lemma dec_nonempty [simp]: "dec n \<noteq> []"
  by (subst dec.simps) simp

lemma undec_dec [simp]: "0 \<le> n \<Longrightarrow> undec (dec n) = n"
proof (induction n rule: dec.induct)
  case (1 n)
  show ?case
  proof (cases "n < 10")
    case True
    then show ?thesis using "1.prems" by (subst dec.simps) simp
  next
    case False
    then show ?thesis using 1 by (subst dec.simps) (simp add: undec_append)
  qed
qed

lemma dec_inject: "0 \<le> m \<Longrightarrow> 0 \<le> n \<Longrightarrow> dec m = dec n \<longleftrightarrow> m = n"
  by (metis undec_dec)

lemma dec_app_digit:
  "0 < n \<Longrightarrow> 0 \<le> d \<Longrightarrow> d < 10 \<Longrightarrow> dec (10 * n + d) = dec n @ [digit_char d]"
  by (subst dec.simps) (auto simp: div_plus_div_distrib_dvd_left)

lemma dec_times_power: "0 < n \<Longrightarrow> dec (n * 10 ^ k) = dec n @ replicate k 0x30"
proof (induction k)
  case (Suc k)
  have "dec (10 * (n * 10 ^ k) + 0) = dec (n * 10 ^ k) @ [digit_char 0]"
    using Suc.prems by (intro dec_app_digit) auto
  then show ?case
    using Suc by (simp add: digit_char_def replicate_append_same algebra_simps)
qed simp

lemma length_dec: "0 < n \<Longrightarrow> length (dec n) = ndig 10 n"
proof (induction n rule: dec.induct)
  case (1 n)
  have z: "ndig 10 0 = 0" by (subst ndig.simps) simp
  have s: "ndig 10 n = Suc (ndig 10 (n div 10))" using "1.prems" by (subst ndig.simps) simp
  show ?case
  proof (cases "n < 10")
    case True
    then show ?thesis using "1.prems" by (subst dec.simps) (simp add: s z)
  next
    case False
    then show ?thesis using 1 by (subst dec.simps) (simp add: s)
  qed
qed

lemma length_dec_le: "0 \<le> n \<Longrightarrow> n < 10 ^ k \<Longrightarrow> 0 < k \<Longrightarrow> length (dec n) \<le> k"
proof (induction n arbitrary: k rule: dec.induct)
  case (1 n)
  show ?case
  proof (cases "n < 10")
    case True
    then show ?thesis using "1.prems" by (subst dec.simps) simp
  next
    case False
    then obtain j where k: "k = Suc j" "0 < j"
      using "1.prems" by (cases k; cases "k - 1") auto
    then have "n div 10 < 10 ^ j" using "1.prems" by (simp add: div_less_iff_less_mult mult.commute)
    then show ?thesis using False "1.IH"[of j] "1.prems" k by (subst dec.simps) simp
  qed
qed

lemma dec_undec:
  assumes "\<forall>c \<in> set s. is_digit c" "s \<noteq> []" "hd s \<noteq> 0x30 \<or> length s = 1"
  shows "dec (undec s) = s"
  using assms
proof (induction s rule: rev_induct)
  case (snoc c s)
  have c: "0 \<le> digit_val c" "digit_val c < 10" "digit_char (digit_val c) = c"
    using snoc.prems digit_val_bounds[of c] by (auto simp: digit_char_def digit_val_def)
  show ?case
  proof (cases s)
    case Nil
    then show ?thesis using c by (subst dec.simps) simp
  next
    case (Cons d t)
    then have hd: "d \<noteq> 0x30" "is_digit d" using snoc.prems by auto
    have IH: "dec (undec s) = s" using snoc Cons by auto
    have "uint d \<noteq> uint (0x30 :: unit16)" using hd(1) by (metis word_uint_eqI)
    then have "uint d \<noteq> 48" by simp
    then have "1 \<le> digit_val d" using hd(2) by (auto simp: is_digit_uint digit_val_def)
    then have "1 * 1 \<le> digit_val d * 10 ^ length t" by (intro mult_mono) auto
    moreover have "0 \<le> undec t" using undec_bounds[of t] snoc.prems Cons by auto
    ultimately have "0 < undec s" by (simp add: Cons undec_Cons)
    then show ?thesis using dec_app_digit c IH by (simp add: undec_append mult.commute)
  qed
qed simp

end
