(* ===== verification/JsConvert.thy ===== *)
theory JsConvert
  imports JsString
begin

section \<open>Conversions between numbers and strings\<close>

text \<open>
  The conversions of the language the sources use, as ECMAScript defines them:
  \<open>to_string\<close> is \<open>String(x)\<close> and the hole of a template literal, \<open>toFixed\<close> the method of that
  name, \<open>Number\<close> the conversion of a string, with its white space, its radix prefixes, its
  exponent and its \<open>NaN\<close>. The lemmas say what they do on the integers the program handles:
  decimal notation, exact up to \<open>2 ^ 53 - 1\<close>.
\<close>

subsection \<open>String(x)\<close>

text \<open>
  The digits of a positive \<open>x\<close>: the least \<open>k\<close> such that some \<open>k\<close>-digit \<open>s\<close> scaled to the
  magnitude of \<open>x\<close> rounds back to \<open>x\<close>. Seventeen digits always do, so the search stops there.
\<close>

definition digits_cand :: "rat \<Rightarrow> nat \<Rightarrow> int \<times> int" where
  "digits_cand x k =
     (let n = ilog 10 x + 1; s = round_half_even (x / 10 powi (n - int k))
      in if s = 10 ^ k then (10 ^ (k - 1), n + 1) else (s, n))"

fun shortest :: "rat \<Rightarrow> nat \<Rightarrow> nat \<Rightarrow> int \<times> int \<times> nat" where
  "shortest x k 0 = (let (s, n) = digits_cand x k in (s, n, k))"
| "shortest x k (Suc fuel) =
     (let (s, n) = digits_cand x k
      in if rnd (of_int s * 10 powi (n - int k)) = JFin x then (s, n, k)
         else shortest x (Suc k) fuel)"

definition format_digits :: "int \<Rightarrow> int \<Rightarrow> nat \<Rightarrow> jsstr" where
  "format_digits s n k =
     (let ds = dec s;
          e = n - 1;
          ex = js ''e'' @ (if 0 \<le> e then js ''+'' else js ''-'') @ dec \<bar>e\<bar>
      in if int k \<le> n \<and> n \<le> 21 then ds @ replicate (nat n - k) 0x30
         else if 0 < n \<and> n \<le> 21 then take (nat n) ds @ js ''.'' @ drop (nat n) ds
         else if - 6 < n \<and> n \<le> 0 then js ''0.'' @ replicate (nat (- n)) 0x30 @ ds
         else if k = 1 then ds @ ex
         else take 1 ds @ js ''.'' @ drop 1 ds @ ex)"

definition rat_to_string :: "rat \<Rightarrow> jsstr" where
  "rat_to_string x =
     (if x = 0 then js ''0''
      else let (s, n, k) = shortest \<bar>x\<bar> 1 16
           in (if x < 0 then js ''-'' else []) @ format_digits s n k)"

fun to_string :: "jsnum \<Rightarrow> jsstr" where
  "to_string JNaN = js ''NaN''"
| "to_string JPosInf = js ''Infinity''"
| "to_string JNegInf = js ''-Infinity''"
| "to_string (JFin x) = rat_to_string x"

lemma powi_le_cancel: "(10::rat) powi a < 10 powi b \<Longrightarrow> a < b"
  using power_int_increasing[of b a "10::rat"] by linarith

lemma ilog10_int: "0 < m \<Longrightarrow> ilog 10 (of_int m) + 1 = int (ndig 10 m)"
proof -
  assume m: "0 < m"
  note b = ndig_bounds[of 10 m, simplified, OF m]
  have lo: "(10::rat) powi (int (ndig 10 m) - 1) \<le> of_int m"
  proof -
    have "int (ndig 10 m) - 1 = int (ndig 10 m - 1)" using b by (simp add: of_nat_diff)
    then have "(10::rat) powi (int (ndig 10 m) - 1) = 10 ^ (ndig 10 m - 1)"
      by (simp only: power_int_of_nat)
    then have "(10::rat) powi (int (ndig 10 m) - 1) = of_int (10 ^ (ndig 10 m - 1))" by simp
    then show ?thesis using b by (simp only: of_int_le_iff One_nat_def)
  qed
  have "(of_int m :: rat) < of_int (10 ^ ndig 10 m)" using b by (simp only: of_int_less_iff)
  then have hi: "(of_int m :: rat) < 10 powi int (ndig 10 m)" by simp
  have il: "(10::rat) powi ilog 10 (of_int m) \<le> of_int m"
    "(of_int m :: rat) < 10 powi (ilog 10 (of_int m) + 1)"
    using ilog_bounds[of 10 "of_int m"] m by simp_all
  have "(10::rat) powi (int (ndig 10 m) - 1) < 10 powi (ilog 10 (of_int m) + 1)"
    "(10::rat) powi ilog 10 (of_int m) < 10 powi int (ndig 10 m)"
    using lo hi il by linarith+
  from this[THEN powi_le_cancel] show ?thesis by linarith
qed

lemma shortest_int:
  assumes m: "0 < m" "m < 2 ^ 53" and k: "0 < k" "k \<le> ndig 10 m" "ndig 10 m \<le> k + fuel"
  shows "\<exists>s k'. shortest (of_int m) k fuel = (s, int (ndig 10 m), k') \<and>
           k' \<le> ndig 10 m \<and> 0 < s \<and> m = s * 10 ^ (ndig 10 m - k')"
  using k
proof (induction fuel arbitrary: k)
  let ?D = "ndig 10 m" and ?x = "of_int m :: rat"
  have D: "ilog 10 ?x + 1 = int ?D" using ilog10_int m by simp
  have mb: "m < 10 ^ ?D" using ndig_bounds[of 10 m] m by simp
  have rm: "rnd ?x = JFin ?x"
    using rnd_int[of m] m by (simp add: jint_def)
  have last: "digits_cand ?x ?D = (m, int ?D)"
    using mb by (simp add: digits_cand_def D)
  { case 0
    then have "k = ?D" by simp
    then show ?case using last m by simp }
  { case (Suc fuel)
    obtain s n where sn: "digits_cand ?x k = (s, n)" by fastforce
    have kD: "int ?D - int k = int (?D - k)" "int ?D + 1 - int k = int (?D + 1 - k)"
      using Suc.prems by (simp_all add: of_nat_diff)
    show ?case
    proof (cases "rnd (of_int s * 10 powi (n - int k)) = JFin ?x")
      case True
      have ax: "\<bar>?x\<bar> < 2 ^ 53" using m by (metis abs_of_pos of_int_0_less_iff of_int_less_iff of_int_numeral of_int_power)
      show ?thesis
      proof (cases "n = int ?D + 1")
        case over: True
        then have s: "s = 10 ^ (k - 1)" using sn D by (auto simp: digits_cand_def Let_def split: if_splits)
        have "(of_int s :: rat) * 10 powi (n - int k) = of_int (10 ^ (k - 1) * 10 ^ (?D + 1 - k))"
          unfolding over kD(2) s by simp
        also have "\<dots> = of_int (10 ^ ?D)" using Suc.prems by (simp flip: power_add)
        finally have "rnd (of_int (10 ^ ?D)) = JFin ?x" using True by simp
        then have "?x = of_int (10 ^ ?D)" using rnd_int_exact ax by blast
        then show ?thesis using mb by (simp only: of_int_eq_iff)
      next
        case False
        then have n: "n = int ?D" using sn D by (auto simp: digits_cand_def Let_def split: if_splits)
        have "(of_int s :: rat) * 10 powi (n - int k) = of_int (s * 10 ^ (?D - k))"
          unfolding n kD(1) by simp
        from True[unfolded this] have "rnd (of_int (s * 10 ^ (?D - k))) = JFin ?x" .
        then have "?x = of_int (s * 10 ^ (?D - k))" using rnd_int_exact ax by blast
        then have ms: "m = s * 10 ^ (?D - k)" by (simp only: of_int_eq_iff)
        then have "0 < s" using m(1) by (metis zero_less_mult_pos2 zero_less_numeral zero_less_power)
        then show ?thesis using True sn n ms Suc.prems by simp
      qed
    next
      case False
      have "k \<noteq> ?D"
      proof
        assume "k = ?D"
        then have "s = m" "n = int k" using sn last by auto
        then show False using False rm by simp
      qed
      then have "\<exists>s k'. shortest ?x (Suc k) fuel = (s, int ?D, k') \<and>
           k' \<le> ?D \<and> 0 < s \<and> m = s * 10 ^ (?D - k')"
        using Suc.prems by (intro Suc.IH) auto
      then show ?thesis using False sn by simp
    qed }
qed

lemma ndig_safe: "0 < m \<Longrightarrow> m < 2 ^ 53 \<Longrightarrow> 0 < ndig 10 m \<and> ndig 10 m \<le> 16"
  using length_dec_le[of m 16] length_dec[of m] ndig_bounds[of 10 m] by simp

lemma rat_to_string_pos:
  assumes "0 < m" "m < 2 ^ 53" shows "rat_to_string (of_int m) = dec m"
proof -
  note nd = ndig_safe[OF assms]
  obtain s k where sk: "shortest (of_int m) 1 16 = (s, int (ndig 10 m), k)"
    "k \<le> ndig 10 m" "0 < s" "m = s * 10 ^ (ndig 10 m - k)"
    using shortest_int[OF assms, of 1 16] nd by auto
  have "dec m = dec s @ replicate (ndig 10 m - k) 0x30"
    using dec_times_power[OF sk(3)] sk(4) by metis
  then show ?thesis
    using sk(2) nd assms(1) by (simp add: rat_to_string_def sk(1)[unfolded One_nat_def] format_digits_def)
qed

text \<open>On a safe integer, \<open>String\<close> is decimal notation.\<close>

lemma to_string_jint:
  assumes "\<bar>m\<bar> \<le> max_safe"
  shows "to_string (jint m) = (if m < 0 then js ''-'' @ dec (- m) else dec m)"
proof -
  consider "m = 0" | "0 < m" | "m < 0" by linarith
  then show ?thesis
  proof cases
    case 1
    then show ?thesis
      by (subst dec.simps) (simp add: jint_def rat_to_string_def digit_char_def js_def)
  next
    case 2
    then show ?thesis using assms rat_to_string_pos[of m] by (simp add: jint_def max_safe_def)
  next
    case 3
    then have "rat_to_string (of_int (- m)) = dec (- m)"
      using assms by (intro rat_to_string_pos) (auto simp: max_safe_def)
    then show ?thesis using 3 by (auto simp: jint_def rat_to_string_def split: prod.splits)
  qed
qed

lemma to_string_nonneg: "0 \<le> m \<Longrightarrow> m \<le> max_safe \<Longrightarrow> to_string (jint m) = dec m"
  by (simp add: to_string_jint)

lemma to_string_inject:
  assumes "0 \<le> m" "m \<le> max_safe" "0 \<le> n" "n \<le> max_safe"
  shows "to_string (jint m) = to_string (jint n) \<longleftrightarrow> m = n"
  using assms by (simp add: to_string_nonneg dec_inject)

subsection \<open>toFixed\<close>

definition toFixed :: "nat \<Rightarrow> jsnum \<Rightarrow> jsstr" where
  "toFixed f a = (case a of
       JFin x \<Rightarrow>
         (if 10 ^ 21 \<le> \<bar>x\<bar> then to_string a
          else let m = pad_start (f + 1) 0x30 (dec \<lfloor>\<bar>x\<bar> * 10 ^ f + 1/2\<rfloor>);
                   d = length m - f
               in (if x < 0 then js ''-'' else []) @
                  (if f = 0 then m else take d m @ js ''.'' @ drop d m))
     | _ \<Rightarrow> to_string a)"

subsection \<open>Number(s)\<close>

definition radix_val :: "int \<Rightarrow> unit16 \<Rightarrow> int option" where
  "radix_val r c =
     (let v = (if is_digit c then uint c - 48
               else if 0x61 \<le> c \<and> c \<le> 0x66 then uint c - 87
               else if 0x41 \<le> c \<and> c \<le> 0x46 then uint c - 55
               else r)
      in if v < r then Some v else None)"

fun radix_parse :: "int \<Rightarrow> int \<Rightarrow> jsstr \<Rightarrow> int option" where
  "radix_parse r a [] = Some a"
| "radix_parse r a (c # s) =
     (case radix_val r c of None \<Rightarrow> None | Some v \<Rightarrow> radix_parse r (r * a + v) s)"

definition radix_number :: "int \<Rightarrow> jsstr \<Rightarrow> jsnum" where
  "radix_number r s =
     (if s = [] then JNaN
      else case radix_parse r 0 s of None \<Rightarrow> JNaN | Some n \<Rightarrow> rnd (of_int n))"

definition take_sign :: "jsstr \<Rightarrow> bool \<times> jsstr" where
  "take_sign s = (case s of
       [] \<Rightarrow> (False, [])
     | c # t \<Rightarrow> if c = 0x2D then (True, t) else if c = 0x2B then (False, t) else (False, s))"

definition parse_exponent :: "jsstr \<Rightarrow> int option" where
  "parse_exponent s = (case s of
       [] \<Rightarrow> Some 0
     | c # t \<Rightarrow>
         if c = 0x65 \<or> c = 0x45 then
           let (neg, u) = take_sign t
           in if u \<noteq> [] \<and> list_all is_digit u then Some (if neg then - undec u else undec u)
              else None
         else None)"

definition parse_unsigned :: "jsstr \<Rightarrow> rat option" where
  "parse_unsigned u =
     (let ip = takeWhile is_digit u;
          r = dropWhile is_digit u;
          dot = (r \<noteq> [] \<and> hd r = 0x2E);
          fp = (if dot then takeWhile is_digit (tl r) else []);
          rest = (if dot then dropWhile is_digit (tl r) else r)
      in if ip @ fp = [] then None
         else case parse_exponent rest of
             None \<Rightarrow> None
           | Some e \<Rightarrow> Some (of_int (undec (ip @ fp)) * 10 powi (e - int (length fp))))"

definition decimal_number :: "jsstr \<Rightarrow> jsnum" where
  "decimal_number t =
     (let (neg, u) = take_sign t
      in if u = js ''Infinity'' then (if neg then JNegInf else JPosInf)
         else case parse_unsigned u of
             None \<Rightarrow> JNaN
           | Some x \<Rightarrow> rnd (if neg then - x else x))"

definition Number :: "jsstr \<Rightarrow> jsnum" where
  "Number s =
     (let t = trim s; p = take 2 t
      in if t = [] then jint 0
         else if p = js ''0x'' \<or> p = js ''0X'' then radix_number 16 (drop 2 t)
         else if p = js ''0o'' \<or> p = js ''0O'' then radix_number 8 (drop 2 t)
         else if p = js ''0b'' \<or> p = js ''0B'' then radix_number 2 (drop 2 t)
         else decimal_number t)"

lemma Number_trim [simp]: "Number (trim s) = Number s"
  by (simp add: Number_def)

lemma Number_empty: "trim s = [] \<Longrightarrow> Number s = jint 0"
  by (simp add: Number_def)

text \<open>A string of decimal digits denotes its value, rounded.\<close>

lemma take_sign_digits: "\<forall>c \<in> set s. is_digit c \<Longrightarrow> take_sign s = (False, s)"
  by (cases s) (auto simp: take_sign_def is_digit_def)

lemma parse_unsigned_digits:
  assumes "s \<noteq> []" "\<forall>c \<in> set s. is_digit c"
  shows "parse_unsigned s = Some (of_int (undec s))"
proof -
  have e: "takeWhile is_digit s = s" "dropWhile is_digit s = []" using assms by auto
  show ?thesis using assms(1) unfolding parse_unsigned_def Let_def e by (simp add: parse_exponent_def)
qed

lemma digits_not_prefix:
  assumes "\<forall>c \<in> set s. is_digit c" "\<not> is_digit d" shows "take 2 s \<noteq> [c, d]"
  using assms by (metis in_set_takeD list.set_intros(1) list.set_intros(2))

lemma Number_digits:
  assumes "s \<noteq> []" and d: "\<forall>c \<in> set s. is_digit c"
  shows "Number s = rnd (of_int (undec s))"
proof -
  have t: "trim s = s" using d by (intro trim_no_ws) auto
  have "s \<noteq> js ''Infinity''" using d by (auto simp: js_def is_digit_def)
  moreover have "take 2 s \<noteq> js ''0x''" "take 2 s \<noteq> js ''0X''" "take 2 s \<noteq> js ''0o''"
    "take 2 s \<noteq> js ''0O''" "take 2 s \<noteq> js ''0b''" "take 2 s \<noteq> js ''0B''"
    unfolding js_def by (simp_all add: digits_not_prefix[OF d] is_digit_def)
  ultimately show ?thesis
    using assms by (simp add: Number_def t decimal_number_def take_sign_digits parse_unsigned_digits)
qed

lemma Number_digits_safe:
  assumes "s \<noteq> []" "\<forall>c \<in> set s. is_digit c" "undec s \<le> max_safe"
  shows "Number s = jint (undec s)"
  using assms undec_bounds[of s] Number_digits[of s] rnd_int[of "undec s"]
  by (simp add: max_safe_def)

text \<open>Printing a safe natural number and reading it back is the identity.\<close>

lemma Number_dec: "0 \<le> n \<Longrightarrow> n \<le> max_safe \<Longrightarrow> Number (dec n) = jint n"
  using Number_digits_safe[of "dec n"] dec_digits[of n] by simp

lemma Number_to_string: "0 \<le> n \<Longrightarrow> n \<le> max_safe \<Longrightarrow> Number (to_string (jint n)) = jint n"
  by (simp add: to_string_nonneg Number_dec)

end
