(* ===== verification/Types.thy ===== *)
theory Types
  imports JsConvert
begin

section \<open>The data exchanged with the backend (types.ts, auth/api.ts)\<close>

text \<open>
  The object types of the API as records, field by field. A record's fields carry a prefix where
  the source's name would clash between types. Numbers are doubles, identifiers of orders are
  strings, an optional or nullable field is an option.
\<close>

record product =
  prod_id :: jsnum
  prod_name :: jsstr
  prod_description :: jsstr
  price_fen :: jsnum
  prod_status :: jsnum
  prod_created_at :: jsstr
  prod_updated_at :: jsstr

datatype product_list_status = ListOnSale | ListOffSale | ListAll

record product_list =
  pl_products :: "product list"
  pl_total :: jsnum
  pl_page :: jsnum
  pl_page_size :: jsnum

record inventory =
  inv_id :: jsnum
  inv_product_id :: jsnum
  inv_stock_quantity :: jsnum
  inv_created_at :: jsstr
  inv_updated_at :: jsstr

record rebuild_result =
  rebuild_count :: jsnum

record reconcile_item =
  ri_product_id :: jsnum
  mysql_quantity :: jsnum
  redis_quantity :: "jsnum option"
  ri_status :: jsstr

record reconcile_result =
  checked_count :: jsnum
  diff_count :: jsnum
  rec_items :: "reconcile_item list"

record stock_log =
  sl_id :: jsnum
  sl_product_id :: jsnum
  change_quantity :: jsnum
  before_quantity :: jsnum
  after_quantity :: jsnum
  biz_type :: jsnum
  biz_id :: "jsstr option"
  remark :: jsstr
  sl_created_at :: jsstr

record operation_log =
  ol_id :: jsnum
  ol_user_id :: jsnum
  ol_username :: jsstr
  ol_action :: jsstr
  ol_method :: jsstr
  ol_path :: jsstr
  ol_route :: jsstr
  http_status :: jsnum
  request_id :: jsstr
  client_ip :: jsstr
  user_agent :: jsstr
  ol_created_at :: jsstr

record operation_log_list =
  operation_logs :: "operation_log list"
  oll_total :: jsnum
  oll_page :: jsnum
  oll_page_size :: jsnum

record order =
  ord_id :: jsstr
  order_no :: jsstr
  total_amount_fen :: jsnum
  ord_status :: jsnum
  paid_at :: "jsstr option"
  completed_at :: "jsstr option"
  cancelled_at :: "jsstr option"
  ord_created_at :: jsstr
  ord_updated_at :: jsstr

record order_item =
  oi_id :: jsnum
  oi_order_id :: jsstr
  oi_product_id :: jsnum
  oi_product_name :: jsstr
  oi_product_price_fen :: jsnum
  oi_quantity :: jsnum
  subtotal_fen :: jsnum
  oi_created_at :: jsstr

record order_detail =
  det_order :: order
  det_items :: "order_item list"

record order_list =
  ol_orders :: "order list"
  ol_total :: jsnum
  ol_page :: jsnum
  ol_page_size :: jsnum

subsection \<open>Payloads of the requests\<close>

record create_product_payload =
  cp_name :: jsstr
  cp_description :: jsstr
  cp_price_fen :: jsnum

record init_inventory_payload =
  init_product_id :: jsnum
  init_stock_quantity :: jsnum

record add_inventory_payload =
  add_product_id :: jsnum
  add_quantity :: jsnum

record payload_item =
  pi_product_id :: jsnum
  pi_quantity :: jsnum

record create_order_payload =
  cop_items :: "payload_item list"

subsection \<open>Users\<close>

record auth_user =
  user_id :: jsnum
  username :: jsstr
  nickname :: jsstr
  user_status :: jsnum
  last_login_at :: "jsstr option"
  roles :: "jsstr list"

record login_result =
  access_token :: jsstr
  login_user :: auth_user

end
