(* ===== verification/Json.thy ===== *)
theory Json
  imports JsConvert
begin

section \<open>JSON values and their text\<close>

text \<open>
  The values \<open>JSON.parse\<close> returns, and the part of \<open>JSON.stringify\<close> the sources use: numbers,
  flat objects of numbers and lists of them.
\<close>

datatype json =
  JNull
| JBool bool
| JNum jsnum
| JStr jsstr
| JArr "json list"
| JObj "(jsstr \<times> json) list"

fun json_field :: "jsstr \<Rightarrow> json \<Rightarrow> json option" where
  "json_field k (JObj fs) = map_of (rev fs) k"
| "json_field k _ = None"

text \<open>\<open>JSON.stringify\<close> of a number: a number that is not finite becomes \<open>null\<close>.\<close>

fun stringify_number :: "jsnum \<Rightarrow> jsstr" where
  "stringify_number (JFin x) = to_string (JFin x)"
| "stringify_number _ = js ''null''"

definition quote_key :: "jsstr \<Rightarrow> jsstr" where
  "quote_key k = 0x22 # k @ [0x22]"

text \<open>An object of numbers, with keys that need no escape.\<close>

definition stringify_object :: "(jsstr \<times> jsnum) list \<Rightarrow> jsstr" where
  "stringify_object fs =
     js ''{'' @ join (js '','') (map (\<lambda>(k, v). quote_key k @ js '':'' @ stringify_number v) fs) @ js ''}''"

definition stringify_array :: "jsstr list \<Rightarrow> jsstr" where
  "stringify_array ps = js ''['' @ join (js '','') ps @ js '']''"

lemma join_snoc_nonempty: "zs \<noteq> [] \<Longrightarrow> join sep (map (\<lambda>x. g x @ [c]) zs) \<noteq> []"
  by (cases zs; cases "tl zs") auto

text \<open>
  A joined list of parts is read back in one way only when every part ends with a character that
  occurs nowhere else in it.
\<close>

lemma join_inject:
  assumes "join sep (map (\<lambda>x. g x @ [c]) xs) = join sep (map (\<lambda>x. g x @ [c]) ys)"
    and "\<forall>x \<in> set xs \<union> set ys. c \<notin> set (g x)"
    and "inj_on g (set xs \<union> set ys)"
  shows "xs = ys"
  using assms
proof (induction xs arbitrary: ys)
  case Nil
  then show ?case by (cases ys; cases "tl ys") auto
next
  case (Cons x xs)
  define tail where "tail zs = (if zs = [] then [] else sep @ join sep (map (\<lambda>x. g x @ [c]) zs))" for zs
  have unf: "join sep (map (\<lambda>x. g x @ [c]) (z # zs)) = g z @ c # tail zs" for z zs
    by (cases zs) (auto simp: tail_def)
  obtain y ys' where ys: "ys = y # ys'"
    using Cons.prems(1) unf[of x xs] by (cases ys) auto
  have eq: "g x @ c # tail xs = g y @ c # tail ys'"
    using Cons.prems(1) by (simp only: ys unf)
  have xy: "g x = g y" and tl: "tail xs = tail ys'"
    using append_sep_cancel[OF eq] Cons.prems(2) ys by auto
  have "x \<in> set (x # xs) \<union> set ys" "y \<in> set (x # xs) \<union> set ys" by (simp_all add: ys)
  then have "x = y" using inj_onD[OF Cons.prems(3) xy] by blast
  have te: "tail zs = [] \<longleftrightarrow> zs = []" for zs
    using join_snoc_nonempty[of zs sep g c] by (auto simp: tail_def)
  have "xs = ys'"
  proof (cases "xs = [] \<or> ys' = []")
    case True
    then show ?thesis using tl te by metis
  next
    case False
    then have "join sep (map (\<lambda>x. g x @ [c]) xs) = join sep (map (\<lambda>x. g x @ [c]) ys')"
      using tl by (simp add: tail_def)
    then show ?thesis using Cons.prems ys by (intro Cons.IH) (auto simp: inj_on_def)
  qed
  with \<open>x = y\<close> show ?case by (simp add: ys)
qed

end
