(* ===== verification/Texts.thy ===== *)
theory Texts
  imports JsString
begin

section \<open>Texts of the user interface\<close>

text \<open>
  The Chinese literals of the sources, as the sequences of UTF-16 code units they are at run time,
  each with its meaning in English. A text that the source writes as a template literal is split at
  its holes; the definitions that use the parts put them together again.
\<close>

definition txt_yen :: jsstr where [text_defs]:
  "txt_yen =
   [0xA5]"  \<comment> \<open>the yen sign\<close>

definition txt_on_sale :: jsstr where [text_defs]:
  "txt_on_sale =
   [0x5DF2, 0x4E0A, 0x67B6]"  \<comment> \<open>on sale\<close>

definition txt_off_sale :: jsstr where [text_defs]:
  "txt_off_sale =
   [0x5DF2, 0x4E0B, 0x67B6]"  \<comment> \<open>off sale\<close>

definition txt_unknown_status :: jsstr where [text_defs]:
  "txt_unknown_status =
   [0x672A, 0x77E5, 0x72B6, 0x6001, 0x20]"  \<comment> \<open>unknown status\<close>

definition txt_pending :: jsstr where [text_defs]:
  "txt_pending =
   [0x5F85, 0x652F, 0x4ED8]"  \<comment> \<open>awaiting payment\<close>

definition txt_paid :: jsstr where [text_defs]:
  "txt_paid =
   [0x5DF2, 0x652F, 0x4ED8]"  \<comment> \<open>paid\<close>

definition txt_finished :: jsstr where [text_defs]:
  "txt_finished =
   [0x5DF2, 0x5B8C, 0x6210]"  \<comment> \<open>finished\<close>

definition txt_cancelled :: jsstr where [text_defs]:
  "txt_cancelled =
   [0x5DF2, 0x53D6, 0x6D88]"  \<comment> \<open>cancelled\<close>

definition txt_biz_init :: jsstr where [text_defs]:
  "txt_biz_init =
   [0x521D, 0x59CB, 0x5316, 0x5E93, 0x5B58]"  \<comment> \<open>initial stock\<close>

definition txt_biz_manual_add :: jsstr where [text_defs]:
  "txt_biz_manual_add =
   [0x624B, 0x52A8, 0x5165, 0x5E93]"  \<comment> \<open>manual restock\<close>

definition txt_biz_deduct :: jsstr where [text_defs]:
  "txt_biz_deduct =
   [0x4E0B, 0x5355, 0x6263, 0x51CF]"  \<comment> \<open>deducted by an order\<close>

definition txt_biz_rollback :: jsstr where [text_defs]:
  "txt_biz_rollback =
   [0x53D6, 0x6D88, 0x56DE, 0x6EDA]"  \<comment> \<open>rolled back by a cancellation\<close>

definition txt_unknown_type :: jsstr where [text_defs]:
  "txt_unknown_type =
   [0x672A, 0x77E5, 0x7C7B, 0x578B, 0x20]"  \<comment> \<open>unknown type\<close>

definition txt_req_failed :: jsstr where [text_defs]:
  "txt_req_failed =
   [0x8BF7, 0x6C42, 0x5931, 0x8D25]"  \<comment> \<open>request failed\<close>

definition txt_req_failed_retry :: jsstr where [text_defs]:
  "txt_req_failed_retry =
   [0x8BF7, 0x6C42, 0x5931, 0x8D25, 0xFF0C, 0x8BF7, 0x7A0D, 0x540E, 0x91CD, 0x8BD5]"  \<comment> \<open>request failed, try again later\<close>

definition txt_pay :: jsstr where [text_defs]:
  "txt_pay =
   [0x652F, 0x4ED8]"  \<comment> \<open>pay\<close>

definition txt_finish :: jsstr where [text_defs]:
  "txt_finish =
   [0x5B8C, 0x6210]"  \<comment> \<open>finish\<close>

definition txt_cancel :: jsstr where [text_defs]:
  "txt_cancel =
   [0x53D6, 0x6D88]"  \<comment> \<open>cancel\<close>

definition txt_order_created :: jsstr where [text_defs]:
  "txt_order_created =
   [0x8BA2, 0x5355, 0x521B, 0x5EFA, 0x6210, 0x529F, 0xFF1A]"  \<comment> \<open>order created:\<close>

definition txt_order :: jsstr where [text_defs]:
  "txt_order =
   [0x8BA2, 0x5355]"  \<comment> \<open>order\<close>

definition txt_success :: jsstr where [text_defs]:
  "txt_success =
   [0x6210, 0x529F]"  \<comment> \<open>succeeded\<close>

definition txt_items_invalid :: jsstr where [text_defs]:
  "txt_items_invalid =
   [0x8BF7, 0x9009, 0x62E9, 0x5546, 0x54C1, 0x5E76, 0x586B, 0x5199, 0x6B63, 0x6574, 0x6570,
    0x6570, 0x91CF]"  \<comment> \<open>choose a product and a positive whole quantity\<close>

definition txt_items_duplicate :: jsstr where [text_defs]:
  "txt_items_duplicate =
   [0x540C, 0x4E00, 0x5546, 0x54C1, 0x8BF7, 0x5408, 0x5E76, 0x4E3A, 0x4E00, 0x884C]"  \<comment> \<open>merge the rows of one product\<close>

definition txt_key_failed :: jsstr where [text_defs]:
  "txt_key_failed =
   [0x751F, 0x6210, 0x5E42, 0x7B49, 0x952E, 0x5931, 0x8D25, 0xFF0C, 0x8BF7, 0x91CD, 0x8BD5]"  \<comment> \<open>could not generate the idempotency key\<close>

definition txt_orders_title :: jsstr where [text_defs]:
  "txt_orders_title =
   [0x8BA2, 0x5355, 0x7BA1, 0x7406]"  \<comment> \<open>order management\<close>

definition txt_orders_desc :: jsstr where [text_defs]:
  "txt_orders_desc =
   [0x8986, 0x76D6, 0x521B, 0x5EFA, 0x8BA2, 0x5355, 0x3001, 0x8BA2, 0x5355, 0x5217, 0x8868,
    0x3001, 0x8BE6, 0x60C5, 0x3001, 0x652F, 0x4ED8, 0x3001, 0x5B8C, 0x6210, 0x548C, 0x53D6,
    0x6D88, 0x63A5, 0x53E3, 0x3002]"  \<comment> \<open>covers the order interfaces\<close>

definition txt_create_order :: jsstr where [text_defs]:
  "txt_create_order =
   [0x521B, 0x5EFA, 0x8BA2, 0x5355]"  \<comment> \<open>create order\<close>

definition txt_create_order_desc :: jsstr where [text_defs]:
  "txt_create_order_desc =
   [0x4EC5, 0x53EF, 0x9009, 0x62E9, 0x5DF2, 0x4E0A, 0x67B6, 0x5546, 0x54C1, 0xFF0C, 0x6700,
    0x7EC8, 0x91D1, 0x989D, 0x548C, 0x5E93, 0x5B58, 0x4EE5, 0x670D, 0x52A1, 0x7AEF, 0x6821,
    0x9A8C, 0x4E3A, 0x51C6, 0x3002]"  \<comment> \<open>only products on sale can be chosen\<close>

definition txt_product :: jsstr where [text_defs]:
  "txt_product =
   [0x5546, 0x54C1]"  \<comment> \<open>product\<close>

definition txt_select_product :: jsstr where [text_defs]:
  "txt_select_product =
   [0x8BF7, 0x9009, 0x62E9, 0x5546, 0x54C1]"  \<comment> \<open>choose a product\<close>

definition txt_products_loading :: jsstr where [text_defs]:
  "txt_products_loading =
   [0x5546, 0x54C1, 0x52A0, 0x8F7D, 0x4E2D, 0x2026]"  \<comment> \<open>products are loading\<close>

definition txt_no_products_on_sale :: jsstr where [text_defs]:
  "txt_no_products_on_sale =
   [0x6682, 0x65E0, 0x5DF2, 0x4E0A, 0x67B6, 0x5546, 0x54C1]"  \<comment> \<open>no product on sale\<close>

definition txt_dot_sep :: jsstr where [text_defs]:
  "txt_dot_sep =
   [0x20, 0xB7, 0x20]"  \<comment> \<open>separator dot\<close>

definition txt_quantity :: jsstr where [text_defs]:
  "txt_quantity =
   [0x6570, 0x91CF]"  \<comment> \<open>quantity\<close>

definition txt_remove_row :: jsstr where [text_defs]:
  "txt_remove_row =
   [0x5220, 0x9664, 0x5546, 0x54C1, 0x884C]"  \<comment> \<open>remove the row\<close>

definition txt_estimated :: jsstr where [text_defs]:
  "txt_estimated =
   [0x9884, 0x8BA1, 0x91D1, 0x989D, 0xFF1A]"  \<comment> \<open>estimated amount:\<close>

definition txt_add_product :: jsstr where [text_defs]:
  "txt_add_product =
   [0x6DFB, 0x52A0, 0x5546, 0x54C1]"  \<comment> \<open>add a product\<close>

definition txt_clear_form :: jsstr where [text_defs]:
  "txt_clear_form =
   [0x6E05, 0x7A7A]"  \<comment> \<open>clear\<close>

definition txt_submit_order :: jsstr where [text_defs]:
  "txt_submit_order =
   [0x63D0, 0x4EA4, 0x8BA2, 0x5355]"  \<comment> \<open>submit the order\<close>

definition txt_order_detail :: jsstr where [text_defs]:
  "txt_order_detail =
   [0x8BA2, 0x5355, 0x8BE6, 0x60C5]"  \<comment> \<open>order detail\<close>

definition txt_order_detail_desc :: jsstr where [text_defs]:
  "txt_order_detail_desc =
   [0x4ECE, 0x8BA2, 0x5355, 0x5217, 0x8868, 0x9009, 0x62E9, 0x540E, 0x67E5, 0x770B, 0x5546,
    0x54C1, 0x5FEB, 0x7167, 0x548C, 0x72B6, 0x6001, 0x3002]"  \<comment> \<open>choose from the order list\<close>

definition txt_unit_price :: jsstr where [text_defs]:
  "txt_unit_price =
   [0x5355, 0x4EF7]"  \<comment> \<open>unit price\<close>

definition txt_subtotal :: jsstr where [text_defs]:
  "txt_subtotal =
   [0x5C0F, 0x8BA1]"  \<comment> \<open>subtotal\<close>

definition txt_detail_loading :: jsstr where [text_defs]:
  "txt_detail_loading =
   [0x6B63, 0x5728, 0x52A0, 0x8F7D, 0x8BA2, 0x5355, 0x8BE6, 0x60C5, 0x2026]"  \<comment> \<open>loading the order detail\<close>

definition txt_choose_order :: jsstr where [text_defs]:
  "txt_choose_order =
   [0x8BF7, 0x4ECE, 0x8BA2, 0x5355, 0x5217, 0x8868, 0x9009, 0x62E9, 0x8BA2, 0x5355, 0x3002]"  \<comment> \<open>choose an order from the list\<close>

definition txt_order_list :: jsstr where [text_defs]:
  "txt_order_list =
   [0x8BA2, 0x5355, 0x5217, 0x8868]"  \<comment> \<open>order list\<close>

definition txt_order_list_desc :: jsstr where [text_defs]:
  "txt_order_list_desc =
   [0x6309, 0x540E, 0x7AEF, 0x8FD4, 0x56DE, 0x987A, 0x5E8F, 0x5C55, 0x793A, 0x8BA2, 0x5355,
    0xFF0C, 0x652F, 0x6301, 0x72B6, 0x6001, 0x6D41, 0x8F6C, 0x64CD, 0x4F5C, 0x3002]"  \<comment> \<open>orders in the order the backend returns\<close>

definition txt_order_no :: jsstr where [text_defs]:
  "txt_order_no =
   [0x8BA2, 0x5355, 0x53F7]"  \<comment> \<open>order number\<close>

definition txt_amount :: jsstr where [text_defs]:
  "txt_amount =
   [0x91D1, 0x989D]"  \<comment> \<open>amount\<close>

definition txt_status :: jsstr where [text_defs]:
  "txt_status =
   [0x72B6, 0x6001]"  \<comment> \<open>status\<close>

definition txt_created_at :: jsstr where [text_defs]:
  "txt_created_at =
   [0x521B, 0x5EFA, 0x65F6, 0x95F4]"  \<comment> \<open>created at\<close>

definition txt_operations :: jsstr where [text_defs]:
  "txt_operations =
   [0x64CD, 0x4F5C]"  \<comment> \<open>operations\<close>

definition txt_detail :: jsstr where [text_defs]:
  "txt_detail =
   [0x8BE6, 0x60C5]"  \<comment> \<open>detail\<close>

definition txt_no_orders :: jsstr where [text_defs]:
  "txt_no_orders =
   [0x6682, 0x65E0, 0x8BA2, 0x5355, 0x6570, 0x636E]"  \<comment> \<open>no orders\<close>

definition txt_total_prefix :: jsstr where [text_defs]:
  "txt_total_prefix =
   [0x5171, 0x20]"  \<comment> \<open>in all\<close>

definition txt_total_middle :: jsstr where [text_defs]:
  "txt_total_middle =
   [0x20, 0x6761, 0xFF0C, 0x7B2C, 0x20]"  \<comment> \<open>entries, page\<close>

definition txt_total_suffix :: jsstr where [text_defs]:
  "txt_total_suffix =
   [0x20, 0x9875]"  \<comment> \<open>of pages\<close>

definition txt_prev_page :: jsstr where [text_defs]:
  "txt_prev_page =
   [0x4E0A, 0x4E00, 0x9875]"  \<comment> \<open>previous page\<close>

definition txt_next_page :: jsstr where [text_defs]:
  "txt_next_page =
   [0x4E0B, 0x4E00, 0x9875]"  \<comment> \<open>next page\<close>

definition txt_confirm_cancel_title :: jsstr where [text_defs]:
  "txt_confirm_cancel_title =
   [0x786E, 0x8BA4, 0x53D6, 0x6D88, 0x8BA2, 0x5355]"  \<comment> \<open>confirm cancelling the order\<close>

definition txt_confirm_finish_title :: jsstr where [text_defs]:
  "txt_confirm_finish_title =
   [0x786E, 0x8BA4, 0x5B8C, 0x6210, 0x8BA2, 0x5355]"  \<comment> \<open>confirm finishing the order\<close>

definition txt_cancel_desc_prefix :: jsstr where [text_defs]:
  "txt_cancel_desc_prefix =
   [0x53D6, 0x6D88, 0x8BA2, 0x5355, 0x20]"  \<comment> \<open>cancelling order\<close>

definition txt_cancel_desc_suffix :: jsstr where [text_defs]:
  "txt_cancel_desc_suffix =
   [0x20, 0x540E, 0x5C06, 0x56DE, 0x6EDA, 0x5BF9, 0x5E94, 0x5E93, 0x5B58, 0x3002]"  \<comment> \<open>rolls its stock back\<close>

definition txt_finish_desc_prefix :: jsstr where [text_defs]:
  "txt_finish_desc_prefix =
   [0x8BA2, 0x5355, 0x20]"  \<comment> \<open>order\<close>

definition txt_finish_desc_suffix :: jsstr where [text_defs]:
  "txt_finish_desc_suffix =
   [0x20, 0x5B8C, 0x6210, 0x540E, 0x4E0D, 0x80FD, 0x518D, 0x53D8, 0x66F4, 0x72B6, 0x6001,
    0x3002]"  \<comment> \<open>cannot change once finished\<close>

definition txt_go_back :: jsstr where [text_defs]:
  "txt_go_back =
   [0x8FD4, 0x56DE]"  \<comment> \<open>back\<close>

definition txt_confirm_cancel :: jsstr where [text_defs]:
  "txt_confirm_cancel =
   [0x786E, 0x8BA4, 0x53D6, 0x6D88]"  \<comment> \<open>confirm cancel\<close>

definition txt_confirm_finish :: jsstr where [text_defs]:
  "txt_confirm_finish =
   [0x786E, 0x8BA4, 0x5B8C, 0x6210]"  \<comment> \<open>confirm finish\<close>

definition txt_system_name :: jsstr where [text_defs]:
  "txt_system_name =
   [0x8BA2, 0x5355, 0x5E93, 0x5B58, 0x7CFB, 0x7EDF]"  \<comment> \<open>order inventory system\<close>

definition txt_loading :: jsstr where [text_defs]:
  "txt_loading =
   [0x52A0, 0x8F7D, 0x4E2D]"  \<comment> \<open>loading\<close>

definition txt_detail_updated :: jsstr where [text_defs]:
  "txt_detail_updated =
   [0x5546, 0x54C1, 0x8BE6, 0x60C5, 0x5DF2, 0x66F4, 0x65B0]"  \<comment> \<open>product detail updated\<close>

definition txt_product_created :: jsstr where [text_defs]:
  "txt_product_created =
   [0x5546, 0x54C1, 0x521B, 0x5EFA, 0x6210, 0x529F]"  \<comment> \<open>product created\<close>

definition txt_now_on_sale :: jsstr where [text_defs]:
  "txt_now_on_sale =
   [0x5546, 0x54C1, 0x5DF2, 0x4E0A, 0x67B6]"  \<comment> \<open>product is on sale\<close>

definition txt_now_off_sale :: jsstr where [text_defs]:
  "txt_now_off_sale =
   [0x5546, 0x54C1, 0x5DF2, 0x4E0B, 0x67B6]"  \<comment> \<open>product is off sale\<close>

definition txt_name_empty :: jsstr where [text_defs]:
  "txt_name_empty =
   [0x5546, 0x54C1, 0x540D, 0x79F0, 0x4E0D, 0x80FD, 0x4E3A, 0x7A7A]"  \<comment> \<open>the product name must not be empty\<close>

definition txt_price_invalid :: jsstr where [text_defs]:
  "txt_price_invalid =
   [0x5546, 0x54C1, 0x4EF7, 0x683C, 0x5FC5, 0x987B, 0x662F, 0x6700, 0x591A, 0x4E24, 0x4F4D,
    0x5C0F, 0x6570, 0x7684, 0x6B63, 0x6570]"  \<comment> \<open>the price must be positive with at most two decimals\<close>

definition txt_products_title :: jsstr where [text_defs]:
  "txt_products_title =
   [0x5546, 0x54C1, 0x7BA1, 0x7406]"  \<comment> \<open>product management\<close>

definition txt_products_desc :: jsstr where [text_defs]:
  "txt_products_desc =
   [0x521B, 0x5EFA, 0x5546, 0x54C1, 0x5E76, 0x5B8C, 0x6210, 0x5E93, 0x5B58, 0x51C6, 0x5907,
    0x3001, 0x4E0A, 0x67B6, 0x548C, 0x4E0B, 0x67B6, 0x7BA1, 0x7406, 0x3002]"  \<comment> \<open>create products, prepare stock, put on and off sale\<close>

definition txt_create_product :: jsstr where [text_defs]:
  "txt_create_product =
   [0x521B, 0x5EFA, 0x5546, 0x54C1]"  \<comment> \<open>create product\<close>

definition txt_create_product_desc :: jsstr where [text_defs]:
  "txt_create_product_desc =
   [0x65B0, 0x5546, 0x54C1, 0x9ED8, 0x8BA4, 0x4E0B, 0x67B6, 0xFF0C, 0x5B8C, 0x6210, 0x5E93,
    0x5B58, 0x521D, 0x59CB, 0x5316, 0x540E, 0x518D, 0x4E0A, 0x67B6, 0x3002]"  \<comment> \<open>new products are off sale\<close>

definition txt_product_name :: jsstr where [text_defs]:
  "txt_product_name =
   [0x5546, 0x54C1, 0x540D, 0x79F0]"  \<comment> \<open>product name\<close>

definition txt_name_example :: jsstr where [text_defs]:
  "txt_name_example =
   [0x4F8B, 0xFF1A, 0x673A, 0x68B0, 0x952E, 0x76D8]"  \<comment> \<open>for example: mechanical keyboard\<close>

definition txt_price_label :: jsstr where [text_defs]:
  "txt_price_label =
   [0x4EF7, 0x683C, 0xFF08, 0x5143, 0xFF09]"  \<comment> \<open>price in yuan\<close>

definition txt_product_description :: jsstr where [text_defs]:
  "txt_product_description =
   [0x5546, 0x54C1, 0x63CF, 0x8FF0]"  \<comment> \<open>product description\<close>

definition txt_description_hint :: jsstr where [text_defs]:
  "txt_description_hint =
   [0x53EF, 0x9009, 0xFF0C, 0x6700, 0x591A, 0x20, 0x35, 0x30, 0x30, 0x20, 0x5B57]"  \<comment> \<open>optional, at most 500 characters\<close>

definition txt_product_detail :: jsstr where [text_defs]:
  "txt_product_detail =
   [0x5546, 0x54C1, 0x8BE6, 0x60C5]"  \<comment> \<open>product detail\<close>

definition txt_product_detail_desc :: jsstr where [text_defs]:
  "txt_product_detail_desc =
   [0x4ECE, 0x53F3, 0x4FA7, 0x5217, 0x8868, 0x9009, 0x62E9, 0x5546, 0x54C1, 0x540E, 0x67E5,
    0x770B, 0x5E76, 0x6267, 0x884C, 0x72B6, 0x6001, 0x64CD, 0x4F5C, 0x3002]"  \<comment> \<open>choose a product from the list\<close>

definition txt_no_description :: jsstr where [text_defs]:
  "txt_no_description =
   [0x6682, 0x65E0, 0x63CF, 0x8FF0]"  \<comment> \<open>no description\<close>

definition txt_put_on_sale :: jsstr where [text_defs]:
  "txt_put_on_sale =
   [0x4E0A, 0x67B6]"  \<comment> \<open>put on sale\<close>

definition txt_take_off_sale :: jsstr where [text_defs]:
  "txt_take_off_sale =
   [0x4E0B, 0x67B6]"  \<comment> \<open>take off sale\<close>

definition txt_choose_product :: jsstr where [text_defs]:
  "txt_choose_product =
   [0x8BF7, 0x4ECE, 0x5546, 0x54C1, 0x5217, 0x8868, 0x9009, 0x62E9, 0x4E00, 0x9879, 0x3002]"  \<comment> \<open>choose one from the product list\<close>

definition txt_product_list_title :: jsstr where [text_defs]:
  "txt_product_list_title =
   [0x5546, 0x54C1, 0x5217, 0x8868]"  \<comment> \<open>product list\<close>

definition txt_product_list_desc :: jsstr where [text_defs]:
  "txt_product_list_desc =
   [0x5C55, 0x793A, 0x5168, 0x90E8, 0x5546, 0x54C1, 0xFF0C, 0x53EF, 0x76F4, 0x63A5, 0x67E5,
    0x770B, 0x8BE6, 0x60C5, 0x6216, 0x8C03, 0x6574, 0x4E0A, 0x4E0B, 0x67B6, 0x72B6, 0x6001,
    0x3002]"  \<comment> \<open>all products\<close>

definition txt_name_col :: jsstr where [text_defs]:
  "txt_name_col =
   [0x540D, 0x79F0]"  \<comment> \<open>name\<close>

definition txt_price :: jsstr where [text_defs]:
  "txt_price =
   [0x4EF7, 0x683C]"  \<comment> \<open>price\<close>

definition txt_updated_at :: jsstr where [text_defs]:
  "txt_updated_at =
   [0x66F4, 0x65B0, 0x65F6, 0x95F4]"  \<comment> \<open>updated at\<close>

definition txt_no_products :: jsstr where [text_defs]:
  "txt_no_products =
   [0x6682, 0x65E0, 0x5546, 0x54C1]"  \<comment> \<open>no products\<close>

definition txt_stock_updated :: jsstr where [text_defs]:
  "txt_stock_updated =
   [0x5E93, 0x5B58, 0x4FE1, 0x606F, 0x5DF2, 0x66F4, 0x65B0]"  \<comment> \<open>stock information updated\<close>

definition txt_init_done :: jsstr where [text_defs]:
  "txt_init_done =
   [0x5E93, 0x5B58, 0x521D, 0x59CB, 0x5316, 0x6210, 0x529F]"  \<comment> \<open>stock initialised\<close>

definition txt_add_done :: jsstr where [text_defs]:
  "txt_add_done =
   [0x5E93, 0x5B58, 0x589E, 0x52A0, 0x6210, 0x529F]"  \<comment> \<open>stock added\<close>

definition txt_rebuild_done_prefix :: jsstr where [text_defs]:
  "txt_rebuild_done_prefix =
   [0x52, 0x65, 0x64, 0x69, 0x73, 0x20, 0x5E93, 0x5B58, 0x5DF2, 0x91CD, 0x5EFA, 0xFF1A]"  \<comment> \<open>Redis stock rebuilt:\<close>

definition txt_entries_suffix :: jsstr where [text_defs]:
  "txt_entries_suffix =
   [0x20, 0x6761]"  \<comment> \<open>entries\<close>

definition txt_reconcile_done_prefix :: jsstr where [text_defs]:
  "txt_reconcile_done_prefix =
   [0x52, 0x65, 0x64, 0x69, 0x73, 0x20, 0x5E93, 0x5B58, 0x5BF9, 0x8D26, 0x5B8C, 0x6210, 0xFF1A]"  \<comment> \<open>Redis reconciliation done:\<close>

definition txt_diffs_suffix :: jsstr where [text_defs]:
  "txt_diffs_suffix =
   [0x20, 0x6761, 0x5DEE, 0x5F02]"  \<comment> \<open>differences\<close>

definition txt_must_be_positive :: jsstr where [text_defs]:
  "txt_must_be_positive =
   [0x20, 0x5FC5, 0x987B, 0x662F, 0x5927, 0x4E8E, 0x20, 0x30, 0x20, 0x7684, 0x6574, 0x6570]"  \<comment> \<open>must be an integer above 0\<close>

definition txt_init_invalid :: jsstr where [text_defs]:
  "txt_init_invalid =
   [0x521D, 0x59CB, 0x5E93, 0x5B58, 0x5FC5, 0x987B, 0x662F, 0x5927, 0x4E8E, 0x7B49, 0x4E8E,
    0x20, 0x30, 0x20, 0x7684, 0x6574, 0x6570]"  \<comment> \<open>the initial stock must be an integer of at least 0\<close>

definition txt_add_quantity_label :: jsstr where [text_defs]:
  "txt_add_quantity_label =
   [0x5165, 0x5E93, 0x6570, 0x91CF]"  \<comment> \<open>quantity to add\<close>

definition txt_inventory_title :: jsstr where [text_defs]:
  "txt_inventory_title =
   [0x5E93, 0x5B58, 0x7BA1, 0x7406]"  \<comment> \<open>inventory management\<close>

definition txt_inventory_desc :: jsstr where [text_defs]:
  "txt_inventory_desc =
   [0x9009, 0x62E9, 0x5546, 0x54C1, 0x540E, 0x521D, 0x59CB, 0x5316, 0x6216, 0x589E, 0x52A0,
    0x5E93, 0x5B58, 0xFF0C, 0x5E76, 0x5373, 0x65F6, 0x67E5, 0x770B, 0x5E93, 0x5B58, 0x7ED3,
    0x679C, 0x3002]"  \<comment> \<open>initialise or add stock\<close>

definition txt_init_title :: jsstr where [text_defs]:
  "txt_init_title =
   [0x521D, 0x59CB, 0x5316, 0x5E93, 0x5B58]"  \<comment> \<open>initialise stock\<close>

definition txt_init_desc :: jsstr where [text_defs]:
  "txt_init_desc =
   [0x6BCF, 0x4E2A, 0x5546, 0x54C1, 0x53EA, 0x80FD, 0x521D, 0x59CB, 0x5316, 0x4E00, 0x6B21,
    0x5E93, 0x5B58, 0x3002]"  \<comment> \<open>once per product\<close>

definition txt_product_id_label :: jsstr where [text_defs]:
  "txt_product_id_label =
   [0x5546, 0x54C1, 0x20, 0x49, 0x44]"  \<comment> \<open>product number\<close>

definition txt_init_quantity_label :: jsstr where [text_defs]:
  "txt_init_quantity_label =
   [0x521D, 0x59CB, 0x5E93, 0x5B58]"  \<comment> \<open>initial stock\<close>

definition txt_init_button :: jsstr where [text_defs]:
  "txt_init_button =
   [0x521D, 0x59CB, 0x5316]"  \<comment> \<open>initialise\<close>

definition txt_manual_add_title :: jsstr where [text_defs]:
  "txt_manual_add_title =
   [0x624B, 0x52A8, 0x5165, 0x5E93]"  \<comment> \<open>manual restock\<close>

definition txt_manual_add_desc :: jsstr where [text_defs]:
  "txt_manual_add_desc =
   [0x5E93, 0x5B58, 0x8BB0, 0x5F55, 0x5DF2, 0x5B58, 0x5728, 0x65F6, 0x624D, 0x80FD, 0x589E,
    0x52A0, 0x5E93, 0x5B58, 0x3002]"  \<comment> \<open>only for an existing stock record\<close>

definition txt_add_button :: jsstr where [text_defs]:
  "txt_add_button =
   [0x589E, 0x52A0, 0x5165, 0x5E93]"  \<comment> \<open>add to stock\<close>

definition txt_redis_title :: jsstr where [text_defs]:
  "txt_redis_title =
   [0x52, 0x65, 0x64, 0x69, 0x73, 0x20, 0x5E93, 0x5B58, 0x7EF4, 0x62A4]"  \<comment> \<open>Redis stock maintenance\<close>

definition txt_redis_desc :: jsstr where [text_defs]:
  "txt_redis_desc =
   [0x6309, 0x20, 0x4D, 0x79, 0x53, 0x51, 0x4C, 0x20, 0x5F53, 0x524D, 0x5E93, 0x5B58, 0x91CD,
    0x5EFA, 0x20, 0x52, 0x65, 0x64, 0x69, 0x73, 0x20, 0x53EF, 0x552E, 0x5E93, 0x5B58, 0x3002]"  \<comment> \<open>rebuild the Redis stock from MySQL\<close>

definition txt_reconcile_button :: jsstr where [text_defs]:
  "txt_reconcile_button =
   [0x52, 0x65, 0x64, 0x69, 0x73, 0x20, 0x5E93, 0x5B58, 0x5BF9, 0x8D26]"  \<comment> \<open>reconcile the Redis stock\<close>

definition txt_rebuild_button :: jsstr where [text_defs]:
  "txt_rebuild_button =
   [0x91CD, 0x5EFA, 0x20, 0x52, 0x65, 0x64, 0x69, 0x73, 0x20, 0x5E93, 0x5B58]"  \<comment> \<open>rebuild the Redis stock\<close>

definition txt_checked_prefix :: jsstr where [text_defs]:
  "txt_checked_prefix =
   [0x5DF2, 0x68C0, 0x67E5, 0x20]"  \<comment> \<open>checked\<close>

definition txt_diff_infix :: jsstr where [text_defs]:
  "txt_diff_infix =
   [0x20, 0x6761, 0xFF0C, 0x5DEE, 0x5F02]"  \<comment> \<open>entries, differences\<close>

definition txt_lookup_title :: jsstr where [text_defs]:
  "txt_lookup_title =
   [0x5E93, 0x5B58, 0x67E5, 0x8BE2]"  \<comment> \<open>stock query\<close>

definition txt_lookup_desc :: jsstr where [text_defs]:
  "txt_lookup_desc =
   [0x9009, 0x62E9, 0x5546, 0x54C1, 0x540E, 0x67E5, 0x8BE2, 0x5F53, 0x524D, 0x5E93, 0x5B58,
    0x3002]"  \<comment> \<open>choose a product to query its stock\<close>

definition txt_lookup_button :: jsstr where [text_defs]:
  "txt_lookup_button =
   [0x67E5, 0x8BE2, 0x5E93, 0x5B58]"  \<comment> \<open>query the stock\<close>

definition txt_current_stock :: jsstr where [text_defs]:
  "txt_current_stock =
   [0x5F53, 0x524D, 0x5E93, 0x5B58]"  \<comment> \<open>current stock\<close>

definition txt_lookup_hint :: jsstr where [text_defs]:
  "txt_lookup_hint =
   [0x8F93, 0x5165, 0x5546, 0x54C1, 0x20, 0x49, 0x44, 0x20, 0x540E, 0x67E5, 0x8BE2, 0x5E93,
    0x5B58, 0x3002]"  \<comment> \<open>enter a product number to query\<close>

definition txt_op_logs_title :: jsstr where [text_defs]:
  "txt_op_logs_title =
   [0x64CD, 0x4F5C, 0x65E5, 0x5FD7]"  \<comment> \<open>operation logs\<close>

definition txt_op_logs_desc :: jsstr where [text_defs]:
  "txt_op_logs_desc =
   [0x67E5, 0x770B, 0x7BA1, 0x7406, 0x5458, 0x540E, 0x53F0, 0x64CD, 0x4F5C, 0x5BA1, 0x8BA1,
    0x8BB0, 0x5F55, 0x3002]"  \<comment> \<open>audit records of administrators\<close>

definition txt_audit_list :: jsstr where [text_defs]:
  "txt_audit_list =
   [0x5BA1, 0x8BA1, 0x5217, 0x8868]"  \<comment> \<open>audit list\<close>

definition txt_audit_list_desc :: jsstr where [text_defs]:
  "txt_audit_list_desc =
   [0x8BB0, 0x5F55, 0x7BA1, 0x7406, 0x5458, 0x3001, 0x63A5, 0x53E3, 0x52A8, 0x4F5C, 0x3001,
    0x8BF7, 0x6C42, 0x7ED3, 0x679C, 0x548C, 0x8BF7, 0x6C42, 0x20, 0x49, 0x44, 0x3002]"  \<comment> \<open>administrator, action, result, request\<close>

definition txt_admin :: jsstr where [text_defs]:
  "txt_admin =
   [0x7BA1, 0x7406, 0x5458]"  \<comment> \<open>administrator\<close>

definition txt_action :: jsstr where [text_defs]:
  "txt_action =
   [0x52A8, 0x4F5C]"  \<comment> \<open>action\<close>

definition txt_path :: jsstr where [text_defs]:
  "txt_path =
   [0x8DEF, 0x5F84]"  \<comment> \<open>path\<close>

definition txt_request_id :: jsstr where [text_defs]:
  "txt_request_id =
   [0x8BF7, 0x6C42, 0x20, 0x49, 0x44]"  \<comment> \<open>request id\<close>

definition txt_time :: jsstr where [text_defs]:
  "txt_time =
   [0x65F6, 0x95F4]"  \<comment> \<open>time\<close>

definition txt_no_op_logs :: jsstr where [text_defs]:
  "txt_no_op_logs =
   [0x6682, 0x65E0, 0x64CD, 0x4F5C, 0x65E5, 0x5FD7]"  \<comment> \<open>no operation logs\<close>

definition txt_stock_logs_title :: jsstr where [text_defs]:
  "txt_stock_logs_title =
   [0x5E93, 0x5B58, 0x6D41, 0x6C34]"  \<comment> \<open>stock logs\<close>

definition txt_stock_logs_desc :: jsstr where [text_defs]:
  "txt_stock_logs_desc =
   [0x67E5, 0x770B, 0x521D, 0x59CB, 0x5316, 0x3001, 0x624B, 0x52A8, 0x5165, 0x5E93, 0x3001,
    0x4E0B, 0x5355, 0x6263, 0x51CF, 0x548C, 0x53D6, 0x6D88, 0x56DE, 0x6EDA, 0x4EA7, 0x751F,
    0x7684, 0x5E93, 0x5B58, 0x6D41, 0x6C34, 0x3002]"  \<comment> \<open>the log of all stock changes\<close>

definition txt_log_list :: jsstr where [text_defs]:
  "txt_log_list =
   [0x6D41, 0x6C34, 0x5217, 0x8868]"  \<comment> \<open>list of logs\<close>

definition txt_log_list_desc :: jsstr where [text_defs]:
  "txt_log_list_desc =
   [0x4E0D, 0x8F93, 0x5165, 0x5546, 0x54C1, 0x20, 0x49, 0x44, 0x20, 0x65F6, 0x67E5, 0x8BE2,
    0x5168, 0x90E8, 0x5E93, 0x5B58, 0x6D41, 0x6C34, 0x3002]"  \<comment> \<open>without a product number all logs\<close>

definition txt_filter_product :: jsstr where [text_defs]:
  "txt_filter_product =
   [0x6309, 0x5546, 0x54C1, 0x7B5B, 0x9009]"  \<comment> \<open>filter by product\<close>

definition txt_all_products :: jsstr where [text_defs]:
  "txt_all_products =
   [0x5168, 0x90E8, 0x5546, 0x54C1]"  \<comment> \<open>all products\<close>

definition txt_kind :: jsstr where [text_defs]:
  "txt_kind =
   [0x7C7B, 0x578B]"  \<comment> \<open>kind\<close>

definition txt_change :: jsstr where [text_defs]:
  "txt_change =
   [0x53D8, 0x5316]"  \<comment> \<open>change\<close>

definition txt_before :: jsstr where [text_defs]:
  "txt_before =
   [0x53D8, 0x66F4, 0x524D]"  \<comment> \<open>before\<close>

definition txt_after :: jsstr where [text_defs]:
  "txt_after =
   [0x53D8, 0x66F4, 0x540E]"  \<comment> \<open>after\<close>

definition txt_biz_id :: jsstr where [text_defs]:
  "txt_biz_id =
   [0x4E1A, 0x52A1, 0x20, 0x49, 0x44]"  \<comment> \<open>business id\<close>

definition txt_remark :: jsstr where [text_defs]:
  "txt_remark =
   [0x5907, 0x6CE8]"  \<comment> \<open>remark\<close>

definition txt_no_stock_logs :: jsstr where [text_defs]:
  "txt_no_stock_logs =
   [0x6682, 0x65E0, 0x5E93, 0x5B58, 0x6D41, 0x6C34]"  \<comment> \<open>no stock logs\<close>

definition txt_dashboard_title :: jsstr where [text_defs]:
  "txt_dashboard_title =
   [0x8BA2, 0x5355, 0x5E93, 0x5B58, 0x4E00, 0x81F4, 0x6027, 0x7BA1, 0x7406, 0x670D, 0x52A1]"  \<comment> \<open>order and stock consistency service\<close>

definition txt_dashboard_desc_admin :: jsstr where [text_defs]:
  "txt_dashboard_desc_admin =
   [0x6C47, 0x603B, 0x5546, 0x54C1, 0x3001, 0x5E93, 0x5B58, 0x6D41, 0x6C34, 0x548C, 0x8BA2,
    0x5355, 0x72B6, 0x6001, 0xFF0C, 0x5FEB, 0x901F, 0x5224, 0x65AD, 0x7CFB, 0x7EDF, 0x662F,
    0x5426, 0x53EF, 0x7528, 0x3002]"  \<comment> \<open>products, stock logs and orders at a glance\<close>

definition txt_dashboard_desc_user :: jsstr where [text_defs]:
  "txt_dashboard_desc_user =
   [0x6C47, 0x603B, 0x5F53, 0x524D, 0x8D26, 0x53F7, 0x7684, 0x8BA2, 0x5355, 0x72B6, 0x6001,
    0xFF0C, 0x5FEB, 0x901F, 0x67E5, 0x770B, 0x5F85, 0x652F, 0x4ED8, 0x8BA2, 0x5355, 0x3002]"  \<comment> \<open>the orders of this account at a glance\<close>

definition txt_backend_health :: jsstr where [text_defs]:
  "txt_backend_health =
   [0x540E, 0x7AEF, 0x5065, 0x5EB7]"  \<comment> \<open>backend health\<close>

definition txt_checking :: jsstr where [text_defs]:
  "txt_checking =
   [0x68C0, 0x67E5, 0x4E2D]"  \<comment> \<open>checking\<close>

definition txt_healthy :: jsstr where [text_defs]:
  "txt_healthy =
   [0x6B63, 0x5E38]"  \<comment> \<open>healthy\<close>

definition txt_unhealthy :: jsstr where [text_defs]:
  "txt_unhealthy =
   [0x5F02, 0x5E38]"  \<comment> \<open>unhealthy\<close>

definition txt_health_hint_error :: jsstr where [text_defs]:
  "txt_health_hint_error =
   [0x8BF7, 0x786E, 0x8BA4, 0x20, 0x47, 0x6F, 0x20, 0x670D, 0x52A1, 0x662F, 0x5426, 0x8FD0,
    0x884C, 0x5728, 0x20, 0x38, 0x30, 0x38, 0x32]"  \<comment> \<open>check that the Go service runs on 8082\<close>

definition txt_health_hint_ok :: jsstr where [text_defs]:
  "txt_health_hint_ok =
   [0x6765, 0x81EA, 0x20, 0x2F, 0x70, 0x69, 0x6E, 0x67, 0x20, 0x63A5, 0x53E3]"  \<comment> \<open>from the ping interface\<close>

definition txt_to_put_on_sale :: jsstr where [text_defs]:
  "txt_to_put_on_sale =
   [0x5F85, 0x4E0A, 0x67B6, 0x5546, 0x54C1]"  \<comment> \<open>products to put on sale\<close>

definition txt_em_dash :: jsstr where [text_defs]:
  "txt_em_dash =
   [0x2014]"  \<comment> \<open>dash\<close>

definition txt_off_sale_hint :: jsstr where [text_defs]:
  "txt_off_sale_hint =
   [0x5F53, 0x524D, 0x5546, 0x54C1, 0x5217, 0x8868, 0x63A5, 0x53E3, 0x8FD4, 0x56DE, 0x4E0B,
    0x67B6, 0x5546, 0x54C1]"  \<comment> \<open>the list returns products off sale\<close>

definition txt_pending_orders :: jsstr where [text_defs]:
  "txt_pending_orders =
   [0x5F85, 0x652F, 0x4ED8, 0x8BA2, 0x5355]"  \<comment> \<open>orders awaiting payment\<close>

definition txt_recent_prefix :: jsstr where [text_defs]:
  "txt_recent_prefix =
   [0x6700, 0x8FD1, 0x20]"  \<comment> \<open>the latest\<close>

definition txt_recent_infix :: jsstr where [text_defs]:
  "txt_recent_infix =
   [0x20, 0x7B14, 0x8BA2, 0x5355, 0xFF0C, 0x5171, 0x20]"  \<comment> \<open>orders, in all\<close>

definition txt_recent_suffix :: jsstr where [text_defs]:
  "txt_recent_suffix =
   [0x20, 0x7B14]"  \<comment> \<open>orders\<close>

definition txt_paid_amount_title :: jsstr where [text_defs]:
  "txt_paid_amount_title =
   [0x6700, 0x8FD1, 0x20, 0x31, 0x30, 0x30, 0x20, 0x7B14, 0x5DF2, 0x652F, 0x4ED8, 0x91D1,
    0x989D]"  \<comment> \<open>amount paid in the latest 100\<close>

definition txt_paid_amount_desc :: jsstr where [text_defs]:
  "txt_paid_amount_desc =
   [0x7EDF, 0x8BA1, 0x6700, 0x8FD1, 0x20, 0x31, 0x30, 0x30, 0x20, 0x7B14, 0x4E2D, 0x7684,
    0x5DF2, 0x652F, 0x4ED8, 0x548C, 0x5DF2, 0x5B8C, 0x6210, 0x8BA2, 0x5355]"  \<comment> \<open>paid and finished orders of the latest 100\<close>

definition txt_recent_orders :: jsstr where [text_defs]:
  "txt_recent_orders =
   [0x6700, 0x8FD1, 0x8BA2, 0x5355]"  \<comment> \<open>latest orders\<close>

definition txt_recent_orders_desc :: jsstr where [text_defs]:
  "txt_recent_orders_desc =
   [0x6309, 0x540E, 0x7AEF, 0x8BA2, 0x5355, 0x5217, 0x8868, 0x8FD4, 0x56DE, 0x987A, 0x5E8F,
    0x5C55, 0x793A, 0x524D, 0x20, 0x35, 0x20, 0x6761]"  \<comment> \<open>the first 5 in the order of the backend\<close>

definition txt_recent_logs :: jsstr where [text_defs]:
  "txt_recent_logs =
   [0x6700, 0x8FD1, 0x5E93, 0x5B58, 0x6D41, 0x6C34]"  \<comment> \<open>latest stock logs\<close>

definition txt_recent_logs_desc :: jsstr where [text_defs]:
  "txt_recent_logs_desc =
   [0x7528, 0x4E8E, 0x786E, 0x8BA4, 0x5165, 0x5E93, 0x3001, 0x6263, 0x51CF, 0x548C, 0x56DE,
    0x6EDA, 0x662F, 0x5426, 0x751F, 0x6548]"  \<comment> \<open>to check restocking, deduction and rollback\<close>

definition txt_session_expired :: jsstr where [text_defs]:
  "txt_session_expired =
   [0x767B, 0x5F55, 0x72B6, 0x6001, 0x5DF2, 0x8FC7, 0x671F, 0xFF0C, 0x8BF7, 0x91CD, 0x65B0,
    0x767B, 0x5F55]"  \<comment> \<open>the session has expired, sign in again\<close>

definition txt_server_error :: jsstr where [text_defs]:
  "txt_server_error =
   [0x670D, 0x52A1, 0x5668, 0x5185, 0x90E8, 0x9519, 0x8BEF]"  \<comment> \<open>internal server error\<close>

definition txt_business_modules :: jsstr where [text_defs]:
  "txt_business_modules =
   [0x4E1A, 0x52A1, 0x6A21, 0x5757]"  \<comment> \<open>business modules\<close>

definition txt_sign_out :: jsstr where [text_defs]:
  "txt_sign_out =
   [0x9000, 0x51FA, 0x767B, 0x5F55]"  \<comment> \<open>sign out\<close>

definition txt_sign_out_desc :: jsstr where [text_defs]:
  "txt_sign_out_desc =
   [0x786E, 0x8BA4, 0x9000, 0x51FA, 0x5F53, 0x524D, 0x8D26, 0x53F7, 0x5417, 0xFF1F, 0x518D,
    0x6B21, 0x8BBF, 0x95EE, 0x4E1A, 0x52A1, 0x9875, 0x9762, 0x65F6, 0x9700, 0x8981, 0x91CD,
    0x65B0, 0x767B, 0x5F55, 0x3002]"  \<comment> \<open>really sign out? business pages need a new sign-in\<close>

definition txt_sign_out_confirm :: jsstr where [text_defs]:
  "txt_sign_out_confirm =
   [0x786E, 0x8BA4, 0x9000, 0x51FA]"  \<comment> \<open>confirm the sign-out\<close>

definition txt_user_default :: jsstr where [text_defs]:
  "txt_user_default =
   [0x7528, 0x6237]"  \<comment> \<open>user\<close>

definition txt_loading_user :: jsstr where [text_defs]:
  "txt_loading_user =
   [0x52A0, 0x8F7D, 0x4E2D, 0x2E, 0x2E, 0x2E]"  \<comment> \<open>loading\<close>

definition txt_profile :: jsstr where [text_defs]:
  "txt_profile =
   [0x4E2A, 0x4EBA, 0x8D44, 0x6599]"  \<comment> \<open>profile\<close>

definition txt_account_security :: jsstr where [text_defs]:
  "txt_account_security =
   [0x8D26, 0x53F7, 0x5B89, 0x5168]"  \<comment> \<open>account security\<close>

definition txt_appearance :: jsstr where [text_defs]:
  "txt_appearance =
   [0x5916, 0x89C2]"  \<comment> \<open>appearance\<close>

definition txt_settings :: jsstr where [text_defs]:
  "txt_settings =
   [0x8BBE, 0x7F6E]"  \<comment> \<open>settings\<close>

definition txt_settings_desc :: jsstr where [text_defs]:
  "txt_settings_desc =
   [0x7BA1, 0x7406, 0x4E2A, 0x4EBA, 0x8D44, 0x6599, 0x3001, 0x767B, 0x5F55, 0x5BC6, 0x7801,
    0x548C, 0x754C, 0x9762, 0x5916, 0x89C2, 0x3002]"  \<comment> \<open>manage profile, password and appearance\<close>

definition txt_enter_username :: jsstr where [text_defs]:
  "txt_enter_username =
   [0x8BF7, 0x8F93, 0x5165, 0x7528, 0x6237, 0x540D]"  \<comment> \<open>enter a user name\<close>

definition txt_username_short :: jsstr where [text_defs]:
  "txt_username_short =
   [0x7528, 0x6237, 0x540D, 0x81F3, 0x5C11, 0x20, 0x33, 0x20, 0x4E2A, 0x5B57, 0x7B26]"  \<comment> \<open>the user name needs at least 3 characters\<close>

definition txt_username_long :: jsstr where [text_defs]:
  "txt_username_long =
   [0x7528, 0x6237, 0x540D, 0x6700, 0x591A, 0x20, 0x36, 0x34, 0x20, 0x4E2A, 0x5B57, 0x7B26]"  \<comment> \<open>the user name has at most 64 characters\<close>

definition txt_enter_password :: jsstr where [text_defs]:
  "txt_enter_password =
   [0x8BF7, 0x8F93, 0x5165, 0x5BC6, 0x7801]"  \<comment> \<open>enter a password\<close>

definition txt_password_short :: jsstr where [text_defs]:
  "txt_password_short =
   [0x5BC6, 0x7801, 0x81F3, 0x5C11, 0x20, 0x36, 0x20, 0x4E2A, 0x5B57, 0x7B26]"  \<comment> \<open>the password needs at least 6 characters\<close>

definition txt_password_long :: jsstr where [text_defs]:
  "txt_password_long =
   [0x5BC6, 0x7801, 0x6700, 0x591A, 0x20, 0x37, 0x32, 0x20, 0x4E2A, 0x5B57, 0x7B26]"  \<comment> \<open>the password has at most 72 characters\<close>

definition txt_repeat_password :: jsstr where [text_defs]:
  "txt_repeat_password =
   [0x8BF7, 0x518D, 0x6B21, 0x8F93, 0x5165, 0x5BC6, 0x7801]"  \<comment> \<open>enter the password again\<close>

definition txt_passwords_differ :: jsstr where [text_defs]:
  "txt_passwords_differ =
   [0x4E24, 0x6B21, 0x8F93, 0x5165, 0x7684, 0x5BC6, 0x7801, 0x4E0D, 0x4E00, 0x81F4]"  \<comment> \<open>the two passwords differ\<close>

definition txt_welcome :: jsstr where [text_defs]:
  "txt_welcome =
   [0x6B22, 0x8FCE, 0x56DE, 0x6765, 0xFF0C]"  \<comment> \<open>welcome back,\<close>

definition txt_username_label :: jsstr where [text_defs]:
  "txt_username_label =
   [0x7528, 0x6237, 0x540D]"  \<comment> \<open>user name\<close>

definition txt_password_label :: jsstr where [text_defs]:
  "txt_password_label =
   [0x5BC6, 0x7801]"  \<comment> \<open>password\<close>

definition txt_sign_in :: jsstr where [text_defs]:
  "txt_sign_in =
   [0x767B, 0x5F55]"  \<comment> \<open>sign in\<close>

definition txt_sign_in_desc :: jsstr where [text_defs]:
  "txt_sign_in_desc =
   [0x4F7F, 0x7528, 0x7528, 0x6237, 0x540D, 0x548C, 0x5BC6, 0x7801, 0x8FDB, 0x5165, 0x8BA2,
    0x5355, 0x5E93, 0x5B58, 0x7BA1, 0x7406, 0x7CFB, 0x7EDF, 0x3002, 0x8FD8, 0x6CA1, 0x6709,
    0x8D26, 0x53F7, 0xFF1F]"  \<comment> \<open>sign in with name and password; no account yet?\<close>

definition txt_register_now :: jsstr where [text_defs]:
  "txt_register_now =
   [0x7ACB, 0x5373, 0x6CE8, 0x518C]"  \<comment> \<open>register now\<close>

definition txt_account_created :: jsstr where [text_defs]:
  "txt_account_created =
   [0x8D26, 0x53F7, 0x521B, 0x5EFA, 0x6210, 0x529F, 0xFF0C, 0x8BF7, 0x767B, 0x5F55]"  \<comment> \<open>account created, sign in\<close>

definition txt_confirm_password_label :: jsstr where [text_defs]:
  "txt_confirm_password_label =
   [0x786E, 0x8BA4, 0x5BC6, 0x7801]"  \<comment> \<open>confirm the password\<close>

definition txt_create_account :: jsstr where [text_defs]:
  "txt_create_account =
   [0x521B, 0x5EFA, 0x8D26, 0x53F7]"  \<comment> \<open>create an account\<close>

definition txt_create_account_desc :: jsstr where [text_defs]:
  "txt_create_account_desc =
   [0x4F7F, 0x7528, 0x7528, 0x6237, 0x540D, 0x548C, 0x5BC6, 0x7801, 0x521B, 0x5EFA, 0x7CFB,
    0x7EDF, 0x8D26, 0x53F7, 0x3002, 0x5DF2, 0x6709, 0x8D26, 0x53F7, 0xFF1F]"  \<comment> \<open>create an account with name and password; already have one?\<close>

definition txt_sign_in_now :: jsstr where [text_defs]:
  "txt_sign_in_now =
   [0x7ACB, 0x5373, 0x767B, 0x5F55]"  \<comment> \<open>sign in now\<close>

definition txt_enter_old_password :: jsstr where [text_defs]:
  "txt_enter_old_password =
   [0x8BF7, 0x8F93, 0x5165, 0x5F53, 0x524D, 0x5BC6, 0x7801]"  \<comment> \<open>enter the current password\<close>

definition txt_new_password_short :: jsstr where [text_defs]:
  "txt_new_password_short =
   [0x65B0, 0x5BC6, 0x7801, 0x81F3, 0x5C11, 0x20, 0x36, 0x20, 0x4E2A, 0x5B57, 0x7B26]"  \<comment> \<open>the new password needs at least 6 characters\<close>

definition txt_new_password_long :: jsstr where [text_defs]:
  "txt_new_password_long =
   [0x65B0, 0x5BC6, 0x7801, 0x6700, 0x591A, 0x20, 0x37, 0x32, 0x20, 0x4E2A, 0x5B57, 0x7B26]"  \<comment> \<open>the new password has at most 72 characters\<close>

definition txt_repeat_new_password :: jsstr where [text_defs]:
  "txt_repeat_new_password =
   [0x8BF7, 0x518D, 0x6B21, 0x8F93, 0x5165, 0x65B0, 0x5BC6, 0x7801]"  \<comment> \<open>enter the new password again\<close>

definition txt_new_password_same :: jsstr where [text_defs]:
  "txt_new_password_same =
   [0x65B0, 0x5BC6, 0x7801, 0x4E0D, 0x80FD, 0x4E0E, 0x5F53, 0x524D, 0x5BC6, 0x7801, 0x76F8,
    0x540C]"  \<comment> \<open>the new password must differ from the current one\<close>

definition txt_new_passwords_differ :: jsstr where [text_defs]:
  "txt_new_passwords_differ =
   [0x4E24, 0x6B21, 0x8F93, 0x5165, 0x7684, 0x65B0, 0x5BC6, 0x7801, 0x4E0D, 0x4E00, 0x81F4]"  \<comment> \<open>the two new passwords differ\<close>

definition txt_password_changed :: jsstr where [text_defs]:
  "txt_password_changed =
   [0x5BC6, 0x7801, 0x4FEE, 0x6539, 0x6210, 0x529F]"  \<comment> \<open>password changed\<close>

definition txt_old_password_label :: jsstr where [text_defs]:
  "txt_old_password_label =
   [0x5F53, 0x524D, 0x5BC6, 0x7801]"  \<comment> \<open>current password\<close>

definition txt_old_password_desc :: jsstr where [text_defs]:
  "txt_old_password_desc =
   [0x8F93, 0x5165, 0x5F53, 0x524D, 0x5BC6, 0x7801, 0x4EE5, 0x786E, 0x8BA4, 0x672C, 0x6B21,
    0x4FEE, 0x6539, 0x3002]"  \<comment> \<open>enter the current password to confirm the change\<close>

definition txt_new_password_label :: jsstr where [text_defs]:
  "txt_new_password_label =
   [0x65B0, 0x5BC6, 0x7801]"  \<comment> \<open>new password\<close>

definition txt_new_password_desc :: jsstr where [text_defs]:
  "txt_new_password_desc =
   [0x5BC6, 0x7801, 0x957F, 0x5EA6, 0x4E3A, 0x20, 0x36, 0x20, 0x5230, 0x20, 0x37, 0x32, 0x20,
    0x4E2A, 0x5B57, 0x7B26, 0x3002]"  \<comment> \<open>a password has 6 to 72 characters\<close>

definition txt_confirm_new_password_label :: jsstr where [text_defs]:
  "txt_confirm_new_password_label =
   [0x786E, 0x8BA4, 0x65B0, 0x5BC6, 0x7801]"  \<comment> \<open>confirm the new password\<close>

definition txt_change_password :: jsstr where [text_defs]:
  "txt_change_password =
   [0x4FEE, 0x6539, 0x5BC6, 0x7801]"  \<comment> \<open>change the password\<close>

definition txt_account_desc :: jsstr where [text_defs]:
  "txt_account_desc =
   [0x4FEE, 0x6539, 0x5F53, 0x524D, 0x8D26, 0x53F7, 0x7684, 0x767B, 0x5F55, 0x5BC6, 0x7801,
    0x3002]"  \<comment> \<open>change the password of this account\<close>

definition txt_enter_nickname :: jsstr where [text_defs]:
  "txt_enter_nickname =
   [0x8BF7, 0x8F93, 0x5165, 0x6635, 0x79F0]"  \<comment> \<open>enter a nickname\<close>

definition txt_nickname_long :: jsstr where [text_defs]:
  "txt_nickname_long =
   [0x6635, 0x79F0, 0x6700, 0x591A, 0x20, 0x36, 0x34, 0x20, 0x4E2A, 0x5B57, 0x7B26]"  \<comment> \<open>the nickname has at most 64 characters\<close>

definition txt_profile_updated :: jsstr where [text_defs]:
  "txt_profile_updated =
   [0x4E2A, 0x4EBA, 0x8D44, 0x6599, 0x66F4, 0x65B0, 0x6210, 0x529F]"  \<comment> \<open>profile updated\<close>

definition txt_nickname_label :: jsstr where [text_defs]:
  "txt_nickname_label =
   [0x6635, 0x79F0]"  \<comment> \<open>nickname\<close>

definition txt_nickname_desc :: jsstr where [text_defs]:
  "txt_nickname_desc =
   [0x8BE5, 0x6635, 0x79F0, 0x4F1A, 0x663E, 0x793A, 0x5728, 0x8BA2, 0x5355, 0x5E93, 0x5B58,
    0x7BA1, 0x7406, 0x7CFB, 0x7EDF, 0x4E2D, 0x3002]"  \<comment> \<open>the nickname is shown in the system\<close>

definition txt_save_profile :: jsstr where [text_defs]:
  "txt_save_profile =
   [0x4FDD, 0x5B58, 0x8D44, 0x6599]"  \<comment> \<open>save the profile\<close>

definition txt_profile_desc :: jsstr where [text_defs]:
  "txt_profile_desc =
   [0x4FEE, 0x6539, 0x5F53, 0x524D, 0x8D26, 0x53F7, 0x5728, 0x7CFB, 0x7EDF, 0x4E2D, 0x5C55,
    0x793A, 0x7684, 0x6635, 0x79F0, 0x3002]"  \<comment> \<open>change the nickname shown in the system\<close>

definition txt_appearance_updated :: jsstr where [text_defs]:
  "txt_appearance_updated =
   [0x5916, 0x89C2, 0x8BBE, 0x7F6E, 0x5DF2, 0x66F4, 0x65B0]"  \<comment> \<open>appearance updated\<close>

definition txt_font_label :: jsstr where [text_defs]:
  "txt_font_label =
   [0x5B57, 0x4F53]"  \<comment> \<open>font\<close>

definition txt_font_desc :: jsstr where [text_defs]:
  "txt_font_desc =
   [0x8BBE, 0x7F6E, 0x7BA1, 0x7406, 0x540E, 0x53F0, 0x4F7F, 0x7528, 0x7684, 0x5B57, 0x4F53,
    0x3002]"  \<comment> \<open>the font of the interface\<close>

definition txt_theme_label :: jsstr where [text_defs]:
  "txt_theme_label =
   [0x4E3B, 0x9898]"  \<comment> \<open>theme\<close>

definition txt_theme_desc :: jsstr where [text_defs]:
  "txt_theme_desc =
   [0x9009, 0x62E9, 0x7BA1, 0x7406, 0x540E, 0x53F0, 0x7684, 0x660E, 0x6697, 0x4E3B, 0x9898,
    0x3002]"  \<comment> \<open>light or dark theme of the interface\<close>

definition txt_theme_light :: jsstr where [text_defs]:
  "txt_theme_light =
   [0x6D45, 0x8272]"  \<comment> \<open>light\<close>

definition txt_theme_dark :: jsstr where [text_defs]:
  "txt_theme_dark =
   [0x6DF1, 0x8272]"  \<comment> \<open>dark\<close>

definition txt_save_appearance :: jsstr where [text_defs]:
  "txt_save_appearance =
   [0x4FDD, 0x5B58, 0x5916, 0x89C2, 0x8BBE, 0x7F6E]"  \<comment> \<open>save the appearance\<close>

definition txt_appearance_desc :: jsstr where [text_defs]:
  "txt_appearance_desc =
   [0x8BBE, 0x7F6E, 0x754C, 0x9762, 0x4E3B, 0x9898, 0x3001, 0x5B57, 0x4F53, 0x548C, 0x5E03,
    0x5C40, 0x65B9, 0x5411, 0x3002]"  \<comment> \<open>theme, font and layout direction\<close>

definition txt_auth_title :: jsstr where [text_defs]:
  "txt_auth_title =
   [0x8BA2, 0x5355, 0x5E93, 0x5B58, 0x7BA1, 0x7406, 0x7CFB, 0x7EDF]"  \<comment> \<open>order inventory management system\<close>

definition txt_went_wrong :: jsstr where [text_defs]:
  "txt_went_wrong =
   [0x4F, 0x6F, 0x70, 0x73, 0x21, 0x20, 0x53, 0x6F, 0x6D, 0x65, 0x74, 0x68, 0x69, 0x6E, 0x67,
    0x20, 0x77, 0x65, 0x6E, 0x74, 0x20, 0x77, 0x72, 0x6F, 0x6E, 0x67, 0x20]"  \<comment> \<open>something went wrong\<close>

definition txt_smiley :: jsstr where [text_defs]:
  "txt_smiley =
   [0x3A, 0x27, 0x29]"  \<comment> \<open>a smiley\<close>

definition txt_not_found :: jsstr where [text_defs]:
  "txt_not_found =
   [0x4F, 0x6F, 0x70, 0x73, 0x21, 0x20, 0x50, 0x61, 0x67, 0x65, 0x20, 0x4E, 0x6F, 0x74, 0x20,
    0x46, 0x6F, 0x75, 0x6E, 0x64, 0x21]"  \<comment> \<open>page not found\<close>

definition txt_no_permission :: jsstr where [text_defs]:
  "txt_no_permission =
   [0x59, 0x6F, 0x75, 0x20, 0x64, 0x6F, 0x6E, 0x27, 0x74, 0x20, 0x68, 0x61, 0x76, 0x65, 0x20,
    0x6E, 0x65, 0x63, 0x65, 0x73, 0x73, 0x61, 0x72, 0x79, 0x20, 0x70, 0x65, 0x72, 0x6D, 0x69,
    0x73, 0x73, 0x69, 0x6F, 0x6E, 0x20]"  \<comment> \<open>you lack the permission\<close>

definition txt_page_missing :: jsstr where [text_defs]:
  "txt_page_missing =
   [0x49, 0x74, 0x20, 0x73, 0x65, 0x65, 0x6D, 0x73, 0x20, 0x6C, 0x69, 0x6B, 0x65, 0x20, 0x74,
    0x68, 0x65, 0x20, 0x70, 0x61, 0x67, 0x65, 0x20, 0x79, 0x6F, 0x75, 0x27, 0x72, 0x65, 0x20,
    0x6C, 0x6F, 0x6F, 0x6B, 0x69, 0x6E, 0x67, 0x20, 0x66, 0x6F, 0x72, 0x20]"  \<comment> \<open>the page you look for\<close>

definition txt_back_shortly :: jsstr where [text_defs]:
  "txt_back_shortly =
   [0x57, 0x65, 0x27, 0x6C, 0x6C, 0x20, 0x62, 0x65, 0x20, 0x62, 0x61, 0x63, 0x6B, 0x20, 0x6F,
    0x6E, 0x6C, 0x69, 0x6E, 0x65, 0x20, 0x73, 0x68, 0x6F, 0x72, 0x74, 0x6C, 0x79, 0x2E]"  \<comment> \<open>back online shortly\<close>

definition txt_toggle_sidebar :: jsstr where [text_defs]:
  "txt_toggle_sidebar =
   [0x5207, 0x6362, 0x4FA7, 0x8FB9, 0x680F]"  \<comment> \<open>toggle the sidebar\<close>

definition txt_dashboard_menu :: jsstr where [text_defs]:
  "txt_dashboard_menu =
   [0x4E1A, 0x52A1, 0x4EEA, 0x8868, 0x76D8]"  \<comment> \<open>business dashboard\<close>

definition txt_cmd_key :: jsstr where [text_defs]:
  "txt_cmd_key =
   [0x2318]"  \<comment> \<open>command key\<close>

end
