(* ===== verification/ApiClient.thy ===== *)
theory ApiClient
  imports Types Json Texts
begin

section \<open>Errors and responses of the backend (api-client.ts, handle-server-error.ts)\<close>

text \<open>
  The errors a call can reject with, the envelope of the backend's answers, and the functions that
  turn the one into the other and into a message for the user. The interceptors, which need the
  session, are in the theory Session.
\<close>

text \<open>
  \<open>BusinessApiError\<close> is the class of the source; \<open>AxiosErr\<close> is the HTTP library's error with its
  message and, when an answer arrived, the response; \<open>PlainError\<close> any other instance of \<open>Error\<close>;
  \<open>NotAnError\<close> a thrown value that is no object.
\<close>

record http_response =
  resp_status :: jsnum
  resp_data :: "json option"

datatype js_error =
  BusinessApiError jsstr jsnum
| AxiosErr jsstr "http_response option"
| PlainError jsstr
| NotAnError

record 'a api_response =
  api_code :: jsnum
  api_message :: jsstr
  api_data :: "'a option"

subsection \<open>Base addresses\<close>

definition strip_suffix :: "jsstr \<Rightarrow> jsstr \<Rightarrow> jsstr" where
  "strip_suffix p s = (if ends_with p s then take (length s - length p) s else s)"

definition apiBaseURL :: "jsstr option \<Rightarrow> jsstr" where
  "apiBaseURL env =
     (let u = (case env of None \<Rightarrow> [] | Some s \<Rightarrow> strip_suffix (js ''/'') s)
      in if u = [] then js ''/api/v1'' else u)"

definition rootBaseURL :: "jsstr option \<Rightarrow> jsstr" where
  "rootBaseURL env =
     (let u = strip_suffix (js ''/api/v1'') (apiBaseURL env)
      in if u = [] then js ''/'' else u)"

subsection \<open>The envelope\<close>

definition unwrap :: "(js_error, 'a api_response) thrown \<Rightarrow> (js_error, 'a option) thrown" where
  "unwrap promise = (case promise of
       Inl e \<Rightarrow> Inl e
     | Inr data \<Rightarrow>
         if \<not> jeq (api_code data) (jint 0)
         then Inl (BusinessApiError
                (if api_message data = [] then txt_req_failed else api_message data) (api_code data))
         else Inr (api_data data))"

subsection \<open>Messages\<close>

definition string_field :: "jsstr \<Rightarrow> json option \<Rightarrow> jsstr option" where
  "string_field k d = (case d of
       None \<Rightarrow> None
     | Some v \<Rightarrow> (case json_field k v of Some (JStr s) \<Rightarrow> Some s | _ \<Rightarrow> None))"

definition error_data :: "http_response option \<Rightarrow> json option" where
  "error_data r = (case r of None \<Rightarrow> None | Some x \<Rightarrow> resp_data x)"

fun getErrorMessage :: "js_error \<Rightarrow> jsstr" where
  "getErrorMessage (BusinessApiError m c) = m"
| "getErrorMessage (AxiosErr m r) =
     (case string_field (js ''message'') (error_data r) of
        Some s \<Rightarrow> s
      | None \<Rightarrow> (case string_field (js ''title'') (error_data r) of
            Some s \<Rightarrow> s
          | None \<Rightarrow> if m \<noteq> [] then m else txt_req_failed_retry))"
| "getErrorMessage (PlainError m) = (if m \<noteq> [] then m else txt_req_failed_retry)"
| "getErrorMessage NotAnError = txt_req_failed_retry"

text \<open>
  The text \<open>handleServerError\<close> shows. \<open>status_of\<close> is the HTTP library's: the number in the error
  object's own \<open>status\<close> property, if it has one.
\<close>

definition handleServerError :: "(js_error \<Rightarrow> jsnum option) \<Rightarrow> js_error \<Rightarrow> jsstr" where
  "handleServerError status_of e =
     (let errMsg = (if e \<noteq> NotAnError \<and> status_of e = Some (jint 204)
                    then js ''No content.'' else js ''Something went wrong!'')
      in case e of
           AxiosErr m r \<Rightarrow>
             (case string_field (js ''message'') (error_data r) of
                Some s \<Rightarrow>
                  if trim s \<noteq> [] then s
                  else (case string_field (js ''title'') (error_data r) of
                      Some t \<Rightarrow> if trim t \<noteq> [] then t else errMsg
                    | None \<Rightarrow> errMsg)
              | None \<Rightarrow> (case string_field (js ''title'') (error_data r) of
                    Some t \<Rightarrow> if trim t \<noteq> [] then t else errMsg
                  | None \<Rightarrow> errMsg))
         | _ \<Rightarrow> errMsg)"

subsection \<open>Properties\<close>

lemma unwrap_simps [simp]:
  "unwrap (Inl e) = Inl e"
  "api_code d = jint 0 \<Longrightarrow> unwrap (Inr d) = Inr (api_data d)"
  by (simp_all add: unwrap_def)

text \<open>
  \<open>unwrap\<close> resolves exactly when the answer arrived with code 0, and then with its data; an
  answer with any other code, \<open>NaN\<close> included, rejects with a business error that carries the
  backend's code and a message that is never empty.
\<close>

theorem unwrap_spec:
  "(unwrap p = Inr d \<longleftrightarrow> (\<exists>r. p = Inr r \<and> api_code r = jint 0 \<and> api_data r = d)) \<and>
   (unwrap p = Inl e \<longleftrightarrow> p = Inl e \<or>
      (\<exists>r. p = Inr r \<and> api_code r \<noteq> jint 0 \<and>
        e = BusinessApiError (if api_message r = [] then txt_req_failed else api_message r) (api_code r)))"
  by (cases p) (auto simp: unwrap_def jeq_def)

lemma strip_suffix_append [simp]: "strip_suffix p (s @ p) = s"
  by (simp add: strip_suffix_def ends_with_def starts_with_def)

end
