(* ===== verification/Format.thy ===== *)
theory Format
  imports JsConvert Texts
begin

section \<open>Statuses, amounts and dates as text (format.ts)\<close>

text \<open>
  The status codes shared with the backend and the functions that print a status, an amount in
  fen and a timestamp. The theorems: the printed amount is the exact one up to
  \<open>100 * 2 ^ 46\<close> fen, and the texts of the known codes are pairwise different.
\<close>

definition PRODUCT_ON_SALE :: jsnum where "PRODUCT_ON_SALE = jint 1"
definition PRODUCT_OFF_SALE :: jsnum where "PRODUCT_OFF_SALE = jint 2"

definition ORDER_PENDING :: jsnum where "ORDER_PENDING = jint 1"
definition ORDER_PAID :: jsnum where "ORDER_PAID = jint 2"
definition ORDER_FINISHED :: jsnum where "ORDER_FINISHED = jint 3"
definition ORDER_CANCELLED :: jsnum where "ORDER_CANCELLED = jint 4"

definition STOCK_INIT :: jsnum where "STOCK_INIT = jint 1"
definition STOCK_MANUAL_ADD :: jsnum where "STOCK_MANUAL_ADD = jint 2"
definition STOCK_ORDER_DEDUCT :: jsnum where "STOCK_ORDER_DEDUCT = jint 3"
definition STOCK_ORDER_ROLLBACK :: jsnum where "STOCK_ORDER_ROLLBACK = jint 4"

lemmas product_status_defs = PRODUCT_ON_SALE_def PRODUCT_OFF_SALE_def
lemmas order_status_defs = ORDER_PENDING_def ORDER_PAID_def ORDER_FINISHED_def ORDER_CANCELLED_def
lemmas stock_biz_defs =
  STOCK_INIT_def STOCK_MANUAL_ADD_def STOCK_ORDER_DEDUCT_def STOCK_ORDER_ROLLBACK_def

text \<open>\<open>None\<close> stands for \<open>null\<close> and \<open>undefined\<close>.\<close>

definition formatFen :: "jsnum option \<Rightarrow> jsstr" where
  "formatFen fen = (case fen of
       None \<Rightarrow> js ''-''
     | Some a \<Rightarrow> if a = JNaN then js ''-'' else txt_yen @ toFixed 2 (a / jint 100))"

text \<open>
  \<open>intl\<close> stands for the platform's \<open>new Date(value)\<close> followed by \<open>Intl.DateTimeFormat\<close>: \<open>None\<close>
  when the date is invalid, the localised text otherwise.
\<close>

definition formatDateTime :: "(jsstr \<Rightarrow> jsstr option) \<Rightarrow> jsstr option \<Rightarrow> jsstr" where
  "formatDateTime intl value = (case value of
       None \<Rightarrow> js ''-''
     | Some v \<Rightarrow>
         if v = [] then js ''-''
         else case intl v of None \<Rightarrow> js ''-'' | Some t \<Rightarrow> t)"

definition productStatusText :: "jsnum \<Rightarrow> jsstr" where
  "productStatusText status =
     (if jeq status PRODUCT_ON_SALE then txt_on_sale
      else if jeq status PRODUCT_OFF_SALE then txt_off_sale
      else txt_unknown_status @ to_string status)"

definition orderStatusText :: "jsnum \<Rightarrow> jsstr" where
  "orderStatusText status =
     (if jeq status ORDER_PENDING then txt_pending
      else if jeq status ORDER_PAID then txt_paid
      else if jeq status ORDER_FINISHED then txt_finished
      else if jeq status ORDER_CANCELLED then txt_cancelled
      else txt_unknown_status @ to_string status)"

definition stockBizTypeText :: "jsnum \<Rightarrow> jsstr" where
  "stockBizTypeText t =
     (if jeq t STOCK_INIT then txt_biz_init
      else if jeq t STOCK_MANUAL_ADD then txt_biz_manual_add
      else if jeq t STOCK_ORDER_DEDUCT then txt_biz_deduct
      else if jeq t STOCK_ORDER_ROLLBACK then txt_biz_rollback
      else txt_unknown_type @ to_string t)"

subsection \<open>The printed amount\<close>

text \<open>The two-decimal notation of a number of cents, written without any division of doubles.\<close>

definition cents_text :: "int \<Rightarrow> jsstr" where
  "cents_text n = dec (n div 100) @ js ''.'' @ pad_start 2 0x30 (dec (n mod 100))"

definition max_exact_fen :: int where
  "max_exact_fen = 100 * 2 ^ 46"

lemma dec_two: "0 \<le> r \<Longrightarrow> r < 100 \<Longrightarrow>
  pad_start 2 0x30 (dec r) = [digit_char (r div 10), digit_char (r mod 10)]"
proof -
  assume r: "0 \<le> r" "r < 100"
  show ?thesis
  proof (cases "r < 10")
    case True
    then have "dec r = [digit_char r]" by (subst dec.simps) simp
    then show ?thesis using True r by (simp add: pad_start_def digit_char_def)
  next
    case False
    then have "dec (r div 10) = [digit_char (r div 10)]" using r by (subst dec.simps) simp
    then have "dec r = [digit_char (r div 10), digit_char (r mod 10)]"
      using False by (subst dec.simps) simp
    then show ?thesis by (simp add: pad_start_def)
  qed
qed

lemma dec_cents:
  assumes "0 \<le> n"
  shows "pad_start 3 0x30 (dec n) =
    dec (n div 100) @ [digit_char (n mod 100 div 10), digit_char (n mod 10)]"
proof (cases "n < 100")
  case True
  then have n: "n div 100 = 0" "n mod 100 = n" using assms by auto
  have z: "dec 0 = [0x30]" by (subst dec.simps) (simp add: digit_char_def)
  have "length (dec n) \<le> 2" using length_dec_le[of n 2] assms True by simp
  then have "pad_start 3 0x30 (dec n) = 0x30 # pad_start 2 0x30 (dec n)"
    by (simp add: pad_start_def Suc_diff_le flip: replicate_Suc)
  then show ?thesis using dec_two[of n] assms True by (simp add: n z)
next
  case False
  then have h: "\<not> n < 10" "\<not> n div 10 < 10" by auto
  have "dec n = dec (n div 10) @ [digit_char (n mod 10)]"
    using h(1) by (subst dec.simps) simp
  also have "dec (n div 10) = dec (n div 10 div 10) @ [digit_char (n div 10 mod 10)]"
    using h(2) by (subst dec.simps) simp
  also have "n div 10 div 10 = n div 100" by (simp add: zdiv_zmult2_eq)
  also have "n div 10 mod 10 = n mod 100 div 10"
    using zmod_zmult2_eq[of 10 n 10] by simp
  finally have d: "dec n = dec (n div 100) @ [digit_char (n mod 100 div 10), digit_char (n mod 10)]"
    by simp
  have "0 < length (dec (n div 100))" by simp
  moreover have "length (dec n) = length (dec (n div 100)) + 2"
    by (subst d) simp
  ultimately have "3 - length (dec n) = 0" by linarith
  then have "pad_start 3 0x30 (dec n) = dec n" unfolding pad_start_def by simp
  also note d
  finally show ?thesis .
qed

lemma round_rat_cents:
  assumes "0 \<le> n" "n \<le> max_exact_fen"
  shows "\<bar>round_rat (of_int n / 100) * 100 - of_int n\<bar> < 1/2"
proof (cases "n = max_exact_fen")
  case True
  then have "of_int n / 100 = (of_int (2 ^ 46) :: rat)" by (simp add: max_exact_fen_def)
  then have "round_rat (of_int n / 100) = of_int (2 ^ 46)" using round_rat_int[of "2 ^ 46"] by simp
  then show ?thesis using True by (simp add: max_exact_fen_def)
next
  case False
  let ?x = "of_int n / 100 :: rat"
  have "(of_int n :: rat) < of_int (100 * 2 ^ 46)"
    using False assms by (simp only: of_int_less_iff max_exact_fen_def)
  then have "\<bar>?x\<bar> < 2 powi 46" using assms(1) by simp
  from round_rat_error[OF this] have "\<bar>round_rat ?x - ?x\<bar> \<le> 2 powi (46 - 54)" by simp
  moreover have "(2::rat) powi (46 - 54) = 1 / 256" by code_simp
  ultimately have e: "\<bar>round_rat ?x - ?x\<bar> \<le> 1 / 256" by (simp only:)
  have d: "round_rat ?x * 100 - of_int n = (round_rat ?x - ?x) * 100" by (simp add: field_simps)
  have "\<bar>round_rat ?x * 100 - of_int n\<bar> = \<bar>round_rat ?x - ?x\<bar> * 100"
    unfolding d abs_mult by simp
  also have "\<dots> \<le> 1 / 256 * 100" using e by (intro mult_right_mono) auto
  also have "\<dots> < (1/2 :: rat)" by simp
  finally show ?thesis .
qed

lemma toFixed_cents:
  assumes "0 \<le> n" "n \<le> max_exact_fen"
  shows "toFixed 2 (jint n / jint 100) = cents_text n"
proof -
  let ?x = "of_int n / 100 :: rat" and ?y = "round_rat (of_int n / 100)"
  have e: "\<bar>?y * 100 - of_int n\<bar> < 1/2" by (rule round_rat_cents[OF assms])
  have y0: "0 \<le> ?y" using round_rat_pos(1)[of 0 ?x] assms by simp
  have "of_int n \<le> (of_int max_exact_fen :: rat)" using assms by simp
  then have "of_int n \<le> (7036874417766400 :: rat)" by (simp add: max_exact_fen_def)
  moreover have "?y * 100 < of_int n + 1/2" using e unfolding abs_less_iff by linarith
  moreover have "(2 ^ 50 :: rat) = 1125899906842624" by simp
  ultimately have ym: "?y < 2 ^ 50" by linarith
  have q: "jint n / jint 100 = JFin ?y" using y0 ym by (simp add: jint_def rnd_def)
  have fl: "\<lfloor>?y * 10\<^sup>2 + 1/2\<rfloor> = n"
    using e[unfolded abs_less_iff] by (intro floor_unique) simp_all
  have c: "cents_text n = dec (n div 100) @ js ''.'' @ [digit_char (n mod 100 div 10), digit_char (n mod 10)]"
  proof -
    have "n mod 100 mod 10 = n mod 10" by (simp add: mod_mod_cancel)
    then show ?thesis using dec_two[of "n mod 100"] by (simp add: cents_text_def)
  qed
  have "\<not> 10 ^ 21 \<le> \<bar>?y\<bar>" using y0 ym by simp
  then have "toFixed 2 (JFin ?y) = (let m = pad_start 3 0x30 (dec n); d = length m - 2
      in take d m @ js ''.'' @ drop d m)"
    using y0 fl by (simp add: toFixed_def del: One_nat_def)
  then show ?thesis by (simp add: q c dec_cents[OF assms(1)] Let_def)
qed

text \<open>
  C23: an amount of up to \<open>100 * 2 ^ 46\<close> fen (about 70 trillion yuan) is printed exactly: the
  yen sign, the whole yuan, a dot and the two digits of the remaining fen. Neither the division by
  100 nor \<open>toFixed(2)\<close>, both on doubles, can show a wrong digit.
\<close>

theorem formatFen_exact:
  assumes "0 \<le> n" and "n \<le> max_exact_fen"
  shows "formatFen (Some (jint n)) = txt_yen @ cents_text n"
  using toFixed_cents[OF assms] by (simp add: formatFen_def)

theorem formatFen_exact_witness:
  "formatFen (Some (jint 1999)) = txt_yen @ js ''19.99''"
proof -
  have "formatFen (Some (jint 1999)) = txt_yen @ cents_text 1999"
    by (rule formatFen_exact) (simp_all add: max_exact_fen_def)
  also have "cents_text 1999 = js ''19.99''" by code_simp
  finally show ?thesis .
qed

text \<open>
  The bound of the previous property is tight. One fen above it the printed amount is wrong: the division by 100
  rounds to a double whose two decimals are those of the next fen, although the amount itself is a
  safe integer.
\<close>

theorem formatFen_bound_tight:
  "formatFen (Some (jint (max_exact_fen + 1))) = txt_yen @ cents_text (max_exact_fen + 2)"
proof -
  have r: "round_rat (7036874417766401 / 100) = 4503599627370497 / 64" by code_simp
  have q: "jint 7036874417766401 / jint 100 = JFin (4503599627370497 / 64)"
    by (simp add: jint_def rnd_def r of_rounded_def)
  have fl: "\<lfloor>4503599627370497 / 64 * 100 + 1 / 2 :: rat\<rfloor> = 7036874417766402" by code_simp
  show ?thesis
    using fl dec_cents[of 7036874417766402] dec_two[of 2]
    by (simp add: formatFen_def q toFixed_def max_exact_fen_def cents_text_def Let_def)
qed

end
