(* ===== verification/Api.thy ===== *)
theory Api
  imports ApiClient Format
begin

section \<open>The endpoints and the cache keys (order-inventory/api.ts, auth/api.ts)\<close>

text \<open>
  Each function of the API objects is the request it sends; the answer goes through \<open>unwrap\<close>.
  The cache keys of the queries are lists of parts, as the source builds them.
\<close>

datatype http_client = RootApi | Api
datatype http_method = GET | POST | PATCH | PUT

datatype param = PNum jsnum | PStr jsstr | PUndefined
datatype body_value = BNum jsnum | BStr jsstr | BItems "payload_item list"

record request =
  req_client :: http_client
  req_method :: http_method
  req_url :: jsstr
  req_params :: "(jsstr \<times> param) list option"
  req_body :: "(jsstr \<times> body_value) list option"

definition get_req :: "jsstr \<Rightarrow> (jsstr \<times> param) list option \<Rightarrow> request" where
  "get_req url ps = \<lparr>req_client = Api, req_method = GET, req_url = url, req_params = ps, req_body = None\<rparr>"

definition post_req :: "jsstr \<Rightarrow> (jsstr \<times> body_value) list option \<Rightarrow> request" where
  "post_req url b = \<lparr>req_client = Api, req_method = POST, req_url = url, req_params = None, req_body = b\<rparr>"

definition patch_req :: "jsstr \<Rightarrow> (jsstr \<times> body_value) list option \<Rightarrow> request" where
  "patch_req url b = \<lparr>req_client = Api, req_method = PATCH, req_url = url, req_params = None, req_body = b\<rparr>"

definition put_req :: "jsstr \<Rightarrow> (jsstr \<times> body_value) list option \<Rightarrow> request" where
  "put_req url b = \<lparr>req_client = Api, req_method = PUT, req_url = url, req_params = None, req_body = b\<rparr>"

lemmas req_defs = get_req_def post_req_def patch_req_def put_req_def

subsection \<open>Endpoints\<close>

definition healthApi_ping :: request where
  "healthApi_ping = (get_req (js ''/ping'') None)\<lparr>req_client := RootApi\<rparr>"

fun status_param :: "product_list_status option \<Rightarrow> param" where
  "status_param None = PUndefined"
| "status_param (Some ListOnSale) = PNum (jint 1)"
| "status_param (Some ListOffSale) = PNum (jint 2)"
| "status_param (Some ListAll) = PStr (js ''all'')"

text \<open>An omitted argument is \<open>None\<close> and takes the default of the source.\<close>

definition with_default :: "'a \<Rightarrow> 'a option \<Rightarrow> 'a" where
  "with_default d x = (case x of None \<Rightarrow> d | Some v \<Rightarrow> v)"

lemma with_default_simps [simp]: "with_default d None = d" "with_default d (Some v) = v"
  by (simp_all add: with_default_def)

definition productApi_list :: "product_list_status option \<Rightarrow> jsnum option \<Rightarrow> jsnum option \<Rightarrow> request" where
  "productApi_list status page pageSize =
     get_req (js ''/products'') (Some [(js ''status'', status_param status),
       (js ''page'', PNum (with_default (jint 1) page)),
       (js ''page_size'', PNum (with_default (jint 100) pageSize))])"

definition productApi_create :: "create_product_payload \<Rightarrow> request" where
  "productApi_create payload =
     post_req (js ''/products'') (Some [(js ''name'', BStr (cp_name payload)),
       (js ''description'', BStr (cp_description payload)),
       (js ''price_fen'', BNum (cp_price_fen payload))])"

definition productApi_detail :: "jsnum \<Rightarrow> request" where
  "productApi_detail i = get_req (js ''/products/'' @ to_string i) None"

definition productApi_onSale :: "jsnum \<Rightarrow> request" where
  "productApi_onSale i = patch_req (js ''/products/'' @ to_string i @ js ''/on-sale'') None"

definition productApi_offSale :: "jsnum \<Rightarrow> request" where
  "productApi_offSale i = patch_req (js ''/products/'' @ to_string i @ js ''/off-sale'') None"

definition inventoryApi_init :: "init_inventory_payload \<Rightarrow> request" where
  "inventoryApi_init payload =
     post_req (js ''/inventory/init'') (Some [(js ''product_id'', BNum (init_product_id payload)),
       (js ''stock_quantity'', BNum (init_stock_quantity payload))])"

definition inventoryApi_add :: "add_inventory_payload \<Rightarrow> request" where
  "inventoryApi_add payload =
     post_req (js ''/inventory/add'') (Some [(js ''product_id'', BNum (add_product_id payload)),
       (js ''quantity'', BNum (add_quantity payload))])"

definition inventoryApi_detailByProductId :: "jsnum \<Rightarrow> request" where
  "inventoryApi_detailByProductId productId =
     get_req (js ''/inventory/products/'' @ to_string productId) None"

definition inventoryApi_rebuildRedis :: request where
  "inventoryApi_rebuildRedis = post_req (js ''/inventory/redis/rebuild'') None"

definition inventoryApi_reconcileRedis :: request where
  "inventoryApi_reconcileRedis = get_req (js ''/inventory/redis/reconcile'') None"

definition stockLogApi_list :: "jsnum option \<Rightarrow> request" where
  "stockLogApi_list productId =
     get_req (js ''/stock-logs'')
       (case productId of
          None \<Rightarrow> None
        | Some i \<Rightarrow> if jtruthy i then Some [(js ''product_id'', PNum i)] else None)"

definition operationLogApi_list :: "jsnum option \<Rightarrow> jsnum option \<Rightarrow> request" where
  "operationLogApi_list page pageSize =
     get_req (js ''/operation-logs'') (Some [(js ''page'', PNum (with_default (jint 1) page)),
       (js ''page_size'', PNum (with_default (jint 20) pageSize))])"

definition orderApi_create :: "create_order_payload \<Rightarrow> jsstr \<Rightarrow> request" where
  "orderApi_create payload idempotencyKey =
     post_req (js ''/orders'') (Some [(js ''items'', BItems (cop_items payload)),
       (js ''idempotency_key'', BStr idempotencyKey)])"

definition orderApi_list :: "jsnum \<Rightarrow> jsnum \<Rightarrow> request" where
  "orderApi_list page pageSize =
     get_req (js ''/orders'') (Some [(js ''page'', PNum page), (js ''page_size'', PNum pageSize)])"

definition orderApi_detail :: "jsstr \<Rightarrow> request" where
  "orderApi_detail i = get_req (js ''/orders/'' @ i) None"

definition orderApi_pay :: "jsstr \<Rightarrow> request" where
  "orderApi_pay i = patch_req (js ''/orders/'' @ i @ js ''/pay'') None"

definition orderApi_finish :: "jsstr \<Rightarrow> request" where
  "orderApi_finish i = patch_req (js ''/orders/'' @ i @ js ''/finish'') None"

definition orderApi_cancel :: "jsstr \<Rightarrow> request" where
  "orderApi_cancel i = patch_req (js ''/orders/'' @ i @ js ''/cancel'') None"

definition authApi_register :: "jsstr \<Rightarrow> jsstr \<Rightarrow> request" where
  "authApi_register name password =
     post_req (js ''/auth/register'') (Some [(js ''username'', BStr name), (js ''password'', BStr password)])"

definition authApi_login :: "jsstr \<Rightarrow> jsstr \<Rightarrow> request" where
  "authApi_login name password =
     post_req (js ''/auth/login'') (Some [(js ''username'', BStr name), (js ''password'', BStr password)])"

definition authApi_me :: request where
  "authApi_me = get_req (js ''/users/me'') None"

definition authApi_updateProfile :: "jsstr \<Rightarrow> request" where
  "authApi_updateProfile name = put_req (js ''/users/me/profile'') (Some [(js ''nickname'', BStr name)])"

definition authApi_updatePassword :: "jsstr \<Rightarrow> jsstr \<Rightarrow> request" where
  "authApi_updatePassword oldPassword newPassword =
     patch_req (js ''/users/me/password'')
       (Some [(js ''old_password'', BStr oldPassword), (js ''new_password'', BStr newPassword)])"

subsection \<open>Cache keys\<close>

datatype key_value = KVNum jsnum | KVStr jsstr | KVNull
datatype key_part = KStr jsstr | KNum jsnum | KObj "(jsstr \<times> key_value) list"
type_synonym query_key = "key_part list"

definition queryKeys_health :: query_key where "queryKeys_health = [KStr (js ''health'')]"
definition queryKeys_productsRoot :: query_key where "queryKeys_productsRoot = [KStr (js ''products'')]"

fun status_key :: "product_list_status option \<Rightarrow> key_value" where
  "status_key None = KVNum (jint 2)"
| "status_key (Some ListOnSale) = KVNum (jint 1)"
| "status_key (Some ListOffSale) = KVNum (jint 2)"
| "status_key (Some ListAll) = KVStr (js ''all'')"

definition queryKeys_products :: "product_list_status option \<Rightarrow> jsnum option \<Rightarrow> jsnum option \<Rightarrow> query_key" where
  "queryKeys_products status page pageSize =
     [KStr (js ''products''), KObj [(js ''status'', status_key status),
        (js ''page'', KVNum (with_default (jint 1) page)), (js ''pageSize'', KVNum (with_default (jint 100) pageSize))]]"

definition queryKeys_product :: "jsnum \<Rightarrow> query_key" where
  "queryKeys_product i = [KStr (js ''products''), KNum i]"

definition queryKeys_inventory :: "jsnum \<Rightarrow> query_key" where
  "queryKeys_inventory productId = [KStr (js ''inventory''), KNum productId]"

definition queryKeys_stockLogsRoot :: query_key where "queryKeys_stockLogsRoot = [KStr (js ''stock-logs'')]"

definition queryKeys_stockLogs :: "jsnum option \<Rightarrow> query_key" where
  "queryKeys_stockLogs productId =
     [KStr (js ''stock-logs''),
      KObj [(js ''productId'', case productId of None \<Rightarrow> KVNull | Some i \<Rightarrow> KVNum i)]]"

definition queryKeys_operationLogsRoot :: query_key where
  "queryKeys_operationLogsRoot = [KStr (js ''operation-logs'')]"

definition queryKeys_operationLogs :: "jsnum \<Rightarrow> jsnum \<Rightarrow> query_key" where
  "queryKeys_operationLogs page pageSize =
     [KStr (js ''operation-logs''), KObj [(js ''page'', KVNum page), (js ''pageSize'', KVNum pageSize)]]"

definition queryKeys_ordersRoot :: query_key where "queryKeys_ordersRoot = [KStr (js ''orders'')]"

definition queryKeys_orders :: "jsnum \<Rightarrow> jsnum \<Rightarrow> query_key" where
  "queryKeys_orders page pageSize =
     [KStr (js ''orders''), KObj [(js ''page'', KVNum page), (js ''pageSize'', KVNum pageSize)]]"

definition queryKeys_order :: "jsstr \<Rightarrow> query_key" where
  "queryKeys_order i = [KStr (js ''orders''), KStr i]"

definition currentUserKey :: query_key where
  "currentUserKey = [KStr (js ''current-user'')]"

lemmas query_key_defs =
  queryKeys_health_def queryKeys_productsRoot_def queryKeys_products_def queryKeys_product_def
  queryKeys_inventory_def queryKeys_stockLogsRoot_def queryKeys_stockLogs_def
  queryKeys_operationLogsRoot_def queryKeys_operationLogs_def queryKeys_ordersRoot_def
  queryKeys_orders_def queryKeys_order_def currentUserKey_def

end
