(* ===== verification/Queries.thy ===== *)
theory Queries
  imports Api
begin

section \<open>What the pages see of the query library\<close>

text \<open>
  The library that fetches and caches is not part of the repository. A page reads from it, on every
  rendering, the two records below, which are arguments of the model; it gives it the options of its
  queries and, in its handlers, the effects below. What the library does in between is left open:
  each property names what it needs of it.
\<close>

record 'd query_view =
  q_data :: "'d option"
  q_isLoading :: bool
  q_isFetching :: bool
  q_isPending :: bool
  q_isSuccess :: bool
  q_isError :: bool
  q_error :: "js_error option"

record 'v mutation_view =
  m_isPending :: bool
  m_variables :: "'v option"

text \<open>The options of \<open>useQuery\<close>: the cache key, the request of \<open>queryFn\<close> and the two flags.\<close>

record query_options =
  qo_key :: query_key
  qo_request :: request
  qo_enabled :: bool
  qo_keep_previous :: bool

text \<open>
  The effects of a handler besides the new state: messages, the call of a mutation with its
  variables, and the invalidation of the cached queries whose key starts with the given one.
\<close>

datatype 'm effect =
  ToastSuccess jsstr
| ToastError jsstr
| Mutate 'm
| Invalidate query_key

text \<open>The variables of the mutations a handler called, in order.\<close>

fun mutations :: "'m effect list \<Rightarrow> 'm list" where
  "mutations [] = []"
| "mutations (Mutate m # es) = m # mutations es"
| "mutations (ToastSuccess t # es) = mutations es"
| "mutations (ToastError t # es) = mutations es"
| "mutations (Invalidate k # es) = mutations es"

lemma mutations_append [simp]: "mutations (es @ fs) = mutations es @ mutations fs"
  by (induction es rule: mutations.induct) simp_all

text \<open>Invalidating a key reaches every cached key it is a prefix of.\<close>

definition invalidates :: "query_key \<Rightarrow> query_key \<Rightarrow> bool" where
  "invalidates k cached \<longleftrightarrow> take (length k) cached = k"

end
