(* ===== verification/Jsx.thy ===== *)
theory Jsx
  imports JsString
begin

section \<open>Rendered trees\<close>

text \<open>
  What a component returns: a tree of elements with their attributes and event handlers. An
  attribute that only styles an element is left out, one that depends on data or decides what the
  user can do is kept. A handler is the event of the page it raises, or a function from the value
  the control reports to that event.
\<close>

datatype 'e attr =
  OnClick 'e
| OnSubmit 'e
| OnChange "jsstr \<Rightarrow> 'e"
| OnValueChange "jsstr \<Rightarrow> 'e"
| OnOpenChange "bool \<Rightarrow> 'e"
| Disabled bool
| Open bool
| Val jsstr
| MaxLength nat
| TypeButton
| TypeSubmit
| Attr string jsstr
| NumAttr string jsnum
| Flag string bool

datatype 'e node =
  Txt jsstr
| El string "'e attr list" "'e node list"

subsection \<open>Reading attributes\<close>

fun disables :: "'e attr \<Rightarrow> bool" where
  "disables (Disabled b) = b"
| "disables _ = False"

fun closes :: "'e attr \<Rightarrow> bool" where
  "closes (Open b) = (\<not> b)"
| "closes _ = False"

fun type_button :: "'e attr \<Rightarrow> bool" where
  "type_button TypeButton = True"
| "type_button _ = False"

fun max_length :: "'e attr list \<Rightarrow> nat option" where
  "max_length [] = None"
| "max_length (MaxLength n # as) = Some n"
| "max_length (_ # as) = max_length as"

fun value_attr :: "'e attr list \<Rightarrow> jsstr list" where
  "value_attr [] = []"
| "value_attr (Val v # as) = [v]"
| "value_attr (_ # as) = value_attr as"

subsection \<open>What the user can do\<close>

text \<open>
  \<open>submit_button\<close>: the tree holds an enabled submit button, without which a browser submits no
  form (a button is one unless its type says otherwise). \<open>item_values\<close>: the values of the enabled
  items of a select or of a group of radio buttons.
\<close>

definition button_tags :: "string list" where
  "button_tags = [''Button'', ''button'', ''SidebarGroupAction'', ''SidebarMenuAction'']"

lemma button_tags_iff [simp]: "t \<in> set button_tags \<longleftrightarrow>
    t = ''Button'' \<or> t = ''button'' \<or> t = ''SidebarGroupAction'' \<or> t = ''SidebarMenuAction''"
  by (simp add: button_tags_def)

fun submit_button :: "'e node \<Rightarrow> bool" where
  "submit_button (Txt s) = False"
| "submit_button (El t as ks) =
     (t \<in> set button_tags \<and> \<not> list_ex type_button as \<and> \<not> list_ex disables as \<or> list_ex submit_button ks)"

definition item_tags :: "string list" where
  "item_tags =
     [''SelectItem'', ''SelectPrimitive.Item'', ''RadioGroupItem'', ''RadioGroupPrimitive.Item'', ''Item'', ''option'']"

lemma item_tags_iff [simp]: "t \<in> set item_tags \<longleftrightarrow>
    t = ''SelectItem'' \<or> t = ''SelectPrimitive.Item'' \<or> t = ''RadioGroupItem'' \<or> t = ''RadioGroupPrimitive.Item'' \<or>
    t = ''Item'' \<or> t = ''option''"
  by (simp add: item_tags_def)

fun item_values :: "'e node \<Rightarrow> jsstr list" where
  "item_values (Txt s) = []"
| "item_values (El t as ks) =
     (if t \<in> set item_tags \<and> \<not> list_ex disables as then value_attr as else [])
       @ concat (map item_values ks)"

datatype 'e affordance = Act 'e | TypeIn "nat option" "jsstr \<Rightarrow> 'e"

fun attr_affords :: "'e attr list \<Rightarrow> 'e node list \<Rightarrow> 'e attr \<Rightarrow> 'e affordance list" where
  "attr_affords as ks (OnClick e) = [Act e]"
| "attr_affords as ks (OnSubmit e) = (if list_ex submit_button ks then [Act e] else [])"
| "attr_affords as ks (OnChange f) = [TypeIn (max_length as) f]"
| "attr_affords as ks (OnValueChange f) = map (\<lambda>v. Act (f v)) (concat (map item_values ks))"
| "attr_affords as ks (OnOpenChange f) = [Act (f False)]"
| "attr_affords as ks _ = []"

text \<open>
  A disabled element reacts to nothing, a closed dialog is not rendered; otherwise an element
  offers what its own handlers and its children offer.
\<close>

fun affordances :: "'e node \<Rightarrow> 'e affordance list" where
  "affordances (Txt s) = []"
| "affordances (El t as ks) =
     (if list_ex closes as then []
      else (if list_ex disables as then [] else concat (map (attr_affords as ks) as))
        @ concat (map affordances ks))"

fun realises :: "'e affordance \<Rightarrow> 'e \<Rightarrow> bool" where
  "realises (Act e) e' \<longleftrightarrow> e' = e"
| "realises (TypeIn m f) e' \<longleftrightarrow>
     (\<exists>text. e' = f text \<and> (case m of None \<Rightarrow> True | Some n \<Rightarrow> length text \<le> n))"

definition offers :: "'e node \<Rightarrow> 'e \<Rightarrow> bool" where
  "offers n e \<longleftrightarrow> (\<exists>a \<in> set (affordances n). realises a e)"

text \<open>The text a tree shows.\<close>

fun shown :: "'e node \<Rightarrow> jsstr" where
  "shown (Txt s) = s"
| "shown (El t as ks) = concat (map shown ks)"

subsection \<open>Rules for membership\<close>

lemma offers_Txt [simp]: "\<not> offers (Txt s) e"
  by (simp add: offers_def)

text \<open>An element offers what its attributes and its children do, unless it is closed.\<close>

lemma offers_El: "offers (El t as ks) e \<longleftrightarrow> \<not> list_ex closes as \<and>
    (\<not> list_ex disables as \<and> (\<exists>a \<in> set as. \<exists>f \<in> set (attr_affords as ks a). realises f e) \<or>
     (\<exists>k \<in> set ks. offers k e))"
  by (auto simp: offers_def)

lemma offers_plain [simp]: "offers (El t [] ks) e \<longleftrightarrow> (\<exists>k \<in> set ks. offers k e)"
  by (simp add: offers_El)

lemma ex_show_if [simp]: "(\<exists>k \<in> set (show_if c ks). P k) \<longleftrightarrow> c \<and> (\<exists>k \<in> set ks. P k)"
  by simp

lemma realises_TypeIn_None [simp]: "realises (TypeIn None f) e \<longleftrightarrow> (\<exists>text. e = f text)"
  by simp

end
