(* ===== verification/Components.thy ===== *)
theory Components
  imports Jsx ApiClient Format
begin

section \<open>The shared components (order-inventory/components.tsx, confirm-dialog.tsx)\<close>

text \<open>
  The page frame, the rows and badges of the tables, the error panel and the confirmation dialog.
  The controls of the page header that keep their own state (theme, layout, profile) are leaves of
  the tree.
\<close>

definition BusinessPage :: "jsstr \<Rightarrow> jsstr \<Rightarrow> 'e node list \<Rightarrow> 'e node list \<Rightarrow> 'e node" where
  "BusinessPage title description actions children =
     El ''Fragment'' []
       [El ''Header'' []
          [El ''div'' [] [El ''p'' [] [Txt txt_system_name], El ''p'' [] [Txt title]],
           El ''ThemeSwitch'' [] [], El ''ConfigDrawer'' [] [], El ''ProfileDropdown'' [] []],
        El ''Main'' []
          (El ''div'' []
             (El ''div'' [] [El ''h1'' [] [Txt title], El ''p'' [] [Txt description]] # actions)
           # children)]"

definition Field :: "jsstr \<Rightarrow> 'e node list \<Rightarrow> 'e node" where
  "Field label children = El ''label'' [] (El ''span'' [] [Txt label] # children)"

definition LoadingRow :: "nat \<Rightarrow> 'e node" where
  "LoadingRow colSpan =
     El ''TableRow'' []
       [El ''TableCell'' [NumAttr ''colSpan'' (jint (int colSpan))]
          [El ''span'' [] [El ''Loader2'' [] [], Txt txt_loading]]]"

definition EmptyRow :: "nat \<Rightarrow> jsstr \<Rightarrow> 'e node" where
  "EmptyRow colSpan message =
     El ''TableRow'' []
       [El ''TableCell'' [NumAttr ''colSpan'' (jint (int colSpan))] [Txt message]]"

text \<open>An error value of \<open>None\<close> is \<open>null\<close>.\<close>

definition ApiErrorPanel :: "js_error option \<Rightarrow> 'e node list" where
  "ApiErrorPanel err = (case err of
       None \<Rightarrow> []
     | Some e \<Rightarrow> [El ''Card'' [] [El ''CardContent'' [] [Txt (getErrorMessage e)]]])"

definition Badge :: "string \<Rightarrow> jsstr \<Rightarrow> 'e node" where
  "Badge variant label = El ''Badge'' [Attr ''variant'' (js variant)] [Txt label]"

definition ProductStatusBadge :: "jsnum \<Rightarrow> 'e node" where
  "ProductStatusBadge status =
     (let onSale = jeq status PRODUCT_ON_SALE
      in Badge (if onSale then ''default'' else ''secondary'') (productStatusText status))"

definition OrderStatusBadge :: "jsnum \<Rightarrow> 'e node" where
  "OrderStatusBadge status =
     (if jeq status ORDER_CANCELLED then Badge ''destructive'' (orderStatusText status)
      else if jeq status ORDER_FINISHED then Badge ''secondary'' (orderStatusText status)
      else if jeq status ORDER_PAID then Badge ''default'' (orderStatusText status)
      else Badge ''outline'' (orderStatusText status))"

definition StockBizTypeBadge :: "jsnum \<Rightarrow> 'e node" where
  "StockBizTypeBadge t =
     (if jeq t STOCK_ORDER_DEDUCT then Badge ''destructive'' (stockBizTypeText t)
      else if jeq t STOCK_ORDER_ROLLBACK then Badge ''secondary'' (stockBizTypeText t)
      else if jeq t STOCK_MANUAL_ADD then Badge ''default'' (stockBizTypeText t)
      else Badge ''outline'' (stockBizTypeText t))"

subsection \<open>The confirmation dialog\<close>

record 'e confirm_dialog =
  cd_open :: bool
  cd_onOpenChange :: "bool \<Rightarrow> 'e"
  cd_title :: "'e node list"
  cd_disabled :: "bool option"
  cd_desc :: "'e node list"
  cd_cancelBtnText :: "jsstr option"
  cd_confirmText :: "'e node list option"
  cd_destructive :: bool
  cd_isLoading :: bool
  cd_children :: "'e node list"
  cd_form :: "jsstr option"
  cd_handleConfirm :: "'e option"

definition ConfirmDialog :: "'e confirm_dialog \<Rightarrow> 'e node" where
  "ConfirmDialog props =
     (let dis = (case cd_disabled props of None \<Rightarrow> False | Some b \<Rightarrow> b)
      in El ''AlertDialog'' [Open (cd_open props), OnOpenChange (cd_onOpenChange props)]
        [El ''AlertDialogContent'' []
          ([El ''AlertDialogHeader'' []
              [El ''AlertDialogTitle'' [] (cd_title props),
               El ''AlertDialogDescription'' [] [El ''div'' [] (cd_desc props)]]]
           @ cd_children props
           @ [El ''AlertDialogFooter'' []
               [El ''AlertDialogCancel'' [Disabled (cd_isLoading props)]
                  [Txt (case cd_cancelBtnText props of None \<Rightarrow> js ''Cancel'' | Some t \<Rightarrow> t)],
                El ''Button''
                  ([if cd_form props \<noteq> None \<and> cd_form props \<noteq> Some [] then TypeSubmit else TypeButton]
                   @ (case cd_form props of None \<Rightarrow> [] | Some f \<Rightarrow> [Attr ''form'' f])
                   @ (case cd_handleConfirm props of None \<Rightarrow> [] | Some e \<Rightarrow> [OnClick e])
                   @ [Attr ''variant'' (js (if cd_destructive props then ''destructive'' else ''default'')),
                      Disabled (dis \<or> cd_isLoading props)])
                  (case cd_confirmText props of None \<Rightarrow> [Txt (js ''Continue'')] | Some t \<Rightarrow> t)]])])"

subsection \<open>What they offer\<close>

text \<open>The frame offers what its children offer; rows, badges and the error panel offer nothing.\<close>

lemma offers_BusinessPage [simp]:
  "offers (BusinessPage title description actions children) e \<longleftrightarrow>
     (\<exists>k \<in> set actions \<union> set children. offers k e)"
  by (auto simp: BusinessPage_def offers_El)

lemma offers_Field [simp]: "offers (Field label children) e \<longleftrightarrow> (\<exists>k \<in> set children. offers k e)"
  by (auto simp: Field_def offers_El)

lemma offers_Badge [simp]: "\<not> offers (Badge v l) e"
  by (simp add: Badge_def offers_El)

lemma offers_rows [simp]:
  "\<not> offers (LoadingRow n) e" "\<not> offers (EmptyRow n m) e"
  "\<not> offers (ProductStatusBadge s) e" "\<not> offers (OrderStatusBadge s) e"
  "\<not> offers (StockBizTypeBadge s) e"
  by (simp_all add: LoadingRow_def EmptyRow_def ProductStatusBadge_def OrderStatusBadge_def
      StockBizTypeBadge_def offers_El Let_def)

lemma offers_ApiErrorPanel [simp]: "k \<in> set (ApiErrorPanel err) \<Longrightarrow> \<not> offers k e"
  by (auto simp: ApiErrorPanel_def offers_El split: option.splits)

text \<open>
  A closed dialog offers nothing; an open one can be dismissed, and confirmed unless it is disabled
  or waits for an answer.
\<close>

lemma offers_ConfirmDialog:
  assumes "\<forall>k \<in> set (cd_title p @ cd_desc p @ cd_children p). \<not> offers k e"
    and "\<forall>t. cd_confirmText p = Some t \<longrightarrow> (\<forall>k \<in> set t. \<not> offers k e)"
  shows "offers (ConfirmDialog p) e \<longleftrightarrow> cd_open p \<and>
    (e = cd_onOpenChange p False \<or>
     cd_handleConfirm p = Some e \<and> \<not> cd_isLoading p \<and> cd_disabled p \<noteq> Some True)"
  using assms
  by (auto simp: ConfirmDialog_def offers_El Let_def split: option.splits)

end
