(* ===== verification/Paging.thy ===== *)
theory Paging
  imports Queries Components
begin

section \<open>Paginated lists\<close>

text \<open>
  The order page and the product page page through their lists with the same code: the number of
  pages, the two buttons and their handlers. The locale holds what both need of it.
\<close>

definition total_pages :: "jsnum \<Rightarrow> jsnum \<Rightarrow> jsnum" where
  "total_pages count pageSize = math_ceil (count / pageSize)"

definition prev_page :: "jsnum \<Rightarrow> jsnum" where
  "prev_page current = math_max (jint 1) (current - jint 1)"

definition next_page :: "jsnum \<Rightarrow> jsnum" where
  "next_page current = current + jint 1"

definition pager ::
  "jsnum \<Rightarrow> jsnum \<Rightarrow> jsnum \<Rightarrow> bool \<Rightarrow> 'e \<Rightarrow> 'e \<Rightarrow> 'e node" where
  "pager count page totalPages isFetching onPrev onNext =
     El ''div'' []
       [El ''p'' [] [Txt txt_total_prefix, Txt (to_string count), Txt txt_total_middle, Txt (to_string page),
          Txt (js '' / ''), Txt (to_string (math_max totalPages (jint 1))), Txt txt_total_suffix],
        El ''div'' []
          [El ''Button'' [TypeButton, Disabled (jeq page (jint 1) \<or> isFetching), OnClick onPrev]
             [Txt txt_prev_page],
           El ''Button'' [TypeButton, Disabled (jle totalPages page \<or> isFetching), OnClick onNext]
             [Txt txt_next_page]]]"


subsection \<open>The number of pages\<close>

lemma offers_pager:
  "offers (pager count page totalPages isFetching onPrev onNext) e \<longleftrightarrow> \<not> isFetching \<and>
     (e = onPrev \<and> \<not> jeq page (jint 1) \<or> e = onNext \<and> \<not> jle totalPages page)"
  by (auto simp: pager_def offers_El)


text \<open>The quotient of doubles is not exact, but its ceiling is, for every safe number of entries.\<close>

lemma total_pages_exact:
  assumes "0 \<le> n" "n \<le> max_safe"
  shows "total_pages (jint n) (jint 10) = jint ((n + 9) div 10)"
proof -
  let ?x = "of_int n / 10 :: rat" and ?k = "(n + 9) div 10"
  have "(of_int n :: rat) \<le> of_int max_safe" using assms by (simp only: of_int_le_iff)
  then have n: "(of_int n :: rat) \<le> 9007199254740991" by (simp add: max_safe_def)
  then have "\<bar>?x\<bar> < 2 powi 50" using assms(1) by simp
  from round_rat_error[OF this] have "\<bar>round_rat ?x - ?x\<bar> \<le> 2 powi (50 - 54)" by simp
  moreover have "(2::rat) powi (50 - 54) = 1 / 16" by code_simp
  ultimately have e: "\<bar>round_rat ?x - ?x\<bar> \<le> 1 / 16" by (simp only:)
  have k0: "n = 10 * ?k - (10 * ?k - n)" "0 \<le> 10 * ?k - n" "10 * ?k - n \<le> 9" by presburger+
  have lo: "(of_int ?k - 1 :: rat) < round_rat ?x"
  proof -
    have "10 * ?k - 9 \<le> n" using k0 by linarith
    then have "(of_int (10 * ?k - 9) :: rat) \<le> of_int n" by (simp only: of_int_le_iff)
    then have "of_int ?k - 9 / 10 \<le> ?x" by simp
    then show ?thesis using e unfolding abs_le_iff by linarith
  qed
  have "n \<le> 10 * ?k" using k0 by linarith
  then have "(of_int n :: rat) \<le> of_int (10 * ?k)" by (simp only: of_int_le_iff)
  then have "?x \<le> of_int ?k" by simp
  moreover have "\<bar>?k\<bar> \<le> 2 ^ 53" using assms by (simp add: max_safe_def)
  ultimately have hi: "round_rat ?x \<le> of_int ?k" by (intro round_rat_le)
  have c: "\<lceil>round_rat ?x\<rceil> = ?k" using lo hi by (intro ceiling_unique) simp_all
  have "\<bar>round_rat ?x\<bar> < 2 ^ 53"
    using e n assms(1) unfolding abs_le_iff abs_less_iff by (simp add: field_simps)
  then have "jint n / jint 10 = JFin (round_rat ?x)" by (simp add: jint_def rnd_def)
  then show ?thesis using c by (simp add: total_pages_def jint_def)
qed

subsection \<open>The page stays a page\<close>

definition page_ok :: "jsnum \<Rightarrow> bool" where
  "page_ok p \<longleftrightarrow> (case p of JFin x \<Rightarrow> of_int \<lfloor>x\<rfloor> = x \<and> 1 \<le> x \<and> x \<le> of_int max_safe | _ \<Rightarrow> False)"

lemma page_ok_jint [simp]: "page_ok (jint n) \<longleftrightarrow> 1 \<le> n \<and> n \<le> max_safe"
  by (simp add: page_ok_def jint_def)

lemma page_ok_cases:
  assumes "page_ok p" obtains n where "p = jint n" "1 \<le> n" "n \<le> max_safe"
proof -
  from assms have "isInteger p" by (cases p) (auto simp: page_ok_def)
  then obtain n where "p = jint n" by (rule isInteger_cases)
  then show thesis using assms that by simp
qed

lemma page_ok_prev: "page_ok p \<Longrightarrow> page_ok (prev_page p)"
  by (elim page_ok_cases) (simp add: prev_page_def jint_diff max_safe_def)

lemma page_ok_next:
  assumes "page_ok p" "\<not> jle (total_pages (jint n) (jint 10)) p" "0 \<le> n" "n \<le> max_safe"
  shows "page_ok (next_page p)"
proof -
  obtain k where k: "p = jint k" "1 \<le> k" "k \<le> max_safe" using assms(1) by (rule page_ok_cases)
  have "k < (n + 9) div 10" using assms k by (simp add: total_pages_exact)
  moreover have "(n + 9) div 10 \<le> n + 9" using assms(3) by simp
  ultimately have "k + 1 \<le> max_safe" using assms(4) by (simp add: max_safe_def)
  then show ?thesis using k by (simp add: next_page_def jint_add max_safe_def)
qed

text \<open>
  A page whose state carries a page number, moved by the two handlers: the number stays a safe
  integer that is at least 1, as long as the second handler only runs when the button offers it.
\<close>

locale paged =
  fixes page :: "'s \<Rightarrow> jsnum"
    and prev :: "'s \<Rightarrow> 's"
    and following :: "'s \<Rightarrow> 's"
  assumes page_prev: "page (prev s) = prev_page (page s)"
    and page_next: "page (following s) = next_page (page s)"
begin

lemma prev_ok: "page_ok (page s) \<Longrightarrow> page_ok (page (prev s))"
  by (simp add: page_prev page_ok_prev)

lemma following_ok:
  "page_ok (page s) \<Longrightarrow> \<not> jle (total_pages (jint n) (jint 10)) (page s) \<Longrightarrow> 0 \<le> n \<Longrightarrow> n \<le> max_safe
   \<Longrightarrow> page_ok (page (following s))"
  by (simp add: page_next page_ok_next)

lemma prev_following:
  "page_ok (page s) \<Longrightarrow> page s \<noteq> jint max_safe \<Longrightarrow> page (prev (following s)) = page s"
  by (elim page_ok_cases)
     (simp add: page_prev page_next prev_page_def next_page_def jint_arith max_safe_def)

end

end
