(* ===== verification/OrderActions.thy ===== *)
theory OrderActions
  imports Format
begin

section \<open>Which actions an order allows (order-actions.ts)\<close>

text \<open>
  The guards of the three actions on an order, and the state machine of an order they are meant to
  follow: pay or cancel while payment is pending, finish once paid.
\<close>

datatype order_action = Pay | Finish | Cancel

definition isOrderActionAllowed :: "jsnum \<Rightarrow> order_action \<Rightarrow> bool" where
  "isOrderActionAllowed status action =
     (if action = Pay \<or> action = Cancel then jeq status ORDER_PENDING
      else jeq status ORDER_PAID)"

definition requiresOrderActionConfirmation :: "order_action \<Rightarrow> bool" where
  "requiresOrderActionConfirmation action \<longleftrightarrow> action = Finish \<or> action = Cancel"

subsection \<open>The state machine of an order\<close>

inductive order_step :: "jsnum \<Rightarrow> order_action \<Rightarrow> jsnum \<Rightarrow> bool" where
  pay: "order_step ORDER_PENDING Pay ORDER_PAID"
| finish: "order_step ORDER_PAID Finish ORDER_FINISHED"
| cancel: "order_step ORDER_PENDING Cancel ORDER_CANCELLED"

code_pred order_step .

inductive_cases order_stepE: "order_step s a t"
inductive_simps order_step_simps: "order_step s a t"

definition terminal_status :: "jsnum \<Rightarrow> bool" where
  "terminal_status s \<longleftrightarrow> (\<forall>a \<in> {Pay, Finish, Cancel}. \<not> isOrderActionAllowed s a)"

lemma allowed_iff_step: "isOrderActionAllowed s a \<longleftrightarrow> (\<exists>t. order_step s a t)"
  by (cases a) (auto simp: isOrderActionAllowed_def order_step_simps jeq_def order_status_defs)

lemma order_step_unique: "order_step s a t \<Longrightarrow> order_step s a u \<Longrightarrow> t = u"
  by (auto simp: order_step_simps)

lemma allowed_status: "isOrderActionAllowed s a \<Longrightarrow> s = ORDER_PENDING \<or> s = ORDER_PAID"
  by (auto simp: isOrderActionAllowed_def jeq_def split: if_splits)

end
