(* ===== verification/OrderSubmission.thy ===== *)
theory OrderSubmission
  imports Types Json
begin

section \<open>Idempotency keys and row identities (order-submission.ts)\<close>

text \<open>
  The fingerprint of an order, the generation of idempotency keys and row identities, and the
  decision which key a submission carries. The browser's randomness is an argument, one
  \<open>crypto_env\<close> per generated key; the row counter of the module is explicit state.
\<close>

record pending_submission =
  fingerprint :: jsstr
  idempotencyKey :: jsstr

definition stringify_item :: "payload_item \<Rightarrow> jsstr" where
  "stringify_item i =
     stringify_object [(js ''product_id'', pi_product_id i), (js ''quantity'', pi_quantity i)]"

definition fingerprintOrder :: "create_order_payload \<Rightarrow> jsstr" where
  "fingerprintOrder payload = stringify_array (map stringify_item (cop_items payload))"

subsection \<open>Keys\<close>

text \<open>
  What the platform answers when a key is generated: \<open>crypto.randomUUID\<close> may be missing, may
  throw or returns a string; \<open>getRandomValues\<close> may be missing or fills the 16 bytes; the last
  resort reads the clock (in milliseconds) and the base 36 text of \<open>Math.random()\<close>.
\<close>

datatype uuid_call = UuidMissing | UuidThrows | UuidReturns jsstr

record crypto_env =
  random_uuid :: uuid_call
  random_bytes :: "8 word list option"
  date_now :: int
  math_random36 :: jsstr

definition radix_digit :: "int \<Rightarrow> unit16" where
  "radix_digit d = (if d < 10 then word_of_int (48 + d) else word_of_int (87 + d))"

function radix_text :: "int \<Rightarrow> int \<Rightarrow> jsstr" where
  "radix_text r n =
     (if r < 2 \<or> n < r then [radix_digit n]
      else radix_text r (n div r) @ [radix_digit (n mod r)])"
  by pat_completeness auto
termination
  by (relation "measure (\<lambda>(r, n). nat n)") (auto simp: nat_less_iff int_div_less_self)

declare radix_text.simps [simp del]

definition hex_byte :: "8 word \<Rightarrow> jsstr" where
  "hex_byte b = pad_start 2 0x30 (radix_text 16 (uint b))"

definition createIdempotencyKey :: "crypto_env \<Rightarrow> jsstr" where
  "createIdempotencyKey env =
     (let fallback =
        (let randomPart = (case random_bytes env of
             Some bytes \<Rightarrow> concat (map hex_byte bytes)
           | None \<Rightarrow> radix_text 36 (date_now env) @ take 10 (drop 2 (math_random36 env)))
         in js ''idem-'' @ randomPart)
      in case random_uuid env of
           UuidReturns u \<Rightarrow> u
         | UuidThrows \<Rightarrow> fallback
         | UuidMissing \<Rightarrow> fallback)"

definition row_id :: "jsnum \<Rightarrow> jsstr \<Rightarrow> jsstr" where
  "row_id n key = js ''row-'' @ to_string n @ js ''-'' @ key"

text \<open>\<open>rowIdSequence\<close> is the second argument and the second result.\<close>

definition createRowId :: "crypto_env \<Rightarrow> jsnum \<Rightarrow> jsstr \<times> jsnum" where
  "createRowId env rowIdSequence =
     (let n = rowIdSequence + jint 1 in (row_id n (createIdempotencyKey env), n))"

text \<open>
  \<open>createKey\<close> is the result of the call \<open>createKey()\<close>, which is made only when no key is reused
  and may throw.
\<close>

definition prepareOrderSubmission ::
  "create_order_payload \<Rightarrow> pending_submission option \<Rightarrow> ('e, jsstr) thrown
   \<Rightarrow> ('e, pending_submission) thrown" where
  "prepareOrderSubmission payload previous createKey =
     (let fp = fingerprintOrder payload;
          fresh = (case createKey of
              Inl e \<Rightarrow> Inl e
            | Inr k \<Rightarrow> Inr \<lparr>fingerprint = fp, idempotencyKey = k\<rparr>)
      in case previous of
           Some p \<Rightarrow> if fingerprint p = fp then Inr p else fresh
         | None \<Rightarrow> fresh)"

subsection \<open>The fingerprint identifies the order\<close>

text \<open>The items the order form can submit: both numbers are positive safe integers.\<close>

definition safe_item :: "payload_item \<Rightarrow> bool" where
  "safe_item i \<longleftrightarrow> isSafeInteger (pi_product_id i) \<and> isSafeInteger (pi_quantity i) \<and>
     jless (jint 0) (pi_product_id i) \<and> jless (jint 0) (pi_quantity i)"

lemma safe_item_cases:
  assumes "safe_item i"
  obtains p q where "i = \<lparr>pi_product_id = jint p, pi_quantity = jint q\<rparr>"
    "0 < p" "p \<le> max_safe" "0 < q" "q \<le> max_safe"
proof -
  obtain p where p: "pi_product_id i = jint p" "\<bar>p\<bar> \<le> max_safe"
    using assms isSafeInteger_cases unfolding safe_item_def by blast
  obtain q where q: "pi_quantity i = jint q" "\<bar>q\<bar> \<le> max_safe"
    using assms isSafeInteger_cases unfolding safe_item_def by blast
  from assms p q that[of p q] show thesis by (cases i) (auto simp: safe_item_def)
qed

definition item_head :: "payload_item \<Rightarrow> jsstr" where
  "item_head i = js ''{'' @ quote_key (js ''product_id'') @ js '':'' @ stringify_number (pi_product_id i)
     @ js '','' @ quote_key (js ''quantity'') @ js '':'' @ stringify_number (pi_quantity i)"

lemma stringify_item_head: "stringify_item i = item_head i @ [0x7D]"
  by (simp add: stringify_item_def item_head_def stringify_object_def) (simp add: js_def)

lemma stringify_number_safe: "0 < p \<Longrightarrow> p \<le> max_safe \<Longrightarrow> stringify_number (jint p) = dec p"
  using to_string_nonneg[of p] by (simp add: jint_def)

lemma not_digit_in: "\<forall>c \<in> set s. is_digit c \<Longrightarrow> \<not> is_digit d \<Longrightarrow> d \<notin> set s"
  by auto

lemma item_head_no_brace: "safe_item i \<Longrightarrow> 0x7D \<notin> set (item_head i)"
proof -
  assume "safe_item i"
  then obtain p q where i: "i = \<lparr>pi_product_id = jint p, pi_quantity = jint q\<rparr>"
    "0 < p" "p \<le> max_safe" "0 < q" "q \<le> max_safe" by (rule safe_item_cases)
  have "(0x7D::unit16) \<notin> set (dec p)" "(0x7D::unit16) \<notin> set (dec q)"
    using not_digit_in[OF dec_digits] i by (simp_all add: is_digit_def)
  then show ?thesis
    using i by (simp add: item_head_def stringify_number_safe quote_key_def) (simp add: js_def)
qed

lemma item_head_inj: "inj_on item_head {i. safe_item i}"
proof (rule inj_onI)
  fix i j assume "i \<in> {i. safe_item i}" "j \<in> {i. safe_item i}" and eq: "item_head i = item_head j"
  then obtain p q p' q' where
    i: "i = \<lparr>pi_product_id = jint p, pi_quantity = jint q\<rparr>" "0 < p" "p \<le> max_safe" "0 < q" "q \<le> max_safe" and
    j: "j = \<lparr>pi_product_id = jint p', pi_quantity = jint q'\<rparr>" "0 < p'" "p' \<le> max_safe" "0 < q'" "q' \<le> max_safe"
    using safe_item_cases by (metis mem_Collect_eq)
  have nc: "(0x2C::unit16) \<notin> set (dec p)" "(0x2C::unit16) \<notin> set (dec p')"
    using not_digit_in[OF dec_digits] i j by (simp_all add: is_digit_def)
  have "dec p @ 0x2C # quote_key (js ''quantity'') @ js '':'' @ dec q =
      dec p' @ 0x2C # quote_key (js ''quantity'') @ js '':'' @ dec q'"
    using eq i j by (simp add: item_head_def stringify_number_safe) (simp add: js_def)
  from append_sep_cancel[OF this nc] have "dec p = dec p'" "dec q = dec q'" by simp_all
  then show "i = j" using i j dec_inject[of p p'] dec_inject[of q q'] by simp
qed

lemma fingerprintOrder_inject:
  assumes "\<forall>i \<in> set (cop_items a). safe_item i" "\<forall>i \<in> set (cop_items b). safe_item i"
  shows "fingerprintOrder a = fingerprintOrder b \<longleftrightarrow> a = b"
proof
  assume "fingerprintOrder a = fingerprintOrder b"
  then have "join (js '','') (map (\<lambda>x. item_head x @ [0x7D]) (cop_items a)) =
      join (js '','') (map (\<lambda>x. item_head x @ [0x7D]) (cop_items b))"
    by (simp add: fingerprintOrder_def stringify_array_def stringify_item_head cong: map_cong)
  then have "cop_items a = cop_items b"
    using assms item_head_no_brace
    by (rule_tac join_inject) (auto intro: inj_on_subset[OF item_head_inj])
  then show "a = b" by simp
qed simp

end
