(* ===== verification/OrderDraft.thy ===== *)
theory OrderDraft
  imports OrderSubmission
begin

section \<open>The rows of the order form (order-draft.ts)\<close>

text \<open>
  The editable rows and the operations on the list of rows. Minting a row identity is a call of
  \<open>generateRowId\<close>, which is an argument here too: a function from its environment and state to the
  new identity and the next state. What the form needs of it is the locale \<open>row_id_source\<close>, and
  \<open>createRowId\<close> of the source provides it.
\<close>

record draft_item =
  rowId :: jsstr
  draft_product_id :: jsstr
  draft_quantity :: jsstr

text \<open>\<open>Partial<Omit<DraftOrderItem, 'rowId'>>\<close>: a field that is absent is \<open>None\<close>.\<close>

record draft_patch =
  patch_product_id :: "jsstr option"
  patch_quantity :: "jsstr option"

definition apply_patch :: "draft_item \<Rightarrow> draft_patch \<Rightarrow> draft_item" where
  "apply_patch item patch =
     item\<lparr>draft_product_id := (case patch_product_id patch of None \<Rightarrow> draft_product_id item | Some v \<Rightarrow> v),
          draft_quantity := (case patch_quantity patch of None \<Rightarrow> draft_quantity item | Some v \<Rightarrow> v)\<rparr>"

definition createDraftOrderItem ::
  "('e \<Rightarrow> 's \<Rightarrow> jsstr \<times> 's) \<Rightarrow> 'e \<Rightarrow> 's \<Rightarrow> draft_item \<times> 's" where
  "createDraftOrderItem generateRowId env s =
     (let (r, s') = generateRowId env s
      in (\<lparr>rowId = r, draft_product_id = [], draft_quantity = js ''1''\<rparr>, s'))"

definition createInitialDraftItems ::
  "('e \<Rightarrow> 's \<Rightarrow> jsstr \<times> 's) \<Rightarrow> 'e \<Rightarrow> 's \<Rightarrow> draft_item list \<times> 's" where
  "createInitialDraftItems generateRowId env s =
     (let (item, s') = createDraftOrderItem generateRowId env s in ([item], s'))"

definition replaceDraftItem :: "draft_item list \<Rightarrow> nat \<Rightarrow> draft_patch \<Rightarrow> draft_item list" where
  "replaceDraftItem items index patch =
     map_index (\<lambda>itemIndex item. if itemIndex = index then apply_patch item patch else item) items"

definition appendDraftItem ::
  "('e \<Rightarrow> 's \<Rightarrow> jsstr \<times> 's) \<Rightarrow> 'e \<Rightarrow> 's \<Rightarrow> draft_item list \<Rightarrow> draft_item list \<times> 's" where
  "appendDraftItem generateRowId env s items =
     (let (item, s') = createDraftOrderItem generateRowId env s in (items @ [item], s'))"

definition removeDraftItem :: "draft_item list \<Rightarrow> nat \<Rightarrow> draft_item list" where
  "removeDraftItem items index =
     map snd (filter (\<lambda>(itemIndex, _). itemIndex \<noteq> index) (zip [0..<length items] items))"

definition resetDraftItems ::
  "('e \<Rightarrow> 's \<Rightarrow> jsstr \<times> 's) \<Rightarrow> 'e \<Rightarrow> 's \<Rightarrow> draft_item list \<times> 's" where
  "resetDraftItems generateRowId env s =
     (let (item, s') = createDraftOrderItem generateRowId env s in ([item], s'))"

text \<open>The results of the operations that mint a row, as pairs.\<close>

definition blank_item :: "jsstr \<Rightarrow> draft_item" where
  "blank_item r = \<lparr>rowId = r, draft_product_id = [], draft_quantity = js ''1''\<rparr>"

lemma mint_eqs:
  "createDraftOrderItem g e s = (blank_item (fst (g e s)), snd (g e s))"
  "createInitialDraftItems g e s = ([blank_item (fst (g e s))], snd (g e s))"
  "resetDraftItems g e s = ([blank_item (fst (g e s))], snd (g e s))"
  "appendDraftItem g e s items = (items @ [blank_item (fst (g e s))], snd (g e s))"
  by (simp_all add: createDraftOrderItem_def createInitialDraftItems_def resetDraftItems_def
      appendDraftItem_def blank_item_def split: prod.splits)

lemma rowId_blank_item [simp]: "rowId (blank_item r) = r"
  by (simp add: blank_item_def)

subsection \<open>Editing keeps the rows\<close>

lemma apply_patch_rowId [simp]: "rowId (apply_patch item patch) = rowId item"
  by (simp add: apply_patch_def)

lemma replaceDraftItem_rowIds [simp]:
  "map rowId (replaceDraftItem items index patch) = map rowId items"
proof -
  have "map rowId (replaceDraftItem items index patch) =
      map_index (\<lambda>i item. rowId (if i = index then apply_patch item patch else item)) items"
    by (simp add: replaceDraftItem_def map_map_index)
  also have "(\<lambda>i item. rowId (if i = index then apply_patch item patch else item)) = (\<lambda>_. rowId)"
    by (auto simp: fun_eq_iff)
  finally show ?thesis by (simp add: map_index_const)
qed

lemma length_replaceDraftItem [simp]: "length (replaceDraftItem items index patch) = length items"
  by (simp add: replaceDraftItem_def)

lemma replaceDraftItem_Nil [simp]: "replaceDraftItem items index patch = [] \<longleftrightarrow> items = []"
  by (metis length_0_conv length_replaceDraftItem)

lemma nth_replaceDraftItem:
  "i < length items \<Longrightarrow> replaceDraftItem items index patch ! i =
     (if i = index then apply_patch (items ! i) patch else items ! i)"
  by (simp add: replaceDraftItem_def)

lemma removeDraftItem_eq:
  "removeDraftItem items index = take index items @ drop (Suc index) items"
proof -
  have "map snd (filter (\<lambda>(i, _). i \<noteq> index) (zip [k..<k + length xs] xs)) =
      (if index < k then xs else take (index - k) xs @ drop (Suc index - k) xs)" for k and xs :: "draft_item list"
  proof (induction xs arbitrary: k)
    case (Cons x xs)
    have u: "[k..<k + length (x # xs)] = k # [Suc k..<Suc k + length xs]"
      by (subst upt_conv_Cons) simp_all
    consider "index < k" | "index = k" | "k < index" by linarith
    then show ?case
      unfolding u using Cons[of "Suc k"]
      by cases (auto simp: Suc_diff_le take_Cons' drop_Cons' Suc_diff_Suc)
  qed simp
  from this[of 0 items] show ?thesis by (simp add: removeDraftItem_def)
qed

lemma length_removeDraftItem:
  "index < length items \<Longrightarrow> length (removeDraftItem items index) = length items - 1"
  by (simp add: removeDraftItem_eq)

lemma removeDraftItem_beyond: "length items \<le> index \<Longrightarrow> removeDraftItem items index = items"
  by (simp add: removeDraftItem_eq)

lemma set_removeDraftItem: "set (removeDraftItem items index) \<subseteq> set items"
  by (auto simp: removeDraftItem_eq dest: in_set_takeD in_set_dropD)

lemma distinct_removeDraftItem:
  "distinct (map rowId items) \<Longrightarrow> distinct (map rowId (removeDraftItem items index))"
proof -
  assume d: "distinct (map rowId items)"
  have "distinct (take index (map rowId items) @ drop (Suc index) (map rowId items))"
    using d set_take_disj_set_drop_if_distinct[of "map rowId items" index "Suc index"] by simp
  then show ?thesis by (simp add: removeDraftItem_eq take_map drop_map)
qed

subsection \<open>The contract of the row identities\<close>

text \<open>
  \<open>issued s\<close> over-approximates the identities minted up to state \<open>s\<close>, \<open>ready s\<close> says that \<open>s\<close> can
  still mint one. A new identity is none of the issued ones, and issued identities stay issued.
\<close>

locale row_id_source =
  fixes generateRowId :: "'e \<Rightarrow> 's \<Rightarrow> jsstr \<times> 's"
    and issued :: "'s \<Rightarrow> jsstr set"
    and ready :: "'s \<Rightarrow> bool"
  assumes new_id: "ready s \<Longrightarrow> fst (generateRowId e s) \<notin> issued s"
    and new_issued: "ready s \<Longrightarrow> fst (generateRowId e s) \<in> issued (snd (generateRowId e s))"
    and issued_mono: "ready s \<Longrightarrow> issued s \<subseteq> issued (snd (generateRowId e s))"
begin

definition rows_ok :: "draft_item list \<Rightarrow> 's \<Rightarrow> bool" where
  "rows_ok items s \<longleftrightarrow> distinct (map rowId items) \<and> rowId ` set items \<subseteq> issued s"

lemma rows_ok_initial:
  "ready s \<Longrightarrow> rows_ok (fst (createInitialDraftItems generateRowId e s)) (snd (generateRowId e s))"
  using new_issued[of s e] by (simp add: rows_ok_def mint_eqs)

lemma rows_ok_append:
  "ready s \<Longrightarrow> rows_ok items s \<Longrightarrow>
   rows_ok (fst (appendDraftItem generateRowId e s items)) (snd (generateRowId e s))"
  using new_id[of s e] new_issued[of s e] issued_mono[of s e]
  by (auto simp: rows_ok_def mint_eqs)

lemma rows_ok_reset:
  "ready s \<Longrightarrow> rows_ok (fst (resetDraftItems generateRowId e s)) (snd (generateRowId e s))"
  using new_issued[of s e] by (simp add: rows_ok_def mint_eqs)

text \<open>After a reset no row keeps an identity it had.\<close>

lemma reset_fresh:
  "ready s \<Longrightarrow> rows_ok items s \<Longrightarrow>
   rowId ` set (fst (resetDraftItems generateRowId e s)) \<inter> rowId ` set items = {}"
  using new_id[of s e] by (auto simp: rows_ok_def mint_eqs)

lemma rows_ok_replace: "rows_ok items s \<Longrightarrow> rows_ok (replaceDraftItem items index patch) s"
  unfolding rows_ok_def using replaceDraftItem_rowIds[of items index patch]
  by (metis set_map)

lemma rows_ok_remove: "rows_ok items s \<Longrightarrow> rows_ok (removeDraftItem items index) s"
  unfolding rows_ok_def using distinct_removeDraftItem[of items index] set_removeDraftItem[of items index]
  by blast

end

subsection \<open>createRowId provides it\<close>

text \<open>
  The identities of a session differ in their counter, whatever the random part is, as long as the
  counter is a safe integer: past \<open>2 ^ 53\<close> it would no longer grow.
\<close>

definition row_seq :: "jsnum \<Rightarrow> int option" where
  "row_seq n = (if isSafeInteger n \<and> jle (jint 0) n
     then (case n of JFin x \<Rightarrow> Some \<lfloor>x\<rfloor> | _ \<Rightarrow> None) else None)"

definition issued_row_ids :: "jsnum \<Rightarrow> jsstr set" where
  "issued_row_ids n = (case row_seq n of
       None \<Rightarrow> UNIV
     | Some m \<Rightarrow> {row_id (jint k) key | k key. 1 \<le> k \<and> k \<le> m})"

definition row_seq_ready :: "jsnum \<Rightarrow> bool" where
  "row_seq_ready n \<longleftrightarrow> (case row_seq n of None \<Rightarrow> False | Some m \<Rightarrow> m < max_safe)"

lemma row_seq_jint [simp]: "0 \<le> m \<Longrightarrow> m \<le> max_safe \<Longrightarrow> row_seq (jint m) = Some m"
  by (simp add: row_seq_def) (simp add: jint_def)

lemma row_seq_ready_cases:
  assumes "row_seq_ready n" obtains m where "n = jint m" "0 \<le> m" "m < max_safe"
proof -
  from assms have s: "isSafeInteger n" "jle (jint 0) n"
    by (auto simp: row_seq_ready_def row_seq_def split: option.splits if_splits)
  then obtain m where m: "n = jint m" "\<bar>m\<bar> \<le> max_safe" by (auto elim: isSafeInteger_cases)
  with s assms that show thesis by (auto simp: row_seq_ready_def)
qed

lemma createRowId_jint:
  assumes "0 \<le> m" "m < max_safe"
  shows "createRowId env (jint m) = (row_id (jint (m + 1)) (createIdempotencyKey env), jint (m + 1))"
  using jint_add[of m 1] assms by (simp add: createRowId_def max_safe_def Let_def)

lemma row_id_inject:
  assumes "0 \<le> j" "j \<le> max_safe" "0 \<le> k" "k \<le> max_safe"
  shows "row_id (jint j) a = row_id (jint k) b \<longleftrightarrow> j = k \<and> a = b"
proof
  assume "row_id (jint j) a = row_id (jint k) b"
  then have eq: "dec j @ 0x2D # a = dec k @ 0x2D # b"
    using assms by (simp add: row_id_def to_string_nonneg) (simp add: js_def)
  have "(0x2D::unit16) \<notin> set (dec j)" "(0x2D::unit16) \<notin> set (dec k)"
    using not_digit_in[OF dec_digits] assms by (simp_all add: is_digit_def)
  from append_sep_cancel[OF eq this] show "j = k \<and> a = b" using assms dec_inject by auto
qed simp

interpretation row: row_id_source createRowId issued_row_ids row_seq_ready
proof
  fix s :: jsnum and e
  assume "row_seq_ready s"
  then obtain m where m: "s = jint m" "0 \<le> m" "m < max_safe" by (rule row_seq_ready_cases)
  show "fst (createRowId e s) \<notin> issued_row_ids s"
    using m row_id_inject by (auto simp: createRowId_jint issued_row_ids_def)
  show "fst (createRowId e s) \<in> issued_row_ids (snd (createRowId e s))"
    using m by (auto simp: createRowId_jint issued_row_ids_def)
  show "issued_row_ids s \<subseteq> issued_row_ids (snd (createRowId e s))"
    using m by (fastforce simp: createRowId_jint issued_row_ids_def)
qed

end
