(* ===== verification/Orders.thy ===== *)
theory Orders
  imports Paging OrderActions OrderDraft
begin

section \<open>The state and the handlers of the order page (orders.tsx)\<close>

text \<open>
  The state of \<open>OrdersPage\<close>, one function per handler and per callback of its mutations. A handler
  reads the state it was rendered with; the row counter of the module order-submission is the last
  field. Each event may draw on the platform's randomness once.
\<close>

record orders_state =
  os_items :: "draft_item list"
  selectedOrderId :: "jsstr option"
  os_page :: jsnum
  pendingSubmission :: "pending_submission option"
  actionConfirmation :: "(order \<times> order_action) option"
  rowIdSequence :: jsnum

datatype order_mutation =
  CreateOrder create_order_payload jsstr
| OrderAct jsstr order_action

type_synonym order_effect = "order_mutation effect"
type_synonym orders_result = "orders_state \<times> order_effect list"

text \<open>The requests of the two \<open>mutationFn\<close>s.\<close>

fun order_mutation_request :: "order_mutation \<Rightarrow> request" where
  "order_mutation_request (CreateOrder payload key) = orderApi_create payload key"
| "order_mutation_request (OrderAct i action) =
     (if action = Pay then orderApi_pay i
      else if action = Finish then orderApi_finish i
      else orderApi_cancel i)"

fun actionText :: "order_action \<Rightarrow> jsstr" where
  "actionText Pay = txt_pay"
| "actionText Finish = txt_finish"
| "actionText Cancel = txt_cancel"

definition orderPageSize :: jsnum where "orderPageSize = jint 10"

definition orders_initial :: "crypto_env \<Rightarrow> jsnum \<Rightarrow> orders_state" where
  "orders_initial env seq =
     (let (rows, seq') = createInitialDraftItems createRowId env seq
      in \<lparr>os_items = rows, selectedOrderId = None, os_page = jint 1, pendingSubmission = None,
          actionConfirmation = None, rowIdSequence = seq'\<rparr>)"

subsection \<open>Queries\<close>

definition ordersQuery :: "orders_state \<Rightarrow> query_options" where
  "ordersQuery s = \<lparr>qo_key = queryKeys_orders (os_page s) orderPageSize,
     qo_request = orderApi_list (os_page s) orderPageSize, qo_enabled = True, qo_keep_previous = True\<rparr>"

definition onSaleProductsQuery :: query_options where
  "onSaleProductsQuery = \<lparr>qo_key = queryKeys_products (Some ListOnSale) None None,
     qo_request = productApi_list (Some ListOnSale) None None, qo_enabled = True, qo_keep_previous = False\<rparr>"

definition orderDetailQuery :: "orders_state \<Rightarrow> query_options" where
  "orderDetailQuery s =
     (let i = (case selectedOrderId s of None \<Rightarrow> [] | Some i \<Rightarrow> i)
      in \<lparr>qo_key = queryKeys_order i, qo_request = orderApi_detail i,
          qo_enabled = (selectedOrderId s \<noteq> None), qo_keep_previous = False\<rparr>)"

subsection \<open>Handlers\<close>

definition updateItem :: "nat \<Rightarrow> draft_patch \<Rightarrow> orders_state \<Rightarrow> orders_result" where
  "updateItem index patch s = (s\<lparr>os_items := replaceDraftItem (os_items s) index patch\<rparr>, [])"

definition requestOrderAction :: "order \<Rightarrow> order_action \<Rightarrow> orders_state \<Rightarrow> orders_result" where
  "requestOrderAction ord action s =
     (if \<not> requiresOrderActionConfirmation action then (s, [Mutate (OrderAct (ord_id ord) action)])
      else (s\<lparr>actionConfirmation := Some (ord, action)\<rparr>, []))"

definition removeItem :: "nat \<Rightarrow> orders_state \<Rightarrow> orders_result" where
  "removeItem index s = (s\<lparr>os_items := removeDraftItem (os_items s) index\<rparr>, [])"

definition addItem :: "crypto_env \<Rightarrow> orders_state \<Rightarrow> orders_result" where
  "addItem env s =
     (let (rows, seq) = appendDraftItem createRowId env (rowIdSequence s) (os_items s)
      in (s\<lparr>os_items := rows, rowIdSequence := seq\<rparr>, []))"

definition handleResetForm :: "crypto_env \<Rightarrow> orders_state \<Rightarrow> orders_result" where
  "handleResetForm env s =
     (let (rows, seq) = resetDraftItems createRowId env (rowIdSequence s)
      in (s\<lparr>os_items := rows, rowIdSequence := seq, pendingSubmission := None,
            selectedOrderId := None\<rparr>, []))"

definition parse_item :: "draft_item \<Rightarrow> payload_item" where
  "parse_item item = \<lparr>pi_product_id = Number (draft_product_id item), pi_quantity = Number (draft_quantity item)\<rparr>"

definition invalid_item :: "payload_item \<Rightarrow> bool" where
  "invalid_item i \<longleftrightarrow> \<not> isInteger (pi_product_id i) \<or> jle (pi_product_id i) (jint 0) \<or>
     \<not> isInteger (pi_quantity i) \<or> jle (pi_quantity i) (jint 0)"

text \<open>\<open>Inl\<close> is the message of the toast with which the parse returns \<open>null\<close>.\<close>

definition parseCreateOrderPayload :: "draft_item list \<Rightarrow> jsstr + create_order_payload" where
  "parseCreateOrderPayload items =
     (let parsed = map parse_item items
      in if list_ex invalid_item parsed then Inl txt_items_invalid
         else if length (remdups (map pi_product_id parsed)) \<noteq> length parsed then Inl txt_items_duplicate
         else Inr \<lparr>cop_items = parsed\<rparr>)"

text \<open>
  \<open>createKey\<close> is the result of the default argument of \<open>prepareOrderSubmission\<close>, evaluated when it is
  called; \<open>getErrorMessage\<close> of what it throws is shown.
\<close>

definition handleCreateOrder_with ::
  "(js_error, jsstr) thrown \<Rightarrow> orders_state \<Rightarrow> orders_result" where
  "handleCreateOrder_with createKey s =
     (case parseCreateOrderPayload (os_items s) of
        Inl message \<Rightarrow> (s, [ToastError message])
      | Inr payload \<Rightarrow>
          try_catch (prepareOrderSubmission payload (pendingSubmission s) createKey)
            (\<lambda>submission. (s\<lparr>pendingSubmission := Some submission\<rparr>,
               [Mutate (CreateOrder payload (idempotencyKey submission))]))
            (\<lambda>err. (s, [ToastError (let m = getErrorMessage err in if m \<noteq> [] then m else txt_key_failed)])))"

definition handleCreateOrder :: "crypto_env \<Rightarrow> orders_state \<Rightarrow> orders_result" where
  "handleCreateOrder env s = handleCreateOrder_with (Inr (createIdempotencyKey env)) s"

definition prevPage :: "orders_state \<Rightarrow> orders_result" where
  "prevPage s = (s\<lparr>os_page := prev_page (os_page s)\<rparr>, [])"

definition nextPage :: "orders_state \<Rightarrow> orders_result" where
  "nextPage s = (s\<lparr>os_page := next_page (os_page s)\<rparr>, [])"

definition confirmOpenChange :: "bool \<Rightarrow> orders_state \<Rightarrow> orders_result" where
  "confirmOpenChange isOpen s = (if \<not> isOpen then (s\<lparr>actionConfirmation := None\<rparr>, []) else (s, []))"

definition handleConfirm :: "orders_state \<Rightarrow> orders_result" where
  "handleConfirm s = (case actionConfirmation s of
       None \<Rightarrow> (s, [])
     | Some (ord, action) \<Rightarrow> (s, [Mutate (OrderAct (ord_id ord) action)]))"

subsection \<open>Callbacks of the mutations\<close>

definition createOrder_onSuccess :: "crypto_env \<Rightarrow> order \<Rightarrow> orders_state \<Rightarrow> orders_result" where
  "createOrder_onSuccess env ord s =
     (let (rows, seq) = resetDraftItems createRowId env (rowIdSequence s)
      in (s\<lparr>os_items := rows, rowIdSequence := seq, pendingSubmission := None,
            selectedOrderId := Some (ord_id ord), os_page := jint 1\<rparr>,
          [ToastSuccess (txt_order_created @ order_no ord),
           Invalidate queryKeys_ordersRoot, Invalidate queryKeys_stockLogsRoot]))"

definition createOrder_onError :: "js_error \<Rightarrow> orders_state \<Rightarrow> orders_result" where
  "createOrder_onError err s =
     (s\<lparr>pendingSubmission := None\<rparr>, [ToastError (getErrorMessage err)])"

text \<open>\<open>selected\<close> is the \<open>selectedOrderId\<close> of the rendering whose callback the library calls.\<close>

definition orderAction_onSuccess ::
  "jsstr option \<Rightarrow> order_action \<Rightarrow> orders_state \<Rightarrow> orders_result" where
  "orderAction_onSuccess selected action s =
     (s\<lparr>actionConfirmation := None\<rparr>,
      [ToastSuccess (txt_order @ actionText action @ txt_success),
       Invalidate queryKeys_ordersRoot, Invalidate queryKeys_stockLogsRoot]
      @ (case selected of None \<Rightarrow> []
         | Some i \<Rightarrow> if i = [] then [] else [Invalidate (queryKeys_order i)]))"

definition orderAction_onError :: "js_error \<Rightarrow> orders_state \<Rightarrow> orders_result" where
  "orderAction_onError err s = (s, [ToastError (getErrorMessage err)])"

subsection \<open>All events\<close>

datatype orders_event =
  UpdateItem nat draft_patch
| RemoveItem nat
| AddItem
| ResetForm
| SubmitOrder
| ShowDetail jsstr
| RequestAction order order_action
| PrevPage
| NextPage
| ConfirmOpenChange bool
| ConfirmAction

datatype orders_callback =
  CreateSucceeded order
| CreateFailed js_error
| ActionSucceeded "jsstr option" order_action
| ActionFailed js_error

fun orders_handle :: "crypto_env \<Rightarrow> orders_event \<Rightarrow> orders_state \<Rightarrow> orders_result" where
  "orders_handle env (UpdateItem index patch) s = updateItem index patch s"
| "orders_handle env (RemoveItem index) s = removeItem index s"
| "orders_handle env AddItem s = addItem env s"
| "orders_handle env ResetForm s = handleResetForm env s"
| "orders_handle env SubmitOrder s = handleCreateOrder env s"
| "orders_handle env (ShowDetail i) s = (s\<lparr>selectedOrderId := Some i\<rparr>, [])"
| "orders_handle env (RequestAction ord action) s = requestOrderAction ord action s"
| "orders_handle env PrevPage s = prevPage s"
| "orders_handle env NextPage s = nextPage s"
| "orders_handle env (ConfirmOpenChange isOpen) s = confirmOpenChange isOpen s"
| "orders_handle env ConfirmAction s = handleConfirm s"

fun orders_on :: "crypto_env \<Rightarrow> orders_callback \<Rightarrow> orders_state \<Rightarrow> orders_result" where
  "orders_on env (CreateSucceeded ord) s = createOrder_onSuccess env ord s"
| "orders_on env (CreateFailed err) s = createOrder_onError err s"
| "orders_on env (ActionSucceeded selected action) s = orderAction_onSuccess selected action s"
| "orders_on env (ActionFailed err) s = orderAction_onError err s"

subsection \<open>Values computed while rendering\<close>

definition add_estimate :: "product list \<Rightarrow> jsnum \<Rightarrow> draft_item \<Rightarrow> jsnum" where
  "add_estimate products acc item =
     (let quantity = Number (draft_quantity item)
      in case find (\<lambda>p. jeq (prod_id p) (Number (draft_product_id item))) products of
           None \<Rightarrow> acc
         | Some p \<Rightarrow> if \<not> isInteger quantity \<or> jle quantity (jint 0) then acc
             else acc + price_fen p * quantity)"

definition estimatedAmountFen :: "product list \<Rightarrow> draft_item list \<Rightarrow> jsnum" where
  "estimatedAmountFen products items = foldl (add_estimate products) (jint 0) items"

end
