(* ===== verification/OrdersView.thy ===== *)
theory OrdersView
  imports Orders Components
begin

section \<open>The order page as it is rendered (orders.tsx)\<close>

text \<open>
  What \<open>OrdersPage\<close> returns, in the order of the source: the form, the detail, the table and the
  confirmation dialog. \<open>orders_lib\<close> is what the page reads from the query library, \<open>intl\<close> the
  platform's date formatting.
\<close>

record orders_lib =
  ol_list :: "order_list query_view"
  ol_products :: "product_list query_view"
  ol_detail :: "order_detail query_view"
  ol_create :: "(create_order_payload \<times> jsstr) mutation_view"
  ol_action :: "(jsstr \<times> order_action) mutation_view"

definition list_orders :: "orders_lib \<Rightarrow> order list" where
  "list_orders lib = (case q_data (ol_list lib) of None \<Rightarrow> [] | Some d \<Rightarrow> ol_orders d)"

definition list_total :: "orders_lib \<Rightarrow> jsnum" where
  "list_total lib = (case q_data (ol_list lib) of None \<Rightarrow> jint 0 | Some d \<Rightarrow> ol_total d)"

definition onSaleProducts :: "orders_lib \<Rightarrow> product list" where
  "onSaleProducts lib = (case q_data (ol_products lib) of None \<Rightarrow> [] | Some d \<Rightarrow> pl_products d)"

subsection \<open>OrderActions\<close>

definition action_button ::
  "string \<Rightarrow> string option \<Rightarrow> jsnum \<Rightarrow> order_action option \<Rightarrow> order_action \<Rightarrow> (order_action \<Rightarrow> 'e) \<Rightarrow> 'e node" where
  "action_button sz variant status pendingAction action onAction =
     El ''Button''
       ([Attr ''size'' (js sz)]
        @ (case variant of None \<Rightarrow> [] | Some v \<Rightarrow> [Attr ''variant'' (js v)])
        @ [Disabled (pendingAction \<noteq> None \<or> \<not> isOrderActionAllowed status action),
           OnClick (onAction action)])
       (show_if (pendingAction = Some action) [El ''Loader2'' [] []] @ [Txt (actionText action)])"

definition OrderActions ::
  "order \<Rightarrow> order_action option \<Rightarrow> bool \<Rightarrow> (order_action \<Rightarrow> 'e) \<Rightarrow> 'e node" where
  "OrderActions ord pendingAction isCompact onAction =
     (let sz = (if isCompact then ''sm'' else ''default'')
      in El ''div'' []
        [action_button sz None (ord_status ord) pendingAction Pay onAction,
         action_button sz (Some ''outline'') (ord_status ord) pendingAction Finish onAction,
         action_button sz (Some ''outline'') (ord_status ord) pendingAction Cancel onAction])"

text \<open>The action in flight for one order: the mutation's variables, when they name the order.\<close>

definition pending_action :: "orders_lib \<Rightarrow> order \<Rightarrow> order_action option" where
  "pending_action lib ord =
     (if m_isPending (ol_action lib) then
        (case m_variables (ol_action lib) of
           None \<Rightarrow> None
         | Some (i, action) \<Rightarrow> if i = ord_id ord then Some action else None)
      else None)"

subsection \<open>The form\<close>

definition product_items :: "orders_lib \<Rightarrow> orders_event node list" where
  "product_items lib =
     show_if (q_isLoading (ol_products lib))
       [El ''SelectItem'' [Val (js ''__loading''), Disabled True] [Txt txt_products_loading]]
     @ show_if (\<not> q_isLoading (ol_products lib) \<and> length (onSaleProducts lib) = 0)
       [El ''SelectItem'' [Val (js ''__empty''), Disabled True] [Txt txt_no_products_on_sale]]
     @ map (\<lambda>p. El ''SelectItem'' [Val (to_string (prod_id p))]
         [Txt (prod_name p), Txt txt_dot_sep, Txt (formatFen (Some (price_fen p)))]) (onSaleProducts lib)"

definition order_row :: "orders_lib \<Rightarrow> draft_item list \<Rightarrow> nat \<Rightarrow> draft_item \<Rightarrow> orders_event node" where
  "order_row lib items index item =
     El ''div'' [Attr ''key'' (rowId item)]
       [Field (if index = 0 then txt_product else js '' '')
          [El ''Select'' [Val (draft_product_id item),
             OnValueChange (\<lambda>v. UpdateItem index \<lparr>patch_product_id = Some v, patch_quantity = None\<rparr>)]
            [El ''SelectTrigger'' [] [El ''SelectValue'' [Attr ''placeholder'' txt_select_product] []],
             El ''SelectContent'' [] (product_items lib)]],
        Field (if index = 0 then txt_quantity else js '' '')
          [El ''Input'' [Val (draft_quantity item),
             OnChange (\<lambda>v. UpdateItem index \<lparr>patch_product_id = None, patch_quantity = Some v\<rparr>),
             Attr ''inputMode'' (js ''numeric''), Attr ''placeholder'' (js ''1'')] []],
        El ''Button'' [TypeButton, Disabled (length items = 1), OnClick (RemoveItem index)]
          [El ''Trash2'' [] [], El ''span'' [] [Txt txt_remove_row]]]"

definition order_form :: "orders_lib \<Rightarrow> orders_state \<Rightarrow> orders_event node" where
  "order_form lib s =
     El ''Card'' []
       [El ''CardHeader'' []
          [El ''CardTitle'' [] [Txt txt_create_order], El ''CardDescription'' [] [Txt txt_create_order_desc]],
        El ''CardContent'' []
          [El ''form'' [OnSubmit SubmitOrder]
            [El ''div'' [] (map_index (order_row lib (os_items s)) (os_items s)),
             El ''p'' [] [Txt txt_estimated,
               El ''span'' [] [Txt (formatFen (Some (estimatedAmountFen (onSaleProducts lib) (os_items s))))]],
             El ''div'' []
               [El ''Button'' [TypeButton, Attr ''variant'' (js ''outline''), OnClick AddItem]
                  [El ''Plus'' [] [], Txt txt_add_product],
                El ''Button'' [TypeButton, Attr ''variant'' (js ''outline''), OnClick ResetForm]
                  [El ''RotateCcw'' [] [], Txt txt_clear_form]],
             El ''Button'' [TypeSubmit,
                 Disabled (m_isPending (ol_create lib) \<or> q_isLoading (ol_products lib)
                   \<or> length (onSaleProducts lib) = 0)]
               (show_if (m_isPending (ol_create lib)) [El ''Loader2'' [] []] @ [Txt txt_submit_order])]]]"

subsection \<open>The detail\<close>

definition detail_row :: "order_item \<Rightarrow> 'e node" where
  "detail_row item =
     El ''TableRow'' [NumAttr ''key'' (oi_id item)]
       [El ''TableCell'' [] [Txt (js ''#''), Txt (to_string (oi_product_id item)), Txt (js '' ''), Txt (oi_product_name item)],
        El ''TableCell'' [] [Txt (formatFen (Some (oi_product_price_fen item)))],
        El ''TableCell'' [] [Txt (to_string (oi_quantity item))],
        El ''TableCell'' [] [Txt (formatFen (Some (subtotal_fen item)))]]"

definition order_detail_card :: "orders_lib \<Rightarrow> orders_event node" where
  "order_detail_card lib =
     El ''Card'' []
       [El ''CardHeader'' []
          [El ''CardTitle'' [] [Txt txt_order_detail], El ''CardDescription'' [] [Txt txt_order_detail_desc]],
        El ''CardContent'' []
          (case q_data (ol_detail lib) of
             Some d \<Rightarrow>
               [El ''div'' []
                  [El ''div'' []
                     [El ''div'' []
                        [El ''p'' [] [Txt (js ''#''), Txt (ord_id (det_order d)), Txt (js '' ''), Txt (order_no (det_order d))],
                         El ''p'' [] [Txt (formatFen (Some (total_amount_fen (det_order d))))]],
                      OrderStatusBadge (ord_status (det_order d))],
                   El ''Table'' []
                     [El ''TableHeader'' []
                        [El ''TableRow'' []
                          [El ''TableHead'' [] [Txt txt_product], El ''TableHead'' [] [Txt txt_unit_price],
                           El ''TableHead'' [] [Txt txt_quantity], El ''TableHead'' [] [Txt txt_subtotal]]],
                      El ''TableBody'' [] (map detail_row (det_items d))],
                   OrderActions (det_order d) (pending_action lib (det_order d)) False (RequestAction (det_order d))]]
           | None \<Rightarrow>
               [El ''div'' []
                  [Txt (if q_isFetching (ol_detail lib) then txt_detail_loading else txt_choose_order)]])]"

subsection \<open>The table\<close>

definition order_table_row ::
  "(jsstr \<Rightarrow> jsstr option) \<Rightarrow> orders_lib \<Rightarrow> order \<Rightarrow> orders_event node" where
  "order_table_row intl lib ord =
     El ''TableRow'' [Attr ''key'' (ord_id ord)]
       [El ''TableCell'' [] [Txt (js ''#''), Txt (ord_id ord)],
        El ''TableCell'' [] [Txt (order_no ord)],
        El ''TableCell'' [] [Txt (formatFen (Some (total_amount_fen ord)))],
        El ''TableCell'' [] [OrderStatusBadge (ord_status ord)],
        El ''TableCell'' [] [Txt (formatDateTime intl (Some (ord_created_at ord)))],
        El ''TableCell'' []
          [El ''div'' []
            [El ''Button'' [Attr ''size'' (js ''sm''), Attr ''variant'' (js ''outline''), OnClick (ShowDetail (ord_id ord))]
               [Txt txt_detail],
             OrderActions ord (pending_action lib ord) True (RequestAction ord)]]]"

definition orders_table ::
  "(jsstr \<Rightarrow> jsstr option) \<Rightarrow> orders_lib \<Rightarrow> orders_state \<Rightarrow> orders_event node" where
  "orders_table intl lib s =
     El ''Card'' []
       [El ''CardHeader'' []
          [El ''CardTitle'' [] [Txt txt_order_list], El ''CardDescription'' [] [Txt txt_order_list_desc]],
        El ''CardContent'' []
          (ApiErrorPanel (q_error (ol_list lib))
           @ [El ''Table'' []
                [El ''TableHeader'' []
                   [El ''TableRow'' []
                     [El ''TableHead'' [] [Txt (js ''ID'')], El ''TableHead'' [] [Txt txt_order_no],
                      El ''TableHead'' [] [Txt txt_amount], El ''TableHead'' [] [Txt txt_status],
                      El ''TableHead'' [] [Txt txt_created_at], El ''TableHead'' [] [Txt txt_operations]]],
                 El ''TableBody'' []
                   (show_if (q_isLoading (ol_list lib)) [LoadingRow 6]
                    @ show_if (\<not> q_isLoading (ol_list lib)) (map (order_table_row intl lib) (list_orders lib))
                    @ show_if (\<not> q_isLoading (ol_list lib) \<and> length (list_orders lib) = 0)
                        [EmptyRow 6 txt_no_orders])],
              pager (list_total lib) (os_page s) (total_pages (list_total lib) orderPageSize)
                (q_isFetching (ol_list lib)) PrevPage NextPage])]"

subsection \<open>The dialog and the page\<close>

definition confirm_dialog_props :: "orders_lib \<Rightarrow> orders_state \<Rightarrow> orders_event confirm_dialog" where
  "confirm_dialog_props lib s =
     (let c = actionConfirmation s;
          cancelling = (case c of Some (_, Cancel) \<Rightarrow> True | _ \<Rightarrow> False);
          no = (case c of None \<Rightarrow> [] | Some (ord, _) \<Rightarrow> order_no ord)
      in \<lparr>cd_open = (c \<noteq> None),
          cd_onOpenChange = ConfirmOpenChange,
          cd_title = [Txt (if cancelling then txt_confirm_cancel_title else txt_confirm_finish_title)],
          cd_disabled = None,
          cd_desc = [Txt (if cancelling then txt_cancel_desc_prefix @ no @ txt_cancel_desc_suffix
                          else txt_finish_desc_prefix @ no @ txt_finish_desc_suffix)],
          cd_cancelBtnText = Some txt_go_back,
          cd_confirmText = Some [Txt (if cancelling then txt_confirm_cancel else txt_confirm_finish)],
          cd_destructive = cancelling,
          cd_isLoading = m_isPending (ol_action lib),
          cd_children = [],
          cd_form = None,
          cd_handleConfirm = Some ConfirmAction\<rparr>)"

definition OrdersPage ::
  "(jsstr \<Rightarrow> jsstr option) \<Rightarrow> orders_lib \<Rightarrow> orders_state \<Rightarrow> orders_event node" where
  "OrdersPage intl lib s =
     BusinessPage txt_orders_title txt_orders_desc []
       [El ''div'' []
          [El ''div'' [] [order_form lib s, order_detail_card lib],
           orders_table intl lib s],
        ConfirmDialog (confirm_dialog_props lib s)]"

subsection \<open>What the page offers\<close>

lemma ex_order_action: "(\<exists>a. P a) \<longleftrightarrow> P Pay \<or> P Finish \<or> P Cancel"
  by (metis order_action.exhaust)

lemma offers_OrderActions [simp]:
  "offers (OrderActions ord pending isCompact onAction) e \<longleftrightarrow>
     (\<exists>a. e = onAction a \<and> pending = None \<and> isOrderActionAllowed (ord_status ord) a)"
proof -
  have b: "offers (action_button sz variant (ord_status ord) pending a onAction) e \<longleftrightarrow>
      e = onAction a \<and> pending = None \<and> isOrderActionAllowed (ord_status ord) a" for sz variant a
    by (auto simp: action_button_def offers_El split: option.splits)
  show ?thesis by (simp add: OrderActions_def b Let_def ex_order_action)
qed

lemma offers_product_items [simp]: "k \<in> set (product_items lib) \<Longrightarrow> \<not> offers k e"
  by (auto simp: product_items_def offers_El split: if_splits)

lemma item_values_product_items:
  "concat (map item_values (product_items lib)) = map (\<lambda>p. to_string (prod_id p)) (onSaleProducts lib)"
  by (auto simp: product_items_def show_if_def comp_def)

text \<open>A row of the form offers the products on sale, any quantity, and its removal unless it is the last.\<close>

lemma offers_order_row:
  "offers (order_row lib items i item) e \<longleftrightarrow>
     (\<exists>p \<in> set (onSaleProducts lib).
        e = UpdateItem i \<lparr>patch_product_id = Some (to_string (prod_id p)), patch_quantity = None\<rparr>) \<or>
     (\<exists>v. e = UpdateItem i \<lparr>patch_product_id = None, patch_quantity = Some v\<rparr>) \<or>
     (length items \<noteq> 1 \<and> e = RemoveItem i)"
  by (auto simp: order_row_def offers_El item_values_product_items)

lemma submit_button_rows: "k \<in> set (map_index (order_row lib items) xs) \<Longrightarrow> \<not> submit_button k"
proof -
  have p: "\<not> list_ex submit_button (product_items lib)"
    by (auto simp: list_ex_iff product_items_def)
  assume "k \<in> set (map_index (order_row lib items) xs)"
  then show ?thesis using p by (auto simp: set_map_index order_row_def Field_def)
qed

lemma offers_order_form:
  "offers (order_form lib s) e \<longleftrightarrow>
     (\<exists>i < length (os_items s). offers (order_row lib (os_items s) i (os_items s ! i)) e) \<or>
     e = AddItem \<or> e = ResetForm \<or>
     (e = SubmitOrder \<and> \<not> m_isPending (ol_create lib) \<and> \<not> q_isLoading (ol_products lib) \<and>
      onSaleProducts lib \<noteq> [])"
proof -
  have "\<not> list_ex submit_button (map_index (order_row lib (os_items s)) (os_items s))"
    using submit_button_rows by (auto simp: list_ex_iff)
  then show ?thesis by (auto simp: order_form_def offers_El set_map_index)
qed

lemma offers_detail_row [simp]: "\<not> offers (detail_row item) e"
  by (simp add: detail_row_def offers_El)

lemma offers_order_detail_card:
  "offers (order_detail_card lib) e \<longleftrightarrow>
     (\<exists>d a. q_data (ol_detail lib) = Some d \<and> e = RequestAction (det_order d) a \<and>
       pending_action lib (det_order d) = None \<and> isOrderActionAllowed (ord_status (det_order d)) a)"
  by (auto simp: order_detail_card_def split: option.splits)

lemma offers_order_table_row:
  "offers (order_table_row intl lib ord) e \<longleftrightarrow> e = ShowDetail (ord_id ord) \<or>
     (\<exists>a. e = RequestAction ord a \<and> pending_action lib ord = None \<and> isOrderActionAllowed (ord_status ord) a)"
  by (auto simp: order_table_row_def offers_El)

lemma offers_orders_table:
  "offers (orders_table intl lib s) e \<longleftrightarrow>
     (\<not> q_isLoading (ol_list lib) \<and> (\<exists>ord \<in> set (list_orders lib). offers (order_table_row intl lib ord) e)) \<or>
     offers (pager (list_total lib) (os_page s) (total_pages (list_total lib) orderPageSize)
       (q_isFetching (ol_list lib)) PrevPage NextPage) e"
  by (auto simp: orders_table_def offers_El)

lemma offers_confirm:
  "offers (ConfirmDialog (confirm_dialog_props lib s)) e \<longleftrightarrow> actionConfirmation s \<noteq> None \<and>
     (e = ConfirmOpenChange False \<or> e = ConfirmAction \<and> \<not> m_isPending (ol_action lib))"
  by (subst offers_ConfirmDialog) (auto simp: confirm_dialog_props_def Let_def)

lemma offers_OrdersPage:
  "offers (OrdersPage intl lib s) e \<longleftrightarrow> offers (order_form lib s) e \<or>
     offers (order_detail_card lib) e \<or> offers (orders_table intl lib s) e \<or>
     offers (ConfirmDialog (confirm_dialog_props lib s)) e"
  by (auto simp: OrdersPage_def)

end
