(* ===== verification/OrdersRun.thy ===== *)
theory OrdersRun
  imports OrdersView
begin

section \<open>Runs of the order page\<close>

text \<open>
  The order page together with its environment: the user, who can do what the rendered page offers,
  and the query library, which calls back the mutations it was given. A world holds the state of the
  page, the order requests that are not answered yet, everything sent so far, each mutation with the
  randomness of the event that sent it, and the orders the backend delivered for display.
\<close>

record orders_world =
  w_state :: orders_state
  w_unanswered :: "(create_order_payload \<times> jsstr) list"
  w_sent :: "(order_mutation \<times> crypto_env) list"
  w_shown :: "order list"

fun creates :: "order_mutation list \<Rightarrow> (create_order_payload \<times> jsstr) list" where
  "creates [] = []"
| "creates (CreateOrder p k # ms) = (p, k) # creates ms"
| "creates (OrderAct i a # ms) = creates ms"

definition orders_send :: "crypto_env \<Rightarrow> orders_world \<Rightarrow> orders_result \<Rightarrow> orders_world" where
  "orders_send env w r =
     \<lparr>w_state = fst r,
      w_unanswered = w_unanswered w @ creates (mutations (snd r)),
      w_sent = w_sent w @ map (\<lambda>m. (m, env)) (mutations (snd r)),
      w_shown = w_shown w\<rparr>"

definition delivered :: "orders_lib \<Rightarrow> order list" where
  "delivered lib = list_orders lib @
     (case q_data (ol_detail lib) of None \<Rightarrow> [] | Some d \<Rightarrow> [det_order d])"

definition orders_see :: "orders_lib \<Rightarrow> orders_world \<Rightarrow> orders_world" where
  "orders_see lib w = w\<lparr>w_shown := w_shown w @ delivered lib\<rparr>"

text \<open>
  What the page relies on: a mutation is pending as long as its answer is outstanding, and the
  backend's total is a number of entries. Both are documented behaviour of the two.
\<close>

definition lib_contract :: "(create_order_payload \<times> jsstr) list \<Rightarrow> orders_lib \<Rightarrow> bool" where
  "lib_contract unanswered lib \<longleftrightarrow>
     (unanswered \<noteq> [] \<longrightarrow> m_isPending (ol_create lib)) \<and>
     isSafeInteger (list_total lib) \<and> jle (jint 0) (list_total lib)"

fun creation_callback :: "orders_callback \<Rightarrow> bool" where
  "creation_callback (CreateSucceeded ord) = True"
| "creation_callback (CreateFailed err) = True"
| "creation_callback _ = False"

text \<open>
  The number bounds the row identities minted so far in the session, those of earlier visits to the
  page included: the counter of the module outlives the page.
\<close>

inductive orders_reach :: "(jsstr \<Rightarrow> jsstr option) \<Rightarrow> nat \<Rightarrow> orders_world \<Rightarrow> bool"
  for intl :: "jsstr \<Rightarrow> jsstr option" where
  mount: "orders_reach intl (Suc n)
     \<lparr>w_state = orders_initial env (jint (int n)), w_unanswered = [], w_sent = [], w_shown = []\<rparr>"
| user: "orders_reach intl n w \<Longrightarrow> lib_contract (w_unanswered w) lib \<Longrightarrow>
     offers (OrdersPage intl lib (w_state w)) ev \<Longrightarrow>
     orders_reach intl (Suc n) (orders_send env (orders_see lib w) (orders_handle env ev (w_state w)))"
| answered: "orders_reach intl n w \<Longrightarrow> c \<in> set (w_unanswered w) \<Longrightarrow> creation_callback cb \<Longrightarrow>
     orders_reach intl (Suc n)
       (orders_send env (w\<lparr>w_unanswered := remove1 c (w_unanswered w)\<rparr>) (orders_on env cb (w_state w)))"
| acted: "orders_reach intl n w \<Longrightarrow> \<not> creation_callback cb \<Longrightarrow>
     orders_reach intl (Suc n) (orders_send env w (orders_on env cb (w_state w)))"

subsection \<open>The row counter\<close>

text \<open>The counter and the rows, as long as fewer than \<open>n\<close> identities were minted.\<close>

definition rows_upto :: "nat \<Rightarrow> orders_state \<Rightarrow> bool" where
  "rows_upto n s \<longleftrightarrow> os_items s \<noteq> [] \<and>
     (int n \<le> max_safe \<longrightarrow>
       (\<exists>k. rowIdSequence s = jint k \<and> 0 \<le> k \<and> k \<le> int n) \<and> row.rows_ok (os_items s) (rowIdSequence s))"

lemma seq_ready: "0 \<le> k \<Longrightarrow> k < max_safe \<Longrightarrow> row_seq_ready (jint k)"
  by (simp add: row_seq_ready_def)

lemma rows_upto_mono: "rows_upto n s \<Longrightarrow> rows_upto (Suc n) s"
  by (auto simp: rows_upto_def intro: order_trans)

lemma rows_upto_cong:
  "os_items s' = os_items s \<Longrightarrow> rowIdSequence s' = rowIdSequence s \<Longrightarrow> rows_upto n s' = rows_upto n s"
  by (simp add: rows_upto_def)

lemma rows_upto_initial: "rows_upto (Suc n) (orders_initial env (jint (int n)))"
proof -
  have "rows_upto (Suc n) (orders_initial env (jint (int n)))" if "int (Suc n) \<le> max_safe"
    using that row.rows_ok_initial[OF seq_ready, of "int n" env]
    by (simp add: rows_upto_def orders_initial_def mint_eqs createRowId_jint)
  then show ?thesis by (auto simp: rows_upto_def orders_initial_def mint_eqs)
qed

text \<open>An event that mints one identity leaves rows in order under the next counter.\<close>

lemma rows_upto_mint:
  assumes "rows_upto n s" "os_items s' \<noteq> []"
    and "rowIdSequence s' = snd (createRowId env (rowIdSequence s))"
    and "row_seq_ready (rowIdSequence s) \<Longrightarrow> row.rows_ok (os_items s) (rowIdSequence s) \<Longrightarrow>
      row.rows_ok (os_items s') (snd (createRowId env (rowIdSequence s)))"
  shows "rows_upto (Suc n) s'"
  unfolding rows_upto_def
proof (intro conjI impI assms(2))
  assume n: "int (Suc n) \<le> max_safe"
  then obtain k where k: "rowIdSequence s = jint k" "0 \<le> k" "k \<le> int n"
    and ok: "row.rows_ok (os_items s) (rowIdSequence s)"
    using assms(1) by (auto simp: rows_upto_def)
  have "rowIdSequence s' = jint (k + 1)" using k n assms(3) by (simp add: createRowId_jint)
  then show "\<exists>k. rowIdSequence s' = jint k \<and> 0 \<le> k \<and> k \<le> int (Suc n)" using k by auto
  have "row_seq_ready (rowIdSequence s)" unfolding k(1) using k n by (intro seq_ready) simp_all
  from assms(4)[OF this ok] show "row.rows_ok (os_items s') (rowIdSequence s')"
    using assms(3) by simp
qed

lemma rows_upto_edit:
  assumes "rows_upto n s" "os_items s' \<noteq> []" "rowIdSequence s' = rowIdSequence s"
    "\<And>seq. row.rows_ok (os_items s) seq \<Longrightarrow> row.rows_ok (os_items s') seq"
  shows "rows_upto (Suc n) s'"
  using assms by (auto simp: rows_upto_def intro: order_trans)

text \<open>
  Every handler and callback keeps the rows in order; the removal of a row does when the row is not
  the last one left, which is when the page offers it.
\<close>

lemma rows_upto_handle:
  assumes "rows_upto n s" "\<And>i. ev = RemoveItem i \<Longrightarrow> length (os_items s) \<noteq> 1"
  shows "rows_upto (Suc n) (fst (orders_handle env ev s))"
proof (cases ev)
  case (UpdateItem i patch)
  show ?thesis
    by (rule rows_upto_edit[OF assms(1)])
       (use assms(1) in \<open>auto simp: UpdateItem updateItem_def rows_upto_def row.rows_ok_replace\<close>)
next
  case (RemoveItem i)
  have "length (os_items s) \<noteq> 0" "length (os_items s) \<noteq> 1"
    using assms(1) assms(2)[OF RemoveItem] by (auto simp: rows_upto_def)
  then have "length (removeDraftItem (os_items s) i) \<noteq> 0"
    by (cases "i < length (os_items s)") (simp_all add: length_removeDraftItem removeDraftItem_beyond)
  then show ?thesis
    by (intro rows_upto_edit[OF assms(1)]) (auto simp: RemoveItem removeItem_def row.rows_ok_remove)
next
  case AddItem
  show ?thesis
    by (rule rows_upto_mint[OF assms(1)])
       (use row.rows_ok_append in \<open>auto simp: AddItem addItem_def mint_eqs\<close>)
next
  case ResetForm
  show ?thesis
    by (rule rows_upto_mint[OF assms(1)])
       (use row.rows_ok_reset in \<open>auto simp: ResetForm handleResetForm_def mint_eqs\<close>)
qed (use rows_upto_mono[OF assms(1)] in
      \<open>auto simp: handleCreateOrder_def handleCreateOrder_with_def try_catch_def requestOrderAction_def
        prevPage_def nextPage_def confirmOpenChange_def handleConfirm_def rows_upto_def
        split: sum.splits option.splits\<close>)

lemma rows_upto_on:
  assumes "rows_upto n s" shows "rows_upto (Suc n) (fst (orders_on env cb s))"
proof (cases cb)
  case (CreateSucceeded ord)
  show ?thesis
    by (rule rows_upto_mint[OF assms])
       (use row.rows_ok_reset in \<open>auto simp: CreateSucceeded createOrder_onSuccess_def mint_eqs\<close>)
qed (use rows_upto_mono[OF assms] in
      \<open>auto simp: createOrder_onError_def orderAction_onSuccess_def orderAction_onError_def rows_upto_def\<close>)

subsection \<open>What an event of the rendered page guarantees\<close>

lemma offered_facts:
  assumes "offers (OrdersPage intl lib s) ev"
  shows "ev = SubmitOrder \<Longrightarrow> \<not> m_isPending (ol_create lib)"
    and "ev = RemoveItem i \<Longrightarrow> length (os_items s) \<noteq> 1"
    and "ev = RequestAction ord a \<Longrightarrow> isOrderActionAllowed (ord_status ord) a \<and> ord \<in> set (delivered lib)"
    and "ev = NextPage \<Longrightarrow> \<not> jle (total_pages (list_total lib) orderPageSize) (os_page s)"
  using assms
  by (auto simp: offers_OrdersPage offers_order_form offers_order_row offers_order_detail_card
      offers_orders_table offers_order_table_row offers_pager offers_confirm delivered_def)

definition payload_ok :: "create_order_payload \<Rightarrow> bool" where
  "payload_ok p \<longleftrightarrow> cop_items p \<noteq> [] \<and>
     (\<forall>i \<in> set (cop_items p). isInteger (pi_product_id i) \<and> jless (jint 0) (pi_product_id i) \<and>
        isInteger (pi_quantity i) \<and> jless (jint 0) (pi_quantity i)) \<and>
     distinct (map pi_product_id (cop_items p))"

lemma not_le_integer: "isInteger a \<Longrightarrow> \<not> jle a (jint 0) \<longleftrightarrow> jless (jint 0) a"
  by (elim isInteger_cases) auto

lemma remdups_map_length: "length (remdups (map f xs)) = length xs \<longleftrightarrow> distinct (map f xs)"
  by (metis length_map length_remdups_eq remdups_id_iff_distinct)

lemma parse_payload_iff:
  "parseCreateOrderPayload items = Inr p \<longleftrightarrow>
     (\<forall>i \<in> set items. \<not> invalid_item (parse_item i)) \<and>
     distinct (map pi_product_id (map parse_item items)) \<and> p = \<lparr>cop_items = map parse_item items\<rparr>"
  by (auto simp: parseCreateOrderPayload_def Let_def list_ex_iff remdups_map_length)

lemma parse_payload_ok:
  "parseCreateOrderPayload items = Inr p \<Longrightarrow> items \<noteq> [] \<Longrightarrow> payload_ok p"
  by (auto simp: parse_payload_iff payload_ok_def invalid_item_def not_le_integer)

subsection \<open>The invariant of a run\<close>

fun sent_ok :: "order list \<Rightarrow> order_mutation \<Rightarrow> crypto_env \<Rightarrow> bool" where
  "sent_ok orders (CreateOrder p k) env \<longleftrightarrow> k = createIdempotencyKey env \<and> payload_ok p"
| "sent_ok orders (OrderAct i a) env \<longleftrightarrow> (\<exists>ord \<in> set orders. ord_id ord = i \<and> isOrderActionAllowed (ord_status ord) a)"

definition confirmation_ok :: "order list \<Rightarrow> orders_state \<Rightarrow> bool" where
  "confirmation_ok orders s \<longleftrightarrow> (\<forall>ord a. actionConfirmation s = Some (ord, a) \<longrightarrow>
     requiresOrderActionConfirmation a \<and> isOrderActionAllowed (ord_status ord) a \<and> ord \<in> set orders)"

text \<open>A pending submission is the one request in flight.\<close>

definition pending_ok :: "orders_world \<Rightarrow> bool" where
  "pending_ok w \<longleftrightarrow> length (w_unanswered w) \<le> 1 \<and>
     (\<forall>p. pendingSubmission (w_state w) = Some p \<longrightarrow>
       (\<exists>payload. w_unanswered w = [(payload, idempotencyKey p)] \<and> fingerprint p = fingerprintOrder payload))"

definition world_ok :: "orders_world \<Rightarrow> bool" where
  "world_ok w \<longleftrightarrow> pending_ok w \<and> confirmation_ok (w_shown w) (w_state w) \<and> page_ok (os_page (w_state w)) \<and>
     (\<forall>(m, env) \<in> set (w_sent w). sent_ok (w_shown w) m env)"

lemmas world_defs = world_ok_def pending_ok_def confirmation_ok_def

lemma sent_ok_mono: "sent_ok orders m env \<Longrightarrow> set orders \<subseteq> set orders' \<Longrightarrow> sent_ok orders' m env"
  by (cases m) auto

lemma world_ok_see: "world_ok w \<Longrightarrow> world_ok (orders_see lib w)"
  using sent_ok_mono[of "w_shown w" _ _ "w_shown w @ delivered lib"]
  by (auto simp: world_defs orders_see_def)

lemma orders_see_simps [simp]:
  "w_state (orders_see lib w) = w_state w" "w_unanswered (orders_see lib w) = w_unanswered w"
  "w_sent (orders_see lib w) = w_sent w" "w_shown (orders_see lib w) = w_shown w @ delivered lib"
  by (simp_all add: orders_see_def)

lemma total_cases:
  assumes "lib_contract u lib"
  obtains t where "list_total lib = jint t" "0 \<le> t" "t \<le> max_safe"
proof -
  from assms obtain t where "list_total lib = jint t" "\<bar>t\<bar> \<le> max_safe"
    by (auto simp: lib_contract_def elim: isSafeInteger_cases)
  then show thesis using assms that by (auto simp: lib_contract_def)
qed

interpretation orders_paged: paged os_page "\<lambda>s. fst (prevPage s)" "\<lambda>s. fst (nextPage s)"
  by unfold_locales (simp_all add: prevPage_def nextPage_def)

text \<open>The state and the mutations of a submission when nothing is pending.\<close>

lemma handleCreateOrder_fresh:
  assumes "pendingSubmission s = None"
  shows "handleCreateOrder env s = (case parseCreateOrderPayload (os_items s) of
      Inl message \<Rightarrow> (s, [ToastError message])
    | Inr payload \<Rightarrow>
        (s\<lparr>pendingSubmission := Some \<lparr>fingerprint = fingerprintOrder payload, idempotencyKey = createIdempotencyKey env\<rparr>\<rparr>,
         [Mutate (CreateOrder payload (createIdempotencyKey env))]))"
  using assms by (simp add: handleCreateOrder_def handleCreateOrder_with_def prepareOrderSubmission_def
      Let_def split: sum.splits)

lemma world_ok_submit:
  assumes "world_ok w" "w_unanswered w = []" "os_items (w_state w) \<noteq> []"
  shows "world_ok (orders_send env w (handleCreateOrder env (w_state w)))"
proof -
  have "pendingSubmission (w_state w) = None"
    using assms(1,2) by (cases "pendingSubmission (w_state w)") (auto simp: world_defs)
  then show ?thesis using assms parse_payload_ok[of "os_items (w_state w)"]
    by (auto simp: handleCreateOrder_fresh orders_send_def world_defs split: sum.splits)
qed

text \<open>Every other event of the page.\<close>

lemma world_ok_user:
  assumes w: "world_ok w" "os_items (w_state w) \<noteq> []" and lib: "lib_contract (w_unanswered w) lib"
    and ev: "offers (OrdersPage intl lib (w_state w)) ev" and seen: "set (delivered lib) \<subseteq> set (w_shown w)"
  shows "world_ok (orders_send env w (orders_handle env ev (w_state w)))"
proof (cases ev)
  case SubmitOrder
  then have "w_unanswered w = []" using offered_facts(1)[OF ev] lib by (auto simp: lib_contract_def)
  with w SubmitOrder show ?thesis by (simp add: world_ok_submit)
next
  case (RequestAction ord a)
  with w offered_facts(3)[OF ev] seen show ?thesis
    by (auto simp: requestOrderAction_def orders_send_def world_defs)
next
  case NextPage
  obtain t where t: "list_total lib = jint t" "0 \<le> t" "t \<le> max_safe"
    using lib by (rule total_cases)
  from offered_facts(4)[OF ev NextPage] have "\<not> jle (total_pages (jint t) (jint 10)) (os_page (w_state w))"
    by (simp add: t orderPageSize_def)
  from orders_paged.following_ok[OF _ this t(2,3)] w show ?thesis
    by (auto simp: NextPage nextPage_def orders_send_def world_defs)
next
  case PrevPage
  with w orders_paged.prev_ok[of "w_state w"] show ?thesis by (auto simp: prevPage_def orders_send_def world_defs)
qed (use w in \<open>auto simp: orders_send_def world_defs updateItem_def removeItem_def addItem_def
       handleResetForm_def mint_eqs confirmOpenChange_def handleConfirm_def split: option.splits\<close>)

lemma world_ok_answered:
  assumes "world_ok w" "c \<in> set (w_unanswered w)" "creation_callback cb"
  shows "world_ok (orders_send env (w\<lparr>w_unanswered := remove1 c (w_unanswered w)\<rparr>) (orders_on env cb (w_state w)))"
proof -
  have "w_unanswered w = [c]"
    using assms(1,2) by (cases "w_unanswered w") (auto simp: world_defs)
  with assms show ?thesis
    by (cases cb) (auto simp: world_defs orders_send_def createOrder_onSuccess_def createOrder_onError_def mint_eqs
        max_safe_def)
qed

lemma world_ok_acted:
  assumes "world_ok w" "\<not> creation_callback cb"
  shows "world_ok (orders_send env w (orders_on env cb (w_state w)))"
  using assms
  by (cases cb) (auto simp: world_defs orders_send_def orderAction_onSuccess_def orderAction_onError_def
      split: option.splits)

lemma reach_ok: "orders_reach intl n w \<Longrightarrow> rows_upto n (w_state w) \<and> world_ok w"
proof (induction rule: orders_reach.induct)
  case (mount n env)
  then show ?case using rows_upto_initial by (auto simp: world_defs orders_initial_def mint_eqs max_safe_def)
next
  case (user n w lib ev env)
  then have "os_items (w_state w) \<noteq> []" by (simp add: rows_upto_def)
  with user have "world_ok (orders_send env (orders_see lib w) (orders_handle env ev (w_state w)))"
    using world_ok_user[OF world_ok_see, of w lib lib intl ev env] by auto
  moreover have "rows_upto (Suc n) (fst (orders_handle env ev (w_state w)))"
    using user rows_upto_handle offered_facts(2)[of intl lib "w_state w" ev] by blast
  ultimately show ?case by (simp add: orders_send_def)
next
  case (answered n w c cb env)
  then show ?case using world_ok_answered rows_upto_on by (auto simp: orders_send_def)
next
  case (acted n w cb env)
  then show ?case using world_ok_acted rows_upto_on by (auto simp: orders_send_def)
qed

subsection \<open>A run\<close>

text \<open>
  A run the page can do: one product is on sale, the user chooses it in the first row and submits.
\<close>

definition demo_env :: crypto_env where
  "demo_env = \<lparr>random_uuid = UuidReturns (js ''k1''), random_bytes = None, date_now = 0, math_random36 = []\<rparr>"

definition demo_product :: product where
  "demo_product = \<lparr>prod_id = jint 3, prod_name = js ''Tea'', prod_description = [], price_fen = jint 1250,
     prod_status = PRODUCT_ON_SALE, prod_created_at = [], prod_updated_at = []\<rparr>"

definition idle_query :: "'d option \<Rightarrow> 'd query_view" where
  "idle_query d = \<lparr>q_data = d, q_isLoading = False, q_isFetching = False, q_isPending = False,
     q_isSuccess = True, q_isError = False, q_error = None\<rparr>"

definition idle_mutation :: "'v mutation_view" where
  "idle_mutation = \<lparr>m_isPending = False, m_variables = None\<rparr>"

definition demo_order :: order where
  "demo_order = \<lparr>ord_id = js ''371447562240004097'', order_no = js ''N1'', total_amount_fen = jint 1250,
     ord_status = ORDER_PAID, paid_at = None, completed_at = None, cancelled_at = None,
     ord_created_at = [], ord_updated_at = []\<rparr>"

definition demo_lib :: orders_lib where
  "demo_lib = \<lparr>ol_list = idle_query (Some \<lparr>ol_orders = [demo_order], ol_total = jint 11, ol_page = jint 1, ol_page_size = jint 10\<rparr>),
     ol_products = idle_query (Some \<lparr>pl_products = [demo_product], pl_total = jint 1, pl_page = jint 1, pl_page_size = jint 100\<rparr>),
     ol_detail = idle_query None, ol_create = idle_mutation, ol_action = idle_mutation\<rparr>"

definition demo_choice :: orders_event where
  "demo_choice = UpdateItem 0 \<lparr>patch_product_id = Some (to_string (jint 3)), patch_quantity = None\<rparr>"

fun orders_run :: "(crypto_env \<times> orders_event) list \<Rightarrow> orders_world \<Rightarrow> orders_world" where
  "orders_run [] w = w"
| "orders_run ((env, ev) # evs) w = orders_run evs (orders_send env (orders_see demo_lib w) (orders_handle env ev (w_state w)))"

definition demo_start :: orders_world where
  "demo_start = \<lparr>w_state = orders_initial demo_env (jint 0), w_unanswered = [], w_sent = [], w_shown = []\<rparr>"

definition demo_world :: orders_world where
  "demo_world = orders_run [(demo_env, demo_choice), (demo_env, RequestAction demo_order Finish),
     (demo_env, ConfirmAction), (demo_env, NextPage), (demo_env, SubmitOrder)] demo_start"

lemmas demo_defs = demo_choice_def demo_lib_def idle_query_def idle_mutation_def demo_order_def
  demo_product_def list_orders_def list_total_def onSaleProducts_def pending_action_def

lemma demo_offers:
  "os_items s \<noteq> [] \<Longrightarrow> offers (OrdersPage intl demo_lib s) demo_choice"
  "offers (OrdersPage intl demo_lib s) (RequestAction demo_order Finish)"
  "actionConfirmation s \<noteq> None \<Longrightarrow> offers (OrdersPage intl demo_lib s) ConfirmAction"
  "os_page s = jint 1 \<Longrightarrow> offers (OrdersPage intl demo_lib s) NextPage"
  "offers (OrdersPage intl demo_lib s) SubmitOrder"
  by (auto simp: offers_OrdersPage offers_order_form offers_order_row offers_orders_table
      offers_order_table_row offers_confirm offers_pager demo_defs total_pages_exact orderPageSize_def
      isOrderActionAllowed_def max_safe_def ORDER_PAID_def)

lemma demo_contract: "lib_contract [] demo_lib"
  by (simp add: lib_contract_def demo_lib_def idle_query_def list_total_def max_safe_def)

lemma demo_step:
  "orders_reach intl n w \<Longrightarrow> w_unanswered w = [] \<Longrightarrow> offers (OrdersPage intl demo_lib (w_state w)) ev \<Longrightarrow>
   orders_reach intl (Suc n) (orders_send demo_env (orders_see demo_lib w) (orders_handle demo_env ev (w_state w)))"
  using orders_reach.user demo_contract by metis

lemmas demo_simps = demo_choice_def orders_send_def updateItem_def requestOrderAction_def
  requiresOrderActionConfirmation_def handleConfirm_def nextPage_def orders_initial_def mint_eqs
  demo_start_def

lemma demo_reach: "orders_reach intl 6 demo_world"
proof -
  have r0: "orders_reach intl (Suc 0) demo_start"
    using orders_reach.mount[of intl 0 demo_env] by (simp add: demo_start_def)
  have r1: "orders_reach intl (Suc (Suc 0)) (orders_run [(demo_env, demo_choice)] demo_start)" (is "orders_reach _ _ ?w1")
    using demo_step[OF r0 _ demo_offers(1)] by (simp add: demo_simps)
  have r2: "orders_reach intl (Suc (Suc (Suc 0))) (orders_run [(demo_env, RequestAction demo_order Finish)] ?w1)"
    (is "orders_reach _ _ ?w2")
    using demo_step[OF r1 _ demo_offers(2)] by (simp add: demo_simps)
  have r3: "orders_reach intl (Suc (Suc (Suc (Suc 0)))) (orders_run [(demo_env, ConfirmAction)] ?w2)"
    (is "orders_reach _ _ ?w3")
    using demo_step[OF r2 _ demo_offers(3)] by (simp add: demo_simps)
  have r4: "orders_reach intl (Suc (Suc (Suc (Suc (Suc 0))))) (orders_run [(demo_env, NextPage)] ?w3)"
    (is "orders_reach _ _ ?w4")
    using demo_step[OF r3 _ demo_offers(4)] by (simp add: demo_simps)
  have "orders_reach intl (Suc (Suc (Suc (Suc (Suc (Suc 0)))))) (orders_run [(demo_env, SubmitOrder)] ?w4)"
    using demo_step[OF r4 _ demo_offers(5)] by (simp add: demo_simps)
  then show ?thesis by (simp add: demo_world_def numeral_eq_Suc)
qed

subsection \<open>What the run did\<close>

definition demo_payload :: "int \<Rightarrow> create_order_payload" where
  "demo_payload q = \<lparr>cop_items = [\<lparr>pi_product_id = jint 3, pi_quantity = jint q\<rparr>]\<rparr>"

lemma demo_key [simp]: "createIdempotencyKey demo_env = js ''k1''"
  by (simp add: createIdempotencyKey_def demo_env_def Let_def)

lemma demo_parse:
  "parseCreateOrderPayload [\<lparr>rowId = r, draft_product_id = to_string (jint 3), draft_quantity = js ''1''\<rparr>] =
   Inr (demo_payload 1)"
proof -
  have "js ''1'' = dec 1" by (subst dec.simps) (simp add: js_def digit_char_def)
  then have "Number (js ''1'') = jint 1" using Number_dec[of 1] by (simp add: max_safe_def)
  moreover have "Number (to_string (jint 3)) = jint 3"
    using Number_to_string[of 3] by (simp add: max_safe_def)
  ultimately show ?thesis
    by (simp add: parseCreateOrderPayload_def parse_item_def invalid_item_def demo_payload_def)
qed

lemma demo_world_facts:
  "w_sent demo_world = [(OrderAct (ord_id demo_order) Finish, demo_env),
     (CreateOrder (demo_payload 1) (js ''k1''), demo_env)]"
  "pendingSubmission (w_state demo_world) =
     Some \<lparr>fingerprint = fingerprintOrder (demo_payload 1), idempotencyKey = js ''k1''\<rparr>"
  "actionConfirmation (w_state demo_world) = Some (demo_order, Finish)"
  "rowIdSequence (w_state demo_world) = jint 1"
  "os_page (w_state demo_world) = jint 2"
  using demo_parse
  by (simp_all add: demo_world_def demo_simps handleCreateOrder_fresh replaceDraftItem_def map_index_def
      apply_patch_def blank_item_def createRowId_def next_page_def jint_add Let_def)

end
