(* ===== verification/OrdersProps.thy ===== *)
theory OrdersProps
  imports OrdersRun
begin

section \<open>What the order page guarantees\<close>

text \<open>
  The properties of the order page: of its runs, from the invariant of the theory OrdersRun, and of
  single handlers. Each property of a run is instantiated on the run \<open>demo_world\<close>.
\<close>

subsection \<open>Idempotency keys\<close>

fun sent_keys :: "(order_mutation \<times> crypto_env) list \<Rightarrow> jsstr list" where
  "sent_keys [] = []"
| "sent_keys ((CreateOrder p k, env) # ms) = k # sent_keys ms"
| "sent_keys ((OrderAct i a, env) # ms) = sent_keys ms"

fun generated_keys :: "(order_mutation \<times> crypto_env) list \<Rightarrow> jsstr list" where
  "generated_keys [] = []"
| "generated_keys ((CreateOrder p k, env) # ms) = createIdempotencyKey env # generated_keys ms"
| "generated_keys ((OrderAct i a, env) # ms) = generated_keys ms"

lemma sent_keys_generated:
  "\<forall>(m, env) \<in> set ms. sent_ok orders m env \<Longrightarrow> sent_keys ms = generated_keys ms"
  by (induction ms rule: sent_keys.induct) auto

text \<open>
  C1: whatever the user does on the order page and whenever the answers arrive, every order request
  carries the key generated for that very submission. No key of an earlier submission, answered,
  failed or dropped, is ever sent again, so the backend never replays an old order.
\<close>

theorem orders_keys_fresh:
  "orders_reach intl n w \<Longrightarrow> sent_keys (w_sent w) = generated_keys (w_sent w)"
  using reach_ok sent_keys_generated unfolding world_ok_def by metis

theorem orders_keys_fresh_witness:
  "sent_keys (w_sent demo_world) = generated_keys (w_sent demo_world) \<and>
   sent_keys (w_sent demo_world) = [js ''k1'']"
proof -
  have "sent_keys (w_sent demo_world) = generated_keys (w_sent demo_world)"
    by (rule orders_keys_fresh[OF demo_reach])
  moreover have "sent_keys (w_sent demo_world) = [js ''k1'']" by (simp add: demo_world_facts)
  ultimately show ?thesis by blast
qed

text \<open>
  C11: a pending submission is exactly the one request in flight. As long as it is set, one order
  request is unanswered, with its key and its contents; once the answer arrived nothing is pending,
  and there is never more than one request in flight.
\<close>

theorem orders_pending_in_flight:
  "orders_reach intl n w \<Longrightarrow> length (w_unanswered w) \<le> 1 \<and>
     (\<forall>p. pendingSubmission (w_state w) = Some p \<longrightarrow>
       (\<exists>payload. w_unanswered w = [(payload, idempotencyKey p)] \<and> fingerprint p = fingerprintOrder payload))"
  using reach_ok unfolding world_ok_def pending_ok_def by metis

theorem orders_pending_in_flight_witness:
  "length (w_unanswered demo_world) \<le> 1 \<and> pendingSubmission (w_state demo_world) \<noteq> None"
proof -
  have "length (w_unanswered demo_world) \<le> 1"
    using orders_pending_in_flight[OF demo_reach] by (rule conjunct1)
  moreover have "pendingSubmission (w_state demo_world) \<noteq> None" by (simp add: demo_world_facts)
  ultimately show ?thesis by blast
qed

text \<open>
  C12: \<open>prepareOrderSubmission\<close> reuses the previous submission exactly for the same order: for orders
  whose numbers are safe integers the fingerprints agree if and only if the items do, in content and
  order, and any difference draws a new key.
\<close>

theorem prepare_reuses_same_order:
  assumes "\<forall>i \<in> set (cop_items a). safe_item i" "\<forall>i \<in> set (cop_items b). safe_item i"
  shows "prepareOrderSubmission b (Some \<lparr>fingerprint = fingerprintOrder a, idempotencyKey = k\<rparr>) (Inr k') =
    Inr (if a = b then \<lparr>fingerprint = fingerprintOrder a, idempotencyKey = k\<rparr>
         else \<lparr>fingerprint = fingerprintOrder b, idempotencyKey = k'\<rparr>)"
  using fingerprintOrder_inject[OF assms] by (auto simp: prepareOrderSubmission_def Let_def)

theorem prepare_reuses_same_order_witness:
  "prepareOrderSubmission (demo_payload 2)
     (Some \<lparr>fingerprint = fingerprintOrder (demo_payload 1), idempotencyKey = js ''k1''\<rparr>) (Inr (js ''k2'')) =
   Inr \<lparr>fingerprint = fingerprintOrder (demo_payload 2), idempotencyKey = js ''k2''\<rparr>"
proof -
  have s: "\<forall>i \<in> set (cop_items (demo_payload 1)). safe_item i" "\<forall>i \<in> set (cop_items (demo_payload 2)). safe_item i"
    by (simp_all add: demo_payload_def safe_item_def max_safe_def)
  have "demo_payload 1 \<noteq> demo_payload 2" by (simp add: demo_payload_def)
  then show ?thesis using prepare_reuses_same_order[OF s, of "js ''k1''" "js ''k2''"] by simp
qed

subsection \<open>Rows\<close>

text \<open>
  C24: the form always has a row, and no two rows share an identity, in every state the page can
  reach. (The counter is exact as long as at most \<open>2 ^ 53 - 1\<close> events happened in the session.)
\<close>

theorem orders_rows_distinct:
  "orders_reach intl n w \<Longrightarrow> int n \<le> max_safe \<Longrightarrow>
     os_items (w_state w) \<noteq> [] \<and> distinct (map rowId (os_items (w_state w)))"
  using reach_ok unfolding rows_upto_def row.rows_ok_def by metis

theorem orders_rows_distinct_witness:
  "os_items (w_state demo_world) \<noteq> [] \<and> distinct (map rowId (os_items (w_state demo_world)))"
  by (rule orders_rows_distinct[OF demo_reach]) (simp add: max_safe_def)

text \<open>
  Clearing the form leaves one blank row whose identity none of the cleared rows had, so the
  selects are mounted anew, and drops both the selected order and the pending submission.
\<close>

theorem orders_reset_clean:
  assumes "orders_reach intl n w" "int n < max_safe"
    and "handleResetForm env (w_state w) = (s', effs)"
  shows "(\<exists>r. os_items s' = [\<lparr>rowId = r, draft_product_id = [], draft_quantity = js ''1''\<rparr>] \<and>
       r \<notin> rowId ` set (os_items (w_state w))) \<and>
     pendingSubmission s' = None \<and> selectedOrderId s' = None \<and> effs = []"
proof -
  have r: "rows_upto n (w_state w)" using reach_ok[OF assms(1)] by blast
  then obtain k where k: "rowIdSequence (w_state w) = jint k" "0 \<le> k" "k \<le> int n"
    and ok: "row.rows_ok (os_items (w_state w)) (jint k)"
    using assms(2) by (auto simp: rows_upto_def)
  have "row_seq_ready (jint k)" using k assms(2) by (intro seq_ready) simp_all
  from row.reset_fresh[OF this ok, of env] show ?thesis
    using assms(3) k by (auto simp: handleResetForm_def mint_eqs blank_item_def)
qed

theorem orders_reset_clean_witness:
  "rowIdSequence (fst (handleResetForm demo_env (w_state demo_world))) = jint 2 \<and>
   pendingSubmission (fst (handleResetForm demo_env (w_state demo_world))) = None"
proof -
  have "pendingSubmission (fst (handleResetForm demo_env (w_state demo_world))) = None"
    using orders_reset_clean[OF demo_reach _ surjective_pairing, of demo_env] by (simp add: max_safe_def)
  moreover have "rowIdSequence (fst (handleResetForm demo_env (w_state demo_world))) = jint 2"
    by (simp add: handleResetForm_def mint_eqs demo_world_facts createRowId_jint max_safe_def)
  ultimately show ?thesis by blast
qed

subsection \<open>What is sent\<close>

text \<open>
  C10: every order the page sends has at least one item, only positive integers as product numbers
  and quantities, and each product once.
\<close>

theorem orders_payload_valid:
  "orders_reach intl n w \<Longrightarrow> (CreateOrder p k, env) \<in> set (w_sent w) \<Longrightarrow>
     cop_items p \<noteq> [] \<and> distinct (map pi_product_id (cop_items p)) \<and>
     (\<forall>i \<in> set (cop_items p). \<exists>m q. i = \<lparr>pi_product_id = jint m, pi_quantity = jint q\<rparr> \<and> 0 < m \<and> 0 < q)"
proof -
  assume "orders_reach intl n w" "(CreateOrder p k, env) \<in> set (w_sent w)"
  then have "payload_ok p" using reach_ok unfolding world_ok_def by fastforce
  moreover have "\<exists>m. a = jint m \<and> 0 < m" if "isInteger a" "jless (jint 0) a" for a
    using that by (auto elim: isInteger_cases)
  ultimately show ?thesis unfolding payload_ok_def by (metis (full_types) payload_item.surjective unit.exhaust)
qed

theorem orders_payload_valid_witness:
  "(CreateOrder (demo_payload 1) (js ''k1''), demo_env) \<in> set (w_sent demo_world) \<and>
   cop_items (demo_payload 1) \<noteq> []"
proof -
  have m: "(CreateOrder (demo_payload 1) (js ''k1''), demo_env) \<in> set (w_sent demo_world)"
    by (simp add: demo_world_facts)
  then show ?thesis using orders_payload_valid[OF demo_reach m] by blast
qed

text \<open>
  C3: every action the page sends is a step of the order's state machine: it names an order the
  backend delivered, and the status delivered for it admits the action.
\<close>

theorem orders_actions_are_steps:
  "orders_reach intl n w \<Longrightarrow> (OrderAct i a, env) \<in> set (w_sent w) \<Longrightarrow>
     \<exists>ord \<in> set (w_shown w). ord_id ord = i \<and> (\<exists>t. order_step (ord_status ord) a t)"
  using reach_ok unfolding world_ok_def by (fastforce simp: allowed_iff_step)

theorem orders_actions_are_steps_witness:
  "\<exists>ord \<in> set (w_shown demo_world). ord_id ord = ord_id demo_order \<and> (\<exists>t. order_step (ord_status ord) Finish t)"
proof -
  have "(OrderAct (ord_id demo_order) Finish, demo_env) \<in> set (w_sent demo_world)"
    by (simp add: demo_world_facts)
  from orders_actions_are_steps[OF demo_reach this] show ?thesis .
qed

lemma not_requires: "\<not> requiresOrderActionConfirmation a \<longleftrightarrow> a = Pay"
  by (cases a) (simp_all add: requiresOrderActionConfirmation_def)

text \<open>
  C25: finishing and cancelling are only sent by confirming the dialog that shows that very order and
  action; no other event of the page sends them.
\<close>

theorem orders_final_actions_confirmed:
  assumes "OrderAct i a \<in> set (mutations (snd (orders_handle env ev s)))" "a \<noteq> Pay"
  shows "ev = ConfirmAction \<and> (\<exists>ord. actionConfirmation s = Some (ord, a) \<and> ord_id ord = i)"
  using assms
  by (cases ev)
     (auto simp: updateItem_def removeItem_def addItem_def handleResetForm_def mint_eqs handleCreateOrder_def
        handleCreateOrder_with_def try_catch_def requestOrderAction_def not_requires
        prevPage_def nextPage_def confirmOpenChange_def handleConfirm_def
        split: sum.splits option.splits if_splits)

theorem orders_final_actions_confirmed_witness:
  "\<exists>ord. actionConfirmation (w_state demo_world) = Some (ord, Finish) \<and> ord_id ord = ord_id demo_order"
proof -
  have "OrderAct (ord_id demo_order) Finish \<in> set (mutations (snd (orders_handle demo_env ConfirmAction (w_state demo_world))))"
    by (simp add: handleConfirm_def demo_world_facts)
  from orders_final_actions_confirmed[OF this] show ?thesis by simp
qed

subsection \<open>From the form to the request\<close>

text \<open>A row in which product \<open>m\<close> was chosen and the quantity \<open>q\<close> typed, with blanks around it or not.\<close>

definition filled_row :: "int \<Rightarrow> int \<Rightarrow> draft_item \<Rightarrow> bool" where
  "filled_row m q row \<longleftrightarrow> draft_product_id row = to_string (jint m) \<and> trim (draft_quantity row) = dec q \<and>
     1 \<le> m \<and> m \<le> max_safe \<and> 1 \<le> q \<and> q \<le> max_safe"

lemma filled_row_parse:
  assumes "filled_row m q row"
  shows "parse_item row = \<lparr>pi_product_id = jint m, pi_quantity = jint q\<rparr>"
proof -
  have "Number (draft_quantity row) = Number (trim (draft_quantity row))" by simp
  also have "\<dots> = jint q" using assms by (simp add: filled_row_def Number_dec)
  finally show ?thesis using assms by (simp add: filled_row_def parse_item_def Number_to_string)
qed

lemma filled_rows_parse:
  "list_all2 (\<lambda>(m, q) row. filled_row m q row) mqs rows \<Longrightarrow>
   map parse_item rows = map (\<lambda>(m, q). \<lparr>pi_product_id = jint m, pi_quantity = jint q\<rparr>) mqs \<and>
   (\<forall>(m, q) \<in> set mqs. 1 \<le> m \<and> 1 \<le> q)"
  by (induction rule: list_all2_induct) (auto simp: filled_row_parse filled_row_def)

lemma distinct_jint: "distinct (map jint xs) \<longleftrightarrow> distinct xs"
  by (simp add: distinct_map inj_on_def)

text \<open>
  What is entered is what is sent. If every row names a product by the value of its option and
  holds a quantity between 1 and \<open>2 ^ 53 - 1\<close>, the form parses to exactly those products and
  quantities in the order of the rows, or is refused as duplicate when a product occurs twice.
\<close>

theorem parse_order_filled:
  assumes "list_all2 (\<lambda>(m, q) row. filled_row m q row) mqs rows"
  shows "parseCreateOrderPayload rows =
    (if distinct (map fst mqs)
     then Inr \<lparr>cop_items = map (\<lambda>(m, q). \<lparr>pi_product_id = jint m, pi_quantity = jint q\<rparr>) mqs\<rparr>
     else Inl txt_items_duplicate)"
proof -
  let ?ps = "map (\<lambda>(m, q). \<lparr>pi_product_id = jint m, pi_quantity = jint q\<rparr>) mqs"
  have p: "map parse_item rows = ?ps" and pos: "\<forall>(m, q) \<in> set mqs. 1 \<le> m \<and> 1 \<le> q"
    using filled_rows_parse[OF assms] by blast+
  have ids: "map pi_product_id ?ps = map jint (map fst mqs)" by auto
  have "\<not> list_ex invalid_item ?ps" using pos by (auto simp: list_ex_iff invalid_item_def)
  then show ?thesis
    using remdups_map_length[of pi_product_id ?ps] ids
    by (simp add: parseCreateOrderPayload_def p Let_def distinct_jint del: map_map list.map_comp)
qed

theorem parse_order_filled_witness:
  "parseCreateOrderPayload [\<lparr>rowId = [], draft_product_id = to_string (jint 3), draft_quantity = js '' 2''\<rparr>] =
   Inr (demo_payload 2)"
proof -
  have "list_all2 (\<lambda>(m, q) row. filled_row m q row) [(3, 2)]
      [\<lparr>rowId = [], draft_product_id = to_string (jint 3), draft_quantity = js '' 2''\<rparr>]"
    by (simp add: filled_row_def max_safe_def) code_simp
  from parse_order_filled[OF this] show ?thesis by (simp add: demo_payload_def)
qed

text \<open>
  A form with a row in which no product is chosen or the quantity is left blank is refused; the
  blank text, which JavaScript reads as 0, never reaches the backend.
\<close>

theorem parse_order_incomplete:
  assumes "row \<in> set rows" "trim (draft_product_id row) = [] \<or> trim (draft_quantity row) = []"
  shows "handleCreateOrder env (s\<lparr>os_items := rows\<rparr>) = (s\<lparr>os_items := rows\<rparr>, [ToastError txt_items_invalid])"
proof -
  have "invalid_item (parse_item row)"
    using assms(2) Number_empty by (auto simp: invalid_item_def parse_item_def)
  then have "parseCreateOrderPayload rows = Inl txt_items_invalid"
    using assms(1) by (auto simp: parseCreateOrderPayload_def Let_def list_ex_iff)
  then show ?thesis by (simp add: handleCreateOrder_def handleCreateOrder_with_def)
qed

theorem parse_order_incomplete_witness:
  "handleCreateOrder demo_env (w_state demo_start) = (w_state demo_start, [ToastError txt_items_invalid])"
proof -
  have e: "(w_state demo_start)\<lparr>os_items := os_items (w_state demo_start)\<rparr> = w_state demo_start" by simp
  have "\<exists>row \<in> set (os_items (w_state demo_start)). draft_product_id row = []"
    by (simp add: demo_start_def orders_initial_def mint_eqs blank_item_def)
  then obtain row where "row \<in> set (os_items (w_state demo_start))" "trim (draft_product_id row) = []"
    by (auto simp: trim_def)
  from parse_order_incomplete[OF this(1), of demo_env "w_state demo_start"] this(2) show ?thesis
    unfolding e by blast
qed

subsection \<open>The estimated amount\<close>

fun jnum_int :: "jsnum \<Rightarrow> int" where
  "jnum_int (JFin x) = \<lfloor>x\<rfloor>"
| "jnum_int _ = 0"

lemma jnum_int_jint [simp]: "jnum_int (jint n) = n"
  by (simp add: jint_def)

text \<open>The amount of one row in integers: price times quantity, if the product is on sale.\<close>

definition row_amount :: "product list \<Rightarrow> draft_item \<Rightarrow> int" where
  "row_amount products item =
     (let q = Number (draft_quantity item)
      in case find (\<lambda>p. jeq (prod_id p) (Number (draft_product_id item))) products of
           None \<Rightarrow> 0
         | Some p \<Rightarrow> if isInteger q \<and> jless (jint 0) q then jnum_int (price_fen p) * jnum_int q else 0)"

definition fen_prices :: "product list \<Rightarrow> bool" where
  "fen_prices products \<longleftrightarrow> (\<forall>p \<in> set products. isInteger (price_fen p) \<and> jle (jint 0) (price_fen p))"

lemma find_in: "find P xs = Some x \<Longrightarrow> x \<in> set xs"
  by (auto simp: find_Some_iff)

lemma row_amount_cases:
  assumes "fen_prices products"
  shows "0 \<le> row_amount products item" and "0 \<le> a \<Longrightarrow> a + row_amount products item \<le> 2 ^ 53 \<Longrightarrow>
    add_estimate products (jint a) item = jint (a + row_amount products item)"
proof -
  let ?q = "Number (draft_quantity item)"
  let ?f = "find (\<lambda>p. jeq (prod_id p) (Number (draft_product_id item))) products"
  have c: "0 \<le> row_amount products item \<and> (0 \<le> a \<longrightarrow> a + row_amount products item \<le> 2 ^ 53 \<longrightarrow>
      add_estimate products (jint a) item = jint (a + row_amount products item))"
  proof (cases ?f)
    case None
    then show ?thesis by (simp add: row_amount_def add_estimate_def Let_def)
  next
    case (Some p)
    then have "isInteger (price_fen p)" "jle (jint 0) (price_fen p)"
      using find_in[OF Some] assms by (auto simp: fen_prices_def)
    then obtain n where n: "price_fen p = jint n" "0 \<le> n" by (auto elim: isInteger_cases)
    show ?thesis
    proof (cases "isInteger ?q \<and> jless (jint 0) ?q")
      case True
      then obtain q where q: "?q = jint q" "0 < q" by (auto elim: isInteger_cases)
      have r: "row_amount products item = n * q" "add_estimate products (jint a) item = jint a + jint n * jint q"
        using Some n q by (simp_all add: row_amount_def add_estimate_def Let_def)
      have "0 \<le> n * q" using n q by simp
      then show ?thesis using r by (auto simp: jint_mult jint_add)
    next
      case False
      then show ?thesis
        using Some not_le_integer[of ?q] by (auto simp: row_amount_def add_estimate_def Let_def)
    qed
  qed
  then show "0 \<le> row_amount products item" and "0 \<le> a \<Longrightarrow> a + row_amount products item \<le> 2 ^ 53 \<Longrightarrow>
    add_estimate products (jint a) item = jint (a + row_amount products item)" by blast+
qed

lemma estimate_from:
  "fen_prices products \<Longrightarrow> 0 \<le> a \<Longrightarrow> a + (\<Sum>i\<leftarrow>items. row_amount products i) \<le> 2 ^ 53 \<Longrightarrow>
   foldl (add_estimate products) (jint a) items = jint (a + (\<Sum>i\<leftarrow>items. row_amount products i))"
proof (induction items arbitrary: a)
  case (Cons i items)
  have "0 \<le> (\<Sum>i\<leftarrow>items. row_amount products i)"
    using row_amount_cases(1)[OF Cons.prems(1)] by (intro sum_list_nonneg) auto
  then have "a + row_amount products i \<le> 2 ^ 53" using Cons.prems(3) by simp
  with row_amount_cases[OF Cons.prems(1), where item = i] Cons show ?case by (simp add: add.assoc)
qed simp

text \<open>
  The estimated amount is the exact sum of price times quantity over the rows whose product is on
  sale and whose quantity is a positive integer, whenever that sum does not pass \<open>2 ^ 53\<close> fen.
\<close>

theorem estimated_amount_exact:
  assumes "fen_prices products" "(\<Sum>i\<leftarrow>items. row_amount products i) \<le> 2 ^ 53"
  shows "estimatedAmountFen products items = jint (\<Sum>i\<leftarrow>items. row_amount products i)"
  using estimate_from[of products 0 items] assms by (simp add: estimatedAmountFen_def)

theorem estimated_amount_exact_witness:
  "estimatedAmountFen [demo_product]
     [\<lparr>rowId = [], draft_product_id = to_string (jint 3), draft_quantity = dec 2\<rparr>] = jint 2500"
proof -
  let ?row = "\<lparr>rowId = [], draft_product_id = to_string (jint 3), draft_quantity = dec 2\<rparr>"
  have r: "row_amount [demo_product] ?row = 2500"
    by (simp add: row_amount_def demo_product_def Number_to_string Number_dec max_safe_def Let_def)
  have "fen_prices [demo_product]" by (simp add: fen_prices_def demo_product_def)
  from estimated_amount_exact[OF this, of "[?row]"] show ?thesis by (simp add: r)
qed

subsection \<open>Pages and caches\<close>

text \<open>
  The page never asks for a page that does not exist. The page number is a safe integer of at
  least 1 in every reachable state, and moving on is offered only below the exact number of pages
  \<open>ceil(total / 10)\<close>, although the quotient is a rounded double.
\<close>

theorem orders_next_page_exists:
  assumes "orders_reach intl n w" "lib_contract (w_unanswered w) lib"
    and "offers (OrdersPage intl lib (w_state w)) NextPage"
  shows "\<exists>p t. os_page (w_state w) = jint p \<and> 1 \<le> p \<and> list_total lib = jint t \<and>
    os_page (fst (orders_handle env NextPage (w_state w))) = jint (p + 1) \<and> p + 1 \<le> (t + 9) div 10"
proof -
  have "page_ok (os_page (w_state w))" using reach_ok[OF assms(1)] unfolding world_ok_def by blast
  then obtain p where p: "os_page (w_state w) = jint p" "1 \<le> p" "p \<le> max_safe" by (rule page_ok_cases)
  obtain t where t: "list_total lib = jint t" "0 \<le> t" "t \<le> max_safe" using assms(2) by (rule total_cases)
  have "p < (t + 9) div 10"
    using offered_facts(4)[OF assms(3)] p t by (simp add: orderPageSize_def total_pages_exact)
  moreover have "jint p + jint 1 = jint (p + 1)" using p by (intro jint_add) (simp add: max_safe_def)
  ultimately show ?thesis using p t by (auto simp: nextPage_def next_page_def)
qed

theorem orders_next_page_exists_witness:
  "\<exists>p t. os_page (w_state demo_start) = jint p \<and> list_total demo_lib = jint t \<and> p + 1 \<le> (t + 9) div 10"
proof -
  have "orders_reach (\<lambda>_. None) (Suc 0) demo_start"
    using orders_reach.mount[of "\<lambda>_. None" 0 demo_env] by (simp add: demo_start_def)
  moreover have "lib_contract (w_unanswered demo_start) demo_lib"
    using demo_contract by (simp add: demo_start_def)
  moreover have "offers (OrdersPage (\<lambda>_. None) demo_lib (w_state demo_start)) NextPage"
    by (rule demo_offers(4)) (simp add: demo_start_def orders_initial_def mint_eqs)
  ultimately show ?thesis using orders_next_page_exists by blast
qed

text \<open>
  After an order was created or acted upon no view stays stale: every cached page of the order
  list, every cached order detail and every cached list of stock logs is invalidated.
\<close>

theorem orders_success_invalidates:
  assumes "effs = snd (createOrder_onSuccess env ord s) \<or> effs = snd (orderAction_onSuccess selected a s)"
    and "key \<in> {queryKeys_orders p n, queryKeys_order i, queryKeys_stockLogs m}"
  shows "\<exists>k. Invalidate k \<in> set effs \<and> invalidates k key"
proof -
  have "Invalidate queryKeys_ordersRoot \<in> set effs" "Invalidate queryKeys_stockLogsRoot \<in> set effs"
    using assms(1) by (auto simp: createOrder_onSuccess_def orderAction_onSuccess_def mint_eqs)
  moreover have "invalidates queryKeys_ordersRoot key \<or> invalidates queryKeys_stockLogsRoot key"
    using assms(2) by (auto simp: invalidates_def query_key_defs)
  ultimately show ?thesis by blast
qed

theorem orders_success_invalidates_witness:
  "\<exists>k. Invalidate k \<in> set (snd (orderAction_onSuccess None Pay (w_state demo_start))) \<and>
     invalidates k (queryKeys_order (js ''5''))"
  by (rule orders_success_invalidates[where s = "w_state demo_start"]) auto

end
