(* ===== verification/Money.thy ===== *)
theory Money
  imports Format
begin

section \<open>Prices typed in yuan (money.ts)\<close>

text \<open>
  \<open>parseYuanToFen\<close> reads a price typed by the user and returns it in fen. It computes with
  doubles; the theorem says that it never returns a rounded amount, and that it refuses only what
  is not a price or does not fit.
\<close>

text \<open>The regular expression \<open>/^\d+(\.\d{1,2})?$/\<close>.\<close>

definition matches_yuan :: "jsstr \<Rightarrow> bool" where
  "matches_yuan s =
     (let r = dropWhile is_digit s
      in takeWhile is_digit s \<noteq> [] \<and>
         (r = [] \<or> (hd r = 0x2E \<and> 1 \<le> length (tl r) \<and> length (tl r) \<le> 2 \<and>
                    list_all is_digit (tl r))))"

definition parseYuanToFen :: "jsstr \<Rightarrow> jsnum option" where
  "parseYuanToFen value =
     (let normalized = trim value
      in if \<not> matches_yuan normalized then None
         else let parts = js_split (js ''.'') normalized;
                  yuan = hd parts;
                  decimal = (case tl parts of [] \<Rightarrow> [] | d # _ \<Rightarrow> d);
                  fen = Number yuan * jint 100 + Number (pad_end 2 0x30 decimal)
              in if isSafeInteger fen \<and> jless (jint 0) fen then Some fen else None)"

subsection \<open>The exact value of a price\<close>

text \<open>The rational number a decimal notation with an optional dot denotes.\<close>

definition decimal_value :: "jsstr \<Rightarrow> rat" where
  "decimal_value s =
     (let ip = takeWhile is_digit s; fp = tl (dropWhile is_digit s)
      in of_int (undec (ip @ fp)) / 10 ^ length fp)"

lemma dot_not_digit [simp]: "\<not> is_digit 0x2E"
  by (simp add: is_digit_def)

lemma js_dot: "js ''.'' = [0x2E]"
  by (simp add: js_def)

lemma matches_yuan_cases:
  assumes "matches_yuan s"
  obtains ip where "s = ip" "ip \<noteq> []" "\<forall>c \<in> set ip. is_digit c"
  | ip fp where "s = ip @ 0x2E # fp" "ip \<noteq> []" "\<forall>c \<in> set ip. is_digit c"
      "fp \<noteq> []" "length fp \<le> 2" "\<forall>c \<in> set fp. is_digit c"
proof -
  let ?ip = "takeWhile is_digit s" and ?r = "dropWhile is_digit s"
  have s: "s = ?ip @ ?r" by simp
  have ip: "?ip \<noteq> []" "\<forall>c \<in> set ?ip. is_digit c"
    using assms by (auto simp: matches_yuan_def Let_def dest: set_takeWhileD)
  show thesis
  proof (cases "?r")
    case Nil
    then have "s = ?ip" using s by (metis append_Nil2)
    then show thesis by (rule that(1)[OF _ ip])
  next
    case (Cons c fp)
    then have "c = 0x2E" "fp \<noteq> []" "length fp \<le> 2" "\<forall>c \<in> set fp. is_digit c"
      using assms by (auto simp: matches_yuan_def list_all_iff)
    then show thesis using that(2)[of ?ip fp] s ip Cons by metis
  qed
qed

text \<open>On a price, the amount computed in fen: rounded twice by the code, once here not at all.\<close>

definition exact_fen :: "jsstr \<Rightarrow> jsstr \<Rightarrow> int" where
  "exact_fen ip fp = undec ip * 100 + undec (pad_end 2 0x30 fp)"

lemma exact_fen_value:
  assumes "\<forall>c \<in> set ip. is_digit c" "length fp \<le> 2" "\<forall>c \<in> set fp. is_digit c"
  shows "100 * decimal_value (ip @ 0x2E # fp) = of_int (exact_fen ip fp)"
proof -
  have e: "takeWhile is_digit (ip @ 0x2E # fp) = ip" "dropWhile is_digit (ip @ 0x2E # fp) = 0x2E # fp"
    using assms(1) by (simp_all add: takeWhile_stop dropWhile_stop)
  have v: "decimal_value (ip @ 0x2E # fp) = of_int (undec (ip @ fp)) / 10 ^ length fp"
    unfolding decimal_value_def e Let_def by simp
  consider "fp = []" | a where "fp = [a]" | a b where "fp = [a, b]"
    using assms(2) by (cases fp; cases "tl fp"; cases "tl (tl fp)") auto
  then show ?thesis unfolding v
    by cases (simp_all add: exact_fen_def pad_end_two undec_append undec_Cons)
qed

lemma decimal_value_int:
  assumes "\<forall>c \<in> set ip. is_digit c" shows "100 * decimal_value ip = of_int (exact_fen ip [])"
proof -
  have e: "takeWhile is_digit ip = ip" "dropWhile is_digit ip = []" using assms by auto
  show ?thesis unfolding decimal_value_def e Let_def
    by (simp add: exact_fen_def pad_end_two undec_Cons)
qed

definition accept :: "jsnum \<Rightarrow> jsnum option" where
  "accept fen = (if isSafeInteger fen \<and> jless (jint 0) fen then Some fen else None)"

lemma accept_exact:
  assumes ip: "ip \<noteq> []" "\<forall>c \<in> set ip. is_digit c"
    and fp: "length fp \<le> 2" "\<forall>c \<in> set fp. is_digit c"
  shows "accept (Number ip * jint 100 + Number (pad_end 2 0x30 fp)) = Some a \<longleftrightarrow>
    a = jint (exact_fen ip fp) \<and> 0 < exact_fen ip fp \<and> exact_fen ip fp \<le> max_safe"
proof -
  let ?Y = "undec ip" and ?D = "undec (pad_end 2 0x30 fp)"
  let ?p = "Number ip * jint 100"
  have pad: "\<forall>c \<in> set (pad_end 2 0x30 fp). is_digit c" "length (pad_end 2 0x30 fp) = 2"
    using fp by (auto simp: pad_end_def is_digit_def)
  then have D: "0 \<le> ?D" "?D < 100" using undec_bounds[of "pad_end 2 0x30 fp"] by auto
  then have ND: "Number (pad_end 2 0x30 fp) = jint ?D"
    using pad by (intro Number_digits_safe) (auto simp: max_safe_def simp flip: length_greater_0_conv)
  have Y: "0 \<le> ?Y" using undec_bounds ip(2) by blast
  have NY: "Number ip = rnd (of_int ?Y)" by (rule Number_digits[OF ip])
  have p: "?p = jint (?Y * 100) \<and> ?Y * 100 \<le> 2 ^ 53 \<or> past_safe ?p \<and> max_safe < ?Y * 100"
  proof (cases "?Y \<le> 2 ^ 53")
    case False
    then have "past_safe ?p" unfolding NY by (intro past_safe_times past_safe_rnd_int) auto
    then show ?thesis using False by (simp add: max_safe_def)
  next
    case True
    then have "?p = rnd (of_int (?Y * 100))" using Y rnd_int[of ?Y] by (simp add: NY jint_def)
    then show ?thesis
      using rnd_int[of "?Y * 100"] past_safe_rnd_int[of "?Y * 100"] Y
      by (cases "?Y * 100 \<le> 2 ^ 53") (auto simp: max_safe_def)
  qed
  have q: "?p + jint ?D = jint (exact_fen ip fp) \<and> exact_fen ip fp \<le> 2 ^ 53
      \<or> past_safe (?p + jint ?D) \<and> max_safe < exact_fen ip fp"
  proof (rule disjE[OF p])
    assume "?p = jint (?Y * 100) \<and> ?Y * 100 \<le> 2 ^ 53"
    then have "?p + jint ?D = rnd (of_int (exact_fen ip fp))" by (simp add: jint_def exact_fen_def)
    moreover have "0 \<le> exact_fen ip fp" using Y D by (simp add: exact_fen_def)
    ultimately show ?thesis
      using rnd_int[of "exact_fen ip fp"] past_safe_rnd_int[of "exact_fen ip fp"]
      by (cases "exact_fen ip fp \<le> 2 ^ 53") (auto simp: max_safe_def)
  next
    assume "past_safe ?p \<and> max_safe < ?Y * 100"
    then show ?thesis using D past_safe_plus[of ?p ?D] by (auto simp: exact_fen_def)
  qed
  have "0 \<le> exact_fen ip fp" using Y D by (simp add: exact_fen_def)
  then show ?thesis
    using q past_safe_not_safe[of "?p + jint ?D"] unfolding accept_def ND by auto
qed

lemma parse_iff:
  "parseYuanToFen value = Some a \<longleftrightarrow>
     matches_yuan (trim value) \<and>
     (\<exists>c. a = jint c \<and> of_int c = 100 * decimal_value (trim value) \<and> 0 < c \<and> c \<le> max_safe)"
proof (cases "matches_yuan (trim value)")
  case True
  then show ?thesis
  proof (cases rule: matches_yuan_cases)
    case (1 ip)
    then have "js_split (js ''.'') ip = [ip]" unfolding js_dot by (intro js_split_char_none) auto
    then have "parseYuanToFen value = accept (Number ip * jint 100 + Number (pad_end 2 0x30 []))"
      using True 1 by (simp add: parseYuanToFen_def accept_def Let_def)
    then show ?thesis
      using accept_exact[of ip "[]" a] 1 True decimal_value_int[of ip] by auto
  next
    case (2 ip fp)
    have "0x2E \<notin> set ip" "0x2E \<notin> set fp" using 2 by auto
    then have "js_split (js ''.'') (ip @ 0x2E # fp) = [ip, fp]"
      unfolding js_dot by (simp add: js_split_char_some js_split_char_none)
    then have "parseYuanToFen value = accept (Number ip * jint 100 + Number (pad_end 2 0x30 fp))"
      using True 2 by (simp add: parseYuanToFen_def accept_def Let_def)
    then show ?thesis
      using accept_exact[of ip fp a] 2 True exact_fen_value[of ip fp] by auto
  qed
qed (simp add: parseYuanToFen_def)

text \<open>
  C22: the price parser returns exactly the amount typed. It succeeds with \<open>a\<close> if and only if the
  trimmed input is digits with at most two decimals, and \<open>a\<close> is 100 times the exact decimal value
  typed, a positive integer up to \<open>2 ^ 53 - 1\<close>: no double rounding is ever visible, no price that
  fits is refused, and zero is.
\<close>

theorem parseYuanToFen_exact:
  "parseYuanToFen value = Some a \<longleftrightarrow>
     matches_yuan (trim value) \<and>
     (\<exists>c. a = jint c \<and> of_int c = 100 * decimal_value (trim value) \<and> 0 < c \<and> c \<le> max_safe)"
  by (rule parse_iff)

subsection \<open>What is printed can be typed back\<close>

lemma matches_yuan_cents: "0 \<le> n \<Longrightarrow> matches_yuan (cents_text n)"
proof -
  assume n: "0 \<le> n"
  let ?ip = "dec (n div 100)" and ?fp = "pad_start 2 0x30 (dec (n mod 100))"
  have ip: "\<forall>c \<in> set ?ip. is_digit c" using n by (intro dec_digits) simp
  have fp: "\<forall>c \<in> set ?fp. is_digit c" "length ?fp = 2"
    using dec_two[of "n mod 100"] by auto
  have e: "takeWhile is_digit (cents_text n) = ?ip" "dropWhile is_digit (cents_text n) = 0x2E # ?fp"
    using ip by (simp_all add: cents_text_def js_dot takeWhile_stop dropWhile_stop)
  show ?thesis unfolding matches_yuan_def e Let_def using fp by (simp add: list_all_iff)
qed

lemma decimal_value_cents: "0 \<le> n \<Longrightarrow> 100 * decimal_value (cents_text n) = of_int n"
proof -
  assume n: "0 \<le> n"
  let ?ip = "dec (n div 100)" and ?r = "n mod 100"
  have ip: "\<forall>c \<in> set ?ip. is_digit c" using n by (intro dec_digits) simp
  have two: "pad_start 2 0x30 (dec ?r) = [digit_char (?r div 10), digit_char (?r mod 10)]"
    by (rule dec_two) simp_all
  have "100 * decimal_value (?ip @ 0x2E # pad_start 2 0x30 (dec ?r)) =
      of_int (exact_fen ?ip (pad_start 2 0x30 (dec ?r)))"
    using ip by (intro exact_fen_value) (auto simp: two)
  also have "exact_fen ?ip (pad_start 2 0x30 (dec ?r)) = n div 100 * 100 + (?r div 10 * 10 + ?r mod 10)"
    using n by (simp add: exact_fen_def two pad_end_def undec_Cons)
  also have "\<dots> = n" by simp
  finally show ?thesis by (simp add: cents_text_def js_dot)
qed

lemma trim_cents: "0 \<le> n \<Longrightarrow> trim (cents_text n) = cents_text n"
proof (rule trim_no_ws)
  assume n: "0 \<le> n"
  have "\<forall>c \<in> set (dec (n div 100)). is_digit c" using n by (intro dec_digits) simp
  moreover have "\<forall>c \<in> set (pad_start 2 0x30 (dec (n mod 100))). is_digit c"
    using dec_two[of "n mod 100"] by auto
  moreover have "\<not> is_ws 0x2E" by (simp add: is_ws_def)
  ultimately show "\<forall>c \<in> set (cents_text n). \<not> is_ws c"
    by (auto simp: cents_text_def js_dot)
qed

text \<open>
  Printing and parsing are inverse on prices. Any positive amount of up to \<open>100 * 2 ^ 46\<close> fen,
  printed by \<open>formatFen\<close> and typed into the price field without the yen sign, gives the same
  amount back.
\<close>

theorem parse_formatFen_roundtrip:
  assumes "0 < n" and "n \<le> max_exact_fen"
  shows "parseYuanToFen (drop (length txt_yen) (formatFen (Some (jint n)))) = Some (jint n)"
proof -
  have f: "formatFen (Some (jint n)) = txt_yen @ cents_text n"
    using toFixed_cents[of n] assms by (simp add: formatFen_def)
  have "n \<le> max_safe" using assms(2) by (simp add: max_exact_fen_def max_safe_def)
  then have "\<exists>c. jint n = jint c \<and> of_int c = 100 * decimal_value (cents_text n) \<and> 0 < c \<and> c \<le> max_safe"
    using assms(1) decimal_value_cents[of n] by auto
  moreover have "matches_yuan (cents_text n)" "trim (cents_text n) = cents_text n"
    using assms(1) matches_yuan_cents trim_cents by simp_all
  ultimately show ?thesis unfolding f by (simp add: parse_iff)
qed

theorem parse_formatFen_roundtrip_witness:
  "parseYuanToFen (drop (length txt_yen) (formatFen (Some (jint 19999)))) = Some (jint 19999)"
  by (rule parse_formatFen_roundtrip) (simp_all add: max_exact_fen_def)

end
