(* ===== verification/Products.thy ===== *)
theory Products
  imports Paging Money
begin

section \<open>The product page (products.tsx)\<close>

text \<open>
  The state, the handlers, the callbacks of the three mutations and the rendered tree of
  \<open>ProductsPage\<close>.
\<close>

record products_state =
  ps_name :: jsstr
  ps_description :: jsstr
  ps_priceYuan :: jsstr
  selectedProduct :: "product option"
  ps_page :: jsnum

datatype sale_action = OnSale | OffSale

datatype product_mutation =
  FetchProduct jsnum
| CreateProduct create_product_payload
| ChangeSale jsnum sale_action

type_synonym products_result = "products_state \<times> product_mutation effect list"

fun product_mutation_request :: "product_mutation \<Rightarrow> request" where
  "product_mutation_request (FetchProduct i) = productApi_detail i"
| "product_mutation_request (CreateProduct payload) = productApi_create payload"
| "product_mutation_request (ChangeSale i action) =
     (if action = OnSale then productApi_onSale i else productApi_offSale i)"

definition products_initial :: products_state where
  "products_initial = \<lparr>ps_name = [], ps_description = [], ps_priceYuan = [], selectedProduct = None,
     ps_page = jint 1\<rparr>"

definition products_pageSize :: jsnum where "products_pageSize = jint 10"

definition productsQuery :: "products_state \<Rightarrow> query_options" where
  "productsQuery s = \<lparr>qo_key = queryKeys_products (Some ListAll) (Some (ps_page s)) (Some products_pageSize),
     qo_request = productApi_list (Some ListAll) (Some (ps_page s)) (Some products_pageSize),
     qo_enabled = True, qo_keep_previous = True\<rparr>"

subsection \<open>Handlers and callbacks\<close>

definition handleCreateProduct :: "products_state \<Rightarrow> products_result" where
  "handleCreateProduct s =
     (if trim (ps_name s) = [] then (s, [ToastError txt_name_empty])
      else case parseYuanToFen (ps_priceYuan s) of
          None \<Rightarrow> (s, [ToastError txt_price_invalid])
        | Some priceFen \<Rightarrow>
            (s, [Mutate (CreateProduct \<lparr>cp_name = trim (ps_name s), cp_description = trim (ps_description s),
               cp_price_fen = priceFen\<rparr>)]))"

definition products_prevPage :: "products_state \<Rightarrow> products_result" where
  "products_prevPage s = (s\<lparr>ps_page := prev_page (ps_page s)\<rparr>, [])"

definition products_nextPage :: "products_state \<Rightarrow> products_result" where
  "products_nextPage s = (s\<lparr>ps_page := next_page (ps_page s)\<rparr>, [])"

definition productDetail_onSuccess :: "product \<Rightarrow> products_state \<Rightarrow> products_result" where
  "productDetail_onSuccess p s = (s\<lparr>selectedProduct := Some p\<rparr>, [ToastSuccess txt_detail_updated])"

definition createProduct_onSuccess :: "products_state \<Rightarrow> products_result" where
  "createProduct_onSuccess s =
     (s\<lparr>ps_name := [], ps_description := [], ps_priceYuan := [], ps_page := jint 1\<rparr>,
      [ToastSuccess txt_product_created, Invalidate queryKeys_productsRoot])"

text \<open>\<open>selected\<close> is the \<open>selectedProduct\<close> of the rendering whose callback the library calls.\<close>

definition status_onSuccess ::
  "product option \<Rightarrow> jsnum \<Rightarrow> sale_action \<Rightarrow> products_state \<Rightarrow> products_result" where
  "status_onSuccess selected i action s =
     (s, [ToastSuccess (if action = OnSale then txt_now_on_sale else txt_now_off_sale),
          Invalidate queryKeys_productsRoot]
         @ (case selected of None \<Rightarrow> []
            | Some p \<Rightarrow> if jeq (prod_id p) i then [Mutate (FetchProduct i)] else []))"

definition products_onError :: "js_error \<Rightarrow> products_state \<Rightarrow> products_result" where
  "products_onError err s = (s, [ToastError (getErrorMessage err)])"

datatype products_event =
  SetName jsstr
| SetDescription jsstr
| SetPriceYuan jsstr
| SubmitProduct
| ShowProduct jsnum
| RequestSale jsnum sale_action
| ProductsPrev
| ProductsNext

datatype products_callback =
  DetailFetched product
| ProductCreated
| SaleChanged "product option" jsnum sale_action
| ProductsFailed js_error

fun products_handle :: "products_event \<Rightarrow> products_state \<Rightarrow> products_result" where
  "products_handle (SetName v) s = (s\<lparr>ps_name := v\<rparr>, [])"
| "products_handle (SetDescription v) s = (s\<lparr>ps_description := v\<rparr>, [])"
| "products_handle (SetPriceYuan v) s = (s\<lparr>ps_priceYuan := v\<rparr>, [])"
| "products_handle SubmitProduct s = handleCreateProduct s"
| "products_handle (ShowProduct i) s = (s, [Mutate (FetchProduct i)])"
| "products_handle (RequestSale i action) s = (s, [Mutate (ChangeSale i action)])"
| "products_handle ProductsPrev s = products_prevPage s"
| "products_handle ProductsNext s = products_nextPage s"

fun products_on :: "products_callback \<Rightarrow> products_state \<Rightarrow> products_result" where
  "products_on (DetailFetched p) s = productDetail_onSuccess p s"
| "products_on ProductCreated s = createProduct_onSuccess s"
| "products_on (SaleChanged selected i action) s = status_onSuccess selected i action s"
| "products_on (ProductsFailed err) s = products_onError err s"

subsection \<open>The rendered page\<close>

record products_lib =
  pq_list :: "product_list query_view"
  pm_create :: "create_product_payload mutation_view"
  pm_status :: "(jsnum \<times> sale_action) mutation_view"

definition shown_products :: "products_lib \<Rightarrow> product list" where
  "shown_products lib = (case q_data (pq_list lib) of None \<Rightarrow> [] | Some d \<Rightarrow> pl_products d)"

definition products_total :: "products_lib \<Rightarrow> jsnum" where
  "products_total lib = (case q_data (pq_list lib) of None \<Rightarrow> jint 0 | Some d \<Rightarrow> pl_total d)"

text \<open>The product's change of sale is in flight.\<close>

definition sale_pending :: "products_lib \<Rightarrow> product \<Rightarrow> bool" where
  "sale_pending lib p \<longleftrightarrow> m_isPending (pm_status lib) \<and>
     (case m_variables (pm_status lib) of None \<Rightarrow> False | Some (i, _) \<Rightarrow> jeq i (prod_id p))"

definition sale_buttons :: "products_lib \<Rightarrow> product \<Rightarrow> products_event node list" where
  "sale_buttons lib p =
     [El ''Button'' [Attr ''size'' (js ''sm''),
        Disabled (jeq (prod_status p) PRODUCT_ON_SALE \<or> sale_pending lib p),
        OnClick (RequestSale (prod_id p) OnSale)] [Txt txt_put_on_sale],
      El ''Button'' [Attr ''size'' (js ''sm''), Attr ''variant'' (js ''outline''),
        Disabled (jeq (prod_status p) PRODUCT_OFF_SALE \<or> sale_pending lib p),
        OnClick (RequestSale (prod_id p) OffSale)] [Txt txt_take_off_sale]]"

definition product_form :: "products_lib \<Rightarrow> products_state \<Rightarrow> products_event node" where
  "product_form lib s =
     El ''Card'' []
       [El ''CardHeader'' []
          [El ''CardTitle'' [] [Txt txt_create_product], El ''CardDescription'' [] [Txt txt_create_product_desc]],
        El ''CardContent'' []
          [El ''form'' [OnSubmit SubmitProduct]
            [Field txt_product_name
               [El ''Input'' [Val (ps_name s), OnChange SetName, MaxLength 100,
                  Attr ''placeholder'' txt_name_example] []],
             Field txt_price_label
               [El ''Input'' [Val (ps_priceYuan s), OnChange SetPriceYuan, Attr ''inputMode'' (js ''decimal''),
                  Attr ''placeholder'' (js ''199.00'')] []],
             Field txt_product_description
               [El ''Textarea'' [Val (ps_description s), OnChange SetDescription, MaxLength 500,
                  Attr ''placeholder'' txt_description_hint] []],
             El ''Button'' [Disabled (m_isPending (pm_create lib))] [Txt txt_create_product]]]]"

definition product_detail_card :: "products_lib \<Rightarrow> products_state \<Rightarrow> products_event node" where
  "product_detail_card lib s =
     El ''Card'' []
       [El ''CardHeader'' []
          [El ''CardTitle'' [] [Txt txt_product_detail], El ''CardDescription'' [] [Txt txt_product_detail_desc]],
        El ''CardContent'' []
          (case selectedProduct s of
             Some p \<Rightarrow>
               [El ''div'' []
                  [El ''div'' []
                     [El ''div'' []
                        [El ''p'' [] [Txt (js ''#''), Txt (to_string (prod_id p)), Txt (js '' ''), Txt (prod_name p)],
                         El ''p'' [] [Txt (formatFen (Some (price_fen p)))]],
                      ProductStatusBadge (prod_status p)],
                   El ''p'' [] [Txt (if prod_description p \<noteq> [] then prod_description p else txt_no_description)],
                   El ''div'' [] (sale_buttons lib p)]]
           | None \<Rightarrow> [El ''div'' [] [Txt txt_choose_product]])]"

definition product_row :: "(jsstr \<Rightarrow> jsstr option) \<Rightarrow> products_lib \<Rightarrow> product \<Rightarrow> products_event node" where
  "product_row intl lib p =
     El ''TableRow'' [NumAttr ''key'' (prod_id p)]
       [El ''TableCell'' [] [Txt (js ''#''), Txt (to_string (prod_id p))],
        El ''TableCell'' []
          [El ''div'' [] [Txt (prod_name p)],
           El ''div'' [] [Txt (if prod_description p \<noteq> [] then prod_description p else txt_no_description)]],
        El ''TableCell'' [] [Txt (formatFen (Some (price_fen p)))],
        El ''TableCell'' [] [ProductStatusBadge (prod_status p)],
        El ''TableCell'' [] [Txt (formatDateTime intl (Some (prod_updated_at p)))],
        El ''TableCell'' []
          [El ''div'' []
            (El ''Button'' [Attr ''size'' (js ''sm''), Attr ''variant'' (js ''outline''), OnClick (ShowProduct (prod_id p))]
               [Txt txt_detail]
             # sale_buttons lib p)]]"

definition product_table ::
  "(jsstr \<Rightarrow> jsstr option) \<Rightarrow> products_lib \<Rightarrow> products_state \<Rightarrow> products_event node" where
  "product_table intl lib s =
     El ''Card'' []
       [El ''CardHeader'' []
          [El ''CardTitle'' [] [Txt txt_product_list_title], El ''CardDescription'' [] [Txt txt_product_list_desc]],
        El ''CardContent'' []
          (ApiErrorPanel (q_error (pq_list lib))
           @ [El ''Table'' []
                [El ''TableHeader'' []
                   [El ''TableRow'' []
                     [El ''TableHead'' [] [Txt (js ''ID'')], El ''TableHead'' [] [Txt txt_name_col],
                      El ''TableHead'' [] [Txt txt_price], El ''TableHead'' [] [Txt txt_status],
                      El ''TableHead'' [] [Txt txt_updated_at], El ''TableHead'' [] [Txt txt_operations]]],
                 El ''TableBody'' []
                   (show_if (q_isLoading (pq_list lib)) [LoadingRow 6]
                    @ show_if (\<not> q_isLoading (pq_list lib)) (map (product_row intl lib) (shown_products lib))
                    @ show_if (\<not> q_isLoading (pq_list lib) \<and> length (shown_products lib) = 0)
                        [EmptyRow 6 txt_no_products])],
              pager (products_total lib) (ps_page s) (total_pages (products_total lib) products_pageSize)
                (q_isFetching (pq_list lib)) ProductsPrev ProductsNext])]"

definition ProductsPage ::
  "(jsstr \<Rightarrow> jsstr option) \<Rightarrow> products_lib \<Rightarrow> products_state \<Rightarrow> products_event node" where
  "ProductsPage intl lib s =
     BusinessPage txt_products_title txt_products_desc []
       [El ''div'' [] [El ''div'' [] [product_form lib s, product_detail_card lib s], product_table intl lib s]]"

end
