(* ===== verification/Utf8.thy ===== *)
theory Utf8
  imports JsString
begin

section \<open>UTF-8\<close>

text \<open>
  The bytes of a JavaScript string in UTF-8, as they are sent to the backend. A surrogate pair is one
  code point; a surrogate on its own arrives as the replacement character.
\<close>

type_synonym byte = "8 word"

definition high_surrogate :: "unit16 \<Rightarrow> bool" where
  "high_surrogate u \<longleftrightarrow> 0xD800 \<le> u \<and> u \<le> 0xDBFF"

definition low_surrogate :: "unit16 \<Rightarrow> bool" where
  "low_surrogate u \<longleftrightarrow> 0xDC00 \<le> u \<and> u \<le> 0xDFFF"

text \<open>The bytes of one code point, by its size, as numbers and as bytes.\<close>

definition utf8_numbers :: "int \<Rightarrow> int list" where
  "utf8_numbers c =
     (if c < 0x80 then [c]
      else if c < 0x800 then [0xC0 + c div 0x40, 0x80 + c mod 0x40]
      else if c < 0x10000 then [0xE0 + c div 0x1000, 0x80 + c div 0x40 mod 0x40, 0x80 + c mod 0x40]
      else [0xF0 + c div 0x40000, 0x80 + c div 0x1000 mod 0x40, 0x80 + c div 0x40 mod 0x40, 0x80 + c mod 0x40])"

definition utf8_point :: "int \<Rightarrow> byte list" where
  "utf8_point c = map word_of_int (utf8_numbers c)"

definition pair_point :: "unit16 \<Rightarrow> unit16 \<Rightarrow> int" where
  "pair_point h l = 0x10000 + (uint h - 0xD800) * 0x400 + (uint l - 0xDC00)"

fun utf8 :: "jsstr \<Rightarrow> byte list" where
  "utf8 [] = []"
| "utf8 [u] = (if high_surrogate u \<or> low_surrogate u then utf8_point 0xFFFD else utf8_point (uint u))"
| "utf8 (u # v # s) =
     (if high_surrogate u \<and> low_surrogate v then utf8_point (pair_point u v) @ utf8 s
      else if high_surrogate u \<or> low_surrogate u then utf8_point 0xFFFD @ utf8 (v # s)
      else utf8_point (uint u) @ utf8 (v # s))"

lemma length_utf8_point: "length (utf8_point c) \<le> 4"
  by (simp add: utf8_point_def utf8_numbers_def)

lemma utf8_cons:
  "\<not> high_surrogate u \<Longrightarrow> \<not> low_surrogate u \<Longrightarrow> utf8 (u # s) = utf8_point (uint u) @ utf8 s"
  by (cases s) simp_all

text \<open>A text of characters of the basic plane, three bytes each.\<close>

lemma length_utf8_replicate:
  assumes "0x800 \<le> uint u" "\<not> high_surrogate u" "\<not> low_surrogate u"
  shows "length (utf8 (replicate n u)) = 3 * n"
proof (induction n)
  case (Suc n)
  have "uint u < 0x10000" using uint_lt2p[of u] by simp
  then show ?case using Suc assms by (simp add: utf8_cons utf8_point_def utf8_numbers_def)
qed simp

end
