(* ===== verification/ServiceLimits.thy ===== *)
theory ServiceLimits
  imports Utf8
begin

section \<open>The length checks of the backend (internal/service, Go)\<close>

text \<open>
  What the services check of the texts the forms send. The backend counts bytes: the length of a Go
  string is that of its UTF-8 encoding. A text is represented by the JavaScript string it was sent
  as; \<open>go_trim\<close> is \<open>strings.TrimSpace\<close>, whose white space differs from that of \<open>trim\<close>.
\<close>

definition go_space :: "unit16 \<Rightarrow> bool" where
  "go_space u \<longleftrightarrow> u \<in> {0x9, 0xA, 0xB, 0xC, 0xD, 0x20, 0x85, 0xA0, 0x1680, 0x2028, 0x2029, 0x202F,
     0x205F, 0x3000} \<or> 0x2000 \<le> u \<and> u \<le> 0x200A"

definition go_trim :: "jsstr \<Rightarrow> jsstr" where
  "go_trim s = rev (dropWhile go_space (rev (dropWhile go_space s)))"

definition go_len :: "jsstr \<Rightarrow> nat" where
  "go_len s = length (utf8 s)"

datatype service_error =
  ErrInvalidProductPrice
| ErrInvalidProductName
| ErrInvalidProductDescription
| ErrUsernameInvalid
| ErrPasswordInvalid
| ErrNicknameInvalid

text \<open>The checks of \<open>CreateProduct\<close> and, on success, the name and the description it stores.\<close>

definition service_CreateProduct :: "jsstr \<Rightarrow> jsstr \<Rightarrow> int \<Rightarrow> service_error + jsstr \<times> jsstr" where
  "service_CreateProduct req_name req_description req_price =
     (let name = go_trim req_name; description = go_trim req_description
      in if req_price \<le> 0 then Inl ErrInvalidProductPrice
         else if name = [] then Inl ErrInvalidProductName
         else if go_len description > 500 then Inl ErrInvalidProductDescription
         else Inr (name, description))"

definition service_validatePassword :: "jsstr \<Rightarrow> service_error + unit" where
  "service_validatePassword password =
     (if go_len password < 6 \<or> go_len password > 72 then Inl ErrPasswordInvalid else Inr ())"

definition service_Register :: "jsstr \<Rightarrow> jsstr \<Rightarrow> service_error + jsstr" where
  "service_Register req_username req_password =
     (let name = go_trim req_username
      in if go_len name < 3 \<or> go_len name > 64 then Inl ErrUsernameInvalid
         else case service_validatePassword req_password of Inl e \<Rightarrow> Inl e | Inr _ \<Rightarrow> Inr name)"

definition service_UpdateNickname :: "jsstr \<Rightarrow> service_error + jsstr" where
  "service_UpdateNickname req_nickname =
     (let name = go_trim req_nickname
      in if name = [] \<or> go_len name > 64 then Inl ErrNicknameInvalid else Inr name)"

text \<open>A text of one Chinese character, repeated.\<close>

definition chinese :: "nat \<Rightarrow> jsstr" where
  "chinese n = replicate n 0x6C49"

lemma chinese_facts [simp]:
  "length (chinese n) = n" "trim (chinese n) = chinese n" "go_trim (chinese n) = chinese n"
  "go_len (chinese n) = 3 * n"
proof -
  have w: "\<not> is_ws 0x6C49" "\<not> go_space 0x6C49" by (simp_all add: is_ws_def go_space_def)
  then show "trim (chinese n) = chinese n" by (intro trim_no_ws) (simp add: chinese_def)
  have "dropWhile go_space (replicate n 0x6C49) = replicate n 0x6C49" using w by (cases n) simp_all
  then show "go_trim (chinese n) = chinese n" by (simp add: go_trim_def chinese_def)
  show "go_len (chinese n) = 3 * n"
    unfolding go_len_def chinese_def
    by (rule length_utf8_replicate) (simp_all add: high_surrogate_def low_surrogate_def)
qed (simp add: chinese_def)

end
