(* ===== verification/ProductsProps.thy ===== *)
theory ProductsProps
  imports Products ServiceLimits
begin

section \<open>Runs of the product page\<close>

text \<open>
  What the product page offers, its runs with the user and the query library, and what it
  guarantees of the requests it sends.
\<close>

subsection \<open>What the page offers\<close>

lemma offers_sale_buttons:
  "(\<exists>k \<in> set (sale_buttons lib p). offers k e) \<longleftrightarrow> \<not> sale_pending lib p \<and>
     (e = RequestSale (prod_id p) OnSale \<and> \<not> jeq (prod_status p) PRODUCT_ON_SALE \<or>
      e = RequestSale (prod_id p) OffSale \<and> \<not> jeq (prod_status p) PRODUCT_OFF_SALE)"
  by (auto simp: sale_buttons_def offers_El)

lemma offers_product_form:
  "offers (product_form lib s) e \<longleftrightarrow>
     (e = SubmitProduct \<and> \<not> m_isPending (pm_create lib)) \<or>
     (\<exists>v. e = SetName v \<and> length v \<le> 100) \<or> (\<exists>v. e = SetPriceYuan v) \<or>
     (\<exists>v. e = SetDescription v \<and> length v \<le> 500)"
  by (auto simp: product_form_def Field_def offers_El)

lemma offers_product_detail_card:
  "offers (product_detail_card lib s) e \<longleftrightarrow>
     (\<exists>p. selectedProduct s = Some p \<and> (\<exists>k \<in> set (sale_buttons lib p). offers k e))"
  by (auto simp: product_detail_card_def offers_El split: option.splits)

lemma offers_product_row:
  "offers (product_row intl lib p) e \<longleftrightarrow> e = ShowProduct (prod_id p) \<or>
     (\<exists>k \<in> set (sale_buttons lib p). offers k e)"
  by (auto simp: product_row_def offers_El)

lemma offers_product_table:
  "offers (product_table intl lib s) e \<longleftrightarrow>
     (\<not> q_isLoading (pq_list lib) \<and> (\<exists>p \<in> set (shown_products lib). offers (product_row intl lib p) e)) \<or>
     offers (pager (products_total lib) (ps_page s) (total_pages (products_total lib) products_pageSize)
       (q_isFetching (pq_list lib)) ProductsPrev ProductsNext) e"
  by (auto simp: product_table_def offers_El)

lemma offers_ProductsPage:
  "offers (ProductsPage intl lib s) e \<longleftrightarrow> offers (product_form lib s) e \<or>
     offers (product_detail_card lib s) e \<or> offers (product_table intl lib s) e"
  by (auto simp: ProductsPage_def)

lemmas offers_products = offers_ProductsPage offers_product_form offers_product_detail_card
  offers_product_table offers_product_row offers_sale_buttons offers_pager

subsection \<open>Runs\<close>

record products_world =
  pw_state :: products_state
  pw_sent :: "product_mutation list"
  pw_shown :: "product list"

definition products_send :: "products_world \<Rightarrow> products_result \<Rightarrow> products_world" where
  "products_send w r = w\<lparr>pw_state := fst r, pw_sent := pw_sent w @ mutations (snd r)\<rparr>"

text \<open>The backend's total is a number of entries.\<close>

definition products_contract :: "products_lib \<Rightarrow> bool" where
  "products_contract lib \<longleftrightarrow> isSafeInteger (products_total lib) \<and> jle (jint 0) (products_total lib)"

fun callback_products :: "products_callback \<Rightarrow> product list" where
  "callback_products (DetailFetched p) = [p]"
| "callback_products _ = []"

inductive products_reach :: "(jsstr \<Rightarrow> jsstr option) \<Rightarrow> products_world \<Rightarrow> bool"
  for intl :: "jsstr \<Rightarrow> jsstr option" where
  mount: "products_reach intl \<lparr>pw_state = products_initial, pw_sent = [], pw_shown = []\<rparr>"
| user: "products_reach intl w \<Longrightarrow> products_contract lib \<Longrightarrow> offers (ProductsPage intl lib (pw_state w)) ev \<Longrightarrow>
     products_reach intl
       (products_send (w\<lparr>pw_shown := pw_shown w @ shown_products lib\<rparr>) (products_handle ev (pw_state w)))"
| callback: "products_reach intl w \<Longrightarrow>
     products_reach intl
       (products_send (w\<lparr>pw_shown := pw_shown w @ callback_products cb\<rparr>) (products_on cb (pw_state w)))"

definition sale_ok :: "product list \<Rightarrow> jsnum \<Rightarrow> sale_action \<Rightarrow> bool" where
  "sale_ok products i action \<longleftrightarrow> (\<exists>p \<in> set products. prod_id p = i \<and>
     (case action of OnSale \<Rightarrow> \<not> jeq (prod_status p) PRODUCT_ON_SALE
        | OffSale \<Rightarrow> \<not> jeq (prod_status p) PRODUCT_OFF_SALE))"

definition creation_ok :: "create_product_payload \<Rightarrow> bool" where
  "creation_ok pl \<longleftrightarrow> cp_name pl \<noteq> [] \<and> trim (cp_name pl) = cp_name pl \<and> length (cp_name pl) \<le> 100 \<and>
     length (cp_description pl) \<le> 500 \<and> (\<exists>n. cp_price_fen pl = jint n \<and> 0 < n \<and> n \<le> max_safe)"

fun product_sent_ok :: "product list \<Rightarrow> product_mutation \<Rightarrow> bool" where
  "product_sent_ok products (FetchProduct i) = True"
| "product_sent_ok products (CreateProduct pl) = creation_ok pl"
| "product_sent_ok products (ChangeSale i action) = sale_ok products i action"

definition products_ok :: "products_world \<Rightarrow> bool" where
  "products_ok w \<longleftrightarrow> length (ps_name (pw_state w)) \<le> 100 \<and> length (ps_description (pw_state w)) \<le> 500 \<and>
     page_ok (ps_page (pw_state w)) \<and>
     (\<forall>p. selectedProduct (pw_state w) = Some p \<longrightarrow> p \<in> set (pw_shown w)) \<and>
     (\<forall>m \<in> set (pw_sent w). product_sent_ok (pw_shown w) m)"

interpretation products_paged: paged ps_page "\<lambda>s. fst (products_prevPage s)" "\<lambda>s. fst (products_nextPage s)"
  by unfold_locales (simp_all add: products_prevPage_def products_nextPage_def)

lemma product_sent_mono:
  "product_sent_ok products m \<Longrightarrow> set products \<subseteq> set products' \<Longrightarrow> product_sent_ok products' m"
  by (cases m) (auto simp: sale_ok_def)

lemma products_ok_see: "products_ok w \<Longrightarrow> products_ok (w\<lparr>pw_shown := pw_shown w @ ps\<rparr>)"
  using product_sent_mono[of "pw_shown w" _ "pw_shown w @ ps"] by (auto simp: products_ok_def)

lemma length_trim: "length (trim s) \<le> length s"
proof -
  have "length (dropWhile is_ws s) \<le> length s" by (rule length_dropWhile_le)
  moreover have "length (trim s) \<le> length (dropWhile is_ws s)"
    using length_dropWhile_le[of is_ws "rev (dropWhile is_ws s)"] by (simp add: trim_def)
  ultimately show ?thesis by simp
qed

lemma create_ok:
  assumes "CreateProduct pl \<in> set (mutations (snd (handleCreateProduct s)))"
    "length (ps_name s) \<le> 100" "length (ps_description s) \<le> 500"
  shows "creation_ok pl"
proof -
  obtain a where a: "parseYuanToFen (ps_priceYuan s) = Some a" "trim (ps_name s) \<noteq> []"
    "pl = \<lparr>cp_name = trim (ps_name s), cp_description = trim (ps_description s), cp_price_fen = a\<rparr>"
    using assms(1) by (auto simp: handleCreateProduct_def split: if_splits option.splits)
  have "length (trim (ps_name s)) \<le> 100" "length (trim (ps_description s)) \<le> 500"
    using length_trim assms(2,3) le_trans by blast+
  then show ?thesis using a by (auto simp: creation_ok_def parse_iff)
qed

lemma handleCreateProduct_state [simp]: "fst (handleCreateProduct s) = s"
  by (simp add: handleCreateProduct_def split: option.splits)

lemma handleCreateProduct_creates:
  "m \<in> set (mutations (snd (handleCreateProduct s))) \<Longrightarrow> \<exists>pl. m = CreateProduct pl"
  by (auto simp: handleCreateProduct_def split: if_splits option.splits)

lemma products_ok_user:
  assumes w: "products_ok w" and lib: "products_contract lib"
    and ev: "offers (ProductsPage intl lib (pw_state w)) ev" and seen: "set (shown_products lib) \<subseteq> set (pw_shown w)"
  shows "products_ok (products_send w (products_handle ev (pw_state w)))"
proof (cases ev)
  case SubmitProduct
  have "product_sent_ok (pw_shown w) m" if "m \<in> set (mutations (snd (handleCreateProduct (pw_state w))))" for m
    using handleCreateProduct_creates[OF that] create_ok[of _ "pw_state w"] that w by (auto simp: products_ok_def)
  then show ?thesis using w by (auto simp: SubmitProduct products_send_def products_ok_def)
next
  case (RequestSale i action)
  have "sale_ok (pw_shown w) i action"
    using ev w seen by (auto simp: RequestSale offers_products sale_ok_def products_ok_def)
  then show ?thesis using w by (auto simp: RequestSale products_send_def products_ok_def)
next
  case ProductsNext
  obtain t where t: "products_total lib = jint t" "0 \<le> t" "t \<le> max_safe"
    using lib by (auto simp: products_contract_def elim: isSafeInteger_cases)
  have "\<not> jle (total_pages (jint t) (jint 10)) (ps_page (pw_state w))"
    using ev t by (simp add: ProductsNext offers_products products_pageSize_def)
  from products_paged.following_ok[OF _ this t(2,3)] w show ?thesis
    by (auto simp: ProductsNext products_send_def products_ok_def products_nextPage_def)
next
  case ProductsPrev
  with w products_paged.prev_ok[of "pw_state w"] show ?thesis
    by (auto simp: products_send_def products_ok_def products_prevPage_def)
qed (use w ev in \<open>auto simp: products_send_def products_ok_def offers_products\<close>)

lemma products_ok_on:
  assumes "products_ok w" "set (callback_products cb) \<subseteq> set (pw_shown w)"
  shows "products_ok (products_send w (products_on cb (pw_state w)))"
  using assms
  by (cases cb) (auto simp: products_send_def products_ok_def productDetail_onSuccess_def
      createProduct_onSuccess_def status_onSuccess_def products_onError_def max_safe_def split: option.splits)

lemma products_reach_ok: "products_reach intl w \<Longrightarrow> products_ok w"
proof (induction rule: products_reach.induct)
  case (user w lib ev)
  from products_ok_user[OF products_ok_see[OF user.IH, where ps = "shown_products lib"] user.hyps(2)] user.hyps(3)
  show ?case by simp
next
  case (callback w cb)
  from products_ok_on[OF products_ok_see[OF callback.IH, where ps = "callback_products cb"], of cb]
  show ?case by simp
qed (simp add: products_ok_def products_initial_def max_safe_def)

subsection \<open>Properties\<close>

definition tea :: product where
  "tea = \<lparr>prod_id = jint 3, prod_name = js ''Tea'', prod_description = [], price_fen = jint 1250,
     prod_status = PRODUCT_OFF_SALE, prod_created_at = [], prod_updated_at = []\<rparr>"

definition tea_lib :: products_lib where
  "tea_lib = \<lparr>pq_list = \<lparr>q_data = Some \<lparr>pl_products = [tea], pl_total = jint 1, pl_page = jint 1, pl_page_size = jint 10\<rparr>,
       q_isLoading = False, q_isFetching = False, q_isPending = False, q_isSuccess = True, q_isError = False, q_error = None\<rparr>,
     pm_create = \<lparr>m_isPending = False, m_variables = None\<rparr>, pm_status = \<lparr>m_isPending = False, m_variables = None\<rparr>\<rparr>"

lemma tea_step:
  assumes "products_reach intl w" "offers (ProductsPage intl tea_lib (pw_state w)) ev"
  shows "products_reach intl
    (products_send (w\<lparr>pw_shown := pw_shown w @ [tea]\<rparr>) (products_handle ev (pw_state w)))"
proof -
  have "products_contract tea_lib"
    by (simp add: products_contract_def products_total_def tea_lib_def max_safe_def)
  moreover have "shown_products tea_lib = [tea]" by (simp add: shown_products_def tea_lib_def)
  ultimately show ?thesis using products_reach.user[OF assms(1) _ assms(2)] by simp
qed

text \<open>A run: a name and a price are typed, the form is sent, and the product is put on sale.\<close>

definition tea_world :: products_world where
  "tea_world =
     (let s = products_initial\<lparr>ps_name := js ''Tea'', ps_priceYuan := cents_text 1250\<rparr>
      in \<lparr>pw_state = s, pw_sent = [CreateProduct \<lparr>cp_name = js ''Tea'', cp_description = [], cp_price_fen = jint 1250\<rparr>,
            ChangeSale (jint 3) OnSale], pw_shown = [tea, tea, tea, tea]\<rparr>)"

lemma tea_price: "parseYuanToFen (cents_text 1250) = Some (jint 1250)"
  using decimal_value_cents[of 1250] matches_yuan_cents[of 1250] trim_cents[of 1250]
  by (auto simp: parse_iff max_safe_def)

lemma tea_reach: "products_reach intl tea_world"
proof -
  let ?w0 = "\<lparr>pw_state = products_initial, pw_sent = [], pw_shown = []\<rparr>"
  let ?s1 = "products_initial\<lparr>ps_name := js ''Tea''\<rparr>"
  let ?s2 = "?s1\<lparr>ps_priceYuan := cents_text 1250\<rparr>"
  let ?pl = "\<lparr>cp_name = js ''Tea'', cp_description = [], cp_price_fen = jint 1250\<rparr>"
  have t: "trim (js ''Tea'') = js ''Tea''" "trim [] = []" "js ''Tea'' \<noteq> []" by code_simp+
  have "products_reach intl ?w0" by (rule products_reach.mount)
  from tea_step[OF this, of "SetName (js ''Tea'')"]
  have "products_reach intl \<lparr>pw_state = ?s1, pw_sent = [], pw_shown = [tea]\<rparr>"
    by (simp add: offers_products products_send_def length_js)
  from tea_step[OF this, of "SetPriceYuan (cents_text 1250)"]
  have "products_reach intl \<lparr>pw_state = ?s2, pw_sent = [], pw_shown = [tea, tea]\<rparr>"
    by (simp add: offers_products products_send_def)
  from tea_step[OF this, of SubmitProduct]
  have "products_reach intl \<lparr>pw_state = ?s2, pw_sent = [CreateProduct ?pl], pw_shown = [tea, tea, tea]\<rparr>"
    by (simp add: offers_products products_send_def handleCreateProduct_def tea_price t products_initial_def)
       (simp add: tea_lib_def)
  from tea_step[OF this, of "RequestSale (jint 3) OnSale"]
  show ?thesis
    by (simp add: offers_products products_send_def tea_world_def Let_def)
       (simp add: tea_lib_def tea_def shown_products_def sale_pending_def product_status_defs)
qed

text \<open>
  C26: every product the page creates has a trimmed name of 1 to 100 code units, a description of at
  most 500, and as price a positive safe integer number of fen.
\<close>

theorem products_creation_valid:
  "products_reach intl w \<Longrightarrow> CreateProduct pl \<in> set (pw_sent w) \<Longrightarrow>
     cp_name pl \<noteq> [] \<and> trim (cp_name pl) = cp_name pl \<and> length (cp_name pl) \<le> 100 \<and>
     length (cp_description pl) \<le> 500 \<and> (\<exists>n. cp_price_fen pl = jint n \<and> 0 < n \<and> n \<le> max_safe)"
  using products_reach_ok unfolding products_ok_def creation_ok_def[symmetric] by fastforce

theorem products_creation_valid_witness:
  "\<exists>pl. CreateProduct pl \<in> set (pw_sent tea_world) \<and> cp_name pl \<noteq> []"
proof -
  let ?pl = "\<lparr>cp_name = js ''Tea'', cp_description = [], cp_price_fen = jint 1250\<rparr>"
  have m: "CreateProduct ?pl \<in> set (pw_sent tea_world)" by (simp add: tea_world_def Let_def)
  from products_creation_valid[OF tea_reach m] m show ?thesis by blast
qed

text \<open>
  A product is only put on sale when the backend showed it not on sale, and only taken off sale
  when it was shown not off sale.
\<close>

theorem products_sale_changes_needed:
  "products_reach intl w \<Longrightarrow> ChangeSale i action \<in> set (pw_sent w) \<Longrightarrow>
     \<exists>p \<in> set (pw_shown w). prod_id p = i \<and>
       \<not> jeq (prod_status p) (case action of OnSale \<Rightarrow> PRODUCT_ON_SALE | OffSale \<Rightarrow> PRODUCT_OFF_SALE)"
  using products_reach_ok unfolding products_ok_def
  by (fastforce simp: sale_ok_def split: sale_action.splits)

theorem products_sale_changes_needed_witness:
  "\<exists>p \<in> set (pw_shown tea_world). prod_id p = jint 3 \<and> \<not> jeq (prod_status p) PRODUCT_ON_SALE"
proof -
  have "ChangeSale (jint 3) OnSale \<in> set (pw_sent tea_world)" by (simp add: tea_world_def Let_def)
  from products_sale_changes_needed[OF tea_reach this] show ?thesis by simp
qed

text \<open>
  The form sends a product exactly when the name is not blank and the price is a decimal with at
  most two decimals, positive and safe; what it sends is the exact price typed, and the state of the
  form is kept until the backend answered.
\<close>

theorem product_form_sends:
  "CreateProduct pl \<in> set (mutations (snd (handleCreateProduct s))) \<longleftrightarrow>
     trim (ps_name s) \<noteq> [] \<and> matches_yuan (trim (ps_priceYuan s)) \<and>
     (\<exists>c. of_int c = 100 * decimal_value (trim (ps_priceYuan s)) \<and> 0 < c \<and> c \<le> max_safe \<and>
       pl = \<lparr>cp_name = trim (ps_name s), cp_description = trim (ps_description s), cp_price_fen = jint c\<rparr>)"
proof -
  have "CreateProduct pl \<in> set (mutations (snd (handleCreateProduct s))) \<longleftrightarrow> trim (ps_name s) \<noteq> [] \<and>
      (\<exists>a. parseYuanToFen (ps_priceYuan s) = Some a \<and>
        pl = \<lparr>cp_name = trim (ps_name s), cp_description = trim (ps_description s), cp_price_fen = a\<rparr>)"
    by (auto simp: handleCreateProduct_def split: option.splits)
  then show ?thesis by (auto simp: parse_iff)
qed

text \<open>
  The form admits descriptions the backend refuses. The field promises 500 characters and lets
  them in, but the service counts bytes: 200 Chinese characters typed into the field, with any valid
  name and price, are sent as they are and rejected as too long.
\<close>

theorem product_description_refused:
  "offers (ProductsPage intl lib s) (SetDescription (chinese 200)) \<and>
   (\<exists>pl. mutations (snd (handleCreateProduct
        (s\<lparr>ps_name := js ''Tea'', ps_priceYuan := cents_text 1250, ps_description := chinese 200\<rparr>))) = [CreateProduct pl] \<and>
      service_CreateProduct (cp_name pl) (cp_description pl) 1250 = Inl ErrInvalidProductDescription)"
proof -
  have t: "trim (js ''Tea'') = js ''Tea''" "js ''Tea'' \<noteq> []" "go_trim (js ''Tea'') \<noteq> []" by code_simp+
  show ?thesis
    by (simp add: offers_products handleCreateProduct_def tea_price t service_CreateProduct_def Let_def)
qed

text \<open>
  After a sale change of the product shown in the detail card its detail is fetched again, so the
  card does not keep the old status; a change of another product fetches nothing.
\<close>

theorem status_change_refreshes_detail:
  "mutations (snd (status_onSuccess selected i action s)) =
     (case selected of Some p \<Rightarrow> if jeq (prod_id p) i then [FetchProduct i] else [] | None \<Rightarrow> []) \<and>
   (\<exists>k. Invalidate k \<in> set (snd (status_onSuccess selected i action s)) \<and>
     invalidates k (queryKeys_products st p n) \<and> invalidates k (queryKeys_product i))"
  by (auto simp: status_onSuccess_def invalidates_def query_key_defs split: option.splits)

end
