(* ===== verification/TableState.thy ===== *)
theory TableState
  imports Json
begin

section \<open>Page buttons and the table state in the address (utils.ts, use-table-url-state.ts)\<close>

text \<open>
  The page buttons under a table, and the hook that keeps a table's page, filters and search text in the
  search parameters of the address. The theorems: the buttons are ordered, with dots exactly at gaps;
  what the table shows is what a reader of the address is shown, with the exceptions stated there.
\<close>

subsection \<open>getPageNumbers\<close>

text \<open>Pages are safe integers; \<open>Dots\<close> is the text of three dots.\<close>

datatype page_button = PageNo int | Dots

definition maxVisiblePages :: int where "maxVisiblePages = 5"

text \<open>\<open>for (let i = a; i <= b; i++) push(i)\<close>.\<close>

function push_pages :: "int \<Rightarrow> int \<Rightarrow> page_button list" where
  "push_pages i b = (if i \<le> b then PageNo i # push_pages (i + 1) b else [])"
  by pat_completeness auto
termination
  by (relation "measure (\<lambda>(i, b). nat (b + 1 - i))") auto

declare push_pages.simps [simp del]

definition getPageNumbers :: "int \<Rightarrow> int \<Rightarrow> page_button list" where
  "getPageNumbers currentPage totalPages =
     (if totalPages \<le> maxVisiblePages then push_pages 1 totalPages
      else PageNo 1 #
        (if currentPage \<le> 3 then push_pages 2 4 @ [Dots, PageNo totalPages]
         else if currentPage \<ge> totalPages - 2 then Dots # push_pages (totalPages - 3) totalPages
         else Dots # push_pages (currentPage - 1) (currentPage + 1) @ [Dots, PageNo totalPages]))"

text \<open>
  What a row of buttons has to be: increasing, with dots exactly where pages are left out.
\<close>

fun gaps_ok :: "page_button list \<Rightarrow> bool" where
  "gaps_ok [PageNo a] = True"
| "gaps_ok (PageNo a # PageNo b # ps) = (b = a + 1 \<and> gaps_ok (PageNo b # ps))"
| "gaps_ok (PageNo a # Dots # PageNo b # ps) = (a + 1 < b \<and> gaps_ok (PageNo b # ps))"
| "gaps_ok _ = False"

lemma push_pages_gaps: "a \<le> b \<Longrightarrow> gaps_ok (push_pages a b)"
proof (induction a b rule: push_pages.induct)
  case (1 i b)
  show ?case
  proof (cases "i + 1 \<le> b")
    case True
    then have "gaps_ok (push_pages (i + 1) b)" using 1 by simp
    moreover have "push_pages (i + 1) b = PageNo (i + 1) # push_pages (i + 1 + 1) b"
      using True by (simp add: push_pages.simps[of "i + 1"])
    ultimately show ?thesis using 1(2) by (simp add: push_pages.simps[of i])
  next
    case False
    then have "push_pages (i + 1) b = []" by (simp add: push_pages.simps[of "i + 1"])
    then show ?thesis using 1(2) by (simp add: push_pages.simps[of i])
  qed
qed

lemma set_push_pages: "set (push_pages a b) = PageNo ` {a..b}"
proof (induction a b rule: push_pages.induct)
  case (1 i b)
  show ?case
  proof (cases "i \<le> b")
    case True
    then have "{i..b} = insert i {i + 1..b}" by auto
    with 1[OF True] True show ?thesis by (simp add: push_pages.simps[of i])
  next
    case False
    then show ?thesis by (simp add: push_pages.simps[of i])
  qed
qed

lemma push_pages_unfold:
  "push_pages 2 4 = [PageNo 2, PageNo 3, PageNo 4]"
  "push_pages (n - 3) n = [PageNo (n - 3), PageNo (n - 2), PageNo (n - 1), PageNo n]"
  "push_pages (n - 1) (n + 1) = [PageNo (n - 1), PageNo n, PageNo (n + 1)]"
  by (simp_all add: push_pages.simps)

text \<open>
  For a current page that exists the buttons are increasing, with dots exactly where pages are left
  out, from the first page to the last; the current page and its neighbours are among them, and there
  are never more than seven.
\<close>

theorem page_numbers_ok:
  assumes "1 \<le> cur" "cur \<le> n"
  shows "gaps_ok (getPageNumbers cur n) \<and> hd (getPageNumbers cur n) = PageNo 1 \<and>
    last (getPageNumbers cur n) = PageNo n \<and>
    (\<forall>p. 1 \<le> p \<longrightarrow> p \<le> n \<longrightarrow> \<bar>p - cur\<bar> \<le> 1 \<longrightarrow> PageNo p \<in> set (getPageNumbers cur n)) \<and>
    length (getPageNumbers cur n) \<le> 7"
proof (cases "n \<le> 5")
  case True
  then have "n \<in> {1, 2, 3, 4, 5}" using assms by auto
  moreover have g: "getPageNumbers cur n = push_pages 1 n" using True by (simp add: getPageNumbers_def maxVisiblePages_def)
  moreover have "gaps_ok (push_pages 1 n)" using assms by (intro push_pages_gaps) simp
  moreover have "hd (push_pages 1 n) = PageNo 1 \<and> last (push_pages 1 n) = PageNo n \<and> length (push_pages 1 n) \<le> 7"
    using \<open>n \<in> {1, 2, 3, 4, 5}\<close> by (auto simp: push_pages.simps)
  ultimately show ?thesis by (auto simp: set_push_pages)
next
  case False
  then show ?thesis using assms by (auto simp: getPageNumbers_def maxVisiblePages_def push_pages_unfold)
qed

theorem page_numbers_ok_witness:
  "gaps_ok (getPageNumbers 5 10) \<and> getPageNumbers 5 10 =
     [PageNo 1, Dots, PageNo 4, PageNo 5, PageNo 6, Dots, PageNo 10]"
  using page_numbers_ok[of 5 10] by (simp add: getPageNumbers_def maxVisiblePages_def push_pages.simps)

subsection \<open>The parameters of the table state\<close>

text \<open>
  The search parameters are a map; a parameter set to \<open>undefined\<close> is one that is absent. An option of
  the hook that is left out is \<open>None\<close>.
\<close>

type_synonym search = "jsstr \<rightharpoonup> json"

record pagination_cfg =
  pc_pageKey :: "jsstr option"
  pc_pageSizeKey :: "jsstr option"
  pc_defaultPage :: "jsnum option"
  pc_defaultPageSize :: "jsnum option"

record global_cfg =
  gc_enabled :: "bool option"
  gc_key :: "jsstr option"
  gc_trim :: "bool option"

datatype filter_type = StringType | ArrayType

record column_cfg =
  cc_columnId :: jsstr
  cc_searchKey :: jsstr
  cc_type :: "filter_type option"
  cc_serialize :: "(json \<Rightarrow> json) option"
  cc_deserialize :: "(json option \<Rightarrow> json option) option"

record table_params =
  tp_pagination :: "pagination_cfg option"
  tp_globalFilter :: "global_cfg option"
  tp_columnFilters :: "column_cfg list"

text \<open>\<open>cfg?.field ?? d\<close>.\<close>

definition option_of :: "('c \<Rightarrow> 'v option) \<Rightarrow> 'v \<Rightarrow> 'c option \<Rightarrow> 'v" where
  "option_of f d cfg = (case cfg of None \<Rightarrow> d | Some c \<Rightarrow> (case f c of None \<Rightarrow> d | Some v \<Rightarrow> v))"

definition pageKey :: "table_params \<Rightarrow> jsstr" where
  "pageKey t = option_of pc_pageKey (js ''page'') (tp_pagination t)"
definition pageSizeKey :: "table_params \<Rightarrow> jsstr" where
  "pageSizeKey t = option_of pc_pageSizeKey (js ''pageSize'') (tp_pagination t)"
definition defaultPage :: "table_params \<Rightarrow> jsnum" where
  "defaultPage t = option_of pc_defaultPage (jint 1) (tp_pagination t)"
definition defaultPageSize :: "table_params \<Rightarrow> jsnum" where
  "defaultPageSize t = option_of pc_defaultPageSize (jint 10) (tp_pagination t)"
definition globalFilterKey :: "table_params \<Rightarrow> jsstr" where
  "globalFilterKey t = option_of gc_key (js ''filter'') (tp_globalFilter t)"
definition globalFilterEnabled :: "table_params \<Rightarrow> bool" where
  "globalFilterEnabled t = option_of gc_enabled True (tp_globalFilter t)"
definition trimGlobal :: "table_params \<Rightarrow> bool" where
  "trimGlobal t = option_of gc_trim True (tp_globalFilter t)"

subsection \<open>Reading the state\<close>

type_synonym column_filters = "(jsstr \<times> json) list"

definition deserialize :: "column_cfg \<Rightarrow> json option \<Rightarrow> json option" where
  "deserialize cfg raw = (case cc_deserialize cfg of None \<Rightarrow> raw | Some f \<Rightarrow> f raw)"

text \<open>The entry one column contributes; \<open>null\<close> and \<open>undefined\<close> count as the empty value.\<close>

definition collect :: "search \<Rightarrow> column_cfg \<Rightarrow> column_filters" where
  "collect s cfg =
     (let v = deserialize cfg (s (cc_searchKey cfg))
      in if cc_type cfg = Some StringType then
           (case v of Some (JStr t) \<Rightarrow> if trim t \<noteq> [] then [(cc_columnId cfg, JStr t)] else [] | _ \<Rightarrow> [])
         else (case v of Some (JArr vs) \<Rightarrow> if vs \<noteq> [] then [(cc_columnId cfg, JArr vs)] else [] | _ \<Rightarrow> []))"

definition initialColumnFilters :: "table_params \<Rightarrow> search \<Rightarrow> column_filters" where
  "initialColumnFilters t s = concat (map (collect s) (tp_columnFilters t))"

record pagination_state =
  pageIndex :: jsnum
  pageSize :: jsnum

definition number_or :: "jsnum \<Rightarrow> json option \<Rightarrow> jsnum" where
  "number_or d v = (case v of Some (JNum x) \<Rightarrow> x | _ \<Rightarrow> d)"

definition pagination :: "table_params \<Rightarrow> search \<Rightarrow> pagination_state" where
  "pagination t s =
     \<lparr> pageIndex = math_max (jint 0) (number_or (defaultPage t) (s (pageKey t)) - jint 1),
       pageSize = number_or (defaultPageSize t) (s (pageSizeKey t)) \<rparr>"

definition initial_globalFilter :: "table_params \<Rightarrow> search \<Rightarrow> jsstr option" where
  "initial_globalFilter t s =
     (if \<not> globalFilterEnabled t then None
      else (case s (globalFilterKey t) of Some (JStr v) \<Rightarrow> Some v | _ \<Rightarrow> Some []))"

record table_state =
  ts_search :: search
  ts_columnFilters :: column_filters
  ts_globalFilter :: "jsstr option"

definition useTableUrlState :: "table_params \<Rightarrow> search \<Rightarrow> table_state" where
  "useTableUrlState t s =
     \<lparr> ts_search = s, ts_columnFilters = initialColumnFilters t s, ts_globalFilter = initial_globalFilter t s \<rparr>"

subsection \<open>Changing it\<close>

text \<open>An updater is a function; a plain new value is a constant one.\<close>

definition onPaginationChange :: "table_params \<Rightarrow> (pagination_state \<Rightarrow> pagination_state) \<Rightarrow> table_state \<Rightarrow> table_state" where
  "onPaginationChange t updater s =
     (let n = updater (pagination t (ts_search s));
          nextPage = pageIndex n + jint 1;
          nextPageSize = pageSize n
      in s\<lparr>ts_search := (ts_search s)
           (pageKey t := (if jle nextPage (defaultPage t) then None else Some (JNum nextPage)),
            pageSizeKey t := (if jeq nextPageSize (defaultPageSize t) then None else Some (JNum nextPageSize)))\<rparr>)"

definition onGlobalFilterChange :: "table_params \<Rightarrow> (jsstr \<Rightarrow> jsstr) \<Rightarrow> table_state \<Rightarrow> table_state" where
  "onGlobalFilterChange t updater s =
     (if globalFilterEnabled t then
        (let n = updater (case ts_globalFilter s of None \<Rightarrow> [] | Some v \<Rightarrow> v);
             v = (if trimGlobal t then trim n else n)
         in s\<lparr>ts_globalFilter := Some v,
              ts_search := (ts_search s)(pageKey t := None, globalFilterKey t := (if v \<noteq> [] then Some (JStr v) else None))\<rparr>)
      else s)"

definition serialize :: "column_cfg \<Rightarrow> json \<Rightarrow> json" where
  "serialize cfg v = (case cc_serialize cfg of None \<Rightarrow> v | Some f \<Rightarrow> f v)"

definition filter_patch :: "column_filters \<Rightarrow> column_cfg \<Rightarrow> json option" where
  "filter_patch n cfg =
     (let found = map_of n (cc_columnId cfg)
      in if cc_type cfg = Some StringType then
           (case found of Some (JStr t) \<Rightarrow> if trim t \<noteq> [] then Some (serialize cfg (JStr t)) else None | _ \<Rightarrow> None)
         else (case found of Some (JArr vs) \<Rightarrow> if vs \<noteq> [] then Some (serialize cfg (JArr vs)) else None | _ \<Rightarrow> None))"

fun apply_patches :: "column_filters \<Rightarrow> column_cfg list \<Rightarrow> search \<Rightarrow> search" where
  "apply_patches n [] s = s"
| "apply_patches n (cfg # cfgs) s = apply_patches n cfgs (s(cc_searchKey cfg := filter_patch n cfg))"

definition onColumnFiltersChange ::
    "table_params \<Rightarrow> (column_filters \<Rightarrow> column_filters) \<Rightarrow> table_state \<Rightarrow> table_state" where
  "onColumnFiltersChange t updater s =
     (let n = updater (ts_columnFilters s)
      in s\<lparr>ts_columnFilters := n,
           ts_search := apply_patches n (tp_columnFilters t) ((ts_search s)(pageKey t := None))\<rparr>)"

text \<open>\<open>last\<close> is the option \<open>resetTo: 'last'\<close>; the flag says whether the address was replaced.\<close>

definition ensurePageInRange :: "table_params \<Rightarrow> jsnum \<Rightarrow> bool \<Rightarrow> table_state \<Rightarrow> table_state \<times> bool" where
  "ensurePageInRange t pageCount to_last s =
     (let pageNum = number_or (defaultPage t) (ts_search s (pageKey t))
      in if jless (jint 0) pageCount \<and> jless pageCount pageNum
         then (s\<lparr>ts_search := (ts_search s)(pageKey t := (if to_last then Some (JNum pageCount) else None))\<rparr>, True)
         else (s, False))"

subsection \<open>What is written is read back\<close>

text \<open>
  A change of the page or of its size is what the address is read as afterwards, and no other
  parameter changes, exactly when the page is not before the default page; a page before it is lost,
  the default page is read instead.
\<close>

theorem pagination_roundtrip:
  assumes keys: "pageKey t \<noteq> pageSizeKey t" and d: "defaultPage t = jint d" "1 \<le> d" "d \<le> max_safe"
    and n: "updater (pagination t (ts_search s)) = \<lparr> pageIndex = jint i, pageSize = z \<rparr>" "0 \<le> i" "i < max_safe"
  shows "(pagination t (ts_search (onPaginationChange t updater s)) = \<lparr> pageIndex = jint i, pageSize = z \<rparr> \<longleftrightarrow> d \<le> i + 1) \<and>
    (i + 1 < d \<longrightarrow> pageIndex (pagination t (ts_search (onPaginationChange t updater s))) = jint (d - 1)) \<and>
    (\<forall>k. k \<noteq> pageKey t \<longrightarrow> k \<noteq> pageSizeKey t \<longrightarrow> ts_search (onPaginationChange t updater s) k = ts_search s k)"
proof -
  have i: "jint i + jint 1 = jint (i + 1)" using n by (intro jint_add) (simp add: max_safe_def)
  have m: "jint d - jint 1 = jint (d - 1)" "jint (i + 1) - jint 1 = jint i"
    using d n by (subst jint_diff; simp add: max_safe_def)+
  have z: "jeq z (defaultPageSize t) \<Longrightarrow> defaultPageSize t = z" by (auto simp: jeq_def)
  show ?thesis
    using keys d n z by (auto simp: onPaginationChange_def pagination_def number_or_def i m Let_def)
qed

theorem pagination_roundtrip_witness:
  "pagination \<lparr> tp_pagination = None, tp_globalFilter = None, tp_columnFilters = [] \<rparr>
     (ts_search (onPaginationChange \<lparr> tp_pagination = None, tp_globalFilter = None, tp_columnFilters = [] \<rparr>
       (\<lambda>_. \<lparr> pageIndex = jint 3, pageSize = jint 20 \<rparr>) \<lparr> ts_search = Map.empty, ts_columnFilters = [], ts_globalFilter = None \<rparr>))
   = \<lparr> pageIndex = jint 3, pageSize = jint 20 \<rparr>"
proof -
  let ?t = "\<lparr> tp_pagination = None, tp_globalFilter = None, tp_columnFilters = [] \<rparr>"
  have "pageKey ?t \<noteq> pageSizeKey ?t" by (simp add: pageKey_def pageSizeKey_def option_of_def js_def)
  moreover have "defaultPage ?t = jint 1" by (simp add: defaultPage_def option_of_def)
  ultimately show ?thesis
    using pagination_roundtrip[of ?t 1 "\<lambda>_. \<lparr> pageIndex = jint 3, pageSize = jint 20 \<rparr>"
        "\<lparr> ts_search = Map.empty, ts_columnFilters = [], ts_globalFilter = None \<rparr>" 3 "jint 20"] by (simp add: max_safe_def)
qed

text \<open>A column's own transformers undo each other, and nothing is read from nothing.\<close>

definition codec_ok :: "column_cfg \<Rightarrow> bool" where
  "codec_ok cfg \<longleftrightarrow> deserialize cfg None = None \<and> (\<forall>v. deserialize cfg (Some (serialize cfg v)) = Some v)"

text \<open>The filter of a column as far as it is of the column's type and not empty.\<close>

definition effective :: "column_filters \<Rightarrow> column_cfg \<Rightarrow> column_filters" where
  "effective n cfg =
     (case map_of n (cc_columnId cfg) of
        Some (JStr v) \<Rightarrow> if cc_type cfg = Some StringType \<and> trim v \<noteq> [] then [(cc_columnId cfg, JStr v)] else []
      | Some (JArr vs) \<Rightarrow> if cc_type cfg \<noteq> Some StringType \<and> vs \<noteq> [] then [(cc_columnId cfg, JArr vs)] else []
      | _ \<Rightarrow> [])"

lemma collect_patch:
  "codec_ok cfg \<Longrightarrow> s (cc_searchKey cfg) = filter_patch n cfg \<Longrightarrow> collect s cfg = effective n cfg"
  by (auto simp: collect_def filter_patch_def effective_def codec_ok_def Let_def split: option.splits json.splits)

lemma apply_patches_other: "k \<notin> cc_searchKey ` set cfgs \<Longrightarrow> apply_patches n cfgs s k = s k"
  by (induction cfgs arbitrary: s) auto

lemma apply_patches_at:
  "distinct (map cc_searchKey cfgs) \<Longrightarrow> cfg \<in> set cfgs \<Longrightarrow> apply_patches n cfgs s (cc_searchKey cfg) = filter_patch n cfg"
proof (induction cfgs arbitrary: s)
  case (Cons c cfgs)
  show ?case
  proof (cases "cfg \<in> set cfgs")
    case True
    then show ?thesis using Cons by simp
  next
    case False
    then have "cfg = c" using Cons.prems by simp
    then show ?thesis using Cons.prems by (simp add: apply_patches_other)
  qed
qed simp

text \<open>
  C38: after a change of the column filters the address holds, for every column, exactly the filter that
  is of the column's type and not empty, so opening the address again shows the same filters; the page
  is back at the default, and no other parameter changes.
\<close>

theorem column_filters_roundtrip:
  assumes "distinct (map cc_searchKey (tp_columnFilters t))" "\<forall>cfg \<in> set (tp_columnFilters t). codec_ok cfg"
    and "pageKey t \<notin> cc_searchKey ` set (tp_columnFilters t)"
  shows "initialColumnFilters t (ts_search (onColumnFiltersChange t updater s)) =
      concat (map (effective (updater (ts_columnFilters s))) (tp_columnFilters t)) \<and>
    ts_search (onColumnFiltersChange t updater s) (pageKey t) = None \<and>
    (\<forall>k. k \<noteq> pageKey t \<longrightarrow> k \<notin> cc_searchKey ` set (tp_columnFilters t) \<longrightarrow>
      ts_search (onColumnFiltersChange t updater s) k = ts_search s k)"
proof -
  let ?s = "ts_search (onColumnFiltersChange t updater s)"
  have s: "?s = apply_patches (updater (ts_columnFilters s)) (tp_columnFilters t) ((ts_search s)(pageKey t := None))"
    by (simp add: onColumnFiltersChange_def Let_def)
  have "collect ?s cfg = effective (updater (ts_columnFilters s)) cfg" if "cfg \<in> set (tp_columnFilters t)" for cfg
    using assms(2) that by (intro collect_patch) (simp_all add: s apply_patches_at[OF assms(1)])
  then have "map (collect ?s) (tp_columnFilters t) = map (effective (updater (ts_columnFilters s))) (tp_columnFilters t)"
    by (rule map_cong[OF refl])
  then have "initialColumnFilters t ?s = concat (map (effective (updater (ts_columnFilters s))) (tp_columnFilters t))"
    by (simp only: initialColumnFilters_def)
  then show ?thesis using assms(3) by (simp add: s apply_patches_other)
qed

theorem column_filters_roundtrip_witness:
  "initialColumnFilters \<lparr> tp_pagination = None, tp_globalFilter = None,
      tp_columnFilters = [\<lparr> cc_columnId = js ''title'', cc_searchKey = js ''q'', cc_type = Some StringType, cc_serialize = None, cc_deserialize = None \<rparr>] \<rparr>
    (ts_search (onColumnFiltersChange \<lparr> tp_pagination = None, tp_globalFilter = None,
      tp_columnFilters = [\<lparr> cc_columnId = js ''title'', cc_searchKey = js ''q'', cc_type = Some StringType, cc_serialize = None, cc_deserialize = None \<rparr>] \<rparr>
      (\<lambda>_. [(js ''title'', JStr (js ''x''))]) \<lparr> ts_search = Map.empty, ts_columnFilters = [], ts_globalFilter = None \<rparr>))
   = [(js ''title'', JStr (js ''x''))]"
proof -
  let ?c = "\<lparr> cc_columnId = js ''title'', cc_searchKey = js ''q'', cc_type = Some StringType, cc_serialize = None, cc_deserialize = None \<rparr>"
  let ?t = "\<lparr> tp_pagination = None, tp_globalFilter = None, tp_columnFilters = [?c] \<rparr>"
  have 1: "distinct (map cc_searchKey (tp_columnFilters ?t))" by simp
  have 2: "\<forall>cfg \<in> set (tp_columnFilters ?t). codec_ok cfg" by (simp add: codec_ok_def serialize_def deserialize_def)
  have 3: "pageKey ?t \<notin> cc_searchKey ` set (tp_columnFilters ?t)" by (simp add: pageKey_def option_of_def js_def)
  have "trim (js ''x'') \<noteq> []" by (simp add: js_def trim_def is_ws_def)
  with column_filters_roundtrip[OF 1 2 3, of "\<lambda>_. [(js ''title'', JStr (js ''x''))]"
      "\<lparr> ts_search = Map.empty, ts_columnFilters = [], ts_globalFilter = None \<rparr>"]
  show ?thesis by (simp add: effective_def)
qed

text \<open>
  A column whose type is left out, which the hook's types allow for texts only, is treated as one of
  lists: its text is neither read from the address nor written to it.
\<close>

theorem omitted_type_ignores_text:
  assumes "cc_type cfg = None" "cc_deserialize cfg = None" "s (cc_searchKey cfg) = Some (JStr v)"
  shows "collect s cfg = [] \<and> filter_patch [(cc_columnId cfg, JStr v)] cfg = None"
  using assms by (simp add: collect_def deserialize_def filter_patch_def Let_def)

text \<open>A page past the last one is brought back into range, unless the default page itself is past it.\<close>

theorem page_brought_in_range:
  assumes "0 < c" "number_or (defaultPage t) (ts_search s (pageKey t)) = jint n" "defaultPage t = jint d" "to_last \<or> d \<le> c"
  shows "\<exists>m. number_or (defaultPage t) (ts_search (fst (ensurePageInRange t (jint c) to_last s)) (pageKey t)) = jint m \<and> m \<le> c \<and>
    snd (ensurePageInRange t (jint c) to_last s) = (c < n)"
  using assms by (auto simp: ensurePageInRange_def number_or_def Let_def)

end
