(* ===== verification/Uri.thy ===== *)
theory Uri
  imports Utf8
begin

section \<open>encodeURIComponent and decodeURIComponent\<close>

text \<open>
  The two library functions the cookies go through. \<open>None\<close> is the \<open>URIError\<close> they throw. The
  theorem of this theory is that decoding undoes encoding on every string that can be encoded.
\<close>

definition uri_unreserved :: "unit16 \<Rightarrow> bool" where
  "uri_unreserved u \<longleftrightarrow> 0x30 \<le> u \<and> u \<le> 0x39 \<or> 0x41 \<le> u \<and> u \<le> 0x5A \<or> 0x61 \<le> u \<and> u \<le> 0x7A \<or>
     u \<in> {0x2D, 0x5F, 0x2E, 0x21, 0x7E, 0x2A, 0x27, 0x28, 0x29}"

definition hex_char :: "int \<Rightarrow> unit16" where
  "hex_char d = (if d < 10 then word_of_int (48 + d) else word_of_int (55 + d))"

definition hex_val :: "unit16 \<Rightarrow> int option" where
  "hex_val u =
     (if 0x30 \<le> u \<and> u \<le> 0x39 then Some (uint u - 48)
      else if 0x41 \<le> u \<and> u \<le> 0x46 then Some (uint u - 55)
      else if 0x61 \<le> u \<and> u \<le> 0x66 then Some (uint u - 87)
      else None)"

definition percent :: "int \<Rightarrow> jsstr" where
  "percent b = [0x25, hex_char (b div 16), hex_char (b mod 16)]"

definition percent_point :: "int \<Rightarrow> jsstr" where
  "percent_point c = concat (map percent (utf8_numbers c))"

fun encodeURIComponent :: "jsstr \<Rightarrow> jsstr option" where
  "encodeURIComponent [] = Some []"
| "encodeURIComponent [u] =
     (if uri_unreserved u then Some [u]
      else if high_surrogate u \<or> low_surrogate u then None
      else Some (percent_point (uint u)))"
| "encodeURIComponent (u # v # s) =
     (if uri_unreserved u then map_option (\<lambda>t. u # t) (encodeURIComponent (v # s))
      else if low_surrogate u then None
      else if high_surrogate u then
        (if low_surrogate v then map_option (\<lambda>t. percent_point (pair_point u v) @ t) (encodeURIComponent s) else None)
      else map_option (\<lambda>t. percent_point (uint u) @ t) (encodeURIComponent (v # s)))"

subsection \<open>Decoding\<close>

fun percent_byte :: "jsstr \<Rightarrow> (int \<times> jsstr) option" where
  "percent_byte (p # a # b # s) =
     (if p = 0x25 then (case (hex_val a, hex_val b) of
          (Some x, Some y) \<Rightarrow> Some (16 * x + y, s)
        | _ \<Rightarrow> None) else None)"
| "percent_byte _ = None"

definition continuation :: "jsstr \<Rightarrow> (int \<times> jsstr) option" where
  "continuation s = (case percent_byte s of
       None \<Rightarrow> None
     | Some (b, t) \<Rightarrow> if 0x80 \<le> b \<and> b < 0xC0 then Some (b - 0x80, t) else None)"

fun continuations :: "nat \<Rightarrow> int \<Rightarrow> jsstr \<Rightarrow> (int \<times> jsstr) option" where
  "continuations 0 acc s = Some (acc, s)"
| "continuations (Suc n) acc s = (case continuation s of
       None \<Rightarrow> None
     | Some (x, t) \<Rightarrow> continuations n (acc * 0x40 + x) t)"

text \<open>The code units of a code point; surrogate and overlong encodings are refused.\<close>

definition units_of :: "int \<Rightarrow> int \<Rightarrow> jsstr option" where
  "units_of least c =
     (if c < least \<or> 0xD800 \<le> c \<and> c \<le> 0xDFFF \<or> 0x10FFFF < c then None
      else if c < 0x10000 then Some [word_of_int c]
      else Some [word_of_int (0xD800 + (c - 0x10000) div 0x400), word_of_int (0xDC00 + (c - 0x10000) mod 0x400)])"

definition decode_point :: "jsstr \<Rightarrow> (jsstr \<times> jsstr) option" where
  "decode_point s = (case percent_byte s of
       None \<Rightarrow> None
     | Some (b, t) \<Rightarrow>
         if b < 0x80 then Some ([word_of_int b], t)
         else if b < 0xC0 \<or> 0xF8 \<le> b then None
         else
           (let (n, acc, least) =
              (if b < 0xE0 then (1, b - 0xC0, 0x80)
               else if b < 0xF0 then (2, b - 0xE0, 0x800)
               else (3, b - 0xF0, 0x10000))
            in case continuations n acc t of
                 None \<Rightarrow> None
               | Some (c, r) \<Rightarrow> map_option (\<lambda>us. (us, r)) (units_of least c)))"

lemma percent_byte_length: "percent_byte s = Some (b, t) \<Longrightarrow> length t < length s"
  by (induction s rule: percent_byte.induct) (auto split: if_splits option.splits)

lemma continuations_length: "continuations n acc s = Some (c, t) \<Longrightarrow> length t \<le> length s"
  by (induction n acc s rule: continuations.induct)
     (auto simp: continuation_def split: option.splits if_splits dest!: percent_byte_length, fastforce)

lemma decode_point_length: "decode_point s = Some (us, t) \<Longrightarrow> length t < length s"
  by (auto simp: decode_point_def Let_def simp del: continuations.simps split: option.splits if_splits
      dest!: percent_byte_length continuations_length)

function decodeURIComponent :: "jsstr \<Rightarrow> jsstr option" where
  "decodeURIComponent s =
     (case s of
        [] \<Rightarrow> Some []
      | u # t \<Rightarrow>
          if u = 0x25 then
            (case decode_point s of
               None \<Rightarrow> None
             | Some (us, r) \<Rightarrow> map_option (\<lambda>d. us @ d) (decodeURIComponent r))
          else map_option (\<lambda>d. u # d) (decodeURIComponent t))"
  by pat_completeness auto
termination
  by (relation "measure length") (auto dest: decode_point_length)

declare decodeURIComponent.simps [simp del]

subsection \<open>Decoding undoes encoding\<close>

lemma sixteen_cases:
  assumes "0 \<le> (d :: int)" "d < 16"
  shows "d \<in> {0, 1, 2, 3, 4, 5, 6, 7, 8, 9, 10, 11, 12, 13, 14, 15}"
  using assms by simp presburger

lemma hex_val_char: "0 \<le> d \<Longrightarrow> d < 16 \<Longrightarrow> hex_val (hex_char d) = Some d"
  using sixteen_cases[of d] by (auto simp: hex_val_def hex_char_def word_le_def)

lemma percent_byte_percent: "0 \<le> b \<Longrightarrow> b < 256 \<Longrightarrow> percent_byte (percent b @ s) = Some (b, s)"
  by (simp add: percent_def hex_val_char)

lemma continuation_percent: "0 \<le> x \<Longrightarrow> x < 0x40 \<Longrightarrow> continuation (percent (0x80 + x) @ s) = Some (x, s)"
  by (simp add: continuation_def percent_byte_percent)

lemma split64: "(c :: int) div 0x40 * 0x40 + c mod 0x40 = c"
  by simp

lemma split4096: "(c div 0x1000 * 0x40 + c div 0x40 mod 0x40) * 0x40 + c mod 0x40 = (c :: int)"
proof -
  have "c div 0x1000 = c div 0x40 div 0x40" by (simp add: zdiv_zmult2_eq)
  then show ?thesis by simp
qed

lemma split262144:
  "((c div 0x40000 * 0x40 + c div 0x1000 mod 0x40) * 0x40 + c div 0x40 mod 0x40) * 0x40 + c mod 0x40 = (c :: int)"
proof -
  have "c div 0x40000 = c div 0x1000 div 0x40" by (simp add: zdiv_zmult2_eq)
  then have "c div 0x40000 * 0x40 + c div 0x1000 mod 0x40 = c div 0x1000" by simp
  then show ?thesis using split4096[of c] by simp
qed

lemma mod64: "0 \<le> c mod 0x40" "c mod 0x40 < (0x40 :: int)"
  by simp_all

lemma decode_four:
  assumes "0 \<le> a" "a < 8" "0 \<le> b" "b < 0x40" "0 \<le> d" "d < 0x40" "0 \<le> e" "e < 0x40"
  shows "decode_point (percent (0xF0 + a) @ percent (0x80 + b) @ percent (0x80 + d) @ percent (0x80 + e) @ s) =
    map_option (\<lambda>us. (us, s)) (units_of 0x10000 (((a * 0x40 + b) * 0x40 + d) * 0x40 + e))"
  using assms
  by (simp add: decode_point_def percent_byte_percent continuation_percent numeral_3_eq_3)

lemma decode_percent_point:
  assumes c: "0 \<le> c" "c < 0x110000" "\<not> (0xD800 \<le> c \<and> c \<le> 0xDFFF)"
  shows "decode_point (percent_point c @ s) = map_option (\<lambda>us. (us, s)) (units_of 0 c)"
proof -
  consider "c < 0x80" | "0x80 \<le> c" "c < 0x800" | "0x800 \<le> c" "c < 0x10000" | "0x10000 \<le> c" by linarith
  then show ?thesis
  proof cases
    case 1
    with c show ?thesis by (simp add: decode_point_def percent_point_def utf8_numbers_def percent_byte_percent units_of_def)
  next
    case 2
    have "0 \<le> c div 0x40" "c div 0x40 < 0x20" using c 2 by auto
    then show ?thesis using c 2 mod64 split64[of c]
      by (simp add: decode_point_def percent_point_def utf8_numbers_def percent_byte_percent units_of_def
          continuation_percent)
  next
    case 3
    have "0 \<le> c div 0x1000" "c div 0x1000 < 0x10" using c 3 by auto
    then show ?thesis using c 3 mod64 split4096[of c]
      by (simp add: decode_point_def percent_point_def utf8_numbers_def percent_byte_percent units_of_def
          continuation_percent numeral_2_eq_2)
  next
    case 4
    have "0 \<le> c div 0x40000" "c div 0x40000 < 8" using c 4 by auto
    moreover have "percent_point c @ s = percent (0xF0 + c div 0x40000) @ percent (0x80 + c div 0x1000 mod 0x40) @
        percent (0x80 + c div 0x40 mod 0x40) @ percent (0x80 + c mod 0x40) @ s"
      using 4 by (simp add: percent_point_def utf8_numbers_def)
    ultimately have "decode_point (percent_point c @ s) = map_option (\<lambda>us. (us, s)) (units_of 0x10000 c)"
      using decode_four[OF _ _ mod64 mod64 mod64, of "c div 0x40000" "c div 0x1000" "c div 0x40" c s]
      by (simp only: split262144)
    then show ?thesis using 4 by (simp add: units_of_def)
  qed
qed

lemma percent_point_head: "0 \<le> c \<Longrightarrow> \<exists>t. percent_point c = 0x25 # t"
  by (simp add: percent_point_def utf8_numbers_def percent_def)

lemma decode_encoded_point:
  assumes "0 \<le> c" "c < 0x110000" "\<not> (0xD800 \<le> c \<and> c \<le> 0xDFFF)" "units_of 0 c = Some us"
  shows "decodeURIComponent (percent_point c @ s) = map_option (\<lambda>d. us @ d) (decodeURIComponent s)"
  using decode_percent_point[OF assms(1-3), of s] percent_point_head[OF assms(1)] assms(4)
  by (subst decodeURIComponent.simps) auto

lemma unit_point:
  assumes "\<not> high_surrogate u" "\<not> low_surrogate u"
  shows "units_of 0 (uint u) = Some [u]" "\<not> (0xD800 \<le> uint u \<and> uint u \<le> 0xDFFF)" "uint u < 0x110000"
proof -
  have "uint u < 0x10000" using uint_lt2p[of u] by simp
  moreover show s: "\<not> (0xD800 \<le> uint u \<and> uint u \<le> 0xDFFF)"
    using assms by (auto simp: high_surrogate_def low_surrogate_def word_le_def)
  ultimately show "units_of 0 (uint u) = Some [u]" "uint u < 0x110000" by (auto simp: units_of_def)
qed

lemma pair_units:
  assumes "high_surrogate h" "low_surrogate l"
  shows "units_of 0 (pair_point h l) = Some [h, l]" "0x10000 \<le> pair_point h l" "pair_point h l < 0x110000"
proof -
  have h: "0xD800 \<le> uint h" "uint h \<le> 0xDBFF" using assms by (simp_all add: high_surrogate_def word_le_def)
  have l: "0xDC00 \<le> uint l" "uint l \<le> 0xDFFF" using assms by (simp_all add: low_surrogate_def word_le_def)
  show b: "0x10000 \<le> pair_point h l" "pair_point h l < 0x110000" using h l by (simp_all add: pair_point_def)
  let ?c = "(uint h - 0xD800) * 0x400 + (uint l - 0xDC00)"
  have e: "pair_point h l - 0x10000 = ?c" by (simp add: pair_point_def)
  have "(a * 0x400 + b) div 0x400 = a" "(a * 0x400 + b) mod 0x400 = b" if "0 \<le> b" "b < 0x400" for a b :: int
    using that by simp_all
  from this[of "uint l - 0xDC00" "uint h - 0xD800"] l
  have "?c div 0x400 = uint h - 0xD800" "?c mod 0x400 = uint l - 0xDC00" by simp_all
  then show "units_of 0 (pair_point h l) = Some [h, l]" using b by (simp add: units_of_def e)
qed

lemma decode_unreserved:
  "uri_unreserved u \<Longrightarrow> decodeURIComponent (u # s) = map_option (\<lambda>d. u # d) (decodeURIComponent s)"
proof -
  assume "uri_unreserved u"
  then have "u \<noteq> 0x25" by (auto simp: uri_unreserved_def word_le_def)
  then show ?thesis by (subst decodeURIComponent.simps) simp
qed

lemma decode_encode: "encodeURIComponent s = Some t \<Longrightarrow> decodeURIComponent t = Some s"
proof (induction s arbitrary: t rule: encodeURIComponent.induct)
  case 1
  then show ?case by (simp add: decodeURIComponent.simps)
next
  case (2 u)
  have nil: "decodeURIComponent [] = Some []" by (simp add: decodeURIComponent.simps)
  show ?case
  proof (cases "uri_unreserved u")
    case True
    then show ?thesis using 2 nil decode_unreserved[of u "[]"] by simp
  next
    case False
    with 2 have "\<not> high_surrogate u" "\<not> low_surrogate u" "t = percent_point (uint u)" by (auto split: if_splits)
    then show ?thesis using decode_encoded_point[of "uint u" "[u]" "[]"] unit_point[of u] nil by simp
  qed
next
  case (3 u v s)
  show ?case
  proof (cases "uri_unreserved u")
    case True
    then show ?thesis using 3 decode_unreserved by auto
  next
    case False
    show ?thesis
    proof (cases "high_surrogate u")
      case True
      with False 3 obtain r where "low_surrogate v" "encodeURIComponent s = Some r" "t = percent_point (pair_point u v) @ r"
        "decodeURIComponent r = Some s"
        by (auto split: if_splits)
      then show ?thesis
        using decode_encoded_point[of "pair_point u v" "[u, v]" r] pair_units[OF True, of v] by simp
    next
      case h: False
      with False 3 obtain r where "\<not> low_surrogate u" "encodeURIComponent (v # s) = Some r"
        "t = percent_point (uint u) @ r" "decodeURIComponent r = Some (v # s)"
        by (auto split: if_splits)
      then show ?thesis
        using decode_encoded_point[of "uint u" "[u]" r] unit_point[OF h] by simp
    qed
  qed
qed

subsection \<open>What an encoded string is made of\<close>

definition uri_char :: "unit16 \<Rightarrow> bool" where
  "uri_char u \<longleftrightarrow> uri_unreserved u \<or> u = 0x25"

lemma hex_char_unreserved: "0 \<le> d \<Longrightarrow> d < 16 \<Longrightarrow> uri_unreserved (hex_char d)"
  using sixteen_cases[of d] by (auto simp: uri_unreserved_def hex_char_def word_le_def)

lemma percent_chars: "0 \<le> b \<Longrightarrow> b < 256 \<Longrightarrow> \<forall>u \<in> set (percent b). uri_char u"
  by (simp add: percent_def uri_char_def hex_char_unreserved)

lemma utf8_numbers_range: "0 \<le> c \<Longrightarrow> c < 0x110000 \<Longrightarrow> \<forall>b \<in> set (utf8_numbers c). 0 \<le> b \<and> b < 256"
proof -
  assume c: "0 \<le> c" "c < 0x110000"
  have m: "0 \<le> x mod 0x40" "x mod 0x40 < 0x40" for x :: int by simp_all
  have "0 \<le> c div 0x40" "0 \<le> c div 0x1000" "0 \<le> c div 0x40000" "c div 0x40000 < 5" using c by auto
  moreover have "c < 0x800 \<Longrightarrow> c div 0x40 < 0x20" "c < 0x10000 \<Longrightarrow> c div 0x1000 < 0x10" by auto
  ultimately show ?thesis
    using c m[of c] m[of "c div 0x40"] m[of "c div 0x1000"] by (auto simp: utf8_numbers_def)
qed

lemma percent_point_chars: "0 \<le> c \<Longrightarrow> c < 0x110000 \<Longrightarrow> \<forall>u \<in> set (percent_point c). uri_char u"
  using utf8_numbers_range[of c] percent_chars by (auto simp: percent_point_def)

lemma encoded_chars: "encodeURIComponent s = Some t \<Longrightarrow> \<forall>u \<in> set t. uri_char u"
proof (induction s arbitrary: t rule: encodeURIComponent.induct)
  case (2 u)
  then show ?case using percent_point_chars[of "uint u"] unit_point(3)[of u]
    by (auto simp: uri_char_def split: if_splits)
next
  case (3 u v s)
  then show ?case
    using percent_point_chars[of "uint u"] unit_point(3)[of u]
      percent_point_chars[of "pair_point u v"] pair_units(2,3)[of u v]
    by (fastforce simp: uri_char_def split: if_splits)
qed simp

lemma uri_char_facts: "uri_char u \<Longrightarrow> u \<noteq> 0x3B \<and> u \<noteq> 0x3D \<and> u \<noteq> 0x20 \<and> \<not> is_ws u"
  by (auto simp: uri_char_def uri_unreserved_def is_ws_def word_le_def)

end
