(* ===== verification/Cookies.thy ===== *)
theory Cookies
  imports Uri JsConvert
begin

section \<open>Cookies (cookies.ts)\<close>

text \<open>
  \<open>getCookie\<close>, \<open>setCookie\<close> and \<open>removeCookie\<close> over the browser's cookie jar. The first part is the
  browser's side of \<open>document.cookie\<close>, the second the code. The locale \<open>cookie_store\<close> is the contract
  the rest of the program relies on.
\<close>

subsection \<open>document.cookie\<close>

text \<open>
  The jar holds names and values in the order of creation. Assigning to \<open>document.cookie\<close> sets one
  cookie, or removes it when its \<open>Max-Age\<close>, in one of the two spellings the program uses, is not
  positive; a cookie of more than 4096 bytes is
  ignored. The other attributes do not matter for one origin and path, and time does not pass.
\<close>

type_synonym jar = "(jsstr \<times> jsstr) list"

definition put_cookie :: "jsstr \<Rightarrow> jsstr \<Rightarrow> jar \<Rightarrow> jar" where
  "put_cookie n v jar =
     (if n \<in> set (map fst jar) then map (\<lambda>(m, w). if m = n then (n, v) else (m, w)) jar else jar @ [(n, v)])"

definition drop_cookie :: "jsstr \<Rightarrow> jar \<Rightarrow> jar" where
  "drop_cookie n jar = filter (\<lambda>(m, w). m \<noteq> n) jar"

definition expires :: "jsstr \<Rightarrow> bool" where
  "expires attribute =
     (let a = trim attribute
      in (starts_with (js ''Max-Age='') a \<or> starts_with (js ''max-age='') a) \<and> jle (Number (drop 8 a)) (jint 0))"

definition assign_cookie :: "jsstr \<Rightarrow> jar \<Rightarrow> jar" where
  "assign_cookie text jar =
     (let parts = js_split (js '';'') text;
          pair = hd parts;
          n = trim (takeWhile (\<lambda>u. u \<noteq> 0x3D) pair);
          v = trim (drop 1 (dropWhile (\<lambda>u. u \<noteq> 0x3D) pair))
      in if list_ex expires (tl parts) then drop_cookie n jar
         else if length n + length v > 4096 then jar
         else put_cookie n v jar)"

definition document_cookie :: "jar \<Rightarrow> jsstr" where
  "document_cookie jar = join (js ''; '') (map (\<lambda>(n, v). n @ js ''='' @ v) jar)"

subsection \<open>The three functions\<close>

datatype uri_error = URIError

definition DEFAULT_MAX_AGE :: jsnum where "DEFAULT_MAX_AGE = jint 60 * jint 60 * jint 24 * jint 7"

text \<open>The result is the exception of the encoding or decoding, or the value, \<open>None\<close> for \<open>undefined\<close>.\<close>

definition getCookie :: "jsstr \<Rightarrow> jar \<Rightarrow> (uri_error, jsstr option) thrown" where
  "getCookie cname jar =
     (case encodeURIComponent cname of
        None \<Rightarrow> Inl URIError
      | Some encodedName \<Rightarrow>
          (let cookies = js ''; '' @ document_cookie jar;
               parts = js_split (js ''; '' @ encodedName @ js ''='') cookies
           in if length parts = 2 then
                (let cookieValue = hd (js_split (js '';'') (last parts))
                 in if cookieValue \<noteq> [] then
                      (case decodeURIComponent cookieValue of None \<Rightarrow> Inl URIError | Some d \<Rightarrow> Inr (Some d))
                    else Inr (Some cookieValue))
              else Inr None))"

definition setCookie :: "bool \<Rightarrow> jsstr \<Rightarrow> jsstr \<Rightarrow> jsnum \<Rightarrow> jar \<Rightarrow> (uri_error, jar) thrown" where
  "setCookie https cname cvalue maxAge jar =
     (case (encodeURIComponent cname, encodeURIComponent cvalue) of
        (Some n, Some v) \<Rightarrow>
          Inr (assign_cookie
            (n @ js ''='' @ v @ js ''; Path=/; Max-Age='' @ to_string maxAge @ js ''; SameSite=Lax''
               @ (if https then js ''; Secure'' else [])) jar)
      | _ \<Rightarrow> Inl URIError)"

definition removeCookie :: "jsstr \<Rightarrow> jar \<Rightarrow> (uri_error, jar) thrown" where
  "removeCookie cname jar =
     (case encodeURIComponent cname of
        None \<Rightarrow> Inl URIError
      | Some n \<Rightarrow> Inr (assign_cookie (n @ js ''=; Path=/; Max-Age=0; SameSite=Lax'') jar))"

subsection \<open>Reading the jar\<close>

definition jar_ok :: "jar \<Rightarrow> bool" where
  "jar_ok jar \<longleftrightarrow> distinct (map fst jar) \<and> (\<forall>(n, v) \<in> set jar. 0x3B \<notin> set n \<and> 0x3D \<notin> set n \<and> 0x3B \<notin> set v)"

definition entry :: "jsstr \<times> jsstr \<Rightarrow> jsstr" where
  "entry c = 0x3B # 0x20 # fst c @ 0x3D # snd c"

lemma js_semicolon: "js ''; '' = [0x3B, 0x20]" "js '';'' = [0x3B]" "js ''='' = [0x3D]"
  by (simp_all add: js_def)

lemma document_cookie_entries:
  "jar \<noteq> [] \<Longrightarrow> js ''; '' @ document_cookie jar = concat (map entry jar)"
proof (induction jar)
  case (Cons c jar)
  then show ?case
    by (cases jar) (auto simp: document_cookie_def entry_def js_semicolon split: prod.splits)
qed simp

lemma starts_with_append: "starts_with p s \<longleftrightarrow> (\<exists>t. s = p @ t)"
  by (auto simp: starts_with_def) (metis append_take_drop_id)

text \<open>A separator is found nowhere in a text without its first unit.\<close>

lemma split_from_run:
  "sep = c # sep' \<Longrightarrow> c \<notin> set x \<Longrightarrow> split_from sep acc (x @ s) = split_from sep (rev x @ acc) s"
proof (induction x arbitrary: acc)
  case (Cons u x)
  then have "\<not> starts_with sep (u # x @ s)" by (auto simp: starts_with_append)
  then show ?case using Cons split_from_skip[of sep u "x @ s"] by simp
qed simp

definition name_sep :: "jsstr \<Rightarrow> jsstr" where
  "name_sep n = 0x3B # 0x20 # n @ [0x3D]"

lemma split_entry_other:
  assumes "0x3B \<notin> set n" "0x3D \<notin> set n" "0x3B \<notin> set m" "0x3D \<notin> set m" "0x3B \<notin> set v" "m \<noteq> n"
  shows "split_from (name_sep n) acc (entry (m, v) @ s) = split_from (name_sep n) (rev (entry (m, v)) @ acc) s"
proof -
  have "\<not> starts_with (name_sep n) (entry (m, v) @ s)"
  proof
    assume "starts_with (name_sep n) (entry (m, v) @ s)"
    then obtain t where "m @ 0x3D # v @ s = n @ 0x3D # t"
      by (auto simp: starts_with_append name_sep_def entry_def)
    from append_sep_cancel[OF this] assms show False by blast
  qed
  then have "split_from (name_sep n) acc (entry (m, v) @ s) =
      split_from (name_sep n) (0x3B # acc) ((0x20 # m @ 0x3D # v) @ s)"
    using split_from_skip[of "name_sep n"] by (simp add: entry_def name_sep_def)
  also have "\<dots> = split_from (name_sep n) (rev (entry (m, v)) @ acc) s"
    using assms by (subst split_from_run) (auto simp: name_sep_def entry_def)
  finally show ?thesis .
qed

lemma split_entry_same:
  "split_from (name_sep n) acc (entry (n, v) @ s) = rev acc # split_from (name_sep n) [] (v @ s)"
proof -
  have "entry (n, v) @ s = name_sep n @ v @ s" by (simp add: entry_def name_sep_def)
  then show ?thesis using split_from_match[of "name_sep n"] by (simp add: name_sep_def)
qed

lemma split_entries_other:
  "\<forall>(m, v) \<in> set jar. 0x3B \<notin> set m \<and> 0x3D \<notin> set m \<and> 0x3B \<notin> set v \<and> m \<noteq> n \<Longrightarrow> 0x3B \<notin> set n \<Longrightarrow> 0x3D \<notin> set n \<Longrightarrow>
   split_from (name_sep n) acc (concat (map entry jar) @ s) = split_from (name_sep n) (rev (concat (map entry jar)) @ acc) s"
proof (induction jar arbitrary: acc)
  case (Cons c jar)
  then show ?case by (cases c) (simp add: split_entry_other)
qed simp

lemma getCookie_absent:
  assumes "jar_ok jar" "encodeURIComponent cname = Some n" "n \<notin> set (map fst jar)"
  shows "getCookie cname jar = Inr None"
proof -
  have n: "0x3B \<notin> set n" "0x3D \<notin> set n" using encoded_chars[OF assms(2)] uri_char_facts by blast+
  have sep: "js ''; '' @ n @ js ''='' = name_sep n" by (simp add: js_semicolon name_sep_def)
  show ?thesis
  proof (cases "jar = []")
    case True
    have "js_split (name_sep n) (js ''; '') = [js ''; '']"
    proof -
      have "\<not> starts_with (name_sep n) [0x3B, 0x20]" "\<not> starts_with (name_sep n) [0x20]"
        by (auto simp: starts_with_append name_sep_def)
      then show ?thesis
        using split_from_skip[of "name_sep n"] by (simp add: js_split_def js_semicolon) (simp add: name_sep_def)
    qed
    then show ?thesis using assms True by (simp add: getCookie_def document_cookie_def sep Let_def)
  next
    case False
    have "\<forall>(m, v) \<in> set jar. 0x3B \<notin> set m \<and> 0x3D \<notin> set m \<and> 0x3B \<notin> set v \<and> m \<noteq> n"
      using assms(1,3) by (force simp: jar_ok_def)
    from split_entries_other[OF this n, of "[]" "[]"]
    have "js_split (name_sep n) (concat (map entry jar)) = [concat (map entry jar)]"
      by (simp add: js_split_def name_sep_def)
    then show ?thesis using assms(2) document_cookie_entries[OF False]
      by (simp add: getCookie_def sep Let_def)
  qed
qed

lemma getCookie_present:
  assumes ok: "jar_ok jar" and n: "encodeURIComponent cname = Some n" and jar: "jar = xs @ (n, v) # ys"
  shows "getCookie cname jar =
    (if v = [] then Inr (Some []) else case decodeURIComponent v of None \<Rightarrow> Inl URIError | Some d \<Rightarrow> Inr (Some d))"
proof -
  have nn: "0x3B \<notin> set n" "0x3D \<notin> set n" using encoded_chars[OF n] uri_char_facts by blast+
  have xs: "\<forall>(m, w) \<in> set xs. 0x3B \<notin> set m \<and> 0x3D \<notin> set m \<and> 0x3B \<notin> set w \<and> m \<noteq> n"
    and ys: "\<forall>(m, w) \<in> set ys. 0x3B \<notin> set m \<and> 0x3D \<notin> set m \<and> 0x3B \<notin> set w \<and> m \<noteq> n"
    and v: "0x3B \<notin> set v"
  proof -
    have d: "distinct (map fst xs @ n # map fst ys)"
      and e: "\<forall>(m, w) \<in> set xs \<union> set ys. 0x3B \<notin> set m \<and> 0x3D \<notin> set m \<and> 0x3B \<notin> set w"
      and "0x3B \<notin> set v"
      using ok by (simp_all add: jar_ok_def jar ball_Un)
    then show "0x3B \<notin> set v" by simp
    have "n \<notin> fst ` set xs" "n \<notin> fst ` set ys" using d by auto
    then show "\<forall>(m, w) \<in> set xs. 0x3B \<notin> set m \<and> 0x3D \<notin> set m \<and> 0x3B \<notin> set w \<and> m \<noteq> n"
      and "\<forall>(m, w) \<in> set ys. 0x3B \<notin> set m \<and> 0x3D \<notin> set m \<and> 0x3B \<notin> set w \<and> m \<noteq> n"
      using e by force+
  qed
  let ?sx = "concat (map entry xs)" and ?sy = "concat (map entry ys)"
  have "split_from (name_sep n) [] (concat (map entry jar)) =
      split_from (name_sep n) (rev ?sx) (entry (n, v) @ ?sy)"
    using split_entries_other[OF xs nn, of "[]"] by (simp add: jar)
  also have "\<dots> = ?sx # split_from (name_sep n) [] (v @ ?sy)" by (simp add: split_entry_same)
  also have "split_from (name_sep n) [] (v @ ?sy) = [v @ ?sy]"
    using split_from_run[of "name_sep n" "0x3B" "0x20 # n @ [0x3D]" v "[]" ?sy] v
      split_entries_other[OF ys nn, of "rev v" "[]"]
    by (simp add: name_sep_def)
  finally have parts: "js_split (name_sep n) (concat (map entry jar)) = [?sx, v @ ?sy]"
    by (simp add: js_split_def name_sep_def)
  have "hd (js_split [0x3B] (v @ ?sy)) = v"
    using v js_split_char_none[of "0x3B" v] js_split_char_some[of "0x3B" v] by (cases ys) (auto simp: entry_def)
  moreover have "js ''; '' @ document_cookie jar = concat (map entry jar)"
    using document_cookie_entries[of jar] by (simp add: jar)
  moreover have "js ''; '' @ n @ js ''='' = name_sep n" by (simp add: js_semicolon name_sep_def)
  ultimately show ?thesis
    unfolding getCookie_def using n parts by (simp add: js_semicolon(2) Let_def)
qed

subsection \<open>Writing the jar\<close>

lemma encoded_no_sep: "encodeURIComponent s = Some t \<Longrightarrow> 0x3B \<notin> set t \<and> 0x3D \<notin> set t \<and> trim t = t"
  using encoded_chars[of s t] uri_char_facts trim_no_ws[of t] by blast

text \<open>The text of a cookie with attributes that hold no semicolon.\<close>

lemma js_split_attributes:
  "0x3B \<notin> set x \<Longrightarrow> \<forall>a \<in> set as. 0x3B \<notin> set a \<Longrightarrow>
   js_split (js '';'') (x @ concat (map (\<lambda>a. 0x3B # a) as)) = x # as"
proof (induction as arbitrary: x)
  case Nil
  then show ?case by (simp add: js_semicolon js_split_char_none)
next
  case (Cons a as)
  then show ?case using js_split_char_some[of "0x3B" x] by (simp add: js_semicolon)
qed

lemma assign_cookie_text:
  assumes n: "encodeURIComponent cname = Some n" and v: "encodeURIComponent cvalue = Some v"
    and as: "\<forall>a \<in> set as. 0x3B \<notin> set a"
  shows "assign_cookie (n @ js ''='' @ v @ concat (map (\<lambda>a. 0x3B # a) as)) jar =
    (if list_ex expires as then drop_cookie n jar
     else if length n + length v > 4096 then jar else put_cookie n v jar)"
proof -
  have nv: "0x3B \<notin> set (n @ 0x3D # v)" using encoded_no_sep[OF n] encoded_no_sep[OF v] by simp
  have "takeWhile (\<lambda>u. u \<noteq> 0x3D) (n @ 0x3D # v) = n" "dropWhile (\<lambda>u. u \<noteq> 0x3D) (n @ 0x3D # v) = 0x3D # v"
    using encoded_no_sep[OF n] by (auto intro!: takeWhile_stop dropWhile_stop)
  then show ?thesis
    using js_split_attributes[OF nv as] encoded_no_sep[OF n] encoded_no_sep[OF v]
    by (simp add: assign_cookie_def js_semicolon(3) Let_def)
qed

lemma expires_other: "\<not> expires (js '' Path=/'')" "\<not> expires (js '' SameSite=Lax'')" "\<not> expires (js '' Secure'')"
  by (simp_all add: expires_def js_def trim_def is_ws_def starts_with_def Let_def)

lemma expires_max_age:
  assumes "0 \<le> m" "m \<le> max_safe"
  shows "expires (js '' Max-Age='' @ dec m) \<longleftrightarrow> m = 0"
proof -
  have d: "\<forall>u \<in> set (dec m). \<not> is_ws u" using dec_digits[OF assms(1)] by auto
  then have "trim (js ''Max-Age='' @ dec m) = js ''Max-Age='' @ dec m"
    by (intro trim_no_ws) (auto simp: js_def is_ws_def)
  moreover have "trim (0x20 # js ''Max-Age='' @ dec m) = trim (js ''Max-Age='' @ dec m)"
    by (simp add: trim_def is_ws_def)
  moreover have "js '' Max-Age='' = 0x20 # js ''Max-Age=''" by (simp add: js_def)
  ultimately have "trim (js '' Max-Age='' @ dec m) = js ''Max-Age='' @ dec m" by simp
  then show ?thesis
    using assms by (simp add: expires_def starts_with_append Number_dec Let_def)
qed

lemma setCookie_put:
  assumes n: "encodeURIComponent cname = Some n" and v: "encodeURIComponent cvalue = Some v"
    and m: "0 < m" "m \<le> max_safe" and len: "length n + length v \<le> 4096"
  shows "setCookie https cname cvalue (jint m) jar = Inr (put_cookie n v jar)"
proof -
  let ?as = "[js '' Path=/'', js '' Max-Age='' @ dec m, js '' SameSite=Lax''] @ (if https then [js '' Secure''] else [])"
  have "0x3B \<notin> set (dec m)" using dec_digits[of m] m by (auto simp: is_digit_def)
  then have as: "\<forall>a \<in> set ?as. 0x3B \<notin> set a" by (simp add: js_def)
  have e: "\<not> list_ex expires ?as" using expires_other expires_max_age[of m] m by simp
  have t: "n @ js ''='' @ v @ js ''; Path=/; Max-Age='' @ to_string (jint m) @ js ''; SameSite=Lax'' @ (if https then js ''; Secure'' else [])
      = n @ js ''='' @ v @ concat (map (\<lambda>a. 0x3B # a) ?as)"
    using m by (simp add: to_string_nonneg) (simp add: js_def)
  show ?thesis
    unfolding setCookie_def n v
    using assign_cookie_text[OF n v as, of jar] e len by (simp add: t)
qed

lemma removeCookie_drop:
  assumes n: "encodeURIComponent cname = Some n"
  shows "removeCookie cname jar = Inr (drop_cookie n jar)"
proof -
  let ?as = "[js '' Path=/'', js '' Max-Age='' @ dec 0, js '' SameSite=Lax'']"
  have z: "dec 0 = [0x30]" by (subst dec.simps) (simp add: digit_char_def)
  have as: "\<forall>a \<in> set ?as. 0x3B \<notin> set a" by (simp add: z) (simp add: js_def)
  have e: "list_ex expires ?as" using expires_max_age[of 0] by (simp add: max_safe_def)
  have t: "n @ js ''=; Path=/; Max-Age=0; SameSite=Lax'' = n @ js ''='' @ [] @ concat (map (\<lambda>a. 0x3B # a) ?as)"
    by (simp add: z) (simp add: js_def)
  have "encodeURIComponent [] = Some []" by simp
  from assign_cookie_text[OF n this as, of jar] e show ?thesis
    unfolding removeCookie_def n by (simp add: t)
qed

lemma put_cookie_names: "set (map fst (put_cookie n v jar)) = insert n (set (map fst jar))"
  by (auto simp: put_cookie_def image_iff split: if_splits prod.splits) force+

lemma put_cookie_ok:
  assumes "jar_ok jar" "0x3B \<notin> set n" "0x3D \<notin> set n" "0x3B \<notin> set v"
  shows "jar_ok (put_cookie n v jar)"
proof -
  have "map fst (map (\<lambda>(m, w). if m = n then (n, v) else (m, w)) jar) = map fst jar"
    by (auto simp: case_prod_unfold)
  then show ?thesis using assms by (auto simp: jar_ok_def put_cookie_def simp del: map_map split: if_splits)
qed

lemma put_cookie_in: "(n, v) \<in> set (put_cookie n v jar)"
  by (auto simp: put_cookie_def image_iff) force

lemma put_cookie_other: "m \<noteq> n \<Longrightarrow> (m, w) \<in> set (put_cookie n v jar) \<longleftrightarrow> (m, w) \<in> set jar"
  by (auto simp: put_cookie_def image_iff split: if_splits) force

lemma drop_cookie_ok: "jar_ok jar \<Longrightarrow> jar_ok (drop_cookie n jar)"
  by (auto simp: jar_ok_def drop_cookie_def distinct_map_filter)

text \<open>What a name reads as depends on its entry only.\<close>

lemma getCookie_entry:
  assumes "jar_ok jar" "encodeURIComponent cname = Some n"
  shows "(n, v) \<in> set jar \<Longrightarrow> getCookie cname jar =
      (if v = [] then Inr (Some []) else case decodeURIComponent v of None \<Rightarrow> Inl URIError | Some d \<Rightarrow> Inr (Some d))"
  using getCookie_present[OF assms] by (metis split_list)

lemma getCookie_cong:
  assumes "jar_ok jar" "jar_ok jar'" "encodeURIComponent cname = Some n"
    and "\<And>w. (n, w) \<in> set jar' \<longleftrightarrow> (n, w) \<in> set jar"
  shows "getCookie cname jar' = getCookie cname jar"
proof (cases "n \<in> set (map fst jar)")
  case True
  then obtain w where "(n, w) \<in> set jar" by auto
  then show ?thesis using getCookie_entry[OF assms(1,3)] getCookie_entry[OF assms(2,3)] assms(4) by metis
next
  case False
  then have "n \<notin> set (map fst jar')" using assms(4) by force
  then show ?thesis using getCookie_absent[OF assms(1,3) False] getCookie_absent[OF assms(2,3)] by simp
qed

lemma encode_inject: "encodeURIComponent s = Some t \<Longrightarrow> encodeURIComponent s' = Some t \<Longrightarrow> s = s'"
  using decode_encode by (metis option.inject)

subsection \<open>The contract\<close>

text \<open>
  A store of named texts: a value that was put is read back, a name that was deleted reads as absent,
  and neither touches another name. \<open>storable\<close> says which values fit under which names.
\<close>

locale cookie_store =
  fixes get :: "jsstr \<Rightarrow> 'j \<Rightarrow> (uri_error, jsstr option) thrown"
    and put :: "jsstr \<Rightarrow> jsstr \<Rightarrow> jsnum \<Rightarrow> 'j \<Rightarrow> (uri_error, 'j) thrown"
    and del :: "jsstr \<Rightarrow> 'j \<Rightarrow> (uri_error, 'j) thrown"
    and ok :: "'j \<Rightarrow> bool"
    and storable :: "jsstr \<Rightarrow> jsstr \<Rightarrow> bool"
  assumes put_get: "ok j \<Longrightarrow> storable n v \<Longrightarrow> 0 < m \<Longrightarrow> m \<le> max_safe \<Longrightarrow>
      \<exists>j'. put n v (jint m) j = Inr j' \<and> ok j' \<and> get n j' = Inr (Some v) \<and> (\<forall>k. k \<noteq> n \<longrightarrow> get k j' = get k j)"
    and del_get: "ok j \<Longrightarrow> storable n v \<Longrightarrow>
      \<exists>j'. del n j = Inr j' \<and> ok j' \<and> get n j' = Inr None \<and> (\<forall>k. k \<noteq> n \<longrightarrow> get k j' = get k j)"
begin

lemma put_then_get:
  assumes "ok j" "storable n v" "0 < m" "m \<le> max_safe" "put n v (jint m) j = Inr j'"
  shows "get n j' = Inr (Some v)" and "k \<noteq> n \<Longrightarrow> get k j' = get k j" and "ok j'"
  using put_get[OF assms(1-4)] assms(5) by auto

lemma del_then_get:
  assumes "ok j" "storable n v" "del n j = Inr j'"
  shows "get n j' = Inr None" and "k \<noteq> n \<Longrightarrow> get k j' = get k j" and "ok j'"
  using del_get[OF assms(1,2)] assms(3) by auto

text \<open>The last of two values put under one name wins.\<close>

lemma put_twice:
  assumes "ok j" "storable n v" "storable n w" "0 < m" "m \<le> max_safe"
    "put n v (jint m) j = Inr j1" "put n w (jint m) j1 = Inr j2"
  shows "get n j2 = Inr (Some w)"
  using put_then_get(1)[OF put_then_get(3)[OF assms(1,2,4,5,6)] assms(3,4,5,7)] .

end

subsection \<open>The cookies provide it\<close>

definition cookie_fits :: "jsstr \<Rightarrow> jsstr \<Rightarrow> bool" where
  "cookie_fits cname cvalue \<longleftrightarrow>
     (case (encodeURIComponent cname, encodeURIComponent cvalue) of
        (Some n, Some v) \<Rightarrow> length n + length v \<le> 4096
      | _ \<Rightarrow> False)"

lemma cookie_fits_cases:
  assumes "cookie_fits cname cvalue"
  obtains n v where "encodeURIComponent cname = Some n" "encodeURIComponent cvalue = Some v" "length n + length v \<le> 4096"
  using assms by (auto simp: cookie_fits_def split: option.splits)

lemma getCookie_other_name:
  assumes "jar_ok jar" "jar_ok jar'" "encodeURIComponent cname = Some n" "k \<noteq> cname"
    and "\<And>m w. m \<noteq> n \<Longrightarrow> (m, w) \<in> set jar' \<longleftrightarrow> (m, w) \<in> set jar"
  shows "getCookie k jar' = getCookie k jar"
proof (cases "encodeURIComponent k")
  case None
  then show ?thesis by (simp add: getCookie_def)
next
  case (Some m)
  then have "m \<noteq> n" using assms(3,4) encode_inject by blast
  then show ?thesis using getCookie_cong[OF assms(1,2) Some] assms(5) by blast
qed

lemma encode_Nil: "encodeURIComponent s = Some [] \<Longrightarrow> s = []"
  using decode_encode[of s "[]"] by (simp add: decodeURIComponent.simps)

interpretation cookies: cookie_store getCookie "setCookie https" removeCookie jar_ok cookie_fits
proof
  fix jar :: jar and cname cvalue :: jsstr and m :: int
  assume ok: "jar_ok jar" and fits: "cookie_fits cname cvalue" and m: "0 < m" "m \<le> max_safe"
  obtain n v where n: "encodeURIComponent cname = Some n" and v: "encodeURIComponent cvalue = Some v"
    and len: "length n + length v \<le> 4096"
    using fits by (rule cookie_fits_cases)
  let ?jar = "put_cookie n v jar"
  have ok': "jar_ok ?jar" using put_cookie_ok[OF ok] encoded_no_sep[OF n] encoded_no_sep[OF v] by blast
  have "getCookie cname ?jar = Inr (Some cvalue)"
    using getCookie_entry[OF ok' n put_cookie_in] decode_encode[OF v] encode_Nil[of cvalue] v by auto
  moreover have "getCookie k ?jar = getCookie k jar" if "k \<noteq> cname" for k
    using getCookie_other_name[OF ok ok' n that] put_cookie_other by blast
  ultimately show "\<exists>j'. setCookie https cname cvalue (jint m) jar = Inr j' \<and> jar_ok j' \<and>
      getCookie cname j' = Inr (Some cvalue) \<and> (\<forall>k. k \<noteq> cname \<longrightarrow> getCookie k j' = getCookie k jar)"
    using setCookie_put[OF n v m len] ok' by blast
next
  fix jar :: jar and cname cvalue :: jsstr
  assume ok: "jar_ok jar" and fits: "cookie_fits cname cvalue"
  obtain n where n: "encodeURIComponent cname = Some n" using fits by (rule cookie_fits_cases)
  let ?jar = "drop_cookie n jar"
  have ok': "jar_ok ?jar" using drop_cookie_ok[OF ok] .
  have "n \<notin> set (map fst ?jar)" by (auto simp: drop_cookie_def)
  from getCookie_absent[OF ok' n this] have "getCookie cname ?jar = Inr None" .
  moreover have "getCookie k ?jar = getCookie k jar" if "k \<noteq> cname" for k
    using getCookie_other_name[OF ok ok' n that] by (auto simp: drop_cookie_def)
  ultimately show "\<exists>j'. removeCookie cname jar = Inr j' \<and> jar_ok j' \<and>
      getCookie cname j' = Inr None \<and> (\<forall>k. k \<noteq> cname \<longrightarrow> getCookie k j' = getCookie k jar)"
    using removeCookie_drop[OF n] ok' by blast
qed

subsection \<open>Properties\<close>

text \<open>
  C34: a cookie that was set is read back unchanged, whatever characters the name and the value have,
  as long as they can be encoded and fit in 4096 bytes; every other cookie is untouched; and a removed
  cookie is gone. All of it holds on plain and secure connections.
\<close>

theorem cookies_roundtrip:
  assumes "jar_ok jar" "cookie_fits cname cvalue" "0 < m" "m \<le> max_safe"
  shows "\<exists>jar' jar''. setCookie https cname cvalue (jint m) jar = Inr jar' \<and> jar_ok jar' \<and>
    getCookie cname jar' = Inr (Some cvalue) \<and>
    removeCookie cname jar' = Inr jar'' \<and> jar_ok jar'' \<and> getCookie cname jar'' = Inr None \<and>
    (\<forall>k. k \<noteq> cname \<longrightarrow> getCookie k jar' = getCookie k jar \<and> getCookie k jar'' = getCookie k jar)"
proof -
  obtain jar' where j: "setCookie https cname cvalue (jint m) jar = Inr jar'" "jar_ok jar'"
    "getCookie cname jar' = Inr (Some cvalue)" "\<forall>k. k \<noteq> cname \<longrightarrow> getCookie k jar' = getCookie k jar"
    using cookies.put_get[OF assms, of https] by blast
  from cookies.del_get[OF j(2) assms(2)] j show ?thesis by auto
qed

theorem cookies_roundtrip_witness:
  "\<exists>jar'. setCookie True (js ''a b'') (js ''1;2=3'') (jint 60) [(js ''x'', js ''y'')] = Inr jar' \<and>
     getCookie (js ''a b'') jar' = Inr (Some (js ''1;2=3''))"
proof -
  have ok: "jar_ok [(js ''x'', js ''y'')]" by (simp add: jar_ok_def js_def)
  have "cookie_fits (js ''a b'') (js ''1;2=3'')" by code_simp
  from cookies_roundtrip[OF ok this, of 60 True] show ?thesis by (auto simp: max_safe_def)
qed

end
