(* ===== verification/JsonText.thy ===== *)
theory JsonText
  imports Json Uri
begin

section \<open>JSON.stringify of a string and JSON.parse\<close>

text \<open>
  The two library functions the session cookie goes through. The theorem: parsing undoes stringifying
  on every string, and the text of a string can always be encoded as a URI component.
\<close>

definition low_hex :: "int \<Rightarrow> unit16" where
  "low_hex d = (if d < 10 then word_of_int (48 + d) else word_of_int (87 + d))"

definition unicode_escape :: "unit16 \<Rightarrow> jsstr" where
  "unicode_escape u =
     [0x5C, 0x75, low_hex (uint u div 0x1000), low_hex (uint u div 0x100 mod 16),
      low_hex (uint u div 16 mod 16), low_hex (uint u mod 16)]"

text \<open>The escape of one code unit that is not part of a surrogate pair.\<close>

definition escape_unit :: "unit16 \<Rightarrow> jsstr" where
  "escape_unit u =
     (if u = 0x22 then [0x5C, 0x22] else if u = 0x5C then [0x5C, 0x5C]
      else if u = 0x8 then [0x5C, 0x62] else if u = 0x9 then [0x5C, 0x74]
      else if u = 0xA then [0x5C, 0x6E] else if u = 0xC then [0x5C, 0x66]
      else if u = 0xD then [0x5C, 0x72]
      else if u < 0x20 \<or> high_surrogate u \<or> low_surrogate u then unicode_escape u
      else [u])"

fun escape_string :: "jsstr \<Rightarrow> jsstr" where
  "escape_string [] = []"
| "escape_string [u] = escape_unit u"
| "escape_string (u # v # s) =
     (if high_surrogate u \<and> low_surrogate v then u # v # escape_string s
      else escape_unit u @ escape_string (v # s))"

definition stringify_string :: "jsstr \<Rightarrow> jsstr" where
  "stringify_string s = 0x22 # escape_string s @ [0x22]"

subsection \<open>Parsing\<close>

definition simple_escape :: "unit16 \<Rightarrow> unit16 option" where
  "simple_escape u =
     (if u = 0x22 \<or> u = 0x5C \<or> u = 0x2F then Some u
      else if u = 0x62 then Some 0x8 else if u = 0x66 then Some 0xC
      else if u = 0x6E then Some 0xA else if u = 0x72 then Some 0xD
      else if u = 0x74 then Some 0x9 else None)"

definition unicode_value :: "unit16 \<Rightarrow> unit16 \<Rightarrow> unit16 \<Rightarrow> unit16 \<Rightarrow> unit16 option" where
  "unicode_value a b c d = (case (hex_val a, hex_val b, hex_val c, hex_val d) of
       (Some w, Some x, Some y, Some z) \<Rightarrow> Some (word_of_int (((w * 16 + x) * 16 + y) * 16 + z))
     | _ \<Rightarrow> None)"

text \<open>The rest of a string literal after its opening quote, and the text after its closing one.\<close>

function parse_chars :: "jsstr \<Rightarrow> (jsstr \<times> jsstr) option" where
  "parse_chars s = (case s of
       [] \<Rightarrow> None
     | u # t \<Rightarrow>
         if u = 0x22 then Some ([], t)
         else if u = 0x5C then
           (case t of
              e # r \<Rightarrow>
                if e = 0x75 then
                  (case r of
                     a # b # c # d # q \<Rightarrow>
                       (case unicode_value a b c d of
                          None \<Rightarrow> None
                        | Some x \<Rightarrow> map_option (\<lambda>(cs, z). (x # cs, z)) (parse_chars q))
                   | _ \<Rightarrow> None)
                else
                  (case simple_escape e of
                     None \<Rightarrow> None
                   | Some x \<Rightarrow> map_option (\<lambda>(cs, z). (x # cs, z)) (parse_chars r))
            | [] \<Rightarrow> None)
         else if u < 0x20 then None
         else map_option (\<lambda>(cs, z). (u # cs, z)) (parse_chars t))"
  by pat_completeness auto
termination
  by (relation "measure length") auto

declare parse_chars.simps [simp del]

definition json_ws :: "unit16 \<Rightarrow> bool" where
  "json_ws u \<longleftrightarrow> u \<in> {0x20, 0x9, 0xA, 0xD}"

definition skip_ws :: "jsstr \<Rightarrow> jsstr" where
  "skip_ws s = dropWhile json_ws s"

text \<open>The number at the start of a text: its lexeme and the rest.\<close>

definition number_lexeme :: "jsstr \<Rightarrow> (jsstr \<times> jsstr) option" where
  "number_lexeme s =
     (let (sign, t) = (case s of u # r \<Rightarrow> if u = 0x2D then ([u], r) else ([], s) | [] \<Rightarrow> ([], s));
          ip = takeWhile is_digit t; t1 = dropWhile is_digit t;
          (fr, t2) = (case t1 of
              u # r \<Rightarrow> if u = 0x2E \<and> takeWhile is_digit r \<noteq> []
                       then (u # takeWhile is_digit r, dropWhile is_digit r) else ([], t1)
            | [] \<Rightarrow> ([], t1));
          (ex, t3) = (case t2 of
              u # r \<Rightarrow> if u = 0x65 \<or> u = 0x45 then
                  (let (sg, r') = (case r of x # y \<Rightarrow> if x = 0x2B \<or> x = 0x2D then ([x], y) else ([], r) | [] \<Rightarrow> ([], r))
                   in if takeWhile is_digit r' \<noteq> [] then (u # sg @ takeWhile is_digit r', dropWhile is_digit r')
                      else ([], t2))
                else ([], t2)
            | [] \<Rightarrow> ([], t2))
      in if ip = [] \<or> (hd ip = 0x30 \<and> tl ip \<noteq> []) then None else Some (sign @ ip @ fr @ ex, t3))"

text \<open>
  The fuel bounds the nesting; every level of it consumes at least one code unit, so the length of the
  text is always enough.
\<close>

fun parse_value :: "nat \<Rightarrow> jsstr \<Rightarrow> (json \<times> jsstr) option"
  and parse_elements :: "nat \<Rightarrow> jsstr \<Rightarrow> (json list \<times> jsstr) option"
  and parse_members :: "nat \<Rightarrow> jsstr \<Rightarrow> ((jsstr \<times> json) list \<times> jsstr) option" where
  "parse_value 0 s = None"
| "parse_value (Suc n) s0 =
     (let s = skip_ws s0
      in if starts_with (js ''null'') s then Some (JNull, drop 4 s)
         else if starts_with (js ''true'') s then Some (JBool True, drop 4 s)
         else if starts_with (js ''false'') s then Some (JBool False, drop 5 s)
         else (case s of
             [] \<Rightarrow> None
           | u # t \<Rightarrow>
               if u = 0x22 then map_option (\<lambda>(cs, r). (JStr cs, r)) (parse_chars t)
               else if u = 0x5B then
                 (case skip_ws t of
                    w # r \<Rightarrow> if w = 0x5D then Some (JArr [], r)
                             else map_option (\<lambda>(vs, z). (JArr vs, z)) (parse_elements n t)
                  | [] \<Rightarrow> None)
               else if u = 0x7B then
                 (case skip_ws t of
                    w # r \<Rightarrow> if w = 0x7D then Some (JObj [], r)
                             else map_option (\<lambda>(ms, z). (JObj ms, z)) (parse_members n t)
                  | [] \<Rightarrow> None)
               else map_option (\<lambda>(l, r). (JNum (Number l), r)) (number_lexeme s)))"
| "parse_elements 0 s = None"
| "parse_elements (Suc n) s =
     (case parse_value n s of
        None \<Rightarrow> None
      | Some (v, r) \<Rightarrow>
          (case skip_ws r of
             w # z \<Rightarrow> if w = 0x5D then Some ([v], z)
                      else if w = 0x2C then map_option (\<lambda>(vs, y). (v # vs, y)) (parse_elements n z)
                      else None
           | [] \<Rightarrow> None))"
| "parse_members 0 s = None"
| "parse_members (Suc n) s =
     (case skip_ws s of
        [] \<Rightarrow> None
      | u # t \<Rightarrow>
          if u \<noteq> 0x22 then None
          else (case parse_chars t of
              None \<Rightarrow> None
            | Some (k, r) \<Rightarrow>
                (case skip_ws r of
                   [] \<Rightarrow> None
                 | w # z \<Rightarrow>
                     if w \<noteq> 0x3A then None
                     else (case parse_value n z of
                         None \<Rightarrow> None
                       | Some (v, y) \<Rightarrow>
                           (case skip_ws y of
                              x # q \<Rightarrow>
                                if x = 0x7D then Some ([(k, v)], q)
                                else if x = 0x2C then map_option (\<lambda>(ms, p). ((k, v) # ms, p)) (parse_members n q)
                                else None
                            | [] \<Rightarrow> None)))))"

text \<open>\<open>None\<close> is the \<open>SyntaxError\<close>.\<close>

definition json_parse :: "jsstr \<Rightarrow> json option" where
  "json_parse s = (case parse_value (Suc (2 * length s)) s of
       None \<Rightarrow> None
     | Some (v, r) \<Rightarrow> if skip_ws r = [] then Some v else None)"

subsection \<open>Parsing undoes stringifying\<close>

lemma hex_val_low: "0 \<le> d \<Longrightarrow> d < 16 \<Longrightarrow> hex_val (low_hex d) = Some d"
  using sixteen_cases[of d] by (auto simp: hex_val_def low_hex_def word_le_def)

lemma top_digit: "0 \<le> uint (u::unit16) div 0x1000 \<and> uint u div 0x1000 < 16"
proof -
  have "uint u < 0x10000" using uint_lt2p[of u] by simp
  then have "uint u div 0x1000 < 16" by auto
  moreover have "0 \<le> uint u div 0x1000" by (rule div_int_pos_iff[THEN iffD2]) simp
  ultimately show ?thesis by blast
qed

lemma unicode_value_escape:
  "unicode_value (low_hex (uint u div 0x1000)) (low_hex (uint u div 0x100 mod 16))
     (low_hex (uint u div 16 mod 16)) (low_hex (uint u mod 16)) = Some u"
proof -
  have d: "0 \<le> x mod 16 \<and> x mod 16 < (16::int)" for x by simp
  have "uint u div 0x100 = uint u div 16 div 16" "uint u div 0x1000 = uint u div 0x100 div 16"
    by (simp_all add: zdiv_zmult2_eq)
  then have "((uint u div 0x1000 * 16 + uint u div 0x100 mod 16) * 16 + uint u div 16 mod 16) * 16 + uint u mod 16 = uint u"
    by (metis div_mult_mod_eq)
  then show ?thesis using d top_digit[of u] by (simp add: unicode_value_def hex_val_low)
qed

lemma parse_chars_plain:
  "u \<noteq> 0x22 \<Longrightarrow> u \<noteq> 0x5C \<Longrightarrow> \<not> u < 0x20 \<Longrightarrow>
   parse_chars (u # t) = map_option (\<lambda>(cs, z). (u # cs, z)) (parse_chars t)"
  by (subst parse_chars.simps) simp

lemma parse_chars_escape:
  "parse_chars (escape_unit u @ t) = map_option (\<lambda>(cs, z). (u # cs, z)) (parse_chars t)"
proof -
  have e: "parse_chars (0x5C # e # t) = map_option (\<lambda>(cs, z). (x # cs, z)) (parse_chars t)"
    if "simple_escape e = Some x" "e \<noteq> 0x75" for e x
    using that by (subst parse_chars.simps) simp
  have x: "parse_chars (unicode_escape u @ t) = map_option (\<lambda>(cs, z). (u # cs, z)) (parse_chars t)"
    by (subst parse_chars.simps) (simp add: unicode_escape_def unicode_value_escape)
  show ?thesis
    by (auto simp: escape_unit_def x parse_chars_plain intro!: e) (simp_all add: simple_escape_def)
qed

lemma surrogate_plain: "high_surrogate u \<or> low_surrogate u \<Longrightarrow> u \<noteq> 0x22 \<and> u \<noteq> 0x5C \<and> \<not> u < 0x20"
  by (auto simp: high_surrogate_def low_surrogate_def word_le_def word_less_def)

lemma parse_chars_string: "parse_chars (escape_string s @ 0x22 # t) = Some (s, t)"
proof (induction s rule: escape_string.induct)
  case 1
  then show ?case by (subst parse_chars.simps) simp
next
  case (2 u)
  have "parse_chars (0x22 # t) = Some ([], t)" by (subst parse_chars.simps) simp
  then show ?case by (simp add: parse_chars_escape)
next
  case (3 u v s)
  then show ?case
    using surrogate_plain[of u] surrogate_plain[of v] by (auto simp: parse_chars_escape parse_chars_plain)
qed

lemma json_parse_stringify: "json_parse (stringify_string s) = Some (JStr s)"
proof -
  let ?t = "0x22 # escape_string s @ [0x22]"
  have "skip_ws ?t = ?t" by (simp add: skip_ws_def json_ws_def)
  moreover have "\<not> starts_with (js ''null'') ?t" "\<not> starts_with (js ''true'') ?t" "\<not> starts_with (js ''false'') ?t"
    by (simp_all add: starts_with_def js_def)
  ultimately have "parse_value (Suc n) ?t = Some (JStr s, [])" for n
    using parse_chars_string[of s "[]"] by simp
  then show ?thesis by (simp add: json_parse_def stringify_string_def skip_ws_def)
qed

subsection \<open>The text can be encoded\<close>

lemma encode_cons: "\<not> high_surrogate u \<Longrightarrow> \<not> low_surrogate u \<Longrightarrow> encodeURIComponent s \<noteq> None \<Longrightarrow>
   encodeURIComponent (u # s) \<noteq> None"
  by (cases s) auto

lemma encode_append:
  "\<forall>u \<in> set a. \<not> high_surrogate u \<and> \<not> low_surrogate u \<Longrightarrow> encodeURIComponent s \<noteq> None \<Longrightarrow>
   encodeURIComponent (a @ s) \<noteq> None"
proof (induction a)
  case (Cons u a)
  then show ?case using encode_cons[of u "a @ s"] by simp
qed simp

lemma low_hex_no_surrogate: "0 \<le> d \<Longrightarrow> d < 16 \<Longrightarrow> \<not> high_surrogate (low_hex d) \<and> \<not> low_surrogate (low_hex d)"
  using sixteen_cases[of d] by (auto simp: low_hex_def high_surrogate_def low_surrogate_def word_le_def)

lemma escape_unit_no_surrogate: "\<forall>x \<in> set (escape_unit u). \<not> high_surrogate x \<and> \<not> low_surrogate x"
proof -
  have "\<forall>x \<in> set (unicode_escape u). \<not> high_surrogate x \<and> \<not> low_surrogate x"
    using low_hex_no_surrogate top_digit[of u] by (simp add: unicode_escape_def high_surrogate_def low_surrogate_def word_le_def)
  then show ?thesis
    by (simp add: escape_unit_def) (simp add: high_surrogate_def low_surrogate_def word_le_def)
qed

lemma unreserved_no_surrogate: "uri_unreserved u \<Longrightarrow> \<not> high_surrogate u \<and> \<not> low_surrogate u"
  by (auto simp: uri_unreserved_def high_surrogate_def low_surrogate_def word_le_def)

lemma high_not_low: "high_surrogate u \<Longrightarrow> \<not> low_surrogate u"
  by (simp add: high_surrogate_def low_surrogate_def word_le_def)

lemma encode_escaped: "encodeURIComponent (escape_string s @ [0x22]) \<noteq> None"
proof (induction s rule: escape_string.induct)
  case 1
  then show ?case by (simp add: high_surrogate_def low_surrogate_def word_le_def)
next
  case (2 u)
  have "encodeURIComponent [0x22] \<noteq> None" by (simp add: high_surrogate_def low_surrogate_def word_le_def)
  then show ?case using encode_append[OF escape_unit_no_surrogate[of u]] by simp
next
  case (3 u v s)
  show ?case
  proof (cases "high_surrogate u \<and> low_surrogate v")
    case True
    then show ?thesis using 3(1) unreserved_no_surrogate[of u] high_not_low[of u] by auto
  next
    case False
    then show ?thesis using 3(2) encode_append[OF escape_unit_no_surrogate[of u]] by auto
  qed
qed

lemma encode_stringify: "encodeURIComponent (stringify_string s) \<noteq> None"
  unfolding stringify_string_def
  by (rule encode_cons) (simp_all add: high_surrogate_def low_surrogate_def word_le_def encode_escaped[simplified])

end
