(* ===== verification/AuthStore.thy ===== *)
theory AuthStore
  imports Cookies JsonText Types
begin

section \<open>The session store (stores/auth-store.ts)\<close>

text \<open>
  The user and the access token in memory, and the cookie that keeps the token over a reload. The
  cookie jar is the document's, so it is part of the state. \<open>https\<close> says whether the page came over a
  secure connection. The theorem: whatever the program did, a reload recovers exactly the token it
  held.
\<close>

definition ACCESS_TOKEN_COOKIE :: jsstr where "ACCESS_TOKEN_COOKIE = js ''order_management_access_token''"

record auth_state =
  auth_user_of :: "auth_user option"
  accessToken :: jsstr
  auth_jar :: jar

text \<open>The store's initial state, computed when the module is loaded; a \<open>URIError\<close> is not caught.\<close>

definition useAuthStore :: "jar \<Rightarrow> (uri_error, auth_state) thrown" where
  "useAuthStore jar =
     (case getCookie ACCESS_TOKEN_COOKIE jar of
        Inl e \<Rightarrow> Inl e
      | Inr cookieState \<Rightarrow>
          (if cookieState = None \<or> cookieState = Some []
           then Inr \<lparr> auth_user_of = None, accessToken = [], auth_jar = jar \<rparr>
           else (case json_parse (the cookieState) of
               Some parsed \<Rightarrow>
                 Inr \<lparr> auth_user_of = None, accessToken = (case parsed of JStr s \<Rightarrow> s | _ \<Rightarrow> []), auth_jar = jar \<rparr>
             | None \<Rightarrow>
                 (case removeCookie ACCESS_TOKEN_COOKIE jar of
                    Inl e \<Rightarrow> Inl e
                  | Inr jar' \<Rightarrow> Inr \<lparr> auth_user_of = None, accessToken = [], auth_jar = jar' \<rparr>))))"

definition setUser :: "auth_user option \<Rightarrow> auth_state \<Rightarrow> auth_state" where
  "setUser u s = s\<lparr>auth_user_of := u\<rparr>"

definition setAccessToken :: "bool \<Rightarrow> jsstr \<Rightarrow> auth_state \<Rightarrow> (uri_error, auth_state) thrown" where
  "setAccessToken https token s =
     (case setCookie https ACCESS_TOKEN_COOKIE (stringify_string token) DEFAULT_MAX_AGE (auth_jar s) of
        Inl e \<Rightarrow> Inl e
      | Inr jar \<Rightarrow> Inr (s\<lparr>auth_jar := jar, accessToken := token\<rparr>))"

definition resetAccessToken :: "auth_state \<Rightarrow> (uri_error, auth_state) thrown" where
  "resetAccessToken s =
     (case removeCookie ACCESS_TOKEN_COOKIE (auth_jar s) of
        Inl e \<Rightarrow> Inl e
      | Inr jar \<Rightarrow> Inr (s\<lparr>auth_jar := jar, accessToken := []\<rparr>))"

definition auth_reset :: "auth_state \<Rightarrow> (uri_error, auth_state) thrown" where
  "auth_reset s =
     (case removeCookie ACCESS_TOKEN_COOKIE (auth_jar s) of
        Inl e \<Rightarrow> Inl e
      | Inr jar \<Rightarrow> Inr (s\<lparr>auth_jar := jar, auth_user_of := None, accessToken := []\<rparr>))"

subsection \<open>Facts about the constants\<close>

lemma encode_plain: "list_all uri_unreserved s \<Longrightarrow> encodeURIComponent s = Some s"
proof (induction s)
  case (Cons u s)
  then show ?case by (cases s) auto
qed simp

lemma token_name: "encodeURIComponent ACCESS_TOKEN_COOKIE = Some ACCESS_TOKEN_COOKIE"
proof (rule encode_plain)
  show "list_all uri_unreserved ACCESS_TOKEN_COOKIE"
    by (simp add: ACCESS_TOKEN_COOKIE_def js_def) (simp add: uri_unreserved_def)
qed

lemma max_age_int: "DEFAULT_MAX_AGE = jint 604800"
  by (simp add: DEFAULT_MAX_AGE_def jint_mult)

text \<open>The tokens a cookie can hold: those whose encoded text fits in 4096 bytes with the name.\<close>

definition token_fits :: "jsstr \<Rightarrow> bool" where
  "token_fits token \<longleftrightarrow> cookie_fits ACCESS_TOKEN_COOKIE (stringify_string token)"

lemma token_fits_Nil: "token_fits []"
  unfolding token_fits_def by code_simp

lemma stringify_nonempty: "stringify_string s \<noteq> []"
  by (simp add: stringify_string_def)

subsection \<open>The operations\<close>

text \<open>The session's part of a state is stored when a reload would recover it.\<close>

definition mirrored :: "auth_state \<Rightarrow> bool" where
  "mirrored s \<longleftrightarrow> jar_ok (auth_jar s) \<and>
     useAuthStore (auth_jar s) = Inr \<lparr> auth_user_of = None, accessToken = accessToken s, auth_jar = auth_jar s \<rparr>"

lemma useAuthStore_absent:
  "getCookie ACCESS_TOKEN_COOKIE jar = Inr None \<Longrightarrow>
   useAuthStore jar = Inr \<lparr> auth_user_of = None, accessToken = [], auth_jar = jar \<rparr>"
  by (simp add: useAuthStore_def)

lemma useAuthStore_token:
  "getCookie ACCESS_TOKEN_COOKIE jar = Inr (Some (stringify_string token)) \<Longrightarrow>
   useAuthStore jar = Inr \<lparr> auth_user_of = None, accessToken = token, auth_jar = jar \<rparr>"
  by (simp add: useAuthStore_def stringify_nonempty json_parse_stringify)

lemma auth_reset_ok:
  assumes "jar_ok (auth_jar s)"
  shows "\<exists>s'. auth_reset s = Inr s' \<and> mirrored s' \<and> accessToken s' = [] \<and> auth_user_of s' = None"
proof -
  obtain jar where "removeCookie ACCESS_TOKEN_COOKIE (auth_jar s) = Inr jar" "jar_ok jar"
    "getCookie ACCESS_TOKEN_COOKIE jar = Inr None"
    using cookies.del_get[OF assms token_fits_Nil[unfolded token_fits_def]] by blast
  then show ?thesis by (simp add: auth_reset_def mirrored_def useAuthStore_absent)
qed

lemma resetAccessToken_ok:
  assumes "jar_ok (auth_jar s)"
  shows "\<exists>s'. resetAccessToken s = Inr s' \<and> mirrored s' \<and> accessToken s' = [] \<and> auth_user_of s' = auth_user_of s"
proof -
  obtain jar where "removeCookie ACCESS_TOKEN_COOKIE (auth_jar s) = Inr jar" "jar_ok jar"
    "getCookie ACCESS_TOKEN_COOKIE jar = Inr None"
    using cookies.del_get[OF assms token_fits_Nil[unfolded token_fits_def]] by blast
  then show ?thesis by (simp add: resetAccessToken_def mirrored_def useAuthStore_absent)
qed

lemma setAccessToken_ok:
  assumes "jar_ok (auth_jar s)" "token_fits token"
  shows "\<exists>s'. setAccessToken https token s = Inr s' \<and> mirrored s' \<and> accessToken s' = token \<and>
    auth_user_of s' = auth_user_of s"
proof -
  have "0 < (604800::int)" "604800 \<le> max_safe" by (simp_all add: max_safe_def)
  from cookies.put_get[OF assms(1) assms(2)[unfolded token_fits_def] this, of https]
  obtain jar where "setCookie https ACCESS_TOKEN_COOKIE (stringify_string token) DEFAULT_MAX_AGE (auth_jar s) = Inr jar"
    "jar_ok jar" "getCookie ACCESS_TOKEN_COOKIE jar = Inr (Some (stringify_string token))"
    by (auto simp: max_age_int)
  then show ?thesis by (simp add: setAccessToken_def mirrored_def useAuthStore_token)
qed

text \<open>Setting the cookie never throws, whatever the token: its text as JSON can always be encoded.\<close>

lemma setAccessToken_total: "\<exists>s'. setAccessToken https token s = Inr s' \<and> accessToken s' = token"
  using encode_stringify[of token] token_name by (auto simp: setAccessToken_def setCookie_def)

subsection \<open>Everything the program does with the store\<close>

datatype auth_op =
  OpSetUser "auth_user option"
| OpSetAccessToken jsstr
| OpResetAccessToken
| OpReset

fun auth_apply :: "bool \<Rightarrow> auth_op \<Rightarrow> auth_state \<Rightarrow> (uri_error, auth_state) thrown" where
  "auth_apply https (OpSetUser u) s = Inr (setUser u s)"
| "auth_apply https (OpSetAccessToken t) s = setAccessToken https t s"
| "auth_apply https OpResetAccessToken s = resetAccessToken s"
| "auth_apply https OpReset s = auth_reset s"

fun auth_run :: "bool \<Rightarrow> auth_op list \<Rightarrow> auth_state \<Rightarrow> (uri_error, auth_state) thrown" where
  "auth_run https [] s = Inr s"
| "auth_run https (x # xs) s = (case auth_apply https x s of Inl e \<Rightarrow> Inl e | Inr s' \<Rightarrow> auth_run https xs s')"

fun op_fits :: "auth_op \<Rightarrow> bool" where
  "op_fits (OpSetAccessToken t) = token_fits t"
| "op_fits _ = True"

lemma auth_apply_mirrored:
  "mirrored s \<Longrightarrow> op_fits x \<Longrightarrow> \<exists>s'. auth_apply https x s = Inr s' \<and> mirrored s'"
  using auth_reset_ok[of s] resetAccessToken_ok[of s] setAccessToken_ok[of s _ https]
  by (cases x) (auto simp: mirrored_def setUser_def)

lemma auth_run_mirrored:
  "mirrored s \<Longrightarrow> \<forall>x \<in> set xs. op_fits x \<Longrightarrow> \<exists>s'. auth_run https xs s = Inr s' \<and> mirrored s'"
proof (induction xs arbitrary: s)
  case (Cons x xs)
  obtain s1 where "auth_apply https x s = Inr s1" "mirrored s1"
    using auth_apply_mirrored[of s x https] Cons.prems by auto
  then show ?case using Cons.IH[of s1] Cons.prems by auto
qed simp

text \<open>A fresh browser holds no session.\<close>

lemma mirrored_start: "useAuthStore [] = Inr s \<Longrightarrow> mirrored s"
  by (auto simp: useAuthStore_def getCookie_absent[of "[]"] jar_ok_def token_name mirrored_def)

text \<open>
  C28: from a fresh browser on, whatever sequence of sign-ins, sign-outs and user updates the program
  performs, none of them throws, and loading the program anew recovers exactly the token it held, on
  plain and secure connections; the user is asked for again. After a sign-out there is no token.
\<close>

theorem session_survives_reload:
  assumes "useAuthStore [] = Inr s0" "\<forall>x \<in> set xs. op_fits x"
  shows "\<exists>s. auth_run https xs s0 = Inr s \<and>
    useAuthStore (auth_jar s) = Inr \<lparr> auth_user_of = None, accessToken = accessToken s, auth_jar = auth_jar s \<rparr> \<and>
    (xs \<noteq> [] \<and> last xs \<in> {OpReset, OpResetAccessToken} \<longrightarrow> accessToken s = [])"
proof -
  have m: "mirrored s0" using assms(1) by (rule mirrored_start)
  show ?thesis
  proof (cases xs rule: rev_cases)
    case Nil
    then show ?thesis using m by (simp add: mirrored_def)
  next
    case (snoc ys x)
    obtain s1 where s1: "auth_run https ys s0 = Inr s1" "mirrored s1"
      using auth_run_mirrored[OF m, of ys https] assms(2) snoc by auto
    have app: "auth_run https (ys @ [x]) s0 = auth_apply https x s1"
      using s1(1) by (induction ys arbitrary: s0) (auto split: sum.splits)
    have "jar_ok (auth_jar s1)" using s1(2) by (simp add: mirrored_def)
    then have "x \<in> {OpReset, OpResetAccessToken} \<longrightarrow> (\<forall>s. auth_apply https x s1 = Inr s \<longrightarrow> accessToken s = [])"
      using auth_reset_ok[of s1] resetAccessToken_ok[of s1] by auto
    moreover obtain s where "auth_apply https x s1 = Inr s" "mirrored s"
      using auth_apply_mirrored[OF s1(2), of x https] assms(2) snoc by auto
    ultimately show ?thesis using app snoc by (auto simp: mirrored_def)
  qed
qed

theorem session_survives_reload_witness:
  "\<exists>s. auth_run True [OpSetAccessToken (js ''eyJ.a b''), OpSetUser None] \<lparr> auth_user_of = None, accessToken = [], auth_jar = [] \<rparr> = Inr s \<and>
     useAuthStore (auth_jar s) = Inr \<lparr> auth_user_of = None, accessToken = accessToken s, auth_jar = auth_jar s \<rparr>"
proof -
  have i: "useAuthStore [] = Inr \<lparr> auth_user_of = None, accessToken = [], auth_jar = [] \<rparr>"
    by (intro useAuthStore_absent getCookie_absent[of "[]"]) (simp_all add: jar_ok_def token_name)
  have "token_fits (js ''eyJ.a b'')" unfolding token_fits_def by code_simp
  then show ?thesis
    using session_survives_reload[OF i, of "[OpSetAccessToken (js ''eyJ.a b''), OpSetUser None]" True] by auto
qed

text \<open>
  A cookie whose text is not a valid percent-encoding makes the module throw while it is loaded:
  reading the cookie is outside the \<open>try\<close>, so the clean-up that a cookie of invalid JSON gets is
  never reached and the program does not start until the cookie is gone.
\<close>

theorem malformed_cookie_throws:
  "useAuthStore [(ACCESS_TOKEN_COOKIE, js ''%'')] = Inl URIError \<and>
   useAuthStore [(ACCESS_TOKEN_COOKIE, js ''x%7D'')] = Inr \<lparr> auth_user_of = None, accessToken = [], auth_jar = [] \<rparr>"
proof -
  have ok: "jar_ok [(ACCESS_TOKEN_COOKIE, js ''%'')]" "jar_ok [(ACCESS_TOKEN_COOKIE, js ''x%7D'')]"
    by (simp_all add: jar_ok_def ACCESS_TOKEN_COOKIE_def js_def)
  have d: "decodeURIComponent (js ''%'') = None" "decodeURIComponent (js ''x%7D'') = Some (js ''x}'')" by code_simp+
  have "json_parse (js ''x}'') = None" by code_simp
  moreover have "js ''%'' \<noteq> []" "js ''x%7D'' \<noteq> []" "js ''x}'' \<noteq> []" by (simp_all add: js_def)
  ultimately show ?thesis
    using getCookie_entry[OF ok(1) token_name, of "js ''%''"] getCookie_entry[OF ok(2) token_name, of "js ''x%7D''"] d
    by (simp add: useAuthStore_def removeCookie_drop[OF token_name] drop_cookie_def)
qed

end
