(* ===== verification/Permissions.thy ===== *)
theory Permissions
  imports Types
begin

section \<open>Who is an administrator (auth/permissions.ts)\<close>

text \<open>\<open>None\<close> stands for \<open>null\<close> and \<open>undefined\<close>; a user always carries a list of roles.\<close>

definition ADMIN_ROLE :: jsstr where "ADMIN_ROLE = js ''admin''"

definition isAdminUser :: "auth_user option \<Rightarrow> bool" where
  "isAdminUser user = (case user of None \<Rightarrow> False | Some u \<Rightarrow> ADMIN_ROLE \<in> set (roles u))"

lemma isAdminUser_None [simp]: "\<not> isAdminUser None"
  by (simp add: isAdminUser_def)

end
