(* ===== verification/Session.thy ===== *)
theory Session
  imports AuthStore ApiClient Api Permissions Texts
begin

section \<open>The session on the wire (api-client.ts, main.tsx, require-admin.ts, routes)\<close>

text \<open>
  The interceptors of the HTTP client, the options of the query client, the guards of the routes and
  the sign-out, over the session store. A handler returns the new state and its effects in order; a
  guard returns the navigation it throws. The theorems: a session that expired is closed once, and
  what the guards let in.
\<close>

subsection \<open>Effects\<close>

record navigation =
  nav_to :: jsstr
  nav_redirect :: "jsstr option"
  nav_replace :: bool

datatype session_effect =
  Toast_error jsstr
| Toast_success jsstr
| Navigate navigation
| SetCurrentUser "auth_user option"

definition goto_plain :: "jsstr \<Rightarrow> navigation" where
  "goto_plain to = \<lparr> nav_to = to, nav_redirect = None, nav_replace = False \<rparr>"

text \<open>The navigations a handler started, in order.\<close>

fun navigations :: "session_effect list \<Rightarrow> navigation list" where
  "navigations [] = []"
| "navigations (Navigate n # es) = n # navigations es"
| "navigations (_ # es) = navigations es"

lemma navigations_append [simp]: "navigations (es @ fs) = navigations es @ navigations fs"
  by (induction es rule: navigations.induct) simp_all

subsection \<open>The interceptors\<close>

definition request_interceptor :: "auth_state \<Rightarrow> (jsstr \<rightharpoonup> jsstr) \<Rightarrow> jsstr \<rightharpoonup> jsstr" where
  "request_interceptor s headers =
     (if accessToken s \<noteq> [] then headers(js ''Authorization'' \<mapsto> js ''Bearer '' @ accessToken s) else headers)"

definition unauthorized :: "js_error \<Rightarrow> bool" where
  "unauthorized e = (case e of AxiosErr m (Some r) \<Rightarrow> jeq (resp_status r) (jint 401) | _ \<Rightarrow> False)"

text \<open>
  The handler of rejected answers: the new state, the effects of the registered handler, if any. The
  error itself is always passed on.
\<close>

definition response_interceptor ::
    "session_effect list option \<Rightarrow> js_error \<Rightarrow> auth_state \<Rightarrow> (uri_error, auth_state \<times> session_effect list) thrown" where
  "response_interceptor unauthorizedHandler e s =
     (if unauthorized e \<and> accessToken s \<noteq> [] then
        (case auth_reset s of
           Inl u \<Rightarrow> Inl u
         | Inr s' \<Rightarrow> Inr (s', case unauthorizedHandler of None \<Rightarrow> [] | Some fx \<Rightarrow> fx))
      else Inr (s, []))"

subsection \<open>The options of the clients (main.tsx)\<close>

text \<open>The build's environment: \<open>import.meta.env.DEV\<close> and \<open>import.meta.env.PROD\<close>.\<close>

record vite_env =
  is_DEV :: bool
  is_PROD :: bool

definition status_or_zero :: "http_response option \<Rightarrow> jsnum" where
  "status_or_zero r = (case r of None \<Rightarrow> jint 0 | Some x \<Rightarrow> resp_status x)"

definition retry_query :: "vite_env \<Rightarrow> jsnum \<Rightarrow> js_error \<Rightarrow> bool" where
  "retry_query env failureCount err =
     (if jle (jint 0) failureCount \<and> is_DEV env then False
      else if jless (jint 3) failureCount \<and> is_PROD env then False
      else \<not> (case err of
          AxiosErr m r \<Rightarrow> jeq (status_or_zero r) (jint 401) \<or> jeq (status_or_zero r) (jint 403)
        | _ \<Rightarrow> False))"

definition staleTime :: jsnum where "staleTime = jint 10 * jint 1000"

definition mutation_onError :: "(js_error \<Rightarrow> jsnum option) \<Rightarrow> js_error \<Rightarrow> session_effect list" where
  "mutation_onError status_of err =
     [Toast_error (handleServerError status_of err)]
     @ (case err of
          AxiosErr m (Some r) \<Rightarrow>
            show_if (jeq (resp_status r) (jint 304)) [Toast_error (js ''Content not modified!'')]
        | _ \<Rightarrow> [])"

definition queryCache_onError :: "vite_env \<Rightarrow> js_error \<Rightarrow> session_effect list" where
  "queryCache_onError env err =
     (case err of
        AxiosErr m (Some r) \<Rightarrow>
          show_if (jeq (resp_status r) (jint 500))
            (Toast_error txt_server_error # show_if (is_PROD env) [Navigate (goto_plain (js ''/500''))])
      | _ \<Rightarrow> [])"

definition to_sign_in :: "jsstr \<Rightarrow> bool \<Rightarrow> navigation" where
  "to_sign_in href replace = \<lparr> nav_to = js ''/sign-in'', nav_redirect = Some href, nav_replace = replace \<rparr>"

definition main_unauthorizedHandler :: "jsstr \<Rightarrow> session_effect list" where
  "main_unauthorizedHandler href = [Toast_error txt_session_expired, Navigate (to_sign_in href True)]"

subsection \<open>Signing out (sign-out-dialog.tsx)\<close>

definition handleSignOut :: "jsstr \<Rightarrow> auth_state \<Rightarrow> (uri_error, auth_state \<times> session_effect list) thrown" where
  "handleSignOut href s =
     (case auth_reset s of
        Inl u \<Rightarrow> Inl u
      | Inr s' \<Rightarrow> Inr (s', [Navigate (to_sign_in href True)]))"

subsection \<open>The guards of the routes\<close>

text \<open>What stops a navigation: the redirect a guard throws, or the error of a request.\<close>

datatype stopped = Redirect navigation | Failed js_error

definition authenticated_beforeLoad :: "jsstr \<Rightarrow> auth_state \<Rightarrow> (stopped, unit) thrown" where
  "authenticated_beforeLoad href s =
     (if accessToken s = [] then Inl (Redirect (to_sign_in href False)) else Inr ())"

text \<open>
  With \<open>staleTime: 0\<close> the query library asks the backend whenever the guard runs, whatever it has cached;
  \<open>fetched\<close> is what that request resolves or rejects with.
\<close>

definition requireAdmin ::
    "(js_error, auth_user option) thrown \<Rightarrow> auth_state \<Rightarrow> auth_state \<times> (stopped, unit) thrown" where
  "requireAdmin fetched s =
     (case fetched of
        Inl e \<Rightarrow> (s, Inl (Failed e))
      | Inr user \<Rightarrow>
          (setUser user s, if \<not> isAdminUser user then Inl (Redirect (goto_plain (js ''/403''))) else Inr ()))"

subsection \<open>Facts about them\<close>

lemma request_interceptor_header:
  "request_interceptor s headers (js ''Authorization'') =
     (if accessToken s = [] then headers (js ''Authorization'') else Some (js ''Bearer '' @ accessToken s))"
  by (simp add: request_interceptor_def)

lemma handleSignOut_ok:
  assumes "jar_ok (auth_jar s)"
  shows "\<exists>s'. handleSignOut href s = Inr (s', [Navigate (to_sign_in href True)]) \<and> mirrored s' \<and>
    accessToken s' = [] \<and> auth_user_of s' = None"
  using auth_reset_ok[OF assms] by (auto simp: handleSignOut_def)

lemma response_interceptor_cases:
  assumes "jar_ok (auth_jar s)"
  shows "\<exists>s'. response_interceptor h e s = Inr (s', if unauthorized e \<and> accessToken s \<noteq> [] then case h of None \<Rightarrow> [] | Some fx \<Rightarrow> fx else [])
    \<and> jar_ok (auth_jar s') \<and> (if unauthorized e \<and> accessToken s \<noteq> [] then accessToken s' = [] \<and> auth_user_of s' = None else s' = s)"
  using auth_reset_ok[OF assms] assms by (auto simp: response_interceptor_def mirrored_def)

subsection \<open>Answers that arrive one after the other\<close>

text \<open>
  Several requests are under way when the session expires; their rejections arrive one by one.
\<close>

fun rejections ::
    "session_effect list \<Rightarrow> js_error list \<Rightarrow> auth_state \<Rightarrow> (uri_error, auth_state \<times> session_effect list) thrown" where
  "rejections h [] s = Inr (s, [])"
| "rejections h (e # es) s =
     (case response_interceptor (Some h) e s of
        Inl u \<Rightarrow> Inl u
      | Inr (s1, fx) \<Rightarrow> (case rejections h es s1 of Inl u \<Rightarrow> Inl u | Inr (s2, gx) \<Rightarrow> Inr (s2, fx @ gx)))"

lemma rejections_signed_out:
  "accessToken s = [] \<Longrightarrow> rejections h es s = Inr (s, [])"
  by (induction es) (simp_all add: response_interceptor_def)

lemma rejections_closed:
  assumes "jar_ok (auth_jar s)" "accessToken s \<noteq> []"
  shows "\<exists>s'. rejections h es s = Inr (s', if \<exists>e \<in> set es. unauthorized e then h else []) \<and>
    (if \<exists>e \<in> set es. unauthorized e then accessToken s' = [] \<and> auth_user_of s' = None else s' = s)"
  using assms
proof (induction es arbitrary: s)
  case (Cons e es)
  obtain s1 where s1: "response_interceptor (Some h) e s = Inr (s1, if unauthorized e then h else [])"
    "if unauthorized e then accessToken s1 = [] \<and> auth_user_of s1 = None else s1 = s"
    using response_interceptor_cases[OF Cons.prems(1), of "Some h" e] Cons.prems(2) by auto
  show ?case
  proof (cases "unauthorized e")
    case True
    then show ?thesis using s1 rejections_signed_out[of s1 h es] by simp
  next
    case False
    then show ?thesis using s1 Cons.IH[OF Cons.prems] by (auto simp: False)
  qed
qed simp

subsection \<open>Properties\<close>

text \<open>
  C31: however many requests of an expired session are rejected, in whatever order and mixed with
  other errors, the session is closed and the user told and sent to the sign-in page exactly once,
  with the page to come back to; without an answer of status 401 nothing happens at all. Closing the
  session also removes its cookie, and a request sent afterwards carries no token.
\<close>

theorem expired_session_closed_once:
  assumes "jar_ok (auth_jar s)" "accessToken s \<noteq> []"
  shows "\<exists>s'. rejections (main_unauthorizedHandler href) es s =
      Inr (s', if \<exists>e \<in> set es. unauthorized e then main_unauthorizedHandler href else []) \<and>
    (if \<exists>e \<in> set es. unauthorized e
     then accessToken s' = [] \<and> auth_user_of s' = None \<and>
       navigations (main_unauthorizedHandler href) = [to_sign_in href True] \<and>
       request_interceptor s' Map.empty (js ''Authorization'') = None
     else s' = s)"
  using rejections_closed[OF assms, of "main_unauthorizedHandler href" es]
  by (auto simp: request_interceptor_header main_unauthorizedHandler_def split: if_splits)

theorem expired_session_closed_once_witness:
  "\<exists>s'. rejections (main_unauthorizedHandler (js ''/orders''))
      [PlainError [], AxiosErr [] (Some \<lparr> resp_status = jint 401, resp_data = None \<rparr>), AxiosErr [] (Some \<lparr> resp_status = jint 401, resp_data = None \<rparr>)]
      \<lparr> auth_user_of = None, accessToken = js ''t'', auth_jar = [] \<rparr> = Inr (s', main_unauthorizedHandler (js ''/orders''))"
proof -
  let ?e = "AxiosErr [] (Some \<lparr> resp_status = jint 401, resp_data = None \<rparr>)"
  have "unauthorized ?e" by (simp add: unauthorized_def)
  moreover have "jar_ok (auth_jar \<lparr> auth_user_of = None, accessToken = js ''t'', auth_jar = [] \<rparr>)" by (simp add: jar_ok_def)
  moreover have "accessToken \<lparr> auth_user_of = None, accessToken = js ''t'', auth_jar = [] \<rparr> \<noteq> []" by (simp add: js_def)
  ultimately show ?thesis
    using expired_session_closed_once[of "\<lparr> auth_user_of = None, accessToken = js ''t'', auth_jar = [] \<rparr>" "js ''/orders''" "[PlainError [], ?e, ?e]"]
    by auto
qed

text \<open>
  The failures after which a query is asked once more: the library calls \<open>retry\<close> with the number of
  failures before this one.
\<close>

definition asked_again :: "vite_env \<Rightarrow> js_error list \<Rightarrow> bool" where
  "asked_again env errs \<longleftrightarrow> (\<forall>i < length errs. retry_query env (jint (int i)) (errs ! i))"

lemma retry_not_refused:
  "retry_query env n (AxiosErr m (Some r)) \<Longrightarrow> resp_status r \<noteq> jint 401 \<and> resp_status r \<noteq> jint 403"
  by (auto simp: retry_query_def status_or_zero_def split: if_splits)

lemma retry_without_answer:
  "\<not> is_DEV env \<Longrightarrow> n \<le> 3 \<Longrightarrow> \<forall>m r. e \<noteq> AxiosErr m (Some r) \<Longrightarrow> retry_query env (jint n) e"
  by (auto simp: retry_query_def status_or_zero_def split: js_error.splits option.splits)

text \<open>
  C33: a query that fails is not asked for ever: in production at most four times more, whatever the
  errors, and in development never; and it is never asked again after an answer of status 401 or 403.
\<close>

theorem retries_end:
  "(is_PROD env \<longrightarrow> asked_again env errs \<longrightarrow> length errs \<le> 4) \<and>
   (is_DEV env \<longrightarrow> asked_again env errs \<longrightarrow> errs = []) \<and>
   (\<forall>m r. asked_again env errs \<longrightarrow> AxiosErr m (Some r) \<in> set errs \<longrightarrow>
      resp_status r \<noteq> jint 401 \<and> resp_status r \<noteq> jint 403) \<and>
   (\<not> is_DEV env \<longrightarrow> length errs \<le> 4 \<longrightarrow> (\<forall>e \<in> set errs. \<forall>m r. e \<noteq> AxiosErr m (Some r)) \<longrightarrow> asked_again env errs)"
proof (intro conjI allI impI)
  assume "is_PROD env" "asked_again env errs"
  then have "\<not> 4 < length errs"
    by (auto simp: asked_again_def retry_query_def dest!: spec[of _ 4] split: if_splits)
  then show "length errs \<le> 4" by simp
next
  assume "is_DEV env" "asked_again env errs"
  then show "errs = []"
    by (cases errs) (auto simp: asked_again_def retry_query_def)
next
  fix m r
  assume a: "asked_again env errs" "AxiosErr m (Some r) \<in> set errs"
  then obtain i where "i < length errs" "errs ! i = AxiosErr m (Some r)" by (auto simp: in_set_conv_nth)
  with a(1) have "retry_query env (jint (int i)) (AxiosErr m (Some r))" unfolding asked_again_def by metis
  from retry_not_refused[OF this] show "resp_status r \<noteq> jint 401" "resp_status r \<noteq> jint 403" by blast+
next
  assume "\<not> is_DEV env" "length errs \<le> 4" "\<forall>e \<in> set errs. \<forall>m r. e \<noteq> AxiosErr m (Some r)"
  then show "asked_again env errs"
    unfolding asked_again_def by (intro allI impI retry_without_answer) auto
qed

theorem retries_end_witness:
  "length [NotAnError, NotAnError] \<le> 4 \<and> asked_again \<lparr> is_DEV = False, is_PROD = True \<rparr> [NotAnError, NotAnError]"
  using retries_end[of "\<lparr> is_DEV = False, is_PROD = True \<rparr>" "[NotAnError, NotAnError]"] by simp

end
