(* ===== verification/Routes.thy ===== *)
theory Routes
  imports Session Jsx
begin

section \<open>The routes, their guards and the error pages (routes, features/errors)\<close>

text \<open>
  The table of the routes with the guards each one runs, outermost first, the resolution of a path,
  and the pages shown for errors. A page's own content is modelled in the page's theory.
\<close>

subsection \<open>The table\<close>

datatype page =
  PgDashboard
| PgOrders
| PgProducts
| PgInventory
| PgStockLogs
| PgOperationLogs
| PgProfile
| PgAccount
| PgAppearance
| PgErrors jsstr
| PgSignIn
| PgSignUp
| Pg401
| Pg403
| Pg404
| Pg500
| Pg503

datatype guard = Authenticated | AdminOnly

text \<open>The routes below \<open>_authenticated\<close> run its guard first; four of them have one of their own.\<close>

fun authenticated_route :: "page \<Rightarrow> bool" where
  "authenticated_route PgSignIn = False"
| "authenticated_route PgSignUp = False"
| "authenticated_route Pg401 = False"
| "authenticated_route Pg403 = False"
| "authenticated_route Pg404 = False"
| "authenticated_route Pg500 = False"
| "authenticated_route Pg503 = False"
| "authenticated_route _ = True"

definition products_guard :: "guard list" where "products_guard = [AdminOnly]"
definition inventory_guard :: "guard list" where "inventory_guard = [AdminOnly]"
definition stock_logs_guard :: "guard list" where "stock_logs_guard = [AdminOnly]"
definition operation_logs_guard :: "guard list" where "operation_logs_guard = [AdminOnly]"

fun own_guards :: "page \<Rightarrow> guard list" where
  "own_guards PgProducts = products_guard"
| "own_guards PgInventory = inventory_guard"
| "own_guards PgStockLogs = stock_logs_guard"
| "own_guards PgOperationLogs = operation_logs_guard"
| "own_guards _ = []"

definition route_guards :: "page \<Rightarrow> guard list" where
  "route_guards p = show_if (authenticated_route p) [Authenticated] @ own_guards p"

fun route_path :: "page \<Rightarrow> jsstr" where
  "route_path PgDashboard = js ''/''"
| "route_path PgOrders = js ''/orders''"
| "route_path PgProducts = js ''/products''"
| "route_path PgInventory = js ''/inventory''"
| "route_path PgStockLogs = js ''/stock-logs''"
| "route_path PgOperationLogs = js ''/operation-logs''"
| "route_path PgProfile = js ''/settings''"
| "route_path PgAccount = js ''/settings/account''"
| "route_path PgAppearance = js ''/settings/appearance''"
| "route_path (PgErrors e) = js ''/errors/'' @ e"
| "route_path PgSignIn = js ''/sign-in''"
| "route_path PgSignUp = js ''/sign-up''"
| "route_path Pg401 = js ''/401''"
| "route_path Pg403 = js ''/403''"
| "route_path Pg404 = js ''/404''"
| "route_path Pg500 = js ''/500''"
| "route_path Pg503 = js ''/503''"

subsection \<open>Entering a route\<close>

definition run_guard ::
    "jsstr \<Rightarrow> (js_error, auth_user option) thrown \<Rightarrow> guard \<Rightarrow> auth_state \<Rightarrow> auth_state \<times> (stopped, unit) thrown" where
  "run_guard href fetched g s =
     (case g of Authenticated \<Rightarrow> (s, authenticated_beforeLoad href s) | AdminOnly \<Rightarrow> requireAdmin fetched s)"

text \<open>The guards run one after the other; the first one that throws stops the navigation.\<close>

fun run_guards ::
    "jsstr \<Rightarrow> (js_error, auth_user option) thrown \<Rightarrow> guard list \<Rightarrow> auth_state \<Rightarrow> auth_state \<times> (stopped, unit) thrown" where
  "run_guards href fetched [] s = (s, Inr ())"
| "run_guards href fetched (g # gs) s =
     (case run_guard href fetched g s of
        (s', Inl x) \<Rightarrow> (s', Inl x)
      | (s', Inr _) \<Rightarrow> run_guards href fetched gs s')"

definition enter_route ::
    "jsstr \<Rightarrow> (js_error, auth_user option) thrown \<Rightarrow> page \<Rightarrow> auth_state \<Rightarrow> auth_state \<times> (stopped, unit) thrown" where
  "enter_route href fetched p s = run_guards href fetched (route_guards p) s"

abbreviation admin_page :: "page \<Rightarrow> bool" where
  "admin_page p \<equiv> p \<in> {PgProducts, PgInventory, PgStockLogs, PgOperationLogs}"

lemmas guard_defs = enter_route_def route_guards_def run_guard_def authenticated_beforeLoad_def
  requireAdmin_def products_guard_def inventory_guard_def stock_logs_guard_def operation_logs_guard_def

lemma enter_public: "\<not> authenticated_route p \<Longrightarrow> enter_route href fetched p s = (s, Inr ())"
  by (cases p) (simp_all add: guard_defs)

lemma enter_signed_out:
  "authenticated_route p \<Longrightarrow> accessToken s = [] \<Longrightarrow>
   enter_route href fetched p s = (s, Inl (Redirect (to_sign_in href False)))"
  by (cases p) (simp_all add: guard_defs)

lemma enter_user_page:
  "authenticated_route p \<Longrightarrow> \<not> admin_page p \<Longrightarrow> accessToken s \<noteq> [] \<Longrightarrow> enter_route href fetched p s = (s, Inr ())"
  by (cases p) (simp_all add: guard_defs)

lemma enter_admin_page:
  "admin_page p \<Longrightarrow> accessToken s \<noteq> [] \<Longrightarrow> enter_route href fetched p s = requireAdmin fetched s"
  by (auto simp: guard_defs setUser_def split: sum.splits)

subsection \<open>Error pages\<close>

datatype error_event = HistoryGo int | GoTo jsstr

definition error_frame :: "error_event node list \<Rightarrow> error_event node" where
  "error_frame kids = El ''div'' [] [El ''div'' [] kids]"

definition ForbiddenError :: "error_event node" where
  "ForbiddenError = error_frame
     [El ''h1'' [] [Txt (js ''403'')],
      El ''span'' [] [Txt (js ''Access Forbidden'')],
      El ''p'' [] [Txt txt_no_permission, El ''br'' [] [], Txt (js ''to view this resource.'')],
      El ''div'' []
        [El ''Button'' [Attr ''variant'' (js ''outline''), OnClick (HistoryGo (- 1))] [Txt (js ''Go Back'')],
         El ''Button'' [OnClick (GoTo (js ''/''))] [Txt (js ''Back to Home'')]]]"

definition UnauthorisedError :: "error_event node" where
  "UnauthorisedError = error_frame
     [El ''h1'' [] [Txt (js ''401'')],
      El ''span'' [] [Txt (js ''Unauthorized Access'')],
      El ''p'' [] [Txt (js ''Please log in with the appropriate credentials ''), El ''br'' [] [],
                   Txt (js '' to access this resource.'')],
      El ''div'' []
        [El ''Button'' [Attr ''variant'' (js ''outline''), OnClick (HistoryGo (- 1))] [Txt (js ''Go Back'')],
         El ''Button'' [OnClick (GoTo (js ''/''))] [Txt (js ''Back to Home'')]]]"

definition NotFoundError :: "error_event node" where
  "NotFoundError = error_frame
     [El ''h1'' [] [Txt (js ''404'')],
      El ''span'' [] [Txt txt_not_found],
      El ''p'' [] [Txt txt_page_missing, El ''br'' [] [], Txt (js ''does not exist or might have been removed.'')],
      El ''div'' []
        [El ''Button'' [Attr ''variant'' (js ''outline''), OnClick (HistoryGo (- 1))] [Txt (js ''Go Back'')],
         El ''Button'' [OnClick (GoTo (js ''/''))] [Txt (js ''Back to Home'')]]]"

definition GeneralError :: "bool \<Rightarrow> error_event node" where
  "GeneralError minimal = error_frame
     (show_if (\<not> minimal) [El ''h1'' [] [Txt (js ''500'')]]
      @ [El ''span'' [] [Txt (txt_went_wrong @ txt_smiley)],
         El ''p'' [] [Txt (js ''We apologize for the inconvenience. ''), El ''br'' [] [], Txt (js '' Please try again later.'')]]
      @ show_if (\<not> minimal)
         [El ''div'' []
           [El ''Button'' [Attr ''variant'' (js ''outline''), OnClick (HistoryGo (- 1))] [Txt (js ''Go Back'')],
            El ''Button'' [OnClick (GoTo (js ''/''))] [Txt (js ''Back to Home'')]]])"

definition MaintenanceError :: "error_event node" where
  "MaintenanceError = error_frame
     [El ''h1'' [] [Txt (js ''503'')],
      El ''span'' [] [Txt (js ''Website is under maintenance!'')],
      El ''p'' [] [Txt (js ''The site is not available at the moment. ''), El ''br'' [] [], Txt txt_back_shortly],
      El ''div'' [] [El ''Button'' [Attr ''variant'' (js ''outline'')] [Txt (js ''Learn more'')]]]"

lemmas error_page_defs = error_frame_def ForbiddenError_def UnauthorisedError_def NotFoundError_def
  GeneralError_def MaintenanceError_def

text \<open>
  The page of \<open>/errors/$error\<close>: the component found in an object literal under the parameter's name.
  Such a lookup also finds the properties every object inherits, which are no components.
\<close>

definition inherited_names :: "jsstr list" where
  "inherited_names = map js
     [''constructor'', ''toString'', ''toLocaleString'', ''valueOf'', ''hasOwnProperty'', ''isPrototypeOf'',
      ''propertyIsEnumerable'', ''__proto__'', ''__defineGetter__'', ''__defineSetter__'', ''__lookupGetter__'',
      ''__lookupSetter__'']"

definition errorMap :: "(jsstr \<times> error_event node) list" where
  "errorMap =
     [(js ''unauthorized'', UnauthorisedError), (js ''forbidden'', ForbiddenError), (js ''not-found'', NotFoundError),
      (js ''internal-server-error'', GeneralError False), (js ''maintenance-error'', MaintenanceError)]"

datatype error_component = Component "error_event node" | InheritedProperty jsstr

definition ErrorComponent :: "jsstr \<Rightarrow> error_component" where
  "ErrorComponent name =
     (case map_of errorMap name of
        Some c \<Rightarrow> Component c
      | None \<Rightarrow> if name \<in> set inherited_names then InheritedProperty name else Component NotFoundError)"

subsection \<open>Properties\<close>

text \<open>
  C29: no page but the sign-in, the sign-up and the plain error pages is entered without a session; an
  administration page only by a user the backend just confirmed to be an administrator, who is then
  the user of the session. Who is turned away goes to the sign-in page, with the place to come back
  to, or to the page that says it is forbidden.
\<close>

theorem guards_protect:
  "(enter_route href fetched p s = (s', Inr ()) \<longrightarrow>
      (authenticated_route p \<longrightarrow> accessToken s \<noteq> []) \<and>
      (admin_page p \<longrightarrow> (\<exists>u. fetched = Inr (Some u) \<and> isAdminUser (Some u) \<and> auth_user_of s' = Some u)) \<and>
      accessToken s' = accessToken s) \<and>
   (enter_route href fetched p s = (s', Inl (Redirect n)) \<longrightarrow>
      n = (if accessToken s = [] then to_sign_in href False else goto_plain (js ''/403'')))"
proof (cases "authenticated_route p")
  case False
  then show ?thesis using enter_public[OF False] by auto
next
  case auth: True
  show ?thesis
  proof (cases "accessToken s = []")
    case True
    then show ?thesis using enter_signed_out[OF auth] by auto
  next
    case False
    then show ?thesis
    proof (cases "admin_page p")
      case True
      from enter_admin_page[OF True False, of href fetched] False show ?thesis
        by (auto simp: requireAdmin_def setUser_def isAdminUser_def split: sum.splits option.splits if_splits)
    next
      case other: False
      from enter_user_page[OF auth other False, of href fetched] False other show ?thesis by auto
    qed
  qed
qed

definition example_admin :: auth_user where
  "example_admin = \<lparr> user_id = jint 1, username = js ''alice'', nickname = [], user_status = jint 1,
     last_login_at = None, roles = [js ''admin''] \<rparr>"

theorem guards_protect_witness:
  "\<exists>s'. enter_route (js ''/products'') (Inr (Some example_admin)) PgProducts
       \<lparr> auth_user_of = None, accessToken = js ''t'', auth_jar = [] \<rparr> = (s', Inr ()) \<and>
     auth_user_of s' = Some example_admin \<and> accessToken s' = js ''t''"
proof -
  let ?s = "\<lparr> auth_user_of = None, accessToken = js ''t'', auth_jar = [] \<rparr>"
  have t: "accessToken ?s \<noteq> []" by (simp add: js_def)
  have a: "isAdminUser (Some example_admin)" by (simp add: isAdminUser_def ADMIN_ROLE_def example_admin_def)
  obtain s' where e: "enter_route (js ''/products'') (Inr (Some example_admin)) PgProducts ?s = (s', Inr ())"
    using enter_admin_page[OF _ t, of PgProducts] a by (simp add: requireAdmin_def)
  from guards_protect[of "js ''/products''" "Inr (Some example_admin)" PgProducts ?s s'] e show ?thesis by auto
qed

text \<open>
  Under \<open>/errors\<close> every name but the five known ones shows the page for a missing page, except the
  names of the properties that every object inherits: for those no component is found to show.
\<close>

theorem error_component_unknown:
  "ErrorComponent name =
     (if name = js ''unauthorized'' then Component UnauthorisedError
      else if name = js ''forbidden'' then Component ForbiddenError
      else if name = js ''not-found'' then Component NotFoundError
      else if name = js ''internal-server-error'' then Component (GeneralError False)
      else if name = js ''maintenance-error'' then Component MaintenanceError
      else if name \<in> set inherited_names then InheritedProperty name else Component NotFoundError) \<and>
   ErrorComponent (js ''constructor'') = InheritedProperty (js ''constructor'')"
proof -
  have "js ''constructor'' \<in> set inherited_names" by (simp add: inherited_names_def)
  moreover have "map_of errorMap (js ''constructor'') = None" by (simp add: errorMap_def) (simp add: js_def)
  ultimately show ?thesis by (simp add: ErrorComponent_def errorMap_def)
qed

end
