(* ===== verification/AuthForms.thy ===== *)
theory AuthForms
  imports Routes ServiceLimits
begin

section \<open>The forms of the account (auth/sign-in, auth/sign-up, settings/account, settings/profile)\<close>

text \<open>
  The schemas of the forms, what submitting sends, and what happens when the answer arrives. A schema
  returns the parsed values, or the list of issues in the order the checks are written; a field shows
  the first issue of its own. Lengths are counted in UTF-16 code units.
\<close>

subsection \<open>Schemas\<close>

type_synonym issues = "(string \<times> jsstr) list"

definition check_min :: "nat \<Rightarrow> jsstr \<Rightarrow> string \<Rightarrow> jsstr \<Rightarrow> issues" where
  "check_min n msg path v = show_if (length v < n) [(path, msg)]"

definition check_max :: "nat \<Rightarrow> jsstr \<Rightarrow> string \<Rightarrow> jsstr \<Rightarrow> issues" where
  "check_max n msg path v = show_if (n < length v) [(path, msg)]"

definition check_that :: "bool \<Rightarrow> jsstr \<Rightarrow> string \<Rightarrow> issues" where
  "check_that ok msg path = show_if (\<not> ok) [(path, msg)]"

lemma checks_empty [simp]:
  "check_min n msg path v = [] \<longleftrightarrow> n \<le> length v"
  "check_max n msg path v = [] \<longleftrightarrow> length v \<le> n"
  "check_that ok msg path = [] \<longleftrightarrow> ok"
  by (auto simp: check_min_def check_max_def check_that_def show_if_def)

definition verdict :: "issues \<Rightarrow> 'v \<Rightarrow> issues + 'v" where
  "verdict is v = (if is = [] then Inr v else Inl is)"

lemma verdict_Inr [simp]: "verdict is v = Inr w \<longleftrightarrow> is = [] \<and> w = v"
  by (auto simp: verdict_def)

text \<open>The message under a field.\<close>

definition field_message :: "issues \<Rightarrow> string \<Rightarrow> jsstr option" where
  "field_message is path = map_of is path"

record credentials =
  cr_username :: jsstr
  cr_password :: jsstr

definition username_checks :: "jsstr \<Rightarrow> issues" where
  "username_checks u = check_min 1 txt_enter_username ''username'' u @ check_min 3 txt_username_short ''username'' u
     @ check_max 64 txt_username_long ''username'' u"

definition password_checks :: "jsstr \<Rightarrow> issues" where
  "password_checks p = check_min 1 txt_enter_password ''password'' p @ check_min 6 txt_password_short ''password'' p
     @ check_max 72 txt_password_long ''password'' p"

definition sign_in_formSchema :: "credentials \<Rightarrow> issues + credentials" where
  "sign_in_formSchema v =
     (let u = trim (cr_username v)
      in verdict (username_checks u @ password_checks (cr_password v)) (v\<lparr>cr_username := u\<rparr>))"

record sign_up_values = credentials +
  su_confirmPassword :: jsstr

definition sign_up_formSchema :: "sign_up_values \<Rightarrow> issues + sign_up_values" where
  "sign_up_formSchema v =
     (let u = trim (cr_username v)
      in verdict
           (username_checks u @ password_checks (cr_password v)
            @ check_min 1 txt_repeat_password ''confirmPassword'' (su_confirmPassword v)
            @ check_that (cr_password v = su_confirmPassword v) txt_passwords_differ ''confirmPassword'')
           (v\<lparr>cr_username := u\<rparr>))"

record account_values =
  ac_oldPassword :: jsstr
  ac_newPassword :: jsstr
  ac_confirmPassword :: jsstr

definition accountFormSchema :: "account_values \<Rightarrow> issues + account_values" where
  "accountFormSchema v =
     verdict
       (check_min 1 txt_enter_old_password ''oldPassword'' (ac_oldPassword v)
        @ check_min 6 txt_new_password_short ''newPassword'' (ac_newPassword v)
        @ check_max 72 txt_new_password_long ''newPassword'' (ac_newPassword v)
        @ check_min 1 txt_repeat_new_password ''confirmPassword'' (ac_confirmPassword v)
        @ check_that (ac_oldPassword v \<noteq> ac_newPassword v) txt_new_password_same ''newPassword''
        @ check_that (ac_newPassword v = ac_confirmPassword v) txt_new_passwords_differ ''confirmPassword'') v"

definition profileFormSchema :: "jsstr \<Rightarrow> issues + jsstr" where
  "profileFormSchema v =
     (let n = trim v
      in verdict (check_min 1 txt_enter_nickname ''nickname'' n @ check_max 64 txt_nickname_long ''nickname'' n) n)"

subsection \<open>A form's state\<close>

text \<open>The values typed, the messages shown, and whether an answer is awaited.\<close>

record 'v form_state =
  fs_values :: 'v
  fs_errors :: issues
  fs_busy :: bool

text \<open>
  \<open>form.handleSubmit(onSubmit)\<close> up to the call of the API: with the values the schema parsed, or not
  at all.
\<close>

definition handleSubmit ::
    "('v \<Rightarrow> issues + 'v) \<Rightarrow> ('v \<Rightarrow> request) \<Rightarrow> 'v form_state \<Rightarrow> 'v form_state \<times> request option" where
  "handleSubmit schema send s =
     (case schema (fs_values s) of
        Inl is \<Rightarrow> (s\<lparr>fs_errors := is\<rparr>, None)
      | Inr data \<Rightarrow> (s\<lparr>fs_errors := [], fs_busy := True\<rparr>, Some (send data)))"

definition form_reset :: "'v \<Rightarrow> 'v form_state \<Rightarrow> 'v form_state" where
  "form_reset v s = s\<lparr>fs_values := v, fs_errors := []\<rparr>"

lemma handleSubmit_sends:
  "handleSubmit schema send s = (s', Some r) \<longleftrightarrow>
     (\<exists>d. schema (fs_values s) = Inr d \<and> r = send d \<and> s' = s\<lparr>fs_errors := [], fs_busy := True\<rparr>)"
  by (auto simp: handleSubmit_def split: sum.splits)

subsection \<open>Sign-in (user-auth-form.tsx)\<close>

definition sign_in_submit :: "credentials form_state \<Rightarrow> credentials form_state \<times> request option" where
  "sign_in_submit s = handleSubmit sign_in_formSchema (\<lambda>d. authApi_login (cr_username d) (cr_password d)) s"

definition welcome_text :: "auth_user \<Rightarrow> jsstr" where
  "welcome_text u = txt_welcome @ (if nickname u \<noteq> [] then nickname u else username u)"

text \<open>
  The answer: \<open>None\<close> is a result without data, reading its user throws a \<open>TypeError\<close> with the
  engine's message. The form is ready again in every case.
\<close>

definition sign_in_settled ::
    "bool \<Rightarrow> jsstr option \<Rightarrow> jsstr \<Rightarrow> (js_error, login_result option) thrown \<Rightarrow>
      credentials form_state \<times> auth_state \<Rightarrow> (credentials form_state \<times> auth_state) \<times> session_effect list" where
  "sign_in_settled https redirectTo engine_message answer st =
     (let (s, a) = st;
          (a', fx) =
            (case answer of
               Inl e \<Rightarrow> (a, [Toast_error (getErrorMessage e)])
             | Inr None \<Rightarrow> (a, [Toast_error (getErrorMessage (PlainError engine_message))])
             | Inr (Some session) \<Rightarrow>
                 (let a1 = setUser (Some (login_user session)) a
                  in case setAccessToken https (access_token session) a1 of
                       Inl u \<Rightarrow> (a1, [SetCurrentUser (Some (login_user session)), Toast_error (getErrorMessage (PlainError engine_message))])
                     | Inr a2 \<Rightarrow>
                         (a2, [SetCurrentUser (Some (login_user session)), Toast_success (welcome_text (login_user session)),
                               Navigate \<lparr> nav_to = (case redirectTo of None \<Rightarrow> js ''/'' | Some r \<Rightarrow> if r = [] then js ''/'' else r),
                                          nav_redirect = None, nav_replace = True \<rparr>])))
      in ((s\<lparr>fs_busy := False\<rparr>, a'), fx))"

subsection \<open>Sign-up (sign-up-form.tsx)\<close>

definition sign_up_submit :: "sign_up_values form_state \<Rightarrow> sign_up_values form_state \<times> request option" where
  "sign_up_submit s = handleSubmit sign_up_formSchema (\<lambda>d. authApi_register (cr_username d) (cr_password d)) s"

definition sign_up_settled ::
    "(js_error, unit option) thrown \<Rightarrow> sign_up_values form_state \<Rightarrow> sign_up_values form_state \<times> session_effect list" where
  "sign_up_settled answer s =
     (s\<lparr>fs_busy := False\<rparr>,
      case answer of
        Inl e \<Rightarrow> [Toast_error (getErrorMessage e)]
      | Inr _ \<Rightarrow> [Toast_success txt_account_created,
                  Navigate \<lparr> nav_to = js ''/sign-in'', nav_redirect = None, nav_replace = True \<rparr>])"

subsection \<open>Password (account-form.tsx)\<close>

definition blank_account :: account_values where
  "blank_account = \<lparr> ac_oldPassword = [], ac_newPassword = [], ac_confirmPassword = [] \<rparr>"

definition account_submit :: "account_values form_state \<Rightarrow> account_values form_state \<times> request option" where
  "account_submit s = handleSubmit accountFormSchema (\<lambda>d. authApi_updatePassword (ac_oldPassword d) (ac_newPassword d)) s"

definition account_settled ::
    "(js_error, unit option) thrown \<Rightarrow> account_values form_state \<Rightarrow> account_values form_state \<times> session_effect list" where
  "account_settled answer s =
     (case answer of
        Inl e \<Rightarrow> (s\<lparr>fs_busy := False\<rparr>, [Toast_error (getErrorMessage e)])
      | Inr _ \<Rightarrow> ((form_reset blank_account s)\<lparr>fs_busy := False\<rparr>, [Toast_success txt_password_changed]))"

subsection \<open>Nickname (profile-form.tsx)\<close>

definition initial_nickname :: "auth_user option \<Rightarrow> jsstr" where
  "initial_nickname user = (case user of None \<Rightarrow> [] | Some u \<Rightarrow> nickname u)"

text \<open>The effect run when the fetched profile changes.\<close>

definition profile_effect :: "auth_user option \<Rightarrow> jsstr form_state \<times> auth_state \<Rightarrow> jsstr form_state \<times> auth_state" where
  "profile_effect fetched st =
     (case fetched of
        None \<Rightarrow> st
      | Some u \<Rightarrow> (form_reset (nickname u) (fst st), setUser (Some u) (snd st)))"

definition profile_submit :: "jsstr form_state \<Rightarrow> jsstr form_state \<times> request option" where
  "profile_submit s = handleSubmit profileFormSchema authApi_updateProfile s"

text \<open>\<open>sent\<close> is the nickname the request carried; \<open>fetched\<close> and the store's user are those of its submission.\<close>

definition profile_settled ::
    "jsstr \<Rightarrow> auth_user option \<Rightarrow> auth_user option \<Rightarrow> (js_error, unit option) thrown \<Rightarrow>
      jsstr form_state \<times> auth_state \<Rightarrow> (jsstr form_state \<times> auth_state) \<times> session_effect list" where
  "profile_settled sent fetched user answer st =
     (let (s, a) = st
      in case answer of
           Inl e \<Rightarrow> ((s\<lparr>fs_busy := False\<rparr>, a), [Toast_error (getErrorMessage e)])
         | Inr _ \<Rightarrow>
             (case (case fetched of None \<Rightarrow> user | Some u \<Rightarrow> Some u) of
                None \<Rightarrow> ((s\<lparr>fs_busy := False\<rparr>, a), [Toast_success txt_profile_updated])
              | Some currentUser \<Rightarrow>
                  (let updatedUser = currentUser\<lparr>nickname := sent\<rparr>
                   in (((form_reset sent s)\<lparr>fs_busy := False\<rparr>, setUser (Some updatedUser) a),
                       [SetCurrentUser (Some updatedUser), Toast_success txt_profile_updated]))))"

subsection \<open>The forms as rendered\<close>

datatype form_event = TypeField string jsstr | TogglePassword string | SubmitForm

text \<open>
  The password field (password-input.tsx) with the button that shows or hides it; \<open>visible\<close> lists the
  fields whose password is shown.
\<close>

definition toggle_visible :: "string \<Rightarrow> string list \<Rightarrow> string list" where
  "toggle_visible path visible = (if path \<in> set visible then removeAll path visible else path # visible)"

definition PasswordInput :: "string \<Rightarrow> string list \<Rightarrow> bool \<Rightarrow> form_event attr list \<Rightarrow> form_event node" where
  "PasswordInput path visible disabled props =
     (let showPassword = path \<in> set visible
      in El ''div'' []
        [El ''input'' ([Attr ''type'' (if showPassword then js ''text'' else js ''password''), Disabled disabled] @ props) [],
         El ''Button'' [TypeButton, Disabled disabled, OnClick (TogglePassword path)]
           [El (if showPassword then ''Eye'' else ''EyeOff'') [] [],
            El ''span'' [] [Txt (if showPassword then js ''Hide password'' else js ''Show password'')]]])"

definition form_field :: "issues \<Rightarrow> string \<Rightarrow> jsstr \<Rightarrow> form_event node \<Rightarrow> form_event node list \<Rightarrow> form_event node" where
  "form_field errs path label control descr =
     El ''FormItem'' []
       ([El ''FormLabel'' [] [Txt label], El ''FormControl'' [] [control]] @ descr
        @ (case field_message errs path of None \<Rightarrow> [] | Some m \<Rightarrow> [El ''FormMessage'' [] [Txt m]]))"

definition FormDescription :: "jsstr \<Rightarrow> form_event node" where
  "FormDescription t = El ''FormDescription'' [] [Txt t]"

definition UserAuthForm :: "string list \<Rightarrow> credentials form_state \<Rightarrow> form_event node" where
  "UserAuthForm visible s =
     El ''form'' [OnSubmit SubmitForm]
       [form_field (fs_errors s) ''username'' txt_username_label
          (El ''Input'' [Attr ''autoComplete'' (js ''username''), Attr ''placeholder'' (js ''alice''),
             Val (cr_username (fs_values s)), OnChange (TypeField ''username'')] []) [],
        form_field (fs_errors s) ''password'' txt_password_label
          (PasswordInput ''password'' visible False
             [Attr ''autoComplete'' (js ''current-password''), Attr ''placeholder'' (js ''********''),
              Val (cr_password (fs_values s)), OnChange (TypeField ''password'')]) [],
        El ''Button'' [Disabled (fs_busy s)]
          [El (if fs_busy s then ''Loader2'' else ''LogIn'') [] [], Txt txt_sign_in]]"

definition SignUpForm :: "string list \<Rightarrow> sign_up_values form_state \<Rightarrow> form_event node" where
  "SignUpForm visible s =
     El ''form'' [OnSubmit SubmitForm]
       [form_field (fs_errors s) ''username'' txt_username_label
          (El ''Input'' [Attr ''autoComplete'' (js ''username''), Attr ''placeholder'' (js ''alice''),
             Val (cr_username (fs_values s)), OnChange (TypeField ''username'')] []) [],
        form_field (fs_errors s) ''password'' txt_password_label
          (PasswordInput ''password'' visible False
             [Attr ''autoComplete'' (js ''new-password''), Attr ''placeholder'' (js ''********''),
              Val (cr_password (fs_values s)), OnChange (TypeField ''password'')]) [],
        form_field (fs_errors s) ''confirmPassword'' txt_confirm_password_label
          (PasswordInput ''confirmPassword'' visible False
             [Attr ''autoComplete'' (js ''new-password''), Attr ''placeholder'' (js ''********''),
              Val (su_confirmPassword (fs_values s)), OnChange (TypeField ''confirmPassword'')]) [],
        El ''Button'' [Disabled (fs_busy s)]
          [El (if fs_busy s then ''Loader2'' else ''UserPlus'') [] [], Txt txt_create_account]]"

definition AccountForm :: "string list \<Rightarrow> account_values form_state \<Rightarrow> form_event node" where
  "AccountForm visible s =
     El ''form'' [OnSubmit SubmitForm]
       [form_field (fs_errors s) ''oldPassword'' txt_old_password_label
          (PasswordInput ''oldPassword'' visible (fs_busy s)
             [Attr ''autoComplete'' (js ''current-password''), Val (ac_oldPassword (fs_values s)), OnChange (TypeField ''oldPassword'')])
          [FormDescription txt_old_password_desc],
        form_field (fs_errors s) ''newPassword'' txt_new_password_label
          (PasswordInput ''newPassword'' visible (fs_busy s)
             [Attr ''autoComplete'' (js ''new-password''), Val (ac_newPassword (fs_values s)), OnChange (TypeField ''newPassword'')])
          [FormDescription txt_new_password_desc],
        form_field (fs_errors s) ''confirmPassword'' txt_confirm_new_password_label
          (PasswordInput ''confirmPassword'' visible (fs_busy s)
             [Attr ''autoComplete'' (js ''new-password''), Val (ac_confirmPassword (fs_values s)), OnChange (TypeField ''confirmPassword'')])
          [],
        El ''Button'' [TypeSubmit, Disabled (fs_busy s)] [Txt txt_change_password]]"

definition ProfileForm :: "bool \<Rightarrow> jsstr form_state \<Rightarrow> form_event node" where
  "ProfileForm isPending s =
     El ''form'' [OnSubmit SubmitForm]
       [form_field (fs_errors s) ''nickname'' txt_nickname_label
          (El ''Input'' [Attr ''placeholder'' txt_enter_nickname, Disabled (isPending \<or> fs_busy s), Val (fs_values s),
             OnChange (TypeField ''nickname'')] [])
          [FormDescription txt_nickname_desc],
        El ''Button'' [TypeSubmit, Disabled (isPending \<or> fs_busy s)] [Txt txt_save_profile]]"

text \<open>The pages around the forms.\<close>

definition AuthLayout :: "form_event node list \<Rightarrow> form_event node" where
  "AuthLayout children =
     El ''div'' [] [El ''div'' [] (El ''div'' [] [El ''Logo'' [] [], El ''h1'' [] [Txt txt_auth_title]] # children)]"

definition SignIn :: "string list \<Rightarrow> credentials form_state \<Rightarrow> form_event node" where
  "SignIn visible s =
     AuthLayout
       [El ''Card'' []
         [El ''CardHeader'' []
            [El ''CardTitle'' [] [Txt txt_sign_in],
             El ''CardDescription'' []
               [Txt txt_sign_in_desc, Txt (js '' ''), El ''Link'' [Attr ''to'' (js ''/sign-up'')] [Txt txt_register_now]]],
          El ''CardContent'' [] [UserAuthForm visible s]]]"

definition SignUp :: "string list \<Rightarrow> sign_up_values form_state \<Rightarrow> form_event node" where
  "SignUp visible s =
     AuthLayout
       [El ''Card'' []
         [El ''CardHeader'' []
            [El ''CardTitle'' [] [Txt txt_create_account],
             El ''CardDescription'' []
               [Txt txt_create_account_desc, Txt (js '' ''), El ''Link'' [Attr ''to'' (js ''/sign-in'')] [Txt txt_sign_in_now]]],
          El ''CardContent'' [] [SignUpForm visible s]]]"

definition ContentSection :: "jsstr \<Rightarrow> jsstr \<Rightarrow> 'e node \<Rightarrow> 'e node" where
  "ContentSection title descr child =
     El ''div'' []
       [El ''div'' [] [El ''h3'' [] [Txt title], El ''p'' [] [Txt descr]], El ''Separator'' [] [], El ''div'' [] [El ''div'' [] [child]]]"

definition SettingsAccount :: "string list \<Rightarrow> account_values form_state \<Rightarrow> form_event node" where
  "SettingsAccount visible s = ContentSection txt_account_security txt_account_desc (AccountForm visible s)"

definition SettingsProfile :: "bool \<Rightarrow> jsstr form_state \<Rightarrow> form_event node" where
  "SettingsProfile isPending s = ContentSection txt_profile txt_profile_desc (ProfileForm isPending s)"

lemmas form_views = UserAuthForm_def SignUpForm_def AccountForm_def ProfileForm_def form_field_def PasswordInput_def
  FormDescription_def

subsection \<open>A form is not sent twice\<close>

text \<open>
  While an answer is awaited none of the four forms can be submitted again; before and after, each
  of them can.
\<close>

theorem forms_sent_once:
  "(offers (UserAuthForm visible s1) SubmitForm \<longleftrightarrow> \<not> fs_busy s1) \<and>
   (offers (SignUpForm visible s2) SubmitForm \<longleftrightarrow> \<not> fs_busy s2) \<and>
   (offers (AccountForm visible s3) SubmitForm \<longleftrightarrow> \<not> fs_busy s3) \<and>
   (offers (ProfileForm False s4) SubmitForm \<longleftrightarrow> \<not> fs_busy s4)"
  by (auto simp: form_views offers_El Let_def split: option.splits)

subsection \<open>What is sent\<close>

lemma credential_checks [simp]:
  "username_checks u = [] \<longleftrightarrow> 3 \<le> length u \<and> length u \<le> 64"
  "password_checks p = [] \<longleftrightarrow> 6 \<le> length p \<and> length p \<le> 72"
  by (auto simp: username_checks_def password_checks_def)

text \<open>
  Each form sends exactly when its fields keep their limits, and then what was typed: the user name
  and the nickname trimmed, passwords as they are; a new password differs from the old one and both
  entries of it agree.
\<close>

theorem forms_send_exactly:
  "((\<exists>s'. sign_in_submit s1 = (s', Some r)) \<longleftrightarrow>
      3 \<le> length (trim (cr_username (fs_values s1))) \<and> length (trim (cr_username (fs_values s1))) \<le> 64 \<and>
      6 \<le> length (cr_password (fs_values s1)) \<and> length (cr_password (fs_values s1)) \<le> 72 \<and>
      r = authApi_login (trim (cr_username (fs_values s1))) (cr_password (fs_values s1))) \<and>
   ((\<exists>s'. sign_up_submit s2 = (s', Some r)) \<longleftrightarrow>
      3 \<le> length (trim (cr_username (fs_values s2))) \<and> length (trim (cr_username (fs_values s2))) \<le> 64 \<and>
      6 \<le> length (cr_password (fs_values s2)) \<and> length (cr_password (fs_values s2)) \<le> 72 \<and>
      cr_password (fs_values s2) = su_confirmPassword (fs_values s2) \<and>
      r = authApi_register (trim (cr_username (fs_values s2))) (cr_password (fs_values s2))) \<and>
   ((\<exists>s'. account_submit s3 = (s', Some r)) \<longleftrightarrow>
      ac_oldPassword (fs_values s3) \<noteq> [] \<and>
      6 \<le> length (ac_newPassword (fs_values s3)) \<and> length (ac_newPassword (fs_values s3)) \<le> 72 \<and>
      ac_oldPassword (fs_values s3) \<noteq> ac_newPassword (fs_values s3) \<and>
      ac_newPassword (fs_values s3) = ac_confirmPassword (fs_values s3) \<and>
      r = authApi_updatePassword (ac_oldPassword (fs_values s3)) (ac_newPassword (fs_values s3))) \<and>
   ((\<exists>s'. profile_submit s4 = (s', Some r)) \<longleftrightarrow>
      trim (fs_values s4) \<noteq> [] \<and> length (trim (fs_values s4)) \<le> 64 \<and> r = authApi_updateProfile (trim (fs_values s4)))"
proof (intro conjI)
  show "(\<exists>s'. sign_in_submit s1 = (s', Some r)) \<longleftrightarrow>
      3 \<le> length (trim (cr_username (fs_values s1))) \<and> length (trim (cr_username (fs_values s1))) \<le> 64 \<and>
      6 \<le> length (cr_password (fs_values s1)) \<and> length (cr_password (fs_values s1)) \<le> 72 \<and>
      r = authApi_login (trim (cr_username (fs_values s1))) (cr_password (fs_values s1))"
    by (auto simp: sign_in_submit_def handleSubmit_sends sign_in_formSchema_def Let_def)
  show "(\<exists>s'. sign_up_submit s2 = (s', Some r)) \<longleftrightarrow>
      3 \<le> length (trim (cr_username (fs_values s2))) \<and> length (trim (cr_username (fs_values s2))) \<le> 64 \<and>
      6 \<le> length (cr_password (fs_values s2)) \<and> length (cr_password (fs_values s2)) \<le> 72 \<and>
      cr_password (fs_values s2) = su_confirmPassword (fs_values s2) \<and>
      r = authApi_register (trim (cr_username (fs_values s2))) (cr_password (fs_values s2))"
    by (auto simp: sign_up_submit_def handleSubmit_sends sign_up_formSchema_def Let_def)
  show "(\<exists>s'. account_submit s3 = (s', Some r)) \<longleftrightarrow>
      ac_oldPassword (fs_values s3) \<noteq> [] \<and>
      6 \<le> length (ac_newPassword (fs_values s3)) \<and> length (ac_newPassword (fs_values s3)) \<le> 72 \<and>
      ac_oldPassword (fs_values s3) \<noteq> ac_newPassword (fs_values s3) \<and>
      ac_newPassword (fs_values s3) = ac_confirmPassword (fs_values s3) \<and>
      r = authApi_updatePassword (ac_oldPassword (fs_values s3)) (ac_newPassword (fs_values s3))"
    by (auto simp: account_submit_def handleSubmit_sends accountFormSchema_def Suc_le_eq)
  show "(\<exists>s'. profile_submit s4 = (s', Some r)) \<longleftrightarrow>
      trim (fs_values s4) \<noteq> [] \<and> length (trim (fs_values s4)) \<le> 64 \<and> r = authApi_updateProfile (trim (fs_values s4))"
    by (auto simp: profile_submit_def handleSubmit_sends profileFormSchema_def Let_def Suc_le_eq)
qed

subsection \<open>When the answer arrives\<close>

text \<open>
  Whatever the answer, a form is ready again afterwards; an error leaves the session as it was,
  keeps what was typed, goes nowhere and shows one message, the one of the error.
\<close>

theorem form_errors_recover:
  "sign_in_settled https redirectTo m (Inl e) (s1, a) = ((s1\<lparr>fs_busy := False\<rparr>, a), [Toast_error (getErrorMessage e)]) \<and>
   sign_up_settled (Inl e) s2 = (s2\<lparr>fs_busy := False\<rparr>, [Toast_error (getErrorMessage e)]) \<and>
   account_settled (Inl e) s3 = (s3\<lparr>fs_busy := False\<rparr>, [Toast_error (getErrorMessage e)]) \<and>
   profile_settled sent fetched user (Inl e) (s4, a) = ((s4\<lparr>fs_busy := False\<rparr>, a), [Toast_error (getErrorMessage e)]) \<and>
   \<not> fs_busy (fst (fst (sign_in_settled https redirectTo m answer1 (s1, a)))) \<and>
   \<not> fs_busy (fst (sign_up_settled answer2 s2)) \<and> \<not> fs_busy (fst (account_settled answer2 s3)) \<and>
   \<not> fs_busy (fst (fst (profile_settled sent fetched user answer2 (s4, a))))"
  by (auto simp: sign_in_settled_def sign_up_settled_def account_settled_def profile_settled_def Let_def
      split: sum.splits option.splits prod.splits)

text \<open>
  C30: who asks for a page without a session is brought back to it: the guard's redirect carries the
  page's address to the sign-in form, a successful sign-in stores the user and the token and goes to
  that address, once, and the guards then let the user in, to an administration page if the user is
  an administrator.
\<close>

theorem sign_in_returns_to_page:
  assumes "enter_route href fetched p s = (s1, Inl (Redirect n))" "accessToken s = []" "href \<noteq> []"
    and "access_token l \<noteq> []"
  shows "\<exists>f' s2 fx. sign_in_settled https (nav_redirect n) m (Inr (Some l)) (f, s1) = ((f', s2), fx) \<and>
    navigations fx = [\<lparr> nav_to = href, nav_redirect = None, nav_replace = True \<rparr>] \<and>
    auth_user_of s2 = Some (login_user l) \<and> accessToken s2 = access_token l \<and>
    (\<not> admin_page p \<or> isAdminUser (Some (login_user l)) \<longrightarrow>
      snd (enter_route href (Inr (Some (login_user l))) p s2) = Inr ())"
proof -
  have p: "authenticated_route p" using assms(1) enter_public[of p href fetched s] by (cases "authenticated_route p") auto
  then have n: "s1 = s" "nav_redirect n = Some href"
    using assms(1) enter_signed_out[OF p assms(2), of href fetched] by (auto simp: to_sign_in_def)
  obtain s2 where s2: "setAccessToken https (access_token l) (setUser (Some (login_user l)) s) = Inr s2"
    "accessToken s2 = access_token l" using setAccessToken_total by blast
  then have u: "auth_user_of s2 = Some (login_user l)"
    by (auto simp: setAccessToken_def setUser_def split: sum.splits)
  have t: "accessToken s2 \<noteq> []" using s2(2) assms(4) by simp
  have "snd (enter_route href (Inr (Some (login_user l))) p s2) = Inr ()"
    if "\<not> admin_page p \<or> isAdminUser (Some (login_user l))"
  proof (cases "admin_page p")
    case True
    then show ?thesis using enter_admin_page[OF True t] that by (simp add: requireAdmin_def)
  next
    case False
    then show ?thesis using enter_user_page[OF p False t] by simp
  qed
  then show ?thesis using s2 u assms(3) by (simp add: sign_in_settled_def n)
qed

theorem sign_in_returns_to_page_witness:
  "\<exists>f' s2 fx. sign_in_settled True (Some (js ''/products'')) [] (Inr (Some \<lparr> access_token = js ''t'', login_user = example_admin \<rparr>))
      (\<lparr> fs_values = \<lparr> cr_username = [], cr_password = [] \<rparr>, fs_errors = [], fs_busy = True \<rparr>,
       \<lparr> auth_user_of = None, accessToken = [], auth_jar = [] \<rparr>) = ((f', s2), fx) \<and>
    navigations fx = [\<lparr> nav_to = js ''/products'', nav_redirect = None, nav_replace = True \<rparr>]"
proof -
  let ?s = "\<lparr> auth_user_of = None, accessToken = [], auth_jar = [] \<rparr>"
  have "enter_route (js ''/products'') (Inl NotAnError) PgProducts ?s = (?s, Inl (Redirect (to_sign_in (js ''/products'') False)))"
    by (rule enter_signed_out) simp_all
  from sign_in_returns_to_page[OF this, of "\<lparr> access_token = js ''t'', login_user = example_admin \<rparr>" True "[]"
      "\<lparr> fs_values = \<lparr> cr_username = [], cr_password = [] \<rparr>, fs_errors = [], fs_busy = True \<rparr>"]
  have "\<exists>f' s2 fx. sign_in_settled True (nav_redirect (to_sign_in (js ''/products'') False)) []
      (Inr (Some \<lparr> access_token = js ''t'', login_user = example_admin \<rparr>))
      (\<lparr> fs_values = \<lparr> cr_username = [], cr_password = [] \<rparr>, fs_errors = [], fs_busy = True \<rparr>, ?s) = ((f', s2), fx) \<and>
    navigations fx = [\<lparr> nav_to = js ''/products'', nav_redirect = None, nav_replace = True \<rparr>]"
    by (auto simp: js_def)
  then show ?thesis by (simp add: to_sign_in_def)
qed

subsection \<open>The limits of the backend\<close>

definition ascii :: "jsstr \<Rightarrow> bool" where
  "ascii s \<longleftrightarrow> (\<forall>u \<in> set s. u < 0x80)"

lemma ascii_unit: "u < (0x80 :: unit16) \<Longrightarrow> \<not> high_surrogate u \<and> \<not> low_surrogate u \<and> length (utf8_point (uint u)) = 1"
  by (simp add: high_surrogate_def low_surrogate_def utf8_point_def utf8_numbers_def word_le_def word_less_def)

lemma go_len_ascii: "ascii s \<Longrightarrow> go_len s = length s"
  unfolding go_len_def
proof (induction s)
  case (Cons u s)
  then have "u < 0x80" "ascii s" by (simp_all add: ascii_def)
  then show ?case using Cons.IH ascii_unit[of u] by (simp add: utf8_cons)
qed simp

lemma space_ascii: "u < 0x80 \<Longrightarrow> go_space u = is_ws u"
  by (auto simp: go_space_def is_ws_def word_le_def word_less_def)

lemma go_trim_ascii: "ascii s \<Longrightarrow> go_trim s = trim s"
proof -
  assume a: "ascii s"
  have "dropWhile go_space xs = dropWhile is_ws xs" if "\<forall>u \<in> set xs. u < 0x80" for xs
    using that space_ascii by (induction xs) auto
  moreover have "\<forall>u \<in> set (rev (dropWhile is_ws s)). u < 0x80" using a set_dropWhileD by (fastforce simp: ascii_def)
  ultimately show ?thesis using a by (simp add: go_trim_def trim_def ascii_def)
qed

lemma ascii_trim: "ascii s \<Longrightarrow> ascii (trim s)"
  by (auto simp: ascii_def trim_def dest!: set_dropWhileD)

definition filled_form :: "'v \<Rightarrow> 'v form_state" where
  "filled_form v = \<lparr> fs_values = v, fs_errors = [], fs_busy = False \<rparr>"

text \<open>
  C36: on ASCII texts the sign-up form sends a request exactly when both passwords agree and the backend's
  checks accept the account, and that request is the registration of the trimmed name with the password as
  typed, for which the backend stores the very name that was sent. On other texts they disagree: the forms
  count UTF-16 units, the backend bytes, so 22 Chinese characters are sent as a name or as a nickname and 25
  as a new password, and each is refused.
\<close>

theorem account_limits:
  assumes "ascii (cr_username (fs_values s))" "ascii (cr_password (fs_values s))"
  shows "((\<exists>s'. sign_up_submit s = (s', Some r)) \<longleftrightarrow>
      cr_password (fs_values s) = su_confirmPassword (fs_values s) \<and>
      service_Register (cr_username (fs_values s)) (cr_password (fs_values s)) = Inr (trim (cr_username (fs_values s))) \<and>
      r = authApi_register (trim (cr_username (fs_values s))) (cr_password (fs_values s))) \<and>
    service_Register (trim (cr_username (fs_values s))) (cr_password (fs_values s)) =
      service_Register (cr_username (fs_values s)) (cr_password (fs_values s)) \<and>
    snd (sign_up_submit (filled_form \<lparr> cr_username = chinese 22, cr_password = js ''123456'', su_confirmPassword = js ''123456'' \<rparr>)) =
      Some (authApi_register (chinese 22) (js ''123456'')) \<and>
    service_Register (chinese 22) (js ''123456'') = Inl ErrUsernameInvalid \<and>
    snd (account_submit (filled_form \<lparr> ac_oldPassword = js ''123456'', ac_newPassword = chinese 25, ac_confirmPassword = chinese 25 \<rparr>)) =
      Some (authApi_updatePassword (js ''123456'') (chinese 25)) \<and>
    service_validatePassword (chinese 25) = Inl ErrPasswordInvalid \<and>
    snd (profile_submit (filled_form (chinese 22))) = Some (authApi_updateProfile (chinese 22)) \<and>
    service_UpdateNickname (chinese 22) = Inl ErrNicknameInvalid"
proof -
  have t: "go_trim (cr_username (fs_values s)) = trim (cr_username (fs_values s))"
    "go_trim (trim (cr_username (fs_values s))) = trim (cr_username (fs_values s))"
    "go_len (trim (cr_username (fs_values s))) = length (trim (cr_username (fs_values s)))"
    "go_len (cr_password (fs_values s)) = length (cr_password (fs_values s))"
    using assms go_trim_ascii[OF ascii_trim[OF assms(1)]] by (simp_all add: go_trim_ascii go_len_ascii ascii_trim)
  have "(\<exists>s'. sign_up_submit s = (s', Some r)) \<longleftrightarrow>
      cr_password (fs_values s) = su_confirmPassword (fs_values s) \<and>
      service_Register (cr_username (fs_values s)) (cr_password (fs_values s)) = Inr (trim (cr_username (fs_values s))) \<and>
      r = authApi_register (trim (cr_username (fs_values s))) (cr_password (fs_values s))"
    by (auto simp: sign_up_submit_def handleSubmit_sends sign_up_formSchema_def service_Register_def
        service_validatePassword_def t Let_def)
  moreover have "service_Register (trim (cr_username (fs_values s))) (cr_password (fs_values s)) =
      service_Register (cr_username (fs_values s)) (cr_password (fs_values s))"
    by (simp add: service_Register_def t Let_def)
  moreover have ne: "js ''123456'' \<noteq> chinese 25" "js ''123456'' \<noteq> []" "length (js ''123456'') = 6" "chinese 22 \<noteq> []"
    by (simp_all add: js_def chinese_def numeral_eq_Suc)
  moreover have "sign_up_formSchema \<lparr> cr_username = chinese 22, cr_password = js ''123456'', su_confirmPassword = js ''123456'' \<rparr> =
      Inr \<lparr> cr_username = chinese 22, cr_password = js ''123456'', su_confirmPassword = js ''123456'' \<rparr>"
    using ne by (simp add: sign_up_formSchema_def Let_def)
  then have "snd (sign_up_submit (filled_form \<lparr> cr_username = chinese 22, cr_password = js ''123456'', su_confirmPassword = js ''123456'' \<rparr>)) =
      Some (authApi_register (chinese 22) (js ''123456''))"
    by (simp add: sign_up_submit_def handleSubmit_def filled_form_def)
  moreover have "accountFormSchema \<lparr> ac_oldPassword = js ''123456'', ac_newPassword = chinese 25, ac_confirmPassword = chinese 25 \<rparr> =
      Inr \<lparr> ac_oldPassword = js ''123456'', ac_newPassword = chinese 25, ac_confirmPassword = chinese 25 \<rparr>"
    using ne by (simp add: accountFormSchema_def)
  then have "snd (account_submit (filled_form \<lparr> ac_oldPassword = js ''123456'', ac_newPassword = chinese 25, ac_confirmPassword = chinese 25 \<rparr>)) =
      Some (authApi_updatePassword (js ''123456'') (chinese 25))"
    by (simp add: account_submit_def handleSubmit_def filled_form_def)
  moreover have "profileFormSchema (chinese 22) = Inr (chinese 22)" using ne by (simp add: profileFormSchema_def Let_def)
  then have "snd (profile_submit (filled_form (chinese 22))) = Some (authApi_updateProfile (chinese 22))"
    by (simp add: profile_submit_def handleSubmit_def filled_form_def)
  ultimately show ?thesis
    by (simp add: service_Register_def service_validatePassword_def service_UpdateNickname_def Let_def)
qed

theorem account_limits_witness:
  "service_Register (js ''alice'') (js ''secret'') = Inr (trim (js ''alice''))"
proof -
  let ?s = "filled_form \<lparr> cr_username = js ''alice'', cr_password = js ''secret'', su_confirmPassword = js ''secret'' \<rparr>"
  have a: "ascii (cr_username (fs_values ?s))" "ascii (cr_password (fs_values ?s))"
    by (simp_all add: ascii_def js_def filled_form_def)
  have "trim (js ''alice'') = js ''alice''" by (rule trim_no_ws) (simp add: js_def is_ws_def)
  then have "\<exists>s'. sign_up_submit ?s = (s', Some (authApi_register (js ''alice'') (js ''secret'')))"
    by (simp add: sign_up_submit_def handleSubmit_sends sign_up_formSchema_def filled_form_def Let_def)
  with account_limits[OF a, of "authApi_register (js ''alice'') (js ''secret'')"] show ?thesis by (simp add: filled_form_def)
qed

end
