(* ===== verification/Sidebar.thy ===== *)
theory Sidebar
  imports Routes Components
begin

section \<open>The navigation (components/layout, command-menu.tsx, profile-dropdown.tsx)\<close>

text \<open>
  The menu of the sidebar and of the command dialog, which entry is highlighted, the user's menus and
  the sign-out dialog. The theorem that ties it to the guards: the menu offers exactly the pages the
  guards let the user in.
\<close>

subsection \<open>The data of the menu (types.ts, sidebar-data.ts)\<close>

record nav_base =
  ni_title :: jsstr
  ni_badge :: "jsstr option"
  ni_icon :: "string option"

datatype nav_item =
  NavLink nav_base jsstr
| NavCollapsible nav_base "(nav_base \<times> jsstr) list"

record nav_group =
  ng_title :: jsstr
  ng_items :: "nav_item list"

definition nav_link :: "jsstr \<Rightarrow> jsstr \<Rightarrow> string \<Rightarrow> nav_item" where
  "nav_link title url icon = NavLink \<lparr> ni_title = title, ni_badge = None, ni_icon = Some icon \<rparr> url"

definition getSidebarData :: "bool \<Rightarrow> nav_group list" where
  "getSidebarData isAdmin =
     [\<lparr> ng_title = txt_business_modules,
        ng_items =
          [nav_link txt_dashboard_menu (js ''/'') ''LayoutDashboard'']
          @ show_if isAdmin
             [nav_link txt_products_title (js ''/products'') ''Package'',
              nav_link txt_inventory_title (js ''/inventory'') ''Warehouse'']
          @ [nav_link txt_orders_title (js ''/orders'') ''ShoppingCart'']
          @ show_if isAdmin
             [nav_link txt_stock_logs_title (js ''/stock-logs'') ''History'',
              nav_link txt_op_logs_title (js ''/operation-logs'') ''ClipboardList''] \<rparr>]"

subsection \<open>The active entry (nav-group.tsx)\<close>

fun item_base :: "nav_item \<Rightarrow> nav_base" where
  "item_base (NavLink b u) = b"
| "item_base (NavCollapsible b is) = b"

fun item_url :: "nav_item \<Rightarrow> jsstr option" where
  "item_url (NavLink b u) = Some u"
| "item_url (NavCollapsible b is) = None"

fun item_items :: "nav_item \<Rightarrow> (nav_base \<times> jsstr) list" where
  "item_items (NavLink b u) = []"
| "item_items (NavCollapsible b is) = is"

text \<open>\<open>s.split(sep)[i]\<close>: \<open>None\<close> is \<open>undefined\<close>.\<close>

definition split_at :: "jsstr \<Rightarrow> nat \<Rightarrow> jsstr \<Rightarrow> jsstr option" where
  "split_at sep i s = (let ps = js_split sep s in if i < length ps then Some (ps ! i) else None)"

definition checkIsActive :: "jsstr \<Rightarrow> nav_item \<Rightarrow> bool \<Rightarrow> bool" where
  "checkIsActive href item mainNav \<longleftrightarrow>
     Some href = item_url item \<or>
     split_at (js ''?'') 0 href = item_url item \<or>
     length (filter (\<lambda>(b, u). u = href) (item_items item)) \<noteq> 0 \<or>
     (mainNav \<and> split_at (js ''/'') 1 href \<noteq> Some [] \<and>
      split_at (js ''/'') 1 href = (case item_url item of None \<Rightarrow> None | Some u \<Rightarrow> split_at (js ''/'') 1 u))"

subsection \<open>The menu as rendered\<close>

datatype nav_event =
  SetOpenMobile bool
| Open_link jsstr
| SetDialog bool
| SignOut
| ToggleSidebar
| SetSearchOpen bool
| RunNavigate jsstr
| RunTheme string

definition NavBadge :: "jsstr \<Rightarrow> nav_event node" where
  "NavBadge text = El ''Badge'' [] [Txt text]"

text \<open>The icon, the title and the badge of an entry; an empty badge is not shown.\<close>

definition entry_label :: "nav_base \<Rightarrow> nav_event node list" where
  "entry_label b =
     (case ni_icon b of None \<Rightarrow> [] | Some i \<Rightarrow> [El i [] []])
     @ [El ''span'' [] [Txt (ni_title b)]]
     @ (case ni_badge b of None \<Rightarrow> [] | Some t \<Rightarrow> show_if (t \<noteq> []) [NavBadge t])"

definition SidebarMenuLink :: "nav_base \<Rightarrow> jsstr \<Rightarrow> jsstr \<Rightarrow> nav_event node" where
  "SidebarMenuLink b url href =
     El ''SidebarMenuItem'' []
       [El ''SidebarMenuButton'' [Flag ''isActive'' (checkIsActive href (NavLink b url) False), Attr ''tooltip'' (ni_title b)]
         [El ''Link'' [Attr ''to'' url, OnClick (SetOpenMobile False)] (entry_label b)]]"

definition SidebarMenuCollapsible :: "nav_base \<Rightarrow> (nav_base \<times> jsstr) list \<Rightarrow> jsstr \<Rightarrow> nav_event node" where
  "SidebarMenuCollapsible b items href =
     El ''Collapsible'' [Flag ''defaultOpen'' (checkIsActive href (NavCollapsible b items) True)]
       [El ''SidebarMenuItem'' []
         [El ''CollapsibleTrigger'' []
            [El ''SidebarMenuButton'' [Attr ''tooltip'' (ni_title b)] (entry_label b @ [El ''ChevronRight'' [] []])],
          El ''CollapsibleContent'' []
            [El ''SidebarMenuSub'' []
              (map (\<lambda>(sub, u).
                 El ''SidebarMenuSubItem'' []
                   [El ''SidebarMenuSubButton'' [Flag ''isActive'' (checkIsActive href (NavLink sub u) False)]
                     [El ''Link'' [Attr ''to'' u, OnClick (SetOpenMobile False)] (entry_label sub)]]) items)]]]"

definition SidebarMenuCollapsedDropdown :: "nav_base \<Rightarrow> (nav_base \<times> jsstr) list \<Rightarrow> jsstr \<Rightarrow> nav_event node" where
  "SidebarMenuCollapsedDropdown b items href =
     El ''SidebarMenuItem'' []
       [El ''DropdownMenu'' []
         [El ''DropdownMenuTrigger'' []
            [El ''SidebarMenuButton'' [Attr ''tooltip'' (ni_title b), Flag ''isActive'' (checkIsActive href (NavCollapsible b items) False)]
               (entry_label b @ [El ''ChevronRight'' [] []])],
          El ''DropdownMenuContent'' []
            ([El ''DropdownMenuLabel'' []
                [Txt (ni_title b @ js '' '' @ (case ni_badge b of None \<Rightarrow> [] | Some t \<Rightarrow> if t \<noteq> [] then js ''('' @ t @ js '')'' else []))],
              El ''DropdownMenuSeparator'' [] []]
             @ map (\<lambda>(sub, u).
                 El ''DropdownMenuItem'' []
                   [El ''Link'' [Attr ''to'' u, Attr ''className'' (if checkIsActive href (NavLink sub u) False then js ''bg-secondary'' else [])]
                     ((case ni_icon sub of None \<Rightarrow> [] | Some i \<Rightarrow> [El i [] []])
                      @ [El ''span'' [] [Txt (ni_title sub)]]
                      @ (case ni_badge sub of None \<Rightarrow> [] | Some t \<Rightarrow> show_if (t \<noteq> []) [El ''span'' [] [Txt t]]))]) items)]]"

definition NavGroup :: "bool \<Rightarrow> bool \<Rightarrow> jsstr \<Rightarrow> nav_group \<Rightarrow> nav_event node" where
  "NavGroup collapsed isMobile href g =
     El ''SidebarGroup'' []
       [El ''SidebarGroupLabel'' [] [Txt (ng_title g)],
        El ''SidebarMenu'' []
          (map (\<lambda>item. case item of
               NavLink b u \<Rightarrow> SidebarMenuLink b u href
             | NavCollapsible b items \<Rightarrow>
                 if collapsed \<and> \<not> isMobile then SidebarMenuCollapsedDropdown b items href
                 else SidebarMenuCollapsible b items href) (ng_items g))]"

subsection \<open>Dialog state (use-dialog-state.tsx) and the user's menus\<close>

text \<open>\<open>None\<close> is \<open>null\<close>; setting the present value closes the dialog.\<close>

definition useDialogState_setOpen :: "'t option \<Rightarrow> 't option \<Rightarrow> 't option" where
  "useDialogState_setOpen str prev = (if prev = str then None else str)"

definition dialog_open :: "bool option \<Rightarrow> bool" where
  "dialog_open s \<longleftrightarrow> s = Some True"

text \<open>\<open>a || b\<close> on texts that may be missing.\<close>

definition or_text :: "jsstr option \<Rightarrow> jsstr option \<Rightarrow> jsstr option" where
  "or_text a b = (if a \<noteq> None \<and> a \<noteq> Some [] then a else b)"

definition displayName :: "auth_user option \<Rightarrow> jsstr" where
  "displayName user =
     (case or_text (map_option nickname user) (or_text (map_option username user) (Some txt_user_default)) of
        Some t \<Rightarrow> t | None \<Rightarrow> [])"

definition shown_username :: "auth_user option \<Rightarrow> jsstr" where
  "shown_username user = (case or_text (map_option username user) (Some []) of Some t \<Rightarrow> t | None \<Rightarrow> [])"

text \<open>\<open>upper\<close> is \<open>toUpperCase\<close>, whose table is Unicode's.\<close>

definition avatarFallback :: "(jsstr \<Rightarrow> jsstr) \<Rightarrow> jsstr \<Rightarrow> jsstr" where
  "avatarFallback upper name = upper (take 2 name)"

definition at_username :: "jsstr \<Rightarrow> jsstr" where
  "at_username u = (if u \<noteq> [] then js ''@'' @ u else txt_loading_user)"

definition SignOutDialog :: "bool \<Rightarrow> nav_event node" where
  "SignOutDialog opened =
     ConfirmDialog
       \<lparr> cd_open = opened, cd_onOpenChange = SetDialog, cd_title = [Txt txt_sign_out], cd_disabled = None,
         cd_desc = [Txt txt_sign_out_desc], cd_cancelBtnText = Some txt_cancel, cd_confirmText = Some [Txt txt_sign_out_confirm],
         cd_destructive = True, cd_isLoading = False, cd_children = [], cd_form = None, cd_handleConfirm = Some SignOut \<rparr>"

definition ProfileDropdown :: "(jsstr \<Rightarrow> jsstr) \<Rightarrow> bool option \<Rightarrow> auth_user option \<Rightarrow> nav_event node" where
  "ProfileDropdown upper opened user =
     (let name = displayName user; uname = shown_username user
      in El ''Fragment'' []
        [El ''DropdownMenu'' []
           [El ''DropdownMenuTrigger'' []
              [El ''Button'' [Attr ''variant'' (js ''ghost'')]
                [El ''Avatar'' [] [El ''AvatarFallback'' [] [Txt (avatarFallback upper name)]]]],
            El ''DropdownMenuContent'' []
              [El ''DropdownMenuLabel'' [] [El ''p'' [] [Txt name], El ''p'' [] [Txt (at_username uname)]],
               El ''DropdownMenuSeparator'' [] [],
               El ''DropdownMenuGroup'' []
                 [El ''DropdownMenuItem'' [] [El ''Link'' [Attr ''to'' (js ''/settings'')] [Txt txt_profile]],
                  El ''DropdownMenuItem'' [] [El ''Link'' [Attr ''to'' (js ''/settings/account'')] [Txt txt_account_security]]],
               El ''DropdownMenuSeparator'' [] [],
               El ''DropdownMenuItem'' [Attr ''variant'' (js ''destructive''), OnClick (SetDialog True)] [Txt txt_sign_out]]],
         SignOutDialog (dialog_open opened)])"

definition NavUser :: "(jsstr \<Rightarrow> jsstr) \<Rightarrow> bool \<Rightarrow> bool option \<Rightarrow> jsstr \<Rightarrow> jsstr \<Rightarrow> nav_event node" where
  "NavUser upper isMobile opened name uname =
     (let avatar = El ''Avatar'' [] [El ''AvatarFallback'' [] [Txt (avatarFallback upper name)]];
          names = El ''div'' [] [El ''span'' [] [Txt name], El ''span'' [] [Txt (at_username uname)]]
      in El ''Fragment'' []
        [El ''SidebarMenu'' []
          [El ''SidebarMenuItem'' []
            [El ''DropdownMenu'' []
              [El ''DropdownMenuTrigger'' []
                 [El ''SidebarMenuButton'' [] [avatar, names, El ''ChevronsUpDown'' [] []]],
               El ''DropdownMenuContent'' [Attr ''side'' (if isMobile then js ''bottom'' else js ''right'')]
                 [El ''DropdownMenuLabel'' [] [El ''div'' [] [avatar, names]],
                  El ''DropdownMenuSeparator'' [] [],
                  El ''DropdownMenuGroup'' []
                    [El ''DropdownMenuItem'' [] [El ''Link'' [Attr ''to'' (js ''/settings'')] [El ''BadgeCheck'' [] [], Txt txt_profile]],
                     El ''DropdownMenuItem'' [] [El ''Link'' [Attr ''to'' (js ''/settings/account'')] [El ''BadgeCheck'' [] [], Txt txt_account_security]]],
                  El ''DropdownMenuSeparator'' [] [],
                  El ''DropdownMenuItem'' [Attr ''variant'' (js ''destructive''), OnClick (SetDialog True)]
                    [El ''LogOut'' [] [], Txt txt_sign_out]]]]],
         SignOutDialog (dialog_open opened)])"

subsection \<open>The sidebar (app-sidebar.tsx, app-title.tsx)\<close>

definition sidebar_user :: "auth_user option \<Rightarrow> auth_user option \<Rightarrow> auth_user option" where
  "sidebar_user user fetched = (case user of None \<Rightarrow> fetched | Some u \<Rightarrow> Some u)"

text \<open>The effect run when the fetched user changes.\<close>

definition sidebar_effect :: "auth_user option \<Rightarrow> auth_state \<Rightarrow> auth_state" where
  "sidebar_effect fetched s = (if fetched \<noteq> None then setUser fetched s else s)"

definition ToggleSidebar_button :: "nav_event node" where
  "ToggleSidebar_button =
     El ''Button'' [Attr ''variant'' (js ''ghost''), OnClick ToggleSidebar]
       [El ''X'' [] [], El ''Menu'' [] [], El ''span'' [] [Txt txt_toggle_sidebar]]"

definition AppTitle :: "nav_event node" where
  "AppTitle =
     El ''SidebarMenu'' []
       [El ''SidebarMenuItem'' []
         [El ''SidebarMenuButton'' []
           [El ''div'' []
             [El ''Link'' [Attr ''to'' (js ''/''), OnClick (SetOpenMobile False)]
                [El ''span'' [] [Txt txt_system_name], El ''span'' [] [Txt (js ''Go + React'')]],
              ToggleSidebar_button]]]]"

record sidebar_view =
  sv_collapsed :: bool
  sv_mobile :: bool
  sv_href :: jsstr
  sv_dialog :: "bool option"

definition AppSidebar :: "(jsstr \<Rightarrow> jsstr) \<Rightarrow> sidebar_view \<Rightarrow> auth_user option \<Rightarrow> auth_user option \<Rightarrow> nav_event node" where
  "AppSidebar upper v user fetched =
     (let currentUser = sidebar_user user fetched
      in El ''Sidebar'' []
        [El ''SidebarHeader'' [] [AppTitle],
         El ''SidebarContent'' []
           (map (NavGroup (sv_collapsed v) (sv_mobile v) (sv_href v)) (getSidebarData (isAdminUser currentUser))),
         El ''SidebarFooter'' []
           [NavUser upper (sv_mobile v) (sv_dialog v) (displayName currentUser) (shown_username currentUser)],
         El ''SidebarRail'' [] []])"

subsection \<open>The command dialog (command-menu.tsx)\<close>

text \<open>Running a command closes the dialog first.\<close>

definition runCommand :: "nav_event \<Rightarrow> nav_event list" where
  "runCommand e = [SetSearchOpen False, e]"

definition command_items :: "nav_group \<Rightarrow> nav_event node list" where
  "command_items g = concat (map (\<lambda>item. case item of
       NavLink b u \<Rightarrow>
         if u \<noteq> [] then [El ''CommandItem'' [Attr ''value'' (ni_title b), OnClick (RunNavigate u)]
                            [El ''ArrowRight'' [] [], Txt (ni_title b)]]
         else []
     | NavCollapsible b items \<Rightarrow>
         map (\<lambda>(sub, u). El ''CommandItem'' [Attr ''value'' (ni_title b @ js ''-'' @ u), OnClick (RunNavigate u)]
                [El ''ArrowRight'' [] [], Txt (ni_title b @ js '' ''), El ''ChevronRight'' [] [], Txt (js '' '' @ ni_title sub)]) items)
     (ng_items g))"

definition theme_items :: "nav_event node list" where
  "theme_items =
     [El ''CommandItem'' [OnClick (RunTheme ''light'')] [El ''Sun'' [] [], El ''span'' [] [Txt (js ''Light'')]],
      El ''CommandItem'' [OnClick (RunTheme ''dark'')] [El ''Moon'' [] [], El ''span'' [] [Txt (js ''Dark'')]],
      El ''CommandItem'' [OnClick (RunTheme ''system'')] [El ''Laptop'' [] [], El ''span'' [] [Txt (js ''System'')]]]"

definition CommandMenu :: "bool \<Rightarrow> auth_user option \<Rightarrow> nav_event node" where
  "CommandMenu opened user =
     El ''CommandDialog'' [Open opened, OnOpenChange SetSearchOpen]
       [El ''CommandInput'' [Attr ''placeholder'' (js ''Type a command or search...'')] [],
        El ''CommandList'' []
          [El ''ScrollArea'' []
            ([El ''CommandEmpty'' [] [Txt (js ''No results found.'')]]
             @ map (\<lambda>g. El ''CommandGroup'' [Attr ''heading'' (ng_title g)] (command_items g)) (getSidebarData (isAdminUser user))
             @ [El ''CommandSeparator'' [] [], El ''CommandGroup'' [Attr ''heading'' (js ''Theme'')] theme_items])]]"

subsection \<open>What the menu offers\<close>

definition menu_urls :: "nav_group list \<Rightarrow> jsstr list" where
  "menu_urls gs = concat (map (\<lambda>g. concat (map (\<lambda>item. case item of
       NavLink b u \<Rightarrow> [u] | NavCollapsible b items \<Rightarrow> map snd items) (ng_items g))) gs)"

definition business_pages :: "page list" where
  "business_pages = [PgDashboard, PgProducts, PgInventory, PgOrders, PgStockLogs, PgOperationLogs]"

lemma menu_urls_data:
  "menu_urls (getSidebarData a) = map route_path (filter (\<lambda>p. a \<or> \<not> admin_page p) business_pages)"
  by (cases a) (simp_all add: menu_urls_def getSidebarData_def nav_link_def business_pages_def)

lemma business_paths_inj: "inj_on route_path (set business_pages)"
  by (simp add: business_pages_def inj_on_def) (simp add: js_def)

lemma enter_business:
  assumes "p \<in> set business_pages" "accessToken s \<noteq> []"
  shows "snd (enter_route href (Inr (Some u)) p s) = Inr () \<longleftrightarrow> isAdminUser (Some u) \<or> \<not> admin_page p"
proof (cases "admin_page p")
  case True
  from enter_admin_page[OF True assms(2)] True show ?thesis by (simp add: requireAdmin_def)
next
  case False
  have "authenticated_route p" using assms(1) by (auto simp: business_pages_def)
  from enter_user_page[OF this False assms(2)] False show ?thesis by simp
qed

text \<open>
  C32: the menu and the guards agree. For a signed-in user the menu, and so the command dialog, links
  exactly the business pages whose guards let this user in, each of them once, and nothing else.
\<close>

theorem menu_matches_guards:
  assumes "accessToken s \<noteq> []"
  shows "distinct (menu_urls (getSidebarData (isAdminUser (Some u)))) \<and>
    set (menu_urls (getSidebarData (isAdminUser (Some u)))) =
      route_path ` {p \<in> set business_pages. snd (enter_route href (Inr (Some u)) p s) = Inr ()}"
proof -
  have "distinct business_pages" by (simp add: business_pages_def)
  then have "distinct (menu_urls (getSidebarData (isAdminUser (Some u))))"
    using business_paths_inj by (auto simp: menu_urls_data distinct_map intro: inj_on_subset)
  moreover have "{p \<in> set business_pages. snd (enter_route href (Inr (Some u)) p s) = Inr ()} =
      set (filter (\<lambda>p. isAdminUser (Some u) \<or> \<not> admin_page p) business_pages)"
    using enter_business[OF _ assms, of _ href u] by auto
  ultimately show ?thesis by (simp only: menu_urls_data set_map)
qed

theorem menu_matches_guards_witness:
  "route_path PgProducts \<in> set (menu_urls (getSidebarData (isAdminUser (Some example_admin))))"
proof -
  let ?s = "\<lparr> auth_user_of = None, accessToken = js ''t'', auth_jar = [] \<rparr>"
  have t: "accessToken ?s \<noteq> []" by (simp add: js_def)
  have "isAdminUser (Some example_admin)" by (simp add: isAdminUser_def ADMIN_ROLE_def example_admin_def)
  moreover have "PgProducts \<in> set business_pages" by (simp add: business_pages_def)
  ultimately have "PgProducts \<in> {p \<in> set business_pages. snd (enter_route [] (Inr (Some example_admin)) p ?s) = Inr ()}"
    using enter_business[OF _ t, of PgProducts "[]" example_admin] by simp
  then show ?thesis using menu_matches_guards[OF t, of example_admin "[]"] by blast
qed

subsection \<open>The entry of the page shown\<close>

lemma split_query: "0x3F \<notin> set u \<Longrightarrow> split_at (js ''?'') 0 (u @ 0x3F # q) = Some u"
  using js_split_char_some[of "0x3F" u q] by (simp add: split_at_def js_def)

lemma split_plain: "0x3F \<notin> set u \<Longrightarrow> split_at (js ''?'') 0 u = Some u"
  using js_split_char_none[of "0x3F" u] by (simp add: split_at_def js_def)

lemma business_path_plain: "p \<in> set business_pages \<Longrightarrow> 0x3F \<notin> set (route_path p)"
  by (auto simp: business_pages_def) (simp_all add: js_def)

text \<open>
  On a business page, whatever its query, exactly its own entry of the menu is highlighted.
\<close>

theorem one_entry_active:
  assumes "p \<in> set business_pages" "p' \<in> set business_pages"
  shows "(checkIsActive (route_path p) (NavLink b (route_path p')) False \<longleftrightarrow> p' = p) \<and>
    (checkIsActive (route_path p @ 0x3F # q) (NavLink b (route_path p')) False \<longleftrightarrow> p' = p)"
proof -
  have e: "route_path p = route_path p' \<longleftrightarrow> p' = p"
    using inj_onD[OF business_paths_inj _ assms] by blast
  have "route_path p @ 0x3F # q \<noteq> route_path p'"
  proof
    assume "route_path p @ 0x3F # q = route_path p'"
    then have "0x3F \<in> set (route_path p')" by (metis in_set_conv_decomp)
    then show False using business_path_plain[OF assms(2)] by simp
  qed
  then show ?thesis
    using business_path_plain[OF assms(1)] by (simp add: checkIsActive_def split_plain split_query e)
qed

theorem one_entry_active_witness:
  "checkIsActive (route_path PgOrders @ 0x3F # js ''page=2'') (NavLink \<lparr> ni_title = [], ni_badge = None, ni_icon = None \<rparr> (route_path PgOrders)) False"
  using one_entry_active[of PgOrders PgOrders "\<lparr> ni_title = [], ni_badge = None, ni_icon = None \<rparr>" "js ''page=2''"]
  by (simp add: business_pages_def)

subsection \<open>Signing out is confirmed\<close>

lemma offers_SignOutDialog [simp]:
  "offers (SignOutDialog opened) SignOut \<longleftrightarrow> opened"
  unfolding SignOutDialog_def by (subst offers_ConfirmDialog) auto

text \<open>
  The user's menus offer to sign out only while the confirmation is open; asking for it opens it,
  and answering or dismissing it closes it.
\<close>

theorem sign_out_confirmed:
  "(offers (ProfileDropdown upper opened user) SignOut \<longleftrightarrow> dialog_open opened) \<and>
   (offers (NavUser upper isMobile opened name uname) SignOut \<longleftrightarrow> dialog_open opened) \<and>
   dialog_open (useDialogState_setOpen (Some True) opened) = (\<not> dialog_open opened) \<and>
   \<not> dialog_open (useDialogState_setOpen (Some False) opened)"
  by (auto simp: ProfileDropdown_def NavUser_def Let_def offers_El dialog_open_def useDialogState_setOpen_def)

text \<open>The name shown for a user is never empty.\<close>

lemma displayName_nonempty: "displayName user \<noteq> []"
  by (auto simp: displayName_def or_text_def txt_user_default_def split: option.splits)

end
