(* ===== verification/Preferences.thy ===== *)
theory Preferences
  imports Cookies Sidebar
begin

section \<open>The user's preferences (context, use-mobile, sidebar, config-drawer.tsx)\<close>

text \<open>
  Text direction, theme, font, layout and the state of the sidebar: each is kept in memory and in a
  cookie of its own, and read back when its provider is mounted. The locale is the contract each
  provider keeps; every one of them is an interpretation. A value read from a cookie is any text: only
  the font is checked against the values there are.
\<close>

record pref =
  pref_value :: jsstr
  pref_jar :: jar

definition or_default :: "jsstr option \<Rightarrow> jsstr \<Rightarrow> jsstr" where
  "or_default v d = (case v of None \<Rightarrow> d | Some t \<Rightarrow> if t = [] then d else t)"

definition one_year :: jsnum where "one_year = jint 60 * jint 60 * jint 24 * jint 365"
definition seven_days :: jsnum where "seven_days = jint 60 * jint 60 * jint 24 * jint 7"

text \<open>Keeping a value in a cookie and in memory, and dropping the cookie.\<close>

definition keep_value :: "bool \<Rightarrow> jsstr \<Rightarrow> jsnum \<Rightarrow> jsstr \<Rightarrow> pref \<Rightarrow> (uri_error, pref) thrown" where
  "keep_value https cname age v s =
     (case setCookie https cname v age (pref_jar s) of
        Inl e \<Rightarrow> Inl e
      | Inr jar \<Rightarrow> Inr (s\<lparr>pref_value := v, pref_jar := jar\<rparr>))"

definition drop_value :: "jsstr \<Rightarrow> jsstr \<Rightarrow> pref \<Rightarrow> (uri_error, pref) thrown" where
  "drop_value cname d s =
     (case removeCookie cname (pref_jar s) of
        Inl e \<Rightarrow> Inl e
      | Inr jar \<Rightarrow> Inr (s\<lparr>pref_value := d, pref_jar := jar\<rparr>))"

subsection \<open>Direction (direction-provider.tsx)\<close>

definition DEFAULT_DIRECTION :: jsstr where "DEFAULT_DIRECTION = js ''ltr''"
definition DIRECTION_COOKIE_NAME :: jsstr where "DIRECTION_COOKIE_NAME = js ''dir''"
definition DIRECTION_COOKIE_MAX_AGE :: jsnum where "DIRECTION_COOKIE_MAX_AGE = one_year"

definition initial_dir :: "jar \<Rightarrow> (uri_error, jsstr) thrown" where
  "initial_dir jar = (case getCookie DIRECTION_COOKIE_NAME jar of
       Inl e \<Rightarrow> Inl e | Inr v \<Rightarrow> Inr (or_default v DEFAULT_DIRECTION))"

definition setDir :: "bool \<Rightarrow> jsstr \<Rightarrow> pref \<Rightarrow> (uri_error, pref) thrown" where
  "setDir https dir s = keep_value https DIRECTION_COOKIE_NAME DIRECTION_COOKIE_MAX_AGE dir s"

definition resetDir :: "pref \<Rightarrow> (uri_error, pref) thrown" where
  "resetDir s = drop_value DIRECTION_COOKIE_NAME DEFAULT_DIRECTION s"

subsection \<open>Theme (theme-provider.tsx, theme-switch.tsx)\<close>

definition DEFAULT_THEME :: jsstr where "DEFAULT_THEME = js ''system''"
definition THEME_COOKIE_NAME :: jsstr where "THEME_COOKIE_NAME = js ''vite-ui-theme''"
definition THEME_COOKIE_MAX_AGE :: jsnum where "THEME_COOKIE_MAX_AGE = one_year"

definition initial_theme :: "jar \<Rightarrow> (uri_error, jsstr) thrown" where
  "initial_theme jar = (case getCookie THEME_COOKIE_NAME jar of
       Inl e \<Rightarrow> Inl e | Inr v \<Rightarrow> Inr (or_default v DEFAULT_THEME))"

definition setTheme :: "bool \<Rightarrow> jsstr \<Rightarrow> pref \<Rightarrow> (uri_error, pref) thrown" where
  "setTheme https t s = keep_value https THEME_COOKIE_NAME THEME_COOKIE_MAX_AGE t s"

definition resetTheme :: "pref \<Rightarrow> (uri_error, pref) thrown" where
  "resetTheme s = drop_value THEME_COOKIE_NAME DEFAULT_THEME s"

text \<open>\<open>prefers_dark\<close> is what the media query matches.\<close>

definition resolvedTheme :: "bool \<Rightarrow> jsstr \<Rightarrow> jsstr" where
  "resolvedTheme prefers_dark t =
     (if t = js ''system'' then (if prefers_dark then js ''dark'' else js ''light'') else t)"

definition class_add :: "jsstr \<Rightarrow> jsstr list \<Rightarrow> jsstr list" where
  "class_add c classes = (if c \<in> set classes then classes else classes @ [c])"

definition applyTheme :: "jsstr \<Rightarrow> jsstr list \<Rightarrow> jsstr list" where
  "applyTheme t classes = class_add t (filter (\<lambda>c. c \<noteq> js ''light'' \<and> c \<noteq> js ''dark'') classes)"

text \<open>The classes of the document after the effect ran, and after the system's preference changed.\<close>

definition theme_effect :: "bool \<Rightarrow> jsstr \<Rightarrow> jsstr list \<Rightarrow> jsstr list" where
  "theme_effect prefers_dark t classes = applyTheme (resolvedTheme prefers_dark t) classes"

definition theme_handleChange :: "bool \<Rightarrow> jsstr \<Rightarrow> jsstr list \<Rightarrow> jsstr list" where
  "theme_handleChange prefers_dark t classes =
     (if t = js ''system'' then applyTheme (if prefers_dark then js ''dark'' else js ''light'') classes else classes)"

definition themeColor :: "jsstr \<Rightarrow> jsstr" where
  "themeColor t = (if t = js ''dark'' then js ''#020817'' else js ''#fff'')"

subsection \<open>Font (font-provider.tsx, fonts.ts)\<close>

definition fonts :: "jsstr list" where "fonts = [js ''inter'', js ''manrope'', js ''system'']"

definition FONT_COOKIE_NAME :: jsstr where "FONT_COOKIE_NAME = js ''font''"
definition FONT_COOKIE_MAX_AGE :: jsnum where "FONT_COOKIE_MAX_AGE = one_year"

definition initial_font :: "jar \<Rightarrow> (uri_error, jsstr) thrown" where
  "initial_font jar = (case getCookie FONT_COOKIE_NAME jar of
       Inl e \<Rightarrow> Inl e
     | Inr savedFont \<Rightarrow> Inr (case savedFont of None \<Rightarrow> hd fonts | Some f \<Rightarrow> if f \<in> set fonts then f else hd fonts))"

definition setFont :: "bool \<Rightarrow> jsstr \<Rightarrow> pref \<Rightarrow> (uri_error, pref) thrown" where
  "setFont https f s = keep_value https FONT_COOKIE_NAME FONT_COOKIE_MAX_AGE f s"

definition resetFont :: "pref \<Rightarrow> (uri_error, pref) thrown" where
  "resetFont s = drop_value FONT_COOKIE_NAME (hd fonts) s"

text \<open>
  The effect removes classes from the live list while it walks over it by index, so the class after a
  removed one is not looked at.
\<close>

definition font_class :: "jsstr \<Rightarrow> bool" where "font_class c \<longleftrightarrow> starts_with (js ''font-'') c"

function remove_fonts :: "nat \<Rightarrow> jsstr list \<Rightarrow> jsstr list" where
  "remove_fonts i classes =
     (if i < length classes then
        remove_fonts (Suc i) (if font_class (classes ! i) then removeAll (classes ! i) classes else classes)
      else classes)"
  by pat_completeness auto
termination
  by (relation "measure (\<lambda>(i, classes). length classes - i)")
    (auto intro!: diff_less_mono2 le_less_trans[OF diff_le_mono[OF length_removeAll_less_eq]] split: if_splits)

declare remove_fonts.simps [simp del]

definition applyFont :: "jsstr \<Rightarrow> jsstr list \<Rightarrow> jsstr list" where
  "applyFont f classes = class_add (js ''font-'' @ f) (remove_fonts 0 classes)"

subsection \<open>Layout (layout-provider.tsx) and sidebar (sidebar.tsx, authenticated-layout.tsx)\<close>

definition DEFAULT_COLLAPSIBLE :: jsstr where "DEFAULT_COLLAPSIBLE = js ''icon''"
definition DEFAULT_VARIANT :: jsstr where "DEFAULT_VARIANT = js ''inset''"
definition LAYOUT_COLLAPSIBLE_COOKIE_NAME :: jsstr where "LAYOUT_COLLAPSIBLE_COOKIE_NAME = js ''layout_collapsible''"
definition LAYOUT_VARIANT_COOKIE_NAME :: jsstr where "LAYOUT_VARIANT_COOKIE_NAME = js ''layout_variant''"
definition LAYOUT_COOKIE_MAX_AGE :: jsnum where "LAYOUT_COOKIE_MAX_AGE = seven_days"

definition initial_collapsible :: "jar \<Rightarrow> (uri_error, jsstr) thrown" where
  "initial_collapsible jar = (case getCookie LAYOUT_COLLAPSIBLE_COOKIE_NAME jar of
       Inl e \<Rightarrow> Inl e | Inr saved \<Rightarrow> Inr (or_default saved DEFAULT_COLLAPSIBLE))"

definition initial_variant :: "jar \<Rightarrow> (uri_error, jsstr) thrown" where
  "initial_variant jar = (case getCookie LAYOUT_VARIANT_COOKIE_NAME jar of
       Inl e \<Rightarrow> Inl e | Inr saved \<Rightarrow> Inr (or_default saved DEFAULT_VARIANT))"

definition setCollapsible :: "bool \<Rightarrow> jsstr \<Rightarrow> pref \<Rightarrow> (uri_error, pref) thrown" where
  "setCollapsible https v s = keep_value https LAYOUT_COLLAPSIBLE_COOKIE_NAME LAYOUT_COOKIE_MAX_AGE v s"

definition setVariant :: "bool \<Rightarrow> jsstr \<Rightarrow> pref \<Rightarrow> (uri_error, pref) thrown" where
  "setVariant https v s = keep_value https LAYOUT_VARIANT_COOKIE_NAME LAYOUT_COOKIE_MAX_AGE v s"

definition SIDEBAR_COOKIE_NAME :: jsstr where "SIDEBAR_COOKIE_NAME = js ''sidebar_state''"
definition SIDEBAR_COOKIE_MAX_AGE :: jsnum where "SIDEBAR_COOKIE_MAX_AGE = seven_days"

text \<open>The sidebar writes its cookie without the functions for cookies; \<open>pref_value\<close> is its state as text.\<close>

definition bool_text :: "bool \<Rightarrow> jsstr" where
  "bool_text b = (if b then js ''true'' else js ''false'')"

definition sidebar_setOpen :: "bool \<Rightarrow> pref \<Rightarrow> pref" where
  "sidebar_setOpen opened s =
     s\<lparr>pref_value := bool_text opened,
       pref_jar := assign_cookie (SIDEBAR_COOKIE_NAME @ js ''='' @ bool_text opened @ js ''; path=/; max-age=''
         @ to_string SIDEBAR_COOKIE_MAX_AGE) (pref_jar s)\<rparr>"

definition sidebar_defaultOpen :: "jar \<Rightarrow> (uri_error, bool) thrown" where
  "sidebar_defaultOpen jar = (case getCookie (js ''sidebar_state'') jar of
       Inl e \<Rightarrow> Inl e | Inr v \<Rightarrow> Inr (v \<noteq> Some (js ''false'')))"

text \<open>Toggling: on a small screen the overlay, otherwise the sidebar itself.\<close>

definition toggleSidebar :: "bool \<Rightarrow> bool \<times> pref \<Rightarrow> bool \<times> pref" where
  "toggleSidebar isMobile s =
     (if isMobile then (\<not> fst s, snd s)
      else (fst s, sidebar_setOpen (pref_value (snd s) \<noteq> bool_text True) (snd s)))"

definition sidebar_shortcut :: "jsstr \<Rightarrow> bool \<Rightarrow> bool \<Rightarrow> bool" where
  "sidebar_shortcut key metaKey ctrlKey \<longleftrightarrow> key = js ''b'' \<and> (metaKey \<or> ctrlKey)"

definition search_shortcut :: "jsstr \<Rightarrow> bool \<Rightarrow> bool \<Rightarrow> bool" where
  "search_shortcut key metaKey ctrlKey \<longleftrightarrow> key = js ''k'' \<and> (metaKey \<or> ctrlKey)"

definition useIsMobile :: "nat \<Rightarrow> bool" where
  "useIsMobile width \<longleftrightarrow> width \<le> 768 - 1"

subsection \<open>The contract of a provider\<close>

text \<open>
  What was chosen is what the next start reads, going back to the default reads as the default, and
  neither touches what is kept under another name.
\<close>

locale preference =
  fixes initial :: "jar \<Rightarrow> (uri_error, jsstr) thrown"
    and pick :: "jsstr \<Rightarrow> pref \<Rightarrow> (uri_error, pref) thrown"
    and reset :: "pref \<Rightarrow> (uri_error, pref) thrown"
    and cname :: jsstr
    and default_value :: jsstr
    and valid :: "jsstr \<Rightarrow> bool"
  assumes pick_initial: "jar_ok (pref_jar s) \<Longrightarrow> valid v \<Longrightarrow>
      \<exists>s'. pick v s = Inr s' \<and> pref_value s' = v \<and> jar_ok (pref_jar s') \<and> initial (pref_jar s') = Inr v \<and>
        (\<forall>k. k \<noteq> cname \<longrightarrow> getCookie k (pref_jar s') = getCookie k (pref_jar s))"
    and reset_initial: "jar_ok (pref_jar s) \<Longrightarrow>
      \<exists>s'. reset s = Inr s' \<and> pref_value s' = default_value \<and> jar_ok (pref_jar s') \<and>
        initial (pref_jar s') = Inr default_value \<and>
        (\<forall>k. k \<noteq> cname \<longrightarrow> getCookie k (pref_jar s') = getCookie k (pref_jar s))"
begin

text \<open>A history of choices; \<open>None\<close> is a reset.\<close>

fun history :: "jsstr option list \<Rightarrow> pref \<Rightarrow> (uri_error, pref) thrown" where
  "history [] s = Inr s"
| "history (c # cs) s =
     (case (case c of None \<Rightarrow> reset s | Some v \<Rightarrow> pick v s) of Inl e \<Rightarrow> Inl e | Inr s' \<Rightarrow> history cs s')"

lemma history_survives:
  assumes "jar_ok (pref_jar s)" "initial (pref_jar s) = Inr (pref_value s)" "\<forall>v. Some v \<in> set cs \<longrightarrow> valid v"
  shows "\<exists>s'. history cs s = Inr s' \<and> jar_ok (pref_jar s') \<and> initial (pref_jar s') = Inr (pref_value s') \<and>
    (cs \<noteq> [] \<longrightarrow> pref_value s' = (case last cs of None \<Rightarrow> default_value | Some v \<Rightarrow> v)) \<and>
    (\<forall>k. k \<noteq> cname \<longrightarrow> getCookie k (pref_jar s') = getCookie k (pref_jar s))"
  using assms
proof (induction cs arbitrary: s)
  case (Cons c cs)
  have "\<exists>s1. (case c of None \<Rightarrow> reset s | Some v \<Rightarrow> pick v s) = Inr s1 \<and> jar_ok (pref_jar s1) \<and>
    initial (pref_jar s1) = Inr (pref_value s1) \<and> pref_value s1 = (case c of None \<Rightarrow> default_value | Some v \<Rightarrow> v) \<and>
    (\<forall>k. k \<noteq> cname \<longrightarrow> getCookie k (pref_jar s1) = getCookie k (pref_jar s))"
  proof (cases c)
    case None
    then show ?thesis using reset_initial[OF Cons.prems(1)] by auto
  next
    case (Some v)
    then have "valid v" using Cons.prems(3) by simp
    from pick_initial[OF Cons.prems(1) this] Some show ?thesis by auto
  qed
  then obtain s1 where s1: "(case c of None \<Rightarrow> reset s | Some v \<Rightarrow> pick v s) = Inr s1" "jar_ok (pref_jar s1)"
    "initial (pref_jar s1) = Inr (pref_value s1)" "pref_value s1 = (case c of None \<Rightarrow> default_value | Some v \<Rightarrow> v)"
    "\<forall>k. k \<noteq> cname \<longrightarrow> getCookie k (pref_jar s1) = getCookie k (pref_jar s)" by blast
  from Cons.IH[OF s1(2,3)] Cons.prems(3) obtain s' where "history cs s1 = Inr s'" "jar_ok (pref_jar s')"
    "initial (pref_jar s') = Inr (pref_value s')"
    "cs \<noteq> [] \<longrightarrow> pref_value s' = (case last cs of None \<Rightarrow> default_value | Some v \<Rightarrow> v)"
    "\<forall>k. k \<noteq> cname \<longrightarrow> getCookie k (pref_jar s') = getCookie k (pref_jar s1)" by auto
  moreover from this have "cs = [] \<Longrightarrow> s' = s1" by simp
  ultimately show ?case using s1 by (cases "cs = []") auto
qed simp

end

subsection \<open>Every provider keeps it\<close>

text \<open>A value whose encoding, with the name's, fits in a cookie, and which is not empty.\<close>

definition keepable :: "jsstr \<Rightarrow> jsstr \<Rightarrow> bool" where
  "keepable cname v \<longleftrightarrow> v \<noteq> [] \<and> cookie_fits cname v"

lemma one_year_int: "one_year = jint 31536000"
  by (simp add: one_year_def jint_mult)

lemma seven_days_int: "seven_days = jint 604800"
  by (simp add: seven_days_def jint_mult)

lemma keep_value_ok:
  assumes "jar_ok (pref_jar s)" "cookie_fits cname v" "age = jint m" "0 < m" "m \<le> max_safe"
  shows "\<exists>s'. keep_value https cname age v s = Inr s' \<and> pref_value s' = v \<and> jar_ok (pref_jar s') \<and>
    getCookie cname (pref_jar s') = Inr (Some v) \<and> (\<forall>k. k \<noteq> cname \<longrightarrow> getCookie k (pref_jar s') = getCookie k (pref_jar s))"
  using cookies.put_get[OF assms(1,2,4,5), of https] by (auto simp: keep_value_def assms(3))

lemma drop_value_ok:
  assumes "jar_ok (pref_jar s)" "cookie_fits cname v"
  shows "\<exists>s'. drop_value cname d s = Inr s' \<and> pref_value s' = d \<and> jar_ok (pref_jar s') \<and>
    getCookie cname (pref_jar s') = Inr None \<and> (\<forall>k. k \<noteq> cname \<longrightarrow> getCookie k (pref_jar s') = getCookie k (pref_jar s))"
  using cookies.del_get[OF assms] by (auto simp: drop_value_def)

lemmas pref_defs = initial_dir_def setDir_def resetDir_def initial_theme_def setTheme_def resetTheme_def
  initial_font_def setFont_def resetFont_def initial_collapsible_def setCollapsible_def initial_variant_def
  setVariant_def or_default_def
lemmas age_defs = DIRECTION_COOKIE_MAX_AGE_def THEME_COOKIE_MAX_AGE_def FONT_COOKIE_MAX_AGE_def
  LAYOUT_COOKIE_MAX_AGE_def SIDEBAR_COOKIE_MAX_AGE_def one_year_int seven_days_int

lemma year_safe: "0 < (31536000::int) \<and> 31536000 \<le> max_safe" "0 < (604800::int) \<and> 604800 \<le> max_safe"
  by (simp_all add: max_safe_def)

text \<open>The names and the default values are made of characters that encode as themselves.\<close>

lemma encode_names:
  "encodeURIComponent DIRECTION_COOKIE_NAME = Some DIRECTION_COOKIE_NAME"
  "encodeURIComponent THEME_COOKIE_NAME = Some THEME_COOKIE_NAME"
  "encodeURIComponent FONT_COOKIE_NAME = Some FONT_COOKIE_NAME"
  "encodeURIComponent LAYOUT_COLLAPSIBLE_COOKIE_NAME = Some LAYOUT_COLLAPSIBLE_COOKIE_NAME"
  "encodeURIComponent LAYOUT_VARIANT_COOKIE_NAME = Some LAYOUT_VARIANT_COOKIE_NAME"
  "encodeURIComponent SIDEBAR_COOKIE_NAME = Some SIDEBAR_COOKIE_NAME"
  by (rule encode_plain, simp add: DIRECTION_COOKIE_NAME_def THEME_COOKIE_NAME_def FONT_COOKIE_NAME_def
      LAYOUT_COLLAPSIBLE_COOKIE_NAME_def LAYOUT_VARIANT_COOKIE_NAME_def SIDEBAR_COOKIE_NAME_def js_def,
      simp add: uri_unreserved_def)+

lemma plain_values:
  "list_all uri_unreserved (js ''ltr'')" "list_all uri_unreserved (js ''icon'')" "list_all uri_unreserved (js ''inset'')"
  "list_all uri_unreserved (js ''inter'')" "list_all uri_unreserved (js ''manrope'')" "list_all uri_unreserved (js ''system'')"
  "list_all uri_unreserved (js ''true'')" "list_all uri_unreserved (js ''false'')"
  by (simp add: js_def, simp add: uri_unreserved_def)+

lemma encode_values:
  "encodeURIComponent DEFAULT_DIRECTION = Some DEFAULT_DIRECTION"
  "encodeURIComponent DEFAULT_COLLAPSIBLE = Some DEFAULT_COLLAPSIBLE"
  "encodeURIComponent DEFAULT_VARIANT = Some DEFAULT_VARIANT"
  "f \<in> set fonts \<Longrightarrow> encodeURIComponent f = Some f"
  "encodeURIComponent (bool_text b) = Some (bool_text b)"
  using plain_values
  by (auto simp: DEFAULT_DIRECTION_def DEFAULT_COLLAPSIBLE_def DEFAULT_VARIANT_def fonts_def bool_text_def intro!: encode_plain)

lemma lengths:
  "length DIRECTION_COOKIE_NAME \<le> 100" "length THEME_COOKIE_NAME \<le> 100" "length FONT_COOKIE_NAME \<le> 100"
  "length LAYOUT_COLLAPSIBLE_COOKIE_NAME \<le> 100" "length LAYOUT_VARIANT_COOKIE_NAME \<le> 100"
  "length SIDEBAR_COOKIE_NAME \<le> 100" "length (bool_text b) \<le> 100" "f \<in> set fonts \<Longrightarrow> length f \<le> 100"
  "length DEFAULT_COLLAPSIBLE \<le> 100" "length DEFAULT_VARIANT \<le> 100"
  by (auto simp: DIRECTION_COOKIE_NAME_def THEME_COOKIE_NAME_def FONT_COOKIE_NAME_def LAYOUT_COLLAPSIBLE_COOKIE_NAME_def
      LAYOUT_VARIANT_COOKIE_NAME_def SIDEBAR_COOKIE_NAME_def bool_text_def fonts_def DEFAULT_COLLAPSIBLE_def DEFAULT_VARIANT_def js_def)

lemma fits_plain:
  "encodeURIComponent n = Some n \<Longrightarrow> encodeURIComponent v = Some v \<Longrightarrow> length n \<le> 100 \<Longrightarrow> length v \<le> 100 \<Longrightarrow> cookie_fits n v"
  by (simp add: cookie_fits_def)

lemma fits_empty: "encodeURIComponent n = Some n \<Longrightarrow> length n \<le> 100 \<Longrightarrow> cookie_fits n []"
  by (simp add: fits_plain)

text \<open>A provider over one cookie keeps the contract, whatever it makes of the text it reads.\<close>

lemma preference_cookie:
  assumes init: "\<And>jar. initial jar = (case getCookie n jar of Inl e \<Rightarrow> Inl e | Inr v \<Rightarrow> Inr (sel v))"
    and none: "sel None = d" and some: "\<And>v. valid v \<Longrightarrow> sel (Some v) = v \<and> cookie_fits n v"
    and n: "cookie_fits n []" and age: "age = jint m" "0 < m" "m \<le> max_safe"
  shows "preference initial (keep_value https n age) (drop_value n d) n d valid"
proof
  fix s :: pref and v assume ok: "jar_ok (pref_jar s)" and v: "valid v"
  have fits: "cookie_fits n v" using some[OF v] ..
  from keep_value_ok[OF ok fits age, of https] some[OF v]
  show "\<exists>s'. keep_value https n age v s = Inr s' \<and> pref_value s' = v \<and> jar_ok (pref_jar s') \<and>
      initial (pref_jar s') = Inr v \<and> (\<forall>k. k \<noteq> n \<longrightarrow> getCookie k (pref_jar s') = getCookie k (pref_jar s))"
    by (auto simp: init)
next
  fix s :: pref assume ok: "jar_ok (pref_jar s)"
  from drop_value_ok[OF ok n, of d] none
  show "\<exists>s'. drop_value n d s = Inr s' \<and> pref_value s' = d \<and> jar_ok (pref_jar s') \<and>
      initial (pref_jar s') = Inr d \<and> (\<forall>k. k \<noteq> n \<longrightarrow> getCookie k (pref_jar s') = getCookie k (pref_jar s))"
    by (auto simp: init)
qed

text \<open>The setters as they are; the layout has no way to drop a cookie, it stores the default instead.\<close>

lemma setter_eqs:
  "setDir https = keep_value https DIRECTION_COOKIE_NAME DIRECTION_COOKIE_MAX_AGE"
  "setTheme https = keep_value https THEME_COOKIE_NAME THEME_COOKIE_MAX_AGE"
  "setFont https = keep_value https FONT_COOKIE_NAME FONT_COOKIE_MAX_AGE"
  "resetDir = drop_value DIRECTION_COOKIE_NAME DEFAULT_DIRECTION"
  "resetTheme = drop_value THEME_COOKIE_NAME DEFAULT_THEME"
  "resetFont = drop_value FONT_COOKIE_NAME (hd fonts)"
  by (simp_all add: pref_defs fun_eq_iff)

lemma font_facts: "hd fonts \<in> set fonts"
  by (simp add: fonts_def)

interpretation direction: preference initial_dir "setDir https" resetDir DIRECTION_COOKIE_NAME DEFAULT_DIRECTION
  "keepable DIRECTION_COOKIE_NAME"
  unfolding setter_eqs
  by (rule preference_cookie[where sel = "\<lambda>v. or_default v DEFAULT_DIRECTION"])
    (auto simp: initial_dir_def or_default_def keepable_def age_defs max_safe_def intro: fits_empty encode_names lengths)

interpretation themes: preference initial_theme "setTheme https" resetTheme THEME_COOKIE_NAME DEFAULT_THEME
  "keepable THEME_COOKIE_NAME"
  unfolding setter_eqs
  by (rule preference_cookie[where sel = "\<lambda>v. or_default v DEFAULT_THEME"])
    (auto simp: initial_theme_def or_default_def keepable_def age_defs max_safe_def intro: fits_empty encode_names lengths)

interpretation font: preference initial_font "setFont https" resetFont FONT_COOKIE_NAME "hd fonts" "\<lambda>f. f \<in> set fonts"
  unfolding setter_eqs
  by (rule preference_cookie[where sel = "\<lambda>v. case v of None \<Rightarrow> hd fonts | Some f \<Rightarrow> if f \<in> set fonts then f else hd fonts"])
    (auto simp: initial_font_def age_defs max_safe_def split: sum.splits option.splits
      intro: fits_empty fits_plain encode_names encode_values lengths)

text \<open>Of the layout's values the first is the default; storing it is how the layout is reset.\<close>

lemma layout_values_fit:
  "keepable LAYOUT_COLLAPSIBLE_COOKIE_NAME DEFAULT_COLLAPSIBLE" "keepable LAYOUT_VARIANT_COOKIE_NAME DEFAULT_VARIANT"
  by (auto simp: keepable_def intro: fits_plain encode_names encode_values lengths)
    (simp_all add: DEFAULT_COLLAPSIBLE_def DEFAULT_VARIANT_def js_def)

lemma stored_default:
  assumes "\<And>jar. initial jar = (case getCookie n jar of Inl e \<Rightarrow> Inl e | Inr v \<Rightarrow> Inr (or_default v d))"
    "keepable n d" "age = jint m" "0 < m" "m \<le> max_safe"
  shows "preference initial (keep_value https n age) (keep_value https n age d) n d (keepable n)"
proof -
  have "preference initial (keep_value https n age) (drop_value n d) n d (keepable n)" if "cookie_fits n []"
    using that assms by (intro preference_cookie[where sel = "\<lambda>v. or_default v d"]) (auto simp: or_default_def keepable_def)
  moreover have "cookie_fits n []"
    using assms(2) by (auto simp: keepable_def cookie_fits_def split: option.splits)
  ultimately have laws: "preference initial (keep_value https n age) (drop_value n d) n d (keepable n)" by blast
  show ?thesis
  proof
    fix s :: pref and v assume ok: "jar_ok (pref_jar s)"
    show "keepable n v \<Longrightarrow> \<exists>s'. keep_value https n age v s = Inr s' \<and> pref_value s' = v \<and> jar_ok (pref_jar s') \<and>
        initial (pref_jar s') = Inr v \<and> (\<forall>k. k \<noteq> n \<longrightarrow> getCookie k (pref_jar s') = getCookie k (pref_jar s))"
      using preference.pick_initial[OF laws ok] by blast
    show "\<exists>s'. keep_value https n age d s = Inr s' \<and> pref_value s' = d \<and> jar_ok (pref_jar s') \<and>
        initial (pref_jar s') = Inr d \<and> (\<forall>k. k \<noteq> n \<longrightarrow> getCookie k (pref_jar s') = getCookie k (pref_jar s))"
      using preference.pick_initial[OF laws ok assms(2)] by blast
  qed
qed

interpretation collapsible: preference initial_collapsible "setCollapsible https" "setCollapsible https DEFAULT_COLLAPSIBLE"
  LAYOUT_COLLAPSIBLE_COOKIE_NAME DEFAULT_COLLAPSIBLE "keepable LAYOUT_COLLAPSIBLE_COOKIE_NAME"
proof -
  have "setCollapsible https = keep_value https LAYOUT_COLLAPSIBLE_COOKIE_NAME LAYOUT_COOKIE_MAX_AGE"
    by (simp add: setCollapsible_def fun_eq_iff)
  then show "preference initial_collapsible (setCollapsible https) (setCollapsible https DEFAULT_COLLAPSIBLE)
      LAYOUT_COLLAPSIBLE_COOKIE_NAME DEFAULT_COLLAPSIBLE (keepable LAYOUT_COLLAPSIBLE_COOKIE_NAME)"
    by (simp only:) (rule stored_default[OF initial_collapsible_def layout_values_fit(1)], auto simp: age_defs max_safe_def)
qed

interpretation variant: preference initial_variant "setVariant https" "setVariant https DEFAULT_VARIANT"
  LAYOUT_VARIANT_COOKIE_NAME DEFAULT_VARIANT "keepable LAYOUT_VARIANT_COOKIE_NAME"
proof -
  have "setVariant https = keep_value https LAYOUT_VARIANT_COOKIE_NAME LAYOUT_COOKIE_MAX_AGE"
    by (simp add: setVariant_def fun_eq_iff)
  then show "preference initial_variant (setVariant https) (setVariant https DEFAULT_VARIANT)
      LAYOUT_VARIANT_COOKIE_NAME DEFAULT_VARIANT (keepable LAYOUT_VARIANT_COOKIE_NAME)"
    by (simp only:) (rule stored_default[OF initial_variant_def layout_values_fit(2)], auto simp: age_defs max_safe_def)
qed

end
