(* ===== verification/ConfigDrawer.thy ===== *)
theory ConfigDrawer
  imports Preferences
begin

section \<open>The settings drawer and the appearance form (config-drawer.tsx, appearance-form.tsx)\<close>

text \<open>
  The preferences together, over the one cookie jar of the document, the drawer that changes and
  resets them, the form of the settings page, and what they do to the document's classes.
\<close>

record preferences =
  dir :: jsstr
  theme :: jsstr
  font :: jsstr
  collapsible :: jsstr
  variant :: jsstr
  sidebar_open :: jsstr
  pjar :: jar

text \<open>The preferences read when the program starts on a jar.\<close>

definition load_preferences :: "jar \<Rightarrow> (uri_error, preferences) thrown" where
  "load_preferences jar =
     (case (initial_dir jar, initial_theme jar, initial_font jar, initial_collapsible jar, initial_variant jar,
            sidebar_defaultOpen jar) of
        (Inr d, Inr t, Inr f, Inr c, Inr v, Inr b) \<Rightarrow>
          Inr \<lparr> dir = d, theme = t, font = f, collapsible = c, variant = v, sidebar_open = bool_text b, pjar = jar \<rparr>
      | _ \<Rightarrow> Inl URIError)"

text \<open>Running a provider's operation on its part.\<close>

definition on_part ::
    "(preferences \<Rightarrow> jsstr) \<Rightarrow> (jsstr \<Rightarrow> preferences \<Rightarrow> preferences) \<Rightarrow> (pref \<Rightarrow> (uri_error, pref) thrown) \<Rightarrow>
      preferences \<Rightarrow> (uri_error, preferences) thrown" where
  "on_part get put f s =
     (case f \<lparr> pref_value = get s, pref_jar = pjar s \<rparr> of
        Inl e \<Rightarrow> Inl e
      | Inr p \<Rightarrow> Inr ((put (pref_value p) s)\<lparr>pjar := pref_jar p\<rparr>))"

definition on_dir where "on_dir f = on_part dir (\<lambda>v s. s\<lparr>dir := v\<rparr>) f"
definition on_theme where "on_theme f = on_part theme (\<lambda>v s. s\<lparr>theme := v\<rparr>) f"
definition on_font where "on_font f = on_part font (\<lambda>v s. s\<lparr>font := v\<rparr>) f"
definition on_collapsible where "on_collapsible f = on_part collapsible (\<lambda>v s. s\<lparr>collapsible := v\<rparr>) f"
definition on_variant where "on_variant f = on_part variant (\<lambda>v s. s\<lparr>variant := v\<rparr>) f"
definition on_sidebar where "on_sidebar f = on_part sidebar_open (\<lambda>v s. s\<lparr>sidebar_open := v\<rparr>) f"

text \<open>Statements in sequence; an exception ends them.\<close>

definition and_then :: "('e, 'a) thrown \<Rightarrow> ('a \<Rightarrow> ('e, 'b) thrown) \<Rightarrow> ('e, 'b) thrown" where
  "and_then m f = (case m of Inl e \<Rightarrow> Inl e | Inr v \<Rightarrow> f v)"

lemma and_then_Inr [simp]: "and_then (Inr v) f = f v"
  by (simp add: and_then_def)

definition set_open :: "bool \<Rightarrow> preferences \<Rightarrow> (uri_error, preferences) thrown" where
  "set_open b s = on_sidebar (\<lambda>p. Inr (sidebar_setOpen b p)) s"

definition resetLayout :: "bool \<Rightarrow> preferences \<Rightarrow> (uri_error, preferences) thrown" where
  "resetLayout https s =
     and_then (on_collapsible (setCollapsible https DEFAULT_COLLAPSIBLE) s)
       (on_variant (setVariant https DEFAULT_VARIANT))"

definition handleReset :: "bool \<Rightarrow> preferences \<Rightarrow> (uri_error, preferences) thrown" where
  "handleReset https s =
     and_then (set_open True s) (\<lambda>s. and_then (on_dir resetDir s) (\<lambda>s. and_then (on_theme resetTheme s) (resetLayout https)))"

subsection \<open>The drawer's sections\<close>

datatype config_event =
  SetTheme jsstr
| SetVariant jsstr
| PickLayout jsstr
| ResetLayoutSection
| SetDir jsstr
| ResetAll

definition radioState :: "preferences \<Rightarrow> jsstr" where
  "radioState s = (if sidebar_open s = bool_text True then js ''default'' else collapsible s)"

fun config_handle :: "bool \<Rightarrow> config_event \<Rightarrow> preferences \<Rightarrow> (uri_error, preferences) thrown" where
  "config_handle https (SetTheme t) s = on_theme (setTheme https t) s"
| "config_handle https (SetVariant v) s = on_variant (setVariant https v) s"
| "config_handle https (PickLayout v) s =
     (if v = js ''default'' then set_open True s
      else and_then (set_open False s) (on_collapsible (setCollapsible https v)))"
| "config_handle https ResetLayoutSection s =
     and_then (set_open True s) (on_collapsible (setCollapsible https DEFAULT_COLLAPSIBLE))"
| "config_handle https (SetDir d) s = on_dir (setDir https d) s"
| "config_handle https ResetAll s = handleReset https s"

definition SectionTitle :: "jsstr \<Rightarrow> bool \<Rightarrow> config_event \<Rightarrow> jsstr \<Rightarrow> config_event node" where
  "SectionTitle title showReset onReset resetAriaLabel =
     El ''div'' []
       ([Txt title]
        @ show_if showReset
            [El ''Button'' [TypeButton, OnClick onReset, Attr ''aria-label'' resetAriaLabel] [El ''RotateCcw'' [] []]])"

text \<open>\<open>lower\<close> is \<open>toLowerCase\<close> of the labels below, which are ASCII.\<close>

definition lower_unit :: "unit16 \<Rightarrow> unit16" where
  "lower_unit u = (if 0x41 \<le> u \<and> u \<le> 0x5A then u + 32 else u)"

definition radio_item :: "jsstr \<Rightarrow> jsstr \<Rightarrow> config_event node" where
  "radio_item v label =
     El ''Item'' [Val v, Attr ''aria-label'' (js ''Select '' @ map lower_unit label), Attr ''aria-describedby'' (v @ js ''-description'')]
       [El ''div'' [Attr ''role'' (js ''img''), Attr ''aria-label'' (label @ js '' option preview'')]
          [El ''CircleCheck'' [] [], El ''icon'' [] []],
        El ''div'' [Attr ''id'' (v @ js ''-description'')] [Txt label]]"

definition ThemeConfig :: "preferences \<Rightarrow> config_event node" where
  "ThemeConfig s =
     El ''div'' []
       [SectionTitle (js ''Theme'') (theme s \<noteq> DEFAULT_THEME) (SetTheme DEFAULT_THEME) (js ''Reset theme preference to default''),
        El ''Radio'' [Val (theme s), OnValueChange SetTheme, Attr ''aria-label'' (js ''Select theme preference'')]
          [radio_item (js ''system'') (js ''System''), radio_item (js ''light'') (js ''Light''), radio_item (js ''dark'') (js ''Dark'')],
        El ''div'' [] [Txt (js ''Choose between system preference, light mode, or dark mode'')]]"

definition SidebarConfig :: "preferences \<Rightarrow> config_event node" where
  "SidebarConfig s =
     El ''div'' []
       [SectionTitle (js ''Sidebar'') (DEFAULT_VARIANT \<noteq> variant s) (SetVariant DEFAULT_VARIANT) (js ''Reset sidebar style to default''),
        El ''Radio'' [Val (variant s), OnValueChange SetVariant, Attr ''aria-label'' (js ''Select sidebar style'')]
          [radio_item (js ''inset'') (js ''Inset''), radio_item (js ''floating'') (js ''Floating''),
           radio_item (js ''sidebar'') (js ''Sidebar'')],
        El ''div'' [] [Txt (js ''Choose between inset, floating, or standard sidebar layout'')]]"

definition LayoutConfig :: "preferences \<Rightarrow> config_event node" where
  "LayoutConfig s =
     El ''div'' []
       [SectionTitle (js ''Layout'') (radioState s \<noteq> js ''default'') ResetLayoutSection (js ''Reset layout options to default''),
        El ''Radio'' [Val (radioState s), OnValueChange PickLayout, Attr ''aria-label'' (js ''Select layout style'')]
          [radio_item (js ''default'') (js ''Default''), radio_item (js ''icon'') (js ''Compact''),
           radio_item (js ''offcanvas'') (js ''Full layout'')],
        El ''div'' [] [Txt (js ''Choose between default expanded, compact icon-only, or full layout mode'')]]"

definition DirConfig :: "preferences \<Rightarrow> config_event node" where
  "DirConfig s =
     El ''div'' []
       [SectionTitle (js ''Direction'') (DEFAULT_DIRECTION \<noteq> dir s) (SetDir DEFAULT_DIRECTION) (js ''Reset text direction to default''),
        El ''Radio'' [Val (dir s), OnValueChange SetDir, Attr ''aria-label'' (js ''Select site direction'')]
          [radio_item (js ''ltr'') (js ''Left to Right''), radio_item (js ''rtl'') (js ''Right to Left'')],
        El ''div'' [] [Txt (js ''Choose between left-to-right or right-to-left site direction'')]]"

definition ConfigDrawer :: "preferences \<Rightarrow> config_event node" where
  "ConfigDrawer s =
     El ''Sheet'' []
       [El ''SheetTrigger'' [] [El ''Button'' [Attr ''aria-label'' (js ''Open theme settings'')] [El ''Settings'' [] []]],
        El ''SheetContent'' []
          [El ''SheetHeader'' []
             [El ''SheetTitle'' [] [Txt (js ''Theme Settings'')],
              El ''SheetDescription'' [] [Txt (js ''Adjust the appearance and layout to suit your preferences.'')]],
           El ''div'' [] [ThemeConfig s, SidebarConfig s, LayoutConfig s, DirConfig s],
           El ''SheetFooter'' []
             [El ''Button'' [Attr ''variant'' (js ''destructive''), OnClick ResetAll,
                             Attr ''aria-label'' (js ''Reset all settings to default values'')] [Txt (js ''Reset'')]]]]"

text \<open>The switch of the page header offers the three themes.\<close>

definition ThemeSwitch :: "preferences \<Rightarrow> config_event node" where
  "ThemeSwitch s =
     El ''DropdownMenu'' []
       [El ''DropdownMenuTrigger'' []
          [El ''Button'' [Attr ''variant'' (js ''ghost'')]
            [El ''Sun'' [] [], El ''Moon'' [] [], El ''span'' [] [Txt (js ''Toggle theme'')]]],
        El ''DropdownMenuContent'' []
          [El ''DropdownMenuItem'' [OnClick (SetTheme (js ''light''))]
             [Txt (js ''Light''), Txt (js '' ''), El ''Check'' [Flag ''hidden'' (theme s \<noteq> js ''light'')] []],
           El ''DropdownMenuItem'' [OnClick (SetTheme (js ''dark''))]
             [Txt (js ''Dark''), El ''Check'' [Flag ''hidden'' (theme s \<noteq> js ''dark'')] []],
           El ''DropdownMenuItem'' [OnClick (SetTheme (js ''system''))]
             [Txt (js ''System''), El ''Check'' [Flag ''hidden'' (theme s \<noteq> js ''system'')] []]]]"

subsection \<open>The appearance form\<close>

record appearance_values =
  av_theme :: jsstr
  av_font :: jsstr

definition appearance_defaults :: "preferences \<Rightarrow> appearance_values" where
  "appearance_defaults s = \<lparr> av_theme = theme s, av_font = font s \<rparr>"

definition appearanceFormSchema :: "appearance_values \<Rightarrow> bool" where
  "appearanceFormSchema v \<longleftrightarrow> av_theme v \<in> {js ''light'', js ''dark''} \<and> av_font v \<in> set fonts"

definition appearance_onSubmit ::
    "bool \<Rightarrow> appearance_values \<Rightarrow> preferences \<Rightarrow> (uri_error, preferences \<times> session_effect list) thrown" where
  "appearance_onSubmit https data s =
     and_then (if av_font data \<noteq> font s then on_font (setFont https (av_font data)) s else Inr s)
       (\<lambda>s1. and_then (if av_theme data \<noteq> theme s then on_theme (setTheme https (av_theme data)) s1 else Inr s1)
         (\<lambda>s2. Inr (s2, [Toast_success txt_appearance_updated])))"

text \<open>Submitting: the handler runs only on values the schema accepts; otherwise only messages appear.\<close>

definition submit_appearance ::
    "bool \<Rightarrow> appearance_values \<Rightarrow> preferences \<Rightarrow> (uri_error, preferences \<times> session_effect list) thrown" where
  "submit_appearance https v s = (if appearanceFormSchema v then appearance_onSubmit https v s else Inr (s, []))"

text \<open>
  The small pictures of the two themes are left out. \<open>msg\<close> is what is shown of the issues of a field,
  of the last submission; the radio buttons start from the value the form had when it was mounted.
\<close>

datatype appearance_event = PickFont jsstr | PickTheme jsstr | SubmitAppearance

definition shown_message :: "jsstr option \<Rightarrow> 'e node list" where
  "shown_message msg = (case msg of None \<Rightarrow> [] | Some m \<Rightarrow> show_if (m \<noteq> []) [El ''FormMessage'' [] [Txt m]])"

definition AppearanceForm :: "(string \<Rightarrow> jsstr option) \<Rightarrow> jsstr \<Rightarrow> appearance_values \<Rightarrow> appearance_event node" where
  "AppearanceForm msg mounted v =
     El ''form'' [OnSubmit SubmitAppearance]
       [El ''FormItem'' []
          ([El ''FormLabel'' [] [Txt txt_font_label],
            El ''div'' []
              [El ''select'' [Val (av_font v), OnValueChange PickFont] (map (\<lambda>f. El ''option'' [Val f] [Txt f]) fonts),
               El ''ChevronDownIcon'' [] []],
            El ''FormDescription'' [] [Txt txt_font_desc]] @ shown_message (msg ''font'')),
        El ''FormItem'' []
          ([El ''FormLabel'' [] [Txt txt_theme_label],
            El ''FormDescription'' [] [Txt txt_theme_desc]] @ shown_message (msg ''theme'') @
           [El ''RadioGroup'' [Attr ''defaultValue'' mounted, OnValueChange PickTheme]
             [El ''FormItem'' [] [El ''FormLabel'' [] [El ''RadioGroupItem'' [Val (js ''light'')] [], El ''span'' [] [Txt txt_theme_light]]],
              El ''FormItem'' [] [El ''FormLabel'' [] [El ''RadioGroupItem'' [Val (js ''dark'')] [], El ''span'' [] [Txt txt_theme_dark]]]]]),
        El ''Button'' [TypeSubmit] [Txt txt_save_appearance]]"

subsection \<open>What is shown is what is kept\<close>

text \<open>A start on the jar would read exactly these preferences.\<close>

definition kept :: "preferences \<Rightarrow> bool" where
  "kept s \<longleftrightarrow> jar_ok (pjar s) \<and> load_preferences (pjar s) = Inr s"

lemma kept_iff:
  "kept s \<longleftrightarrow> jar_ok (pjar s) \<and> initial_dir (pjar s) = Inr (dir s) \<and> initial_theme (pjar s) = Inr (theme s) \<and>
     initial_font (pjar s) = Inr (font s) \<and> initial_collapsible (pjar s) = Inr (collapsible s) \<and>
     initial_variant (pjar s) = Inr (variant s) \<and>
     (\<exists>b. sidebar_defaultOpen (pjar s) = Inr b \<and> sidebar_open s = bool_text b)"
  by (cases s) (auto simp: kept_def load_preferences_def split: sum.splits)

text \<open>What is kept under different names is independent.\<close>

definition pref_names :: "jsstr list" where
  "pref_names = [DIRECTION_COOKIE_NAME, THEME_COOKIE_NAME, FONT_COOKIE_NAME, LAYOUT_COLLAPSIBLE_COOKIE_NAME,
     LAYOUT_VARIANT_COOKIE_NAME, SIDEBAR_COOKIE_NAME, ACCESS_TOKEN_COOKIE]"

lemma names_distinct: "distinct pref_names"
  by (simp add: pref_names_def DIRECTION_COOKIE_NAME_def THEME_COOKIE_NAME_def FONT_COOKIE_NAME_def
      LAYOUT_COLLAPSIBLE_COOKIE_NAME_def LAYOUT_VARIANT_COOKIE_NAME_def SIDEBAR_COOKIE_NAME_def ACCESS_TOKEN_COOKIE_def js_def)

lemmas names_differ = names_distinct[unfolded pref_names_def distinct.simps, simplified]

definition same_but :: "jsstr \<Rightarrow> jar \<Rightarrow> jar \<Rightarrow> bool" where
  "same_but n j j' \<longleftrightarrow> (\<forall>k. k \<noteq> n \<longrightarrow> getCookie k j' = getCookie k j)"

lemma initial_cong:
  "same_but n j j' \<Longrightarrow> n \<noteq> DIRECTION_COOKIE_NAME \<Longrightarrow> initial_dir j' = initial_dir j"
  "same_but n j j' \<Longrightarrow> n \<noteq> THEME_COOKIE_NAME \<Longrightarrow> initial_theme j' = initial_theme j"
  "same_but n j j' \<Longrightarrow> n \<noteq> FONT_COOKIE_NAME \<Longrightarrow> initial_font j' = initial_font j"
  "same_but n j j' \<Longrightarrow> n \<noteq> LAYOUT_COLLAPSIBLE_COOKIE_NAME \<Longrightarrow> initial_collapsible j' = initial_collapsible j"
  "same_but n j j' \<Longrightarrow> n \<noteq> LAYOUT_VARIANT_COOKIE_NAME \<Longrightarrow> initial_variant j' = initial_variant j"
  "same_but n j j' \<Longrightarrow> n \<noteq> SIDEBAR_COOKIE_NAME \<Longrightarrow> sidebar_defaultOpen j' = sidebar_defaultOpen j"
  by (simp_all add: same_but_def initial_dir_def initial_theme_def initial_font_def initial_collapsible_def
      initial_variant_def sidebar_defaultOpen_def SIDEBAR_COOKIE_NAME_def)

subsection \<open>The sidebar's cookie\<close>

lemma expires_max_age_lower: "0 < m \<Longrightarrow> m \<le> max_safe \<Longrightarrow> \<not> expires (js '' max-age='' @ dec m)"
proof -
  assume m: "0 < m" "m \<le> max_safe"
  have d: "\<forall>u \<in> set (dec m). \<not> is_ws u" using dec_digits[of m] m by auto
  then have "trim (js ''max-age='' @ dec m) = js ''max-age='' @ dec m"
    by (intro trim_no_ws) (auto simp: js_def is_ws_def)
  moreover have "trim (0x20 # js ''max-age='' @ dec m) = trim (js ''max-age='' @ dec m)"
    by (simp add: trim_def is_ws_def)
  moreover have "js '' max-age='' = 0x20 # js ''max-age=''" by (simp add: js_def)
  ultimately have "trim (js '' max-age='' @ dec m) = js ''max-age='' @ dec m" by simp
  then show ?thesis using m by (simp add: expires_def Number_dec Let_def)
qed

lemma expires_path_lower: "\<not> expires (js '' path=/'')"
  by (simp add: expires_def js_def trim_def is_ws_def starts_with_def Let_def)

lemma sidebar_put:
  "pref_jar (sidebar_setOpen b s) = put_cookie SIDEBAR_COOKIE_NAME (bool_text b) (pref_jar s)"
proof -
  let ?as = "[js '' path=/'', js '' max-age='' @ dec 604800]"
  have "0x3B \<notin> set (dec 604800)" using dec_digits[of 604800] by (auto simp: is_digit_def)
  then have as: "\<forall>a \<in> set ?as. 0x3B \<notin> set a" by (simp add: js_def)
  have e: "\<not> list_ex expires ?as"
    using expires_path_lower expires_max_age_lower[of 604800] year_safe by simp
  have t: "js ''; path=/; max-age='' @ to_string SIDEBAR_COOKIE_MAX_AGE = concat (map (\<lambda>a. 0x3B # a) ?as)"
    using year_safe by (simp add: age_defs to_string_nonneg) (simp add: js_def)
  from assign_cookie_text[OF encode_names(6) encode_values(5)[of b] as, of "pref_jar s"] e lengths(6) lengths(7)[of b]
  show ?thesis by (simp add: sidebar_setOpen_def t)
qed

lemma sidebar_kept:
  assumes "jar_ok (pref_jar s)"
  shows "jar_ok (pref_jar (sidebar_setOpen b s)) \<and> sidebar_defaultOpen (pref_jar (sidebar_setOpen b s)) = Inr b \<and>
    same_but SIDEBAR_COOKIE_NAME (pref_jar s) (pref_jar (sidebar_setOpen b s))"
proof -
  let ?jar = "put_cookie SIDEBAR_COOKIE_NAME (bool_text b) (pref_jar s)"
  have ok: "jar_ok ?jar"
    using put_cookie_ok[OF assms] encoded_no_sep[OF encode_names(6)] encoded_no_sep[OF encode_values(5)] by blast
  have ne: "bool_text b \<noteq> []" by (simp add: bool_text_def js_def)
  have "getCookie SIDEBAR_COOKIE_NAME ?jar = Inr (Some (bool_text b))"
    using getCookie_entry[OF ok encode_names(6) put_cookie_in] decode_encode[OF encode_values(5)[of b]] ne by simp
  then have "sidebar_defaultOpen ?jar = Inr b"
    by (simp add: sidebar_defaultOpen_def SIDEBAR_COOKIE_NAME_def) (simp add: bool_text_def js_def)
  moreover have "same_but SIDEBAR_COOKIE_NAME (pref_jar s) ?jar"
    unfolding same_but_def using getCookie_other_name[OF assms ok encode_names(6)] put_cookie_other by blast
  ultimately show ?thesis using ok by (simp add: sidebar_put)
qed

subsection \<open>One change of one preference\<close>

text \<open>The outcome every provider guarantees for its part, as the contract states it.\<close>

definition part_done :: "jsstr \<Rightarrow> (jar \<Rightarrow> (uri_error, jsstr) thrown) \<Rightarrow> jsstr \<Rightarrow> jar \<Rightarrow> (uri_error, pref) thrown \<Rightarrow> bool" where
  "part_done n initial v jar r \<longleftrightarrow> (\<exists>p. r = Inr p \<and> pref_value p = v \<and> jar_ok (pref_jar p) \<and>
     initial (pref_jar p) = Inr v \<and> same_but n jar (pref_jar p))"

lemma on_part_done:
  assumes "part_done n initial v (pjar s) (f \<lparr> pref_value = get s, pref_jar = pjar s \<rparr>)"
  obtains jar where "on_part get put f s = Inr ((put v s)\<lparr>pjar := jar\<rparr>)" "jar_ok jar" "initial jar = Inr v"
    "same_but n (pjar s) jar"
  using assms by (auto simp: part_done_def on_part_def)

lemma parts_done:
  assumes "jar_ok jar"
  shows "keepable DIRECTION_COOKIE_NAME v \<Longrightarrow>
      part_done DIRECTION_COOKIE_NAME initial_dir v jar (setDir https v \<lparr> pref_value = x, pref_jar = jar \<rparr>)"
    and "part_done DIRECTION_COOKIE_NAME initial_dir DEFAULT_DIRECTION jar (resetDir \<lparr> pref_value = x, pref_jar = jar \<rparr>)"
    and "keepable THEME_COOKIE_NAME v \<Longrightarrow>
      part_done THEME_COOKIE_NAME initial_theme v jar (setTheme https v \<lparr> pref_value = x, pref_jar = jar \<rparr>)"
    and "part_done THEME_COOKIE_NAME initial_theme DEFAULT_THEME jar (resetTheme \<lparr> pref_value = x, pref_jar = jar \<rparr>)"
    and "v \<in> set fonts \<Longrightarrow> part_done FONT_COOKIE_NAME initial_font v jar (setFont https v \<lparr> pref_value = x, pref_jar = jar \<rparr>)"
    and "keepable LAYOUT_COLLAPSIBLE_COOKIE_NAME v \<Longrightarrow>
      part_done LAYOUT_COLLAPSIBLE_COOKIE_NAME initial_collapsible v jar (setCollapsible https v \<lparr> pref_value = x, pref_jar = jar \<rparr>)"
    and "keepable LAYOUT_VARIANT_COOKIE_NAME v \<Longrightarrow>
      part_done LAYOUT_VARIANT_COOKIE_NAME initial_variant v jar (setVariant https v \<lparr> pref_value = x, pref_jar = jar \<rparr>)"
proof -
  have ok: "jar_ok (pref_jar \<lparr> pref_value = x, pref_jar = jar \<rparr>)" using assms by simp
  show "keepable DIRECTION_COOKIE_NAME v \<Longrightarrow>
      part_done DIRECTION_COOKIE_NAME initial_dir v jar (setDir https v \<lparr> pref_value = x, pref_jar = jar \<rparr>)"
    using direction.pick_initial[OF ok, of v https] by (simp add: part_done_def same_but_def)
  show "part_done DIRECTION_COOKIE_NAME initial_dir DEFAULT_DIRECTION jar (resetDir \<lparr> pref_value = x, pref_jar = jar \<rparr>)"
    using direction.reset_initial[OF ok] by (simp add: part_done_def same_but_def)
  show "keepable THEME_COOKIE_NAME v \<Longrightarrow>
      part_done THEME_COOKIE_NAME initial_theme v jar (setTheme https v \<lparr> pref_value = x, pref_jar = jar \<rparr>)"
    using themes.pick_initial[OF ok, of v https] by (simp add: part_done_def same_but_def)
  show "part_done THEME_COOKIE_NAME initial_theme DEFAULT_THEME jar (resetTheme \<lparr> pref_value = x, pref_jar = jar \<rparr>)"
    using themes.reset_initial[OF ok] by (simp add: part_done_def same_but_def)
  show "v \<in> set fonts \<Longrightarrow> part_done FONT_COOKIE_NAME initial_font v jar (setFont https v \<lparr> pref_value = x, pref_jar = jar \<rparr>)"
    using font.pick_initial[OF ok, of v https] by (simp add: part_done_def same_but_def)
  show "keepable LAYOUT_COLLAPSIBLE_COOKIE_NAME v \<Longrightarrow>
      part_done LAYOUT_COLLAPSIBLE_COOKIE_NAME initial_collapsible v jar (setCollapsible https v \<lparr> pref_value = x, pref_jar = jar \<rparr>)"
    using collapsible.pick_initial[OF ok, of v https] by (simp add: part_done_def same_but_def)
  show "keepable LAYOUT_VARIANT_COOKIE_NAME v \<Longrightarrow>
      part_done LAYOUT_VARIANT_COOKIE_NAME initial_variant v jar (setVariant https v \<lparr> pref_value = x, pref_jar = jar \<rparr>)"
    using variant.pick_initial[OF ok, of v https] by (simp add: part_done_def same_but_def)
qed

subsection \<open>Every event keeps the preferences\<close>

lemma kept_jar: "kept s \<Longrightarrow> jar_ok (pjar s)"
  by (simp add: kept_def)

text \<open>Each part changed in the cookies and in memory alike leaves the whole kept.\<close>

lemma kept_dir: "kept s \<Longrightarrow> part_done DIRECTION_COOKIE_NAME initial_dir v (pjar s) (f \<lparr> pref_value = dir s, pref_jar = pjar s \<rparr>) \<Longrightarrow>
    \<exists>jar. on_dir f s = Inr (s\<lparr>dir := v, pjar := jar\<rparr>) \<and> kept (s\<lparr>dir := v, pjar := jar\<rparr>) \<and> same_but DIRECTION_COOKIE_NAME (pjar s) jar"
  unfolding on_dir_def
  by (erule on_part_done[where put = "\<lambda>v s. s\<lparr>dir := v\<rparr>"]) (use names_differ in \<open>auto simp: kept_iff initial_cong\<close>)

lemma kept_theme: "kept s \<Longrightarrow> part_done THEME_COOKIE_NAME initial_theme v (pjar s) (f \<lparr> pref_value = theme s, pref_jar = pjar s \<rparr>) \<Longrightarrow>
    \<exists>jar. on_theme f s = Inr (s\<lparr>theme := v, pjar := jar\<rparr>) \<and> kept (s\<lparr>theme := v, pjar := jar\<rparr>) \<and> same_but THEME_COOKIE_NAME (pjar s) jar"
  unfolding on_theme_def
  by (erule on_part_done[where put = "\<lambda>v s. s\<lparr>theme := v\<rparr>"]) (use names_differ in \<open>auto simp: kept_iff initial_cong\<close>)

lemma kept_font: "kept s \<Longrightarrow> part_done FONT_COOKIE_NAME initial_font v (pjar s) (f \<lparr> pref_value = font s, pref_jar = pjar s \<rparr>) \<Longrightarrow>
    \<exists>jar. on_font f s = Inr (s\<lparr>font := v, pjar := jar\<rparr>) \<and> kept (s\<lparr>font := v, pjar := jar\<rparr>) \<and> same_but FONT_COOKIE_NAME (pjar s) jar"
  unfolding on_font_def
  by (erule on_part_done[where put = "\<lambda>v s. s\<lparr>font := v\<rparr>"]) (use names_differ in \<open>auto simp: kept_iff initial_cong\<close>)

lemma kept_collapsible: "kept s \<Longrightarrow> part_done LAYOUT_COLLAPSIBLE_COOKIE_NAME initial_collapsible v (pjar s) (f \<lparr> pref_value = collapsible s, pref_jar = pjar s \<rparr>) \<Longrightarrow>
    \<exists>jar. on_collapsible f s = Inr (s\<lparr>collapsible := v, pjar := jar\<rparr>) \<and> kept (s\<lparr>collapsible := v, pjar := jar\<rparr>) \<and> same_but LAYOUT_COLLAPSIBLE_COOKIE_NAME (pjar s) jar"
  unfolding on_collapsible_def
  by (erule on_part_done[where put = "\<lambda>v s. s\<lparr>collapsible := v\<rparr>"]) (use names_differ in \<open>auto simp: kept_iff initial_cong\<close>)

lemma kept_variant: "kept s \<Longrightarrow> part_done LAYOUT_VARIANT_COOKIE_NAME initial_variant v (pjar s) (f \<lparr> pref_value = variant s, pref_jar = pjar s \<rparr>) \<Longrightarrow>
    \<exists>jar. on_variant f s = Inr (s\<lparr>variant := v, pjar := jar\<rparr>) \<and> kept (s\<lparr>variant := v, pjar := jar\<rparr>) \<and> same_but LAYOUT_VARIANT_COOKIE_NAME (pjar s) jar"
  unfolding on_variant_def
  by (erule on_part_done[where put = "\<lambda>v s. s\<lparr>variant := v\<rparr>"]) (use names_differ in \<open>auto simp: kept_iff initial_cong\<close>)

lemma kept_sidebar:
  assumes "kept s"
  shows "\<exists>jar. set_open b s = Inr (s\<lparr>sidebar_open := bool_text b, pjar := jar\<rparr>) \<and>
    kept (s\<lparr>sidebar_open := bool_text b, pjar := jar\<rparr>) \<and> same_but SIDEBAR_COOKIE_NAME (pjar s) jar"
proof -
  let ?p = "\<lparr> pref_value = sidebar_open s, pref_jar = pjar s \<rparr>"
  have "jar_ok (pref_jar ?p)" using assms kept_jar by simp
  from sidebar_kept[OF this, of b] assms names_differ show ?thesis
    by (auto simp: set_open_def on_sidebar_def on_part_def kept_iff initial_cong sidebar_setOpen_def)
qed

text \<open>The events the drawer and the switch offer are changes to values that can be kept.\<close>

fun config_event_ok :: "config_event \<Rightarrow> bool" where
  "config_event_ok (SetTheme t) = keepable THEME_COOKIE_NAME t"
| "config_event_ok (SetVariant v) = keepable LAYOUT_VARIANT_COOKIE_NAME v"
| "config_event_ok (PickLayout v) = keepable LAYOUT_COLLAPSIBLE_COOKIE_NAME v"
| "config_event_ok (SetDir d) = keepable DIRECTION_COOKIE_NAME d"
| "config_event_ok _ = True"

text \<open>What an event may change outside the preferences: nothing.\<close>

definition others_same :: "jar \<Rightarrow> jar \<Rightarrow> bool" where
  "others_same j j' \<longleftrightarrow> (\<forall>k. k \<notin> set (butlast pref_names) \<longrightarrow> getCookie k j' = getCookie k j)"

lemma others_same_trans: "others_same i j \<Longrightarrow> others_same j k \<Longrightarrow> others_same i k"
  by (simp add: others_same_def)

lemma others_same_but:
  "same_but n j j' \<Longrightarrow> n \<in> set (butlast pref_names) \<Longrightarrow> others_same j j'"
  by (auto simp: same_but_def others_same_def)

lemma butlast_names: "set (butlast pref_names) = {DIRECTION_COOKIE_NAME, THEME_COOKIE_NAME, FONT_COOKIE_NAME,
    LAYOUT_COLLAPSIBLE_COOKIE_NAME, LAYOUT_VARIANT_COOKIE_NAME, SIDEBAR_COOKIE_NAME}"
  by (simp add: pref_names_def)

lemma others_same_names:
  "same_but DIRECTION_COOKIE_NAME j j' \<Longrightarrow> others_same j j'" "same_but THEME_COOKIE_NAME j j' \<Longrightarrow> others_same j j'"
  "same_but FONT_COOKIE_NAME j j' \<Longrightarrow> others_same j j'" "same_but LAYOUT_COLLAPSIBLE_COOKIE_NAME j j' \<Longrightarrow> others_same j j'"
  "same_but LAYOUT_VARIANT_COOKIE_NAME j j' \<Longrightarrow> others_same j j'" "same_but SIDEBAR_COOKIE_NAME j j' \<Longrightarrow> others_same j j'"
  by (simp_all add: others_same_def same_but_def butlast_names)

lemma resetLayout_kept:
  assumes "kept s"
  shows "\<exists>jar. resetLayout https s = Inr (s\<lparr>collapsible := DEFAULT_COLLAPSIBLE, variant := DEFAULT_VARIANT, pjar := jar\<rparr>) \<and>
    kept (s\<lparr>collapsible := DEFAULT_COLLAPSIBLE, variant := DEFAULT_VARIANT, pjar := jar\<rparr>) \<and> others_same (pjar s) jar"
proof -
  from kept_collapsible[where f = "setCollapsible https DEFAULT_COLLAPSIBLE", OF assms parts_done(6)[OF kept_jar[OF assms] layout_values_fit(1), of https]]
  obtain j1 where 1: "on_collapsible (setCollapsible https DEFAULT_COLLAPSIBLE) s = Inr (s\<lparr>collapsible := DEFAULT_COLLAPSIBLE, pjar := j1\<rparr>)"
    "kept (s\<lparr>collapsible := DEFAULT_COLLAPSIBLE, pjar := j1\<rparr>)" "same_but LAYOUT_COLLAPSIBLE_COOKIE_NAME (pjar s) j1" by blast
  from kept_variant[where f = "setVariant https DEFAULT_VARIANT", OF 1(2) parts_done(7)[OF kept_jar[OF 1(2)] layout_values_fit(2), of https]] 1 show ?thesis
    by (auto simp: resetLayout_def butlast_names intro!: others_same_trans[OF others_same_but[OF 1(3)] others_same_but])
qed

lemma handleReset_kept:
  assumes "kept s"
  shows "\<exists>jar. handleReset https s = Inr \<lparr> dir = DEFAULT_DIRECTION, theme = DEFAULT_THEME, font = font s,
      collapsible = DEFAULT_COLLAPSIBLE, variant = DEFAULT_VARIANT, sidebar_open = bool_text True, pjar = jar \<rparr> \<and>
    kept \<lparr> dir = DEFAULT_DIRECTION, theme = DEFAULT_THEME, font = font s,
      collapsible = DEFAULT_COLLAPSIBLE, variant = DEFAULT_VARIANT, sidebar_open = bool_text True, pjar = jar \<rparr> \<and>
    others_same (pjar s) jar"
proof -
  from kept_sidebar[OF assms, of True] obtain j1 s1 where
    1: "set_open True s = Inr s1" "kept s1" "same_but SIDEBAR_COOKIE_NAME (pjar s) j1"
    "s1 = s\<lparr>sidebar_open := bool_text True, pjar := j1\<rparr>" by blast
  from kept_dir[where f = resetDir, OF 1(2) parts_done(2)[OF kept_jar[OF 1(2)]]] obtain j2 s2 where
    2: "on_dir resetDir s1 = Inr s2" "kept s2" "same_but DIRECTION_COOKIE_NAME (pjar s1) j2"
    "s2 = s1\<lparr>dir := DEFAULT_DIRECTION, pjar := j2\<rparr>" by blast
  from kept_theme[where f = resetTheme, OF 2(2) parts_done(4)[OF kept_jar[OF 2(2)]]] obtain j3 s3 where
    3: "on_theme resetTheme s2 = Inr s3" "kept s3" "same_but THEME_COOKIE_NAME (pjar s2) j3"
    "s3 = s2\<lparr>theme := DEFAULT_THEME, pjar := j3\<rparr>" by blast
  from resetLayout_kept[OF 3(2), of https] obtain j4 s4 where
    4: "resetLayout https s3 = Inr s4" "kept s4" "others_same (pjar s3) j4"
    "s4 = s3\<lparr>collapsible := DEFAULT_COLLAPSIBLE, variant := DEFAULT_VARIANT, pjar := j4\<rparr>" by blast
  have "others_same (pjar s) j1" "others_same j1 j2" "others_same j2 j3" "others_same j3 j4"
    using 1(3,4) 2(3,4) 3(3,4) 4(3) by (auto intro: others_same_names)
  then have "others_same (pjar s) j4" by (metis others_same_trans)
  moreover have "handleReset https s = Inr s4" using 1(1) 2(1) 3(1) 4(1) by (simp add: handleReset_def)
  moreover have "s4 = \<lparr> dir = DEFAULT_DIRECTION, theme = DEFAULT_THEME, font = font s,
      collapsible = DEFAULT_COLLAPSIBLE, variant = DEFAULT_VARIANT, sidebar_open = bool_text True, pjar = j4 \<rparr>" by (simp add: 1(4) 2(4) 3(4) 4(4))
  ultimately show ?thesis using 4(2) by metis
qed

lemma config_handle_kept:
  assumes "kept s" "config_event_ok e"
  shows "\<exists>s'. config_handle https e s = Inr s' \<and> kept s' \<and> others_same (pjar s) (pjar s')"
proof (cases e)
  case (SetTheme t)
  with assms kept_theme[where f = "setTheme https t", OF assms(1) parts_done(3)[OF kept_jar[OF assms(1)]]] show ?thesis
    by (auto intro: others_same_names)
next
  case (SetVariant v)
  with assms kept_variant[where f = "setVariant https v", OF assms(1) parts_done(7)[OF kept_jar[OF assms(1)]]] show ?thesis
    by (auto intro: others_same_names)
next
  case (PickLayout v)
  show ?thesis
  proof (cases "v = js ''default''")
    case True
    with PickLayout kept_sidebar[OF assms(1), of True] show ?thesis by (auto intro: others_same_names)
  next
    case False
    from kept_sidebar[OF assms(1), of False] obtain j1 s1 where
      1: "set_open False s = Inr s1" "kept s1" "same_but SIDEBAR_COOKIE_NAME (pjar s) (pjar s1)"
      "s1 = s\<lparr>sidebar_open := bool_text False, pjar := j1\<rparr>" by auto
    have "keepable LAYOUT_COLLAPSIBLE_COOKIE_NAME v" using assms(2) PickLayout by simp
    from kept_collapsible[where f = "setCollapsible https v", OF 1(2) parts_done(6)[OF kept_jar[OF 1(2)] this]]
    obtain s2 where "on_collapsible (setCollapsible https v) s1 = Inr s2" "kept s2"
      "same_but LAYOUT_COLLAPSIBLE_COOKIE_NAME (pjar s1) (pjar s2)" by auto
    with PickLayout False 1(1) show ?thesis
      by (auto intro!: others_same_trans[OF others_same_names(6)[OF 1(3)] others_same_names(4)])
  qed
next
  case ResetLayoutSection
  from kept_sidebar[OF assms(1), of True] obtain j1 s1 where
    1: "set_open True s = Inr s1" "kept s1" "same_but SIDEBAR_COOKIE_NAME (pjar s) (pjar s1)"
    "s1 = s\<lparr>sidebar_open := bool_text True, pjar := j1\<rparr>" by auto
  from kept_collapsible[where f = "setCollapsible https DEFAULT_COLLAPSIBLE", OF 1(2) parts_done(6)[OF kept_jar[OF 1(2)] layout_values_fit(1)]]
  obtain s2 where "on_collapsible (setCollapsible https DEFAULT_COLLAPSIBLE) s1 = Inr s2" "kept s2"
    "same_but LAYOUT_COLLAPSIBLE_COOKIE_NAME (pjar s1) (pjar s2)" by auto
  with ResetLayoutSection 1(1) show ?thesis
    by (auto intro!: others_same_trans[OF others_same_names(6)[OF 1(3)] others_same_names(4)])
next
  case (SetDir d)
  with assms kept_dir[where f = "setDir https d", OF assms(1) parts_done(1)[OF kept_jar[OF assms(1)]]] show ?thesis
    by (auto intro: others_same_names)
next
  case ResetAll
  with handleReset_kept[OF assms(1), of https] show ?thesis by auto
qed

subsection \<open>What the drawer offers\<close>

lemma plain_options:
  "list_all uri_unreserved (js ''light'')" "list_all uri_unreserved (js ''dark'')" "list_all uri_unreserved (js ''rtl'')"
  "list_all uri_unreserved (js ''floating'')" "list_all uri_unreserved (js ''sidebar'')" "list_all uri_unreserved (js ''default'')"
  "list_all uri_unreserved (js ''offcanvas'')"
  by (simp add: js_def, simp add: uri_unreserved_def)+

lemma keepable_plain:
  "encodeURIComponent n = Some n \<Longrightarrow> length n \<le> 100 \<Longrightarrow> list_all uri_unreserved v \<Longrightarrow> v \<noteq> [] \<Longrightarrow> length v \<le> 100 \<Longrightarrow> keepable n v"
  by (simp add: keepable_def fits_plain encode_plain)

lemma js_lengths: "length (js x) = length x" "js x = [] \<longleftrightarrow> x = []"
  by (simp_all add: js_def)

lemma drawer_events_ok:
  assumes "offers (ConfigDrawer s) e \<or> offers (ThemeSwitch s) e"
  shows "config_event_ok e"
proof -
  have "e \<in> {SetTheme (js ''system''), SetTheme (js ''light''), SetTheme (js ''dark''), SetTheme DEFAULT_THEME,
      SetVariant (js ''inset''), SetVariant (js ''floating''), SetVariant (js ''sidebar''), SetVariant DEFAULT_VARIANT,
      PickLayout (js ''default''), PickLayout (js ''icon''), PickLayout (js ''offcanvas''), ResetLayoutSection,
      SetDir (js ''ltr''), SetDir (js ''rtl''), SetDir DEFAULT_DIRECTION, ResetAll}"
    using assms
    by (auto simp: ConfigDrawer_def ThemeConfig_def SidebarConfig_def LayoutConfig_def DirConfig_def SectionTitle_def
        radio_item_def ThemeSwitch_def offers_El split: if_splits)
  then show ?thesis
    using plain_values plain_options encode_names lengths
    by (auto simp: js_lengths DEFAULT_THEME_def DEFAULT_VARIANT_def DEFAULT_DIRECTION_def intro!: keepable_plain)
qed

fun config_run :: "bool \<Rightarrow> config_event list \<Rightarrow> preferences \<Rightarrow> (uri_error, preferences) thrown" where
  "config_run https [] s = Inr s"
| "config_run https (e # es) s = and_then (config_handle https e s) (config_run https es)"

lemma config_run_kept:
  "kept s \<Longrightarrow> \<forall>e \<in> set es. config_event_ok e \<Longrightarrow>
   \<exists>s'. config_run https es s = Inr s' \<and> kept s' \<and> others_same (pjar s) (pjar s')"
proof (induction es arbitrary: s)
  case Nil
  then show ?case by (simp add: others_same_def)
next
  case (Cons e es)
  from config_handle_kept[OF Cons.prems(1), of e https] Cons.prems(2) obtain s1 where
    1: "config_handle https e s = Inr s1" "kept s1" "others_same (pjar s) (pjar s1)" by auto
  from Cons.IH[OF 1(2)] Cons.prems(2) obtain s2 where "config_run https es s1 = Inr s2" "kept s2" "others_same (pjar s1) (pjar s2)" by auto
  with 1 show ?case using others_same_trans by auto
qed

subsection \<open>Properties\<close>

definition start_preferences :: preferences where
  "start_preferences = \<lparr> dir = DEFAULT_DIRECTION, theme = DEFAULT_THEME, font = hd fonts, collapsible = DEFAULT_COLLAPSIBLE,
     variant = DEFAULT_VARIANT, sidebar_open = bool_text True, pjar = [] \<rparr>"

lemma kept_start: "kept start_preferences"
proof -
  have "getCookie k [] = Inr None" if "k \<in> set pref_names" for k
    using that getCookie_absent[of "[]" k] encode_names token_name by (auto simp: pref_names_def jar_ok_def)
  then show ?thesis
    by (simp add: kept_iff start_preferences_def pref_names_def initial_dir_def initial_theme_def initial_font_def
        initial_collapsible_def initial_variant_def sidebar_defaultOpen_def or_default_def jar_ok_def
        SIDEBAR_COOKIE_NAME_def) (rule exI[of _ True], simp)
qed

text \<open>
  C35: whatever the user does with the settings drawer and the theme switch, nothing throws, a reload
  shows the same preferences again, the session's token is not touched, and after the reset of
  everything the drawer covers is at its default, the font excepted, which it leaves as it was.
\<close>

theorem preferences_survive_reload:
  assumes "kept s" "\<forall>e \<in> set es. \<exists>v. offers (ConfigDrawer v) e \<or> offers (ThemeSwitch v) e"
  shows "\<exists>s'. config_run https es s = Inr s' \<and> load_preferences (pjar s') = Inr s' \<and>
    getCookie ACCESS_TOKEN_COOKIE (pjar s') = getCookie ACCESS_TOKEN_COOKIE (pjar s) \<and>
    (\<exists>s''. handleReset https s' = Inr s'' \<and> load_preferences (pjar s'') = Inr s'' \<and>
      s'' = start_preferences\<lparr>font := font s', pjar := pjar s''\<rparr> \<and>
      getCookie ACCESS_TOKEN_COOKIE (pjar s'') = getCookie ACCESS_TOKEN_COOKIE (pjar s))"
proof -
  have "\<forall>e \<in> set es. config_event_ok e" using assms(2) drawer_events_ok by blast
  from config_run_kept[OF assms(1) this, of https] obtain s' where
    1: "config_run https es s = Inr s'" "kept s'" "others_same (pjar s) (pjar s')" by blast
  from handleReset_kept[OF 1(2), of https] obtain j where
    2: "handleReset https s' = Inr (start_preferences\<lparr>font := font s', pjar := j\<rparr>)"
    "kept (start_preferences\<lparr>font := font s', pjar := j\<rparr>)" "others_same (pjar s') j"
    by (auto simp: start_preferences_def)
  have "ACCESS_TOKEN_COOKIE \<notin> set (butlast pref_names)" using names_differ by (auto simp: butlast_names)
  then show ?thesis using 1 2 by (auto simp: kept_def others_same_def)
qed

theorem preferences_survive_reload_witness:
  "\<exists>s'. config_run True [SetTheme (js ''dark''), PickLayout (js ''icon'')] start_preferences = Inr s' \<and>
     load_preferences (pjar s') = Inr s'"
proof -
  have "offers (ConfigDrawer start_preferences) (SetTheme (js ''dark''))" "offers (ConfigDrawer start_preferences) (PickLayout (js ''icon''))"
    by (auto simp: ConfigDrawer_def ThemeConfig_def LayoutConfig_def radio_item_def offers_El)
  then have "\<forall>e \<in> set [SetTheme (js ''dark''), PickLayout (js ''icon'')]. \<exists>v. offers (ConfigDrawer v) e \<or> offers (ThemeSwitch v) e"
    by auto
  from preferences_survive_reload[OF kept_start this, of True] show ?thesis by blast
qed

subsection \<open>The document's classes\<close>

abbreviation shade :: "jsstr \<Rightarrow> bool" where
  "shade c \<equiv> c = js ''light'' \<or> c = js ''dark''"

lemma shades_differ: "js ''light'' \<noteq> js ''dark''" "js ''light'' \<noteq> js ''system''" "js ''dark'' \<noteq> js ''system''"
  by (simp_all add: js_def)

lemma filter_class_add:
  "filter shade (class_add t (filter (\<lambda>c. c \<noteq> js ''light'' \<and> c \<noteq> js ''dark'') xs)) = (if shade t then [t] else [])"
  by (auto simp: class_add_def filter_empty_conv)

text \<open>
  With one of the three themes the document carries exactly one of the classes for light and dark,
  the one chosen or the system's, also after the system's preference changed; no other class is lost.
  The colour of the browser's bar agrees with it except when the theme is the system's and the system
  is dark: then the page is dark and the bar is white.
\<close>

theorem theme_class_exact:
  assumes "t \<in> {js ''light'', js ''dark'', js ''system''}"
  shows "filter shade (theme_effect d t classes) = [resolvedTheme d t] \<and>
    filter shade (theme_handleChange d' t (theme_effect d t classes)) = [resolvedTheme d' t] \<and>
    filter (\<lambda>c. \<not> shade c) (theme_effect d t classes) = filter (\<lambda>c. \<not> shade c) classes \<and>
    (themeColor t = js ''#020817'' \<longleftrightarrow> js ''dark'' \<in> set (theme_effect d t classes)) = (\<not> (t = js ''system'' \<and> d))"
proof -
  have r: "shade (resolvedTheme d t)" "shade (resolvedTheme d' t)"
    using assms shades_differ by (auto simp: resolvedTheme_def)
  have e: "applyTheme x xs = class_add x (filter (\<lambda>c. c \<noteq> js ''light'' \<and> c \<noteq> js ''dark'') xs)" for x xs by (simp add: applyTheme_def)
  have 1: "filter shade (theme_effect d t classes) = [resolvedTheme d t]"
    using r by (simp add: theme_effect_def e filter_class_add)
  have 2: "filter shade (theme_handleChange d' t (theme_effect d t classes)) = [resolvedTheme d' t]"
  proof (cases "t = js ''system''")
    case True
    then have "theme_handleChange d' t (theme_effect d t classes) = theme_effect d' t (theme_effect d t classes)"
      by (simp add: theme_handleChange_def theme_effect_def resolvedTheme_def)
    then show ?thesis using r by (simp add: theme_effect_def e filter_class_add)
  next
    case False
    then show ?thesis using 1 by (simp add: theme_handleChange_def resolvedTheme_def)
  qed
  have 3: "filter (\<lambda>c. \<not> shade c) (theme_effect d t classes) = filter (\<lambda>c. \<not> shade c) classes"
    using r by (auto simp: theme_effect_def e class_add_def)
  have "js ''dark'' \<in> set (theme_effect d t classes) \<longleftrightarrow> js ''dark'' \<in> set (filter shade (theme_effect d t classes))" by simp
  also have "\<dots> \<longleftrightarrow> resolvedTheme d t = js ''dark''" by (simp add: 1 eq_commute)
  finally have "js ''dark'' \<in> set (theme_effect d t classes) \<longleftrightarrow> resolvedTheme d t = js ''dark''" .
  moreover have "themeColor t = js ''#020817'' \<longleftrightarrow> t = js ''dark''"
    by (simp add: themeColor_def) (simp add: js_def)
  ultimately show ?thesis
    using 1 2 3 assms shades_differ by (auto simp: resolvedTheme_def)
qed

theorem theme_class_exact_witness:
  "js ''dark'' \<in> set (theme_effect True (js ''system'') [js ''light'']) \<and> themeColor (js ''system'') \<noteq> js ''#020817''"
proof -
  have "filter shade (theme_effect True (js ''system'') [js ''light'']) = [js ''dark'']"
    using theme_class_exact[of "js ''system''" True "[js ''light'']" True] by (simp add: resolvedTheme_def)
  then have "js ''dark'' \<in> set (filter shade (theme_effect True (js ''system'') [js ''light'']))" by simp
  then have "js ''dark'' \<in> set (theme_effect True (js ''system'') [js ''light''])" by simp
  then show ?thesis
    using theme_class_exact[of "js ''system''" True "[js ''light'']" True] by simp
qed

subsection \<open>The font's class\<close>

lemma remove_fonts_none: "\<forall>c \<in> set (drop i xs). \<not> font_class c \<Longrightarrow> remove_fonts i xs = xs"
proof (induction i xs rule: remove_fonts.induct)
  case (1 i xs)
  show ?case
  proof (cases "i < length xs")
    case True
    then have "drop i xs = xs ! i # drop (Suc i) xs" by (simp add: Cons_nth_drop_Suc)
    with 1 True show ?thesis by (subst remove_fonts.simps) simp
  next
    case False
    then show ?thesis by (subst remove_fonts.simps) simp
  qed
qed

lemma remove_fonts_one:
  assumes "\<forall>c \<in> set as. \<not> font_class c" "font_class x" "\<forall>c \<in> set bs. \<not> font_class c" "i \<le> length as"
  shows "remove_fonts i (as @ x # bs) = as @ bs"
  using assms(4)
proof (induction "length as - i" arbitrary: i)
  case 0
  then have i: "i = length as" by simp
  have "x \<notin> set as" "x \<notin> set bs" using assms(1-3) by auto
  then have "removeAll x (as @ x # bs) = as @ bs" by simp
  moreover have "remove_fonts (Suc i) (as @ bs) = as @ bs"
    using assms(3) by (intro remove_fonts_none) (auto simp: i dest: in_set_dropD)
  ultimately show ?case using assms(2) by (subst remove_fonts.simps) (simp add: i nth_append)
next
  case (Suc n)
  then have l: "i < length as" "n = length as - Suc i" "Suc i \<le> length as" by auto
  then have "\<not> font_class ((as @ x # bs) ! i)" using assms(1) by (simp add: nth_append)
  with Suc.hyps(1)[OF l(2,3)] l(1) show ?case by (subst remove_fonts.simps) simp
qed

text \<open>
  As long as the document carries at most one font class, applying a font leaves exactly that
  font's class and all the others; the walk over the live list does end, but with two font classes
  side by side it would leave the second one.
\<close>

theorem font_class_exact:
  assumes "length (filter font_class classes) \<le> 1"
  shows "filter font_class (applyFont f classes) = [js ''font-'' @ f] \<and>
    filter (\<lambda>c. \<not> font_class c) (applyFont f classes) = filter (\<lambda>c. \<not> font_class c) classes \<and>
    js ''font-b'' \<in> set (applyFont f [js ''font-a'', js ''font-b'', js ''x''])"
proof -
  have fc: "font_class (js ''font-'' @ f)" by (auto simp: font_class_def starts_with_append)
  have "remove_fonts 0 classes = filter (\<lambda>c. \<not> font_class c) classes"
  proof (cases "filter font_class classes")
    case Nil
    then have "\<forall>c \<in> set classes. \<not> font_class c" by (simp add: filter_empty_conv)
    then show ?thesis using remove_fonts_none[of 0 classes] by (simp add: filter_id_conv)
  next
    case (Cons x xs)
    then have "filter font_class classes = [x]" using assms by simp
    then obtain as bs where s: "classes = as @ x # bs" "\<forall>c \<in> set as. \<not> font_class c" "font_class x" "[] = filter font_class bs"
      using filter_eq_ConsD[of font_class classes x "[]"] by blast
    have bs: "\<forall>c \<in> set bs. \<not> font_class c" using s(4) by (metis filter_empty_conv)
    from remove_fonts_one[OF s(2,3) bs, of 0] s(1-3) bs show ?thesis by simp
  qed
  then have a: "applyFont f classes = filter (\<lambda>c. \<not> font_class c) classes @ [js ''font-'' @ f]"
    using fc by (auto simp: applyFont_def class_add_def)
  have ab: "font_class (js ''font-a'')" "font_class (js ''font-b'')" "\<not> font_class (js ''x'')" "js ''font-a'' \<noteq> js ''font-b''"
      "js ''x'' \<noteq> js ''font-a''"
    by (simp_all add: font_class_def starts_with_def js_def)
  have "remove_fonts 0 [js ''font-a'', js ''font-b'', js ''x''] = remove_fonts 1 [js ''font-b'', js ''x'']"
    using ab by (subst remove_fonts.simps) simp
  also have "\<dots> = [js ''font-b'', js ''x'']"
    using ab by (intro remove_fonts_none) simp
  finally have "applyFont f [js ''font-a'', js ''font-b'', js ''x''] =
      class_add (js ''font-'' @ f) [js ''font-b'', js ''x'']" by (simp add: applyFont_def)
  then have "js ''font-b'' \<in> set (applyFont f [js ''font-a'', js ''font-b'', js ''x''])"
    by (simp add: class_add_def)
  then show ?thesis using a fc by (auto simp: filter_id_conv)
qed

theorem font_class_exact_witness:
  "filter font_class (applyFont (js ''inter'') [js ''light'', js ''font-system'']) = [js ''font-inter'']"
proof -
  have "length (filter font_class [js ''light'', js ''font-system'']) \<le> 1"
    by (simp add: font_class_def starts_with_def) (simp add: js_def)
  from font_class_exact[OF this, of "js ''inter''"] show ?thesis by (simp add: js_def)
qed

subsection \<open>The appearance form\<close>

text \<open>
  While the theme is the default one, \<open>system\<close>, the appearance form cannot be submitted with the
  values it starts from, so a new font is not saved either; with one of the other themes the font and
  the theme submitted become the preferences, in memory and for the next start.
\<close>

theorem appearance_form_submits:
  assumes "kept s" "av_font v \<in> set fonts"
  shows "(theme s = DEFAULT_THEME \<longrightarrow> submit_appearance https ((appearance_defaults s)\<lparr>av_font := av_font v\<rparr>) s = Inr (s, [])) \<and>
    (av_theme v \<in> {js ''light'', js ''dark''} \<longrightarrow>
      (\<exists>s'. submit_appearance https v s = Inr (s', [Toast_success txt_appearance_updated]) \<and>
        font s' = av_font v \<and> theme s' = av_theme v \<and> load_preferences (pjar s') = Inr s'))"
proof (intro conjI impI)
  assume "theme s = DEFAULT_THEME"
  then show "submit_appearance https ((appearance_defaults s)\<lparr>av_font := av_font v\<rparr>) s = Inr (s, [])"
    using shades_differ by (simp add: submit_appearance_def appearanceFormSchema_def appearance_defaults_def DEFAULT_THEME_def)
next
  assume t: "av_theme v \<in> {js ''light'', js ''dark''}"
  have "\<exists>s1. (if av_font v \<noteq> font s then on_font (setFont https (av_font v)) s else Inr s) = Inr s1 \<and> kept s1 \<and>
      font s1 = av_font v \<and> theme s1 = theme s"
    using kept_font[where f = "setFont https (av_font v)", OF assms(1) parts_done(5)[OF kept_jar[OF assms(1)] assms(2)]] assms(1)
    by auto
  then obtain s1 where 1: "(if av_font v \<noteq> font s then on_font (setFont https (av_font v)) s else Inr s) = Inr s1" "kept s1"
      "font s1 = av_font v" "theme s1 = theme s" by blast
  have "keepable THEME_COOKIE_NAME (js ''light'')" "keepable THEME_COOKIE_NAME (js ''dark'')"
    using plain_options encode_names lengths by (auto simp: js_lengths intro!: keepable_plain)
  then have "keepable THEME_COOKIE_NAME (av_theme v)" using t by auto
  from kept_theme[where f = "setTheme https (av_theme v)", OF 1(2) parts_done(3)[OF kept_jar[OF 1(2)] this]] 1
  obtain s2 where "(if av_theme v \<noteq> theme s then on_theme (setTheme https (av_theme v)) s1 else Inr s1) = Inr s2" "kept s2"
      "font s2 = av_font v" "theme s2 = av_theme v" by (cases "av_theme v = theme s") auto
  with 1(1) t assms(2) show "\<exists>s'. submit_appearance https v s = Inr (s', [Toast_success txt_appearance_updated]) \<and>
      font s' = av_font v \<and> theme s' = av_theme v \<and> load_preferences (pjar s') = Inr s'"
    by (auto simp: submit_appearance_def appearanceFormSchema_def appearance_onSubmit_def kept_def)
qed

theorem appearance_form_submits_witness:
  "submit_appearance True ((appearance_defaults start_preferences)\<lparr>av_font := js ''manrope''\<rparr>) start_preferences = Inr (start_preferences, []) \<and>
   (\<exists>s'. submit_appearance True \<lparr> av_theme = js ''dark'', av_font = js ''manrope'' \<rparr> start_preferences = Inr (s', [Toast_success txt_appearance_updated]) \<and>
     theme s' = js ''dark'')"
  using appearance_form_submits[OF kept_start, of "\<lparr> av_theme = js ''dark'', av_font = js ''manrope'' \<rparr>" True]
  by (auto simp: fonts_def start_preferences_def)

end
