(* ===== verification/Shell.thy ===== *)
theory Shell
  imports AuthForms ConfigDrawer
begin

section \<open>The shell of the settings and the parts of a page header (settings/index.tsx, layout)\<close>

text \<open>
  The navigation of the settings page with its two forms, a list of links and a select, the frame of a
  page, its header that reacts to scrolling, the search button and the progress bar. Class names appear
  where they depend on state, as flags named after what they do.
\<close>

subsection \<open>The navigation of the settings (sidebar-nav.tsx, settings/index.tsx)\<close>

record settings_item =
  si_href :: jsstr
  si_title :: jsstr
  si_icon :: string

definition sidebarNavItems :: "settings_item list" where
  "sidebarNavItems =
     [\<lparr> si_href = js ''/settings'', si_title = txt_profile, si_icon = ''UserCog'' \<rparr>,
      \<lparr> si_href = js ''/settings/account'', si_title = txt_account_security, si_icon = ''Wrench'' \<rparr>,
      \<lparr> si_href = js ''/settings/appearance'', si_title = txt_appearance, si_icon = ''Palette'' \<rparr>]"

datatype shell_event =
  SelectSettings jsstr
| ToggleSidebarByTrigger
| OpenSearch

text \<open>The state is the value the select shows; the path is read on every rendering.\<close>

definition sidebar_nav_initial :: "jsstr option \<Rightarrow> jsstr" where
  "sidebar_nav_initial pathname = (case pathname of None \<Rightarrow> js ''/settings'' | Some p \<Rightarrow> p)"

definition handleSelect :: "jsstr \<Rightarrow> jsstr \<Rightarrow> jsstr \<times> session_effect list" where
  "handleSelect e val = (e, [Navigate (goto_plain e)])"

definition SidebarNav :: "jsstr \<Rightarrow> jsstr \<Rightarrow> settings_item list \<Rightarrow> shell_event node" where
  "SidebarNav pathname val items =
     El ''Fragment'' []
       [El ''div'' []
          [El ''Select'' [Val val, OnValueChange SelectSettings]
             [El ''SelectTrigger'' [] [El ''SelectValue'' [Attr ''placeholder'' (js ''Theme'')] []],
              El ''SelectContent'' []
                (map (\<lambda>i. El ''SelectItem'' [Val (si_href i)]
                   [El ''div'' [] [El ''span'' [] [El (si_icon i) [] []], El ''span'' [] [Txt (si_title i)]]]) items)]],
        El ''ScrollArea'' [Attr ''orientation'' (js ''horizontal''), Attr ''type'' (js ''always'')]
          [El ''nav'' []
             (map (\<lambda>i. El ''Link'' [Attr ''to'' (si_href i), Flag ''current'' (pathname = si_href i)]
                [El ''span'' [] [El (si_icon i) [] []], Txt (si_title i)]) items)]]"

subsection \<open>Header, main and search (layout/header.tsx, layout/main.tsx, search.tsx)\<close>

text \<open>\<open>document.body.scrollTop || document.documentElement.scrollTop\<close>; the header starts at 0.\<close>

definition header_onScroll :: "jsnum \<Rightarrow> jsnum \<Rightarrow> jsnum" where
  "header_onScroll body doc = (if body = jint 0 \<or> body = JNaN then doc else body)"

definition Header :: "bool \<Rightarrow> jsnum \<Rightarrow> shell_event node list \<Rightarrow> shell_event node" where
  "Header isFixed offset children =
     El ''header''
       [Flag ''header-fixed'' isFixed, Flag ''shadow'' (jless (jint 10) offset \<and> isFixed)]
       [El ''div'' [Flag ''backdrop'' (jless (jint 10) offset \<and> isFixed)]
         ([El ''SidebarTrigger'' [Attr ''variant'' (js ''outline''), OnClick ToggleSidebarByTrigger] [],
           El ''Separator'' [Attr ''orientation'' (js ''vertical'')] []] @ children)]"

definition Main :: "bool \<Rightarrow> bool \<Rightarrow> 'e node list \<Rightarrow> 'e node" where
  "Main isFixed fluid children =
     El ''main''
       [Attr ''data-layout'' (if isFixed then js ''fixed'' else js ''auto''), Flag ''flex-grow'' isFixed,
        Flag ''max-width'' (\<not> fluid)]
       children"

definition Search :: "jsstr \<Rightarrow> shell_event node" where
  "Search placeholder =
     El ''Button'' [Attr ''variant'' (js ''outline''), Attr ''aria-keyshortcuts'' (js ''Meta+K Control+K''), OnClick OpenSearch]
       [El ''SearchIcon'' [] [],
        El ''span'' [] [Txt placeholder],
        El ''kbd'' [] [El ''span'' [] [Txt txt_cmd_key], Txt (js ''K'')]]"

definition SkipToMain :: "'e node" where
  "SkipToMain = El ''a'' [Attr ''href'' (js ''#content'')] [Txt (js ''Skip to Main'')]"

text \<open>\<open>outlet\<close> is the page of the route below; theme, drawer and profile are modelled on their own.\<close>

definition Settings :: "jsstr \<Rightarrow> jsstr \<Rightarrow> jsnum \<Rightarrow> shell_event node list \<Rightarrow> shell_event node" where
  "Settings pathname val offset outlet =
     El ''Fragment'' []
       [Header False offset
          [Search (js ''Search''), El ''ThemeSwitch'' [] [], El ''ConfigDrawer'' [] [], El ''ProfileDropdown'' [] []],
        Main True False
          [El ''div'' [] [El ''h1'' [] [Txt txt_settings], El ''p'' [] [Txt txt_settings_desc]],
           El ''Separator'' [] [],
           El ''div'' []
             [El ''aside'' [] [SidebarNav pathname val sidebarNavItems],
              El ''div'' [] outlet]]]"

definition SettingsAppearance :: "(string \<Rightarrow> jsstr option) \<Rightarrow> jsstr \<Rightarrow> appearance_values \<Rightarrow> appearance_event node" where
  "SettingsAppearance msg mounted v = ContentSection txt_appearance txt_appearance_desc (AppearanceForm msg mounted v)"

subsection \<open>The progress bar and the root (navigation-progress.tsx, __root.tsx)\<close>

datatype progress_call = ContinuousStart | Complete

text \<open>The effect that runs when the router's status changes; \<open>mounted\<close>: the bar's handle is there.\<close>

definition progress_effect :: "bool \<Rightarrow> jsstr \<Rightarrow> progress_call list" where
  "progress_effect mounted status =
     show_if mounted [if status = js ''pending'' then ContinuousStart else Complete]"

definition root_component :: "bool \<Rightarrow> 'e node list \<Rightarrow> 'e node" where
  "root_component development outlet =
     El ''Fragment'' []
       ([El ''NavigationProgress'' [] []] @ outlet @ [El ''Toaster'' [NumAttr ''duration'' (jint 5000)] []]
        @ show_if development
            [El ''ReactQueryDevtools'' [Attr ''buttonPosition'' (js ''bottom-left'')] [],
             El ''TanStackRouterDevtools'' [Attr ''position'' (js ''bottom-right'')] []])"

subsection \<open>What the settings offer\<close>

text \<open>The places the links of a tree lead to.\<close>

fun link_to :: "'e attr list \<Rightarrow> jsstr list" where
  "link_to [] = []"
| "link_to (Attr n v # as) = (if n = ''to'' then [v] else link_to as)"
| "link_to (_ # as) = link_to as"

fun links :: "'e node \<Rightarrow> jsstr list" where
  "links (Txt s) = []"
| "links (El t as ks) = (if t = ''Link'' then link_to as else []) @ concat (map links ks)"

text \<open>The links whose entry is marked as the present one.\<close>

fun current_links :: "'e node \<Rightarrow> jsstr list" where
  "current_links (Txt s) = []"
| "current_links (El t as ks) =
     (if t = ''Link'' \<and> Flag ''current'' True \<in> set as then link_to as else []) @ concat (map current_links ks)"

lemma concat_map_Nil: "concat (map (\<lambda>x. []) xs) = []"
  by (induction xs) auto

lemma concat_map_chosen: "concat (map (\<lambda>x. if P x then [f x] else []) xs) = map f (filter P xs)"
  by (induction xs) auto

lemma settings_links:
  "links (SidebarNav pathname val items) = map si_href items"
  by (simp add: SidebarNav_def o_def cong: if_cong)

lemma settings_current:
  "current_links (SidebarNav pathname val items) = filter (\<lambda>u. pathname = u) (map si_href items)"
  by (simp add: SidebarNav_def o_def concat_map_chosen concat_map_Nil filter_map cong: if_cong)

lemma settings_select:
  "offers (SidebarNav pathname val items) e \<longleftrightarrow> (\<exists>i \<in> set items. e = SelectSettings (si_href i))"
proof -
  have n: "\<not> offers (El ''nav'' [] (map (\<lambda>i. El ''Link'' [Attr ''to'' (si_href i), Flag ''current'' (pathname = si_href i)]
                [El ''span'' [] [El (si_icon i) [] []], Txt (si_title i)]) items)) e" for e :: shell_event
    by (auto simp: offers_El)
  have v: "concat (map item_values [El ''SelectTrigger'' [] [El ''SelectValue'' [Attr ''placeholder'' (js ''Theme'')] ([]::shell_event node list)],
      El ''SelectContent'' [] (map (\<lambda>i. El ''SelectItem'' [Val (si_href i)]
         [El ''div'' [] [El ''span'' [] [El (si_icon i) [] []], El ''span'' [] [Txt (si_title i)]]]) items)]) = map si_href items"
    by (induction items) (simp_all add: o_def)
  show ?thesis
    using n v by (auto simp: SidebarNav_def offers_El)
qed

text \<open>
  The list follows the address, the select only its own choices: after a choice both show the page
  chosen; when another page is reached in any other way, by a link, a menu or the browser's buttons,
  the list marks it and the select still shows the former one.
\<close>

datatype settings_move = Chosen jsstr | Went jsstr

fun settings_step :: "settings_move \<Rightarrow> jsstr \<times> jsstr \<Rightarrow> jsstr \<times> jsstr" where
  "settings_step (Chosen e) (pathname, val) = (e, fst (handleSelect e val))"
| "settings_step (Went p) (pathname, val) = (p, val)"

lemma settings_nav_follows:
  assumes "(p, v) = settings_step m (p0, v0)" "p \<in> set (map si_href items)" "distinct (map si_href items)"
  shows "current_links (SidebarNav p v items) = [p] \<and>
    (v = p \<longleftrightarrow> (case m of Chosen e \<Rightarrow> True | Went q \<Rightarrow> q = v0))"
proof -
  have "filter ((=) p) us = [p]" if "p \<in> set us" "distinct us" for us :: "jsstr list"
    using that by (induction us) (auto simp: filter_empty_conv)
  with assms(2,3) have "current_links (SidebarNav p v items) = [p]" by (simp add: settings_current)
  with assms(1) show ?thesis by (cases m) (auto simp: handleSelect_def)
qed

end
