(* ===== verification/RouteTree.thy ===== *)
theory RouteTree
  imports Shell
begin

section \<open>The route tree (routeTree.gen.ts, routes)\<close>

text \<open>
  The tree the router is created with: each route with its identity, its path and its parent, the
  declarations the navigation of the program is typed with, and the children of the routes. What the
  router runs are the routes of the tree with the paths and the parents they are updated with; the
  declarations are for the type checker only. The theorems: tree and declarations say the same, an
  address belongs to at most one page, the guards that lie on the way to a page are those of the theory
  Routes, and every place the program navigates to exists.
\<close>

subsection \<open>The routes\<close>

datatype route =
  RootRoute
| AuthenticatedRouteRoute
| AuthenticatedIndexRoute
| Errors503Route
| Errors500Route
| Errors404Route
| Errors403Route
| Errors401Route
| AuthSignUpRoute
| AuthSignInRoute
| AuthenticatedSettingsRouteRoute
| AuthenticatedStockLogsIndexRoute
| AuthenticatedSettingsIndexRoute
| AuthenticatedProductsIndexRoute
| AuthenticatedOrdersIndexRoute
| AuthenticatedOperationLogsIndexRoute
| AuthenticatedInventoryIndexRoute
| AuthenticatedSettingsAppearanceRoute
| AuthenticatedSettingsAccountRoute
| AuthenticatedErrorsErrorRoute

text \<open>What each route's module is updated with: an identity, a path unless it has none, the parent.\<close>

record route_options =
  ro_id :: jsstr
  ro_path :: "jsstr option"
  getParentRoute :: route

fun route_update :: "route \<Rightarrow> route_options option" where
  "route_update RootRoute = None"
| "route_update AuthenticatedRouteRoute = Some \<lparr> ro_id = js ''/_authenticated'', ro_path = None, getParentRoute = RootRoute \<rparr>"
| "route_update AuthenticatedIndexRoute = Some \<lparr> ro_id = js ''/'', ro_path = Some (js ''/''), getParentRoute = AuthenticatedRouteRoute \<rparr>"
| "route_update Errors503Route = Some \<lparr> ro_id = js ''/(errors)/503'', ro_path = Some (js ''/503''), getParentRoute = RootRoute \<rparr>"
| "route_update Errors500Route = Some \<lparr> ro_id = js ''/(errors)/500'', ro_path = Some (js ''/500''), getParentRoute = RootRoute \<rparr>"
| "route_update Errors404Route = Some \<lparr> ro_id = js ''/(errors)/404'', ro_path = Some (js ''/404''), getParentRoute = RootRoute \<rparr>"
| "route_update Errors403Route = Some \<lparr> ro_id = js ''/(errors)/403'', ro_path = Some (js ''/403''), getParentRoute = RootRoute \<rparr>"
| "route_update Errors401Route = Some \<lparr> ro_id = js ''/(errors)/401'', ro_path = Some (js ''/401''), getParentRoute = RootRoute \<rparr>"
| "route_update AuthSignUpRoute = Some \<lparr> ro_id = js ''/(auth)/sign-up'', ro_path = Some (js ''/sign-up''), getParentRoute = RootRoute \<rparr>"
| "route_update AuthSignInRoute = Some \<lparr> ro_id = js ''/(auth)/sign-in'', ro_path = Some (js ''/sign-in''), getParentRoute = RootRoute \<rparr>"
| "route_update AuthenticatedSettingsRouteRoute = Some \<lparr> ro_id = js ''/settings'', ro_path = Some (js ''/settings''), getParentRoute = AuthenticatedRouteRoute \<rparr>"
| "route_update AuthenticatedStockLogsIndexRoute = Some \<lparr> ro_id = js ''/stock-logs/'', ro_path = Some (js ''/stock-logs/''), getParentRoute = AuthenticatedRouteRoute \<rparr>"
| "route_update AuthenticatedSettingsIndexRoute = Some \<lparr> ro_id = js ''/'', ro_path = Some (js ''/''), getParentRoute = AuthenticatedSettingsRouteRoute \<rparr>"
| "route_update AuthenticatedProductsIndexRoute = Some \<lparr> ro_id = js ''/products/'', ro_path = Some (js ''/products/''), getParentRoute = AuthenticatedRouteRoute \<rparr>"
| "route_update AuthenticatedOrdersIndexRoute = Some \<lparr> ro_id = js ''/orders/'', ro_path = Some (js ''/orders/''), getParentRoute = AuthenticatedRouteRoute \<rparr>"
| "route_update AuthenticatedOperationLogsIndexRoute = Some \<lparr> ro_id = js ''/operation-logs/'', ro_path = Some (js ''/operation-logs/''), getParentRoute = AuthenticatedRouteRoute \<rparr>"
| "route_update AuthenticatedInventoryIndexRoute = Some \<lparr> ro_id = js ''/inventory/'', ro_path = Some (js ''/inventory/''), getParentRoute = AuthenticatedRouteRoute \<rparr>"
| "route_update AuthenticatedSettingsAppearanceRoute = Some \<lparr> ro_id = js ''/appearance'', ro_path = Some (js ''/appearance''), getParentRoute = AuthenticatedSettingsRouteRoute \<rparr>"
| "route_update AuthenticatedSettingsAccountRoute = Some \<lparr> ro_id = js ''/account'', ro_path = Some (js ''/account''), getParentRoute = AuthenticatedSettingsRouteRoute \<rparr>"
| "route_update AuthenticatedErrorsErrorRoute = Some \<lparr> ro_id = js ''/errors/$error'', ro_path = Some (js ''/errors/$error''), getParentRoute = AuthenticatedRouteRoute \<rparr>"

subsection \<open>The declarations\<close>

definition FileRoutesByFullPath :: "(jsstr \<times> route) list" where
  "FileRoutesByFullPath =
     [(js ''/'', AuthenticatedIndexRoute),
      (js ''/settings'', AuthenticatedSettingsRouteRoute),
      (js ''/sign-in'', AuthSignInRoute),
      (js ''/sign-up'', AuthSignUpRoute),
      (js ''/401'', Errors401Route),
      (js ''/403'', Errors403Route),
      (js ''/404'', Errors404Route),
      (js ''/500'', Errors500Route),
      (js ''/503'', Errors503Route),
      (js ''/errors/$error'', AuthenticatedErrorsErrorRoute),
      (js ''/settings/account'', AuthenticatedSettingsAccountRoute),
      (js ''/settings/appearance'', AuthenticatedSettingsAppearanceRoute),
      (js ''/inventory/'', AuthenticatedInventoryIndexRoute),
      (js ''/operation-logs/'', AuthenticatedOperationLogsIndexRoute),
      (js ''/orders/'', AuthenticatedOrdersIndexRoute),
      (js ''/products/'', AuthenticatedProductsIndexRoute),
      (js ''/settings/'', AuthenticatedSettingsIndexRoute),
      (js ''/stock-logs/'', AuthenticatedStockLogsIndexRoute)]"

definition FileRoutesByTo :: "(jsstr \<times> route) list" where
  "FileRoutesByTo =
     [(js ''/sign-in'', AuthSignInRoute),
      (js ''/sign-up'', AuthSignUpRoute),
      (js ''/401'', Errors401Route),
      (js ''/403'', Errors403Route),
      (js ''/404'', Errors404Route),
      (js ''/500'', Errors500Route),
      (js ''/503'', Errors503Route),
      (js ''/'', AuthenticatedIndexRoute),
      (js ''/errors/$error'', AuthenticatedErrorsErrorRoute),
      (js ''/settings/account'', AuthenticatedSettingsAccountRoute),
      (js ''/settings/appearance'', AuthenticatedSettingsAppearanceRoute),
      (js ''/inventory'', AuthenticatedInventoryIndexRoute),
      (js ''/operation-logs'', AuthenticatedOperationLogsIndexRoute),
      (js ''/orders'', AuthenticatedOrdersIndexRoute),
      (js ''/products'', AuthenticatedProductsIndexRoute),
      (js ''/settings'', AuthenticatedSettingsIndexRoute),
      (js ''/stock-logs'', AuthenticatedStockLogsIndexRoute)]"

definition FileRoutesById :: "(jsstr \<times> route) list" where
  "FileRoutesById =
     [(js ''__root__'', RootRoute),
      (js ''/_authenticated'', AuthenticatedRouteRoute),
      (js ''/_authenticated/settings'', AuthenticatedSettingsRouteRoute),
      (js ''/(auth)/sign-in'', AuthSignInRoute),
      (js ''/(auth)/sign-up'', AuthSignUpRoute),
      (js ''/(errors)/401'', Errors401Route),
      (js ''/(errors)/403'', Errors403Route),
      (js ''/(errors)/404'', Errors404Route),
      (js ''/(errors)/500'', Errors500Route),
      (js ''/(errors)/503'', Errors503Route),
      (js ''/_authenticated/'', AuthenticatedIndexRoute),
      (js ''/_authenticated/errors/$error'', AuthenticatedErrorsErrorRoute),
      (js ''/_authenticated/settings/account'', AuthenticatedSettingsAccountRoute),
      (js ''/_authenticated/settings/appearance'', AuthenticatedSettingsAppearanceRoute),
      (js ''/_authenticated/inventory/'', AuthenticatedInventoryIndexRoute),
      (js ''/_authenticated/operation-logs/'', AuthenticatedOperationLogsIndexRoute),
      (js ''/_authenticated/orders/'', AuthenticatedOrdersIndexRoute),
      (js ''/_authenticated/products/'', AuthenticatedProductsIndexRoute),
      (js ''/_authenticated/settings/'', AuthenticatedSettingsIndexRoute),
      (js ''/_authenticated/stock-logs/'', AuthenticatedStockLogsIndexRoute)]"

definition fullPaths :: "jsstr list" where
  "fullPaths = map js
     [''/'',
      ''/settings'',
      ''/sign-in'',
      ''/sign-up'',
      ''/401'',
      ''/403'',
      ''/404'',
      ''/500'',
      ''/503'',
      ''/errors/$error'',
      ''/settings/account'',
      ''/settings/appearance'',
      ''/inventory/'',
      ''/operation-logs/'',
      ''/orders/'',
      ''/products/'',
      ''/settings/'',
      ''/stock-logs/'']"

definition to_paths :: "jsstr list" where
  "to_paths = map js
     [''/sign-in'',
      ''/sign-up'',
      ''/401'',
      ''/403'',
      ''/404'',
      ''/500'',
      ''/503'',
      ''/'',
      ''/errors/$error'',
      ''/settings/account'',
      ''/settings/appearance'',
      ''/inventory'',
      ''/operation-logs'',
      ''/orders'',
      ''/products'',
      ''/settings'',
      ''/stock-logs'']"

definition route_ids :: "jsstr list" where
  "route_ids = map js
     [''__root__'',
      ''/_authenticated'',
      ''/_authenticated/settings'',
      ''/(auth)/sign-in'',
      ''/(auth)/sign-up'',
      ''/(errors)/401'',
      ''/(errors)/403'',
      ''/(errors)/404'',
      ''/(errors)/500'',
      ''/(errors)/503'',
      ''/_authenticated/'',
      ''/_authenticated/errors/$error'',
      ''/_authenticated/settings/account'',
      ''/_authenticated/settings/appearance'',
      ''/_authenticated/inventory/'',
      ''/_authenticated/operation-logs/'',
      ''/_authenticated/orders/'',
      ''/_authenticated/products/'',
      ''/_authenticated/settings/'',
      ''/_authenticated/stock-logs/'']"

record file_route =
  fr_id :: jsstr
  fr_path :: jsstr
  fr_fullPath :: jsstr
  fr_preLoaderRoute :: route
  fr_parentRoute :: route

definition FileRoutesByPath :: "(jsstr \<times> file_route) list" where
  "FileRoutesByPath =
     [(js ''/_authenticated'', \<lparr> fr_id = js ''/_authenticated'', fr_path = [], fr_fullPath = js ''/'',
        fr_preLoaderRoute = AuthenticatedRouteRoute, fr_parentRoute = RootRoute \<rparr>),
      (js ''/_authenticated/'', \<lparr> fr_id = js ''/_authenticated/'', fr_path = js ''/'', fr_fullPath = js ''/'',
        fr_preLoaderRoute = AuthenticatedIndexRoute, fr_parentRoute = AuthenticatedRouteRoute \<rparr>),
      (js ''/(errors)/503'', \<lparr> fr_id = js ''/(errors)/503'', fr_path = js ''/503'', fr_fullPath = js ''/503'',
        fr_preLoaderRoute = Errors503Route, fr_parentRoute = RootRoute \<rparr>),
      (js ''/(errors)/500'', \<lparr> fr_id = js ''/(errors)/500'', fr_path = js ''/500'', fr_fullPath = js ''/500'',
        fr_preLoaderRoute = Errors500Route, fr_parentRoute = RootRoute \<rparr>),
      (js ''/(errors)/404'', \<lparr> fr_id = js ''/(errors)/404'', fr_path = js ''/404'', fr_fullPath = js ''/404'',
        fr_preLoaderRoute = Errors404Route, fr_parentRoute = RootRoute \<rparr>),
      (js ''/(errors)/403'', \<lparr> fr_id = js ''/(errors)/403'', fr_path = js ''/403'', fr_fullPath = js ''/403'',
        fr_preLoaderRoute = Errors403Route, fr_parentRoute = RootRoute \<rparr>),
      (js ''/(errors)/401'', \<lparr> fr_id = js ''/(errors)/401'', fr_path = js ''/401'', fr_fullPath = js ''/401'',
        fr_preLoaderRoute = Errors401Route, fr_parentRoute = RootRoute \<rparr>),
      (js ''/(auth)/sign-up'', \<lparr> fr_id = js ''/(auth)/sign-up'', fr_path = js ''/sign-up'', fr_fullPath = js ''/sign-up'',
        fr_preLoaderRoute = AuthSignUpRoute, fr_parentRoute = RootRoute \<rparr>),
      (js ''/(auth)/sign-in'', \<lparr> fr_id = js ''/(auth)/sign-in'', fr_path = js ''/sign-in'', fr_fullPath = js ''/sign-in'',
        fr_preLoaderRoute = AuthSignInRoute, fr_parentRoute = RootRoute \<rparr>),
      (js ''/_authenticated/settings'', \<lparr> fr_id = js ''/_authenticated/settings'', fr_path = js ''/settings'', fr_fullPath = js ''/settings'',
        fr_preLoaderRoute = AuthenticatedSettingsRouteRoute, fr_parentRoute = AuthenticatedRouteRoute \<rparr>),
      (js ''/_authenticated/stock-logs/'', \<lparr> fr_id = js ''/_authenticated/stock-logs/'', fr_path = js ''/stock-logs'', fr_fullPath = js ''/stock-logs/'',
        fr_preLoaderRoute = AuthenticatedStockLogsIndexRoute, fr_parentRoute = AuthenticatedRouteRoute \<rparr>),
      (js ''/_authenticated/settings/'', \<lparr> fr_id = js ''/_authenticated/settings/'', fr_path = js ''/'', fr_fullPath = js ''/settings/'',
        fr_preLoaderRoute = AuthenticatedSettingsIndexRoute, fr_parentRoute = AuthenticatedSettingsRouteRoute \<rparr>),
      (js ''/_authenticated/products/'', \<lparr> fr_id = js ''/_authenticated/products/'', fr_path = js ''/products'', fr_fullPath = js ''/products/'',
        fr_preLoaderRoute = AuthenticatedProductsIndexRoute, fr_parentRoute = AuthenticatedRouteRoute \<rparr>),
      (js ''/_authenticated/orders/'', \<lparr> fr_id = js ''/_authenticated/orders/'', fr_path = js ''/orders'', fr_fullPath = js ''/orders/'',
        fr_preLoaderRoute = AuthenticatedOrdersIndexRoute, fr_parentRoute = AuthenticatedRouteRoute \<rparr>),
      (js ''/_authenticated/operation-logs/'', \<lparr> fr_id = js ''/_authenticated/operation-logs/'', fr_path = js ''/operation-logs'', fr_fullPath = js ''/operation-logs/'',
        fr_preLoaderRoute = AuthenticatedOperationLogsIndexRoute, fr_parentRoute = AuthenticatedRouteRoute \<rparr>),
      (js ''/_authenticated/inventory/'', \<lparr> fr_id = js ''/_authenticated/inventory/'', fr_path = js ''/inventory'', fr_fullPath = js ''/inventory/'',
        fr_preLoaderRoute = AuthenticatedInventoryIndexRoute, fr_parentRoute = AuthenticatedRouteRoute \<rparr>),
      (js ''/_authenticated/settings/appearance'', \<lparr> fr_id = js ''/_authenticated/settings/appearance'', fr_path = js ''/appearance'', fr_fullPath = js ''/settings/appearance'',
        fr_preLoaderRoute = AuthenticatedSettingsAppearanceRoute, fr_parentRoute = AuthenticatedSettingsRouteRoute \<rparr>),
      (js ''/_authenticated/settings/account'', \<lparr> fr_id = js ''/_authenticated/settings/account'', fr_path = js ''/account'', fr_fullPath = js ''/settings/account'',
        fr_preLoaderRoute = AuthenticatedSettingsAccountRoute, fr_parentRoute = AuthenticatedSettingsRouteRoute \<rparr>),
      (js ''/_authenticated/errors/$error'', \<lparr> fr_id = js ''/_authenticated/errors/$error'', fr_path = js ''/errors/$error'', fr_fullPath = js ''/errors/$error'',
        fr_preLoaderRoute = AuthenticatedErrorsErrorRoute, fr_parentRoute = AuthenticatedRouteRoute \<rparr>)]"

subsection \<open>The tree\<close>

datatype route_tree = RouteNode route "route_tree list"

definition AuthenticatedSettingsRouteRouteChildren :: "route_tree list" where
  "AuthenticatedSettingsRouteRouteChildren =
     [RouteNode AuthenticatedSettingsAccountRoute [],
      RouteNode AuthenticatedSettingsAppearanceRoute [],
      RouteNode AuthenticatedSettingsIndexRoute []]"

definition AuthenticatedSettingsRouteRouteWithChildren :: route_tree where
  "AuthenticatedSettingsRouteRouteWithChildren = RouteNode AuthenticatedSettingsRouteRoute AuthenticatedSettingsRouteRouteChildren"

definition AuthenticatedRouteRouteChildren :: "route_tree list" where
  "AuthenticatedRouteRouteChildren =
     [AuthenticatedSettingsRouteRouteWithChildren,
      RouteNode AuthenticatedIndexRoute [],
      RouteNode AuthenticatedErrorsErrorRoute [],
      RouteNode AuthenticatedInventoryIndexRoute [],
      RouteNode AuthenticatedOperationLogsIndexRoute [],
      RouteNode AuthenticatedOrdersIndexRoute [],
      RouteNode AuthenticatedProductsIndexRoute [],
      RouteNode AuthenticatedStockLogsIndexRoute []]"

definition AuthenticatedRouteRouteWithChildren :: route_tree where
  "AuthenticatedRouteRouteWithChildren = RouteNode AuthenticatedRouteRoute AuthenticatedRouteRouteChildren"

definition rootRouteChildren :: "route_tree list" where
  "rootRouteChildren =
     [AuthenticatedRouteRouteWithChildren,
      RouteNode AuthSignInRoute [],
      RouteNode AuthSignUpRoute [],
      RouteNode Errors401Route [],
      RouteNode Errors403Route [],
      RouteNode Errors404Route [],
      RouteNode Errors500Route [],
      RouteNode Errors503Route []]"

definition routeTree :: route_tree where
  "routeTree = RouteNode RootRoute rootRouteChildren"

subsection \<open>The modules of the routes\<close>

text \<open>
  The component a route's module names, given the parameter of the address; a route without a page of
  its own is the layout of those below it. Its \<open>beforeLoad\<close>, if it has one, is a guard.
\<close>

fun route_component :: "route \<Rightarrow> jsstr \<Rightarrow> page option" where
  "route_component RootRoute e = None"
| "route_component AuthenticatedRouteRoute e = None"
| "route_component AuthenticatedSettingsRouteRoute e = None"
| "route_component AuthenticatedIndexRoute e = Some PgDashboard"
| "route_component Errors503Route e = Some Pg503"
| "route_component Errors500Route e = Some Pg500"
| "route_component Errors404Route e = Some Pg404"
| "route_component Errors403Route e = Some Pg403"
| "route_component Errors401Route e = Some Pg401"
| "route_component AuthSignUpRoute e = Some PgSignUp"
| "route_component AuthSignInRoute e = Some PgSignIn"
| "route_component AuthenticatedStockLogsIndexRoute e = Some PgStockLogs"
| "route_component AuthenticatedSettingsIndexRoute e = Some PgProfile"
| "route_component AuthenticatedProductsIndexRoute e = Some PgProducts"
| "route_component AuthenticatedOrdersIndexRoute e = Some PgOrders"
| "route_component AuthenticatedOperationLogsIndexRoute e = Some PgOperationLogs"
| "route_component AuthenticatedInventoryIndexRoute e = Some PgInventory"
| "route_component AuthenticatedSettingsAppearanceRoute e = Some PgAppearance"
| "route_component AuthenticatedSettingsAccountRoute e = Some PgAccount"
| "route_component AuthenticatedErrorsErrorRoute e = Some (PgErrors e)"

fun route_beforeLoad :: "route \<Rightarrow> guard list" where
  "route_beforeLoad AuthenticatedRouteRoute = [Authenticated]"
| "route_beforeLoad AuthenticatedProductsIndexRoute = products_guard"
| "route_beforeLoad AuthenticatedInventoryIndexRoute = inventory_guard"
| "route_beforeLoad AuthenticatedStockLogsIndexRoute = stock_logs_guard"
| "route_beforeLoad AuthenticatedOperationLogsIndexRoute = operation_logs_guard"
| "route_beforeLoad _ = []"

subsection \<open>Walking the tree\<close>

text \<open>Every route with the routes from the root to it.\<close>

fun tree_chains :: "route_tree \<Rightarrow> (route \<times> route list) list" where
  "tree_chains (RouteNode r ts) = (r, [r]) # map (\<lambda>(x, c). (x, r # c)) (concat (map tree_chains ts))"

definition routes_in_tree :: "(route \<times> route list) list" where
  "routes_in_tree = tree_chains routeTree"

text \<open>
  The router finds the full path of a route, and the routes whose guards it runs, by going from parent to
  parent. There are twenty routes, so twenty steps lead to the root from wherever one starts.
\<close>

fun parent_chain :: "nat \<Rightarrow> route \<Rightarrow> route list" where
  "parent_chain 0 r = [r]"
| "parent_chain (Suc n) r = (case route_update r of None \<Rightarrow> [r] | Some u \<Rightarrow> parent_chain n (getParentRoute u) @ [r])"

definition route_chain :: "route \<Rightarrow> route list" where
  "route_chain = parent_chain 20"

text \<open>
  What identity and full path mean: identities are put one after the other, a path is put after the
  path of the parent, of which a lone slash counts for nothing; a route without a path adds none.
\<close>

definition id_of_chain :: "route list \<Rightarrow> jsstr" where
  "id_of_chain c = concat (map (\<lambda>r. case route_update r of None \<Rightarrow> [] | Some u \<Rightarrow> ro_id u) c)"

definition append_path :: "jsstr \<Rightarrow> route \<Rightarrow> jsstr" where
  "append_path p r = (case route_update r of
       None \<Rightarrow> p
     | Some u \<Rightarrow> (case ro_path u of None \<Rightarrow> p | Some q \<Rightarrow> if p = js ''/'' then q else p @ q))"

definition path_of_chain :: "route list \<Rightarrow> jsstr" where
  "path_of_chain c = foldl append_path (js ''/'') c"

lemmas tree_defs = routes_in_tree_def routeTree_def rootRouteChildren_def AuthenticatedRouteRouteWithChildren_def
  AuthenticatedRouteRouteChildren_def AuthenticatedSettingsRouteRouteWithChildren_def
  AuthenticatedSettingsRouteRouteChildren_def

lemma routes_in_tree_eval: "routes_in_tree =
   (let a = [RootRoute, AuthenticatedRouteRoute]; s = a @ [AuthenticatedSettingsRouteRoute]
    in [(RootRoute, [RootRoute]), (AuthenticatedRouteRoute, a), (AuthenticatedSettingsRouteRoute, s)]
      @ map (\<lambda>r. (r, s @ [r])) [AuthenticatedSettingsAccountRoute, AuthenticatedSettingsAppearanceRoute, AuthenticatedSettingsIndexRoute]
      @ map (\<lambda>r. (r, a @ [r])) [AuthenticatedIndexRoute, AuthenticatedErrorsErrorRoute, AuthenticatedInventoryIndexRoute,
          AuthenticatedOperationLogsIndexRoute, AuthenticatedOrdersIndexRoute, AuthenticatedProductsIndexRoute, AuthenticatedStockLogsIndexRoute]
      @ map (\<lambda>r. (r, [RootRoute, r])) [AuthSignInRoute, AuthSignUpRoute, Errors401Route, Errors403Route, Errors404Route,
          Errors500Route, Errors503Route])"
  by (simp add: tree_defs Let_def)

text \<open>The parents are those of the tree.\<close>

lemma route_chain_tree: "map (\<lambda>(r, c). (r, route_chain r)) routes_in_tree = routes_in_tree"
  by (simp add: routes_in_tree_eval Let_def route_chain_def eval_nat_numeral)

lemma route_chain_in_tree: "(r, c) \<in> set routes_in_tree \<Longrightarrow> route_chain r = c"
proof -
  assume "(r, c) \<in> set routes_in_tree"
  then have "(r, c) \<in> set (map (\<lambda>(r, c). (r, route_chain r)) routes_in_tree)" by (simp only: route_chain_tree)
  then show ?thesis by auto
qed

lemma routes_once: "distinct (map fst routes_in_tree)"
  by (simp add: routes_in_tree_eval Let_def)

lemma routes_all: "r \<in> fst ` set routes_in_tree"
  by (cases r) (simp_all add: routes_in_tree_eval Let_def)

lemma chain_of_route: "map_of routes_in_tree r = Some (route_chain r)"
proof -
  obtain c where "(r, c) \<in> set routes_in_tree" using routes_all[of r] by auto
  moreover from this have "route_chain r = c" by (rule route_chain_in_tree)
  ultimately show ?thesis using routes_once by simp
qed

subsection \<open>Tree and declarations\<close>

definition route_full_path :: "route \<Rightarrow> jsstr" where
  "route_full_path r = path_of_chain (route_chain r)"

text \<open>A path without the slash at its end, by which an index is addressed.\<close>

definition without_slash :: "jsstr \<Rightarrow> jsstr" where
  "without_slash p = (if p \<noteq> js ''/'' \<and> ends_with (js ''/'') p then butlast p else p)"

lemma without_slash_js:
  "without_slash (js s) = js (if s \<noteq> ''/'' \<and> take 1 (rev s) = ''/'' then butlast s else s)"
proof -
  have "rev (js t) = js (rev t)" "take n (js t) = js (take n t)" "butlast (js t) = js (butlast t)" for t n
    by (simp_all add: js_def rev_map take_map map_butlast)
  then show ?thesis
    unfolding without_slash_def ends_with_def starts_with_def by (simp add: js_eq_iff)
qed

lemmas declared_defs = FileRoutesByFullPath_def FileRoutesByTo_def FileRoutesById_def FileRoutesByPath_def
  fullPaths_def to_paths_def route_ids_def

text \<open>The routes below the root with their identity, full path and parent.\<close>

definition route_table :: "(route \<times> string \<times> string \<times> route) list" where
  "route_table =
     [(AuthenticatedRouteRoute, ''/_authenticated'', ''/'', RootRoute),
      (AuthenticatedSettingsRouteRoute, ''/_authenticated/settings'', ''/settings'', AuthenticatedRouteRoute),
      (AuthenticatedSettingsAccountRoute, ''/_authenticated/settings/account'', ''/settings/account'', AuthenticatedSettingsRouteRoute),
      (AuthenticatedSettingsAppearanceRoute, ''/_authenticated/settings/appearance'', ''/settings/appearance'', AuthenticatedSettingsRouteRoute),
      (AuthenticatedSettingsIndexRoute, ''/_authenticated/settings/'', ''/settings/'', AuthenticatedSettingsRouteRoute),
      (AuthenticatedIndexRoute, ''/_authenticated/'', ''/'', AuthenticatedRouteRoute),
      (AuthenticatedErrorsErrorRoute, ''/_authenticated/errors/$error'', ''/errors/$error'', AuthenticatedRouteRoute),
      (AuthenticatedInventoryIndexRoute, ''/_authenticated/inventory/'', ''/inventory/'', AuthenticatedRouteRoute),
      (AuthenticatedOperationLogsIndexRoute, ''/_authenticated/operation-logs/'', ''/operation-logs/'', AuthenticatedRouteRoute),
      (AuthenticatedOrdersIndexRoute, ''/_authenticated/orders/'', ''/orders/'', AuthenticatedRouteRoute),
      (AuthenticatedProductsIndexRoute, ''/_authenticated/products/'', ''/products/'', AuthenticatedRouteRoute),
      (AuthenticatedStockLogsIndexRoute, ''/_authenticated/stock-logs/'', ''/stock-logs/'', AuthenticatedRouteRoute),
      (AuthSignInRoute, ''/(auth)/sign-in'', ''/sign-in'', RootRoute),
      (AuthSignUpRoute, ''/(auth)/sign-up'', ''/sign-up'', RootRoute),
      (Errors401Route, ''/(errors)/401'', ''/401'', RootRoute),
      (Errors403Route, ''/(errors)/403'', ''/403'', RootRoute),
      (Errors404Route, ''/(errors)/404'', ''/404'', RootRoute),
      (Errors500Route, ''/(errors)/500'', ''/500'', RootRoute),
      (Errors503Route, ''/(errors)/503'', ''/503'', RootRoute)]"

lemma routes_in_tree_table:
  "map (\<lambda>(r, c). (r, id_of_chain c, path_of_chain c, last (butlast c))) (tl routes_in_tree) =
   map (\<lambda>(r, i, p, q). (r, js i, js p, q)) route_table"
  by (simp add: routes_in_tree_eval Let_def id_of_chain_def path_of_chain_def append_path_def route_table_def
      js_eq_iff flip: js_append)

lemma routes_in_tree_paths: "map (\<lambda>(r, c). (r, path_of_chain c)) routes_in_tree =
   (RootRoute, js ''/'') # map (\<lambda>(r, i, p, q). (r, js p)) route_table"
proof -
  have "map (\<lambda>(r, c). (r, path_of_chain c)) (tl routes_in_tree) =
      map (\<lambda>(r, i, p, q). (r, p)) (map (\<lambda>(r, c). (r, id_of_chain c, path_of_chain c, last (butlast c))) (tl routes_in_tree))"
    by (simp add: case_prod_unfold)
  also have "\<dots> = map (\<lambda>(r, i, p, q). (r, js p)) route_table"
    unfolding routes_in_tree_table by (simp add: case_prod_unfold)
  finally show ?thesis
    by (simp add: routes_in_tree_eval Let_def path_of_chain_def append_path_def)
qed

lemma map_of_map_snd: "map_of (map (\<lambda>(r, c). (r, f c)) xs) r = map_option f (map_of xs r)"
  by (induction xs) auto

lemma route_full_path_eval:
  "route_full_path r = (case map_of (map (\<lambda>(r, c). (r, path_of_chain c)) routes_in_tree) r of None \<Rightarrow> [] | Some p \<Rightarrow> p)"
  by (simp add: route_full_path_def map_of_map_snd chain_of_route)

lemma map_of_js: "map_of (map (\<lambda>(i, x). (js i, f i x)) t) (js j) = map_option (f j) (map_of t j)"
  by (induction t) (auto simp: js_eq_iff)

lemma file_routes_projected:
  "map (\<lambda>(k, e). (k, fr_id e, fr_fullPath e, fr_preLoaderRoute e, fr_parentRoute e)) FileRoutesByPath =
   map (\<lambda>(i, x). (js i, case x of (p, r, q) \<Rightarrow> (js i, js p, r, q)))
     [(''/_authenticated'', ''/'', AuthenticatedRouteRoute, RootRoute),
      (''/_authenticated/'', ''/'', AuthenticatedIndexRoute, AuthenticatedRouteRoute),
      (''/(errors)/503'', ''/503'', Errors503Route, RootRoute),
      (''/(errors)/500'', ''/500'', Errors500Route, RootRoute),
      (''/(errors)/404'', ''/404'', Errors404Route, RootRoute),
      (''/(errors)/403'', ''/403'', Errors403Route, RootRoute),
      (''/(errors)/401'', ''/401'', Errors401Route, RootRoute),
      (''/(auth)/sign-up'', ''/sign-up'', AuthSignUpRoute, RootRoute),
      (''/(auth)/sign-in'', ''/sign-in'', AuthSignInRoute, RootRoute),
      (''/_authenticated/settings'', ''/settings'', AuthenticatedSettingsRouteRoute, AuthenticatedRouteRoute),
      (''/_authenticated/stock-logs/'', ''/stock-logs/'', AuthenticatedStockLogsIndexRoute, AuthenticatedRouteRoute),
      (''/_authenticated/settings/'', ''/settings/'', AuthenticatedSettingsIndexRoute, AuthenticatedSettingsRouteRoute),
      (''/_authenticated/products/'', ''/products/'', AuthenticatedProductsIndexRoute, AuthenticatedRouteRoute),
      (''/_authenticated/orders/'', ''/orders/'', AuthenticatedOrdersIndexRoute, AuthenticatedRouteRoute),
      (''/_authenticated/operation-logs/'', ''/operation-logs/'', AuthenticatedOperationLogsIndexRoute, AuthenticatedRouteRoute),
      (''/_authenticated/inventory/'', ''/inventory/'', AuthenticatedInventoryIndexRoute, AuthenticatedRouteRoute),
      (''/_authenticated/settings/appearance'', ''/settings/appearance'', AuthenticatedSettingsAppearanceRoute, AuthenticatedSettingsRouteRoute),
      (''/_authenticated/settings/account'', ''/settings/account'', AuthenticatedSettingsAccountRoute, AuthenticatedSettingsRouteRoute),
      (''/_authenticated/errors/$error'', ''/errors/$error'', AuthenticatedErrorsErrorRoute, AuthenticatedRouteRoute)]"
  by (simp add: FileRoutesByPath_def)

lemma file_routes_table:
  "map (\<lambda>(r, i, p, q). map_option (\<lambda>e. (fr_id e, fr_fullPath e, fr_preLoaderRoute e, fr_parentRoute e))
        (map_of FileRoutesByPath (js i))) route_table =
   map (\<lambda>(r, i, p, q). Some (js i, js p, r, q)) route_table"
proof -
  have "map_option (\<lambda>e. (fr_id e, fr_fullPath e, fr_preLoaderRoute e, fr_parentRoute e)) (map_of FileRoutesByPath (js i)) =
      map_of (map (\<lambda>(k, e). (k, fr_id e, fr_fullPath e, fr_preLoaderRoute e, fr_parentRoute e)) FileRoutesByPath) (js i)" for i
    by (rule map_of_map_snd[symmetric])
  then show ?thesis
    by (simp only: file_routes_projected map_of_js) (simp add: route_table_def)
qed

lemma file_ids_table:
  "map (\<lambda>(r, i, p, q). map_of FileRoutesById (js i)) route_table = map (\<lambda>(r, i, p, q). Some r) route_table"
  by (simp add: route_table_def FileRoutesById_def js_eq_iff)

text \<open>
  The declarations the navigation of the program is checked against agree with the tree the router
  runs: every route but the root is declared under its identity with its full path and its parent, the
  parent each module is given is the one it hangs below, and the declared full paths and places to go
  to are those of the routes.
\<close>

theorem tree_as_declared:
  "map (\<lambda>(r, c). map_option (\<lambda>e. (fr_id e, fr_fullPath e, fr_preLoaderRoute e, fr_parentRoute e))
        (map_of FileRoutesByPath (id_of_chain c))) (tl routes_in_tree) =
     map (\<lambda>(r, c). Some (id_of_chain c, path_of_chain c, r, last (butlast c))) (tl routes_in_tree) \<and>
   map (\<lambda>(r, c). map_of FileRoutesById (id_of_chain c)) (tl routes_in_tree) = map (\<lambda>(r, c). Some r) (tl routes_in_tree) \<and>
   map (\<lambda>(r, c). map_option getParentRoute (route_update r)) (tl routes_in_tree) =
     map (\<lambda>(r, c). Some (last (butlast c))) (tl routes_in_tree) \<and>
   map (\<lambda>(p, r). route_full_path r) FileRoutesByFullPath = fullPaths \<and>
   map (\<lambda>(p, r). without_slash (route_full_path r)) FileRoutesByTo = to_paths \<and>
   map fst FileRoutesByFullPath = fullPaths \<and> map fst FileRoutesByTo = to_paths \<and> map fst FileRoutesById = route_ids"
proof (intro conjI)
  show "map fst FileRoutesByFullPath = fullPaths" by (simp add: declared_defs)
  show "map fst FileRoutesByTo = to_paths" by (simp add: declared_defs)
  show "map fst FileRoutesById = route_ids" by (simp add: declared_defs)
  show "map (\<lambda>(r, c). map_option getParentRoute (route_update r)) (tl routes_in_tree) =
     map (\<lambda>(r, c). Some (last (butlast c))) (tl routes_in_tree)"
    by (simp add: routes_in_tree_eval Let_def)
  show "map (\<lambda>(p, r). route_full_path r) FileRoutesByFullPath = fullPaths"
    by (simp add: route_full_path_eval routes_in_tree_paths route_table_def declared_defs)
  show "map (\<lambda>(p, r). without_slash (route_full_path r)) FileRoutesByTo = to_paths"
    by (simp add: route_full_path_eval routes_in_tree_paths route_table_def declared_defs without_slash_js)
  let ?row = "\<lambda>(r, c). (r, id_of_chain c, path_of_chain c, last (butlast c))"
  have row: "map (\<lambda>(r, c). f r (id_of_chain c) (path_of_chain c) (last (butlast c))) (tl routes_in_tree) =
      map (\<lambda>(r, i, p, q). f r (js i) (js p) q) route_table" for f :: "route \<Rightarrow> jsstr \<Rightarrow> jsstr \<Rightarrow> route \<Rightarrow> 'a"
  proof -
    have "map (\<lambda>(r, c). f r (id_of_chain c) (path_of_chain c) (last (butlast c))) (tl routes_in_tree) =
        map (\<lambda>(r, i, p, q). f r i p q) (map ?row (tl routes_in_tree))" by (simp add: case_prod_unfold)
    also have "\<dots> = map (\<lambda>(r, i, p, q). f r (js i) (js p) q) route_table"
      unfolding routes_in_tree_table by (simp add: case_prod_unfold)
    finally show ?thesis .
  qed
  show "map (\<lambda>(r, c). map_of FileRoutesById (id_of_chain c)) (tl routes_in_tree) = map (\<lambda>(r, c). Some r) (tl routes_in_tree)"
    using row[of "\<lambda>r i p q. map_of FileRoutesById i"] row[of "\<lambda>r i p q. Some r"] file_ids_table by simp
  show "map (\<lambda>(r, c). map_option (\<lambda>e. (fr_id e, fr_fullPath e, fr_preLoaderRoute e, fr_parentRoute e))
        (map_of FileRoutesByPath (id_of_chain c))) (tl routes_in_tree) =
     map (\<lambda>(r, c). Some (id_of_chain c, path_of_chain c, r, last (butlast c))) (tl routes_in_tree)"
    using row[of "\<lambda>r i p q. map_option (\<lambda>e. (fr_id e, fr_fullPath e, fr_preLoaderRoute e, fr_parentRoute e)) (map_of FileRoutesByPath i)"]
      row[of "\<lambda>r i p q. Some (i, p, r, q)"] file_routes_table by simp
qed

subsection \<open>The page of an address\<close>

text \<open>
  The parts of an address are what stands between its slashes; a part of a path that starts with a dollar
  sign is a parameter and fits any part. An address belongs to the routes of the tree with a page whose
  full path fits it. Letters are compared exactly; that the router also takes other cases is left out.
\<close>

definition segments :: "jsstr \<Rightarrow> jsstr list" where
  "segments a = filter (\<lambda>s. s \<noteq> []) (js_split (js ''/'') a)"

definition segment_fits :: "jsstr \<Rightarrow> jsstr \<Rightarrow> bool" where
  "segment_fits pat s \<longleftrightarrow> pat = s \<or> starts_with (js ''$'') pat"

definition page_routes :: "route list" where
  "page_routes = filter (\<lambda>r. route_component r [] \<noteq> None) (map fst routes_in_tree)"

definition matching :: "jsstr \<Rightarrow> route list" where
  "matching a = filter (\<lambda>r. list_all2 segment_fits (segments (route_full_path r)) (segments a)) page_routes"

definition parameter_of :: "jsstr \<Rightarrow> jsstr" where
  "parameter_of a = (if segments a = [] then [] else last (segments a))"

text \<open>The full paths of the routes with a page, in parts.\<close>

definition places :: "(string list \<times> route) list" where
  "places =
     [([''settings'', ''account''], AuthenticatedSettingsAccountRoute),
      ([''settings'', ''appearance''], AuthenticatedSettingsAppearanceRoute),
      ([''settings''], AuthenticatedSettingsIndexRoute), ([], AuthenticatedIndexRoute),
      ([''errors'', ''$error''], AuthenticatedErrorsErrorRoute), ([''inventory''], AuthenticatedInventoryIndexRoute),
      ([''operation-logs''], AuthenticatedOperationLogsIndexRoute), ([''orders''], AuthenticatedOrdersIndexRoute),
      ([''products''], AuthenticatedProductsIndexRoute), ([''stock-logs''], AuthenticatedStockLogsIndexRoute),
      ([''sign-in''], AuthSignInRoute), ([''sign-up''], AuthSignUpRoute), ([''401''], Errors401Route),
      ([''403''], Errors403Route), ([''404''], Errors404Route), ([''500''], Errors500Route), ([''503''], Errors503Route)]"

fun slash_parts :: "string \<Rightarrow> string \<Rightarrow> string list" where
  "slash_parts acc [] = [rev acc]"
| "slash_parts acc (c # s) = (if c = CHR ''/'' then rev acc # slash_parts [] s else slash_parts (c # acc) s)"

lemma split_slash: "split_from (js ''/'') (js acc) (js s) = map js (slash_parts acc s)"
proof (induction s arbitrary: acc)
  case Nil
  show ?case by (simp add: js_def rev_map)
next
  case (Cons c s)
  have cons: "js (x # t) = of_char x # js t" for x t by (simp add: js_def)
  have r: "rev (js acc) = js (rev acc)" by (simp add: js_def rev_map)
  show ?case
  proof (cases "c = CHR ''/''")
    case True
    then have "js (c # s) = js ''/'' @ js s" by (simp flip: js_append)
    moreover have "js ''/'' \<noteq> []" by (simp add: js_def)
    ultimately show ?thesis using True Cons.IH[of "[]"] r split_from_match[of "js ''/''" "js acc" "js s"] by simp
  next
    case False
    have "\<not> starts_with (js ''/'') (of_char c # js s)"
      using False js_eq_iff[of "[c]" "''/''"] unfolding starts_with_def by (simp add: cons)
    then show ?thesis using False Cons.IH[of "c # acc"] by (simp add: cons split_from_skip)
  qed
qed

lemma segments_js: "segments (js s) = map js (filter (\<lambda>p. p \<noteq> []) (slash_parts [] s))"
proof -
  have "js_split (js ''/'') (js s) = map js (slash_parts [] s)"
    using split_slash[of "[]" s] js_eq_iff[of "''/''" "[]"] by (simp add: js_split_def)
  moreover have "js p \<noteq> [] \<longleftrightarrow> p \<noteq> []" for p by (simp add: js_def)
  ultimately show ?thesis by (simp add: segments_def filter_map o_def)
qed

lemma page_routes_eval: "page_routes = map snd places"
  by (simp add: page_routes_def routes_in_tree_eval places_def Let_def)

lemma places_of_routes: "map (\<lambda>r. (segments (route_full_path r), r)) page_routes = map (\<lambda>(ps, r). (map js ps, r)) places"
  by (simp add: page_routes_eval route_full_path_eval routes_in_tree_paths route_table_def places_def segments_js)

lemma fits_js: "segment_fits (js p) s \<longleftrightarrow> js p = s \<or> take 1 p = ''$''"
proof -
  have "take 1 (js p) = js (take 1 p)" by (simp add: js_def take_map)
  then show ?thesis unfolding segment_fits_def starts_with_def by (simp add: js_eq_iff)
qed

lemma matching_places:
  "matching a = map snd (filter (\<lambda>(ps, r). list_all2 segment_fits (map js ps) (segments a)) places)"
proof -
  have "matching a = map snd (filter (\<lambda>(ss, r). list_all2 segment_fits ss (segments a))
      (map (\<lambda>r. (segments (route_full_path r), r)) page_routes))"
    by (simp add: matching_def filter_map o_def)
  also have "\<dots> = map snd (filter (\<lambda>(ps, r). list_all2 segment_fits (map js ps) (segments a)) places)"
    unfolding places_of_routes by (simp add: filter_map o_def case_prod_unfold)
  finally show ?thesis .
qed

text \<open>Two different places never fit the same address.\<close>

definition apart :: "string list \<Rightarrow> string list \<Rightarrow> bool" where
  "apart ps qs \<longleftrightarrow> length ps \<noteq> length qs \<or> list_ex (\<lambda>(p, q). p \<noteq> q \<and> take 1 p \<noteq> ''$'' \<and> take 1 q \<noteq> ''$'') (zip ps qs)"

lemma apart_fits:
  assumes "apart ps qs" "list_all2 segment_fits (map js ps) a" "list_all2 segment_fits (map js qs) a"
  shows False
proof -
  have l: "length ps = length a" "length qs = length a" using assms(2,3) by (auto dest: list_all2_lengthD)
  with assms(1) obtain i where i: "i < length a" "ps ! i \<noteq> qs ! i" "take 1 (ps ! i) \<noteq> ''$''" "take 1 (qs ! i) \<noteq> ''$''"
    by (auto simp: apart_def list_ex_iff set_zip)
  have "segment_fits (js (ps ! i)) (a ! i)" "segment_fits (js (qs ! i)) (a ! i)"
    using assms(2,3) i(1) l by (auto dest: list_all2_nthD2)
  with i(3,4) have "js (ps ! i) = js (qs ! i)" by (simp add: fits_js)
  with i(2) show False by (simp add: js_eq_iff)
qed

lemma pairwise_filter:
  assumes "sorted_wrt (\<lambda>x y. \<not> (P x \<and> P y)) xs"
  shows "length (filter P xs) \<le> 1"
  using assms by (induction xs) (auto simp: filter_empty_conv)

lemma places_apart: "sorted_wrt (\<lambda>x y. apart (fst x) (fst y)) places"
  by (simp add: places_def apart_def)

lemma matching_one: "length (matching a) \<le> 1"
proof -
  let ?P = "\<lambda>x. list_all2 segment_fits (map js (fst x)) (segments a)"
  have "sorted_wrt (\<lambda>x y. \<not> (?P x \<and> ?P y)) places"
    using places_apart by (rule sorted_wrt_mono_rel[rotated]) (auto dest: apart_fits)
  from pairwise_filter[OF this] show ?thesis by (simp add: matching_places case_prod_unfold)
qed

lemma matching_is:
  assumes "(ps, r) \<in> set places" "list_all2 segment_fits (map js ps) (segments a)"
  shows "matching a = [r]"
proof -
  have "r \<in> set (matching a)" using assms by (force simp: matching_places)
  with matching_one[of a] show ?thesis by (cases "matching a") auto
qed

lemma segments_error:
  assumes "e \<noteq> []" "0x2F \<notin> set e"
  shows "segments (route_path (PgErrors e)) = [js ''errors'', e]"
proof -
  have s: "js ''/'' = [0x2F]" "js ''/errors/'' = [] @ 0x2F # js ''errors'' @ 0x2F # []" by (simp_all add: js_def)
  have "0x2F \<notin> set (js ''errors'')" by (simp add: js_def)
  then have "js_split [0x2F] (js ''/errors/'' @ e) = [[], js ''errors'', e]"
    using js_split_char_some[of "0x2F" "[]" "js ''errors'' @ 0x2F # e"] js_split_char_some[of "0x2F" "js ''errors''" e]
      js_split_char_none[OF assms(2)] by (simp add: s(2))
  moreover have "js ''errors'' \<noteq> []" by (simp add: js_def)
  ultimately show ?thesis using assms(1) by (simp add: segments_def s(1))
qed

fun page_route :: "page \<Rightarrow> route" where
  "page_route PgDashboard = AuthenticatedIndexRoute"
| "page_route PgOrders = AuthenticatedOrdersIndexRoute"
| "page_route PgProducts = AuthenticatedProductsIndexRoute"
| "page_route PgInventory = AuthenticatedInventoryIndexRoute"
| "page_route PgStockLogs = AuthenticatedStockLogsIndexRoute"
| "page_route PgOperationLogs = AuthenticatedOperationLogsIndexRoute"
| "page_route PgProfile = AuthenticatedSettingsIndexRoute"
| "page_route PgAccount = AuthenticatedSettingsAccountRoute"
| "page_route PgAppearance = AuthenticatedSettingsAppearanceRoute"
| "page_route (PgErrors e) = AuthenticatedErrorsErrorRoute"
| "page_route PgSignIn = AuthSignInRoute"
| "page_route PgSignUp = AuthSignUpRoute"
| "page_route Pg401 = Errors401Route"
| "page_route Pg403 = Errors403Route"
| "page_route Pg404 = Errors404Route"
| "page_route Pg500 = Errors500Route"
| "page_route Pg503 = Errors503Route"

lemma fits_self: "list_all2 segment_fits ss ss"
  by (simp add: list.rel_refl segment_fits_def)

lemma matching_page:
  assumes "\<forall>e. p = PgErrors e \<longrightarrow> e \<noteq> [] \<and> 0x2F \<notin> set e"
  shows "matching (route_path p) = [page_route p]"
proof (cases "\<exists>e. p = PgErrors e")
  case True
  then obtain e where e: "p = PgErrors e" "e \<noteq> []" "0x2F \<notin> set e" using assms by auto
  have "list_all2 segment_fits (map js [''errors'', ''$error'']) (segments (route_path p))"
    by (simp add: e(1) segments_error[OF e(2,3)] fits_js del: route_path.simps)
  then show ?thesis by (intro matching_is[of "[''errors'', ''$error'']"]) (simp_all add: places_def e(1))
next
  case False
  then have "\<exists>s. route_path p = js s \<and> (filter (\<lambda>q. q \<noteq> []) (slash_parts [] s), page_route p) \<in> set places"
    by (cases p) (simp_all add: places_def js_eq_iff)
  then obtain s where s: "route_path p = js s" "(filter (\<lambda>q. q \<noteq> []) (slash_parts [] s), page_route p) \<in> set places" by auto
  from matching_is[OF s(2)] show ?thesis using fits_self by (simp add: s(1) segments_js)
qed

lemma guards_on_the_way: "concat (map route_beforeLoad (route_chain (page_route p))) = route_guards p"
  by (cases p) (simp_all add: route_chain_def eval_nat_numeral route_guards_def)

lemma component_of_page:
  assumes "\<forall>e. p = PgErrors e \<longrightarrow> e \<noteq> [] \<and> 0x2F \<notin> set e"
  shows "route_component (page_route p) (parameter_of (route_path p)) = Some p"
proof (cases "\<exists>e. p = PgErrors e")
  case True
  then obtain e where e: "p = PgErrors e" "e \<noteq> []" "0x2F \<notin> set e" using assms by auto
  then show ?thesis using segments_error[OF e(2,3)] by (simp add: parameter_of_def)
next
  case False
  then show ?thesis by (cases p) simp_all
qed

text \<open>
  C39: an address belongs to at most one route of the tree that has a page, whatever order the router
  tries them in, where a route's full path is put together from the path it is updated with and those of
  its parents. The address of a page belongs to the route whose module names that page, the way from the
  root to it in the tree goes by those parents, and the guards run on that way are exactly the guards of
  the page.
\<close>

theorem address_decides_page:
  assumes "\<forall>e. p = PgErrors e \<longrightarrow> e \<noteq> [] \<and> 0x2F \<notin> set e"
  shows "length (matching a) \<le> 1 \<and> matching (route_path p) = [page_route p] \<and>
    route_component (page_route p) (parameter_of (route_path p)) = Some p \<and>
    map_of routes_in_tree (page_route p) = Some (route_chain (page_route p)) \<and>
    concat (map route_beforeLoad (route_chain (page_route p))) = route_guards p"
  using matching_one matching_page[OF assms] component_of_page[OF assms] chain_of_route guards_on_the_way by blast

theorem address_decides_page_witness:
  "matching (route_path (PgErrors (js ''forbidden''))) = [AuthenticatedErrorsErrorRoute] \<and>
   matching (route_path PgProducts) = [AuthenticatedProductsIndexRoute]"
proof -
  have "\<forall>e. PgErrors (js ''forbidden'') = PgErrors e \<longrightarrow> e \<noteq> [] \<and> 0x2F \<notin> set e" by (simp add: js_def)
  from address_decides_page[OF this, of "[]"] address_decides_page[of PgProducts "[]"] show ?thesis by simp
qed

subsection \<open>Where the program leads to\<close>

definition link_targets ::
    "(jsstr \<Rightarrow> jsstr) \<Rightarrow> sidebar_view \<Rightarrow> auth_user option \<Rightarrow> auth_user option \<Rightarrow> bool option \<Rightarrow> jsstr list" where
  "link_targets upper v user fetched dialog =
     links (AppSidebar upper v user fetched) @ links (ProfileDropdown upper dialog user)
     @ links (SidebarNav [] [] sidebarNavItems)"

definition form_targets :: "string list \<Rightarrow> credentials form_state \<Rightarrow> sign_up_values form_state \<Rightarrow> jsstr list" where
  "form_targets visible s t = links (SignIn visible s) @ links (SignUp visible t)"

lemma links_ConfirmDialog: "links (SignOutDialog b) = []"
  by (simp add: SignOutDialog_def ConfirmDialog_def show_if_def)

lemma links_labels [simp]: "links (NavBadge t) = []" "concat (map links (entry_label b)) = (case ni_icon b of None \<Rightarrow> [] | Some i \<Rightarrow> [])"
  by (auto simp: NavBadge_def entry_label_def show_if_def split: option.splits)

lemma links_group:
  "concat (map (\<lambda>g. links (NavGroup c m h g)) (getSidebarData a)) = menu_urls (getSidebarData a)"
  by (simp add: getSidebarData_def NavGroup_def nav_link_def SidebarMenuLink_def menu_urls_def)

lemma links_user: "links (NavUser upper m d name uname) = [js ''/settings'', js ''/settings/account'']"
  by (simp add: NavUser_def Let_def links_ConfirmDialog)

lemma links_sidebar:
  "links (AppSidebar upper v user fetched) =
     js ''/'' # menu_urls (getSidebarData (isAdminUser (sidebar_user user fetched))) @ [js ''/settings'', js ''/settings/account'']"
  by (simp add: AppSidebar_def AppTitle_def ToggleSidebar_button_def links_group links_user Let_def o_def)

lemma links_profile: "links (ProfileDropdown upper d user) = [js ''/settings'', js ''/settings/account'']"
  by (simp add: ProfileDropdown_def Let_def links_ConfirmDialog)

lemma links_settings: "links (SidebarNav q w sidebarNavItems) = [js ''/settings'', js ''/settings/account'', js ''/settings/appearance'']"
  by (simp add: settings_links sidebarNavItems_def)

lemma links_field: "links (form_field errs path label control descr) = links control @ concat (map links descr)"
  by (cases "field_message errs path") (simp_all add: form_field_def)

lemma links_password: "links (PasswordInput path visible d props) = []"
  by (simp add: PasswordInput_def Let_def)

lemma links_forms: "form_targets visible s t = [js ''/sign-up'', js ''/sign-in'']"
  by (simp add: form_targets_def SignIn_def SignUp_def AuthLayout_def UserAuthForm_def SignUpForm_def links_field links_password)

definition leads_to :: "jsstr \<Rightarrow> page \<Rightarrow> bool" where
  "leads_to u p \<longleftrightarrow> matching u = [page_route p] \<and> route_component (page_route p) (parameter_of u) = Some p"

lemma leads_to_path:
  assumes "\<forall>e. p = PgErrors e \<longrightarrow> e \<noteq> [] \<and> 0x2F \<notin> set e"
  shows "leads_to (route_path p) p"
  using matching_page[OF assms] component_of_page[OF assms] by (simp add: leads_to_def)

lemma leads_to_plain:
  "leads_to (js ''/'') PgDashboard" "leads_to (js ''/settings'') PgProfile" "leads_to (js ''/settings/account'') PgAccount"
  "leads_to (js ''/settings/appearance'') PgAppearance" "leads_to (js ''/sign-up'') PgSignUp" "leads_to (js ''/sign-in'') PgSignIn"
  "leads_to (js ''/403'') Pg403" "leads_to (js ''/500'') Pg500"
  using leads_to_path[of PgDashboard] leads_to_path[of PgProfile] leads_to_path[of PgAccount] leads_to_path[of PgAppearance]
    leads_to_path[of PgSignUp] leads_to_path[of PgSignIn] leads_to_path[of Pg403] leads_to_path[of Pg500] by simp_all

text \<open>
  No link leads nowhere. Whoever is signed in, every link of the sidebar, of the user's menus, of the
  settings and of the sign-in and sign-up pages, and every place the guards and the error handlers send
  to, is the address of exactly one page.
\<close>

theorem targets_exist:
  "list_all (\<lambda>u. \<exists>p. leads_to u p)
     (link_targets upper v user fetched dialog @ form_targets visible s t @
      map nav_to [to_sign_in href replace, goto_plain (js ''/403''), goto_plain (js ''/500'')])"
proof -
  have "\<exists>p. leads_to (route_path q) p" if "q \<in> set business_pages" for q
    using leads_to_path[of q] that by (auto simp: business_pages_def)
  then have menu: "list_all (\<lambda>u. \<exists>p. leads_to u p) (menu_urls (getSidebarData a))" for a
    by (auto simp: menu_urls_data list_all_iff)
  have plain: "\<exists>p. leads_to u p" if "u \<in> js ` {''/'', ''/settings'', ''/settings/account'', ''/settings/appearance'', ''/sign-up'',
      ''/sign-in'', ''/403'', ''/500''}" for u
    using that leads_to_plain by blast
  have "list_all (\<lambda>u. \<exists>p. leads_to u p) (link_targets upper v user fetched dialog)"
    by (simp add: link_targets_def links_sidebar links_profile links_settings menu plain)
  moreover have "list_all (\<lambda>u. \<exists>p. leads_to u p) (form_targets visible s t)"
    by (simp add: links_forms plain)
  ultimately show ?thesis by (simp add: to_sign_in_def goto_plain_def plain)
qed

end
