(* ===== verification/Ui.thy ===== *)
theory Ui
  imports Jsx JsNumber
begin

section \<open>The components everything is drawn with (components/ui)\<close>

text \<open>
  Every component of \<open>components/ui\<close> as a function from its properties and its children to the elements
  of the primitive libraries it renders. The pages are modelled as trees of these components; the
  theorem says that replacing each component by what it renders changes nothing of what a user can do.
  The property for class names is left out, and a property that only selects class names stays in the
  tree in their place.
\<close>

type_synonym 'e component = "'e attr list \<Rightarrow> 'e node list \<Rightarrow> 'e node"

subsection \<open>Properties\<close>

text \<open>The name of a property, where it has one of its own.\<close>

fun attr_key :: "'e attr \<Rightarrow> string option" where
  "attr_key (Attr n v) = Some n"
| "attr_key (NumAttr n x) = Some n"
| "attr_key (Flag n b) = Some n"
| "attr_key _ = None"

definition slot :: "string \<Rightarrow> 'e attr" where "slot s = Attr ''data-slot'' (js s)"
definition part :: "string \<Rightarrow> 'e attr" where "part s = Attr ''data-sidebar'' (js s)"

text \<open>A parameter with a default value, one that is taken out, and its value.\<close>

definition defaulting :: "'e attr \<Rightarrow> 'e attr list \<Rightarrow> 'e attr list" where
  "defaulting a props = show_if (attr_key a \<notin> attr_key ` set props) [a]"

definition without :: "string list \<Rightarrow> 'e attr list \<Rightarrow> 'e attr list" where
  "without ns props = filter (\<lambda>a. case attr_key a of None \<Rightarrow> True | Some n \<Rightarrow> n \<notin> set ns) props"

fun text_prop :: "string \<Rightarrow> jsstr \<Rightarrow> 'e attr list \<Rightarrow> jsstr" where
  "text_prop n d [] = d"
| "text_prop n d (Attr m v # as) = (if m = n then v else text_prop n d as)"
| "text_prop n d (_ # as) = text_prop n d as"

fun flag_prop :: "string \<Rightarrow> bool \<Rightarrow> 'e attr list \<Rightarrow> bool" where
  "flag_prop n d [] = d"
| "flag_prop n d (Flag m v # as) = (if m = n then v else flag_prop n d as)"
| "flag_prop n d (_ # as) = flag_prop n d as"

text \<open>The menu items put two of their properties under other names.\<close>

fun renamed_attr :: "'e attr \<Rightarrow> 'e attr" where
  "renamed_attr (Attr n v) = Attr (if n = ''variant'' then ''data-variant'' else n) v"
| "renamed_attr (Flag n b) = Flag (if n = ''inset'' then ''data-inset'' else n) b"
| "renamed_attr a = a"

definition renamed :: "'e attr list \<Rightarrow> 'e attr list" where
  "renamed props = map renamed_attr props"

text \<open>\<open>const Comp = asChild ? Slot : tag\<close>.\<close>

definition Comp :: "'e attr list \<Rightarrow> string \<Rightarrow> string" where
  "Comp props tag = (if Flag ''asChild'' True \<in> set props then ''Slot'' else tag)"

subsection \<open>button.tsx\<close>

definition Button :: "'e component" where
  "Button props kids =
     El (Comp props ''button'') (slot ''button'' # props) kids"

definition button_components :: "(string \<times> 'e component) list" where
  "button_components =
     [(''Button'', Button)]"

lemmas button_defs = Button_def

subsection \<open>input.tsx\<close>

definition Input :: "'e component" where
  "Input props kids =
     El ''input'' (slot ''input'' # props) kids"

definition input_components :: "(string \<times> 'e component) list" where
  "input_components =
     [(''Input'', Input)]"

lemmas input_defs = Input_def

subsection \<open>separator.tsx\<close>

definition Separator :: "'e component" where
  "Separator props kids =
     El ''SeparatorPrimitive.Root''
       ([slot ''separator''] @ defaulting (Flag ''decorative'' True) props
        @ defaulting (Attr ''orientation'' (js ''horizontal'')) props @ props) kids"

definition separator_components :: "(string \<times> 'e component) list" where
  "separator_components =
     [(''Separator'', Separator)]"

lemmas separator_defs = Separator_def

subsection \<open>skeleton.tsx\<close>

definition Skeleton :: "'e component" where
  "Skeleton props kids =
     El ''div'' (slot ''skeleton'' # props) kids"

definition skeleton_components :: "(string \<times> 'e component) list" where
  "skeleton_components =
     [(''Skeleton'', Skeleton)]"

lemmas skeleton_defs = Skeleton_def

subsection \<open>dialog.tsx\<close>

definition Dialog :: "'e component" where
  "Dialog props kids =
     El ''DialogPrimitive.Root'' (slot ''dialog'' # props) kids"

definition DialogTrigger :: "'e component" where
  "DialogTrigger props kids =
     El ''DialogPrimitive.Trigger'' (slot ''dialog-trigger'' # props) kids"

definition DialogPortal :: "'e component" where
  "DialogPortal props kids =
     El ''DialogPrimitive.Portal'' (slot ''dialog-portal'' # props) kids"

definition DialogClose :: "'e component" where
  "DialogClose props kids =
     El ''DialogPrimitive.Close'' (slot ''dialog-close'' # props) kids"

definition DialogOverlay :: "'e component" where
  "DialogOverlay props kids =
     El ''DialogPrimitive.Overlay'' (slot ''dialog-overlay'' # props) kids"

definition DialogContent :: "'e component" where
  "DialogContent props kids =
     DialogPortal [slot ''dialog-portal'']
       [DialogOverlay [] [],
        El ''DialogPrimitive.Content'' (slot ''dialog-content'' # without [''showCloseButton''] props)
          (kids @ show_if (flag_prop ''showCloseButton'' True props)
             [El ''DialogPrimitive.Close'' [slot ''dialog-close''] [El ''XIcon'' [] [], El ''span'' [] [Txt (js ''Close'')]]])]"

definition DialogHeader :: "'e component" where
  "DialogHeader props kids =
     El ''div'' (slot ''dialog-header'' # props) kids"

definition DialogFooter :: "'e component" where
  "DialogFooter props kids =
     El ''div'' (slot ''dialog-footer'' # props) kids"

definition DialogTitle :: "'e component" where
  "DialogTitle props kids =
     El ''DialogPrimitive.Title'' (slot ''dialog-title'' # props) kids"

definition DialogDescription :: "'e component" where
  "DialogDescription props kids =
     El ''DialogPrimitive.Description'' (slot ''dialog-description'' # props) kids"

definition dialog_components :: "(string \<times> 'e component) list" where
  "dialog_components =
     [(''Dialog'', Dialog), (''DialogTrigger'', DialogTrigger), (''DialogPortal'', DialogPortal), (''DialogClose'', DialogClose),
      (''DialogOverlay'', DialogOverlay), (''DialogContent'', DialogContent), (''DialogHeader'', DialogHeader), (''DialogFooter'', DialogFooter),
      (''DialogTitle'', DialogTitle), (''DialogDescription'', DialogDescription)]"

lemmas dialog_defs = Dialog_def DialogTrigger_def DialogPortal_def DialogClose_def DialogOverlay_def DialogContent_def DialogHeader_def DialogFooter_def DialogTitle_def DialogDescription_def

subsection \<open>sheet.tsx\<close>

definition Sheet :: "'e component" where
  "Sheet props kids =
     El ''SheetPrimitive.Root'' (slot ''sheet'' # props) kids"

definition SheetTrigger :: "'e component" where
  "SheetTrigger props kids =
     El ''SheetPrimitive.Trigger'' (slot ''sheet-trigger'' # props) kids"

definition SheetClose :: "'e component" where
  "SheetClose props kids =
     El ''SheetPrimitive.Close'' (slot ''sheet-close'' # props) kids"

definition SheetPortal :: "'e component" where
  "SheetPortal props kids =
     El ''SheetPrimitive.Portal'' (slot ''sheet-portal'' # props) kids"

definition SheetOverlay :: "'e component" where
  "SheetOverlay props kids =
     El ''SheetPrimitive.Overlay'' (slot ''sheet-overlay'' # props) kids"

definition SheetContent :: "'e component" where
  "SheetContent props kids =
     SheetPortal []
       [SheetOverlay [] [],
        El ''SheetPrimitive.Content'' (slot ''sheet-content'' # defaulting (Attr ''side'' (js ''right'')) props @ props)
          (kids @ [El ''SheetPrimitive.Close'' [] [El ''XIcon'' [] [], El ''span'' [] [Txt (js ''Close'')]]])]"

definition SheetHeader :: "'e component" where
  "SheetHeader props kids =
     El ''div'' (slot ''sheet-header'' # props) kids"

definition SheetFooter :: "'e component" where
  "SheetFooter props kids =
     El ''div'' (slot ''sheet-footer'' # props) kids"

definition SheetTitle :: "'e component" where
  "SheetTitle props kids =
     El ''SheetPrimitive.Title'' (slot ''sheet-title'' # props) kids"

definition SheetDescription :: "'e component" where
  "SheetDescription props kids =
     El ''SheetPrimitive.Description'' (slot ''sheet-description'' # props) kids"

definition sheet_components :: "(string \<times> 'e component) list" where
  "sheet_components =
     [(''Sheet'', Sheet), (''SheetTrigger'', SheetTrigger), (''SheetClose'', SheetClose), (''SheetPortal'', SheetPortal),
      (''SheetOverlay'', SheetOverlay), (''SheetContent'', SheetContent), (''SheetHeader'', SheetHeader), (''SheetFooter'', SheetFooter),
      (''SheetTitle'', SheetTitle), (''SheetDescription'', SheetDescription)]"

lemmas sheet_defs = Sheet_def SheetTrigger_def SheetClose_def SheetPortal_def SheetOverlay_def SheetContent_def SheetHeader_def SheetFooter_def SheetTitle_def SheetDescription_def

subsection \<open>tooltip.tsx\<close>

definition TooltipProvider :: "'e component" where
  "TooltipProvider props kids =
     El ''TooltipPrimitive.Provider'' ([slot ''tooltip-provider''] @ defaulting (NumAttr ''delayDuration'' (jint 0)) props @ props) kids"

definition Tooltip :: "'e component" where
  "Tooltip props kids =
     TooltipProvider [] [El ''TooltipPrimitive.Root'' (slot ''tooltip'' # props) kids]"

definition TooltipTrigger :: "'e component" where
  "TooltipTrigger props kids =
     El ''TooltipPrimitive.Trigger'' (slot ''tooltip-trigger'' # props) kids"

definition TooltipContent :: "'e component" where
  "TooltipContent props kids =
     El ''TooltipPrimitive.Portal'' []
       [El ''TooltipPrimitive.Content'' ([slot ''tooltip-content''] @ defaulting (NumAttr ''sideOffset'' (jint 0)) props @ props)
          (kids @ [El ''TooltipPrimitive.Arrow'' [] []])]"

definition tooltip_components :: "(string \<times> 'e component) list" where
  "tooltip_components =
     [(''TooltipProvider'', TooltipProvider), (''Tooltip'', Tooltip), (''TooltipTrigger'', TooltipTrigger), (''TooltipContent'', TooltipContent)]"

lemmas tooltip_defs = TooltipProvider_def Tooltip_def TooltipTrigger_def TooltipContent_def

subsection \<open>alert-dialog.tsx\<close>

definition AlertDialog :: "'e component" where
  "AlertDialog props kids =
     El ''AlertDialogPrimitive.Root'' (slot ''alert-dialog'' # props) kids"

definition AlertDialogTrigger :: "'e component" where
  "AlertDialogTrigger props kids =
     El ''AlertDialogPrimitive.Trigger'' (slot ''alert-dialog-trigger'' # props) kids"

definition AlertDialogPortal :: "'e component" where
  "AlertDialogPortal props kids =
     El ''AlertDialogPrimitive.Portal'' (slot ''alert-dialog-portal'' # props) kids"

definition AlertDialogOverlay :: "'e component" where
  "AlertDialogOverlay props kids =
     El ''AlertDialogPrimitive.Overlay'' (slot ''alert-dialog-overlay'' # props) kids"

definition AlertDialogContent :: "'e component" where
  "AlertDialogContent props kids =
     AlertDialogPortal [] [AlertDialogOverlay [] [], El ''AlertDialogPrimitive.Content'' (slot ''alert-dialog-content'' # props) kids]"

definition AlertDialogHeader :: "'e component" where
  "AlertDialogHeader props kids =
     El ''div'' (slot ''alert-dialog-header'' # props) kids"

definition AlertDialogFooter :: "'e component" where
  "AlertDialogFooter props kids =
     El ''div'' (slot ''alert-dialog-footer'' # props) kids"

definition AlertDialogTitle :: "'e component" where
  "AlertDialogTitle props kids =
     El ''AlertDialogPrimitive.Title'' (slot ''alert-dialog-title'' # props) kids"

definition AlertDialogDescription :: "'e component" where
  "AlertDialogDescription props kids =
     El ''AlertDialogPrimitive.Description'' (slot ''alert-dialog-description'' # props) kids"

definition AlertDialogAction :: "'e component" where
  "AlertDialogAction props kids =
     El ''AlertDialogPrimitive.Action'' props kids"

definition AlertDialogCancel :: "'e component" where
  "AlertDialogCancel props kids =
     El ''AlertDialogPrimitive.Cancel'' props kids"

definition alert_dialog_components :: "(string \<times> 'e component) list" where
  "alert_dialog_components =
     [(''AlertDialog'', AlertDialog), (''AlertDialogTrigger'', AlertDialogTrigger), (''AlertDialogPortal'', AlertDialogPortal), (''AlertDialogOverlay'', AlertDialogOverlay),
      (''AlertDialogContent'', AlertDialogContent), (''AlertDialogHeader'', AlertDialogHeader), (''AlertDialogFooter'', AlertDialogFooter), (''AlertDialogTitle'', AlertDialogTitle),
      (''AlertDialogDescription'', AlertDialogDescription), (''AlertDialogAction'', AlertDialogAction), (''AlertDialogCancel'', AlertDialogCancel)]"

lemmas alert_dialog_defs = AlertDialog_def AlertDialogTrigger_def AlertDialogPortal_def AlertDialogOverlay_def AlertDialogContent_def AlertDialogHeader_def AlertDialogFooter_def AlertDialogTitle_def AlertDialogDescription_def AlertDialogAction_def AlertDialogCancel_def

subsection \<open>avatar.tsx\<close>

definition Avatar :: "'e component" where
  "Avatar props kids =
     El ''AvatarPrimitive.Root'' (slot ''avatar'' # props) kids"

definition AvatarImage :: "'e component" where
  "AvatarImage props kids =
     El ''AvatarPrimitive.Image'' (slot ''avatar-image'' # props) kids"

definition AvatarFallback :: "'e component" where
  "AvatarFallback props kids =
     El ''AvatarPrimitive.Fallback'' (slot ''avatar-fallback'' # props) kids"

definition avatar_components :: "(string \<times> 'e component) list" where
  "avatar_components =
     [(''Avatar'', Avatar), (''AvatarImage'', AvatarImage), (''AvatarFallback'', AvatarFallback)]"

lemmas avatar_defs = Avatar_def AvatarImage_def AvatarFallback_def

subsection \<open>badge.tsx\<close>

definition Badge_ui :: "'e component" where
  "Badge_ui props kids =
     El (Comp props ''span'') (slot ''badge'' # props) kids"

definition badge_components :: "(string \<times> 'e component) list" where
  "badge_components =
     [(''Badge'', Badge_ui)]"

lemmas badge_defs = Badge_ui_def

subsection \<open>card.tsx\<close>

definition Card :: "'e component" where
  "Card props kids =
     El ''div'' (slot ''card'' # props) kids"

definition CardHeader :: "'e component" where
  "CardHeader props kids =
     El ''div'' (slot ''card-header'' # props) kids"

definition CardTitle :: "'e component" where
  "CardTitle props kids =
     El ''div'' (slot ''card-title'' # props) kids"

definition CardDescription :: "'e component" where
  "CardDescription props kids =
     El ''div'' (slot ''card-description'' # props) kids"

definition CardAction :: "'e component" where
  "CardAction props kids =
     El ''div'' (slot ''card-action'' # props) kids"

definition CardContent :: "'e component" where
  "CardContent props kids =
     El ''div'' (slot ''card-content'' # props) kids"

definition CardFooter :: "'e component" where
  "CardFooter props kids =
     El ''div'' (slot ''card-footer'' # props) kids"

definition card_components :: "(string \<times> 'e component) list" where
  "card_components =
     [(''Card'', Card), (''CardHeader'', CardHeader), (''CardTitle'', CardTitle), (''CardDescription'', CardDescription),
      (''CardAction'', CardAction), (''CardContent'', CardContent), (''CardFooter'', CardFooter)]"

lemmas card_defs = Card_def CardHeader_def CardTitle_def CardDescription_def CardAction_def CardContent_def CardFooter_def

subsection \<open>collapsible.tsx\<close>

definition Collapsible :: "'e component" where
  "Collapsible props kids =
     El ''CollapsiblePrimitive.Root'' (slot ''collapsible'' # props) kids"

definition CollapsibleTrigger :: "'e component" where
  "CollapsibleTrigger props kids =
     El ''CollapsiblePrimitive.CollapsibleTrigger'' (slot ''collapsible-trigger'' # props) kids"

definition CollapsibleContent :: "'e component" where
  "CollapsibleContent props kids =
     El ''CollapsiblePrimitive.CollapsibleContent'' (slot ''collapsible-content'' # props) kids"

definition collapsible_components :: "(string \<times> 'e component) list" where
  "collapsible_components =
     [(''Collapsible'', Collapsible), (''CollapsibleTrigger'', CollapsibleTrigger), (''CollapsibleContent'', CollapsibleContent)]"

lemmas collapsible_defs = Collapsible_def CollapsibleTrigger_def CollapsibleContent_def

subsection \<open>command.tsx\<close>

definition Command :: "'e component" where
  "Command props kids =
     El ''CommandPrimitive'' (slot ''command'' # props) kids"

definition CommandDialog :: "'e component" where
  "CommandDialog props kids =
     Dialog (without [''title'', ''description'', ''showCloseButton''] props)
       [DialogHeader [] [DialogTitle [] [Txt (text_prop ''title'' (js ''Command Palette'') props)],
                         DialogDescription [] [Txt (text_prop ''description'' (js ''Search for a command to run...'') props)]],
        DialogContent [Flag ''showCloseButton'' (flag_prop ''showCloseButton'' True props)] [Command [] kids]]"

definition CommandInput :: "'e component" where
  "CommandInput props kids =
     El ''div'' [slot ''command-input-wrapper'']
       [El ''SearchIcon'' [] [], El ''CommandPrimitive.Input'' (slot ''command-input'' # props) kids]"

definition CommandList :: "'e component" where
  "CommandList props kids =
     El ''CommandPrimitive.List'' (slot ''command-list'' # props) kids"

definition CommandEmpty :: "'e component" where
  "CommandEmpty props kids =
     El ''CommandPrimitive.Empty'' (slot ''command-empty'' # props) kids"

definition CommandGroup :: "'e component" where
  "CommandGroup props kids =
     El ''CommandPrimitive.Group'' (slot ''command-group'' # props) kids"

definition CommandSeparator :: "'e component" where
  "CommandSeparator props kids =
     El ''CommandPrimitive.Separator'' (slot ''command-separator'' # props) kids"

definition CommandItem :: "'e component" where
  "CommandItem props kids =
     El ''CommandPrimitive.Item'' (slot ''command-item'' # props) kids"

definition CommandShortcut :: "'e component" where
  "CommandShortcut props kids =
     El ''span'' (slot ''command-shortcut'' # props) kids"

definition command_components :: "(string \<times> 'e component) list" where
  "command_components =
     [(''Command'', Command), (''CommandDialog'', CommandDialog), (''CommandInput'', CommandInput), (''CommandList'', CommandList),
      (''CommandEmpty'', CommandEmpty), (''CommandGroup'', CommandGroup), (''CommandSeparator'', CommandSeparator), (''CommandItem'', CommandItem),
      (''CommandShortcut'', CommandShortcut)]"

lemmas command_defs = Command_def CommandDialog_def CommandInput_def CommandList_def CommandEmpty_def CommandGroup_def CommandSeparator_def CommandItem_def CommandShortcut_def

subsection \<open>dropdown-menu.tsx\<close>

definition DropdownMenu :: "'e component" where
  "DropdownMenu props kids =
     El ''DropdownMenuPrimitive.Root'' (slot ''dropdown-menu'' # props) kids"

definition DropdownMenuPortal :: "'e component" where
  "DropdownMenuPortal props kids =
     El ''DropdownMenuPrimitive.Portal'' (slot ''dropdown-menu-portal'' # props) kids"

definition DropdownMenuTrigger :: "'e component" where
  "DropdownMenuTrigger props kids =
     El ''DropdownMenuPrimitive.Trigger'' (slot ''dropdown-menu-trigger'' # props) kids"

definition DropdownMenuContent :: "'e component" where
  "DropdownMenuContent props kids =
     El ''DropdownMenuPrimitive.Portal'' []
       [El ''DropdownMenuPrimitive.Content''
          ([slot ''dropdown-menu-content''] @ defaulting (NumAttr ''sideOffset'' (jint 4)) props @ props) kids]"

definition DropdownMenuGroup :: "'e component" where
  "DropdownMenuGroup props kids =
     El ''DropdownMenuPrimitive.Group'' (slot ''dropdown-menu-group'' # props) kids"

definition DropdownMenuItem :: "'e component" where
  "DropdownMenuItem props kids =
     El ''DropdownMenuPrimitive.Item''
       ([slot ''dropdown-menu-item''] @ defaulting (Attr ''data-variant'' (js ''default'')) (renamed props)
        @ renamed props) kids"

definition DropdownMenuCheckboxItem :: "'e component" where
  "DropdownMenuCheckboxItem props kids =
     El ''DropdownMenuPrimitive.CheckboxItem'' (slot ''dropdown-menu-checkbox-item'' # props)
       ([El ''span'' [] [El ''DropdownMenuPrimitive.ItemIndicator'' [] [El ''CheckIcon'' [] []]]] @ kids)"

definition DropdownMenuRadioGroup :: "'e component" where
  "DropdownMenuRadioGroup props kids =
     El ''DropdownMenuPrimitive.RadioGroup'' (slot ''dropdown-menu-radio-group'' # props) kids"

definition DropdownMenuRadioItem :: "'e component" where
  "DropdownMenuRadioItem props kids =
     El ''DropdownMenuPrimitive.RadioItem'' (slot ''dropdown-menu-radio-item'' # props)
       ([El ''span'' [] [El ''DropdownMenuPrimitive.ItemIndicator'' [] [El ''CircleIcon'' [] []]]] @ kids)"

definition DropdownMenuLabel :: "'e component" where
  "DropdownMenuLabel props kids =
     El ''DropdownMenuPrimitive.Label'' (slot ''dropdown-menu-label'' # renamed props) kids"

definition DropdownMenuSeparator :: "'e component" where
  "DropdownMenuSeparator props kids =
     El ''DropdownMenuPrimitive.Separator'' (slot ''dropdown-menu-separator'' # props) kids"

definition DropdownMenuShortcut :: "'e component" where
  "DropdownMenuShortcut props kids =
     El ''span'' (slot ''dropdown-menu-shortcut'' # props) kids"

definition DropdownMenuSub :: "'e component" where
  "DropdownMenuSub props kids =
     El ''DropdownMenuPrimitive.Sub'' (slot ''dropdown-menu-sub'' # props) kids"

definition DropdownMenuSubTrigger :: "'e component" where
  "DropdownMenuSubTrigger props kids =
     El ''DropdownMenuPrimitive.SubTrigger'' (slot ''dropdown-menu-sub-trigger'' # renamed props)
       (kids @ [El ''ChevronRightIcon'' [] []])"

definition DropdownMenuSubContent :: "'e component" where
  "DropdownMenuSubContent props kids =
     El ''DropdownMenuPrimitive.SubContent'' (slot ''dropdown-menu-sub-content'' # props) kids"

definition dropdown_menu_components :: "(string \<times> 'e component) list" where
  "dropdown_menu_components =
     [(''DropdownMenu'', DropdownMenu), (''DropdownMenuPortal'', DropdownMenuPortal), (''DropdownMenuTrigger'', DropdownMenuTrigger), (''DropdownMenuContent'', DropdownMenuContent),
      (''DropdownMenuGroup'', DropdownMenuGroup), (''DropdownMenuItem'', DropdownMenuItem), (''DropdownMenuCheckboxItem'', DropdownMenuCheckboxItem), (''DropdownMenuRadioGroup'', DropdownMenuRadioGroup),
      (''DropdownMenuRadioItem'', DropdownMenuRadioItem), (''DropdownMenuLabel'', DropdownMenuLabel), (''DropdownMenuSeparator'', DropdownMenuSeparator), (''DropdownMenuShortcut'', DropdownMenuShortcut),
      (''DropdownMenuSub'', DropdownMenuSub), (''DropdownMenuSubTrigger'', DropdownMenuSubTrigger), (''DropdownMenuSubContent'', DropdownMenuSubContent)]"

lemmas dropdown_menu_defs = DropdownMenu_def DropdownMenuPortal_def DropdownMenuTrigger_def DropdownMenuContent_def DropdownMenuGroup_def DropdownMenuItem_def DropdownMenuCheckboxItem_def DropdownMenuRadioGroup_def DropdownMenuRadioItem_def DropdownMenuLabel_def DropdownMenuSeparator_def DropdownMenuShortcut_def DropdownMenuSub_def DropdownMenuSubTrigger_def DropdownMenuSubContent_def

subsection \<open>label.tsx\<close>

definition Label :: "'e component" where
  "Label props kids =
     El ''LabelPrimitive.Root'' (slot ''label'' # props) kids"

definition label_components :: "(string \<times> 'e component) list" where
  "label_components =
     [(''Label'', Label)]"

lemmas label_defs = Label_def

subsection \<open>radio-group.tsx\<close>

definition RadioGroup :: "'e component" where
  "RadioGroup props kids =
     El ''RadioGroupPrimitive.Root'' (slot ''radio-group'' # props) kids"

definition RadioGroupItem :: "'e component" where
  "RadioGroupItem props kids =
     El ''RadioGroupPrimitive.Item'' (slot ''radio-group-item'' # props)
       [El ''RadioGroupPrimitive.Indicator'' [slot ''radio-group-indicator''] [El ''CircleIcon'' [] []]]"

definition radio_group_components :: "(string \<times> 'e component) list" where
  "radio_group_components =
     [(''RadioGroup'', RadioGroup), (''RadioGroupItem'', RadioGroupItem)]"

lemmas radio_group_defs = RadioGroup_def RadioGroupItem_def

subsection \<open>scroll-area.tsx\<close>

definition ScrollBar :: "'e component" where
  "ScrollBar props kids =
     El ''ScrollAreaPrimitive.ScrollAreaScrollbar''
       ([slot ''scroll-area-scrollbar''] @ defaulting (Attr ''orientation'' (js ''vertical'')) props @ props)
       [El ''ScrollAreaPrimitive.ScrollAreaThumb'' [slot ''scroll-area-thumb''] []]"

definition ScrollArea :: "'e component" where
  "ScrollArea props kids =
     El ''ScrollAreaPrimitive.Root'' (slot ''scroll-area'' # without [''orientation''] props)
       [El ''ScrollAreaPrimitive.Viewport''
          [slot ''scroll-area-viewport'', Flag ''overflow-x'' (text_prop ''orientation'' (js ''vertical'') props = js ''horizontal'')] kids,
        ScrollBar [Attr ''orientation'' (text_prop ''orientation'' (js ''vertical'') props)] [],
        El ''ScrollAreaPrimitive.Corner'' [] []]"

definition scroll_area_components :: "(string \<times> 'e component) list" where
  "scroll_area_components =
     [(''ScrollBar'', ScrollBar), (''ScrollArea'', ScrollArea)]"

lemmas scroll_area_defs = ScrollBar_def ScrollArea_def

subsection \<open>select.tsx\<close>

definition SelectScrollUpButton :: "'e component" where
  "SelectScrollUpButton props kids =
     El ''SelectPrimitive.ScrollUpButton'' (slot ''select-scroll-up-button'' # props) [El ''ChevronUpIcon'' [] []]"

definition SelectScrollDownButton :: "'e component" where
  "SelectScrollDownButton props kids =
     El ''SelectPrimitive.ScrollDownButton'' (slot ''select-scroll-down-button'' # props) [El ''ChevronDownIcon'' [] []]"

definition Select :: "'e component" where
  "Select props kids =
     El ''SelectPrimitive.Root'' (slot ''select'' # props) kids"

definition SelectGroup :: "'e component" where
  "SelectGroup props kids =
     El ''SelectPrimitive.Group'' (slot ''select-group'' # props) kids"

definition SelectValue :: "'e component" where
  "SelectValue props kids =
     El ''SelectPrimitive.Value'' (slot ''select-value'' # props) kids"

definition SelectTrigger :: "'e component" where
  "SelectTrigger props kids =
     El ''SelectPrimitive.Trigger''
       ([slot ''select-trigger''] @ defaulting (Attr ''size'' (js ''default'')) props @ props)
       (kids @ [El ''SelectPrimitive.Icon'' [] [El ''ChevronDownIcon'' [] []]])"

definition SelectContent :: "'e component" where
  "SelectContent props kids =
     El ''SelectPrimitive.Portal'' []
       [El ''SelectPrimitive.Content''
          ([slot ''select-content''] @ defaulting (Attr ''position'' (js ''popper'')) props @ props)
          [SelectScrollUpButton [] [], El ''SelectPrimitive.Viewport'' [] kids, SelectScrollDownButton [] []]]"

definition SelectLabel :: "'e component" where
  "SelectLabel props kids =
     El ''SelectPrimitive.Label'' (slot ''select-label'' # props) kids"

definition SelectItem :: "'e component" where
  "SelectItem props kids =
     El ''SelectPrimitive.Item'' (slot ''select-item'' # props)
       [El ''span'' [] [El ''SelectPrimitive.ItemIndicator'' [] [El ''CheckIcon'' [] []]],
        El ''SelectPrimitive.ItemText'' [] kids]"

definition SelectSeparator :: "'e component" where
  "SelectSeparator props kids =
     El ''SelectPrimitive.Separator'' (slot ''select-separator'' # props) kids"

definition select_components :: "(string \<times> 'e component) list" where
  "select_components =
     [(''SelectScrollUpButton'', SelectScrollUpButton), (''SelectScrollDownButton'', SelectScrollDownButton), (''Select'', Select), (''SelectGroup'', SelectGroup),
      (''SelectValue'', SelectValue), (''SelectTrigger'', SelectTrigger), (''SelectContent'', SelectContent), (''SelectLabel'', SelectLabel),
      (''SelectItem'', SelectItem), (''SelectSeparator'', SelectSeparator)]"

lemmas select_defs = SelectScrollUpButton_def SelectScrollDownButton_def Select_def SelectGroup_def SelectValue_def SelectTrigger_def SelectContent_def SelectLabel_def SelectItem_def SelectSeparator_def

subsection \<open>sidebar.tsx\<close>

definition SidebarInset :: "'e component" where
  "SidebarInset props kids =
     El ''div'' (slot ''sidebar-inset'' # props) kids"

definition SidebarInput :: "'e component" where
  "SidebarInput props kids =
     Input (slot ''sidebar-input'' # part ''input'' # props) kids"

definition SidebarHeader :: "'e component" where
  "SidebarHeader props kids =
     El ''div'' (slot ''sidebar-header'' # part ''header'' # props) kids"

definition SidebarFooter :: "'e component" where
  "SidebarFooter props kids =
     El ''div'' (slot ''sidebar-footer'' # part ''footer'' # props) kids"

definition SidebarSeparator :: "'e component" where
  "SidebarSeparator props kids =
     Separator (slot ''sidebar-separator'' # part ''separator'' # props) kids"

definition SidebarContent :: "'e component" where
  "SidebarContent props kids =
     El ''div'' (slot ''sidebar-content'' # part ''content'' # props) kids"

definition SidebarGroup :: "'e component" where
  "SidebarGroup props kids =
     El ''div'' (slot ''sidebar-group'' # part ''group'' # props) kids"

definition SidebarGroupLabel :: "'e component" where
  "SidebarGroupLabel props kids =
     El (Comp props ''div'') (slot ''sidebar-group-label'' # part ''group-label'' # props) kids"

definition SidebarGroupAction :: "'e component" where
  "SidebarGroupAction props kids =
     El (Comp props ''button'') (slot ''sidebar-group-action'' # part ''group-action'' # props) kids"

definition SidebarGroupContent :: "'e component" where
  "SidebarGroupContent props kids =
     El ''div'' (slot ''sidebar-group-content'' # part ''group-content'' # props) kids"

definition SidebarMenu :: "'e component" where
  "SidebarMenu props kids =
     El ''ul'' (slot ''sidebar-menu'' # part ''menu'' # props) kids"

definition SidebarMenuItem :: "'e component" where
  "SidebarMenuItem props kids =
     El ''li'' (slot ''sidebar-menu-item'' # part ''menu-item'' # props) kids"

definition SidebarMenuAction :: "'e component" where
  "SidebarMenuAction props kids =
     El (Comp props ''button'') (slot ''sidebar-menu-action'' # part ''menu-action'' # props) kids"

definition SidebarMenuBadge :: "'e component" where
  "SidebarMenuBadge props kids =
     El ''div'' (slot ''sidebar-menu-badge'' # part ''menu-badge'' # props) kids"

definition SidebarMenuSub :: "'e component" where
  "SidebarMenuSub props kids =
     El ''ul'' (slot ''sidebar-menu-sub'' # part ''menu-sub'' # props) kids"

definition SidebarMenuSubItem :: "'e component" where
  "SidebarMenuSubItem props kids =
     El ''li'' (slot ''sidebar-menu-sub-item'' # part ''menu-sub-item'' # props) kids"

definition SidebarMenuSubButton :: "'e component" where
  "SidebarMenuSubButton props kids =
     El (Comp props ''a'')
       ([slot ''sidebar-menu-sub-button'', part ''menu-sub-button''] @ defaulting (Attr ''size'' (js ''md'')) props
        @ defaulting (Flag ''isActive'' False) props @ props) kids"

definition sidebar_components :: "(string \<times> 'e component) list" where
  "sidebar_components =
     [(''SidebarInset'', SidebarInset), (''SidebarInput'', SidebarInput), (''SidebarHeader'', SidebarHeader), (''SidebarFooter'', SidebarFooter),
      (''SidebarSeparator'', SidebarSeparator), (''SidebarContent'', SidebarContent), (''SidebarGroup'', SidebarGroup), (''SidebarGroupLabel'', SidebarGroupLabel),
      (''SidebarGroupAction'', SidebarGroupAction), (''SidebarGroupContent'', SidebarGroupContent), (''SidebarMenu'', SidebarMenu), (''SidebarMenuItem'', SidebarMenuItem),
      (''SidebarMenuAction'', SidebarMenuAction), (''SidebarMenuBadge'', SidebarMenuBadge), (''SidebarMenuSub'', SidebarMenuSub), (''SidebarMenuSubItem'', SidebarMenuSubItem),
      (''SidebarMenuSubButton'', SidebarMenuSubButton)]"

lemmas sidebar_defs = SidebarInset_def SidebarInput_def SidebarHeader_def SidebarFooter_def SidebarSeparator_def SidebarContent_def SidebarGroup_def SidebarGroupLabel_def SidebarGroupAction_def SidebarGroupContent_def SidebarMenu_def SidebarMenuItem_def SidebarMenuAction_def SidebarMenuBadge_def SidebarMenuSub_def SidebarMenuSubItem_def SidebarMenuSubButton_def

subsection \<open>table.tsx\<close>

definition Table :: "'e component" where
  "Table props kids =
     El ''div'' [slot ''table-container''] [El ''table'' (slot ''table'' # props) kids]"

definition TableHeader :: "'e component" where
  "TableHeader props kids =
     El ''thead'' (slot ''table-header'' # props) kids"

definition TableBody :: "'e component" where
  "TableBody props kids =
     El ''tbody'' (slot ''table-body'' # props) kids"

definition TableFooter :: "'e component" where
  "TableFooter props kids =
     El ''tfoot'' (slot ''table-footer'' # props) kids"

definition TableRow :: "'e component" where
  "TableRow props kids =
     El ''tr'' (slot ''table-row'' # props) kids"

definition TableHead :: "'e component" where
  "TableHead props kids =
     El ''th'' (slot ''table-head'' # props) kids"

definition TableCell :: "'e component" where
  "TableCell props kids =
     El ''td'' (slot ''table-cell'' # props) kids"

definition TableCaption :: "'e component" where
  "TableCaption props kids =
     El ''caption'' (slot ''table-caption'' # props) kids"

definition table_components :: "(string \<times> 'e component) list" where
  "table_components =
     [(''Table'', Table), (''TableHeader'', TableHeader), (''TableBody'', TableBody), (''TableFooter'', TableFooter),
      (''TableRow'', TableRow), (''TableHead'', TableHead), (''TableCell'', TableCell), (''TableCaption'', TableCaption)]"

lemmas table_defs = Table_def TableHeader_def TableBody_def TableFooter_def TableRow_def TableHead_def TableCell_def TableCaption_def

subsection \<open>textarea.tsx\<close>

definition Textarea :: "'e component" where
  "Textarea props kids =
     El ''textarea'' (slot ''textarea'' # props) kids"

definition textarea_components :: "(string \<times> 'e component) list" where
  "textarea_components =
     [(''Textarea'', Textarea)]"

lemmas textarea_defs = Textarea_def

subsection \<open>All of them\<close>

definition ui_components :: "(string \<times> 'e component) list" where
  "ui_components =
     button_components @ input_components @ separator_components @ skeleton_components
     @ dialog_components @ sheet_components @ tooltip_components @ alert_dialog_components
     @ avatar_components @ badge_components @ card_components @ collapsible_components
     @ command_components @ dropdown_menu_components @ label_components @ radio_group_components
     @ scroll_area_components @ select_components @ sidebar_components @ table_components
     @ textarea_components"

text \<open>
  A tree is rendered by replacing every component by what it returns, from the leaves up. Four of the
  components have children of their own and drop those they are given.
\<close>

fun rendered :: "'e node \<Rightarrow> 'e node" where
  "rendered (Txt s) = Txt s"
| "rendered (El t as ks) =
     (case map_of ui_components t of
        None \<Rightarrow> El t as (map rendered ks)
      | Some f \<Rightarrow> f as (map rendered ks))"

definition childless :: "string list" where
  "childless = [''RadioGroupItem'', ''ScrollBar'', ''SelectScrollUpButton'', ''SelectScrollDownButton'']"

definition usable :: "string \<Rightarrow> 'e attr list \<Rightarrow> 'e node list \<Rightarrow> bool" where
  "usable t as ks \<longleftrightarrow> Flag ''asChild'' True \<notin> set as \<and> (t \<in> set childless \<longrightarrow> ks = [])"

fun well_used :: "'e node \<Rightarrow> bool" where
  "well_used (Txt s) = True"
| "well_used (El t as ks) = (usable t as ks \<and> list_all well_used ks)"

subsection \<open>What a component offers\<close>

text \<open>
  Only handlers, and the properties that switch an element off, matter to what an element offers;
  the rest of its properties does not.
\<close>

definition handlers :: "'e attr list \<Rightarrow> 'e attr list" where
  "handlers as = filter (\<lambda>a. attr_key a = None) as"

lemma handlers_simps [simp]:
  "handlers [] = []"
  "handlers (Attr n v # as) = handlers as"
  "handlers (NumAttr n x # as) = handlers as"
  "handlers (Flag n b # as) = handlers as"
  "handlers (as @ bs) = handlers as @ handlers bs"
  "handlers (slot s # as) = handlers as"
  "handlers (part s # as) = handlers as"
  by (simp_all add: handlers_def slot_def part_def)

lemma handlers_defaulting [simp]:
  "handlers (defaulting (Attr n v) props) = []"
  "handlers (defaulting (NumAttr n x) props) = []"
  "handlers (defaulting (Flag n b) props) = []"
  by (simp_all add: handlers_def defaulting_def show_if_def)

lemma handlers_without [simp]: "handlers (without ns props) = handlers props"
  by (induction props) (auto simp: handlers_def without_def split: option.splits)

lemma handlers_renamed [simp]: "handlers (renamed props) = handlers props"
proof (induction props)
  case (Cons a props)
  then show ?case by (cases a) (simp_all add: handlers_def renamed_def)
qed (simp add: renamed_def)

text \<open>What an element offers, from its handlers and from what matters of its children.\<close>

fun attr_offers :: "'e attr list \<Rightarrow> bool \<Rightarrow> jsstr list \<Rightarrow> 'e attr \<Rightarrow> 'e affordance list" where
  "attr_offers hs sb vs (OnClick e) = [Act e]"
| "attr_offers hs sb vs (OnSubmit e) = (if sb then [Act e] else [])"
| "attr_offers hs sb vs (OnChange f) = [TypeIn (max_length hs) f]"
| "attr_offers hs sb vs (OnValueChange f) = map (\<lambda>v. Act (f v)) vs"
| "attr_offers hs sb vs (OnOpenChange f) = [Act (f False)]"
| "attr_offers hs sb vs _ = []"

definition offers_of :: "'e attr list \<Rightarrow> bool \<Rightarrow> jsstr list \<Rightarrow> 'e affordance list \<Rightarrow> 'e affordance list" where
  "offers_of hs sb vs inner =
     (if list_ex closes hs then []
      else (if list_ex disables hs then [] else concat (map (attr_offers hs sb vs) hs)) @ inner)"

lemma handlers_ex: "list_ex closes (handlers as) = list_ex closes as" "list_ex disables (handlers as) = list_ex disables as"
  "list_ex type_button (handlers as) = list_ex type_button as"
proof -
  have "closes a \<Longrightarrow> attr_key a = None" "disables a \<Longrightarrow> attr_key a = None" "type_button a \<Longrightarrow> attr_key a = None" for a :: "'a attr"
    by (cases a; simp)+
  then show "list_ex closes (handlers as) = list_ex closes as" "list_ex disables (handlers as) = list_ex disables as"
    "list_ex type_button (handlers as) = list_ex type_button as"
    by (auto simp: handlers_def list_ex_iff)
qed

lemma handlers_max_length: "max_length (handlers as) = max_length as"
proof (induction as)
  case (Cons a as)
  then show ?case by (cases a) (simp_all add: handlers_def)
qed (simp add: handlers_def)

lemma handlers_value: "value_attr (handlers as) = value_attr as"
proof (induction as)
  case (Cons a as)
  then show ?case by (cases a) (simp_all add: handlers_def)
qed (simp add: handlers_def)

lemma handlers_offers:
  "concat (map (attr_offers (handlers as) sb vs) (handlers as)) = concat (map (attr_offers (handlers as) sb vs) as)"
proof -
  have "concat (map (attr_offers hs sb vs) (handlers as)) = concat (map (attr_offers hs sb vs) as)" for hs
  proof (induction as)
    case (Cons a as)
    then show ?case by (cases a) (simp_all add: handlers_def)
  qed simp
  then show ?thesis .
qed

lemma attr_affords_offers:
  "attr_affords as ks a = attr_offers (handlers as) (list_ex submit_button ks) (concat (map item_values ks)) a"
  by (cases a) (simp_all add: handlers_max_length)

lemma affordances_El: "affordances (El t as ks) =
    offers_of (handlers as) (list_ex submit_button ks) (concat (map item_values ks)) (concat (map affordances ks))"
  by (simp add: offers_of_def handlers_ex handlers_offers attr_affords_offers[abs_def])

lemma submit_button_El: "submit_button (El t as ks) \<longleftrightarrow>
    t \<in> set button_tags \<and> \<not> list_ex type_button (handlers as) \<and> \<not> list_ex disables (handlers as) \<or>
    list_ex submit_button ks"
  by (simp add: handlers_ex del: button_tags_iff)

lemma item_values_El: "item_values (El t as ks) =
    (if t \<in> set item_tags \<and> \<not> list_ex disables (handlers as) then value_attr (handlers as) else []) @ concat (map item_values ks)"
  by (simp add: handlers_ex handlers_value del: item_tags_iff)

lemma offers_of_none [simp]: "offers_of [] sb vs inner = inner"
  by (simp add: offers_of_def)

lemma list_ex_show_if [simp]: "list_ex P (show_if c xs) \<longleftrightarrow> c \<and> list_ex P xs"
  by (simp add: show_if_def)

lemma show_if_Nil [simp]: "show_if c [] = []"
  by (simp add: show_if_def)

lemmas offer_eqs = affordances_El submit_button_El item_values_El

definition transparent :: "string \<times> 'e component \<Rightarrow> bool" where
  "transparent c \<longleftrightarrow> (\<forall>as ks. usable (fst c) as ks \<longrightarrow>
     affordances ((snd c) as ks) = affordances (El (fst c) as ks) \<and>
     submit_button ((snd c) as ks) = submit_button (El (fst c) as ks) \<and>
     item_values ((snd c) as ks) = item_values (El (fst c) as ks))"

lemma button_transparent: "list_all transparent button_components"
  by (simp add: button_components_def transparent_def usable_def childless_def Comp_def offer_eqs button_defs 
      del: affordances.simps(2) submit_button.simps(2) item_values.simps(2))

lemma input_transparent: "list_all transparent input_components"
  by (simp add: input_components_def transparent_def usable_def childless_def Comp_def offer_eqs input_defs 
      del: affordances.simps(2) submit_button.simps(2) item_values.simps(2))

lemma separator_transparent: "list_all transparent separator_components"
  by (simp add: separator_components_def transparent_def usable_def childless_def Comp_def offer_eqs separator_defs 
      del: affordances.simps(2) submit_button.simps(2) item_values.simps(2))

lemma skeleton_transparent: "list_all transparent skeleton_components"
  by (simp add: skeleton_components_def transparent_def usable_def childless_def Comp_def offer_eqs skeleton_defs 
      del: affordances.simps(2) submit_button.simps(2) item_values.simps(2))

lemma dialog_transparent: "list_all transparent dialog_components"
  by (simp add: dialog_components_def transparent_def usable_def childless_def Comp_def offer_eqs dialog_defs 
      del: affordances.simps(2) submit_button.simps(2) item_values.simps(2))

lemma sheet_transparent: "list_all transparent sheet_components"
  by (simp add: sheet_components_def transparent_def usable_def childless_def Comp_def offer_eqs sheet_defs 
      del: affordances.simps(2) submit_button.simps(2) item_values.simps(2))

lemma tooltip_transparent: "list_all transparent tooltip_components"
  by (simp add: tooltip_components_def transparent_def usable_def childless_def Comp_def offer_eqs tooltip_defs 
      del: affordances.simps(2) submit_button.simps(2) item_values.simps(2))

lemma alert_dialog_transparent: "list_all transparent alert_dialog_components"
  by (simp add: alert_dialog_components_def transparent_def usable_def childless_def Comp_def offer_eqs alert_dialog_defs 
      del: affordances.simps(2) submit_button.simps(2) item_values.simps(2))

lemma avatar_transparent: "list_all transparent avatar_components"
  by (simp add: avatar_components_def transparent_def usable_def childless_def Comp_def offer_eqs avatar_defs 
      del: affordances.simps(2) submit_button.simps(2) item_values.simps(2))

lemma badge_transparent: "list_all transparent badge_components"
  by (simp add: badge_components_def transparent_def usable_def childless_def Comp_def offer_eqs badge_defs 
      del: affordances.simps(2) submit_button.simps(2) item_values.simps(2))

lemma card_transparent: "list_all transparent card_components"
  by (simp add: card_components_def transparent_def usable_def childless_def Comp_def offer_eqs card_defs 
      del: affordances.simps(2) submit_button.simps(2) item_values.simps(2))

lemma collapsible_transparent: "list_all transparent collapsible_components"
  by (simp add: collapsible_components_def transparent_def usable_def childless_def Comp_def offer_eqs collapsible_defs 
      del: affordances.simps(2) submit_button.simps(2) item_values.simps(2))

lemma command_transparent: "list_all transparent command_components"
  by (simp add: command_components_def transparent_def usable_def childless_def Comp_def offer_eqs command_defs dialog_defs
      del: affordances.simps(2) submit_button.simps(2) item_values.simps(2))

lemma dropdown_menu_transparent: "list_all transparent dropdown_menu_components"
  by (simp add: dropdown_menu_components_def transparent_def usable_def childless_def Comp_def offer_eqs dropdown_menu_defs 
      del: affordances.simps(2) submit_button.simps(2) item_values.simps(2))

lemma label_transparent: "list_all transparent label_components"
  by (simp add: label_components_def transparent_def usable_def childless_def Comp_def offer_eqs label_defs 
      del: affordances.simps(2) submit_button.simps(2) item_values.simps(2))

lemma radio_group_transparent: "list_all transparent radio_group_components"
  by (simp add: radio_group_components_def transparent_def usable_def childless_def Comp_def offer_eqs radio_group_defs 
      del: affordances.simps(2) submit_button.simps(2) item_values.simps(2))

lemma scroll_area_transparent: "list_all transparent scroll_area_components"
  by (simp add: scroll_area_components_def transparent_def usable_def childless_def Comp_def offer_eqs scroll_area_defs 
      del: affordances.simps(2) submit_button.simps(2) item_values.simps(2))

lemma select_transparent: "list_all transparent select_components"
  by (simp add: select_components_def transparent_def usable_def childless_def Comp_def offer_eqs select_defs 
      del: affordances.simps(2) submit_button.simps(2) item_values.simps(2))

lemma sidebar_transparent: "list_all transparent sidebar_components"
  by (simp add: sidebar_components_def transparent_def usable_def childless_def Comp_def offer_eqs sidebar_defs input_defs separator_defs skeleton_defs
      del: affordances.simps(2) submit_button.simps(2) item_values.simps(2))

lemma table_transparent: "list_all transparent table_components"
  by (simp add: table_components_def transparent_def usable_def childless_def Comp_def offer_eqs table_defs 
      del: affordances.simps(2) submit_button.simps(2) item_values.simps(2))

lemma textarea_transparent: "list_all transparent textarea_components"
  by (simp add: textarea_components_def transparent_def usable_def childless_def Comp_def offer_eqs textarea_defs 
      del: affordances.simps(2) submit_button.simps(2) item_values.simps(2))

lemma ui_transparent: "list_all transparent ui_components"
  by (simp add: ui_components_def
      button_transparent input_transparent separator_transparent skeleton_transparent
      dialog_transparent sheet_transparent tooltip_transparent alert_dialog_transparent
      avatar_transparent badge_transparent card_transparent collapsible_transparent
      command_transparent dropdown_menu_transparent label_transparent radio_group_transparent
      scroll_area_transparent select_transparent sidebar_transparent table_transparent
      textarea_transparent)


text \<open>What matters of an element's children is what they offer, submit and choose from.\<close>

definition same_use :: "'e node \<Rightarrow> 'e node \<Rightarrow> bool" where
  "same_use m n \<longleftrightarrow> affordances m = affordances n \<and> submit_button m = submit_button n \<and> item_values m = item_values n"

lemma same_use_El:
  assumes "\<And>k. k \<in> set ks \<Longrightarrow> same_use (f k) k"
  shows "same_use (El t as (map f ks)) (El t as ks)"
proof -
  have "map (affordances \<circ> f) ks = map affordances ks" "map (item_values \<circ> f) ks = map item_values ks"
    using assms by (auto simp: same_use_def)
  then have "concat (map (affordances \<circ> f) ks) = concat (map affordances ks)"
    "concat (map (item_values \<circ> f) ks) = concat (map item_values ks)" by (simp_all only:)
  moreover have "list_ex submit_button (map f ks) = list_ex submit_button ks"
    using assms by (auto simp: same_use_def list_ex_iff)
  ultimately show ?thesis
    by (simp add: same_use_def offer_eqs del: affordances.simps(2) submit_button.simps(2) item_values.simps(2))
qed

text \<open>
  Drawing a tree with the components of \<open>components/ui\<close> changes nothing of what a user can do: in the
  order of the page, the rendered elements offer exactly the events, with the same limits, that the
  tree of components does. So what is proved of the pages' trees holds of what is drawn.
\<close>

theorem rendering_keeps_use:
  assumes "well_used n"
  shows "affordances (rendered n) = affordances n"
proof -
  have "well_used n \<Longrightarrow> same_use (rendered n) n"
  proof (induction n rule: rendered.induct)
    case (1 s)
    then show ?case by (simp add: same_use_def)
  next
    case (2 t as ks)
    have u: "usable t as (map rendered ks)" using 2(3) by (auto simp: usable_def)
    have k: "same_use (El t as (map rendered ks)) (El t as ks)"
    proof (rule same_use_El)
      fix k assume "k \<in> set ks"
      with 2 show "same_use (rendered k) k"
        by (cases "map_of ui_components t :: 'a component option") (auto simp: list_all_iff)
    qed
    show ?case
    proof (cases "map_of ui_components t :: 'a component option")
      case None
      with k show ?thesis by simp
    next
      case (Some f)
      then have "transparent (t, f)"
        using ui_transparent by (auto simp: list_all_iff dest: map_of_SomeD)
      with u have "same_use (f as (map rendered ks)) (El t as (map rendered ks))"
        by (simp add: transparent_def same_use_def)
      with k Some show ?thesis by (simp add: same_use_def)
    qed
  qed
  with assms show ?thesis by (simp add: same_use_def)
qed

end
