(* ===== verification/UiControls.thy ===== *)
theory UiControls
  imports Ui JsConvert
begin

section \<open>Components with a context: form fields and the sidebar (ui/form.tsx, ui/sidebar.tsx, ui/sonner.tsx)\<close>

text \<open>
  The parts of a form field, which are tied together by the identity of the field, and the parts of
  the sidebar, which read and change its state. A context is an argument. The theorems: what a reader
  of the page is told a field is described by, and which parts of the sidebar can be used.
\<close>

subsection \<open>Form fields (form.tsx)\<close>

text \<open>The error of a field may come without a message.\<close>

record field_context =
  fc_name :: jsstr
  fc_id :: jsstr
  fc_error :: "jsstr option option"

definition formItemId :: "field_context \<Rightarrow> jsstr" where
  "formItemId c = fc_id c @ js ''-form-item''"

definition formDescriptionId :: "field_context \<Rightarrow> jsstr" where
  "formDescriptionId c = fc_id c @ js ''-form-item-description''"

definition formMessageId :: "field_context \<Rightarrow> jsstr" where
  "formMessageId c = fc_id c @ js ''-form-item-message''"

definition FormItem :: "'e component" where
  "FormItem props kids = El ''div'' (slot ''form-item'' # props) kids"

definition FormLabel :: "field_context \<Rightarrow> 'e component" where
  "FormLabel c props kids =
     Label ([slot ''form-label'', Flag ''data-error'' (fc_error c \<noteq> None), Attr ''htmlFor'' (formItemId c)] @ props) kids"

definition described_by :: "field_context \<Rightarrow> jsstr list" where
  "described_by c =
     (if fc_error c = None then [formDescriptionId c] else [formDescriptionId c, formMessageId c])"

definition FormControl :: "field_context \<Rightarrow> 'e component" where
  "FormControl c props kids =
     El ''Slot''
       ([slot ''form-control'', Attr ''id'' (formItemId c),
         Attr ''aria-describedby'' (join (js '' '') (described_by c)), Flag ''aria-invalid'' (fc_error c \<noteq> None)] @ props)
       kids"

definition FormDescription_ui :: "field_context \<Rightarrow> 'e component" where
  "FormDescription_ui c props kids = El ''p'' ([slot ''form-description'', Attr ''id'' (formDescriptionId c)] @ props) kids"

text \<open>Nothing is rendered without a text.\<close>

definition FormMessage :: "field_context \<Rightarrow> 'e attr list \<Rightarrow> 'e node list \<Rightarrow> 'e node list" where
  "FormMessage c props kids =
     (let body = (case fc_error c of
                    None \<Rightarrow> kids
                  | Some m \<Rightarrow> let t = (case m of None \<Rightarrow> [] | Some t \<Rightarrow> t) in show_if (t \<noteq> []) [Txt t])
      in show_if (body \<noteq> []) [El ''p'' ([slot ''form-message'', Attr ''id'' (formMessageId c)] @ props) body])"

text \<open>A field as the forms of the program put it together.\<close>

definition form_item :: "field_context \<Rightarrow> jsstr \<Rightarrow> 'e node \<Rightarrow> jsstr option \<Rightarrow> 'e node" where
  "form_item c label control descr =
     FormItem []
       ([FormLabel c [] [Txt label], FormControl c [] [control]]
        @ (case descr of None \<Rightarrow> [] | Some d \<Rightarrow> [FormDescription_ui c [] [Txt d]])
        @ FormMessage c [] [])"

fun attr_texts :: "string \<Rightarrow> 'e attr list \<Rightarrow> jsstr list" where
  "attr_texts n [] = []"
| "attr_texts n (Attr m v # as) = (if m = n then v # attr_texts n as else attr_texts n as)"
| "attr_texts n (_ # as) = attr_texts n as"

text \<open>The values of an attribute in a tree, in order.\<close>

fun tree_texts :: "string \<Rightarrow> 'e node \<Rightarrow> jsstr list" where
  "tree_texts n (Txt s) = []"
| "tree_texts n (El t as ks) = attr_texts n as @ concat (map (tree_texts n) ks)"

lemmas field_defs = form_item_def FormItem_def FormLabel_def FormControl_def FormDescription_ui_def FormMessage_def
  label_defs slot_def Let_def

lemma ids_differ: "formItemId c \<noteq> formDescriptionId c" "formItemId c \<noteq> formMessageId c" "formDescriptionId c \<noteq> formMessageId c"
  by (simp_all add: formItemId_def formDescriptionId_def formMessageId_def js_eq_iff)

lemma form_item_labels:
  "tree_texts ''htmlFor'' control = [] \<Longrightarrow> tree_texts ''htmlFor'' (form_item c label control descr) = [formItemId c]"
  by (cases descr; cases "fc_error c") (simp_all add: field_defs show_if_def)

lemma form_item_ids:
  assumes "tree_texts ''id'' control = []"
  shows "tree_texts ''id'' (form_item c label control descr) =
    formItemId c # (if descr = None then [] else [formDescriptionId c]) @
    show_if (fc_error c \<notin> {None, Some None, Some (Some [])}) [formMessageId c]"
proof (cases "fc_error c")
  case None
  then show ?thesis using assms by (cases descr) (simp_all add: field_defs)
next
  case (Some m)
  then show ?thesis using assms by (cases descr; cases m) (simp_all add: field_defs show_if_def)
qed

text \<open>
  The label of a field belongs to its control. The control is described by the message under it, which
  is there, exactly when the field has an error with a text; it is always said to be described by a
  description too, also in a field that has none.
\<close>

theorem field_described:
  assumes "tree_texts ''id'' control = []" "tree_texts ''htmlFor'' control = []"
  shows "tree_texts ''htmlFor'' (form_item c label control descr) = [formItemId c] \<and>
    formItemId c \<in> set (tree_texts ''id'' (form_item c label control descr)) \<and>
    set (described_by c) - set (tree_texts ''id'' (form_item c label control descr)) =
      (if descr = None then {formDescriptionId c} else {}) \<union>
      (if fc_error c = Some None \<or> fc_error c = Some (Some []) then {formMessageId c} else {})"
proof -
  have d: "set (described_by c) = (if fc_error c = None then {formDescriptionId c} else {formDescriptionId c, formMessageId c})"
    by (simp add: described_by_def)
  show ?thesis
    using ids_differ[of c] ids_differ[of c, symmetric]
    unfolding form_item_labels[OF assms(2)] form_item_ids[OF assms(1)] d
    by (cases "descr = None"; cases "fc_error c"; cases "the (fc_error c)") auto
qed

theorem field_described_witness:
  "js ''r1-form-item'' \<in> set (tree_texts ''id'' (form_item \<lparr> fc_name = js ''username'', fc_id = js ''r1'', fc_error = Some (Some (js ''short'')) \<rparr>
      (js ''name'') (El ''Input'' [] []) None :: unit node))"
  using field_described[of "El ''Input'' [] [] :: unit node" "\<lparr> fc_name = js ''username'', fc_id = js ''r1'', fc_error = Some (Some (js ''short'')) \<rparr>"
      "js ''name''" None]
  by (simp add: formItemId_def flip: js_append)

subsection \<open>The sidebar (sidebar.tsx)\<close>

record sidebar_context =
  sc_open :: bool
  sc_isMobile :: bool
  sc_openMobile :: bool

definition sidebar_state :: "sidebar_context \<Rightarrow> jsstr" where
  "sidebar_state c = (if sc_open c then js ''expanded'' else js ''collapsed'')"

text \<open>Outside of a provider the hook throws.\<close>

definition useSidebar :: "sidebar_context option \<Rightarrow> (jsstr, sidebar_context) thrown" where
  "useSidebar context =
     (case context of
        None \<Rightarrow> Inl (js ''useSidebar must be used within a SidebarProvider.'')
      | Some c \<Rightarrow> Inr c)"

text \<open>The provider is controlled from outside if it is given the state and a setter.\<close>

definition provider_open :: "bool option \<Rightarrow> bool \<Rightarrow> bool" where
  "provider_open openProp internal = (case openProp of None \<Rightarrow> internal | Some b \<Rightarrow> b)"

text \<open>The next internal state, and what the setter given from outside is called with.\<close>

definition provider_setOpen :: "bool option \<Rightarrow> bool \<Rightarrow> (bool \<Rightarrow> bool) \<Rightarrow> bool \<Rightarrow> bool \<times> bool list" where
  "provider_setOpen openProp controlled upd internal =
     (let openState = upd (provider_open openProp internal)
      in if controlled then (internal, [openState]) else (openState, []))"

definition SidebarProvider :: "'e component" where
  "SidebarProvider props kids =
     TooltipProvider [NumAttr ''delayDuration'' (jint 0)] [El ''div'' (slot ''sidebar-wrapper'' # props) kids]"

text \<open>\<open>setOpenMobile\<close> is the event the overlay of a small screen raises.\<close>

definition Sidebar_ui ::
    "sidebar_context \<Rightarrow> (bool \<Rightarrow> 'e) \<Rightarrow> jsstr \<Rightarrow> jsstr \<Rightarrow> jsstr \<Rightarrow> 'e component" where
  "Sidebar_ui c setOpenMobile side variant collapsible props kids =
     (if collapsible = js ''none'' then El ''div'' (slot ''sidebar'' # props) kids
      else if sc_isMobile c then
        Sheet ([Open (sc_openMobile c), OnOpenChange setOpenMobile] @ props)
          [SheetContent [part ''sidebar'', slot ''sidebar'', Attr ''data-mobile'' (js ''true''), Attr ''side'' side]
             [SheetHeader []
                [SheetTitle [] [Txt (js ''Sidebar'')], SheetDescription [] [Txt (js ''Displays the mobile sidebar.'')]],
              El ''div'' [] kids]]
      else
        El ''div''
          [Attr ''data-state'' (sidebar_state c),
           Attr ''data-collapsible'' (if sidebar_state c = js ''collapsed'' then collapsible else []),
           Attr ''data-variant'' variant, Attr ''data-side'' side, slot ''sidebar'']
          [El ''div'' [slot ''sidebar-gap''] [],
           El ''div'' (slot ''sidebar-container'' # props)
             [El ''div'' [part ''sidebar'', slot ''sidebar-inner''] kids]])"

text \<open>The trigger runs what it was given for a click and toggles the sidebar; \<open>e\<close> is both.\<close>

definition SidebarTrigger :: "'e \<Rightarrow> 'e attr list \<Rightarrow> 'e node" where
  "SidebarTrigger e props =
     Button ([part ''trigger'', slot ''sidebar-trigger'', Attr ''variant'' (js ''ghost''), Attr ''size'' (js ''icon''), OnClick e] @ props)
       [El ''PanelLeftIcon'' [] [], El ''span'' [] [Txt (js ''Toggle Sidebar'')]]"

definition SidebarRail :: "'e \<Rightarrow> 'e component" where
  "SidebarRail toggleSidebar props kids =
     El ''button''
       ([part ''rail'', slot ''sidebar-rail'', Attr ''aria-label'' (js ''Toggle Sidebar''), NumAttr ''tabIndex'' (jint (- 1)),
         OnClick toggleSidebar, Attr ''title'' (js ''Toggle Sidebar'')] @ props) kids"

datatype 'e tooltip = NoTooltip | TooltipText jsstr | TooltipProps "'e attr list" "'e node list"

definition menu_button :: "bool \<Rightarrow> jsstr \<Rightarrow> bool \<Rightarrow> 'e component" where
  "menu_button asChild sz isActive props kids =
     El (if asChild then ''Slot'' else ''button'')
       ([slot ''sidebar-menu-button'', part ''menu-button'', Attr ''data-size'' sz, Flag ''data-active'' isActive] @ props) kids"

definition tooltip_hidden :: "sidebar_context \<Rightarrow> bool" where
  "tooltip_hidden c \<longleftrightarrow> sidebar_state c \<noteq> js ''collapsed'' \<or> sc_isMobile c"

definition SidebarMenuButton ::
    "sidebar_context \<Rightarrow> bool \<Rightarrow> bool \<Rightarrow> jsstr \<Rightarrow> 'e tooltip \<Rightarrow> 'e component" where
  "SidebarMenuButton c asChild isActive sz tip props kids =
     (let button = menu_button asChild sz isActive props kids;
          shown_tip = (\<lambda>as ts. Tooltip []
            [TooltipTrigger [] [button],
             TooltipContent ([Attr ''side'' (js ''right''), Attr ''align'' (js ''center''), Flag ''hidden'' (tooltip_hidden c)] @ as) ts])
      in case tip of
           NoTooltip \<Rightarrow> button
         | TooltipText t \<Rightarrow> if t = [] then button else shown_tip [] [Txt t]
         | TooltipProps as ts \<Rightarrow> shown_tip as ts)"

definition math_floor :: "jsnum \<Rightarrow> jsnum" where
  "math_floor x = (case x of JFin q \<Rightarrow> jint \<lfloor>q\<rfloor> | _ \<Rightarrow> x)"

text \<open>\<open>random\<close> is what \<open>Math.random()\<close> returned when the component was mounted.\<close>

definition skeleton_width :: "jsnum \<Rightarrow> jsnum" where
  "skeleton_width random = math_floor (random * jint 40) + jint 50"

definition SidebarMenuSkeleton :: "jsnum \<Rightarrow> bool \<Rightarrow> 'e attr list \<Rightarrow> 'e node" where
  "SidebarMenuSkeleton random showIcon props =
     El ''div'' ([slot ''sidebar-menu-skeleton'', part ''menu-skeleton''] @ props)
       (show_if showIcon [Skeleton [part ''menu-skeleton-icon''] []]
        @ [Skeleton [part ''menu-skeleton-text'', Attr ''--skeleton-width'' (to_string (skeleton_width random) @ js ''%'')] []])"

subsection \<open>The messages (sonner.tsx)\<close>

definition Toaster :: "jsstr option \<Rightarrow> 'e attr list \<Rightarrow> 'e node" where
  "Toaster theme props =
     El ''Sonner'' ([Attr ''theme'' (case theme of None \<Rightarrow> js ''system'' | Some t \<Rightarrow> t)] @ props) []"

subsection \<open>What the sidebar offers\<close>

lemmas sidebar_part_defs = Sidebar_ui_def Sheet_def SheetContent_def SheetPortal_def SheetOverlay_def SheetHeader_def
  SheetTitle_def SheetDescription_def menu_button_def SidebarMenuButton_def Tooltip_def TooltipProvider_def
  TooltipTrigger_def TooltipContent_def Let_def

text \<open>
  On a small screen the entries of the sidebar can be used exactly while its overlay is open, and the
  overlay can then be closed; on a large screen, and with a sidebar that does not collapse, they can
  always be used, collapsed or not.
\<close>

theorem sidebar_usable:
  assumes "handlers props = []"
  shows "affordances (Sidebar_ui c f side variant collapsible props kids) =
    (if collapsible \<noteq> js ''none'' \<and> sc_isMobile c
     then if sc_openMobile c then Act (f False) # concat (map affordances kids) else []
     else concat (map affordances kids))"
proof -
  have h: "handlers (Open b # OnOpenChange g # props) = [Open b, OnOpenChange g]" for b g
    using assms by (simp add: handlers_def)
  show ?thesis
    using assms h
    by (simp add: sidebar_part_defs affordances_El offers_of_def del: affordances.simps(2) submit_button.simps(2) item_values.simps(2))
qed

theorem sidebar_usable_witness:
  "affordances (Sidebar_ui \<lparr> sc_open = True, sc_isMobile = True, sc_openMobile = False \<rparr> Some (js ''left'') (js ''inset'') (js ''icon'')
      [] [SidebarRail None [] []]) = []"
  using sidebar_usable[of "[]" "\<lparr> sc_open = True, sc_isMobile = True, sc_openMobile = False \<rparr>" Some "js ''left''" "js ''inset''"
      "js ''icon''" "[SidebarRail None [] []]"]
  by (simp add: js_eq_iff)

text \<open>An entry offers the same with a tooltip and without.\<close>

lemma menu_button_affords:
  "affordances (SidebarMenuButton c asChild isActive sz (TooltipText t) props kids) =
   affordances (SidebarMenuButton c asChild isActive sz NoTooltip props kids)"
  by (simp add: sidebar_part_defs affordances_El del: affordances.simps(2) submit_button.simps(2) item_values.simps(2))

text \<open>The comment of the source promises a width between 50 and 90 percent.\<close>

lemma skeleton_width_bounds:
  assumes "0 \<le> r" "r < 1"
  shows "\<exists>w. skeleton_width (JFin r) = jint w \<and> 50 \<le> w \<and> w \<le> 90"
proof -
  have b: "0 \<le> round_rat (r * 40)" "round_rat (r * 40) \<le> 40"
    using round_rat_ge[of 0 "r * 40"] round_rat_le[of 40 "r * 40"] assms by simp_all
  then have "of_rounded (round_rat (r * 40)) = JFin (round_rat (r * 40))" by simp
  moreover have "0 \<le> \<lfloor>round_rat (r * 40)\<rfloor>" "\<lfloor>round_rat (r * 40)\<rfloor> \<le> 40" using b by (simp_all add: floor_le_iff)
  moreover from this have "jint \<lfloor>round_rat (r * 40)\<rfloor> + jint 50 = jint (\<lfloor>round_rat (r * 40)\<rfloor> + 50)" by (intro jint_add) simp
  ultimately show ?thesis by (simp add: skeleton_width_def math_floor_def jint_def[of 40] rnd_def)
qed

end
