(* ===== verification/Inventory.thy ===== *)
theory Inventory
  imports Paging
begin

section \<open>The stock page (inventory.tsx)\<close>

text \<open>
  The state, the handlers, the callbacks of the five mutations and the rendered tree of
  \<open>InventoryPage\<close>, and what it guarantees of the requests it sends.
\<close>

record inventory_state =
  selectedProductId :: jsstr
  initQuantity :: jsstr
  addQuantity :: jsstr
  is_inventory :: "inventory option"
  reconcileReport :: "reconcile_result option"

datatype inventory_mutation =
  Lookup jsnum
| InitStock init_inventory_payload
| AddStock add_inventory_payload
| RebuildRedis
| ReconcileRedis

type_synonym inventory_result = "inventory_state \<times> inventory_mutation effect list"

fun inventory_mutation_request :: "inventory_mutation \<Rightarrow> request" where
  "inventory_mutation_request (Lookup i) = inventoryApi_detailByProductId i"
| "inventory_mutation_request (InitStock payload) = inventoryApi_init payload"
| "inventory_mutation_request (AddStock payload) = inventoryApi_add payload"
| "inventory_mutation_request RebuildRedis = inventoryApi_rebuildRedis"
| "inventory_mutation_request ReconcileRedis = inventoryApi_reconcileRedis"

definition inventory_initial :: inventory_state where
  "inventory_initial = \<lparr>selectedProductId = [], initQuantity = [], addQuantity = [], is_inventory = None,
     reconcileReport = None\<rparr>"

definition allProductsQuery :: query_options where
  "allProductsQuery = \<lparr>qo_key = queryKeys_products (Some ListAll) None None,
     qo_request = productApi_list (Some ListAll) None None, qo_enabled = True, qo_keep_previous = False\<rparr>"

subsection \<open>Mutations\<close>

text \<open>
  \<open>mutate\<close> of the lookup runs its \<open>onMutate\<close> before the request is sent; the other mutations have
  none.
\<close>

definition lookup_onMutate :: "inventory_state \<Rightarrow> inventory_state" where
  "lookup_onMutate s = s\<lparr>is_inventory := None\<rparr>"

definition mutate_lookup :: "jsnum \<Rightarrow> inventory_state \<Rightarrow> inventory_result" where
  "mutate_lookup i s = (lookup_onMutate s, [Mutate (Lookup i)])"

definition lookup_onSuccess :: "inventory \<Rightarrow> inventory_state \<Rightarrow> inventory_result" where
  "lookup_onSuccess data s = (s\<lparr>is_inventory := Some data\<rparr>, [ToastSuccess txt_stock_updated])"

text \<open>
  The success callbacks of the two changes wait for the invalidated queries before they look the
  stock up: what they do before and after is two steps, and other events may come between.
\<close>

definition init_onSuccess :: "init_inventory_payload \<Rightarrow> inventory_state \<Rightarrow> inventory_result" where
  "init_onSuccess variables s =
     (s\<lparr>initQuantity := []\<rparr>,
      [ToastSuccess txt_init_done, Invalidate (queryKeys_inventory (init_product_id variables)),
       Invalidate queryKeys_stockLogsRoot])"

definition init_refetched :: "init_inventory_payload \<Rightarrow> inventory_state \<Rightarrow> inventory_result" where
  "init_refetched variables s = mutate_lookup (init_product_id variables) s"

definition add_onSuccess :: "add_inventory_payload \<Rightarrow> inventory_state \<Rightarrow> inventory_result" where
  "add_onSuccess variables s =
     (s\<lparr>addQuantity := []\<rparr>,
      [ToastSuccess txt_add_done, Invalidate (queryKeys_inventory (add_product_id variables)),
       Invalidate queryKeys_stockLogsRoot])"

definition add_refetched :: "add_inventory_payload \<Rightarrow> inventory_state \<Rightarrow> inventory_result" where
  "add_refetched variables s = mutate_lookup (add_product_id variables) s"

definition rebuild_onSuccess :: "rebuild_result \<Rightarrow> inventory_state \<Rightarrow> inventory_result" where
  "rebuild_onSuccess data s =
     (s\<lparr>reconcileReport := None\<rparr>,
      [ToastSuccess (txt_rebuild_done_prefix @ to_string (rebuild_count data) @ txt_entries_suffix)])"

definition reconcile_onSuccess :: "reconcile_result \<Rightarrow> inventory_state \<Rightarrow> inventory_result" where
  "reconcile_onSuccess data s =
     (s\<lparr>reconcileReport := Some data\<rparr>,
      [ToastSuccess (txt_reconcile_done_prefix @ to_string (diff_count data) @ txt_diffs_suffix)])"

definition inventory_onError :: "js_error \<Rightarrow> inventory_state \<Rightarrow> inventory_result" where
  "inventory_onError err s = (s, [ToastError (getErrorMessage err)])"

subsection \<open>Handlers\<close>

text \<open>\<open>Inl\<close> is the message of the toast with which the parse returns \<open>null\<close>.\<close>

definition parsePositiveInteger :: "jsstr \<Rightarrow> jsstr \<Rightarrow> jsstr + jsnum" where
  "parsePositiveInteger value label =
     (let number = Number value
      in if \<not> isInteger number \<or> jle number (jint 0) then Inl (label @ txt_must_be_positive) else Inr number)"

definition selectProduct :: "jsstr \<Rightarrow> inventory_state \<Rightarrow> inventory_result" where
  "selectProduct v s = (s\<lparr>selectedProductId := v, is_inventory := None\<rparr>, [])"

definition handleInitInventory :: "inventory_state \<Rightarrow> inventory_result" where
  "handleInitInventory s =
     (let productId = parsePositiveInteger (selectedProductId s) txt_product;
          stockQuantity = Number (initQuantity s)
      in case productId of
           Inl m \<Rightarrow> (s, [ToastError m])
         | Inr i \<Rightarrow>
             if \<not> isInteger stockQuantity \<or> jless stockQuantity (jint 0) then (s, [ToastError txt_init_invalid])
             else (s, [Mutate (InitStock \<lparr>init_product_id = i, init_stock_quantity = stockQuantity\<rparr>)]))"

text \<open>Both parses run, so both may show a toast.\<close>

definition handleAddInventory :: "inventory_state \<Rightarrow> inventory_result" where
  "handleAddInventory s =
     (let productId = parsePositiveInteger (selectedProductId s) txt_product;
          quantity = parsePositiveInteger (addQuantity s) txt_add_quantity_label
      in case (productId, quantity) of
           (Inr i, Inr q) \<Rightarrow> (s, [Mutate (AddStock \<lparr>add_product_id = i, add_quantity = q\<rparr>)])
         | _ \<Rightarrow> (s, (case productId of Inl m \<Rightarrow> [ToastError m] | Inr _ \<Rightarrow> [])
                  @ (case quantity of Inl m \<Rightarrow> [ToastError m] | Inr _ \<Rightarrow> [])))"

definition handleLookupInventory :: "inventory_state \<Rightarrow> inventory_result" where
  "handleLookupInventory s =
     (case parsePositiveInteger (selectedProductId s) txt_product of
        Inl m \<Rightarrow> (s, [ToastError m])
      | Inr i \<Rightarrow> mutate_lookup i s)"

datatype inventory_event =
  SelectProduct jsstr
| SetInitQuantity jsstr
| SetAddQuantity jsstr
| SubmitInit
| SubmitAdd
| SubmitLookup
| ClickReconcile
| ClickRebuild

datatype inventory_callback =
  LookedUp inventory
| Initialised init_inventory_payload
| InitRefetched init_inventory_payload
| Added add_inventory_payload
| AddRefetched add_inventory_payload
| Rebuilt rebuild_result
| Reconciled reconcile_result
| InventoryFailed js_error

fun inventory_handle :: "inventory_event \<Rightarrow> inventory_state \<Rightarrow> inventory_result" where
  "inventory_handle (SelectProduct v) s = selectProduct v s"
| "inventory_handle (SetInitQuantity v) s = (s\<lparr>initQuantity := v\<rparr>, [])"
| "inventory_handle (SetAddQuantity v) s = (s\<lparr>addQuantity := v\<rparr>, [])"
| "inventory_handle SubmitInit s = handleInitInventory s"
| "inventory_handle SubmitAdd s = handleAddInventory s"
| "inventory_handle SubmitLookup s = handleLookupInventory s"
| "inventory_handle ClickReconcile s = (s, [Mutate ReconcileRedis])"
| "inventory_handle ClickRebuild s = (s, [Mutate RebuildRedis])"

fun inventory_on :: "inventory_callback \<Rightarrow> inventory_state \<Rightarrow> inventory_result" where
  "inventory_on (LookedUp data) s = lookup_onSuccess data s"
| "inventory_on (Initialised variables) s = init_onSuccess variables s"
| "inventory_on (InitRefetched variables) s = init_refetched variables s"
| "inventory_on (Added variables) s = add_onSuccess variables s"
| "inventory_on (AddRefetched variables) s = add_refetched variables s"
| "inventory_on (Rebuilt data) s = rebuild_onSuccess data s"
| "inventory_on (Reconciled data) s = reconcile_onSuccess data s"
| "inventory_on (InventoryFailed err) s = inventory_onError err s"

subsection \<open>The rendered page\<close>

record inventory_lib =
  iq_products :: "product_list query_view"
  im_lookup :: "jsnum mutation_view"
  im_init :: "init_inventory_payload mutation_view"
  im_add :: "add_inventory_payload mutation_view"
  im_rebuild :: "unit mutation_view"
  im_reconcile :: "unit mutation_view"

definition all_products :: "inventory_lib \<Rightarrow> product list" where
  "all_products lib = (case q_data (iq_products lib) of None \<Rightarrow> [] | Some d \<Rightarrow> pl_products d)"

definition ProductSelect :: "product list \<Rightarrow> jsstr \<Rightarrow> (jsstr \<Rightarrow> 'e) \<Rightarrow> 'e node" where
  "ProductSelect products v onValueChange =
     El ''Select'' [Val v, OnValueChange onValueChange]
       [El ''SelectTrigger'' [] [El ''SelectValue'' [Attr ''placeholder'' txt_select_product] []],
        El ''SelectContent'' []
          (map (\<lambda>p. El ''SelectItem'' [Val (to_string (prod_id p))]
             [Txt (js ''#''), Txt (to_string (prod_id p)), Txt (js '' ''), Txt (prod_name p)]) products)]"

definition init_card :: "inventory_lib \<Rightarrow> inventory_state \<Rightarrow> inventory_event node" where
  "init_card lib s =
     El ''Card'' []
       [El ''CardHeader'' [] [El ''CardTitle'' [] [Txt txt_init_title], El ''CardDescription'' [] [Txt txt_init_desc]],
        El ''CardContent'' []
          [El ''form'' [OnSubmit SubmitInit]
            [Field txt_product_id_label [ProductSelect (all_products lib) (selectedProductId s) SelectProduct],
             Field txt_init_quantity_label
               [El ''Input'' [Val (initQuantity s), OnChange SetInitQuantity, Attr ''inputMode'' (js ''numeric''),
                  Attr ''placeholder'' (js ''100'')] []],
             El ''Button'' [Disabled (m_isPending (im_init lib))] [Txt txt_init_button]]]]"

definition add_card :: "inventory_lib \<Rightarrow> inventory_state \<Rightarrow> inventory_event node" where
  "add_card lib s =
     El ''Card'' []
       [El ''CardHeader'' [] [El ''CardTitle'' [] [Txt txt_manual_add_title], El ''CardDescription'' [] [Txt txt_manual_add_desc]],
        El ''CardContent'' []
          [El ''form'' [OnSubmit SubmitAdd]
            [Field txt_product_id_label [ProductSelect (all_products lib) (selectedProductId s) SelectProduct],
             Field txt_add_quantity_label
               [El ''Input'' [Val (addQuantity s), OnChange SetAddQuantity, Attr ''inputMode'' (js ''numeric''),
                  Attr ''placeholder'' (js ''20'')] []],
             El ''Button'' [Disabled (m_isPending (im_add lib))] [Txt txt_add_button]]]]"

definition reconcile_line :: "reconcile_item \<Rightarrow> 'e node" where
  "reconcile_line item =
     El ''p'' [NumAttr ''key'' (ri_product_id item)]
       [Txt (js ''#''), Txt (to_string (ri_product_id item)), Txt (js '' MySQL ''), Txt (to_string (mysql_quantity item)),
        Txt (js '' / Redis''), Txt (js '' ''),
        Txt (case redis_quantity item of None \<Rightarrow> js ''-'' | Some q \<Rightarrow> to_string q),
        Txt (js '' (''), Txt (ri_status item), Txt (js '')'')]"

definition redis_card :: "inventory_lib \<Rightarrow> inventory_state \<Rightarrow> inventory_event node" where
  "redis_card lib s =
     El ''Card'' []
       [El ''CardHeader'' [] [El ''CardTitle'' [] [Txt txt_redis_title], El ''CardDescription'' [] [Txt txt_redis_desc]],
        El ''CardContent'' []
          ([El ''div'' []
             [El ''Button'' [TypeButton, Attr ''variant'' (js ''outline''), Disabled (m_isPending (im_reconcile lib)),
                OnClick ClickReconcile] [El ''ListChecks'' [] [], Txt txt_reconcile_button],
              El ''Button'' [TypeButton, Attr ''variant'' (js ''outline''), Disabled (m_isPending (im_rebuild lib)),
                OnClick ClickRebuild] [El ''RefreshCw'' [] [], Txt txt_rebuild_button]]]
           @ (case reconcileReport s of
                None \<Rightarrow> []
              | Some r \<Rightarrow>
                  [El ''div'' []
                    ([El ''p'' [] [Txt txt_checked_prefix, Txt (to_string (checked_count r)), Txt txt_diff_infix,
                        Txt (js '' ''), Txt (to_string (diff_count r)), Txt txt_entries_suffix]]
                     @ show_if (length (rec_items r) > 0)
                         [El ''div'' [] (map reconcile_line (take 5 (rec_items r)))])]))]"

definition lookup_card ::
  "(jsstr \<Rightarrow> jsstr option) \<Rightarrow> inventory_lib \<Rightarrow> inventory_state \<Rightarrow> inventory_event node" where
  "lookup_card intl lib s =
     El ''Card'' []
       [El ''CardHeader'' [] [El ''CardTitle'' [] [Txt txt_lookup_title], El ''CardDescription'' [] [Txt txt_lookup_desc]],
        El ''CardContent'' []
          [El ''form'' [OnSubmit SubmitLookup]
             [ProductSelect (all_products lib) (selectedProductId s) SelectProduct,
              El ''Button'' [TypeSubmit, Disabled (m_isPending (im_lookup lib))]
                [El ''Search'' [] [], El ''span'' [] [Txt txt_lookup_button]]],
           (case is_inventory s of
              Some v \<Rightarrow>
                El ''div'' []
                  [El ''div'' [] [El ''p'' [] [Txt txt_product_id_label],
                     El ''p'' [] [Txt (js ''#''), Txt (to_string (inv_product_id v))]],
                   El ''div'' [] [El ''p'' [] [Txt txt_current_stock],
                     El ''p'' [] [Txt (to_string (inv_stock_quantity v))]],
                   El ''div'' [] [El ''p'' [] [Txt txt_updated_at],
                     El ''p'' [] [Txt (formatDateTime intl (Some (inv_updated_at v)))]]]
            | None \<Rightarrow> El ''div'' [] [Txt txt_lookup_hint])]]"

definition InventoryPage ::
  "(jsstr \<Rightarrow> jsstr option) \<Rightarrow> inventory_lib \<Rightarrow> inventory_state \<Rightarrow> inventory_event node" where
  "InventoryPage intl lib s =
     BusinessPage txt_inventory_title txt_inventory_desc []
       [El ''div'' [] [El ''div'' [] [init_card lib s, add_card lib s, redis_card lib s], lookup_card intl lib s]]"

subsection \<open>What the page offers\<close>

lemma offers_ProductSelect [simp]:
  "offers (ProductSelect products v f) e \<longleftrightarrow> (\<exists>p \<in> set products. e = f (to_string (prod_id p)))"
  by (auto simp: ProductSelect_def offers_El comp_def)

lemma submit_button_ProductSelect [simp]: "\<not> submit_button (ProductSelect products v f)"
  by (auto simp: ProductSelect_def list_ex_iff)

lemma offers_inventory_cards:
  "offers (init_card lib s) e \<longleftrightarrow> (e = SubmitInit \<and> \<not> m_isPending (im_init lib)) \<or>
     (\<exists>p \<in> set (all_products lib). e = SelectProduct (to_string (prod_id p))) \<or> (\<exists>v. e = SetInitQuantity v)"
  "offers (add_card lib s) e \<longleftrightarrow> (e = SubmitAdd \<and> \<not> m_isPending (im_add lib)) \<or>
     (\<exists>p \<in> set (all_products lib). e = SelectProduct (to_string (prod_id p))) \<or> (\<exists>v. e = SetAddQuantity v)"
  "offers (redis_card lib s) e \<longleftrightarrow> (e = ClickReconcile \<and> \<not> m_isPending (im_reconcile lib)) \<or>
     (e = ClickRebuild \<and> \<not> m_isPending (im_rebuild lib))"
  "offers (lookup_card intl lib s) e \<longleftrightarrow> (e = SubmitLookup \<and> \<not> m_isPending (im_lookup lib)) \<or>
     (\<exists>p \<in> set (all_products lib). e = SelectProduct (to_string (prod_id p)))"
  by (auto simp: init_card_def add_card_def redis_card_def lookup_card_def reconcile_line_def Field_def offers_El
      split: option.splits if_splits)

lemma offers_InventoryPage:
  "offers (InventoryPage intl lib s) e \<longleftrightarrow> offers (init_card lib s) e \<or> offers (add_card lib s) e \<or>
     offers (redis_card lib s) e \<or> offers (lookup_card intl lib s) e"
  by (auto simp: InventoryPage_def)

subsection \<open>Properties\<close>

lemma parsePositiveInteger_iff:
  "parsePositiveInteger v l = Inr a \<longleftrightarrow> Number v = a \<and> (\<exists>n. a = jint n \<and> 0 < n)"
  by (auto simp: parsePositiveInteger_def Let_def elim: isInteger_cases split: if_splits)

lemma inventory_mutations:
  "m \<in> set (mutations (snd (inventory_handle ev s))) \<Longrightarrow>
   (case m of
      InitStock pl \<Rightarrow> (\<exists>i q. pl = \<lparr>init_product_id = jint i, init_stock_quantity = jint q\<rparr> \<and> 0 < i \<and> 0 \<le> q)
    | AddStock pl \<Rightarrow> (\<exists>i q. pl = \<lparr>add_product_id = jint i, add_quantity = jint q\<rparr> \<and> 0 < i \<and> 0 < q)
    | Lookup i \<Rightarrow> (\<exists>n. i = jint n \<and> 0 < n)
    | _ \<Rightarrow> True)"
proof (cases ev)
  case SubmitInit
  assume "m \<in> set (mutations (snd (inventory_handle ev s)))"
  then show ?thesis unfolding SubmitInit
    by (auto simp: handleInitInventory_def Let_def parsePositiveInteger_iff
        elim!: isInteger_cases split: sum.splits if_splits)
next
  case SubmitAdd
  assume "m \<in> set (mutations (snd (inventory_handle ev s)))"
  then show ?thesis unfolding SubmitAdd
    by (auto simp: handleAddInventory_def Let_def parsePositiveInteger_iff split: sum.splits)
next
  case SubmitLookup
  assume "m \<in> set (mutations (snd (inventory_handle ev s)))"
  then show ?thesis unfolding SubmitLookup
    by (auto simp: handleLookupInventory_def mutate_lookup_def parsePositiveInteger_iff split: sum.splits)
qed (auto simp: selectProduct_def)

text \<open>
  Whatever is selected and typed, the stock page only ever sends positive integers as product
  numbers and as quantities to add, and integers of at least 0 as initial stock.
\<close>

theorem inventory_requests_valid:
  "m \<in> set (mutations (snd (inventory_handle ev s))) \<Longrightarrow>
   (case m of
      InitStock pl \<Rightarrow> (\<exists>i q. pl = \<lparr>init_product_id = jint i, init_stock_quantity = jint q\<rparr> \<and> 0 < i \<and> 0 \<le> q)
    | AddStock pl \<Rightarrow> (\<exists>i q. pl = \<lparr>add_product_id = jint i, add_quantity = jint q\<rparr> \<and> 0 < i \<and> 0 < q)
    | Lookup i \<Rightarrow> (\<exists>n. i = jint n \<and> 0 < n)
    | RebuildRedis \<Rightarrow> ev = ClickRebuild
    | ReconcileRedis \<Rightarrow> ev = ClickReconcile)"
  using inventory_mutations[of m ev s]
  by (cases m; cases ev) (auto simp: selectProduct_def handleInitInventory_def handleAddInventory_def
      handleLookupInventory_def mutate_lookup_def Let_def split: sum.splits if_splits)

definition stock_form :: "jsstr \<Rightarrow> inventory_state" where
  "stock_form q = inventory_initial\<lparr>selectedProductId := to_string (jint 7), initQuantity := q, addQuantity := q\<rparr>"

theorem inventory_requests_valid_witness:
  "\<exists>pl. AddStock pl \<in> set (mutations (snd (inventory_handle SubmitAdd (stock_form (dec 20))))) \<and>
     (\<exists>i q. pl = \<lparr>add_product_id = jint i, add_quantity = jint q\<rparr> \<and> 0 < i \<and> 0 < q)"
proof -
  have m: "AddStock \<lparr>add_product_id = jint 7, add_quantity = jint 20\<rparr> \<in>
      set (mutations (snd (inventory_handle SubmitAdd (stock_form (dec 20)))))"
    by (simp add: handleAddInventory_def stock_form_def parsePositiveInteger_def Let_def Number_to_string
        Number_dec max_safe_def)
  from inventory_requests_valid[OF m] m show ?thesis by auto
qed

text \<open>
  What is entered is what is sent: with a product chosen from the list and the digits of \<open>q\<close> typed
  as quantity, the two forms send exactly that product and quantity; adding 0 is refused.
\<close>

theorem inventory_entered_is_sent:
  assumes "selectedProductId s = to_string (jint i)" "1 \<le> i" "i \<le> max_safe" "0 \<le> q" "q \<le> max_safe"
  shows "(trim (initQuantity s) = dec q \<longrightarrow> inventory_handle SubmitInit s =
      (s, [Mutate (InitStock \<lparr>init_product_id = jint i, init_stock_quantity = jint q\<rparr>)])) \<and>
    (trim (addQuantity s) = dec q \<longrightarrow> inventory_handle SubmitAdd s =
      (s, [if q = 0 then ToastError (txt_add_quantity_label @ txt_must_be_positive)
           else Mutate (AddStock \<lparr>add_product_id = jint i, add_quantity = jint q\<rparr>)]))"
proof -
  have i: "parsePositiveInteger (selectedProductId s) l = Inr (jint i)" for l
    using assms by (simp add: parsePositiveInteger_iff Number_to_string)
  have n: "trim t = dec q \<Longrightarrow> Number t = jint q" for t
    using Number_dec[of q] Number_trim[of t] assms(4,5) by simp
  have "trim (initQuantity s) = dec q \<Longrightarrow> inventory_handle SubmitInit s =
      (s, [Mutate (InitStock \<lparr>init_product_id = jint i, init_stock_quantity = jint q\<rparr>)])"
    using n[of "initQuantity s"] assms(4) by (simp add: handleInitInventory_def i Let_def)
  moreover have "trim (addQuantity s) = dec q \<Longrightarrow> inventory_handle SubmitAdd s =
      (s, [if q = 0 then ToastError (txt_add_quantity_label @ txt_must_be_positive)
           else Mutate (AddStock \<lparr>add_product_id = jint i, add_quantity = jint q\<rparr>)])"
    using n[of "addQuantity s"] assms(4)
    by (auto simp: handleAddInventory_def i parsePositiveInteger_def[of "addQuantity s"] Let_def)
  ultimately show ?thesis by blast
qed

theorem inventory_entered_is_sent_witness:
  "inventory_handle SubmitInit (stock_form (dec 5)) =
    (stock_form (dec 5), [Mutate (InitStock \<lparr>init_product_id = jint 7, init_stock_quantity = jint 5\<rparr>)])"
proof -
  have "\<forall>c \<in> set (dec 5). \<not> is_ws c" using dec_digits[of 5] by auto
  then have t: "trim (dec 5) = dec 5" by (rule trim_no_ws)
  show ?thesis
    using inventory_entered_is_sent[of "stock_form (dec 5)" 7 5] by (simp add: stock_form_def t max_safe_def)
qed

text \<open>
  A blank initial quantity is sent as 0. The check of the form admits it, since \<open>Number('')\<close> is
  0; the product's one initialisation is then spent on a stock of nothing, without a message.
\<close>

theorem inventory_blank_initialises_zero:
  assumes "parsePositiveInteger (selectedProductId s) txt_product = Inr i" "trim (initQuantity s) = []"
  shows "inventory_handle SubmitInit s =
    (s, [Mutate (InitStock \<lparr>init_product_id = i, init_stock_quantity = jint 0\<rparr>)])"
  using assms Number_empty[OF assms(2)] by (simp add: handleInitInventory_def Let_def)

theorem inventory_blank_initialises_zero_witness:
  "inventory_handle SubmitInit (stock_form []) =
    (stock_form [], [Mutate (InitStock \<lparr>init_product_id = jint 7, init_stock_quantity = jint 0\<rparr>)])"
  by (rule inventory_blank_initialises_zero)
     (simp_all add: stock_form_def parsePositiveInteger_iff Number_to_string max_safe_def trim_def)

text \<open>
  A stock that was displayed is never kept past a change: choosing a product, looking one up and
  the follow-up of an initialisation or a restock all clear it, and the follow-up asks for the
  product that was changed.
\<close>

theorem inventory_display_cleared:
  "is_inventory (fst (inventory_handle (SelectProduct v) s)) = None \<and>
   (Lookup i \<in> set (mutations (snd (inventory_handle ev s))) \<longrightarrow> is_inventory (fst (inventory_handle ev s)) = None) \<and>
   is_inventory (fst (inventory_on (InitRefetched pl) s)) = None \<and>
   mutations (snd (inventory_on (InitRefetched pl) s)) = [Lookup (init_product_id pl)] \<and>
   is_inventory (fst (inventory_on (AddRefetched pa) s)) = None \<and>
   mutations (snd (inventory_on (AddRefetched pa) s)) = [Lookup (add_product_id pa)]"
proof -
  have "is_inventory (fst (inventory_handle ev s)) = None"
    if "Lookup i \<in> set (mutations (snd (inventory_handle ev s)))"
    using that by (cases ev) (auto simp: selectProduct_def handleInitInventory_def handleAddInventory_def
        handleLookupInventory_def mutate_lookup_def lookup_onMutate_def Let_def split: sum.splits if_splits)
  then show ?thesis
    by (simp add: selectProduct_def init_refetched_def add_refetched_def mutate_lookup_def lookup_onMutate_def)
qed

theorem inventory_display_cleared_witness:
  "is_inventory (fst (inventory_handle SubmitLookup (stock_form []))) = None"
proof -
  have "Lookup (jint 7) \<in> set (mutations (snd (inventory_handle SubmitLookup (stock_form []))))"
    by (simp add: handleLookupInventory_def stock_form_def parsePositiveInteger_def mutate_lookup_def Let_def
        Number_to_string max_safe_def)
  with inventory_display_cleared[of "[]" "stock_form []" "jint 7" SubmitLookup] show ?thesis by blast
qed

end
