(* ===== verification/Logs.thy ===== *)
theory Logs
  imports Paging
begin

section \<open>The log pages (stock-logs.tsx, operation-logs.tsx)\<close>

text \<open>
  The page of the stock logs with its product filter, and the page of the operation logs, which has
  no state: both as the queries they make and the tree they render.
\<close>

subsection \<open>Stock logs\<close>

text \<open>The state is \<open>activeProductId\<close>, \<open>None\<close> for \<open>undefined\<close>.\<close>

type_synonym stock_logs_state = "jsnum option"

definition stockLogsQuery :: "stock_logs_state \<Rightarrow> query_options" where
  "stockLogsQuery activeProductId = \<lparr>qo_key = queryKeys_stockLogs activeProductId,
     qo_request = stockLogApi_list activeProductId, qo_enabled = True, qo_keep_previous = False\<rparr>"

definition selectLogProduct :: "jsstr \<Rightarrow> stock_logs_state" where
  "selectLogProduct v = (if v = js ''all'' then None else Some (Number v))"

definition filter_value :: "stock_logs_state \<Rightarrow> jsstr" where
  "filter_value activeProductId = (case activeProductId of
       None \<Rightarrow> js ''all''
     | Some i \<Rightarrow> if jtruthy i then to_string i else js ''all'')"

record stock_logs_lib =
  sq_products :: "product_list query_view"
  sq_logs :: "stock_log list query_view"

definition stock_logs :: "stock_logs_lib \<Rightarrow> stock_log list" where
  "stock_logs lib = (case q_data (sq_logs lib) of None \<Rightarrow> [] | Some l \<Rightarrow> l)"

definition filter_products :: "stock_logs_lib \<Rightarrow> product list" where
  "filter_products lib = (case q_data (sq_products lib) of None \<Rightarrow> [] | Some d \<Rightarrow> pl_products d)"

definition change_text :: "jsnum \<Rightarrow> jsstr" where
  "change_text q = (if jless (jint 0) q then js ''+'' else []) @ to_string q"

definition change_class :: "jsnum \<Rightarrow> string" where
  "change_class q = (if jless q (jint 0) then ''text-destructive'' else ''text-emerald-600 dark:text-emerald-400'')"

definition or_dash :: "jsstr \<Rightarrow> jsstr" where
  "or_dash s = (if s \<noteq> [] then s else js ''-'')"

definition stock_log_row :: "(jsstr \<Rightarrow> jsstr option) \<Rightarrow> stock_log \<Rightarrow> 'e node" where
  "stock_log_row intl l =
     El ''TableRow'' [NumAttr ''key'' (sl_id l)]
       [El ''TableCell'' [] [Txt (js ''#''), Txt (to_string (sl_id l))],
        El ''TableCell'' [] [Txt (js ''#''), Txt (to_string (sl_product_id l))],
        El ''TableCell'' [] [StockBizTypeBadge (biz_type l)],
        El ''TableCell'' [Attr ''className'' (js (change_class (change_quantity l)))]
          [Txt (change_text (change_quantity l))],
        El ''TableCell'' [] [Txt (to_string (before_quantity l))],
        El ''TableCell'' [] [Txt (to_string (after_quantity l))],
        El ''TableCell'' []
          [Txt (case biz_id l of None \<Rightarrow> js ''-'' | Some b \<Rightarrow> if b \<noteq> [] then js ''#'' @ b else js ''-'')],
        El ''TableCell'' [] [Txt (or_dash (remark l))],
        El ''TableCell'' [] [Txt (formatDateTime intl (Some (sl_created_at l)))]]"

definition stock_logs_head :: "'e node" where
  "stock_logs_head = El ''TableHeader'' [] [El ''TableRow'' []
     (map (\<lambda>t. El ''TableHead'' [] [Txt t])
       [js ''ID'', txt_product_id_label, txt_kind, txt_change, txt_before, txt_after, txt_biz_id, txt_remark, txt_time])]"

definition StockLogsPage ::
  "(jsstr \<Rightarrow> jsstr option) \<Rightarrow> stock_logs_lib \<Rightarrow> stock_logs_state \<Rightarrow> stock_logs_state node" where
  "StockLogsPage intl lib activeProductId =
     BusinessPage txt_stock_logs_title txt_stock_logs_desc []
       [El ''Card'' []
         [El ''CardHeader'' [] [El ''CardTitle'' [] [Txt txt_log_list], El ''CardDescription'' [] [Txt txt_log_list_desc]],
          El ''CardContent'' []
            ([El ''Select'' [Val (filter_value activeProductId), OnValueChange selectLogProduct]
               [El ''SelectTrigger'' [Disabled (q_isPending (sq_products lib))]
                  [El ''SelectValue'' [Attr ''placeholder'' txt_filter_product] []],
                El ''SelectContent'' []
                  (El ''SelectItem'' [Val (js ''all'')] [Txt txt_all_products]
                   # map (\<lambda>p. El ''SelectItem'' [Val (to_string (prod_id p))]
                       [Txt (js ''#''), Txt (to_string (prod_id p)), Txt (js '' ''), Txt (prod_name p)])
                     (filter_products lib))]]
             @ ApiErrorPanel (q_error (sq_logs lib))
             @ [El ''Table'' []
                 [stock_logs_head,
                  El ''TableBody'' []
                   (show_if (q_isLoading (sq_logs lib)) [LoadingRow 9]
                    @ show_if (\<not> q_isLoading (sq_logs lib)) (map (stock_log_row intl) (stock_logs lib))
                    @ show_if (\<not> q_isLoading (sq_logs lib) \<and> length (stock_logs lib) = 0)
                        [EmptyRow 9 txt_no_stock_logs])]])]]"

subsection \<open>Operation logs\<close>

definition operation_PAGE_SIZE :: jsnum where "operation_PAGE_SIZE = jint 20"

definition operationLogsQuery :: query_options where
  "operationLogsQuery = \<lparr>qo_key = queryKeys_operationLogs (jint 1) operation_PAGE_SIZE,
     qo_request = operationLogApi_list (Some (jint 1)) (Some operation_PAGE_SIZE),
     qo_enabled = True, qo_keep_previous = False\<rparr>"

definition operation_log_row :: "(jsstr \<Rightarrow> jsstr option) \<Rightarrow> operation_log \<Rightarrow> 'e node" where
  "operation_log_row intl l =
     El ''TableRow'' [NumAttr ''key'' (ol_id l)]
       [El ''TableCell'' [] [Txt (js ''#''), Txt (to_string (ol_id l))],
        El ''TableCell'' [] [Txt (or_dash (ol_username l)), Txt (js '' #''), Txt (to_string (ol_user_id l))],
        El ''TableCell'' [] [Txt (ol_action l)],
        El ''TableCell'' [] [Txt (to_string (http_status l))],
        El ''TableCell'' [] [Txt (ol_path l)],
        El ''TableCell'' [] [Txt (or_dash (request_id l))],
        El ''TableCell'' [] [Txt (or_dash (client_ip l))],
        El ''TableCell'' [] [Txt (formatDateTime intl (Some (ol_created_at l)))]]"

definition operation_logs_head :: "'e node" where
  "operation_logs_head = El ''TableHeader'' [] [El ''TableRow'' []
     (map (\<lambda>t. El ''TableHead'' [] [Txt t])
       [js ''ID'', txt_admin, txt_action, txt_status, txt_path, txt_request_id, js ''IP'', txt_time])]"

definition OperationLogsPage ::
  "(jsstr \<Rightarrow> jsstr option) \<Rightarrow> operation_log_list query_view \<Rightarrow> 'e node" where
  "OperationLogsPage intl q =
     (let logs = (case q_data q of None \<Rightarrow> [] | Some d \<Rightarrow> operation_logs d)
      in BusinessPage txt_op_logs_title txt_op_logs_desc []
        [El ''Card'' []
          [El ''CardHeader'' [] [El ''CardTitle'' [] [Txt txt_audit_list], El ''CardDescription'' [] [Txt txt_audit_list_desc]],
           El ''CardContent'' []
             (ApiErrorPanel (q_error q)
              @ [El ''Table'' []
                  [operation_logs_head,
                   El ''TableBody'' []
                    (show_if (q_isLoading q) [LoadingRow 8]
                     @ show_if (\<not> q_isLoading q) (map (operation_log_row intl) logs)
                     @ show_if (\<not> q_isLoading q \<and> length logs = 0) [EmptyRow 8 txt_no_op_logs])]])]])"

subsection \<open>Properties\<close>

lemma item_values_map:
  "concat (map item_values (map (\<lambda>p. El ''SelectItem'' [Val (f p)] (g p)) ps)) =
   concat (map (\<lambda>p. f p # concat (map item_values (g p))) ps)"
  by (induction ps) simp_all

lemma offers_StockLogsPage:
  "offers (StockLogsPage intl lib s) e \<longleftrightarrow>
     e = None \<or> (\<exists>p \<in> set (filter_products lib). e = selectLogProduct (to_string (prod_id p)))"
  by (auto simp: StockLogsPage_def offers_El stock_log_row_def stock_logs_head_def item_values_map
      selectLogProduct_def split: if_splits)

text \<open>
  The filter of the stock logs shows what it queries. Every choice the page offers is either all
  products, which sends no parameter, or a product of the list; for a product whose number is a
  positive safe integer the query is the one for exactly that number, and the select shows it.
\<close>

theorem stock_logs_filter_exact:
  assumes "\<forall>p \<in> set (filter_products lib). \<exists>n. prod_id p = jint n \<and> 0 < n \<and> n \<le> max_safe"
    and "offers (StockLogsPage intl lib s) s'"
  shows "(s' = None \<and> qo_request (stockLogsQuery s') = get_req (js ''/stock-logs'') None \<and> filter_value s' = js ''all'') \<or>
    (\<exists>p \<in> set (filter_products lib). s' = Some (prod_id p) \<and>
       qo_request (stockLogsQuery s') = get_req (js ''/stock-logs'') (Some [(js ''product_id'', PNum (prod_id p))]) \<and>
       filter_value s' = to_string (prod_id p))"
proof (cases "s' = None")
  case True
  then show ?thesis by (simp add: stockLogsQuery_def stockLogApi_list_def filter_value_def)
next
  case False
  with assms(2) obtain p where p: "p \<in> set (filter_products lib)" "s' = selectLogProduct (to_string (prod_id p))"
    by (auto simp: offers_StockLogsPage)
  then obtain n where n: "prod_id p = jint n" "0 < n" "n \<le> max_safe" using assms(1) by blast
  have "to_string (prod_id p) \<noteq> js ''all''" using False p by (auto simp: selectLogProduct_def)
  then have s: "s' = Some (prod_id p)" using p n by (simp add: selectLogProduct_def Number_to_string)
  have "jtruthy (prod_id p)" using n by simp
  then have "qo_request (stockLogsQuery s') = get_req (js ''/stock-logs'') (Some [(js ''product_id'', PNum (prod_id p))])"
    "filter_value s' = to_string (prod_id p)"
    by (simp_all add: s stockLogsQuery_def stockLogApi_list_def filter_value_def)
  then show ?thesis using p(1) s by blast
qed

definition log_lib :: stock_logs_lib where
  "log_lib = \<lparr>sq_products = \<lparr>q_data = Some \<lparr>pl_products = [\<lparr>prod_id = jint 3, prod_name = [], prod_description = [],
       price_fen = jint 1, prod_status = jint 1, prod_created_at = [], prod_updated_at = []\<rparr>],
       pl_total = jint 1, pl_page = jint 1, pl_page_size = jint 100\<rparr>, q_isLoading = False, q_isFetching = False,
       q_isPending = False, q_isSuccess = True, q_isError = False, q_error = None\<rparr>,
     sq_logs = \<lparr>q_data = None, q_isLoading = True, q_isFetching = True, q_isPending = True, q_isSuccess = False,
       q_isError = False, q_error = None\<rparr>\<rparr>"

theorem stock_logs_filter_exact_witness:
  "qo_request (stockLogsQuery (selectLogProduct (to_string (jint 3)))) =
     get_req (js ''/stock-logs'') (Some [(js ''product_id'', PNum (jint 3))])"
proof -
  let ?s = "selectLogProduct (to_string (jint 3))"
  have ps: "map prod_id (filter_products log_lib) = [jint 3]" by (simp add: filter_products_def log_lib_def)
  have "offers (StockLogsPage (\<lambda>_. None) log_lib None) ?s"
    by (simp add: offers_StockLogsPage filter_products_def log_lib_def)
  moreover have "\<forall>p \<in> set (filter_products log_lib). \<exists>n. prod_id p = jint n \<and> 0 < n \<and> n \<le> max_safe"
    by (auto simp: filter_products_def log_lib_def max_safe_def)
  ultimately have "(?s = None \<and> qo_request (stockLogsQuery ?s) = get_req (js ''/stock-logs'') None \<and>
      filter_value ?s = js ''all'') \<or> (\<exists>p \<in> set (filter_products log_lib). ?s = Some (prod_id p) \<and>
       qo_request (stockLogsQuery ?s) = get_req (js ''/stock-logs'') (Some [(js ''product_id'', PNum (prod_id p))]) \<and>
       filter_value ?s = to_string (prod_id p))"
    by (intro stock_logs_filter_exact)
  moreover have "js ''all'' \<noteq> to_string (jint 3)"
  proof -
    have "dec 3 = [0x33]" by (subst dec.simps) (simp add: digit_char_def)
    then show ?thesis by (simp add: to_string_nonneg max_safe_def) (simp add: js_def)
  qed
  ultimately show ?thesis by (auto simp: selectLogProduct_def filter_products_def log_lib_def)
qed

end
