(* ===== verification/Dashboard.thy ===== *)
theory Dashboard
  imports Paging Permissions Logs
begin

section \<open>The dashboard (dashboard.tsx)\<close>

text \<open>
  The four queries of the overview, the numbers it computes from their answers and the tree it
  renders for administrators and for other users.
\<close>

definition dashboardOrderPageSize :: jsnum where "dashboardOrderPageSize = jint 100"

definition dashboard_healthQuery :: query_options where
  "dashboard_healthQuery = \<lparr>qo_key = queryKeys_health, qo_request = healthApi_ping, qo_enabled = True, qo_keep_previous = False\<rparr>"

definition dashboard_productsQuery :: "auth_user option \<Rightarrow> query_options" where
  "dashboard_productsQuery user = \<lparr>qo_key = queryKeys_products None None None,
     qo_request = productApi_list None None None, qo_enabled = isAdminUser user, qo_keep_previous = False\<rparr>"

definition dashboard_ordersQuery :: query_options where
  "dashboard_ordersQuery = \<lparr>qo_key = queryKeys_orders (jint 1) dashboardOrderPageSize,
     qo_request = orderApi_list (jint 1) dashboardOrderPageSize, qo_enabled = True, qo_keep_previous = False\<rparr>"

definition dashboard_stockLogsQuery :: "auth_user option \<Rightarrow> query_options" where
  "dashboard_stockLogsQuery user = \<lparr>qo_key = queryKeys_stockLogs None,
     qo_request = stockLogApi_list None, qo_enabled = isAdminUser user, qo_keep_previous = False\<rparr>"

definition dashboard_queries :: "auth_user option \<Rightarrow> query_options list" where
  "dashboard_queries user = [dashboard_healthQuery, dashboard_productsQuery user, dashboard_ordersQuery,
     dashboard_stockLogsQuery user]"

record dashboard_lib =
  dq_health :: "jsstr query_view"
  dq_products :: "product_list query_view"
  dq_orders :: "order_list query_view"
  dq_logs :: "stock_log list query_view"

definition dash_products :: "dashboard_lib \<Rightarrow> product list" where
  "dash_products lib = (case q_data (dq_products lib) of None \<Rightarrow> [] | Some d \<Rightarrow> pl_products d)"

definition dash_orders :: "dashboard_lib \<Rightarrow> order list" where
  "dash_orders lib = (case q_data (dq_orders lib) of None \<Rightarrow> [] | Some d \<Rightarrow> ol_orders d)"

definition orderTotal :: "dashboard_lib \<Rightarrow> jsnum" where
  "orderTotal lib = (case q_data (dq_orders lib) of None \<Rightarrow> jint 0 | Some d \<Rightarrow> ol_total d)"

definition dash_logs :: "dashboard_lib \<Rightarrow> stock_log list" where
  "dash_logs lib = (case q_data (dq_logs lib) of None \<Rightarrow> [] | Some l \<Rightarrow> l)"

definition pendingOrders :: "order list \<Rightarrow> order list" where
  "pendingOrders orders = filter (\<lambda>ord. jeq (ord_status ord) ORDER_PENDING) orders"

definition paidOrders :: "order list \<Rightarrow> order list" where
  "paidOrders orders = filter (\<lambda>ord. jeq (ord_status ord) ORDER_PAID \<or> jeq (ord_status ord) ORDER_FINISHED) orders"

definition paidAmountFen :: "order list \<Rightarrow> jsnum" where
  "paidAmountFen orders = foldl (\<lambda>acc ord. acc + total_amount_fen ord) (jint 0) (paidOrders orders)"

definition count_text :: "'a list \<Rightarrow> jsstr" where
  "count_text xs = to_string (jint (int (length xs)))"

subsection \<open>The rendered page\<close>

definition MetricCard :: "jsstr \<Rightarrow> jsstr \<Rightarrow> jsstr \<Rightarrow> string \<Rightarrow> 'e node" where
  "MetricCard title v description icon =
     El ''Card'' []
       [El ''CardHeader'' [] [El ''CardTitle'' [] [Txt title], El icon [] []],
        El ''CardContent'' [] [El ''div'' [] [Txt v], El ''p'' [] [Txt description]]]"

definition metric_cards :: "bool \<Rightarrow> dashboard_lib \<Rightarrow> 'e node list" where
  "metric_cards isAdmin lib =
     [MetricCard txt_backend_health
        (if q_isPending (dq_health lib) then txt_checking
         else if q_isSuccess (dq_health lib) then txt_healthy else txt_unhealthy)
        (if q_isError (dq_health lib) then txt_health_hint_error else txt_health_hint_ok) ''Activity'']
     @ show_if isAdmin
        [MetricCard txt_to_put_on_sale
           (if q_isPending (dq_products lib) then txt_em_dash
            else to_string (case q_data (dq_products lib) of
                None \<Rightarrow> jint (int (length (dash_products lib))) | Some d \<Rightarrow> pl_total d))
           txt_off_sale_hint ''Package'']
     @ [MetricCard txt_pending_orders
          (if q_isPending (dq_orders lib) then txt_em_dash else count_text (pendingOrders (dash_orders lib)))
          (txt_recent_prefix @ count_text (dash_orders lib) @ txt_recent_infix @ to_string (orderTotal lib)
             @ txt_recent_suffix) ''ShoppingCart'',
        MetricCard txt_paid_amount_title
          (if q_isPending (dq_orders lib) then txt_em_dash
           else formatFen (Some (paidAmountFen (dash_orders lib))))
          txt_paid_amount_desc ''ClipboardList'']"

definition recent_order_row :: "(jsstr \<Rightarrow> jsstr option) \<Rightarrow> order \<Rightarrow> 'e node" where
  "recent_order_row intl ord =
     El ''TableRow'' [Attr ''key'' (ord_id ord)]
       [El ''TableCell'' [] [Txt (order_no ord)],
        El ''TableCell'' [] [Txt (formatFen (Some (total_amount_fen ord)))],
        El ''TableCell'' [] [OrderStatusBadge (ord_status ord)],
        El ''TableCell'' [] [Txt (formatDateTime intl (Some (ord_created_at ord)))]]"

definition recent_orders_card :: "(jsstr \<Rightarrow> jsstr option) \<Rightarrow> bool \<Rightarrow> dashboard_lib \<Rightarrow> 'e node" where
  "recent_orders_card intl isAdmin lib =
     El ''Card'' [Attr ''className'' (js (if isAdmin then ''xl:col-span-4'' else ''xl:col-span-7''))]
       [El ''CardHeader'' [] [El ''CardTitle'' [] [Txt txt_recent_orders], El ''CardDescription'' [] [Txt txt_recent_orders_desc]],
        El ''CardContent'' []
          [El ''Table'' []
            [El ''TableHeader'' [] [El ''TableRow'' []
               [El ''TableHead'' [] [Txt txt_order_no], El ''TableHead'' [] [Txt txt_amount],
                El ''TableHead'' [] [Txt txt_status], El ''TableHead'' [] [Txt txt_created_at]]],
             El ''TableBody'' []
               (show_if (q_isPending (dq_orders lib)) [LoadingRow 4]
                @ map (recent_order_row intl) (take 5 (dash_orders lib))
                @ show_if (\<not> q_isPending (dq_orders lib) \<and> length (dash_orders lib) = 0)
                    [EmptyRow 4 txt_no_orders])]]]"

definition recent_log_row :: "stock_log \<Rightarrow> 'e node" where
  "recent_log_row l =
     El ''TableRow'' [NumAttr ''key'' (sl_id l)]
       [El ''TableCell'' [] [Txt (js ''#''), Txt (to_string (sl_product_id l))],
        El ''TableCell'' [] [StockBizTypeBadge (biz_type l)],
        El ''TableCell'' [Attr ''className'' (js (change_class (change_quantity l)))]
          [Txt (change_text (change_quantity l))]]"

definition recent_logs_card :: "dashboard_lib \<Rightarrow> 'e node" where
  "recent_logs_card lib =
     El ''Card'' []
       [El ''CardHeader'' []
          [El ''CardTitle'' [] [El ''History'' [] [], Txt txt_recent_logs], El ''CardDescription'' [] [Txt txt_recent_logs_desc]],
        El ''CardContent'' []
          [El ''Table'' []
            [El ''TableHeader'' [] [El ''TableRow'' []
               [El ''TableHead'' [] [Txt txt_product], El ''TableHead'' [] [Txt txt_kind], El ''TableHead'' [] [Txt txt_change]]],
             El ''TableBody'' []
               (show_if (q_isPending (dq_logs lib)) [LoadingRow 3]
                @ map recent_log_row (take 6 (dash_logs lib))
                @ show_if (\<not> q_isPending (dq_logs lib) \<and> length (dash_logs lib) = 0)
                    [EmptyRow 3 txt_no_stock_logs])]]]"

definition OrderInventoryDashboard ::
  "(jsstr \<Rightarrow> jsstr option) \<Rightarrow> auth_user option \<Rightarrow> dashboard_lib \<Rightarrow> 'e node" where
  "OrderInventoryDashboard intl user lib =
     (let isAdmin = isAdminUser user
      in BusinessPage txt_dashboard_title (if isAdmin then txt_dashboard_desc_admin else txt_dashboard_desc_user) []
        [El ''div'' []
           (show_if isAdmin (ApiErrorPanel (q_error (dq_products lib)))
            @ ApiErrorPanel (q_error (dq_orders lib))
            @ show_if isAdmin (ApiErrorPanel (q_error (dq_logs lib)))),
         El ''div'' [] (metric_cards isAdmin lib),
         El ''div'' [] (recent_orders_card intl isAdmin lib # show_if isAdmin [recent_logs_card lib])])"

subsection \<open>Properties\<close>

text \<open>The requests that need the administrator's role at the backend.\<close>

definition admin_request :: "request \<Rightarrow> bool" where
  "admin_request r \<longleftrightarrow> req_client r = Api \<and> (req_url r = js ''/products'' \<or> req_url r = js ''/stock-logs'')"

text \<open>
  C27: the dashboard of a user who is not an administrator asks for nothing that is reserved to
  administrators, and what it shows does not depend on the answers of those queries, cached ones of an
  earlier session included.
\<close>

theorem dashboard_admin_only:
  "\<not> isAdminUser user \<Longrightarrow>
     (\<forall>q. q \<in> set (dashboard_queries user) \<and> admin_request (qo_request q) \<longrightarrow> \<not> qo_enabled q) \<and>
     OrderInventoryDashboard intl user (lib\<lparr>dq_products := p, dq_logs := l\<rparr>) = OrderInventoryDashboard intl user lib"
proof -
  assume a: "\<not> isAdminUser user"
  have "js ''/ping'' \<noteq> js ''/products''" "js ''/ping'' \<noteq> js ''/stock-logs''"
    "js ''/orders'' \<noteq> js ''/products''" "js ''/orders'' \<noteq> js ''/stock-logs''" by code_simp+
  then show ?thesis using a
    by (auto simp: dashboard_queries_def dashboard_healthQuery_def dashboard_productsQuery_def dashboard_ordersQuery_def
        dashboard_stockLogsQuery_def admin_request_def orderApi_list_def req_defs healthApi_ping_def
        OrderInventoryDashboard_def metric_cards_def recent_orders_card_def dash_orders_def orderTotal_def)
qed

definition plain_user :: auth_user where
  "plain_user = \<lparr>user_id = jint 2, username = js ''u'', nickname = [], user_status = jint 1, last_login_at = None, roles = [js ''user'']\<rparr>"

theorem dashboard_admin_only_witness:
  "\<not> qo_enabled (dashboard_productsQuery (Some plain_user))"
proof -
  have "js ''user'' \<noteq> js ''admin''" by code_simp
  then have "\<not> isAdminUser (Some plain_user)" by (simp add: isAdminUser_def ADMIN_ROLE_def plain_user_def)
  moreover have "dashboard_productsQuery (Some plain_user) \<in> set (dashboard_queries (Some plain_user))"
    "admin_request (qo_request (dashboard_productsQuery (Some plain_user)))"
    by (simp_all add: dashboard_queries_def dashboard_productsQuery_def admin_request_def productApi_list_def req_defs)
  ultimately show ?thesis
    using dashboard_admin_only[of "Some plain_user" undefined undefined undefined undefined] by blast
qed

definition fen_amounts :: "order list \<Rightarrow> bool" where
  "fen_amounts orders \<longleftrightarrow> (\<forall>ord \<in> set orders. isInteger (total_amount_fen ord) \<and> jle (jint 0) (total_amount_fen ord))"

definition fen_of :: "jsnum \<Rightarrow> int" where
  "fen_of a = (case a of JFin x \<Rightarrow> \<lfloor>x\<rfloor> | _ \<Rightarrow> 0)"

lemma fen_of_jint [simp]: "fen_of (jint n) = n"
  by (simp add: fen_of_def jint_def)

lemma sum_amounts:
  "fen_amounts orders \<Longrightarrow> 0 \<le> a \<Longrightarrow> a + (\<Sum>ord\<leftarrow>orders. fen_of (total_amount_fen ord)) \<le> 2 ^ 53 \<Longrightarrow>
   foldl (\<lambda>acc ord. acc + total_amount_fen ord) (jint a) orders =
     jint (a + (\<Sum>ord\<leftarrow>orders. fen_of (total_amount_fen ord)))"
proof (induction orders arbitrary: a)
  case (Cons ord orders)
  have nonneg: "0 \<le> fen_of (total_amount_fen ord')" if "ord' \<in> set (ord # orders)" for ord'
    using that Cons.prems(1) by (force simp: fen_amounts_def elim: isInteger_cases)
  then have "0 \<le> (\<Sum>ord\<leftarrow>orders. fen_of (total_amount_fen ord))" by (intro sum_list_nonneg) auto
  moreover have "isInteger (total_amount_fen ord)" using Cons.prems(1) by (simp add: fen_amounts_def)
  then obtain n where n: "total_amount_fen ord = jint n" by (rule isInteger_cases)
  moreover have "0 \<le> n" using nonneg[of ord] n by simp
  ultimately have "jint a + total_amount_fen ord = jint (a + n)" using Cons.prems by (simp add: jint_add)
  with Cons n \<open>0 \<le> n\<close> show ?case by (simp add: add.assoc fen_amounts_def)
qed simp

text \<open>
  The amount paid is the exact sum of the amounts of the paid and the finished orders among those
  delivered, whenever it does not pass \<open>2 ^ 53\<close> fen; pending and cancelled orders do not count.
\<close>

theorem paid_amount_exact:
  assumes "fen_amounts orders"
    and "(\<Sum>ord\<leftarrow>paidOrders orders. fen_of (total_amount_fen ord)) \<le> 2 ^ 53"
  shows "paidAmountFen orders = jint (\<Sum>ord\<leftarrow>paidOrders orders. fen_of (total_amount_fen ord)) \<and>
    (\<forall>ord. ord \<in> set (paidOrders orders) \<longleftrightarrow> ord \<in> set orders \<and> (ord_status ord = jint 2 \<or> ord_status ord = jint 3))"
proof -
  have "fen_amounts (paidOrders orders)" using assms(1) by (simp add: fen_amounts_def paidOrders_def)
  from sum_amounts[OF this, of 0] assms(2)
  have "paidAmountFen orders = jint (\<Sum>ord\<leftarrow>paidOrders orders. fen_of (total_amount_fen ord))"
    by (simp add: paidAmountFen_def)
  moreover have "jeq a (jint n) \<longleftrightarrow> a = jint n" for a n by (auto simp: jeq_def jint_def)
  ultimately show ?thesis by (auto simp: paidOrders_def order_status_defs)
qed

definition small_order :: "int \<Rightarrow> int \<Rightarrow> order" where
  "small_order amount status = \<lparr>ord_id = js ''1'', order_no = [], total_amount_fen = jint amount,
     ord_status = jint status, paid_at = None, completed_at = None, cancelled_at = None,
     ord_created_at = [], ord_updated_at = []\<rparr>"

theorem paid_amount_exact_witness:
  "paidAmountFen [small_order 100 2, small_order 7 4, small_order 30 3, small_order 9 1] = jint 130"
proof -
  let ?os = "[small_order 100 2, small_order 7 4, small_order 30 3, small_order 9 1]"
  have s: "(\<Sum>ord\<leftarrow>paidOrders ?os. fen_of (total_amount_fen ord)) = 130"
    by (simp add: paidOrders_def small_order_def order_status_defs)
  have "fen_amounts ?os" by (simp add: fen_amounts_def small_order_def)
  from paid_amount_exact[OF this] show ?thesis by (simp add: s)
qed

end
