(* ===== verification/Rendering.thy ===== *)
theory Rendering
  imports UiControls OrdersView Products Inventory Logs Dashboard
begin

section \<open>The pages as they are drawn\<close>

text \<open>
  The pages are modelled as trees of the components of \<open>components/ui\<close>. This theory applies the theorem
  of the theory Ui to them: each page uses those components the way they can be used, so what it offers
  as a tree of components is what it offers once every component is drawn.
\<close>

lemma well_used_ball [simp]: "well_used (El t as ks) \<longleftrightarrow> usable t as ks \<and> (\<forall>k \<in> set ks. well_used k)"
  by (simp add: list_all_iff)

declare well_used.simps(2) [simp del]

lemma usable_plain [simp]: "usable t [] ks \<longleftrightarrow> (t \<in> set childless \<longrightarrow> ks = [])"
  by (simp add: usable_def)

lemmas used_defs = usable_def childless_def

lemma well_used_parts [simp]:
  "well_used (Field label kids) \<longleftrightarrow> (\<forall>k \<in> set kids. well_used k)"
  "well_used (LoadingRow n)"
  "well_used (EmptyRow n t)"
  "k \<in> set (ApiErrorPanel err) \<Longrightarrow> well_used k"
  "well_used (ProductStatusBadge x)" "well_used (OrderStatusBadge x)" "well_used (StockBizTypeBadge x)"
  "well_used (BusinessPage title descr acts kids) \<longleftrightarrow> (\<forall>k \<in> set acts. well_used k) \<and> (\<forall>k \<in> set kids. well_used k)"
  by (auto simp: Field_def LoadingRow_def EmptyRow_def ApiErrorPanel_def Badge_def ProductStatusBadge_def
      OrderStatusBadge_def StockBizTypeBadge_def BusinessPage_def used_defs Let_def split: option.splits)

lemma well_used_pager [simp]: "well_used (pager n pg pages fetching prev following)"
  by (simp add: pager_def used_defs Let_def)

lemma well_used_ConfirmDialog [simp]:
  assumes "\<forall>k \<in> set (cd_title d @ cd_desc d @ cd_children d @ (case cd_confirmText d of None \<Rightarrow> [] | Some ks \<Rightarrow> ks)). well_used k"
  shows "well_used (ConfirmDialog d)"
  using assms by (auto simp: ConfirmDialog_def used_defs Let_def split: option.splits)

lemma well_used_OrderActions [simp]: "well_used (OrderActions ord pending isCompact f)"
  by (auto simp: OrderActions_def action_button_def used_defs Let_def split: option.splits)

lemma well_used_order_form: "well_used (order_form lib s)"
proof -
  have "k \<in> set (product_items lib) \<Longrightarrow> well_used k" for k
    by (auto simp: product_items_def used_defs split: if_splits)
  then have "well_used (order_row lib items i item)" for items i item
    by (auto simp: order_row_def used_defs)
  then show ?thesis by (auto simp: order_form_def used_defs set_map_index split: if_splits)
qed

lemma well_used_OrdersPage: "well_used (OrdersPage intl lib s)"
proof -
  have "well_used (order_detail_card lib)"
    by (auto simp: order_detail_card_def detail_row_def used_defs split: option.splits)
  moreover have "well_used (orders_table intl lib s)"
    by (auto simp: orders_table_def order_table_row_def used_defs split: if_splits)
  moreover have "well_used (ConfirmDialog (confirm_dialog_props lib s))"
    by (rule well_used_ConfirmDialog) (auto simp: confirm_dialog_props_def Let_def)
  ultimately show ?thesis using well_used_order_form by (simp add: OrdersPage_def childless_def)
qed

lemma well_used_ProductsPage: "well_used (ProductsPage intl lib s)"
  by (auto simp: ProductsPage_def product_form_def product_detail_card_def product_table_def product_row_def sale_buttons_def
      used_defs Let_def split: option.splits if_splits)

lemma well_used_InventoryPage: "well_used (InventoryPage intl lib s)"
proof -
  have "well_used (ProductSelect ps v f)" for ps v and f :: "jsstr \<Rightarrow> inventory_event"
    by (auto simp: ProductSelect_def used_defs)
  then show ?thesis
    by (auto simp: InventoryPage_def init_card_def add_card_def redis_card_def lookup_card_def reconcile_line_def
        used_defs Let_def split: option.splits if_splits)
qed

lemma well_used_StockLogsPage: "well_used (StockLogsPage intl lib s)"
  by (auto simp: StockLogsPage_def stock_logs_head_def stock_log_row_def used_defs Let_def split: option.splits if_splits)

lemma well_used_OperationLogsPage: "well_used (OperationLogsPage intl q)"
  by (auto simp: OperationLogsPage_def operation_logs_head_def operation_log_row_def used_defs Let_def split: option.splits if_splits)

lemma well_used_dashboard: "well_used (OrderInventoryDashboard intl user lib)"
proof -
  have o: "well_used (recent_order_row intl ord)" for ord
    by (simp add: recent_order_row_def used_defs)
  have l: "well_used (recent_log_row l)" for l
    by (simp add: recent_log_row_def used_defs)
  have ro: "well_used (recent_orders_card intl a lib)" for a
    by (simp add: recent_orders_card_def used_defs ball_Un o)
  have rl: "well_used (recent_logs_card lib)"
    by (simp add: recent_logs_card_def used_defs ball_Un l)
  have c: "well_used (MetricCard t v d i)" if "i \<notin> set childless" for t v d i
    using that by (auto simp: MetricCard_def used_defs)
  have m: "\<forall>k \<in> set (metric_cards a lib). well_used k" for a
    by (simp add: metric_cards_def ball_Un c childless_def)
  show ?thesis
    by (simp add: OrderInventoryDashboard_def childless_def Let_def ball_Un m ro rl)
qed

text \<open>
  C40: every business page offers, once all of its components are drawn, exactly the events its tree of
  components offers, in the same order and with the same limits on what is typed.
\<close>

theorem pages_drawn:
  "affordances (rendered (OrdersPage intl ol os)) = affordances (OrdersPage intl ol os) \<and>
   affordances (rendered (ProductsPage intl pl ps)) = affordances (ProductsPage intl pl ps) \<and>
   affordances (rendered (InventoryPage intl il is)) = affordances (InventoryPage intl il is) \<and>
   affordances (rendered (StockLogsPage intl sl ss)) = affordances (StockLogsPage intl sl ss) \<and>
   affordances (rendered (OperationLogsPage intl q)) = affordances (OperationLogsPage intl q) \<and>
   affordances (rendered (OrderInventoryDashboard intl user dl)) = affordances (OrderInventoryDashboard intl user dl)"
  by (simp add: rendering_keeps_use well_used_OrdersPage well_used_ProductsPage well_used_InventoryPage
      well_used_StockLogsPage well_used_OperationLogsPage well_used_dashboard)

end
