(* ===== verification/Store.thy ===== *)
theory Store
  imports ServiceLimits OrderActions
begin

section \<open>The tables of the backend and the queries on them (internal/model, internal/dao, migrations)\<close>

text \<open>
  The rows of the tables as records with the fields of the models, without the time stamps the
  database maintains by itself, and the functions of \<open>dao\<close> as functions on the tables. A table is the
  list of its rows in the order of insertion; the unique keys and the \<open>CHECK\<close> constraints of the
  migrations are checks of the inserts and updates. An integer of Go is an \<open>int\<close> whose arithmetic
  wraps at 64 bits; an update of the database that would leave 64 bits is refused. The lengths of
  texts are not part of the checks, since the services and the bindings bound them before. References
  to users are not checked: the users are a state of their own (theory Users).

  Two functions are given by code outside the repository and are parameters: \<open>collate\<close>, which two
  texts share when the collation of the database calls them equal, and \<open>sha256_hex\<close>.
\<close>

subsection \<open>Integers\<close>

definition wrap64 :: "int \<Rightarrow> int" where
  "wrap64 n = signed_take_bit 63 n"

definition int64 :: "int \<Rightarrow> bool" where
  "int64 n \<longleftrightarrow> - (2 ^ 63) \<le> n \<and> n < 2 ^ 63"

lemma wrap64_id: "int64 n \<Longrightarrow> wrap64 n = n"
  by (simp add: wrap64_def int64_def signed_take_bit_int_eq_self)

lemma int64_wrap64 [simp]: "int64 (wrap64 n)"
  using signed_take_bit_int_greater_eq_minus_exp[of 63 n] signed_take_bit_int_less_exp[of 63 n]
  by (simp add: wrap64_def int64_def)

subsection \<open>Errors and transactions\<close>

datatype go_error =
  ErrRecordNotFound
| ErrDatabase
| ErrReserveInventoryFailed | ErrReleaseLockedInventoryFailed | ErrConsumeLockedInventoryFailed
| ErrInvalidUserID | ErrInvalidIdempotencyKey | ErrDuplicateOrderItem | ErrInsufficientStock
| ErrOrderBeingCreated | ErrOrderIdempotencyConflict | ErrOrderIdempotencyStateInvalid
| ErrProductNotFound | ErrProductOffSale | ErrInventoryNotFound | ErrCreateStockLogFailed
| ErrOrderNotFound | ErrOrderAlreadyPaid | ErrOrderAlreadyFinished | ErrOrderAlreadyCanceled
| ErrOrderNotPaid | ErrOrderPayFailed | ErrOrderCancelFailed | ErrOrderFinishFailed
| ErrDeadlineNotReached | ErrInvalidOrderPagination
| ErrInvalidStockQuantity | ErrInitInventoryExists | ErrInitInventoryFailed | ErrInvalidAddQuantity
| ErrProductOnSaleFailed | ErrProductOffSaleFailed
| ErrRejected service_error

text \<open>The Go idiom \<open>if err != nil { return err }\<close>, and its variants that translate the error.\<close>

definition andThen :: "'e + 'a \<Rightarrow> ('a \<Rightarrow> 'e + 'b) \<Rightarrow> 'e + 'b" where
  "andThen m f = (case m of Inl e \<Rightarrow> Inl e | Inr x \<Rightarrow> f x)"

definition onNotFound :: "go_error \<Rightarrow> go_error + 'a \<Rightarrow> go_error + 'a" where
  "onNotFound e m = (case m of Inl e' \<Rightarrow> Inl (if e' = ErrRecordNotFound then e else e') | Inr x \<Rightarrow> Inr x)"

definition onError :: "go_error \<Rightarrow> go_error + 'a \<Rightarrow> go_error + 'a" where
  "onError e m = (case m of Inl e' \<Rightarrow> Inl e | Inr x \<Rightarrow> Inr x)"

lemma andThen_simps [simp]: "andThen (Inl e) f = Inl e" "andThen (Inr x) f = f x"
  by (simp_all add: andThen_def)

lemma andThen_Inr_iff: "andThen m f = Inr y \<longleftrightarrow> (\<exists>x. m = Inr x \<and> f x = Inr y)"
  by (cases m) simp_all

lemma onNotFound_simps [simp]:
  "onNotFound e (Inr x) = Inr x" "onNotFound e m = Inr x \<longleftrightarrow> m = Inr x"
  "onNotFound e (Inl ErrRecordNotFound) = Inl e"
  by (cases m; simp add: onNotFound_def)+

lemma onError_simps [simp]:
  "onError e (Inr x) = Inr x" "onError e m = Inr x \<longleftrightarrow> m = Inr x" "onError e (Inl e') = Inl e"
  by (cases m; simp add: onError_def)+

subsection \<open>Rows\<close>

record products_row =
  p_id :: int
  p_name :: jsstr
  p_description :: jsstr
  p_price_fen :: int
  p_status :: int

definition ProductStatusOnSale :: int where "ProductStatusOnSale = 1"
definition ProductStatusOffSale :: int where "ProductStatusOffSale = 2"

record inventory_row =
  i_id :: int
  i_product_id :: int
  i_stock_quantity :: int
  i_locked_quantity :: int

record orders_row =
  o_id :: int
  o_user_id :: int
  o_order_no :: jsstr
  o_total_amount_fen :: int
  o_status :: int
  o_paid_at :: "int option"
  o_completed_at :: "int option"
  o_cancelled_at :: "int option"
  o_created_at :: int

definition OrderStatusPending :: int where "OrderStatusPending = 1"
definition OrderStatusPaid :: int where "OrderStatusPaid = 2"
definition OrderStatusFinished :: int where "OrderStatusFinished = 3"
definition OrderStatusCancelled :: int where "OrderStatusCancelled = 4"

lemmas go_status_defs = OrderStatusPending_def OrderStatusPaid_def OrderStatusFinished_def
  OrderStatusCancelled_def

record item_row =
  it_id :: int
  it_order_id :: int
  it_product_id :: int
  it_product_name :: jsstr
  it_product_price_fen :: int
  it_quantity :: int
  it_subtotal_fen :: int

record log_row =
  l_product_id :: int
  l_change_quantity :: int
  l_before_quantity :: int
  l_after_quantity :: int
  l_biz_type :: int
  l_biz_id :: "int option"
  l_remark :: jsstr

definition StockBizInit :: int where "StockBizInit = 1"
definition StockBizManualAdd :: int where "StockBizManualAdd = 2"
definition StockBizOrderDeduct :: int where "StockBizOrderDeduct = 3"
definition StockBizOrderRollback :: int where "StockBizOrderRollback = 4"

lemmas go_biz_defs = StockBizInit_def StockBizManualAdd_def StockBizOrderDeduct_def
  StockBizOrderRollback_def

record key_row =
  k_user_id :: int
  k_idempotency_key :: jsstr
  k_request_hash :: jsstr
  k_order_id :: "int option"
  k_status :: int

definition OrderBeingCreated :: int where "OrderBeingCreated = 1"
definition OrderAlreadyCreated :: int where "OrderAlreadyCreated = 2"

record outbox_row =
  x_event_id :: jsstr
  x_order_id :: int
  x_user_id :: int
  x_timeout_at :: int
  x_next_attempt_at :: int

record db =
  t_products :: "products_row list"
  t_inventories :: "inventory_row list"
  t_orders :: "orders_row list"
  t_items :: "item_row list"
  t_logs :: "log_row list"
  t_keys :: "key_row list"
  t_outbox :: "outbox_row list"

definition empty_db :: db where
  "empty_db = \<lparr>t_products = [], t_inventories = [], t_orders = [], t_items = [], t_logs = [],
     t_keys = [], t_outbox = []\<rparr>"

record db_env =
  collate :: "jsstr \<Rightarrow> jsstr"
  sha256_hex :: "jsstr \<Rightarrow> jsstr"

text \<open>
  A transaction commits when its body returns no error and is rolled back otherwise. \<open>served\<close> says
  whether the database carries it to the end; when it does not, nothing of it remains.
\<close>

definition transaction :: "bool \<Rightarrow> (db \<Rightarrow> go_error + 'a \<times> db) \<Rightarrow> db \<Rightarrow> (go_error + 'a) \<times> db" where
  "transaction served body d =
     (if \<not> served then (Inl ErrDatabase, d)
      else case body d of Inl e \<Rightarrow> (Inl e, d) | Inr (x, d') \<Rightarrow> (Inr x, d'))"

text \<open>\<open>First\<close> on a condition that a unique key decides, and the row number of an insert.\<close>

definition first_row :: "('r \<Rightarrow> bool) \<Rightarrow> 'r list \<Rightarrow> go_error + 'r" where
  "first_row c rows = (case find c rows of None \<Rightarrow> Inl ErrRecordNotFound | Some r \<Rightarrow> Inr r)"

definition next_id :: "'r list \<Rightarrow> int" where
  "next_id rows = int (length rows) + 1"

text \<open>
  \<open>UPDATE ... WHERE c SET f\<close>: all rows that satisfy the condition change, unless the new value of one
  violates a constraint; the number of rows affected is returned.
\<close>

definition update_rows ::
  "('r \<Rightarrow> bool) \<Rightarrow> ('r \<Rightarrow> 'r) \<Rightarrow> ('r \<Rightarrow> bool) \<Rightarrow> 'r list \<Rightarrow> go_error + nat \<times> 'r list" where
  "update_rows c f ok rows =
     (if \<forall>r \<in> set rows. c r \<longrightarrow> ok (f r)
      then Inr (length (filter c rows), map (\<lambda>r. if c r then f r else r) rows)
      else Inl ErrDatabase)"

subsection \<open>Products\<close>

definition product_checks :: "products_row \<Rightarrow> bool" where
  "product_checks p \<longleftrightarrow> int64 (p_price_fen p) \<and> p_price_fen p > 0 \<and> p_status p \<in> {1, 2}"

definition dao_CreateProduct :: "products_row \<Rightarrow> db \<Rightarrow> go_error + products_row \<times> db" where
  "dao_CreateProduct product d =
     (let p = product\<lparr>p_id := next_id (t_products d)\<rparr>
      in if product_checks p then Inr (p, d\<lparr>t_products := t_products d @ [p]\<rparr>) else Inl ErrDatabase)"

definition dao_GetProductByID :: "int \<Rightarrow> db \<Rightarrow> go_error + products_row" where
  "dao_GetProductByID i d = first_row (\<lambda>p. p_id p = i) (t_products d)"

definition dao_UpdateProductStatus :: "int \<Rightarrow> int \<Rightarrow> db \<Rightarrow> go_error + unit \<times> db" where
  "dao_UpdateProductStatus i status d =
     andThen (update_rows (\<lambda>p. p_id p = i) (\<lambda>p. p\<lparr>p_status := status\<rparr>) product_checks (t_products d))
       (\<lambda>(n, rows). Inr ((), d\<lparr>t_products := rows\<rparr>))"

text \<open>\<open>ORDER BY id DESC LIMIT n OFFSET k\<close>; without a page size all rows are read.\<close>

definition dao_ListProducts :: "int option \<Rightarrow> int \<Rightarrow> int \<Rightarrow> db \<Rightarrow> products_row list \<times> nat" where
  "dao_ListProducts status page pageSize d =
     (let rows = rev (sort_key p_id (filter (\<lambda>p. case status of None \<Rightarrow> True | Some s \<Rightarrow> p_status p = s) (t_products d)))
      in if pageSize > 0 then (take (nat pageSize) (drop (nat (wrap64 ((page - 1) * pageSize))) rows), length rows)
         else (rows, if pageSize = 0 then length rows else 0))"

subsection \<open>Inventories\<close>

definition inventory_checks :: "inventory_row \<Rightarrow> bool" where
  "inventory_checks i \<longleftrightarrow> int64 (i_stock_quantity i) \<and> int64 (i_locked_quantity i) \<and>
     i_stock_quantity i \<ge> 0 \<and> i_locked_quantity i \<ge> 0"

definition dao_InitInventory :: "inventory_row \<Rightarrow> db \<Rightarrow> go_error + unit \<times> db" where
  "dao_InitInventory inventory d =
     (let i = inventory\<lparr>i_id := next_id (t_inventories d)\<rparr>
      in if inventory_checks i \<and> i_product_id i \<notin> i_product_id ` set (t_inventories d)
         then Inr ((), d\<lparr>t_inventories := t_inventories d @ [i]\<rparr>) else Inl ErrDatabase)"

definition dao_GetInventoryByProductID :: "int \<Rightarrow> db \<Rightarrow> go_error + inventory_row" where
  "dao_GetInventoryByProductID product_id d = first_row (\<lambda>i. i_product_id i = product_id) (t_inventories d)"

text \<open>The read that also locks the row; the lock shows in that nothing happens between it and the commit.\<close>

definition dao_GetInventoryByProductIDForUpdate :: "int \<Rightarrow> db \<Rightarrow> go_error + inventory_row" where
  "dao_GetInventoryByProductIDForUpdate product_id d =
     first_row (\<lambda>i. i_product_id i = product_id) (t_inventories d)"

text \<open>An update of inventories that has to affect a row.\<close>

definition patch_inventories ::
  "go_error \<Rightarrow> (inventory_row \<Rightarrow> bool) \<Rightarrow> (inventory_row \<Rightarrow> inventory_row) \<Rightarrow> db \<Rightarrow> go_error + db" where
  "patch_inventories e c f d =
     andThen (update_rows c f inventory_checks (t_inventories d))
       (\<lambda>(n, rows). if n = 0 then Inl e else Inr (d\<lparr>t_inventories := rows\<rparr>))"

definition dao_UpdateInventoryStockQuantity :: "int \<Rightarrow> int \<Rightarrow> db \<Rightarrow> go_error + db" where
  "dao_UpdateInventoryStockQuantity product_id stock =
     patch_inventories ErrRecordNotFound (\<lambda>i. i_product_id i = product_id) (\<lambda>i. i\<lparr>i_stock_quantity := stock\<rparr>)"

definition dao_ReserveInventory :: "int \<Rightarrow> int \<Rightarrow> db \<Rightarrow> go_error + db" where
  "dao_ReserveInventory product_id quantity =
     patch_inventories ErrReserveInventoryFailed
       (\<lambda>i. i_product_id i = product_id \<and> i_stock_quantity i \<ge> quantity)
       (\<lambda>i. i\<lparr>i_stock_quantity := i_stock_quantity i - quantity, i_locked_quantity := i_locked_quantity i + quantity\<rparr>)"

definition dao_ReleaseLockedInventory :: "int \<Rightarrow> int \<Rightarrow> db \<Rightarrow> go_error + db" where
  "dao_ReleaseLockedInventory product_id quantity =
     patch_inventories ErrReleaseLockedInventoryFailed
       (\<lambda>i. i_product_id i = product_id \<and> i_locked_quantity i \<ge> quantity)
       (\<lambda>i. i\<lparr>i_stock_quantity := i_stock_quantity i + quantity, i_locked_quantity := i_locked_quantity i - quantity\<rparr>)"

definition dao_ConsumeLockedInventory :: "int \<Rightarrow> int \<Rightarrow> db \<Rightarrow> go_error + db" where
  "dao_ConsumeLockedInventory product_id quantity =
     patch_inventories ErrConsumeLockedInventoryFailed
       (\<lambda>i. i_product_id i = product_id \<and> i_locked_quantity i \<ge> quantity)
       (\<lambda>i. i\<lparr>i_locked_quantity := i_locked_quantity i - quantity\<rparr>)"

subsection \<open>Orders and their items\<close>

definition order_checks :: "orders_row \<Rightarrow> bool" where
  "order_checks r \<longleftrightarrow> int64 (o_total_amount_fen r) \<and> o_total_amount_fen r \<ge> 0 \<and> o_status r \<in> {1, 2, 3, 4}"

definition dao_CreateOrder :: "db_env \<Rightarrow> orders_row \<Rightarrow> db \<Rightarrow> go_error + db" where
  "dao_CreateOrder env r d =
     (if order_checks r \<and> o_id r \<notin> o_id ` set (t_orders d) \<and>
         collate env (o_order_no r) \<notin> (\<lambda>q. collate env (o_order_no q)) ` set (t_orders d)
      then Inr (d\<lparr>t_orders := t_orders d @ [r]\<rparr>) else Inl ErrDatabase)"

definition item_checks :: "item_row \<Rightarrow> bool" where
  "item_checks it \<longleftrightarrow> int64 (it_product_price_fen it) \<and> int64 (it_quantity it) \<and> int64 (it_subtotal_fen it) \<and>
     it_product_price_fen it > 0 \<and> it_quantity it > 0 \<and> it_subtotal_fen it > 0"

definition dao_CreateOrderItem :: "item_row \<Rightarrow> db \<Rightarrow> go_error + db" where
  "dao_CreateOrderItem item d =
     (let it = item\<lparr>it_id := next_id (t_items d)\<rparr>
      in if item_checks it then Inr (d\<lparr>t_items := t_items d @ [it]\<rparr>) else Inl ErrDatabase)"

definition dao_GetOrderByID :: "int \<Rightarrow> int \<Rightarrow> db \<Rightarrow> go_error + orders_row" where
  "dao_GetOrderByID user i d = first_row (\<lambda>r. o_user_id r = user \<and> o_id r = i) (t_orders d)"

definition dao_GetOrderByIDForSystem :: "int \<Rightarrow> db \<Rightarrow> go_error + orders_row" where
  "dao_GetOrderByIDForSystem i d = first_row (\<lambda>r. o_id r = i) (t_orders d)"

text \<open>\<open>ORDER BY id DESC LIMIT n OFFSET k\<close>, with the number of all rows that satisfy the condition.\<close>

definition page_of_orders :: "(orders_row \<Rightarrow> bool) \<Rightarrow> nat \<Rightarrow> nat \<Rightarrow> db \<Rightarrow> orders_row list \<times> nat" where
  "page_of_orders c limit offset d =
     (let rows = filter c (t_orders d)
      in (take limit (drop offset (rev (sort_key o_id rows))), length rows))"

definition dao_ListOrders :: "int \<Rightarrow> nat \<Rightarrow> nat \<Rightarrow> db \<Rightarrow> orders_row list \<times> nat" where
  "dao_ListOrders user pageSize offset = page_of_orders (\<lambda>r. o_user_id r = user) pageSize offset"

definition dao_ListAdminOrders ::
  "int option \<Rightarrow> int option \<Rightarrow> nat \<Rightarrow> nat \<Rightarrow> db \<Rightarrow> orders_row list \<times> nat" where
  "dao_ListAdminOrders user status pageSize offset =
     page_of_orders (\<lambda>r. (case user of None \<Rightarrow> True | Some u \<Rightarrow> o_user_id r = u) \<and>
       (case status of None \<Rightarrow> True | Some s \<Rightarrow> o_status r = s)) pageSize offset"

definition dao_ListOrderItemsByOrderID :: "int \<Rightarrow> db \<Rightarrow> item_row list" where
  "dao_ListOrderItemsByOrderID i d = sort_key it_id (filter (\<lambda>it. it_order_id it = i) (t_items d))"

definition dao_ListOrderItemsByOrderIDForInventory :: "int \<Rightarrow> db \<Rightarrow> item_row list" where
  "dao_ListOrderItemsByOrderIDForInventory i d =
     sort_key it_product_id (filter (\<lambda>it. it_order_id it = i) (t_items d))"

datatype time_field = PaidAt | CompletedAt | CancelledAt

fun set_time :: "time_field \<Rightarrow> int \<Rightarrow> orders_row \<Rightarrow> orders_row" where
  "set_time PaidAt now r = r\<lparr>o_paid_at := Some now\<rparr>"
| "set_time CompletedAt now r = r\<lparr>o_completed_at := Some now\<rparr>"
| "set_time CancelledAt now r = r\<lparr>o_cancelled_at := Some now\<rparr>"

definition dao_PatchOrderStatus ::
  "int \<Rightarrow> int \<Rightarrow> int \<Rightarrow> int \<Rightarrow> time_field \<Rightarrow> int \<Rightarrow> db \<Rightarrow> go_error + nat \<times> db" where
  "dao_PatchOrderStatus user i fromStatus toStatus timeField now d =
     andThen (update_rows (\<lambda>r. o_user_id r = user \<and> o_id r = i \<and> o_status r = fromStatus)
         (\<lambda>r. set_time timeField now (r\<lparr>o_status := toStatus\<rparr>)) order_checks (t_orders d))
       (\<lambda>(n, rows). Inr (n, d\<lparr>t_orders := rows\<rparr>))"

subsection \<open>Stock logs\<close>

definition log_checks :: "log_row \<Rightarrow> bool" where
  "log_checks l \<longleftrightarrow> l_before_quantity l \<ge> 0 \<and> l_after_quantity l \<ge> 0 \<and>
     l_after_quantity l = l_before_quantity l + l_change_quantity l \<and> l_biz_type l \<in> {1, 2, 3, 4}"

definition dao_CreateStockLog :: "log_row \<Rightarrow> db \<Rightarrow> go_error + db" where
  "dao_CreateStockLog l d = (if log_checks l then Inr (d\<lparr>t_logs := t_logs d @ [l]\<rparr>) else Inl ErrDatabase)"

subsection \<open>Idempotency keys\<close>

definition same_key :: "db_env \<Rightarrow> int \<Rightarrow> jsstr \<Rightarrow> key_row \<Rightarrow> bool" where
  "same_key env user key r \<longleftrightarrow> k_user_id r = user \<and> collate env (k_idempotency_key r) = collate env key"

text \<open>\<open>INSERT ... ON CONFLICT DO NOTHING\<close>: whether a row was inserted.\<close>

definition dao_TryCreateOrderIdempotencyKey ::
  "db_env \<Rightarrow> int \<Rightarrow> jsstr \<Rightarrow> jsstr \<Rightarrow> db \<Rightarrow> go_error + bool \<times> db" where
  "dao_TryCreateOrderIdempotencyKey env user key hash d =
     Inr (if \<exists>r \<in> set (t_keys d). same_key env user key r then (False, d)
          else (True, d\<lparr>t_keys := t_keys d @ [\<lparr>k_user_id = user, k_idempotency_key = key, k_request_hash = hash,
                  k_order_id = None, k_status = OrderBeingCreated\<rparr>]\<rparr>))"

definition dao_GetOrderIdempotencyKey :: "db_env \<Rightarrow> int \<Rightarrow> jsstr \<Rightarrow> db \<Rightarrow> go_error + key_row" where
  "dao_GetOrderIdempotencyKey env user key d = first_row (same_key env user key) (t_keys d)"

definition dao_CompleteOrderIdempotencyKey ::
  "db_env \<Rightarrow> int \<Rightarrow> jsstr \<Rightarrow> int \<Rightarrow> db \<Rightarrow> go_error + nat \<times> db" where
  "dao_CompleteOrderIdempotencyKey env user key i d =
     andThen (update_rows (\<lambda>r. same_key env user key r \<and> k_status r = OrderBeingCreated)
         (\<lambda>r. r\<lparr>k_order_id := Some i, k_status := OrderAlreadyCreated\<rparr>) (\<lambda>_. True) (t_keys d))
       (\<lambda>(n, rows). Inr (n, d\<lparr>t_keys := rows\<rparr>))"

subsection \<open>The outbox of timeouts\<close>

definition dao_CreateOrderTimeoutOutbox :: "db_env \<Rightarrow> outbox_row \<Rightarrow> db \<Rightarrow> go_error + db" where
  "dao_CreateOrderTimeoutOutbox env x d =
     (if collate env (x_event_id x) \<notin> (\<lambda>y. collate env (x_event_id y)) ` set (t_outbox d) \<and>
         x_order_id x \<notin> x_order_id ` set (t_outbox d) \<and> x_order_id x \<in> o_id ` set (t_orders d)
      then Inr (d\<lparr>t_outbox := t_outbox d @ [x]\<rparr>) else Inl ErrDatabase)"

definition dao_GetOrderTimeoutOutbox :: "db_env \<Rightarrow> jsstr \<Rightarrow> int \<Rightarrow> db \<Rightarrow> go_error + outbox_row" where
  "dao_GetOrderTimeoutOutbox env event i d =
     first_row (\<lambda>x. collate env (x_event_id x) = collate env event \<and> x_order_id x = i) (t_outbox d)"

end
