(* ===== verification/StockGuard.thy ===== *)
theory StockGuard
  imports Store
begin

section \<open>The stock kept in Redis (internal/bizcache/inventory_stock_guard.go)\<close>

text \<open>
  The guard keeps a copy of the stock of each product and, for an order on its way, a reservation of
  what was taken for it. The keys are built from identifiers, so the store is modelled by two maps on
  them; a reservation is kept with the quantities its JSON text is read back with.

  The scripts compute with doubles, and Redis with 64-bit integers; where a command of a script fails,
  the script ends there and what it wrote before stays. Quantities below \<open>10 ^ 14\<close> go through all of
  it unharmed, which the last part of the theory proves.

  A call to Redis may be answered, may not reach it, or may be executed while its answer is lost; or
  there is no client at all.
\<close>

record create_item =
  ci_product_id :: int
  ci_quantity :: int

record redis =
  r_available :: "int \<Rightarrow> int option"
  r_reservation :: "int \<Rightarrow> create_item list option"

datatype link = Answers | Unreachable | AnswerLost | NoClient

subsection \<open>Numbers of the scripts\<close>

text \<open>
  The double nearest to an integer (\<open>tonumber\<close>); the integer that the text of a double is read as when a
  command gets it as an argument, which is printed with 17 digits and fails with an exponent (later
  versions of Redis print some larger ones as well); and the double that \<open>cjson\<close> reads back after it was
  written with 14 digits.
\<close>

definition tonumber :: "int \<Rightarrow> int" where
  "tonumber n = \<lfloor>round_rat (of_int n)\<rfloor>"

definition lua_argument :: "int \<Rightarrow> int option" where
  "lua_argument x = (if \<bar>x\<bar> < 10 ^ 17 then Some x else None)"

definition cjson_number :: "int \<Rightarrow> int" where
  "cjson_number x =
     (if \<bar>x\<bar> < 10 ^ 14 then x
      else let k = ndig 10 \<bar>x\<bar> - 14 in tonumber (round_half_even (of_int x / 10 ^ k) * 10 ^ k))"

text \<open>\<open>INCRBY\<close>, and \<open>DECRBY\<close> with the negative: a missing key counts as zero, and both the stored value
  and the result have to be 64-bit integers.\<close>

definition redis_incrby :: "int \<Rightarrow> int option \<Rightarrow> (int \<Rightarrow> int option) \<Rightarrow> (int \<Rightarrow> int option) option" where
  "redis_incrby p n avail =
     (case n of None \<Rightarrow> None
      | Some n \<Rightarrow> let q = (case avail p of None \<Rightarrow> 0 | Some q \<Rightarrow> q)
                  in if int64 q \<and> int64 (q + n) then Some (avail(p \<mapsto> q + n)) else None)"

subsection \<open>The scripts\<close>

text \<open>The first loop of the pre-deduction: \<open>0\<close> when a key is missing, \<open>-1\<close> when the stock is short.\<close>

fun check_available :: "(int \<Rightarrow> int option) \<Rightarrow> create_item list \<Rightarrow> int" where
  "check_available avail [] = 1"
| "check_available avail (i # is) =
     (case avail (ci_product_id i) of None \<Rightarrow> 0
      | Some current \<Rightarrow>
          if tonumber current < tonumber (ci_quantity i) then -1 else check_available avail is)"

text \<open>The second loop, and the loop of the release; the flag says that no command failed.\<close>

fun take_off :: "create_item list \<Rightarrow> (int \<Rightarrow> int option) \<Rightarrow> bool \<times> (int \<Rightarrow> int option)" where
  "take_off [] avail = (True, avail)"
| "take_off (i # is) avail =
     (case redis_incrby (ci_product_id i) (map_option uminus (lua_argument (tonumber (ci_quantity i)))) avail of
        None \<Rightarrow> (False, avail) | Some avail' \<Rightarrow> take_off is avail')"

fun put_back :: "create_item list \<Rightarrow> (int \<Rightarrow> int option) \<Rightarrow> bool \<times> (int \<Rightarrow> int option)" where
  "put_back [] avail = (True, avail)"
| "put_back (i # is) avail =
     (if avail (ci_product_id i) = None then put_back is avail
      else case redis_incrby (ci_product_id i) (lua_argument (ci_quantity i)) avail of
        None \<Rightarrow> (False, avail) | Some avail' \<Rightarrow> put_back is avail')"

text \<open>The reservation, as \<open>cjson\<close> reads back what it wrote.\<close>

definition reservation_of :: "create_item list \<Rightarrow> create_item list" where
  "reservation_of items = map (\<lambda>i. i\<lparr>ci_quantity := cjson_number (tonumber (ci_quantity i))\<rparr>) items"

text \<open>A script answers with an integer, or with the error of the command that failed.\<close>

definition preDeductInventoryScript :: "int \<Rightarrow> create_item list \<Rightarrow> redis \<Rightarrow> int option \<times> redis" where
  "preDeductInventoryScript order items r =
     (if r_reservation r order \<noteq> None then (Some 1, r)
      else let c = check_available (r_available r) items
           in if c \<noteq> 1 then (Some c, r)
              else let (ok, avail) = take_off items (r_available r)
                   in if \<not> ok then (None, r\<lparr>r_available := avail\<rparr>)
                      else (Some 1, r\<lparr>r_available := avail,
                              r_reservation := (r_reservation r)(order \<mapsto> reservation_of items)\<rparr>))"

definition releaseInventoryReservationScript :: "int \<Rightarrow> redis \<Rightarrow> int option \<times> redis" where
  "releaseInventoryReservationScript order r =
     (case r_reservation r order of None \<Rightarrow> (Some 0, r)
      | Some items \<Rightarrow>
          let (ok, avail) = put_back items (r_available r)
          in if \<not> ok then (None, r\<lparr>r_available := avail\<rparr>)
             else (Some 1, r\<lparr>r_available := avail, r_reservation := (r_reservation r)(order := None)\<rparr>))"

text \<open>Here the arguments are texts that the script hands on as they are; what it answers is not used.\<close>

definition incrInventoryStockScript :: "int \<Rightarrow> int \<Rightarrow> int \<Rightarrow> redis \<Rightarrow> redis" where
  "incrInventoryStockScript product delta fallback r =
     (if r_available r product \<noteq> None
      then (case redis_incrby product (Some delta) (r_available r) of
              None \<Rightarrow> r | Some avail \<Rightarrow> r\<lparr>r_available := avail\<rparr>)
      else r\<lparr>r_available := (r_available r)(product \<mapsto> fallback)\<rparr>)"

subsection \<open>The guard\<close>

text \<open>What is left in Redis after a call, by whether it reached it.\<close>

definition over :: "link \<Rightarrow> (redis \<Rightarrow> redis) \<Rightarrow> redis \<Rightarrow> redis" where
  "over l f r = (if l = Unreachable \<or> l = NoClient then r else f r)"

text \<open>The two answers are \<open>applied\<close> and \<open>insufficient\<close>.\<close>

definition PreDeductInventory :: "link \<Rightarrow> int \<Rightarrow> create_item list \<Rightarrow> redis \<Rightarrow> (bool \<times> bool) \<times> redis" where
  "PreDeductInventory l order items r =
     (if l = NoClient \<or> order \<le> 0 \<or> items = [] then ((False, False), r)
      else let (result, r') = preDeductInventoryScript order items r
           in if l \<noteq> Answers then ((False, False), over l (\<lambda>_. r') r)
              else if result = Some 1 then ((True, False), r')
              else if result = Some (-1) then ((False, True), r')
              else ((False, False), r'))"

definition releaseReservation :: "link \<Rightarrow> int \<Rightarrow> redis \<Rightarrow> redis" where
  "releaseReservation l order r =
     (if order \<le> 0 then r else over l (\<lambda>r. snd (releaseInventoryReservationScript order r)) r)"

definition ReleasePreDeductedInventory :: "link \<Rightarrow> int \<Rightarrow> redis \<Rightarrow> redis" where
  "ReleasePreDeductedInventory = releaseReservation"

definition RestorePreDeductedInventory :: "link \<Rightarrow> int \<Rightarrow> redis \<Rightarrow> redis" where
  "RestorePreDeductedInventory = releaseReservation"

definition ConfirmPreDeductedInventory :: "link \<Rightarrow> int \<Rightarrow> redis \<Rightarrow> redis" where
  "ConfirmPreDeductedInventory l order r =
     (if order \<le> 0 then r else over l (\<lambda>r. r\<lparr>r_reservation := (r_reservation r)(order := None)\<rparr>) r)"

definition guard_SetInventoryStock :: "link \<Rightarrow> int \<Rightarrow> int \<Rightarrow> redis \<Rightarrow> redis" where
  "guard_SetInventoryStock l product quantity r =
     (if product \<le> 0 \<or> quantity < 0 then r
      else over l (\<lambda>r. r\<lparr>r_available := (r_available r)(product \<mapsto> quantity)\<rparr>) r)"

definition guard_IncrInventoryStock :: "link \<Rightarrow> int \<Rightarrow> int \<Rightarrow> int \<Rightarrow> redis \<Rightarrow> redis" where
  "guard_IncrInventoryStock l product delta fallback r =
     (if product \<le> 0 \<or> delta \<le> 0 \<or> fallback < 0 then r
      else over l (incrInventoryStockScript product delta fallback) r)"

text \<open>The commands of the rebuild travel in one pipeline; the count is of the rows written.\<close>

definition RebuildInventoryStocks :: "link \<Rightarrow> inventory_row list \<Rightarrow> redis \<Rightarrow> nat option \<times> redis" where
  "RebuildInventoryStocks l inventories r =
     (let rows = filter (\<lambda>i. 0 < i_product_id i \<and> 0 \<le> i_stock_quantity i) inventories
      in if l = NoClient then (None, r)
         else if rows = [] then (Some 0, r)
         else (if l = Answers then Some (length rows) else None,
               over l (\<lambda>r. r\<lparr>r_available :=
                  foldl (\<lambda>a i. a(i_product_id i \<mapsto> i_stock_quantity i)) (r_available r) rows\<rparr>) r))"

definition GetInventoryStocks :: "link \<Rightarrow> int list \<Rightarrow> redis \<Rightarrow> (int \<times> int option) list option" where
  "GetInventoryStocks l ids r =
     (let valid = filter (\<lambda>p. 0 < p) ids
      in if l = NoClient then None
         else if valid = [] then Some []
         else if l = Answers then Some (map (\<lambda>p. (p, r_available r p)) valid) else None)"

subsection \<open>What the scripts do to a stock\<close>

text \<open>The quantity a list of items asks of a product.\<close>

definition asked :: "create_item list \<Rightarrow> int \<Rightarrow> int" where
  "asked items p = sum_list (map ci_quantity (filter (\<lambda>i. ci_product_id i = p) items))"

lemma asked_simps [simp]:
  "asked [] p = 0"
  "asked (i # is) p = (if ci_product_id i = p then ci_quantity i else 0) + asked is p"
  by (simp_all add: asked_def)

text \<open>
  Quantities the scripts compute with exactly, and stocks as Redis holds them.
\<close>

definition exact_items :: "create_item list \<Rightarrow> bool" where
  "exact_items items \<longleftrightarrow> (\<forall>i \<in> set items. 0 \<le> ci_quantity i \<and> ci_quantity i < 10 ^ 14)"

definition redis_integers :: "redis \<Rightarrow> bool" where
  "redis_integers r \<longleftrightarrow> (\<forall>p q. r_available r p = Some q \<longrightarrow> int64 q)"

lemma exact_items_simps [simp]:
  "exact_items []"
  "exact_items (i # is) \<longleftrightarrow> 0 \<le> ci_quantity i \<and> ci_quantity i < 10 ^ 14 \<and> exact_items is"
  by (auto simp: exact_items_def)

lemma exact_items_set: "set xs = set ys \<Longrightarrow> exact_items xs = exact_items ys"
  by (simp add: exact_items_def)

lemma tonumber_exact: "\<bar>n\<bar> \<le> 2 ^ 53 \<Longrightarrow> tonumber n = n"
  by (simp add: tonumber_def round_rat_int)

lemma tonumber_less:
  assumes "\<bar>n\<bar> < 2 ^ 53" shows "tonumber q < tonumber n \<longleftrightarrow> q < n"
proof (cases "q < n")
  case True
  then have "(of_int q :: rat) \<le> of_int (n - 1)" by (simp only: of_int_le_iff)
  then have "round_rat (of_int q) \<le> of_int (n - 1)" using assms by (intro round_rat_le) auto
  then have "tonumber q \<le> n - 1" unfolding tonumber_def by (metis floor_mono floor_of_int)
  then show ?thesis using True assms by (simp add: tonumber_exact)
next
  case False
  then have "n \<le> tonumber q"
    unfolding tonumber_def using round_rat_ge[of n "of_int q"] assms by (simp add: le_floor_iff)
  then show ?thesis using False assms by (simp add: tonumber_exact)
qed

lemma exact_number:
  assumes "0 \<le> n" "n < 10 ^ 14"
  shows "tonumber n = n" "lua_argument n = Some n" "cjson_number n = n" "tonumber q < n \<longleftrightarrow> q < n"
  using assms tonumber_exact[of n] tonumber_less[of n q] by (simp_all add: lua_argument_def cjson_number_def)

lemma check_available_exact:
  "exact_items items \<Longrightarrow> check_available avail items =
     (case find (\<lambda>i. case avail (ci_product_id i) of None \<Rightarrow> True | Some q \<Rightarrow> q < ci_quantity i) items of
        None \<Rightarrow> 1 | Some i \<Rightarrow> if avail (ci_product_id i) = None then 0 else -1)"
  by (induction items) (auto simp: exact_number split: option.splits)

lemma reservation_of_exact: "exact_items items \<Longrightarrow> reservation_of items = items"
  by (induction items) (simp_all add: reservation_of_def exact_number)

lemma asked_nonneg: "exact_items items \<Longrightarrow> 0 \<le> asked items p"
  by (induction items) auto

lemma asked_at_least: "exact_items items \<Longrightarrow> i \<in> set items \<Longrightarrow> ci_quantity i \<le> asked items (ci_product_id i)"
proof (induction items)
  case (Cons j items)
  then show ?case using asked_nonneg[of items "ci_product_id i"] by (cases "i = j") fastforce+
qed simp

lemma asked_single:
  "distinct (map ci_product_id items) \<Longrightarrow> i \<in> set items \<Longrightarrow> asked items (ci_product_id i) = ci_quantity i"
proof (induction items)
  case (Cons j items)
  moreover have "asked items p = 0" if "p \<notin> ci_product_id ` set items" for p
    using that by (induction items) auto
  ultimately show ?case by auto
qed simp

text \<open>What is taken or put back is what was asked, as long as the stock stays within 64 bits.\<close>

lemma take_off_exact:
  assumes "exact_items items"
    and "\<And>i. i \<in> set items \<Longrightarrow> \<exists>q. avail (ci_product_id i) = Some q \<and> int64 q \<and> asked items (ci_product_id i) \<le> q"
  shows "take_off items avail = (True, \<lambda>p. map_option (\<lambda>q. q - asked items p) (avail p))"
  using assms
proof (induction items arbitrary: avail)
  case (Cons i "is")
  obtain q where q: "avail (ci_product_id i) = Some q" "int64 q" "asked (i # is) (ci_product_id i) \<le> q"
    using Cons.prems(2)[of i] by auto
  have pos: "0 \<le> ci_quantity i" "ci_quantity i < 10 ^ 14" and ex: "exact_items is" using Cons.prems(1) by simp_all
  have rest: "ci_quantity i + asked is (ci_product_id i) \<le> q" using q(3) by simp
  then have le: "ci_quantity i \<le> q" using asked_nonneg[OF ex, of "ci_product_id i"] by linarith
  then have i64: "int64 (q - ci_quantity i)" using q(2) pos by (auto simp: int64_def)
  have step: "redis_incrby (ci_product_id i) (map_option uminus (lua_argument (tonumber (ci_quantity i)))) avail =
      Some (avail(ci_product_id i \<mapsto> q - ci_quantity i))"
    using q i64 pos by (simp add: redis_incrby_def exact_number)
  have "take_off is (avail(ci_product_id i \<mapsto> q - ci_quantity i)) =
      (True, \<lambda>p. map_option (\<lambda>x. x - asked is p) ((avail(ci_product_id i \<mapsto> q - ci_quantity i)) p))"
  proof (rule Cons.IH[OF ex])
    fix j assume "j \<in> set is"
    then show "\<exists>x. (avail(ci_product_id i \<mapsto> q - ci_quantity i)) (ci_product_id j) = Some x \<and> int64 x \<and> asked is (ci_product_id j) \<le> x"
      using Cons.prems(2)[of j] i64 rest by (cases "ci_product_id j = ci_product_id i") auto
  qed
  then show ?case using q by (auto simp: step fun_eq_iff)
qed (simp add: option.map_ident)

lemma put_back_exact:
  assumes "exact_items items"
    and "\<And>i q. i \<in> set items \<Longrightarrow> avail (ci_product_id i) = Some q \<Longrightarrow> int64 q \<and> int64 (q + asked items (ci_product_id i))"
  shows "put_back items avail = (True, \<lambda>p. map_option (\<lambda>q. q + asked items p) (avail p))"
  using assms
proof (induction items arbitrary: avail)
  case (Cons i "is")
  have pos: "0 \<le> ci_quantity i" "ci_quantity i < 10 ^ 14" and ex: "exact_items is" using Cons.prems(1) by simp_all
  show ?case
  proof (cases "avail (ci_product_id i)")
    case None
    have "put_back is avail = (True, \<lambda>p. map_option (\<lambda>x. x + asked is p) (avail p))"
    proof (rule Cons.IH[OF ex])
      fix j q assume "j \<in> set is" "avail (ci_product_id j) = Some q"
      then show "int64 q \<and> int64 (q + asked is (ci_product_id j))"
        using Cons.prems(2)[of j q] None by (cases "ci_product_id i = ci_product_id j") auto
    qed
    then show ?thesis using None by (auto simp: fun_eq_iff)
  next
    case (Some q)
    have q: "int64 q" "int64 (q + (ci_quantity i + asked is (ci_product_id i)))" using Cons.prems(2)[of i q] Some by simp_all
    then have i64: "int64 (q + ci_quantity i)"
      using pos asked_nonneg[OF ex, of "ci_product_id i"] unfolding int64_def by linarith
    have step: "redis_incrby (ci_product_id i) (lua_argument (ci_quantity i)) avail = Some (avail(ci_product_id i \<mapsto> q + ci_quantity i))"
      using q i64 pos Some by (simp add: redis_incrby_def exact_number)
    have "put_back is (avail(ci_product_id i \<mapsto> q + ci_quantity i)) =
        (True, \<lambda>p. map_option (\<lambda>x. x + asked is p) ((avail(ci_product_id i \<mapsto> q + ci_quantity i)) p))"
    proof (rule Cons.IH[OF ex])
      fix j x assume "j \<in> set is" "(avail(ci_product_id i \<mapsto> q + ci_quantity i)) (ci_product_id j) = Some x"
      then show "int64 x \<and> int64 (x + asked is (ci_product_id j))"
        using Cons.prems(2)[of j x] i64 q by (cases "ci_product_id j = ci_product_id i") (auto simp: algebra_simps)
    qed
    then show ?thesis using Some by (auto simp: step fun_eq_iff)
  qed
qed (simp add: option.map_ident)

text \<open>A check that passes leaves enough of everything, if no product is asked for twice.\<close>

lemma check_available_enough:
  assumes "check_available avail items = 1" "exact_items items" "distinct (map ci_product_id items)" "i \<in> set items"
  shows "\<exists>q. avail (ci_product_id i) = Some q \<and> asked items (ci_product_id i) \<le> q"
  using assms(1,2,4) unfolding asked_single[OF assms(3,4)]
  by (auto simp: check_available_exact find_None_iff split: option.splits if_splits)

lemma pre_deduct_exact:
  assumes "r_reservation r order = None" "check_available (r_available r) items = 1" "exact_items items"
    and "distinct (map ci_product_id items)" "redis_integers r"
  shows "preDeductInventoryScript order items r =
    (Some 1, \<lparr>r_available = \<lambda>p. map_option (\<lambda>q. q - asked items p) (r_available r p),
       r_reservation = (r_reservation r)(order \<mapsto> items)\<rparr>)"
proof -
  have "take_off items (r_available r) = (True, \<lambda>p. map_option (\<lambda>q. q - asked items p) (r_available r p))"
    using check_available_enough[OF assms(2-4)] assms(5)
    by (intro take_off_exact[OF assms(3)]) (fastforce simp: redis_integers_def)
  then show ?thesis
    using assms(1-3) by (simp add: preDeductInventoryScript_def reservation_of_exact)
qed

lemma release_exact:
  assumes "r_reservation r order = Some items" "exact_items items"
    and "\<And>i q. i \<in> set items \<Longrightarrow> r_available r (ci_product_id i) = Some q \<Longrightarrow>
      int64 q \<and> int64 (q + asked items (ci_product_id i))"
  shows "releaseInventoryReservationScript order r =
    (Some 1, \<lparr>r_available = \<lambda>p. map_option (\<lambda>q. q + asked items p) (r_available r p),
       r_reservation = (r_reservation r)(order := None)\<rparr>)"
  using put_back_exact[OF assms(2), of "r_available r"] assms(1,3) by (simp add: releaseInventoryReservationScript_def)

text \<open>What is pre-deducted and released again leaves the store as it was.\<close>

lemma release_after_pre_deduct:
  assumes "r_reservation r order = None" "check_available (r_available r) items = 1" "exact_items items"
    and "distinct (map ci_product_id items)" "redis_integers r"
  shows "snd (releaseInventoryReservationScript order (snd (preDeductInventoryScript order items r))) = r"
proof -
  note pd = pre_deduct_exact[OF assms]
  let ?r = "\<lparr>r_available = \<lambda>p. map_option (\<lambda>q. q - asked items p) (r_available r p),
       r_reservation = (r_reservation r)(order \<mapsto> items)\<rparr>"
  have "releaseInventoryReservationScript order ?r =
    (Some 1, \<lparr>r_available = \<lambda>p. map_option (\<lambda>q. q + asked items p) (r_available ?r p),
       r_reservation = (r_reservation ?r)(order := None)\<rparr>)"
  proof (rule release_exact[OF _ assms(3)])
    fix i x assume "i \<in> set items" "r_available ?r (ci_product_id i) = Some x"
    moreover from this obtain q where "r_available r (ci_product_id i) = Some q" "asked items (ci_product_id i) \<le> q" "x = q - asked items (ci_product_id i)"
      using check_available_enough[OF assms(2-4), of i] by auto
    ultimately show "int64 x \<and> int64 (x + asked items (ci_product_id i))"
      using assms(5) asked_nonneg[OF assms(3), of "ci_product_id i"] unfolding redis_integers_def int64_def by force
  qed simp
  then show ?thesis
    using assms(1) unfolding pd by (simp add: option.map_comp comp_def option.map_ident fun_upd_idem)
qed

text \<open>Every call of the guard, given 64-bit numbers, leaves 64-bit integers.\<close>

lemma incrby_integers:
  "redis_incrby p n avail = Some avail' \<Longrightarrow> \<forall>p q. avail p = Some q \<longrightarrow> int64 q \<Longrightarrow> \<forall>p q. avail' p = Some q \<longrightarrow> int64 q"
  by (auto simp: redis_incrby_def Let_def split: option.splits if_splits)

lemma take_off_integers:
  "\<forall>p q. avail p = Some q \<longrightarrow> int64 q \<Longrightarrow> \<forall>p q. snd (take_off items avail) p = Some q \<longrightarrow> int64 q"
proof (induction items arbitrary: avail)
  case (Cons i "is")
  show ?case
  proof (cases "redis_incrby (ci_product_id i) (map_option uminus (lua_argument (tonumber (ci_quantity i)))) avail")
    case (Some avail')
    then show ?thesis using Cons.IH[OF incrby_integers[OF Some Cons.prems]] by simp
  qed (use Cons.prems in simp)
qed simp

lemma put_back_integers:
  "\<forall>p q. avail p = Some q \<longrightarrow> int64 q \<Longrightarrow> \<forall>p q. snd (put_back items avail) p = Some q \<longrightarrow> int64 q"
proof (induction items arbitrary: avail)
  case (Cons i "is")
  show ?case
  proof (cases "redis_incrby (ci_product_id i) (lua_argument (ci_quantity i)) avail")
    case (Some avail')
    then show ?thesis using Cons.IH[OF incrby_integers[OF Some Cons.prems]] Cons.IH[OF Cons.prems] by simp
  qed (use Cons.prems Cons.IH[OF Cons.prems] in simp)
qed simp

lemma scripts_integers:
  assumes "redis_integers r"
  shows "redis_integers (snd (preDeductInventoryScript order items r))"
    and "redis_integers (snd (releaseInventoryReservationScript order r))"
    and "int64 fallback \<Longrightarrow> redis_integers (incrInventoryStockScript product delta fallback r)"
proof -
  have r: "\<forall>p q. r_available r p = Some q \<longrightarrow> int64 q" using assms by (simp add: redis_integers_def)
  show "redis_integers (snd (preDeductInventoryScript order items r))"
    using take_off_integers[OF r, of items] r
    by (auto simp: preDeductInventoryScript_def redis_integers_def Let_def split: prod.split)
  show "redis_integers (snd (releaseInventoryReservationScript order r))"
    using put_back_integers[OF r] r
    by (auto simp: releaseInventoryReservationScript_def redis_integers_def Let_def split: option.split prod.split)
      (metis snd_conv)+
  show "redis_integers (incrInventoryStockScript product delta fallback r)" if "int64 fallback"
    using incrby_integers[OF _ r] r that
    by (auto simp: incrInventoryStockScript_def redis_integers_def split: option.split)
qed

lemma guard_integers:
  assumes "redis_integers r"
  shows "redis_integers (snd (PreDeductInventory l order items r))"
    and "redis_integers (releaseReservation l order r)"
    and "redis_integers (ConfirmPreDeductedInventory l order r)"
    and "int64 quantity \<Longrightarrow> redis_integers (guard_SetInventoryStock l product quantity r)"
    and "int64 fallback \<Longrightarrow> redis_integers (guard_IncrInventoryStock l product delta fallback r)"
  using assms scripts_integers[OF assms] scripts_integers(1)[OF assms, of order items]
  by (simp_all add: PreDeductInventory_def releaseReservation_def ConfirmPreDeductedInventory_def
      guard_SetInventoryStock_def guard_IncrInventoryStock_def over_def case_prod_unfold Let_def)
    (simp_all add: redis_integers_def)

text \<open>
  Beyond the bound it is not so: of 123456789012345 pieces that are taken, the release puts 123456789012340
  back, and of \<open>10 ^ 17\<close> pieces none is taken because the command fails.
\<close>

lemma scripts_round:
  defines "r \<equiv> \<lparr>r_available = [1 \<mapsto> 2 * 10 ^ 17], r_reservation = \<lambda>_. None\<rparr>"
  shows "r_available (snd (releaseInventoryReservationScript 7 (snd (preDeductInventoryScript 7
      [\<lparr>ci_product_id = 1, ci_quantity = 123456789012345\<rparr>] r)))) 1 = Some (2 * 10 ^ 17 - 5)"
    and "preDeductInventoryScript 7 [\<lparr>ci_product_id = 1, ci_quantity = 10 ^ 17\<rparr>] r = (None, r)"
proof -
  have n: "tonumber 123456789012345 = 123456789012345" "tonumber (2 * 10 ^ 17) = 2 * 10 ^ 17" "tonumber (10 ^ 17) = 10 ^ 17"
    "cjson_number 123456789012345 = 123456789012340" by code_simp+
  show "r_available (snd (releaseInventoryReservationScript 7 (snd (preDeductInventoryScript 7
      [\<lparr>ci_product_id = 1, ci_quantity = 123456789012345\<rparr>] r)))) 1 = Some (2 * 10 ^ 17 - 5)"
    using n by (simp add: r_def preDeductInventoryScript_def releaseInventoryReservationScript_def reservation_of_def
        redis_incrby_def lua_argument_def int64_def)
  show "preDeductInventoryScript 7 [\<lparr>ci_product_id = 1, ci_quantity = 10 ^ 17\<rparr>] r = (None, r)"
    using n by (simp add: r_def preDeductInventoryScript_def redis_incrby_def lua_argument_def)
qed

end
