(* ===== verification/OrderService.thy ===== *)
theory OrderService
  imports StockGuard
begin

section \<open>Placing, paying, finishing and cancelling orders (internal/service/order_service.go)\<close>

text \<open>
  A method of the service is a function on the state of the backend: the tables, the store of the
  guard and the metrics recorded so far. What a call is given from outside (the identifier and the
  texts generated for it, the clock, whether the database and Redis serve it) is its \<open>surroundings\<close>.
  A transaction is one step, since it keeps the rows it changes locked until it commits; \<open>PayOrder\<close>
  and \<open>FinishOrder\<close> read the order before, so they take the tables at that time as well.
\<close>

record create_request =
  co_idempotency_key :: jsstr
  co_items :: "create_item list"

datatype metric = OrderCreate string | OrderTransition string string

record backend =
  bk_db :: db
  bk_redis :: redis
  bk_metrics :: "metric list"

record surroundings =
  c_order_id :: int
  c_uuid :: jsstr
  c_event_id :: jsstr
  c_now :: int
  c_later :: int
  c_served :: bool
  c_link :: link
  c_link_after :: link
  c_order_timeout :: int

subsection \<open>The metrics\<close>

definition classifyOrderCreateError :: "go_error \<Rightarrow> string" where
  "classifyOrderCreateError err =
     (if err = ErrInsufficientStock then ''insufficient_stock''
      else if err = ErrOrderIdempotencyConflict then ''idempotency_conflict''
      else if err = ErrOrderBeingCreated then ''idempotency_in_progress''
      else if err = ErrProductNotFound then ''product_not_found''
      else if err = ErrProductOffSale then ''product_off_sale''
      else if err = ErrInventoryNotFound then ''inventory_not_found''
      else if err = ErrDuplicateOrderItem then ''duplicate_item''
      else if err = ErrInvalidIdempotencyKey then ''invalid_idempotency_key''
      else if err = ErrInvalidUserID then ''invalid_user''
      else ''error'')"

definition classifyOrderTransitionError :: "go_error + 'a \<Rightarrow> string" where
  "classifyOrderTransitionError res =
     (case res of Inr _ \<Rightarrow> ''success''
      | Inl err \<Rightarrow>
          if err = ErrOrderNotFound then ''order_not_found''
          else if err = ErrOrderAlreadyPaid then ''already_paid''
          else if err = ErrOrderAlreadyFinished then ''already_finished''
          else if err = ErrOrderAlreadyCanceled then ''already_cancelled''
          else if err = ErrOrderNotPaid then ''not_paid''
          else if err \<in> {ErrOrderPayFailed, ErrOrderCancelFailed, ErrOrderFinishFailed} then ''state_conflict''
          else ''error'')"

definition recordOrderCreate :: "string \<Rightarrow> backend \<Rightarrow> backend" where
  "recordOrderCreate result b = b\<lparr>bk_metrics := bk_metrics b @ [OrderCreate result]\<rparr>"

definition recordOrderTransition :: "string \<Rightarrow> string \<Rightarrow> backend \<Rightarrow> backend" where
  "recordOrderTransition action result b = b\<lparr>bk_metrics := bk_metrics b @ [OrderTransition action result]\<rparr>"

subsection \<open>The request: duplicates, order of the items, hash\<close>

fun validateDuplicateItems_from :: "int list \<Rightarrow> create_item list \<Rightarrow> go_error + unit" where
  "validateDuplicateItems_from seen [] = Inr ()"
| "validateDuplicateItems_from seen (i # is) =
     (if ci_product_id i \<in> set seen then Inl ErrDuplicateOrderItem
      else validateDuplicateItems_from (ci_product_id i # seen) is)"

definition validateDuplicateItems :: "create_item list \<Rightarrow> go_error + unit" where
  "validateDuplicateItems items = validateDuplicateItems_from [] items"

definition sortedOrderItems :: "create_item list \<Rightarrow> create_item list" where
  "sortedOrderItems items = sort_key ci_product_id (sort_key ci_quantity items)"

text \<open>\<open>json.Marshal\<close> of the payload: its version and its items, the fields in the order of the struct.\<close>

definition int_text :: "int \<Rightarrow> jsstr" where
  "int_text n = (if n < 0 then js ''-'' @ dec (- n) else dec n)"

definition marshal_item :: "create_item \<Rightarrow> jsstr" where
  "marshal_item i = js ''{'' @ 0x22 # js ''product_id'' @ 0x22 # js '':'' @ int_text (ci_product_id i) @
     js '','' @ 0x22 # js ''quantity'' @ 0x22 # js '':'' @ int_text (ci_quantity i) @ js ''}''"

definition marshal_payload :: "create_item list \<Rightarrow> jsstr" where
  "marshal_payload items = js ''{'' @ 0x22 # js ''version'' @ 0x22 # js '':1,'' @ 0x22 # js ''items'' @ 0x22 # js '':'' @
     (if items = [] then js ''null'' else js ''['' @ join (js '','') (map marshal_item items) @ js '']'') @ js ''}''"

definition buildCreateOrderRequestHash :: "db_env \<Rightarrow> create_request \<Rightarrow> jsstr" where
  "buildCreateOrderRequestHash env req = sha256_hex env (marshal_payload (sortedOrderItems (co_items req)))"

subsection \<open>CreateOrder\<close>

definition orderNoPrefix :: jsstr where "orderNoPrefix = js ''ORD''"

definition generateOrderNo :: "surroundings \<Rightarrow> jsstr" where
  "generateOrderNo c = orderNoPrefix @ c_uuid c"

definition deduct_remark :: jsstr where  \<comment> \<open>stock taken by a new order, with a colon\<close>
  "deduct_remark = [0x521B, 0x5EFA, 0x8BA2, 0x5355, 0x6263, 0x51CF, 0x5E93, 0x5B58, 0xFF1A]"

text \<open>What a key that is already in the table answers.\<close>

definition replay_order :: "db_env \<Rightarrow> int \<Rightarrow> jsstr \<Rightarrow> jsstr \<Rightarrow> db \<Rightarrow> go_error + orders_row" where
  "replay_order env user key hash d =
     andThen (onNotFound ErrOrderBeingCreated (dao_GetOrderIdempotencyKey env user key d)) (\<lambda>record.
       if k_request_hash record \<noteq> hash then Inl ErrOrderIdempotencyConflict
       else if k_status record = OrderAlreadyCreated
       then (case k_order_id record of None \<Rightarrow> Inl ErrOrderIdempotencyStateInvalid
             | Some i \<Rightarrow> if i \<le> 0 then Inl ErrOrderIdempotencyStateInvalid
                         else onNotFound ErrOrderIdempotencyStateInvalid (dao_GetOrderByID user i d))
       else if k_status record = OrderBeingCreated then Inl ErrOrderBeingCreated
       else Inl ErrOrderIdempotencyStateInvalid)"

fun find_products :: "create_item list \<Rightarrow> db \<Rightarrow> go_error + (int \<Rightarrow> products_row option)" where
  "find_products [] d = Inr (\<lambda>_. None)"
| "find_products (i # is) d =
     andThen (onNotFound ErrProductNotFound (dao_GetProductByID (ci_product_id i) d)) (\<lambda>product.
       if p_status product \<noteq> ProductStatusOnSale then Inl ErrProductOffSale
       else andThen (find_products is d) (\<lambda>products. Inr (products(ci_product_id i \<mapsto> product))))"

definition totalAmountFen :: "(int \<Rightarrow> products_row option) \<Rightarrow> create_item list \<Rightarrow> int" where
  "totalAmountFen products items =
     foldl (\<lambda>t i. wrap64 (t + wrap64 (p_price_fen (the (products (ci_product_id i))) * ci_quantity i))) 0 items"

text \<open>One pass of the loop over the items: the reservation, the item of the order, the log.\<close>

definition place_item :: "orders_row \<Rightarrow> (int \<Rightarrow> products_row option) \<Rightarrow> create_item \<Rightarrow> db \<Rightarrow> go_error + db" where
  "place_item order products i d =
     (let product = the (products (ci_product_id i)) in
      andThen (onNotFound ErrInventoryNotFound (dao_GetInventoryByProductIDForUpdate (ci_product_id i) d)) (\<lambda>iv.
      let beforeQuantity = i_stock_quantity iv; afterQuantity = wrap64 (beforeQuantity - ci_quantity i) in
      if afterQuantity < 0 then Inl ErrInsufficientStock
      else andThen (case dao_ReserveInventory (ci_product_id i) (ci_quantity i) d of
             Inl e \<Rightarrow> Inl (if e = ErrReserveInventoryFailed then ErrInsufficientStock else e) | Inr d' \<Rightarrow> Inr d') (\<lambda>d.
      andThen (dao_CreateOrderItem \<lparr>it_id = 0, it_order_id = o_id order, it_product_id = p_id product,
             it_product_name = p_name product, it_product_price_fen = p_price_fen product,
             it_quantity = ci_quantity i, it_subtotal_fen = wrap64 (p_price_fen product * ci_quantity i)\<rparr> d) (\<lambda>d.
      onError ErrCreateStockLogFailed (dao_CreateStockLog \<lparr>l_product_id = p_id product,
             l_change_quantity = wrap64 (- ci_quantity i), l_before_quantity = beforeQuantity,
             l_after_quantity = afterQuantity, l_biz_type = StockBizOrderDeduct, l_biz_id = Some (o_id order),
             l_remark = deduct_remark @ o_order_no order\<rparr> d)))))"

fun place_items :: "orders_row \<Rightarrow> (int \<Rightarrow> products_row option) \<Rightarrow> create_item list \<Rightarrow> db \<Rightarrow> go_error + db" where
  "place_items order products [] d = Inr d"
| "place_items order products (i # is) d =
     andThen (place_item order products i d) (\<lambda>d. place_items order products is d)"

text \<open>The new order of a key that was not in the table, and the whole transaction; the flag says that the
  order is an earlier one.\<close>

definition new_order ::
  "db_env \<Rightarrow> surroundings \<Rightarrow> int \<Rightarrow> jsstr \<Rightarrow> create_item list \<Rightarrow> db \<Rightarrow> go_error + orders_row \<times> db" where
  "new_order env c user key items d =
     andThen (find_products items d) (\<lambda>products.
     let order = \<lparr>o_id = c_order_id c, o_user_id = user, o_order_no = generateOrderNo c,
           o_total_amount_fen = totalAmountFen products items, o_status = OrderStatusPending, o_paid_at = None,
           o_completed_at = None, o_cancelled_at = None, o_created_at = c_now c\<rparr> in
     andThen (dao_CreateOrder env order d) (\<lambda>d.
     andThen (place_items order products items d) (\<lambda>d.
     andThen (onError ErrOrderIdempotencyStateInvalid
         (dao_CompleteOrderIdempotencyKey env user key (o_id order) d)) (\<lambda>(rowsAffected, d).
     if rowsAffected \<noteq> 1 then Inl ErrOrderIdempotencyStateInvalid
     else andThen (dao_CreateOrderTimeoutOutbox env \<lparr>x_event_id = c_event_id c, x_order_id = o_id order,
             x_user_id = user, x_timeout_at = o_created_at order + c_order_timeout c,
             x_next_attempt_at = c_later c\<rparr> d) (\<lambda>d.
     Inr (order, d))))))"

definition create_transaction ::
  "db_env \<Rightarrow> surroundings \<Rightarrow> int \<Rightarrow> jsstr \<Rightarrow> jsstr \<Rightarrow> create_item list \<Rightarrow> db \<Rightarrow> go_error + (orders_row \<times> bool) \<times> db" where
  "create_transaction env c user key hash items d =
     andThen (dao_TryCreateOrderIdempotencyKey env user key hash d) (\<lambda>(acquired, d).
     if \<not> acquired then andThen (replay_order env user key hash d) (\<lambda>order. Inr ((order, True), d))
     else andThen (new_order env c user key items d) (\<lambda>(order, d). Inr ((order, False), d)))"

definition release_if :: "bool \<Rightarrow> surroundings \<Rightarrow> redis \<Rightarrow> redis" where
  "release_if applied c r = (if applied then ReleasePreDeductedInventory (c_link_after c) (c_order_id c) r else r)"

definition CreateOrder ::
  "db_env \<Rightarrow> surroundings \<Rightarrow> int \<Rightarrow> create_request \<Rightarrow> backend \<Rightarrow> (go_error + orders_row) \<times> backend" where
  "CreateOrder env c user req b =
     (if user \<le> 0 then (Inl ErrInvalidUserID, b)
      else if go_trim (co_idempotency_key req) = [] \<or> go_len (co_idempotency_key req) > 128
      then (Inl ErrInvalidIdempotencyKey, b)
      else case validateDuplicateItems (co_items req) of Inl e \<Rightarrow> (Inl e, b) | Inr _ \<Rightarrow>
      let hash = buildCreateOrderRequestHash env req;
          items = sortedOrderItems (co_items req);
          ((applied, insufficient), r) = PreDeductInventory (c_link c) (c_order_id c) items (bk_redis b)
      in if insufficient
         then (Inl ErrInsufficientStock, recordOrderCreate ''insufficient_stock'' (b\<lparr>bk_redis := r\<rparr>))
         else case transaction (c_served c)
                (create_transaction env c user (co_idempotency_key req) hash items) (bk_db b) of
           (Inl e, d) \<Rightarrow> (Inl e, recordOrderCreate (classifyOrderCreateError e)
                            (b\<lparr>bk_db := d, bk_redis := release_if applied c r\<rparr>))
         | (Inr (order, True), d) \<Rightarrow> (Inr order, recordOrderCreate ''idempotent_replay''
                            (b\<lparr>bk_db := d, bk_redis := release_if applied c r\<rparr>))
         | (Inr (order, False), d) \<Rightarrow> (Inr order, recordOrderCreate ''success'' (b\<lparr>bk_db := d, bk_redis := r\<rparr>)))"

subsection \<open>The items of an order, by product\<close>

text \<open>
  The two maps of the source are filled over all items: quantities add up, and the last item of a
  product gives the other fields. The order of the result does not depend on that of the maps.
\<close>

definition aggregateAndSortOrderItems :: "item_row list \<Rightarrow> item_row list" where
  "aggregateAndSortOrderItems items =
     map (\<lambda>pid. let mine = filter (\<lambda>it. it_product_id it = pid) items;
                    qty = foldl (\<lambda>q it. wrap64 (q + it_quantity it)) 0 mine; base = last mine
                in base\<lparr>it_quantity := qty, it_subtotal_fen := wrap64 (it_product_price_fen base * qty)\<rparr>)
       (sort (remdups (filter (\<lambda>pid. 0 < pid) (map it_product_id items))))"

subsection \<open>Cancelling\<close>

definition cancel_remark :: jsstr where  \<comment> \<open>stock returned by a cancelled order, with a colon\<close>
  "cancel_remark = [0x53D6, 0x6D88, 0x8BA2, 0x5355, 0x56DE, 0x6EDA, 0x5E93, 0x5B58, 0xFF1A]"

definition timeout_remark :: jsstr where  \<comment> \<open>stock returned by an order that timed out, with a colon\<close>
  "timeout_remark = [0x8BA2, 0x5355, 0x8D85, 0x65F6, 0x53D6, 0x6D88, 0x56DE, 0x6EDA, 0x5E93, 0x5B58, 0xFF1A]"

definition restore_item :: "orders_row \<Rightarrow> jsstr \<Rightarrow> item_row \<Rightarrow> db \<Rightarrow> go_error + db" where
  "restore_item order remarkPrefix it d =
     andThen (dao_GetInventoryByProductIDForUpdate (it_product_id it) d) (\<lambda>inventory.
     let before = i_stock_quantity inventory; after = wrap64 (before + it_quantity it) in
     andThen (dao_ReleaseLockedInventory (it_product_id it) (it_quantity it) d) (\<lambda>d.
     dao_CreateStockLog \<lparr>l_product_id = it_product_id it, l_change_quantity = it_quantity it,
       l_before_quantity = before, l_after_quantity = after, l_biz_type = StockBizOrderRollback,
       l_biz_id = Some (o_id order), l_remark = remarkPrefix @ o_order_no order\<rparr> d))"

fun restore_items :: "orders_row \<Rightarrow> jsstr \<Rightarrow> item_row list \<Rightarrow> db \<Rightarrow> go_error + db" where
  "restore_items order remarkPrefix [] d = Inr d"
| "restore_items order remarkPrefix (it # its) d =
     andThen (restore_item order remarkPrefix it d) (\<lambda>d. restore_items order remarkPrefix its d)"

definition cancelPendingOrder :: "int \<Rightarrow> orders_row \<Rightarrow> jsstr \<Rightarrow> db \<Rightarrow> go_error + bool \<times> db" where
  "cancelPendingOrder now order remarkPrefix d =
     andThen (dao_PatchOrderStatus (o_user_id order) (o_id order) OrderStatusPending OrderStatusCancelled
         CancelledAt now d) (\<lambda>(rows, d).
     if rows = 0 then Inr (False, d)
     else andThen (restore_items order remarkPrefix
            (aggregateAndSortOrderItems (dao_ListOrderItemsByOrderIDForInventory (o_id order) d)) d) (\<lambda>d.
          Inr (True, d)))"

text \<open>What a cancellation reports besides its error.\<close>

datatype cancel_result = Restored | NotRestored | AlreadyCancelled | Ignored

definition cancel_transaction :: "int \<Rightarrow> int \<Rightarrow> int \<Rightarrow> db \<Rightarrow> go_error + cancel_result \<times> db" where
  "cancel_transaction now user i d =
     andThen (onNotFound ErrOrderNotFound (dao_GetOrderByID user i d)) (\<lambda>order.
     if o_status order = OrderStatusCancelled then Inr (AlreadyCancelled, d)
     else if o_status order = OrderStatusPending
     then andThen (cancelPendingOrder now order cancel_remark d) (\<lambda>(cancelled, d).
            if \<not> cancelled then Inl ErrOrderCancelFailed else Inr (Restored, d))
     else if o_status order = OrderStatusPaid then Inl ErrOrderAlreadyPaid
     else if o_status order = OrderStatusFinished then Inl ErrOrderAlreadyFinished
     else Inl ErrOrderCancelFailed)"

definition CancelOrder :: "surroundings \<Rightarrow> int \<Rightarrow> int \<Rightarrow> backend \<Rightarrow> (go_error + unit) \<times> backend" where
  "CancelOrder c user i b =
     (let (res, d) = transaction (c_served c) (cancel_transaction (c_now c) user i) (bk_db b) in
      case res of
        Inl e \<Rightarrow> (Inl e, recordOrderTransition ''cancel'' (classifyOrderTransitionError res) (b\<lparr>bk_db := d\<rparr>))
      | Inr how \<Rightarrow> (Inr (), recordOrderTransition ''cancel''
            (if how = AlreadyCancelled then ''idempotent'' else classifyOrderTransitionError res)
            (b\<lparr>bk_db := d, bk_redis := RestorePreDeductedInventory (c_link_after c) i (bk_redis b)\<rparr>)))"

definition expire_transaction :: "db_env \<Rightarrow> int \<Rightarrow> jsstr \<Rightarrow> int \<Rightarrow> db \<Rightarrow> go_error + cancel_result \<times> db" where
  "expire_transaction env now event i d =
     (case dao_GetOrderTimeoutOutbox env event i d of
        Inl e \<Rightarrow> if e = ErrRecordNotFound then Inr (Ignored, d) else Inl e
      | Inr outbox \<Rightarrow>
          if now < x_timeout_at outbox then Inl ErrDeadlineNotReached
          else case dao_GetOrderByIDForSystem i d of
                 Inl e \<Rightarrow> if e = ErrRecordNotFound then Inr (Ignored, d) else Inl e
               | Inr order \<Rightarrow>
                   if o_status order = OrderStatusCancelled then Inr (AlreadyCancelled, d)
                   else if o_status order \<noteq> OrderStatusPending then Inr (Ignored, d)
                   else andThen (cancelPendingOrder now order timeout_remark d) (\<lambda>(restored, d).
                          Inr (if restored then Restored else NotRestored, d)))"

definition CancelExpiredOrder ::
  "db_env \<Rightarrow> surroundings \<Rightarrow> jsstr \<Rightarrow> int \<Rightarrow> backend \<Rightarrow> (go_error + unit) \<times> backend" where
  "CancelExpiredOrder env c event i b =
     (let (res, d) = transaction (c_served c) (expire_transaction env (c_now c) event i) (bk_db b) in
      case res of
        Inl e \<Rightarrow> (Inl e, recordOrderTransition ''timeout_cancel'' (classifyOrderTransitionError res) (b\<lparr>bk_db := d\<rparr>))
      | Inr how \<Rightarrow> (Inr (), recordOrderTransition ''timeout_cancel''
            (case how of AlreadyCancelled \<Rightarrow> ''already_cancelled'' | Ignored \<Rightarrow> ''ignored''
                       | _ \<Rightarrow> classifyOrderTransitionError res)
            (b\<lparr>bk_db := d, bk_redis := if how \<in> {Ignored, NotRestored} then bk_redis b
                 else RestorePreDeductedInventory (c_link_after c) i (bk_redis b)\<rparr>)))"

subsection \<open>Paying and finishing\<close>

fun consume_items :: "item_row list \<Rightarrow> db \<Rightarrow> go_error + db" where
  "consume_items [] d = Inr d"
| "consume_items (it # its) d =
     andThen (dao_ConsumeLockedInventory (it_product_id it) (it_quantity it) d) (\<lambda>d. consume_items its d)"

definition pay_transaction :: "int \<Rightarrow> int \<Rightarrow> int \<Rightarrow> db \<Rightarrow> go_error + unit \<times> db" where
  "pay_transaction now user i d =
     andThen (dao_PatchOrderStatus user i OrderStatusPending OrderStatusPaid PaidAt now d) (\<lambda>(row, d).
     if row = 0 then Inl ErrOrderPayFailed
     else andThen (consume_items (aggregateAndSortOrderItems (dao_ListOrderItemsByOrderIDForInventory i d)) d)
            (\<lambda>d. Inr ((), d)))"

text \<open>The check of the order as it was read before the transaction; \<open>early\<close> are the tables at that time.\<close>

definition pay_check :: "int \<Rightarrow> int \<Rightarrow> db \<Rightarrow> go_error + orders_row" where
  "pay_check user i early =
     andThen (onNotFound ErrOrderNotFound (dao_GetOrderByID user i early)) (\<lambda>order.
     if o_status order = OrderStatusPaid then Inl ErrOrderAlreadyPaid
     else if o_status order = OrderStatusFinished then Inl ErrOrderAlreadyFinished
     else if o_status order = OrderStatusCancelled then Inl ErrOrderAlreadyCanceled
     else if o_status order = OrderStatusPending then Inr order
     else Inl ErrOrderPayFailed)"

definition PayOrder :: "surroundings \<Rightarrow> int \<Rightarrow> int \<Rightarrow> db \<Rightarrow> backend \<Rightarrow> (go_error + unit) \<times> backend" where
  "PayOrder c user i early b =
     (case pay_check user i early of
        Inl e \<Rightarrow> (Inl e, recordOrderTransition ''pay'' (classifyOrderTransitionError (Inl e :: go_error + unit)) b)
      | Inr order \<Rightarrow>
          let (res, d) = transaction (c_served c) (pay_transaction (c_now c) user (o_id order)) (bk_db b) in
          case res of
            Inl e \<Rightarrow> (Inl e, recordOrderTransition ''pay'' (classifyOrderTransitionError res) (b\<lparr>bk_db := d\<rparr>))
          | Inr _ \<Rightarrow> (Inr (), recordOrderTransition ''pay'' ''success''
               (b\<lparr>bk_db := d, bk_redis := ConfirmPreDeductedInventory (c_link_after c) i (bk_redis b)\<rparr>)))"

definition finish_check :: "int \<Rightarrow> int \<Rightarrow> db \<Rightarrow> go_error + orders_row" where
  "finish_check user i early =
     andThen (onNotFound ErrOrderNotFound (dao_GetOrderByID user i early)) (\<lambda>order.
     if o_status order = OrderStatusPending then Inl ErrOrderNotPaid
     else if o_status order = OrderStatusCancelled then Inl ErrOrderAlreadyCanceled
     else if o_status order = OrderStatusFinished then Inl ErrOrderAlreadyFinished
     else if o_status order = OrderStatusPaid then Inr order
     else Inl ErrOrderFinishFailed)"

definition finish_statement :: "int \<Rightarrow> int \<Rightarrow> int \<Rightarrow> db \<Rightarrow> go_error + unit \<times> db" where
  "finish_statement now user i d =
     andThen (dao_PatchOrderStatus user i OrderStatusPaid OrderStatusFinished CompletedAt now d) (\<lambda>(row, d).
     if row = 0 then Inl ErrOrderFinishFailed else Inr ((), d))"

definition FinishOrder :: "surroundings \<Rightarrow> int \<Rightarrow> int \<Rightarrow> db \<Rightarrow> backend \<Rightarrow> (go_error + unit) \<times> backend" where
  "FinishOrder c user i early b =
     (case finish_check user i early of
        Inl e \<Rightarrow> (Inl e, recordOrderTransition ''finish'' (classifyOrderTransitionError (Inl e :: go_error + unit)) b)
      | Inr order \<Rightarrow>
          let (res, d) = transaction (c_served c) (finish_statement (c_now c) user (o_id order)) (bk_db b) in
          case res of
            Inl e \<Rightarrow> (Inl e, recordOrderTransition ''finish'' (classifyOrderTransitionError res) (b\<lparr>bk_db := d\<rparr>))
          | Inr _ \<Rightarrow> (Inr (), recordOrderTransition ''finish'' ''success'' (b\<lparr>bk_db := d\<rparr>)))"

subsection \<open>Reading\<close>

definition service_GetOrderByID :: "int \<Rightarrow> int \<Rightarrow> db \<Rightarrow> go_error + orders_row \<times> item_row list" where
  "service_GetOrderByID user i d =
     andThen (onNotFound ErrOrderNotFound (dao_GetOrderByID user i d)) (\<lambda>order.
     Inr (order, dao_ListOrderItemsByOrderID i d))"

definition maxOrderPage :: int where "maxOrderPage = 1000000"
definition maxOrderPageSize :: int where "maxOrderPageSize = 100"

definition service_ListOrders :: "int \<Rightarrow> int \<Rightarrow> int \<Rightarrow> db \<Rightarrow> go_error + orders_row list \<times> nat" where
  "service_ListOrders user page pageSize d =
     (if user \<le> 0 then Inl ErrInvalidUserID
      else if page \<le> 0 \<or> page > maxOrderPage \<or> pageSize \<le> 0 \<or> pageSize > maxOrderPageSize
      then Inl ErrInvalidOrderPagination
      else Inr (dao_ListOrders user (nat pageSize) (nat ((page - 1) * pageSize)) d))"

text \<open>The list of an administrator; a user and a status are optional.\<close>

definition NormalizePagination :: "int \<Rightarrow> int \<Rightarrow> int \<times> int" where
  "NormalizePagination page pageSize =
     (if page \<le> 0 then 1 else page, if pageSize \<le> 0 then 10 else if pageSize > 100 then 100 else pageSize)"

definition service_ListAdminOrders ::
  "int option \<Rightarrow> int option \<Rightarrow> int \<Rightarrow> int \<Rightarrow> db \<Rightarrow> go_error + orders_row list \<times> nat" where
  "service_ListAdminOrders user status req_page req_pageSize d =
     (let (page, pageSize) = NormalizePagination req_page req_pageSize
      in if page \<le> 0 \<or> page > maxOrderPage \<or> pageSize \<le> 0 \<or> pageSize > maxOrderPageSize
         then Inl ErrInvalidOrderPagination
         else if (case user of None \<Rightarrow> False | Some u \<Rightarrow> u \<le> 0) then Inl ErrInvalidUserID
         else Inr (dao_ListAdminOrders user status (nat pageSize) (nat ((page - 1) * pageSize)) d))"

end
