(* ===== verification/StockService.thy ===== *)
theory StockService
  imports OrderService
begin

section \<open>Products and their stock (internal/service/product_service.go, inventory_service.go)\<close>

text \<open>
  The operations that create products, put them on sale, initialise and add stock, and those that
  compare the store of the guard with the tables and repair it. The cache of product details is not
  part of the state: \<open>GetProductByID\<close> of the service is not modelled.
\<close>

subsection \<open>Products\<close>

definition CreateProduct :: "bool \<Rightarrow> jsstr \<Rightarrow> jsstr \<Rightarrow> int \<Rightarrow> backend \<Rightarrow> (go_error + products_row) \<times> backend" where
  "CreateProduct served req_name req_description req_price b =
     (case service_CreateProduct req_name req_description req_price of
        Inl e \<Rightarrow> (Inl (ErrRejected e), b)
      | Inr (name, description) \<Rightarrow>
          let (res, d) = transaction served (dao_CreateProduct \<lparr>p_id = 0, p_name = name,
                p_description = description, p_price_fen = req_price, p_status = ProductStatusOffSale\<rparr>) (bk_db b)
          in (res, b\<lparr>bk_db := d\<rparr>))"

definition service_ListProducts :: "int option \<Rightarrow> int \<Rightarrow> int \<Rightarrow> db \<Rightarrow> products_row list \<times> nat" where
  "service_ListProducts = dao_ListProducts"

text \<open>\<open>OnSaleProduct\<close> and \<open>OffSaleProduct\<close>: the product is read, then its status is written.\<close>

definition set_product_status ::
  "int \<Rightarrow> go_error \<Rightarrow> bool \<Rightarrow> int \<Rightarrow> db \<Rightarrow> backend \<Rightarrow> (go_error + unit) \<times> backend" where
  "set_product_status status failed served i early b =
     (case onNotFound ErrProductNotFound (dao_GetProductByID i early) of
        Inl e \<Rightarrow> (Inl e, b)
      | Inr product \<Rightarrow>
          if p_status product = status then (Inr (), b)
          else let (res, d) = transaction served (dao_UpdateProductStatus (p_id product) status) (bk_db b)
               in (onError failed res, b\<lparr>bk_db := d\<rparr>))"

definition OnSaleProduct :: "bool \<Rightarrow> int \<Rightarrow> db \<Rightarrow> backend \<Rightarrow> (go_error + unit) \<times> backend" where
  "OnSaleProduct = set_product_status ProductStatusOnSale ErrProductOnSaleFailed"

definition OffSaleProduct :: "bool \<Rightarrow> int \<Rightarrow> db \<Rightarrow> backend \<Rightarrow> (go_error + unit) \<times> backend" where
  "OffSaleProduct = set_product_status ProductStatusOffSale ErrProductOffSaleFailed"

subsection \<open>Stock\<close>

definition initInventoryRemarkPrefix :: jsstr where  \<comment> \<open>stock initialised, with a colon\<close>
  "initInventoryRemarkPrefix = [0x521D, 0x59CB, 0x5316, 0x5E93, 0x5B58, 0xFF1A]"

definition addInventoryRemarkPrefix :: jsstr where  \<comment> \<open>entered by hand, colon, supplement\<close>
  "addInventoryRemarkPrefix = [0x624B, 0x52A8, 0x5165, 0x5E93, 0xFF1A, 0x8865, 0x5145]"

definition init_transaction :: "products_row \<Rightarrow> int \<Rightarrow> db \<Rightarrow> go_error + unit \<times> db" where
  "init_transaction product stock d =
     andThen (onError ErrInitInventoryFailed (dao_InitInventory \<lparr>i_id = 0, i_product_id = p_id product,
         i_stock_quantity = stock, i_locked_quantity = 0\<rparr> d)) (\<lambda>(_, d).
     andThen (onError ErrCreateStockLogFailed (dao_CreateStockLog \<lparr>l_product_id = p_id product,
         l_change_quantity = stock, l_before_quantity = 0, l_after_quantity = stock, l_biz_type = StockBizInit,
         l_biz_id = None, l_remark = initInventoryRemarkPrefix @ p_name product\<rparr> d)) (\<lambda>d.
     Inr ((), d)))"

text \<open>The product and the inventory are read before the transaction, in the tables \<open>early\<close>.\<close>

definition InitInventory ::
  "surroundings \<Rightarrow> int \<Rightarrow> int option \<Rightarrow> db \<Rightarrow> backend \<Rightarrow> (go_error + unit) \<times> backend" where
  "InitInventory c req_product req_stock early b =
     (case req_stock of None \<Rightarrow> (Inl ErrInvalidStockQuantity, b) | Some stock \<Rightarrow>
      if stock < 0 then (Inl ErrInvalidStockQuantity, b)
      else case onNotFound ErrProductNotFound (dao_GetProductByID req_product early) of
        Inl e \<Rightarrow> (Inl e, b)
      | Inr product \<Rightarrow>
          (case dao_GetInventoryByProductID req_product early of
             Inr _ \<Rightarrow> (Inl ErrInitInventoryExists, b)
           | Inl e \<Rightarrow>
               if e \<noteq> ErrRecordNotFound then (Inl e, b)
               else case transaction (c_served c) (init_transaction product stock) (bk_db b) of
                 (Inl e, d) \<Rightarrow> (Inl e, b\<lparr>bk_db := d\<rparr>)
               | (Inr _, d) \<Rightarrow> (Inr (), b\<lparr>bk_db := d,
                   bk_redis := guard_SetInventoryStock (c_link_after c) (p_id product) stock (bk_redis b)\<rparr>)))"

definition service_GetInventoryByProductID :: "int \<Rightarrow> db \<Rightarrow> go_error + inventory_row" where
  "service_GetInventoryByProductID product_id d =
     onNotFound ErrInventoryNotFound (dao_GetInventoryByProductID product_id d)"

definition add_transaction :: "int \<Rightarrow> int \<Rightarrow> db \<Rightarrow> go_error + int \<times> db" where
  "add_transaction product_id quantity d =
     andThen (onNotFound ErrInventoryNotFound (dao_GetInventoryByProductIDForUpdate product_id d)) (\<lambda>inventory.
     andThen (onNotFound ErrProductNotFound (dao_GetProductByID product_id d)) (\<lambda>product.
     let beforeQuantity = i_stock_quantity inventory; afterQuantity = wrap64 (beforeQuantity + quantity) in
     andThen (dao_UpdateInventoryStockQuantity product_id afterQuantity d) (\<lambda>d.
     andThen (onError ErrCreateStockLogFailed (dao_CreateStockLog \<lparr>l_product_id = product_id,
         l_change_quantity = quantity, l_before_quantity = beforeQuantity, l_after_quantity = afterQuantity,
         l_biz_type = StockBizManualAdd, l_biz_id = None, l_remark = addInventoryRemarkPrefix @ p_name product\<rparr> d))
       (\<lambda>d. Inr (afterQuantity, d)))))"

definition AddInventory :: "surroundings \<Rightarrow> int \<Rightarrow> int \<Rightarrow> backend \<Rightarrow> (go_error + unit) \<times> backend" where
  "AddInventory c product_id quantity b =
     (if quantity \<le> 0 then (Inl ErrInvalidAddQuantity, b)
      else case transaction (c_served c) (add_transaction product_id quantity) (bk_db b) of
        (Inl e, d) \<Rightarrow> (Inl e, b\<lparr>bk_db := d\<rparr>)
      | (Inr after, d) \<Rightarrow> (Inr (), b\<lparr>bk_db := d,
          bk_redis := guard_IncrInventoryStock (c_link_after c) product_id quantity after (bk_redis b)\<rparr>))"

subsection \<open>Repairing the store of the guard\<close>

text \<open>A failed rebuild leaves \<open>None\<close>; the source reports it as an error.\<close>

definition listAllInventories :: "db \<Rightarrow> inventory_row list" where
  "listAllInventories d = sort_key i_product_id (t_inventories d)"

definition RebuildRedisInventoryStock :: "link \<Rightarrow> backend \<Rightarrow> nat option \<times> backend" where
  "RebuildRedisInventoryStock l b =
     (let (count, r) = RebuildInventoryStocks l (listAllInventories (bk_db b)) (bk_redis b)
      in (count, b\<lparr>bk_redis := r\<rparr>))"

datatype reconcile_status = Missing | Mismatch

record report_item =
  rp_product_id :: int
  rp_mysql :: int
  rp_redis :: "int option"
  rp_status :: reconcile_status

record report =
  rp_checked :: nat
  rp_diff :: nat
  rp_items :: "report_item list"

definition reconcile_row :: "(int \<times> int option) list \<Rightarrow> inventory_row \<Rightarrow> report_item list" where
  "reconcile_row stocks i =
     (case map_of stocks (i_product_id i) of
        Some (Some q) \<Rightarrow>
          if q = i_stock_quantity i then []
          else [\<lparr>rp_product_id = i_product_id i, rp_mysql = i_stock_quantity i, rp_redis = Some q, rp_status = Mismatch\<rparr>]
      | _ \<Rightarrow> [\<lparr>rp_product_id = i_product_id i, rp_mysql = i_stock_quantity i, rp_redis = None, rp_status = Missing\<rparr>])"

definition ReconcileRedisInventoryStock :: "link \<Rightarrow> backend \<Rightarrow> report option" where
  "ReconcileRedisInventoryStock l b =
     (let rows = filter (\<lambda>i. 0 < i_product_id i) (listAllInventories (bk_db b)); ids = map i_product_id rows
      in case GetInventoryStocks l ids (bk_redis b) of None \<Rightarrow> None
         | Some stocks \<Rightarrow>
             let found = concat (map (reconcile_row stocks) rows)
             in Some \<lparr>rp_checked = length ids, rp_diff = length found, rp_items = found\<rparr>)"

text \<open>The repair writes the rows of a report; each write may reach Redis or not.\<close>

fun AutoFixRedisInventoryStock :: "(report_item \<times> link) list \<Rightarrow> backend \<Rightarrow> backend" where
  "AutoFixRedisInventoryStock [] b = b"
| "AutoFixRedisInventoryStock ((i, l) # is) b = AutoFixRedisInventoryStock is
     (b\<lparr>bk_redis := guard_SetInventoryStock l (rp_product_id i) (rp_mysql i) (bk_redis b)\<rparr>)"

end
