(* ===== verification/Books.thy ===== *)
theory Books
  imports StockService
begin

section \<open>The books of the stock\<close>

text \<open>
  What the tables of the backend promise about stock, and that every statement of a transaction keeps
  it. For a product, \<open>pending\<close> is what orders awaiting payment hold, \<open>sold\<close> what paid and finished
  orders took, \<open>supplied\<close> what was ever put in. Inside a transaction the books may be out by a debt:
  between the change of an order's status and the last of its items.
\<close>

subsection \<open>Quantities\<close>

definition status_of :: "db \<Rightarrow> int \<Rightarrow> int" where
  "status_of d i = (case find (\<lambda>r. o_id r = i) (t_orders d) of None \<Rightarrow> 0 | Some r \<Rightarrow> o_status r)"

definition qty :: "item_row list \<Rightarrow> (int \<Rightarrow> bool) \<Rightarrow> int \<Rightarrow> int" where
  "qty its c p = sum_list (map it_quantity (filter (\<lambda>it. it_product_id it = p \<and> c (it_order_id it)) its))"

definition pending :: "db \<Rightarrow> int \<Rightarrow> int" where
  "pending d p = qty (t_items d) (\<lambda>i. status_of d i = OrderStatusPending) p"

definition sold :: "db \<Rightarrow> int \<Rightarrow> int" where
  "sold d p = qty (t_items d) (\<lambda>i. status_of d i \<in> {OrderStatusPaid, OrderStatusFinished}) p"

definition order_qty :: "db \<Rightarrow> int \<Rightarrow> int \<Rightarrow> int" where
  "order_qty d i p = qty (t_items d) (\<lambda>j. j = i) p"

definition logs_of :: "int \<Rightarrow> db \<Rightarrow> log_row list" where
  "logs_of p d = filter (\<lambda>l. l_product_id l = p) (t_logs d)"

definition supplied :: "db \<Rightarrow> int \<Rightarrow> int" where
  "supplied d p = sum_list (map l_change_quantity
     (filter (\<lambda>l. l_biz_type l \<in> {StockBizInit, StockBizManualAdd}) (logs_of p d)))"

text \<open>The quantity after a sequence of log entries, each of which starts where the one before ended.\<close>

fun balance :: "int \<Rightarrow> log_row list \<Rightarrow> int option" where
  "balance q [] = Some q"
| "balance q (l # ls) = (if l_before_quantity l = q then balance (l_after_quantity l) ls else None)"

lemma balance_snoc:
  "balance q ls = Some n \<Longrightarrow> balance q (ls @ [l]) = (if l_before_quantity l = n then Some (l_after_quantity l) else None)"
  by (induction ls arbitrary: q) (auto split: if_splits)

lemma qty_simps [simp]:
  "qty [] c p = 0"
  "qty (it # its) c p = (if it_product_id it = p \<and> c (it_order_id it) then it_quantity it else 0) + qty its c p"
  by (simp_all add: qty_def)

lemma qty_append [simp]: "qty (its @ its') c p = qty its c p + qty its' c p"
  by (simp add: qty_def)

lemma qty_cong: "(\<And>it. it \<in> set its \<Longrightarrow> c (it_order_id it) = c' (it_order_id it)) \<Longrightarrow> qty its c p = qty its c' p"
  by (induction its) auto

lemma qty_upd:
  "qty its (c(i := b)) p = qty its c p + (if b then qty its (\<lambda>j. j = i) p else 0) - (if c i then qty its (\<lambda>j. j = i) p else 0)"
  by (induction its) auto

lemma qty_nonneg: "(\<And>it. it \<in> set its \<Longrightarrow> 0 \<le> it_quantity it) \<Longrightarrow> 0 \<le> qty its c p"
  by (induction its) auto

lemma qty_mono:
  "(\<And>it. it \<in> set its \<Longrightarrow> 0 \<le> it_quantity it) \<Longrightarrow> (\<And>i. c i \<Longrightarrow> c' i) \<Longrightarrow> qty its c p \<le> qty its c' p"
proof (induction its)
  case (Cons it its)
  have "qty its c p \<le> qty its c' p" using Cons by simp
  then show ?case using Cons.prems(1)[of it] Cons.prems(2)[of "it_order_id it"] by auto
qed simp

lemma qty_no_product: "p \<notin> it_product_id ` set its \<Longrightarrow> qty its c p = 0"
  by (induction its) auto

subsection \<open>The books\<close>

definition inventory_ok :: "(int \<Rightarrow> int) \<Rightarrow> (int \<Rightarrow> int) \<Rightarrow> db \<Rightarrow> inventory_row \<Rightarrow> bool" where
  "inventory_ok lo so d i \<longleftrightarrow> inventory_checks i \<and> 0 < i_product_id i \<and>
     i_locked_quantity i = pending d (i_product_id i) + lo (i_product_id i) \<and>
     i_stock_quantity i + i_locked_quantity i + sold d (i_product_id i) =
       supplied d (i_product_id i) + so (i_product_id i) \<and>
     balance 0 (logs_of (i_product_id i) d) = Some (i_stock_quantity i)"

definition books :: "(int \<Rightarrow> int) \<Rightarrow> (int \<Rightarrow> int) \<Rightarrow> db \<Rightarrow> bool" where
  "books lo so d \<longleftrightarrow>
     distinct (map i_product_id (t_inventories d)) \<and>
     distinct (map o_id (t_orders d)) \<and>
     (\<forall>i \<in> set (t_inventories d). inventory_ok lo so d i) \<and>
     (\<forall>it \<in> set (t_items d). it_order_id it \<in> o_id ` set (t_orders d) \<and> 0 < it_quantity it \<and>
        it_product_id it \<in> i_product_id ` set (t_inventories d)) \<and>
     (\<forall>l \<in> set (t_logs d). l_product_id l \<in> i_product_id ` set (t_inventories d))"

text \<open>The quantity of a product in a list of items.\<close>

abbreviation in_items :: "item_row list \<Rightarrow> int \<Rightarrow> int" where
  "in_items its \<equiv> qty its (\<lambda>_. True)"

abbreviation balanced :: "db \<Rightarrow> bool" where "balanced \<equiv> books (\<lambda>_. 0) (\<lambda>_. 0)"

lemma booksD:
  assumes "books lo so d"
  shows "distinct (map i_product_id (t_inventories d))" "distinct (map o_id (t_orders d))"
    and "i \<in> set (t_inventories d) \<Longrightarrow> inventory_ok lo so d i"
    and "it \<in> set (t_items d) \<Longrightarrow> it_order_id it \<in> o_id ` set (t_orders d)"
    and "it \<in> set (t_items d) \<Longrightarrow> 0 < it_quantity it"
    and "it \<in> set (t_items d) \<Longrightarrow> it_product_id it \<in> i_product_id ` set (t_inventories d)"
    and "l \<in> set (t_logs d) \<Longrightarrow> l_product_id l \<in> i_product_id ` set (t_inventories d)"
  using assms by (auto simp: books_def)

lemma books_same_tables:
  assumes "t_inventories d' = t_inventories d" "t_orders d' = t_orders d" "t_items d' = t_items d" "t_logs d' = t_logs d"
  shows "books lo so d' \<longleftrightarrow> books lo so d"
proof -
  have "status_of d' = status_of d" using assms by (simp add: status_of_def fun_eq_iff)
  then show ?thesis
    using assms by (simp add: books_def inventory_ok_def pending_def sold_def supplied_def logs_of_def)
qed

lemma books_empty: "balanced empty_db"
  by (simp add: books_def empty_db_def)

subsection \<open>Queries\<close>

lemma first_row_Inr:
  "first_row c rows = Inr r \<Longrightarrow> r \<in> set rows \<and> c r"
  by (auto simp: first_row_def find_Some_iff split: option.splits)

lemma update_rows_Inr:
  "update_rows c f ok rows = Inr (n, rows') \<longleftrightarrow>
     (\<forall>r \<in> set rows. c r \<longrightarrow> ok (f r)) \<and> n = length (filter c rows) \<and> rows' = map (\<lambda>r. if c r then f r else r) rows"
  by (auto simp: update_rows_def)

lemma find_map_same:
  "(\<And>r. g (f r) = g r) \<Longrightarrow> find (\<lambda>r. g r = i) (map f rows) = map_option f (find (\<lambda>r. g r = i) rows)"
  by (induction rows) auto

lemma find_distinct:
  "distinct (map g rows) \<Longrightarrow> r \<in> set rows \<Longrightarrow> find (\<lambda>q. g q = g r) rows = Some r"
  by (induction rows) auto

lemma first_row_distinct:
  "distinct (map g rows) \<Longrightarrow> r \<in> set rows \<Longrightarrow> first_row (\<lambda>q. g q = g r) rows = Inr r"
  by (simp add: first_row_def find_distinct)

lemma status_of_row: "distinct (map o_id (t_orders d)) \<Longrightarrow> r \<in> set (t_orders d) \<Longrightarrow> status_of d (o_id r) = o_status r"
  by (simp add: status_of_def find_distinct)

subsection \<open>Moving stock of one product\<close>

lemma patch_inventories_Inr:
  assumes "patch_inventories e (\<lambda>i. i_product_id i = p \<and> c i) f d = Inr d'"
    and "distinct (map i_product_id (t_inventories d))"
  obtains i where "i \<in> set (t_inventories d)" "i_product_id i = p" "c i" "inventory_checks (f i)"
    "d' = d\<lparr>t_inventories := map (\<lambda>j. if i_product_id j = p then f j else j) (t_inventories d)\<rparr>"
proof -
  from assms(1) obtain n rows where u: "update_rows (\<lambda>i. i_product_id i = p \<and> c i) f inventory_checks (t_inventories d) = Inr (n, rows)"
    and n: "n \<noteq> 0" and d': "d' = d\<lparr>t_inventories := rows\<rparr>"
    by (cases "update_rows (\<lambda>i. i_product_id i = p \<and> c i) f inventory_checks (t_inventories d)")
      (auto simp: patch_inventories_def split: if_splits)
  then have "filter (\<lambda>i. i_product_id i = p \<and> c i) (t_inventories d) \<noteq> []"
    by (auto simp: update_rows_Inr)
  then obtain i where i: "i \<in> set (t_inventories d)" "i_product_id i = p" "c i"
    by (auto simp: filter_empty_conv)
  have same: "j = i" if "j \<in> set (t_inventories d)" "i_product_id j = p" for j
    using assms(2) that i by (auto simp: distinct_map dest: inj_onD)
  have "rows = map (\<lambda>j. if i_product_id j = p \<and> c j then f j else j) (t_inventories d)"
    and ok: "inventory_checks (f i)"
    using u i by (simp_all add: update_rows_Inr)
  moreover have "(i_product_id j = p \<and> c j) = (i_product_id j = p)" if "j \<in> set (t_inventories d)" for j
    using same[OF that] i by auto
  then have "map (\<lambda>j. if i_product_id j = p \<and> c j then f j else j) (t_inventories d) =
      map (\<lambda>j. if i_product_id j = p then f j else j) (t_inventories d)"
    by (intro map_cong) auto
  ultimately show ?thesis using that[OF i ok] d' by simp
qed

lemma status_of_same_orders: "t_orders d' = t_orders d \<Longrightarrow> status_of d' = status_of d"
  by (simp add: status_of_def fun_eq_iff)

lemma quantities_append:
  assumes "t_orders d' = t_orders d" "t_items d' = t_items d @ its" "t_logs d' = t_logs d @ ls"
  shows "pending d' p = pending d p + qty its (\<lambda>i. status_of d i = OrderStatusPending) p"
    and "sold d' p = sold d p + qty its (\<lambda>i. status_of d i \<in> {OrderStatusPaid, OrderStatusFinished}) p"
    and "supplied d' p = supplied d p + sum_list (map l_change_quantity
           (filter (\<lambda>l. l_product_id l = p \<and> l_biz_type l \<in> {StockBizInit, StockBizManualAdd}) ls))"
    and "logs_of p d' = logs_of p d @ filter (\<lambda>l. l_product_id l = p) ls"
  using assms status_of_same_orders[OF assms(1)]
  by (simp_all add: pending_def sold_def supplied_def logs_of_def conj_commute)

lemma books_move:
  assumes b: "books lo so d" and i: "i \<in> set (t_inventories d)" "i_product_id i = p"
    and d': "t_inventories d' = map (\<lambda>j. if i_product_id j = p then f j else j) (t_inventories d)"
      "t_orders d' = t_orders d" "t_items d' = t_items d @ its" "t_logs d' = t_logs d @ ls"
    and f: "\<And>j. i_product_id (f j) = i_product_id j"
    and its: "\<And>it. it \<in> set its \<Longrightarrow> it_product_id it = p \<and> 0 < it_quantity it \<and> it_order_id it \<in> o_id ` set (t_orders d)"
    and ls: "\<And>l. l \<in> set ls \<Longrightarrow> l_product_id l = p"
    and ok: "inventory_ok lo' so' d' (f i)"
    and debt: "\<And>q. q \<noteq> p \<Longrightarrow> lo' q = lo q \<and> so' q = so q"
  shows "books lo' so' d'"
proof -
  let ?g = "\<lambda>j. if i_product_id j = p then f j else j"
  have g: "i_product_id (?g j) = i_product_id j" for j using f by simp
  then have ids: "map i_product_id (t_inventories d') = map i_product_id (t_inventories d)"
    using d'(1) by simp
  have dist: "distinct (map i_product_id (t_inventories d))" using booksD(1)[OF b] .
  have iv: "inventory_ok lo' so' d' k" if "k \<in> set (t_inventories d')" for k
  proof -
    have "k \<in> ?g ` set (t_inventories d)" using that unfolding d'(1) set_map .
    then obtain j where j: "j \<in> set (t_inventories d)" "k = ?g j" by (rule imageE)
    show ?thesis
    proof (cases "i_product_id j = p")
      case True
      then have "j = i" using dist j(1) i by (auto simp: distinct_map dest: inj_onD)
      then show ?thesis using ok j True by simp
    next
      case False
      then have "qty its c (i_product_id j) = 0" for c
        using its by (intro qty_no_product) auto
      moreover have "filter (\<lambda>l. l_product_id l = i_product_id j) ls = []"
        "filter (\<lambda>l. l_product_id l = i_product_id j \<and> l_biz_type l \<in> {StockBizInit, StockBizManualAdd}) ls = []"
        using ls False by (auto simp: filter_empty_conv)
      ultimately show ?thesis
        using booksD(3)[OF b j(1)] False debt[of "i_product_id j"] j(2)
        by (simp add: inventory_ok_def quantities_append[OF d'(2-4)])
    qed
  qed
  have img: "i_product_id ` set (t_inventories d') = i_product_id ` set (t_inventories d)"
    using ids by (metis set_map)
  have p: "p \<in> i_product_id ` set (t_inventories d)" using i by auto
  show ?thesis unfolding books_def ids img d'(2-4)
    using booksD[OF b] iv p its ls by auto
qed

text \<open>The change of a row: so much stock, so much locked.\<close>

definition move :: "int \<Rightarrow> int \<Rightarrow> inventory_row \<Rightarrow> inventory_row" where
  "move a b j = j\<lparr>i_stock_quantity := i_stock_quantity j + a, i_locked_quantity := i_locked_quantity j + b\<rparr>"

lemma move_simps [simp]:
  "i_product_id (move a b j) = i_product_id j" "i_id (move a b j) = i_id j"
  "i_stock_quantity (move a b j) = i_stock_quantity j + a" "i_locked_quantity (move a b j) = i_locked_quantity j + b"
  by (simp_all add: move_def)

definition moved :: "int \<Rightarrow> int \<Rightarrow> int \<Rightarrow> inventory_row list \<Rightarrow> inventory_row list" where
  "moved p a b = map (\<lambda>j. if i_product_id j = p then move a b j else j)"

lemma dao_Reserve_move: "dao_ReserveInventory p q = patch_inventories ErrReserveInventoryFailed (\<lambda>i. i_product_id i = p \<and> i_stock_quantity i \<ge> q) (move (- q) q)"
proof -
  have "(\<lambda>i. i\<lparr>i_stock_quantity := i_stock_quantity i - q, i_locked_quantity := i_locked_quantity i + q\<rparr>) = move (- q) q" by (rule ext, rule inventory_row.equality) simp_all
  then show ?thesis by (simp only: dao_ReserveInventory_def)
qed

lemma dao_Release_move: "dao_ReleaseLockedInventory p q = patch_inventories ErrReleaseLockedInventoryFailed (\<lambda>i. i_product_id i = p \<and> i_locked_quantity i \<ge> q) (move q (- q))"
proof -
  have "(\<lambda>i. i\<lparr>i_stock_quantity := i_stock_quantity i + q, i_locked_quantity := i_locked_quantity i - q\<rparr>) = move q (- q)" by (rule ext, rule inventory_row.equality) simp_all
  then show ?thesis by (simp only: dao_ReleaseLockedInventory_def)
qed

lemma dao_Consume_move: "dao_ConsumeLockedInventory p q = patch_inventories ErrConsumeLockedInventoryFailed (\<lambda>i. i_product_id i = p \<and> i_locked_quantity i \<ge> q) (move 0 (- q))"
proof -
  have "(\<lambda>i. i\<lparr>i_locked_quantity := i_locked_quantity i - q\<rparr>) = move 0 (- q)" by (rule ext, rule inventory_row.equality) simp_all
  then show ?thesis by (simp only: dao_ConsumeLockedInventory_def)
qed

lemmas dao_moves = dao_Reserve_move dao_Release_move dao_Consume_move

lemma patch_move_Inr:
  assumes "patch_inventories e (\<lambda>i. i_product_id i = p \<and> c i) (move a b) d = Inr d'"
    and "distinct (map i_product_id (t_inventories d))"
  obtains i where "i \<in> set (t_inventories d)" "i_product_id i = p" "c i" "inventory_checks (move a b i)"
    "d' = d\<lparr>t_inventories := moved p a b (t_inventories d)\<rparr>"
  using patch_inventories_Inr[OF assms] unfolding moved_def by blast

text \<open>
  One movement with the items and log entries that go with it: the books stay balanced up to the debt
  that the movement, the items and the entries leave.
\<close>

lemma books_moved:
  assumes b: "books lo so d" and i: "i \<in> set (t_inventories d)" "i_product_id i = p"
    and d': "t_inventories d' = moved p a b (t_inventories d)" "t_orders d' = t_orders d"
      "t_items d' = t_items d @ its" "t_logs d' = t_logs d @ ls"
    and ok: "inventory_checks (move a b i)"
    and its: "\<And>it. it \<in> set its \<Longrightarrow> it_product_id it = p \<and> 0 < it_quantity it \<and> it_order_id it \<in> o_id ` set (t_orders d) \<and>
        status_of d (it_order_id it) = OrderStatusPending"
    and ls: "\<And>l. l \<in> set ls \<Longrightarrow> l_product_id l = p" "balance (i_stock_quantity i) ls = Some (i_stock_quantity i + a)"
    and lo': "lo' = lo(p := lo p + b - in_items its p)"
    and so': "so' = so(p := so p + a + b -
        sum_list (map l_change_quantity (filter (\<lambda>l. l_biz_type l \<in> {StockBizInit, StockBizManualAdd}) ls)))"
  shows "books lo' so' d'"
proof (rule books_move[OF b i d'(1)[unfolded moved_def] d'(2-4)])
  have pend: "qty its (\<lambda>i. status_of d i = OrderStatusPending) p = in_items its p"
    "qty its (\<lambda>i. status_of d i \<in> {OrderStatusPaid, OrderStatusFinished}) p = 0"
    using its by (auto simp: go_status_defs qty_def intro!: arg_cong[of _ _ sum_list] filter_cong)
  have logs: "filter (\<lambda>l. l_product_id l = p) ls = ls"
    "filter (\<lambda>l. l_product_id l = p \<and> l_biz_type l \<in> {StockBizInit, StockBizManualAdd}) ls =
      filter (\<lambda>l. l_biz_type l \<in> {StockBizInit, StockBizManualAdd}) ls"
    using ls(1) by (auto intro: filter_cong)
  have bal: "balance q ls' = Some n \<Longrightarrow> balance q (ls' @ ls) = balance n ls" for q n ls'
    by (induction ls' arbitrary: q) (auto split: if_splits)
  show "inventory_ok lo' so' d' (move a b i)"
    using booksD(3)[OF b i(1)] ok i(2) ls(2) lo' so'
    by (simp add: inventory_ok_def quantities_append[OF d'(2-4)] pend[simplified] logs[simplified] bal)
qed (use its ls lo' so' in auto)

subsection \<open>The statements of the transactions\<close>

lemma GetInventory_Inr:
  assumes "dao_GetInventoryByProductIDForUpdate p d = Inr iv" "distinct (map i_product_id (t_inventories d))"
    "i \<in> set (t_inventories d)" "i_product_id i = p"
  shows "iv = i"
  using assms first_row_distinct[of i_product_id "t_inventories d" i]
  by (simp add: dao_GetInventoryByProductIDForUpdate_def)

text \<open>The tables a loop over items leaves alone.\<close>

definition same_orders :: "db \<Rightarrow> db \<Rightarrow> bool" where
  "same_orders d d' \<longleftrightarrow> t_products d' = t_products d \<and> t_orders d' = t_orders d \<and> t_keys d' = t_keys d \<and>
     t_outbox d' = t_outbox d"

lemma same_orders_refl [simp]: "same_orders d d"
  by (simp add: same_orders_def)

lemma same_orders_trans: "same_orders d d' \<Longrightarrow> same_orders d' d'' \<Longrightarrow> same_orders d d''"
  by (simp add: same_orders_def)

text \<open>The item an order gets for a requested item.\<close>

definition item_for :: "int \<Rightarrow> orders_row \<Rightarrow> products_row \<Rightarrow> int \<Rightarrow> item_row" where
  "item_for n order product q = \<lparr>it_id = n, it_order_id = o_id order, it_product_id = p_id product,
     it_product_name = p_name product, it_product_price_fen = p_price_fen product, it_quantity = q,
     it_subtotal_fen = wrap64 (p_price_fen product * q)\<rparr>"

lemma item_for_simps [simp]:
  "it_order_id (item_for n order product q) = o_id order" "it_product_id (item_for n order product q) = p_id product"
  "it_quantity (item_for n order product q) = q" "it_id (item_for n order product q) = n"
  "it_product_price_fen (item_for n order product q) = p_price_fen product"
  "it_subtotal_fen (item_for n order product q) = wrap64 (p_price_fen product * q)"
  by (simp_all add: item_for_def)

lemma place_item_Inr:
  assumes "place_item order products i d = Inr d'" "distinct (map i_product_id (t_inventories d))"
    and "p_id (the (products (ci_product_id i))) = ci_product_id i"
  obtains iv l where "iv \<in> set (t_inventories d)" "i_product_id iv = ci_product_id i"
    "ci_quantity i \<le> i_stock_quantity iv" "0 < ci_quantity i"
    "d' = d\<lparr>t_inventories := moved (ci_product_id i) (- ci_quantity i) (ci_quantity i) (t_inventories d),
       t_items := t_items d @ [item_for (next_id (t_items d)) order (the (products (ci_product_id i))) (ci_quantity i)],
       t_logs := t_logs d @ [l]\<rparr>"
    "inventory_checks (move (- ci_quantity i) (ci_quantity i) iv)"
    "item_checks (item_for (next_id (t_items d)) order (the (products (ci_product_id i))) (ci_quantity i))"
    "l_product_id l = ci_product_id i" "l_before_quantity l = i_stock_quantity iv"
    "l_after_quantity l = i_stock_quantity iv - ci_quantity i"
    "l_biz_type l = StockBizOrderDeduct" "l_biz_id l = Some (o_id order)"
proof -
  let ?p = "the (products (ci_product_id i))"
  let ?it = "item_for 0 order ?p (ci_quantity i)"
  obtain iv where get: "dao_GetInventoryByProductIDForUpdate (ci_product_id i) d = Inr iv"
    using assms(1) by (cases "dao_GetInventoryByProductIDForUpdate (ci_product_id i) d") (auto simp: place_item_def onNotFound_def)
  let ?l = "\<lparr>l_product_id = p_id ?p, l_change_quantity = wrap64 (- ci_quantity i), l_before_quantity = i_stock_quantity iv,
             l_after_quantity = wrap64 (i_stock_quantity iv - ci_quantity i), l_biz_type = StockBizOrderDeduct,
             l_biz_id = Some (o_id order), l_remark = deduct_remark @ o_order_no order\<rparr>"
  obtain d1 where res: "dao_ReserveInventory (ci_product_id i) (ci_quantity i) d = Inr d1"
    using assms(1) get by (cases "dao_ReserveInventory (ci_product_id i) (ci_quantity i) d")
      (auto simp: place_item_def Let_def split: if_splits)
  obtain d2 where item: "dao_CreateOrderItem ?it d1 = Inr d2"
    using assms(1) get res
    by (cases "dao_CreateOrderItem ?it d1") (auto simp: place_item_def item_for_def Let_def split: if_splits)
  have log: "dao_CreateStockLog ?l d2 = Inr d'"
    using assms(1) get res item[unfolded item_for_def] by (auto simp: place_item_def Let_def split: if_splits)
  obtain k where k: "k \<in> set (t_inventories d)" "i_product_id k = ci_product_id i" "i_stock_quantity k \<ge> ci_quantity i"
      "inventory_checks (move (- ci_quantity i) (ci_quantity i) k)"
      "d1 = d\<lparr>t_inventories := moved (ci_product_id i) (- ci_quantity i) (ci_quantity i) (t_inventories d)\<rparr>"
    by (rule patch_move_Inr[OF res[unfolded dao_moves] assms(2)])
  have iv: "iv = k" using GetInventory_Inr[OF get assms(2) k(1,2)] .
  have d2: "d2 = d1\<lparr>t_items := t_items d1 @ [item_for (next_id (t_items d1)) order ?p (ci_quantity i)]\<rparr>"
    and it_ok: "item_checks (item_for (next_id (t_items d1)) order ?p (ci_quantity i))"
    using item by (auto simp: dao_CreateOrderItem_def item_for_def Let_def split: if_splits)
  have d': "d' = d2\<lparr>t_logs := t_logs d2 @ [?l]\<rparr>" using log by (auto simp: dao_CreateStockLog_def split: if_splits)
  have q: "0 < ci_quantity i" using it_ok by (simp add: item_checks_def)
  have "wrap64 (i_stock_quantity iv - ci_quantity i) = i_stock_quantity iv - ci_quantity i"
    using k(4) iv by (intro wrap64_id) (simp add: inventory_checks_def)
  then show ?thesis
    by (intro that[where iv = iv and l = ?l]) (use k iv d2 d' q it_ok assms(3) in simp_all)
qed

lemma place_item_books:
  assumes "place_item order products i d = Inr d'" "books lo so d"
    and "p_id (the (products (ci_product_id i))) = ci_product_id i"
    and "o_id order \<in> o_id ` set (t_orders d)" "status_of d (o_id order) = OrderStatusPending"
  shows "books lo so d' \<and> same_orders d d'"
proof (rule place_item_Inr[OF assms(1) booksD(1)[OF assms(2)] assms(3)])
  fix iv l
  assume r: "iv \<in> set (t_inventories d)" "i_product_id iv = ci_product_id i" "0 < ci_quantity i"
    "d' = d\<lparr>t_inventories := moved (ci_product_id i) (- ci_quantity i) (ci_quantity i) (t_inventories d),
       t_items := t_items d @ [item_for (next_id (t_items d)) order (the (products (ci_product_id i))) (ci_quantity i)],
       t_logs := t_logs d @ [l]\<rparr>"
    "inventory_checks (move (- ci_quantity i) (ci_quantity i) iv)"
    "l_product_id l = ci_product_id i" "l_before_quantity l = i_stock_quantity iv"
    "l_after_quantity l = i_stock_quantity iv - ci_quantity i" "l_biz_type l = StockBizOrderDeduct"
  have "books lo so d'"
    by (rule books_moved[OF assms(2) r(1,2) _ _ _ _ r(5), where ls = "[l]"])
      (use r(3,6-) assms(3-5) in \<open>auto simp: r(4) go_biz_defs\<close>)
  then show ?thesis using r(4) by (simp add: same_orders_def)
qed

lemma place_items_books:
  assumes "place_items order products is d = Inr d'" "books lo so d"
    and "\<And>i. i \<in> set is \<Longrightarrow> p_id (the (products (ci_product_id i))) = ci_product_id i"
    and "o_id order \<in> o_id ` set (t_orders d)" "status_of d (o_id order) = OrderStatusPending"
  shows "books lo so d' \<and> same_orders d d'"
  using assms
proof (induction "is" arbitrary: d)
  case (Cons i "is")
  then obtain d1 where d1: "place_item order products i d = Inr d1" "place_items order products is d1 = Inr d'"
    by (auto simp: andThen_def split: sum.splits)
  have b: "books lo so d1 \<and> same_orders d d1"
    using Cons.prems by (intro place_item_books[OF d1(1)]) auto
  then have "status_of d1 = status_of d" "t_orders d1 = t_orders d"
    by (auto simp: same_orders_def intro!: status_of_same_orders)
  then have "books lo so d' \<and> same_orders d1 d'"
    using Cons.prems b by (intro Cons.IH[OF d1(2)]) auto
  then show ?case using b same_orders_trans by blast
qed simp

lemma restore_item_Inr:
  assumes "restore_item order prefix it d = Inr d'" "distinct (map i_product_id (t_inventories d))"
  obtains iv l where "iv \<in> set (t_inventories d)" "i_product_id iv = it_product_id it"
    "d' = d\<lparr>t_inventories := moved (it_product_id it) (it_quantity it) (- it_quantity it) (t_inventories d),
       t_logs := t_logs d @ [l]\<rparr>"
    "inventory_checks (move (it_quantity it) (- it_quantity it) iv)"
    "l_product_id l = it_product_id it" "l_before_quantity l = i_stock_quantity iv"
    "l_after_quantity l = i_stock_quantity iv + it_quantity it" "l_biz_type l = StockBizOrderRollback"
    "l_biz_id l = Some (o_id order)"
proof -
  obtain iv where get: "dao_GetInventoryByProductIDForUpdate (it_product_id it) d = Inr iv"
    using assms(1) by (cases "dao_GetInventoryByProductIDForUpdate (it_product_id it) d") (auto simp: restore_item_def)
  let ?l = "\<lparr>l_product_id = it_product_id it, l_change_quantity = it_quantity it, l_before_quantity = i_stock_quantity iv,
       l_after_quantity = wrap64 (i_stock_quantity iv + it_quantity it), l_biz_type = StockBizOrderRollback,
       l_biz_id = Some (o_id order), l_remark = prefix @ o_order_no order\<rparr>"
  obtain d1 where rel: "dao_ReleaseLockedInventory (it_product_id it) (it_quantity it) d = Inr d1"
    using assms(1) get
    by (cases "dao_ReleaseLockedInventory (it_product_id it) (it_quantity it) d") (auto simp: restore_item_def Let_def)
  have log: "dao_CreateStockLog ?l d1 = Inr d'" using assms(1) get rel by (simp add: restore_item_def Let_def)
  obtain k where k: "k \<in> set (t_inventories d)" "i_product_id k = it_product_id it"
      "inventory_checks (move (it_quantity it) (- it_quantity it) k)"
      "d1 = d\<lparr>t_inventories := moved (it_product_id it) (it_quantity it) (- it_quantity it) (t_inventories d)\<rparr>"
    by (rule patch_move_Inr[OF rel[unfolded dao_moves] assms(2)])
  have iv: "iv = k" using GetInventory_Inr[OF get assms(2) k(1,2)] .
  have "wrap64 (i_stock_quantity iv + it_quantity it) = i_stock_quantity iv + it_quantity it"
    using k(3) iv by (intro wrap64_id) (simp add: inventory_checks_def)
  moreover have "d' = d1\<lparr>t_logs := t_logs d1 @ [?l]\<rparr>" using log by (auto simp: dao_CreateStockLog_def split: if_splits)
  ultimately show ?thesis using k iv by (intro that[where iv = iv and l = ?l]) simp_all
qed

lemma restore_item_books:
  assumes "restore_item order prefix it d = Inr d'" "books lo so d"
  shows "books (lo(it_product_id it := lo (it_product_id it) - it_quantity it)) so d' \<and> same_orders d d'"
proof (rule restore_item_Inr[OF assms(1) booksD(1)[OF assms(2)]])
  fix iv l
  assume r: "iv \<in> set (t_inventories d)" "i_product_id iv = it_product_id it"
    "d' = d\<lparr>t_inventories := moved (it_product_id it) (it_quantity it) (- it_quantity it) (t_inventories d),
       t_logs := t_logs d @ [l]\<rparr>"
    "inventory_checks (move (it_quantity it) (- it_quantity it) iv)"
    "l_product_id l = it_product_id it" "l_before_quantity l = i_stock_quantity iv"
    "l_after_quantity l = i_stock_quantity iv + it_quantity it" "l_biz_type l = StockBizOrderRollback"
  have "books (lo(it_product_id it := lo (it_product_id it) - it_quantity it)) so d'"
    by (rule books_moved[OF assms(2) r(1,2) _ _ _ _ r(4), where ls = "[l]" and its = "[]"])
      (use r(5-) in \<open>auto simp: r(3) go_biz_defs\<close>)
  then show ?thesis using r(3) by (simp add: same_orders_def)
qed

lemma restore_items_books:
  assumes "restore_items order prefix its d = Inr d'" "books lo so d"
  shows "books (\<lambda>p. lo p - in_items its p) so d' \<and> same_orders d d'"
  using assms
proof (induction its arbitrary: d lo)
  case (Cons it its)
  then obtain d1 where d1: "restore_item order prefix it d = Inr d1" "restore_items order prefix its d1 = Inr d'"
    by (auto simp: andThen_def split: sum.splits)
  note b = restore_item_books[OF d1(1) Cons.prems(2)]
  have "(\<lambda>p. (lo(it_product_id it := lo (it_product_id it) - it_quantity it)) p - in_items its p) =
      (\<lambda>p. lo p - in_items (it # its) p)" by (auto simp: fun_eq_iff)
  then show ?case using Cons.IH[OF d1(2) conjunct1[OF b]] b same_orders_trans by auto
qed simp

lemma consume_item_books:
  assumes "dao_ConsumeLockedInventory (it_product_id it) (it_quantity it) d = Inr d'" "books lo so d"
  shows "books (lo(it_product_id it := lo (it_product_id it) - it_quantity it))
     (so(it_product_id it := so (it_product_id it) - it_quantity it)) d' \<and> same_orders d d' \<and> t_logs d' = t_logs d"
proof (rule patch_move_Inr[OF assms(1)[unfolded dao_moves] booksD(1)[OF assms(2)]])
  fix iv
  assume r: "iv \<in> set (t_inventories d)" "i_product_id iv = it_product_id it"
    "inventory_checks (move 0 (- it_quantity it) iv)"
    "d' = d\<lparr>t_inventories := moved (it_product_id it) 0 (- it_quantity it) (t_inventories d)\<rparr>"
  have "books (lo(it_product_id it := lo (it_product_id it) - it_quantity it))
     (so(it_product_id it := so (it_product_id it) - it_quantity it)) d'"
    by (rule books_moved[OF assms(2) r(1,2) _ _ _ _ r(3), where ls = "[]" and its = "[]"]) (auto simp: r(4))
  then show ?thesis using r(4) by (simp add: same_orders_def)
qed

lemma consume_items_books:
  assumes "consume_items its d = Inr d'" "books lo so d"
  shows "books (\<lambda>p. lo p - in_items its p) (\<lambda>p. so p - in_items its p) d' \<and> same_orders d d' \<and> t_logs d' = t_logs d"
  using assms
proof (induction its arbitrary: d lo so)
  case (Cons it its)
  then obtain d1 where d1: "dao_ConsumeLockedInventory (it_product_id it) (it_quantity it) d = Inr d1" "consume_items its d1 = Inr d'"
    by (auto simp: andThen_def split: sum.splits)
  note b = consume_item_books[OF d1(1) Cons.prems(2)]
  have e: "(\<lambda>p. (f(it_product_id it := f (it_product_id it) - it_quantity it)) p - in_items its p) =
      (\<lambda>p. f p - in_items (it # its) p)" for f :: "int \<Rightarrow> int" by (auto simp: fun_eq_iff)
  show ?case using Cons.IH[OF d1(2) conjunct1[OF b]] b same_orders_trans unfolding e by auto
qed simp

subsection \<open>Orders and their status\<close>

lemma find_append: "find c (xs @ ys) = (case find c xs of None \<Rightarrow> find c ys | Some x \<Rightarrow> Some x)"
  by (induction xs) auto

lemma find_fresh: "g r \<notin> g ` set rows \<Longrightarrow> find (\<lambda>q. g q = g r) rows = None"
  by (induction rows) auto

lemma find_SomeD: "find c xs = Some x \<Longrightarrow> x \<in> set xs \<and> c x"
  by (induction xs) (auto split: if_splits)

lemma status_of_append:
  "o_id r \<notin> o_id ` set (t_orders d) \<Longrightarrow> t_orders d' = t_orders d @ [r] \<Longrightarrow>
   status_of d' i = (if i = o_id r then o_status r else status_of d i)"
  using find_fresh[of o_id r "t_orders d"] by (auto simp: status_of_def find_append split: option.split)

lemma create_order_books:
  assumes "dao_CreateOrder env r d = Inr d'" "books lo so d"
  shows "books lo so d' \<and> t_orders d' = t_orders d @ [r] \<and> o_id r \<notin> o_id ` set (t_orders d) \<and>
    status_of d' (o_id r) = o_status r \<and> d' = d\<lparr>t_orders := t_orders d @ [r]\<rparr>"
proof -
  have d': "d' = d\<lparr>t_orders := t_orders d @ [r]\<rparr>" and new: "o_id r \<notin> o_id ` set (t_orders d)"
    using assms(1) by (auto simp: dao_CreateOrder_def split: if_splits)
  have st: "status_of d' i = (if i = o_id r then o_status r else status_of d i)" for i
    using status_of_append[OF new, of d' i] d' by simp
  have "it_order_id it \<noteq> o_id r" if "it \<in> set (t_items d)" for it
    using booksD(4)[OF assms(2) that] new by auto
  moreover have "t_items d' = t_items d" by (simp add: d')
  ultimately have "pending d' p = pending d p" "sold d' p = sold d p" for p
    unfolding pending_def sold_def by (auto simp only: st if_False intro!: qty_cong)
  moreover have "supplied d' p = supplied d p" "logs_of p d' = logs_of p d" for p
    by (simp_all add: d' supplied_def logs_of_def)
  ultimately have ok: "inventory_ok lo so d' i = inventory_ok lo so d i" for i
    by (simp add: inventory_ok_def)
  have tables: "t_orders d' = t_orders d @ [r]" "t_inventories d' = t_inventories d" "t_items d' = t_items d"
    "t_logs d' = t_logs d" by (simp_all add: d')
  have "books lo so d'"
    unfolding books_def tables ok using booksD[OF assms(2)] new by auto
  then show ?thesis using d' new st by simp
qed

lemma set_time_simps [simp]:
  "o_id (set_time tf now r) = o_id r" "o_user_id (set_time tf now r) = o_user_id r"
  "o_order_no (set_time tf now r) = o_order_no r" "o_status (set_time tf now r) = o_status r"
  "o_total_amount_fen (set_time tf now r) = o_total_amount_fen r" "o_created_at (set_time tf now r) = o_created_at r"
  by (cases tf; simp)+

text \<open>The row of an order after its status was changed.\<close>

definition restatus :: "int \<Rightarrow> time_field \<Rightarrow> int \<Rightarrow> orders_row \<Rightarrow> orders_row" where
  "restatus to tf now r = set_time tf now (r\<lparr>o_status := to\<rparr>)"

lemma restatus_simps [simp]:
  "o_id (restatus to tf now r) = o_id r" "o_user_id (restatus to tf now r) = o_user_id r"
  "o_order_no (restatus to tf now r) = o_order_no r" "o_status (restatus to tf now r) = to"
  "o_total_amount_fen (restatus to tf now r) = o_total_amount_fen r" "o_created_at (restatus to tf now r) = o_created_at r"
  by (simp_all add: restatus_def)

lemma PatchOrderStatus_Inr:
  assumes "dao_PatchOrderStatus u i from to tf now d = Inr (n, d')" "distinct (map o_id (t_orders d))"
  shows "(n = 0 \<and> d' = d) \<or>
    (n \<noteq> 0 \<and> (\<exists>r \<in> set (t_orders d). o_id r = i \<and> o_user_id r = u \<and> o_status r = from) \<and>
     d' = d\<lparr>t_orders := map (\<lambda>q. if o_id q = i then restatus to tf now q else q) (t_orders d)\<rparr>)"
proof -
  let ?c = "\<lambda>r. o_user_id r = u \<and> o_id r = i \<and> o_status r = from"
  have n: "n = length (filter ?c (t_orders d))"
    and d': "d' = d\<lparr>t_orders := map (\<lambda>r. if ?c r then restatus to tf now r else r) (t_orders d)\<rparr>"
    using assms(1) by (auto simp: dao_PatchOrderStatus_def andThen_def update_rows_def restatus_def split: if_splits)
  show ?thesis
  proof (cases "n = 0")
    case True
    then have "map (\<lambda>r. if ?c r then restatus to tf now r else r) (t_orders d) = t_orders d"
      using n by (intro map_idI) (auto simp: filter_empty_conv)
    then show ?thesis using True d' by simp
  next
    case False
    then have "filter ?c (t_orders d) \<noteq> []" using n by auto
    then obtain r where r: "r \<in> set (t_orders d)" "?c r" by (auto simp: filter_empty_conv)
    have "?c q \<longleftrightarrow> o_id q = i" if "q \<in> set (t_orders d)" for q
      using assms(2) that r by (auto simp: distinct_map dest: inj_onD)
    then have "map (\<lambda>q. if ?c q then restatus to tf now q else q) (t_orders d) =
        map (\<lambda>q. if o_id q = i then restatus to tf now q else q) (t_orders d)"
      by (intro map_cong) auto
    then show ?thesis using False d' r by auto
  qed
qed

lemma status_of_restatus:
  assumes "t_orders d' = map (\<lambda>q. if o_id q = i then restatus to tf now q else q) (t_orders d)"
    and "i \<in> o_id ` set (t_orders d)"
  shows "status_of d' = (status_of d)(i := to)"
proof
  fix j
  have "find (\<lambda>r. o_id r = j) (t_orders d') =
      map_option (\<lambda>q. if o_id q = i then restatus to tf now q else q) (find (\<lambda>r. o_id r = j) (t_orders d))"
    unfolding assms(1) by (rule find_map_same) simp
  moreover have "j \<noteq> i" if "find (\<lambda>r. o_id r = j) (t_orders d) = None"
    using that assms(2) by (auto simp: find_None_iff)
  ultimately show "status_of d' j = ((status_of d)(i := to)) j"
    by (cases "find (\<lambda>r. o_id r = j) (t_orders d)") (auto simp: status_of_def dest: find_SomeD)
qed

text \<open>
  A change of status moves the items of the order between \<open>pending\<close> and \<open>sold\<close>, which leaves a debt
  until the stock of each item has followed.
\<close>

lemma restatus_books:
  assumes "books lo so d" "i \<in> o_id ` set (t_orders d)"
    and d': "d' = d\<lparr>t_orders := map (\<lambda>q. if o_id q = i then restatus to tf now q else q) (t_orders d)\<rparr>"
    and lo': "\<And>p. lo' p = lo p + (if status_of d i = OrderStatusPending then order_qty d i p else 0)
               - (if to = OrderStatusPending then order_qty d i p else 0)"
    and so': "\<And>p. so' p = so p + (if to \<in> {OrderStatusPaid, OrderStatusFinished} then order_qty d i p else 0)
               - (if status_of d i \<in> {OrderStatusPaid, OrderStatusFinished} then order_qty d i p else 0)"
  shows "books lo' so' d'"
proof -
  have tables: "t_inventories d' = t_inventories d" "t_items d' = t_items d" "t_logs d' = t_logs d"
    "map o_id (t_orders d') = map o_id (t_orders d)" by (auto simp: d' comp_def)
  have st: "status_of d' = (status_of d)(i := to)" by (rule status_of_restatus[where tf = tf and now = now]) (simp_all add: d' assms(2))
  have "(\<lambda>j. status_of d' j \<in> S) = (\<lambda>j. status_of d j \<in> S)(i := (to \<in> S))" for S
    by (auto simp: st)
  then have q: "qty (t_items d) (\<lambda>j. status_of d' j \<in> S) p = qty (t_items d) (\<lambda>j. status_of d j \<in> S) p
      + (if to \<in> S then order_qty d i p else 0) - (if status_of d i \<in> S then order_qty d i p else 0)" for S p
    by (simp add: qty_upd order_qty_def)
  have pend: "pending d' p = pending d p + (if to = OrderStatusPending then order_qty d i p else 0)
      - (if status_of d i = OrderStatusPending then order_qty d i p else 0)" for p
    using q[of "{OrderStatusPending}" p] by (simp add: pending_def tables)
  have sol: "sold d' p = sold d p + (if to \<in> {OrderStatusPaid, OrderStatusFinished} then order_qty d i p else 0)
      - (if status_of d i \<in> {OrderStatusPaid, OrderStatusFinished} then order_qty d i p else 0)" for p
    using q[of "{OrderStatusPaid, OrderStatusFinished}" p] by (simp add: sold_def tables)
  have "supplied d' p = supplied d p" "logs_of p d' = logs_of p d" for p
    by (simp_all add: supplied_def logs_of_def tables)
  then have ok: "inventory_ok lo' so' d' k = inventory_ok lo so d k" for k
    unfolding inventory_ok_def pend sol lo' so' by auto
  have ids: "o_id ` set (t_orders d') = o_id ` set (t_orders d)" using tables(4) by (metis set_map)
  show ?thesis unfolding books_def tables ids ok using booksD[OF assms(1)] by auto
qed

subsection \<open>The items of an order, aggregated\<close>

lemma foldl_wrap64:
  assumes "\<And>it. it \<in> set its \<Longrightarrow> 0 \<le> it_quantity it" "0 \<le> a" "a + sum_list (map it_quantity its) < 2 ^ 63"
  shows "foldl (\<lambda>q it. wrap64 (q + it_quantity it)) a its = a + sum_list (map it_quantity its)"
  using assms
proof (induction its arbitrary: a)
  case (Cons it its)
  have "0 \<le> sum_list (map it_quantity its)" using Cons.prems(1) by (intro sum_list_nonneg) auto
  moreover have "0 \<le> it_quantity it" using Cons.prems(1) by simp
  ultimately have "wrap64 (a + it_quantity it) = a + it_quantity it"
    using Cons.prems(2,3) by (intro wrap64_id) (simp add: int64_def)
  then show ?case using Cons by (simp add: algebra_simps)
qed simp

lemma in_items_map:
  "(\<And>p. p \<in> set ps \<Longrightarrow> it_product_id (f p) = p) \<Longrightarrow> distinct ps \<Longrightarrow>
   in_items (map f ps) p = (if p \<in> set ps then it_quantity (f p) else 0)"
  by (induction ps) auto

lemma aggregate_quantity:
  assumes "\<And>it. it \<in> set its \<Longrightarrow> 0 \<le> it_quantity it \<and> 0 < it_product_id it"
    and "\<And>p. in_items its p < 2 ^ 63"
  shows "in_items (aggregateAndSortOrderItems its) p = in_items its p"
proof -
  let ?mine = "\<lambda>p. filter (\<lambda>it. it_product_id it = p) its"
  let ?f = "\<lambda>p. (last (?mine p))\<lparr>it_quantity := foldl (\<lambda>q it. wrap64 (q + it_quantity it)) 0 (?mine p),
      it_subtotal_fen := wrap64 (it_product_price_fen (last (?mine p)) * foldl (\<lambda>q it. wrap64 (q + it_quantity it)) 0 (?mine p))\<rparr>"
  let ?ps = "sort (remdups (filter (\<lambda>p. 0 < p) (map it_product_id its)))"
  have agg: "aggregateAndSortOrderItems its = map ?f ?ps"
    by (simp add: aggregateAndSortOrderItems_def Let_def)
  have ps: "set ?ps = it_product_id ` set its" using assms(1) by auto
  have pid: "it_product_id (?f q) = q" if "q \<in> set ?ps" for q
  proof -
    have "?mine q \<noteq> []" using that ps by (auto simp: filter_empty_conv)
    then have "last (?mine q) \<in> set (?mine q)" by (rule last_in_set)
    then show ?thesis by simp
  qed
  have "sum_list (map it_quantity (?mine q)) = in_items its q" for q by (simp add: qty_def)
  then have "it_quantity (?f q) = in_items its q" for q
    using foldl_wrap64[of "?mine q" 0] assms by simp
  moreover have "in_items its p = 0" if "p \<notin> set ?ps" using that qty_no_product unfolding ps by simp
  ultimately show ?thesis unfolding agg using in_items_map[of ?ps ?f p] pid by simp
qed

lemma in_items_order: "in_items (dao_ListOrderItemsByOrderIDForInventory i d) p = order_qty d i p"
proof -
  have "filter (\<lambda>it. it_product_id it = p) (dao_ListOrderItemsByOrderIDForInventory i d) =
      filter (\<lambda>it. it_product_id it = p) (filter (\<lambda>it. it_order_id it = i) (t_items d))"
    unfolding dao_ListOrderItemsByOrderIDForInventory_def by (rule sort_key_stable)
  then show ?thesis by (simp add: order_qty_def qty_def conj_commute)
qed

text \<open>The aggregated items of an order that is pending hold exactly what the order holds.\<close>

lemma order_qty_le_pending:
  assumes "books lo so d" "status_of d i = OrderStatusPending"
  shows "order_qty d i p \<le> pending d p"
  unfolding order_qty_def pending_def using assms(2) booksD(5)[OF assms(1)]
  by (intro qty_mono) (auto intro: less_imp_le)

lemma order_qty_nonneg: "books lo so d \<Longrightarrow> 0 \<le> order_qty d i p"
  unfolding order_qty_def using booksD(5) by (intro qty_nonneg) (auto intro: less_imp_le)

lemma pending_bound:
  assumes "balanced d" shows "pending d p < 2 ^ 63"
proof (cases "p \<in> i_product_id ` set (t_inventories d)")
  case True
  then obtain iv where "iv \<in> set (t_inventories d)" "i_product_id iv = p" by auto
  then show ?thesis using booksD(3)[OF assms, of iv] by (auto simp: inventory_ok_def inventory_checks_def int64_def)
next
  case False
  then have "p \<notin> it_product_id ` set (t_items d)" using booksD(6)[OF assms] by auto
  then show ?thesis using qty_no_product by (simp add: pending_def)
qed

lemma aggregate_order:
  assumes "balanced d" "status_of d i = OrderStatusPending"
  shows "in_items (aggregateAndSortOrderItems (dao_ListOrderItemsByOrderIDForInventory i d)) p = order_qty d i p"
proof -
  have "0 \<le> it_quantity it \<and> 0 < it_product_id it" if "it \<in> set (dao_ListOrderItemsByOrderIDForInventory i d)" for it
  proof -
    have it: "it \<in> set (t_items d)" using that by (auto simp: dao_ListOrderItemsByOrderIDForInventory_def)
    then obtain iv where "iv \<in> set (t_inventories d)" "i_product_id iv = it_product_id it"
      using booksD(6)[OF assms(1)] by fastforce
    then have "0 < it_product_id it" using booksD(3)[OF assms(1), of iv] by (simp add: inventory_ok_def)
    then show ?thesis using booksD(5)[OF assms(1) it] by simp
  qed
  moreover have "order_qty d i p < 2 ^ 63" for p
    using order_qty_le_pending[OF assms, of p] pending_bound[OF assms(1), of p] by simp
  ultimately show ?thesis using aggregate_quantity by (simp add: in_items_order)
qed

subsection \<open>The transactions keep the books\<close>

lemma cancelPendingOrder_books:
  assumes "cancelPendingOrder now order prefix d = Inr (did, d')" "balanced d"
  shows "balanced d'"
proof -
  obtain n d1 where patch: "dao_PatchOrderStatus (o_user_id order) (o_id order) OrderStatusPending
      OrderStatusCancelled CancelledAt now d = Inr (n, d1)"
    using assms(1) by (auto simp: cancelPendingOrder_def andThen_def split: sum.splits)
  note cases = PatchOrderStatus_Inr[OF patch booksD(2)[OF assms(2)]]
  show ?thesis
  proof (cases "n = 0")
    case True
    then show ?thesis using assms cases patch by (simp add: cancelPendingOrder_def)
  next
    case False
    let ?its = "aggregateAndSortOrderItems (dao_ListOrderItemsByOrderIDForInventory (o_id order) d1)"
    have d1: "d1 = d\<lparr>t_orders := map (\<lambda>q. if o_id q = o_id order then restatus OrderStatusCancelled CancelledAt now q else q) (t_orders d)\<rparr>"
      and ex: "\<exists>r \<in> set (t_orders d). o_id r = o_id order \<and> o_status r = OrderStatusPending"
      using cases False by auto
    from ex have st: "status_of d (o_id order) = OrderStatusPending" and mem: "o_id order \<in> o_id ` set (t_orders d)"
      using status_of_row[OF booksD(2)[OF assms(2)]] by (metis, metis imageI)
    have "books (order_qty d (o_id order)) (\<lambda>_. 0) d1"
      by (rule restatus_books[OF assms(2) mem d1]) (use st in \<open>auto simp: go_status_defs\<close>)
    moreover have "restore_items order prefix ?its d1 = Inr d'"
      using assms(1) patch False by (auto simp: cancelPendingOrder_def andThen_def split: sum.splits)
    moreover have "in_items ?its = order_qty d (o_id order)"
      using aggregate_order[OF assms(2) st]
      by (simp add: fun_eq_iff d1 dao_ListOrderItemsByOrderIDForInventory_def)
    ultimately show ?thesis
      using restore_items_books[of order prefix ?its d1 d' "order_qty d (o_id order)" "\<lambda>_. 0"] by simp
  qed
qed

lemma pay_transaction_books:
  assumes "pay_transaction now u i d = Inr (x, d')" "balanced d"
  shows "balanced d'"
proof -
  obtain n d1 where patch: "dao_PatchOrderStatus u i OrderStatusPending OrderStatusPaid PaidAt now d = Inr (n, d1)"
    and n: "n \<noteq> 0"
    using assms(1) by (auto simp: pay_transaction_def andThen_def split: sum.splits if_splits)
  let ?its = "aggregateAndSortOrderItems (dao_ListOrderItemsByOrderIDForInventory i d1)"
  have d1: "d1 = d\<lparr>t_orders := map (\<lambda>q. if o_id q = i then restatus OrderStatusPaid PaidAt now q else q) (t_orders d)\<rparr>"
    and ex: "\<exists>r \<in> set (t_orders d). o_id r = i \<and> o_status r = OrderStatusPending"
    using PatchOrderStatus_Inr[OF patch booksD(2)[OF assms(2)]] n by auto
  from ex have st: "status_of d i = OrderStatusPending" and mem: "i \<in> o_id ` set (t_orders d)"
    using status_of_row[OF booksD(2)[OF assms(2)]] by (metis, metis imageI)
  have "books (order_qty d i) (order_qty d i) d1"
    by (rule restatus_books[OF assms(2) mem d1]) (use st in \<open>auto simp: go_status_defs\<close>)
  moreover have "consume_items ?its d1 = Inr d'"
    using assms(1) patch n by (auto simp: pay_transaction_def andThen_def split: sum.splits)
  moreover have "in_items ?its = order_qty d i"
    using aggregate_order[OF assms(2) st] by (simp add: fun_eq_iff d1 dao_ListOrderItemsByOrderIDForInventory_def)
  ultimately show ?thesis using consume_items_books[of ?its d1 d' "order_qty d i" "order_qty d i"] by simp
qed

lemma finish_statement_books:
  assumes "finish_statement now u i d = Inr (x, d')" "balanced d"
  shows "balanced d'"
proof -
  obtain n where patch: "dao_PatchOrderStatus u i OrderStatusPaid OrderStatusFinished CompletedAt now d = Inr (n, d')"
    and n: "n \<noteq> 0"
    using assms(1) by (auto simp: finish_statement_def andThen_def split: sum.splits if_splits)
  have d': "d' = d\<lparr>t_orders := map (\<lambda>q. if o_id q = i then restatus OrderStatusFinished CompletedAt now q else q) (t_orders d)\<rparr>"
    and ex: "\<exists>r \<in> set (t_orders d). o_id r = i \<and> o_status r = OrderStatusPaid"
    using PatchOrderStatus_Inr[OF patch booksD(2)[OF assms(2)]] n by auto
  from ex have st: "status_of d i = OrderStatusPaid" and mem: "i \<in> o_id ` set (t_orders d)"
    using status_of_row[OF booksD(2)[OF assms(2)]] by (metis, metis imageI)
  show ?thesis by (rule restatus_books[OF assms(2) mem d']) (use st in \<open>auto simp: go_status_defs\<close>)
qed

lemma add_transaction_Inr:
  assumes "add_transaction p q d = Inr (after, d')" "distinct (map i_product_id (t_inventories d))" "int64 q"
  obtains iv l where "iv \<in> set (t_inventories d)" "i_product_id iv = p" "after = i_stock_quantity iv + q"
    "d' = d\<lparr>t_inventories := moved p q 0 (t_inventories d), t_logs := t_logs d @ [l]\<rparr>"
    "inventory_checks (move q 0 iv)" "l_product_id l = p" "l_before_quantity l = i_stock_quantity iv"
    "l_after_quantity l = i_stock_quantity iv + q" "l_biz_type l = StockBizManualAdd" "l_change_quantity l = q"
proof -
  obtain iv where get: "dao_GetInventoryByProductIDForUpdate p d = Inr iv"
    using assms(1) by (cases "dao_GetInventoryByProductIDForUpdate p d") (auto simp: add_transaction_def onNotFound_def)
  obtain pr where pr: "dao_GetProductByID p d = Inr pr"
    using assms(1) get by (cases "dao_GetProductByID p d") (auto simp: add_transaction_def onNotFound_def)
  let ?after = "wrap64 (i_stock_quantity iv + q)"
  let ?l = "\<lparr>l_product_id = p, l_change_quantity = q, l_before_quantity = i_stock_quantity iv, l_after_quantity = ?after,
     l_biz_type = StockBizManualAdd, l_biz_id = None, l_remark = addInventoryRemarkPrefix @ p_name pr\<rparr>"
  obtain d1 where upd: "dao_UpdateInventoryStockQuantity p ?after d = Inr d1"
    using assms(1) get pr by (cases "dao_UpdateInventoryStockQuantity p ?after d") (auto simp: add_transaction_def Let_def)
  have log: "dao_CreateStockLog ?l d1 = Inr d'" and after: "after = ?after"
    using assms(1) get pr upd by (auto simp: add_transaction_def Let_def onError_def andThen_def split: sum.splits)
  obtain k where k: "k \<in> set (t_inventories d)" "i_product_id k = p" "inventory_checks (k\<lparr>i_stock_quantity := ?after\<rparr>)"
      "d1 = d\<lparr>t_inventories := map (\<lambda>j. if i_product_id j = p then j\<lparr>i_stock_quantity := ?after\<rparr> else j) (t_inventories d)\<rparr>"
  proof (rule patch_inventories_Inr[OF _ assms(2)])
    show "patch_inventories ErrRecordNotFound (\<lambda>i. i_product_id i = p \<and> True) (\<lambda>j. j\<lparr>i_stock_quantity := ?after\<rparr>) d = Inr d1"
      using upd by (simp add: dao_UpdateInventoryStockQuantity_def)
  qed
  have iv: "iv = k" using GetInventory_Inr[OF get assms(2) k(1,2)] .
  have d': "d' = d1\<lparr>t_logs := t_logs d1 @ [?l]\<rparr>" and bal: "?after = i_stock_quantity iv + q"
    using log by (auto simp: dao_CreateStockLog_def log_checks_def split: if_splits)
  have same: "j = k" if "j \<in> set (t_inventories d)" "i_product_id j = p" for j
    using assms(2) that k(1,2) by (auto simp: distinct_map dest: inj_onD)
  have "(if i_product_id j = p then j\<lparr>i_stock_quantity := ?after\<rparr> else j) = (if i_product_id j = p then move q 0 j else j)"
    if "j \<in> set (t_inventories d)" for j
    using same[OF that] bal iv by (auto intro: inventory_row.equality)
  then have "map (\<lambda>j. if i_product_id j = p then j\<lparr>i_stock_quantity := ?after\<rparr> else j) (t_inventories d) = moved p q 0 (t_inventories d)"
    unfolding moved_def by (intro map_cong) auto
  moreover have "inventory_checks (move q 0 iv)" using k(3) bal iv int64_wrap64[of "i_stock_quantity k + q"] by (simp add: inventory_checks_def)
  ultimately show ?thesis using k iv d' bal after by (intro that[where iv = iv and l = ?l]) simp_all
qed

lemma add_transaction_books:
  assumes "add_transaction p q d = Inr (after, d')" "balanced d" "int64 q"
  shows "balanced d' \<and> same_orders d d'"
proof (rule add_transaction_Inr[OF assms(1) booksD(1)[OF assms(2)] assms(3)])
  fix iv l
  assume r: "iv \<in> set (t_inventories d)" "i_product_id iv = p"
    "d' = d\<lparr>t_inventories := moved p q 0 (t_inventories d), t_logs := t_logs d @ [l]\<rparr>"
    "inventory_checks (move q 0 iv)" "l_product_id l = p" "l_before_quantity l = i_stock_quantity iv"
    "l_after_quantity l = i_stock_quantity iv + q" "l_biz_type l = StockBizManualAdd" "l_change_quantity l = q"
  have "balanced d'"
    by (rule books_moved[OF assms(2) r(1,2) _ _ _ _ r(4), where ls = "[l]" and its = "[]"])
      (use r(5-) in \<open>auto simp: r(3) go_biz_defs\<close>)
  then show ?thesis using r(3) by (simp add: same_orders_def)
qed

lemma init_transaction_books:
  assumes "init_transaction pr q d = Inr (x, d')" "balanced d" "0 < p_id pr"
  shows "balanced d' \<and> same_orders d d' \<and> p_id pr \<notin> i_product_id ` set (t_inventories d) \<and> 0 \<le> q \<and>
    (\<exists>iv. i_product_id iv = p_id pr \<and> i_stock_quantity iv = q \<and> t_inventories d' = t_inventories d @ [iv])"
proof -
  let ?iv = "\<lparr>i_id = next_id (t_inventories d), i_product_id = p_id pr, i_stock_quantity = q, i_locked_quantity = 0\<rparr>"
  let ?l = "\<lparr>l_product_id = p_id pr, l_change_quantity = q, l_before_quantity = 0, l_after_quantity = q,
     l_biz_type = StockBizInit, l_biz_id = None, l_remark = initInventoryRemarkPrefix @ p_name pr\<rparr>"
  have new: "p_id pr \<notin> i_product_id ` set (t_inventories d)" and ok: "inventory_checks ?iv"
    and d': "d' = d\<lparr>t_inventories := t_inventories d @ [?iv], t_logs := t_logs d @ [?l]\<rparr>"
    using assms(1)
    by (auto simp: init_transaction_def dao_InitInventory_def dao_CreateStockLog_def onError_def andThen_def Let_def
        split: if_splits)
  note q = quantities_append[of d' d "[]" "[?l]"]
  have t: "t_orders d' = t_orders d" "t_items d' = t_items d @ []" "t_logs d' = t_logs d @ [?l]"
    "t_inventories d' = t_inventories d @ [?iv]" by (simp_all add: d')
  have none: "p_id pr \<notin> it_product_id ` set (t_items d)" "logs_of (p_id pr) d = []"
    using booksD(6,7)[OF assms(2)] new unfolding logs_of_def filter_empty_conv by (auto, metis)
  then have "pending d (p_id pr) = 0" "sold d (p_id pr) = 0" "supplied d (p_id pr) = 0"
    by (simp_all add: pending_def sold_def qty_no_product supplied_def)
  then have "inventory_ok (\<lambda>_. 0) (\<lambda>_. 0) d' ?iv"
    using ok none assms(3) by (simp add: inventory_ok_def q[OF t(1-3)] go_biz_defs)
  moreover have "inventory_ok (\<lambda>_. 0) (\<lambda>_. 0) d' k" if "k \<in> set (t_inventories d)" for k
  proof -
    have "i_product_id k \<noteq> p_id pr" using that new by (metis imageI)
    then show ?thesis using booksD(3)[OF assms(2) that] by (simp add: inventory_ok_def q[OF t(1-3)])
  qed
  ultimately have "balanced d'"
    unfolding books_def t(1,3,4) using booksD[OF assms(2)] new t(2) by auto
  then show ?thesis using new ok t(4) by (auto simp: d' same_orders_def inventory_checks_def)
qed

lemma find_products_Inr:
  "find_products is d = Inr products \<Longrightarrow> i \<in> set is \<Longrightarrow>
   \<exists>pr. products (ci_product_id i) = Some pr \<and> pr \<in> set (t_products d) \<and> p_id pr = ci_product_id i \<and>
     p_status pr = ProductStatusOnSale"
proof (induction "is" arbitrary: products)
  case (Cons j "is")
  obtain pr where get: "dao_GetProductByID (ci_product_id j) d = Inr pr" and on: "p_status pr = ProductStatusOnSale"
    using Cons.prems(1) by (cases "dao_GetProductByID (ci_product_id j) d") (auto simp: onNotFound_def split: if_splits)
  then obtain ps where ps: "find_products is d = Inr ps" "products = ps(ci_product_id j \<mapsto> pr)"
    using Cons.prems(1) by (cases "find_products is d") auto
  have pr: "pr \<in> set (t_products d)" "p_id pr = ci_product_id j"
    using first_row_Inr[OF get[unfolded dao_GetProductByID_def]] by auto
  show ?case
  proof (cases "ci_product_id i = ci_product_id j")
    case True
    then show ?thesis using ps pr on by simp
  next
    case False
    then have "i \<in> set is" using Cons.prems(2) by auto
    then show ?thesis using Cons.IH[OF ps(1)] ps(2) False by simp
  qed
qed simp

text \<open>What a successful creation did, statement by statement.\<close>

lemma new_order_Inr:
  assumes "new_order env c user key items d = Inr (order, d')"
  obtains products d1 d2 d3 where
    "find_products items d = Inr products"
    "order = \<lparr>o_id = c_order_id c, o_user_id = user, o_order_no = generateOrderNo c,
       o_total_amount_fen = totalAmountFen products items, o_status = OrderStatusPending, o_paid_at = None,
       o_completed_at = None, o_cancelled_at = None, o_created_at = c_now c\<rparr>"
    "dao_CreateOrder env order d = Inr d1" "place_items order products items d1 = Inr d2"
    "dao_CompleteOrderIdempotencyKey env user key (o_id order) d2 = Inr (1, d3)"
    "dao_CreateOrderTimeoutOutbox env \<lparr>x_event_id = c_event_id c, x_order_id = o_id order, x_user_id = user,
       x_timeout_at = o_created_at order + c_order_timeout c, x_next_attempt_at = c_later c\<rparr> d3 = Inr d'"
  using assms unfolding new_order_def Let_def
  by (auto simp: andThen_def split: sum.splits if_splits prod.splits)

lemma new_order_books:
  assumes "new_order env c user key items d = Inr (order, d')" "balanced d"
  shows "balanced d'"
proof (rule new_order_Inr[OF assms(1)])
  fix products d1 d2 d3
  assume r: "find_products items d = Inr products"
    "order = \<lparr>o_id = c_order_id c, o_user_id = user, o_order_no = generateOrderNo c,
       o_total_amount_fen = totalAmountFen products items, o_status = OrderStatusPending, o_paid_at = None,
       o_completed_at = None, o_cancelled_at = None, o_created_at = c_now c\<rparr>"
    "dao_CreateOrder env order d = Inr d1" "place_items order products items d1 = Inr d2"
    "dao_CompleteOrderIdempotencyKey env user key (o_id order) d2 = Inr (1, d3)"
    "dao_CreateOrderTimeoutOutbox env \<lparr>x_event_id = c_event_id c, x_order_id = o_id order, x_user_id = user,
       x_timeout_at = o_created_at order + c_order_timeout c, x_next_attempt_at = c_later c\<rparr> d3 = Inr d'"
  note c = create_order_books[OF r(3) assms(2)]
  have "balanced d2"
    using place_items_books[OF r(4) conjunct1[OF c]] c find_products_Inr[OF r(1)] r(2) by fastforce
  moreover have "books lo so d3 \<longleftrightarrow> books lo so d2" for lo so
    using r(5) by (intro books_same_tables) (auto simp: dao_CompleteOrderIdempotencyKey_def andThen_def split: sum.splits)
  moreover have "books lo so d' \<longleftrightarrow> books lo so d3" for lo so
    using r(6) by (intro books_same_tables) (auto simp: dao_CreateOrderTimeoutOutbox_def split: if_splits)
  ultimately show ?thesis by simp
qed

end
