(* ===== verification/Backend.thy ===== *)
theory Backend
  imports Books "HOL-Library.Sublist" "HOL-Library.Multiset"
begin

section \<open>Runs of the backend\<close>

text \<open>
  The calls of the services in any order. A call that reads before its transaction may have read the
  tables of any earlier time: \<open>past\<close> holds them all. A request has passed the binding of its handler,
  so its integers have 64 bits and an order has items; identifiers of orders are positive.
\<close>

datatype backend_op =
  OpCreateProduct bool jsstr jsstr int
| OpOnSale bool int db
| OpOffSale bool int db
| OpInit surroundings int "int option" db
| OpAdd surroundings int int
| OpCreateOrder surroundings int create_request
| OpCancel surroundings int int
| OpExpire surroundings jsstr int
| OpPay surroundings int int db
| OpFinish surroundings int int db
| OpRebuild link
| OpAutoFix "(report_item \<times> link) list"

fun run_op :: "db_env \<Rightarrow> backend_op \<Rightarrow> backend \<Rightarrow> backend" where
  "run_op env (OpCreateProduct served name desc price) b = snd (CreateProduct served name desc price b)"
| "run_op env (OpOnSale served i early) b = snd (OnSaleProduct served i early b)"
| "run_op env (OpOffSale served i early) b = snd (OffSaleProduct served i early b)"
| "run_op env (OpInit c p stock early) b = snd (InitInventory c p stock early b)"
| "run_op env (OpAdd c p q) b = snd (AddInventory c p q b)"
| "run_op env (OpCreateOrder c user req) b = snd (CreateOrder env c user req b)"
| "run_op env (OpCancel c user i) b = snd (CancelOrder c user i b)"
| "run_op env (OpExpire c event i) b = snd (CancelExpiredOrder env c event i b)"
| "run_op env (OpPay c user i early) b = snd (PayOrder c user i early b)"
| "run_op env (OpFinish c user i early) b = snd (FinishOrder c user i early b)"
| "run_op env (OpRebuild l) b = snd (RebuildRedisInventoryStock l b)"
| "run_op env (OpAutoFix is) b = AutoFixRedisInventoryStock is b"

fun admitted :: "db list \<Rightarrow> backend_op \<Rightarrow> bool" where
  "admitted past (OpOnSale served i early) \<longleftrightarrow> early \<in> set past"
| "admitted past (OpOffSale served i early) \<longleftrightarrow> early \<in> set past"
| "admitted past (OpInit c p stock early) \<longleftrightarrow> early \<in> set past"
| "admitted past (OpAdd c p q) \<longleftrightarrow> int64 q"
| "admitted past (OpCreateOrder c user req) \<longleftrightarrow> co_items req \<noteq> [] \<and> 0 < c_order_id c"
| "admitted past (OpPay c user i early) \<longleftrightarrow> early \<in> set past"
| "admitted past (OpFinish c user i early) \<longleftrightarrow> early \<in> set past"
| "admitted past _ \<longleftrightarrow> True"

definition start_backend :: backend where
  "start_backend = \<lparr>bk_db = empty_db, bk_redis = \<lparr>r_available = \<lambda>_. None, r_reservation = \<lambda>_. None\<rparr>, bk_metrics = []\<rparr>"

type_synonym world = "db list \<times> backend"

definition start_world :: world where
  "start_world = ([empty_db], start_backend)"

inductive backend_step :: "db_env \<Rightarrow> world \<Rightarrow> backend_op \<Rightarrow> world \<Rightarrow> bool" for env where
  call: "admitted past op \<Longrightarrow> b' = run_op env op b \<Longrightarrow> backend_step env (past, b) op (bk_db b' # past, b')"

inductive backend_runs :: "db_env \<Rightarrow> world \<Rightarrow> world \<Rightarrow> bool" for env where
  stop: "backend_runs env w w"
| more: "backend_runs env w w' \<Longrightarrow> backend_step env w' op w'' \<Longrightarrow> backend_runs env w w''"

inductive_cases backend_stepE: "backend_step env w op w'"

abbreviation reachable :: "db_env \<Rightarrow> db list \<Rightarrow> backend \<Rightarrow> bool" where
  "reachable env past b \<equiv> backend_runs env start_world (past, b)"

subsection \<open>What the rows say of each other\<close>

text \<open>
  Orders, idempotency keys and timeouts are created together, one of each, and never removed. The total
  of an order is the sum of its items as Go computes it.
\<close>

definition items_of :: "int \<Rightarrow> db \<Rightarrow> item_row list" where
  "items_of i d = filter (\<lambda>it. it_order_id it = i) (t_items d)"

definition order_ok :: "db \<Rightarrow> orders_row \<Rightarrow> bool" where
  "order_ok d r \<longleftrightarrow> 0 < o_id r \<and> 0 < o_user_id r \<and> order_checks r \<and> items_of (o_id r) d \<noteq> [] \<and>
     distinct (map it_product_id (items_of (o_id r) d)) \<and>
     (\<forall>it \<in> set (items_of (o_id r) d). item_checks it \<and> it_subtotal_fen it = wrap64 (it_product_price_fen it * it_quantity it)) \<and>
     o_total_amount_fen r = foldl (\<lambda>t it. wrap64 (t + it_subtotal_fen it)) 0 (items_of (o_id r) d)"

definition records :: "db_env \<Rightarrow> db \<Rightarrow> bool" where
  "records env d \<longleftrightarrow>
     map p_id (t_products d) = map (\<lambda>k. int k + 1) [0..<length (t_products d)] \<and>
     map (\<lambda>k. (k_user_id k, k_order_id k, k_status k)) (t_keys d) =
       map (\<lambda>r. (o_user_id r, Some (o_id r), OrderAlreadyCreated)) (t_orders d) \<and>
     distinct (map (\<lambda>k. (k_user_id k, collate env (k_idempotency_key k))) (t_keys d)) \<and>
     map (\<lambda>x. (x_user_id x, x_order_id x)) (t_outbox d) = map (\<lambda>r. (o_user_id r, o_id r)) (t_orders d) \<and>
     (\<forall>r \<in> set (t_orders d). order_ok d r)"

definition sound :: "db_env \<Rightarrow> db \<Rightarrow> bool" where
  "sound env d \<longleftrightarrow> balanced d \<and> records env d"

lemma sound_empty: "sound env empty_db"
  by (simp add: sound_def books_empty records_def) (simp add: empty_db_def)

text \<open>What later tables keep of earlier ones: of a product all but its status, of an order all but the
  status and its times.\<close>

definition offer :: "products_row \<Rightarrow> int \<times> jsstr \<times> jsstr \<times> int" where
  "offer p = (p_id p, p_name p, p_description p, p_price_fen p)"

definition core :: "orders_row \<Rightarrow> int \<times> int \<times> jsstr \<times> int \<times> int" where
  "core r = (o_id r, o_user_id r, o_order_no r, o_total_amount_fen r, o_created_at r)"

definition grows :: "db \<Rightarrow> db \<Rightarrow> bool" where
  "grows d d' \<longleftrightarrow> prefix (map offer (t_products d)) (map offer (t_products d')) \<and>
     prefix (map i_product_id (t_inventories d)) (map i_product_id (t_inventories d')) \<and>
     prefix (map core (t_orders d)) (map core (t_orders d')) \<and> prefix (t_items d) (t_items d') \<and>
     prefix (t_logs d) (t_logs d') \<and> prefix (t_keys d) (t_keys d') \<and> prefix (t_outbox d) (t_outbox d')"

lemma grows_refl [simp]: "grows d d"
  by (simp add: grows_def)

lemma grows_trans: "grows d d' \<Longrightarrow> grows d' d'' \<Longrightarrow> grows d d''"
  unfolding grows_def by (meson prefix_order.trans)

subsection \<open>The committed transactions\<close>

text \<open>What a call may have did to the tables when it changed them: the transaction it committed.\<close>

inductive committed :: "db_env \<Rightarrow> db list \<Rightarrow> backend_op \<Rightarrow> db \<Rightarrow> db \<Rightarrow> bool" for env past where
  product: "dao_CreateProduct \<lparr>p_id = 0, p_name = n, p_description = e, p_price_fen = price,
      p_status = ProductStatusOffSale\<rparr> d = Inr (p, d') \<Longrightarrow> committed env past (OpCreateProduct served name desc price) d d'"
| on_sale: "dao_UpdateProductStatus j ProductStatusOnSale d = Inr (x, d') \<Longrightarrow> committed env past (OpOnSale served i early) d d'"
| off_sale: "dao_UpdateProductStatus j ProductStatusOffSale d = Inr (x, d') \<Longrightarrow> committed env past (OpOffSale served i early) d d'"
| initialise: "early \<in> set past \<Longrightarrow> dao_GetProductByID i early = Inr p \<Longrightarrow> init_transaction p q d = Inr (x, d') \<Longrightarrow>
      committed env past (OpInit c i (Some q) early) d d'"
| add: "int64 q \<Longrightarrow> add_transaction p q d = Inr (after, d') \<Longrightarrow> committed env past (OpAdd c p q) d d'"
| create: "co_items req \<noteq> [] \<Longrightarrow> 0 < c_order_id c \<Longrightarrow> 0 < user \<Longrightarrow> validateDuplicateItems (co_items req) = Inr () \<Longrightarrow>
      create_transaction env c user (co_idempotency_key req) (buildCreateOrderRequestHash env req)
        (sortedOrderItems (co_items req)) d = Inr (x, d') \<Longrightarrow> committed env past (OpCreateOrder c user req) d d'"
| cancel: "cancel_transaction (c_now c) user i d = Inr (how, d') \<Longrightarrow> committed env past (OpCancel c user i) d d'"
| expire: "expire_transaction env (c_now c) event i d = Inr (how, d') \<Longrightarrow> committed env past (OpExpire c event i) d d'"
| pay: "pay_transaction (c_now c) user i d = Inr (x, d') \<Longrightarrow> committed env past (OpPay c user i early) d d'"
| finish: "finish_statement (c_now c) user i d = Inr (x, d') \<Longrightarrow> committed env past (OpFinish c user i early) d d'"

lemma transaction_cases:
  assumes "transaction served body d = (res, d')"
  shows "d' = d \<or> (\<exists>x. body d = Inr (x, d') \<and> res = Inr x)"
  using assms by (auto simp: transaction_def split: if_splits sum.splits)

lemma recordOrder_simps [simp]:
  "bk_db (recordOrderCreate s b) = bk_db b" "bk_redis (recordOrderCreate s b) = bk_redis b"
  "bk_db (recordOrderTransition a s b) = bk_db b" "bk_redis (recordOrderTransition a s b) = bk_redis b"
  by (simp_all add: recordOrderCreate_def recordOrderTransition_def)

lemma GetOrderByID_Inr: "dao_GetOrderByID user i d = Inr r \<Longrightarrow> r \<in> set (t_orders d) \<and> o_user_id r = user \<and> o_id r = i"
  unfolding dao_GetOrderByID_def by (drule first_row_Inr) simp

lemma pay_check_Inr: "pay_check user i early = Inr r \<Longrightarrow> o_id r = i"
  by (auto simp: pay_check_def andThen_def split: sum.splits if_splits dest: GetOrderByID_Inr)

lemma finish_check_Inr: "finish_check user i early = Inr r \<Longrightarrow> o_id r = i"
  by (auto simp: finish_check_def andThen_def split: sum.splits if_splits dest: GetOrderByID_Inr)

lemma autofix_db [simp]: "bk_db (AutoFixRedisInventoryStock is b) = bk_db b"
  by (induction "is" b rule: AutoFixRedisInventoryStock.induct) simp_all

lemma CreateOrder_db:
  assumes "bk_db (snd (CreateOrder env c user req b)) \<noteq> bk_db b"
  shows "0 < user \<and> validateDuplicateItems (co_items req) = Inr () \<and>
    (\<exists>x. create_transaction env c user (co_idempotency_key req) (buildCreateOrderRequestHash env req)
        (sortedOrderItems (co_items req)) (bk_db b) = Inr (x, bk_db (snd (CreateOrder env c user req b))))"
proof -
  obtain res d where t: "transaction (c_served c) (create_transaction env c user (co_idempotency_key req)
      (buildCreateOrderRequestHash env req) (sortedOrderItems (co_items req))) (bk_db b) = (res, d)" by (rule prod.exhaust)
  have "0 < user \<and> validateDuplicateItems (co_items req) = Inr () \<and> bk_db (snd (CreateOrder env c user req b)) = d"
    using assms by (auto simp: CreateOrder_def Let_def t split: if_splits sum.splits prod.splits bool.splits)
  then show ?thesis using transaction_cases[OF t] assms by auto
qed

lemma set_product_status_db:
  assumes "bk_db (snd (set_product_status st failed served i early b)) \<noteq> bk_db b"
  shows "\<exists>j x. dao_UpdateProductStatus j st (bk_db b) = Inr (x, bk_db (snd (set_product_status st failed served i early b)))"
proof -
  obtain pr where pr: "dao_GetProductByID i early = Inr pr" "p_status pr \<noteq> st"
    using assms by (auto simp: set_product_status_def split: sum.splits if_splits)
  obtain res d where t: "transaction served (dao_UpdateProductStatus (p_id pr) st) (bk_db b) = (res, d)" by (rule prod.exhaust)
  have "bk_db (snd (set_product_status st failed served i early b)) = d"
    using pr by (simp add: set_product_status_def t)
  then show ?thesis using transaction_cases[OF t] assms by auto
qed

lemma InitInventory_db:
  assumes "bk_db (snd (InitInventory c i stock early b)) \<noteq> bk_db b"
  shows "\<exists>q p x. stock = Some q \<and> dao_GetProductByID i early = Inr p \<and>
    init_transaction p q (bk_db b) = Inr (x, bk_db (snd (InitInventory c i stock early b)))"
proof -
  obtain q p where q: "stock = Some q" "\<not> q < 0" "dao_GetProductByID i early = Inr p"
    "dao_GetInventoryByProductID i early = Inl ErrRecordNotFound"
    using assms by (auto simp: InitInventory_def split: option.splits sum.splits if_splits)
  obtain res d where t: "transaction (c_served c) (init_transaction p q) (bk_db b) = (res, d)" by (rule prod.exhaust)
  have "bk_db (snd (InitInventory c i stock early b)) = d"
    using q by (simp add: InitInventory_def t split: sum.split)
  then show ?thesis using transaction_cases[OF t] assms q by auto
qed

lemma step_committed:
  assumes "admitted past op" "bk_db (run_op env op b) \<noteq> bk_db b"
  shows "committed env past op (bk_db b) (bk_db (run_op env op b))"
proof (cases op)
  case (OpCreateProduct served name desc price)
  then show ?thesis using assms(2)
    by (auto simp: CreateProduct_def Let_def split: sum.splits prod.splits dest!: transaction_cases intro: committed.product)
next
  case (OpOnSale served i early)
  then show ?thesis using assms(2)
    by (auto simp: OnSaleProduct_def dest!: set_product_status_db intro: committed.on_sale)
next
  case (OpOffSale served i early)
  then show ?thesis using assms(2)
    by (auto simp: OffSaleProduct_def dest!: set_product_status_db intro: committed.off_sale)
next
  case (OpInit c i stock early)
  then show ?thesis using assms
    by (auto dest!: InitInventory_db intro: committed.initialise)
next
  case (OpAdd c p q)
  then show ?thesis using assms
    by (auto simp: AddInventory_def split: sum.splits prod.splits if_splits dest!: transaction_cases intro: committed.add)
next
  case (OpCreateOrder c user req)
  then show ?thesis using assms CreateOrder_db[of env c user req b] by (auto intro: committed.create)
next
  case (OpCancel c user i)
  then show ?thesis using assms(2)
    by (auto simp: CancelOrder_def Let_def split: sum.splits prod.splits dest!: transaction_cases intro: committed.cancel)
next
  case (OpExpire c event i)
  then show ?thesis using assms(2)
    by (auto simp: CancelExpiredOrder_def Let_def split: sum.splits prod.splits dest!: transaction_cases intro: committed.expire)
next
  case (OpPay c user i early)
  then show ?thesis using assms(2)
    by (auto simp: PayOrder_def Let_def split: sum.splits prod.splits dest!: transaction_cases pay_check_Inr intro: committed.pay)
next
  case (OpFinish c user i early)
  then show ?thesis using assms(2)
    by (auto simp: FinishOrder_def Let_def split: sum.splits prod.splits dest!: transaction_cases finish_check_Inr intro: committed.finish)
next
  case (OpRebuild l)
  then show ?thesis using assms(2) by (auto simp: RebuildRedisInventoryStock_def Let_def split: prod.splits)
next
  case (OpAutoFix "is")
  then show ?thesis using assms(2) by simp
qed

subsection \<open>What each transaction adds\<close>

definition facts_of :: "item_row \<Rightarrow> int \<times> int \<times> int \<times> int \<times> int" where
  "facts_of it = (it_order_id it, it_product_id it, it_quantity it, it_product_price_fen it, it_subtotal_fen it)"

definition facts_for :: "int \<Rightarrow> (int \<Rightarrow> products_row option) \<Rightarrow> create_item \<Rightarrow> int \<times> int \<times> int \<times> int \<times> int" where
  "facts_for oid products i = (let price = p_price_fen (the (products (ci_product_id i))) in
     (oid, ci_product_id i, ci_quantity i, price, wrap64 (price * ci_quantity i)))"

lemma place_items_adds:
  assumes "place_items order products is d = Inr d'" "books lo so d"
    and "\<And>i. i \<in> set is \<Longrightarrow> p_id (the (products (ci_product_id i))) = ci_product_id i"
    and "o_id order \<in> o_id ` set (t_orders d)" "status_of d (o_id order) = OrderStatusPending"
  shows "\<exists>its. t_items d' = t_items d @ its \<and> map facts_of its = map (facts_for (o_id order) products) is \<and>
    (\<forall>it \<in> set its. item_checks it) \<and> prefix (t_logs d) (t_logs d') \<and> map i_product_id (t_inventories d') = map i_product_id (t_inventories d)"
  using assms
proof (induction "is" arbitrary: d)
  case (Cons i "is")
  then obtain d1 where d1: "place_item order products i d = Inr d1" "place_items order products is d1 = Inr d'"
    by (auto simp: andThen_def split: sum.splits)
  have b: "books lo so d1 \<and> same_orders d d1"
    using Cons.prems by (intro place_item_books[OF d1(1)]) auto
  then have "status_of d1 = status_of d" "t_orders d1 = t_orders d"
    by (auto simp: same_orders_def intro!: status_of_same_orders)
  then obtain its where its: "t_items d' = t_items d1 @ its" "map facts_of its = map (facts_for (o_id order) products) is"
      "\<forall>it \<in> set its. item_checks it" "prefix (t_logs d1) (t_logs d')" "map i_product_id (t_inventories d') = map i_product_id (t_inventories d1)"
    using Cons.IH[OF d1(2) conjunct1[OF b]] Cons.prems by auto
  obtain l where l: "t_logs d1 = t_logs d @ [l]" and it:
    "t_items d1 = t_items d @ [item_for (next_id (t_items d)) order (the (products (ci_product_id i))) (ci_quantity i)]"
    and ok: "item_checks (item_for (next_id (t_items d)) order (the (products (ci_product_id i))) (ci_quantity i))"
    and ids: "t_inventories d1 = moved (ci_product_id i) (- ci_quantity i) (ci_quantity i) (t_inventories d)"
  proof (rule place_item_Inr[OF d1(1) booksD(1)[OF Cons.prems(2)]])
    show "p_id (the (products (ci_product_id i))) = ci_product_id i" using Cons.prems(3) by simp
  qed (auto intro: that)
  have "facts_of (item_for (next_id (t_items d)) order (the (products (ci_product_id i))) (ci_quantity i)) =
      facts_for (o_id order) products i"
    using Cons.prems(3) by (simp add: facts_of_def facts_for_def Let_def)
  moreover have "map i_product_id (t_inventories d1) = map i_product_id (t_inventories d)"
    unfolding ids moved_def by simp
  ultimately show ?case using its l it ok
    by (intro exI[of _ "item_for (next_id (t_items d)) order (the (products (ci_product_id i))) (ci_quantity i) # its"])
      (auto intro: append_prefixD)
qed simp

lemma restore_items_adds:
  assumes "restore_items order pre its d = Inr d'" "books lo so d"
  shows "t_items d' = t_items d \<and> prefix (t_logs d) (t_logs d') \<and>
    map i_product_id (t_inventories d') = map i_product_id (t_inventories d)"
  using assms
proof (induction its arbitrary: d lo)
  case (Cons it its)
  then obtain d1 where d1: "restore_item order pre it d = Inr d1" "restore_items order pre its d1 = Inr d'"
    by (auto simp: andThen_def split: sum.splits)
  have "t_items d1 = t_items d \<and> prefix (t_logs d) (t_logs d1) \<and>
      map i_product_id (t_inventories d1) = map i_product_id (t_inventories d)"
    by (rule restore_item_Inr[OF d1(1) booksD(1)[OF Cons.prems(2)]]) (auto simp: moved_def)
  then show ?case
    using Cons.IH[OF d1(2) conjunct1[OF restore_item_books[OF d1(1) Cons.prems(2)]]] by (auto intro: prefix_order.trans)
qed simp

lemma consume_items_adds:
  assumes "consume_items its d = Inr d'" "books lo so d"
  shows "t_items d' = t_items d \<and> map i_product_id (t_inventories d') = map i_product_id (t_inventories d)"
  using assms
proof (induction its arbitrary: d lo so)
  case (Cons it its)
  then obtain d1 where d1: "dao_ConsumeLockedInventory (it_product_id it) (it_quantity it) d = Inr d1" "consume_items its d1 = Inr d'"
    by (auto simp: andThen_def split: sum.splits)
  have "t_items d1 = t_items d \<and> map i_product_id (t_inventories d1) = map i_product_id (t_inventories d)"
    by (rule patch_move_Inr[OF d1(1)[unfolded dao_moves] booksD(1)[OF Cons.prems(2)]]) (auto simp: moved_def)
  then show ?case
    using Cons.IH[OF d1(2) conjunct1[OF consume_item_books[OF d1(1) Cons.prems(2)]]] by simp
qed simp

text \<open>A change of status keeps the records, as long as the new status is one of the four.\<close>

definition restated :: "int \<Rightarrow> int \<Rightarrow> time_field \<Rightarrow> int \<Rightarrow> db \<Rightarrow> db \<Rightarrow> bool" where
  "restated i to tf now d d' \<longleftrightarrow> t_products d' = t_products d \<and> t_keys d' = t_keys d \<and> t_outbox d' = t_outbox d \<and>
     t_items d' = t_items d \<and> prefix (t_logs d) (t_logs d') \<and>
     map i_product_id (t_inventories d') = map i_product_id (t_inventories d) \<and>
     t_orders d' = map (\<lambda>q. if o_id q = i then restatus to tf now q else q) (t_orders d)"

lemma restated_records:
  assumes "restated i to tf now d d'" "records env d" "to \<in> {1, 2, 3, 4}"
  shows "records env d'"
proof -
  let ?g = "\<lambda>q. if o_id q = i then restatus to tf now q else q"
  have "order_ok d' (?g r)" if "order_ok d r" for r
    using that assms(1,3) unfolding order_ok_def order_checks_def items_of_def restated_def by auto
  moreover have d': "t_orders d' = map ?g (t_orders d)" using assms(1) by (simp add: restated_def)
  ultimately have "\<forall>r \<in> set (t_orders d'). order_ok d' r"
    using assms(2) unfolding d' set_map records_def by blast
  moreover have "map (\<lambda>r. (o_user_id r, Some (o_id r), OrderAlreadyCreated)) (t_orders d') =
      map (\<lambda>r. (o_user_id r, Some (o_id r), OrderAlreadyCreated)) (t_orders d)"
    "map (\<lambda>r. (o_user_id r, o_id r)) (t_orders d') = map (\<lambda>r. (o_user_id r, o_id r)) (t_orders d)"
    unfolding d' by auto
  ultimately show ?thesis using assms(1,2) by (simp add: records_def restated_def)
qed

lemma core_restatus: "core (if c then restatus to tf now q else q) = core q"
  by (simp add: core_def)

lemma restated_grows: "restated i to tf now d d' \<Longrightarrow> grows d d'"
  by (simp add: restated_def grows_def comp_def core_restatus)

lemma cancelPendingOrder_restated:
  assumes "cancelPendingOrder now order pre d = Inr (did, d')" "balanced d"
  shows "(\<not> did \<and> d' = d) \<or> (did \<and> restated (o_id order) OrderStatusCancelled CancelledAt now d d' \<and>
    status_of d (o_id order) = OrderStatusPending \<and> o_id order \<in> o_id ` set (t_orders d))"
proof -
  obtain n d1 where patch: "dao_PatchOrderStatus (o_user_id order) (o_id order) OrderStatusPending
      OrderStatusCancelled CancelledAt now d = Inr (n, d1)"
    using assms(1) by (auto simp: cancelPendingOrder_def andThen_def split: sum.splits)
  note c = PatchOrderStatus_Inr[OF patch booksD(2)[OF assms(2)]]
  show ?thesis
  proof (cases "n = 0")
    case True
    then show ?thesis using assms(1) c patch by (simp add: cancelPendingOrder_def)
  next
    case False
    let ?its = "aggregateAndSortOrderItems (dao_ListOrderItemsByOrderIDForInventory (o_id order) d1)"
    have d1: "d1 = d\<lparr>t_orders := map (\<lambda>q. if o_id q = o_id order then restatus OrderStatusCancelled CancelledAt now q else q) (t_orders d)\<rparr>"
      and ex: "\<exists>r \<in> set (t_orders d). o_id r = o_id order \<and> o_status r = OrderStatusPending"
      using c False by auto
    from ex have st: "status_of d (o_id order) = OrderStatusPending" and mem: "o_id order \<in> o_id ` set (t_orders d)"
      using status_of_row[OF booksD(2)[OF assms(2)]] by (metis, metis imageI)
    have "books (order_qty d (o_id order)) (\<lambda>_. 0) d1"
      by (rule restatus_books[OF assms(2) mem d1]) (use st in \<open>auto simp: go_status_defs\<close>)
    moreover have "restore_items order pre ?its d1 = Inr d'" and did: "did"
      using assms(1) patch False by (auto simp: cancelPendingOrder_def andThen_def split: sum.splits)
    ultimately have "t_items d' = t_items d1 \<and> prefix (t_logs d1) (t_logs d') \<and>
        map i_product_id (t_inventories d') = map i_product_id (t_inventories d1) \<and> same_orders d1 d'"
      using restore_items_adds restore_items_books by blast
    then show ?thesis using did st mem by (simp add: restated_def d1 same_orders_def)
  qed
qed

lemma pay_transaction_restated:
  assumes "pay_transaction now u i d = Inr (x, d')" "balanced d"
  shows "restated i OrderStatusPaid PaidAt now d d' \<and> status_of d i = OrderStatusPending \<and>
    (\<exists>r \<in> set (t_orders d). o_id r = i \<and> o_user_id r = u)"
proof -
  obtain n d1 where patch: "dao_PatchOrderStatus u i OrderStatusPending OrderStatusPaid PaidAt now d = Inr (n, d1)"
    and n: "n \<noteq> 0"
    using assms(1) by (auto simp: pay_transaction_def andThen_def split: sum.splits if_splits)
  let ?its = "aggregateAndSortOrderItems (dao_ListOrderItemsByOrderIDForInventory i d1)"
  have d1: "d1 = d\<lparr>t_orders := map (\<lambda>q. if o_id q = i then restatus OrderStatusPaid PaidAt now q else q) (t_orders d)\<rparr>"
    and ex: "\<exists>r \<in> set (t_orders d). o_id r = i \<and> o_user_id r = u \<and> o_status r = OrderStatusPending"
    using PatchOrderStatus_Inr[OF patch booksD(2)[OF assms(2)]] n by auto
  from ex have st: "status_of d i = OrderStatusPending" and mem: "i \<in> o_id ` set (t_orders d)"
    using status_of_row[OF booksD(2)[OF assms(2)]] by (metis, metis imageI)
  have "books (order_qty d i) (order_qty d i) d1"
    by (rule restatus_books[OF assms(2) mem d1]) (use st in \<open>auto simp: go_status_defs\<close>)
  moreover have "consume_items ?its d1 = Inr d'"
    using assms(1) patch n by (auto simp: pay_transaction_def andThen_def split: sum.splits)
  ultimately have "t_items d' = t_items d1 \<and> map i_product_id (t_inventories d') = map i_product_id (t_inventories d1) \<and>
      same_orders d1 d' \<and> t_logs d' = t_logs d1"
    using consume_items_adds consume_items_books by blast
  then show ?thesis using st ex by (auto simp: restated_def d1 same_orders_def)
qed

lemma finish_statement_restated:
  assumes "finish_statement now u i d = Inr (x, d')" "balanced d"
  shows "restated i OrderStatusFinished CompletedAt now d d' \<and> status_of d i = OrderStatusPaid \<and>
    (\<exists>r \<in> set (t_orders d). o_id r = i \<and> o_user_id r = u)"
proof -
  obtain n where patch: "dao_PatchOrderStatus u i OrderStatusPaid OrderStatusFinished CompletedAt now d = Inr (n, d')"
    and n: "n \<noteq> 0"
    using assms(1) by (auto simp: finish_statement_def andThen_def split: sum.splits if_splits)
  have d': "d' = d\<lparr>t_orders := map (\<lambda>q. if o_id q = i then restatus OrderStatusFinished CompletedAt now q else q) (t_orders d)\<rparr>"
    and ex: "\<exists>r \<in> set (t_orders d). o_id r = i \<and> o_user_id r = u \<and> o_status r = OrderStatusPaid"
    using PatchOrderStatus_Inr[OF patch booksD(2)[OF assms(2)]] n by auto
  from ex have "status_of d i = OrderStatusPaid"
    using status_of_row[OF booksD(2)[OF assms(2)]] by metis
  then show ?thesis using ex by (auto simp: restated_def d')
qed

lemma cancel_transaction_restated:
  assumes "cancel_transaction now u i d = Inr (how, d')" "balanced d"
  shows "(how = AlreadyCancelled \<and> d' = d \<and> status_of d i = OrderStatusCancelled) \<or>
    (how = Restored \<and> restated i OrderStatusCancelled CancelledAt now d d' \<and> status_of d i = OrderStatusPending \<and>
     balanced d' \<and> (\<exists>r \<in> set (t_orders d). o_id r = i \<and> o_user_id r = u))"
proof -
  obtain r where r: "dao_GetOrderByID u i d = Inr r"
    using assms(1) by (cases "dao_GetOrderByID u i d") (auto simp: cancel_transaction_def onNotFound_def)
  note row = GetOrderByID_Inr[OF r]
  then have st: "status_of d i = o_status r" using status_of_row[OF booksD(2)[OF assms(2)]] by metis
  show ?thesis
  proof (cases "o_status r = OrderStatusCancelled")
    case True
    then show ?thesis using assms(1) r st by (simp add: cancel_transaction_def)
  next
    case False
    then have "o_status r = OrderStatusPending" using assms(1) r
      by (auto simp: cancel_transaction_def split: if_splits)
    then obtain did where c: "cancelPendingOrder now r cancel_remark d = Inr (did, d')" "did" "how = Restored"
      using assms(1) r by (auto simp: cancel_transaction_def andThen_def go_status_defs split: sum.splits if_splits)
    then show ?thesis
      using cancelPendingOrder_restated[OF c(1) assms(2)] cancelPendingOrder_books[OF c(1) assms(2)] row by auto
  qed
qed

lemma expire_transaction_restated:
  assumes "expire_transaction env now event i d = Inr (how, d')" "balanced d"
  shows "(how \<noteq> Restored \<and> d' = d) \<or>
    (how = Restored \<and> restated i OrderStatusCancelled CancelledAt now d d' \<and> status_of d i = OrderStatusPending \<and>
     balanced d' \<and> (\<exists>x \<in> set (t_outbox d). x_order_id x = i \<and> x_timeout_at x \<le> now))"
proof (cases "dao_GetOrderTimeoutOutbox env event i d")
  case (Inl e)
  then show ?thesis using assms(1) by (auto simp: expire_transaction_def split: if_splits)
next
  case (Inr x)
  have x: "x \<in> set (t_outbox d)" "x_order_id x = i"
    using first_row_Inr[OF Inr[unfolded dao_GetOrderTimeoutOutbox_def]] by auto
  have due: "x_timeout_at x \<le> now" using assms(1) Inr by (auto simp: expire_transaction_def split: if_splits)
  show ?thesis
  proof (cases "dao_GetOrderByIDForSystem i d")
    case (Inl e)
    then show ?thesis using assms(1) Inr due by (auto simp: expire_transaction_def split: if_splits)
  next
    case r: (Inr r)
    have row: "r \<in> set (t_orders d)" "o_id r = i"
      using first_row_Inr[OF r[unfolded dao_GetOrderByIDForSystem_def]] by auto
    show ?thesis
    proof (cases "o_status r = OrderStatusPending")
      case False
      then show ?thesis using assms(1) Inr r due by (auto simp: expire_transaction_def split: if_splits)
    next
      case True
      then obtain did where c: "cancelPendingOrder now r timeout_remark d = Inr (did, d')"
          "how = (if did then Restored else NotRestored)"
        using assms(1) Inr r due by (auto simp: expire_transaction_def andThen_def go_status_defs split: sum.splits if_splits)
      then show ?thesis
        using cancelPendingOrder_restated[OF c(1) assms(2)] cancelPendingOrder_books[OF c(1) assms(2)] row x due by auto
    qed
  qed
qed

text \<open>A creation adds one order with its items, its key and its timeout.\<close>

definition placed :: "db_env \<Rightarrow> surroundings \<Rightarrow> int \<Rightarrow> jsstr \<Rightarrow> jsstr \<Rightarrow> create_item list \<Rightarrow> orders_row \<Rightarrow> db \<Rightarrow> db \<Rightarrow> bool" where
  "placed env c user key hash items order d d' \<longleftrightarrow>
     (\<exists>its products x. t_products d' = t_products d \<and> t_orders d' = t_orders d @ [order] \<and>
       o_id order = c_order_id c \<and> o_user_id order = user \<and> o_status order = OrderStatusPending \<and>
       o_order_no order = generateOrderNo c \<and>
       o_id order \<notin> o_id ` set (t_orders d) \<and> o_total_amount_fen order = totalAmountFen products items \<and>
       find_products items d = Inr products \<and>
       t_items d' = t_items d @ its \<and> map facts_of its = map (facts_for (o_id order) products) items \<and>
       order_checks order \<and> (\<forall>it \<in> set its. item_checks it) \<and>
       t_keys d' = t_keys d @ [\<lparr>k_user_id = user, k_idempotency_key = key, k_request_hash = hash,
         k_order_id = Some (o_id order), k_status = OrderAlreadyCreated\<rparr>] \<and>
       t_outbox d' = t_outbox d @ [x] \<and> x_order_id x = o_id order \<and> x_user_id x = user \<and>
       x_timeout_at x = c_now c + c_order_timeout c \<and>
       prefix (t_logs d) (t_logs d') \<and> map i_product_id (t_inventories d') = map i_product_id (t_inventories d) \<and>
       (\<forall>r \<in> set (t_keys d). \<not> same_key env user key r))"

lemma complete_key:
  assumes "dao_CompleteOrderIdempotencyKey env user key i d = Inr (n, d')" "t_keys d = ks @ [k]"
    and "\<forall>r \<in> set ks. \<not> same_key env user key r" "same_key env user key k" "k_status k = OrderBeingCreated"
  shows "d' = d\<lparr>t_keys := ks @ [k\<lparr>k_order_id := Some i, k_status := OrderAlreadyCreated\<rparr>]\<rparr>"
proof -
  have "map (\<lambda>r. if same_key env user key r \<and> k_status r = OrderBeingCreated
      then r\<lparr>k_order_id := Some i, k_status := OrderAlreadyCreated\<rparr> else r) ks = ks"
    using assms(3) by (intro map_idI) auto
  then show ?thesis using assms by (auto simp: dao_CompleteOrderIdempotencyKey_def update_rows_def)
qed

lemma create_transaction_cases:
  assumes "create_transaction env c user key hash items d = Inr ((order, replay), d')" "balanced d"
  shows "(replay \<and> d' = d \<and> replay_order env user key hash d = Inr order \<and> (\<exists>r \<in> set (t_keys d). same_key env user key r)) \<or>
    (\<not> replay \<and> placed env c user key hash items order d d' \<and> balanced d')"
proof (cases "\<exists>r \<in> set (t_keys d). same_key env user key r")
  case True
  then show ?thesis using assms(1)
    by (auto simp: create_transaction_def dao_TryCreateOrderIdempotencyKey_def andThen_def split: sum.splits)
next
  case False
  let ?k = "\<lparr>k_user_id = user, k_idempotency_key = key, k_request_hash = hash, k_order_id = None, k_status = OrderBeingCreated\<rparr>"
  let ?d = "d\<lparr>t_keys := t_keys d @ [?k]\<rparr>"
  have n: "new_order env c user key items ?d = Inr (order, d')" and nr: "\<not> replay"
    using assms(1) False
    by (auto simp: create_transaction_def dao_TryCreateOrderIdempotencyKey_def andThen_def split: sum.splits if_splits)
  have b: "balanced ?d" using assms(2) books_same_tables[of ?d d] by simp
  have "placed env c user key hash items order d d'"
  proof (rule new_order_Inr[OF n])
    fix products d1 d2 d3
    assume r: "find_products items ?d = Inr products"
      "order = \<lparr>o_id = c_order_id c, o_user_id = user, o_order_no = generateOrderNo c,
         o_total_amount_fen = totalAmountFen products items, o_status = OrderStatusPending, o_paid_at = None,
         o_completed_at = None, o_cancelled_at = None, o_created_at = c_now c\<rparr>"
      "dao_CreateOrder env order ?d = Inr d1" "place_items order products items d1 = Inr d2"
      "dao_CompleteOrderIdempotencyKey env user key (o_id order) d2 = Inr (1, d3)"
      "dao_CreateOrderTimeoutOutbox env \<lparr>x_event_id = c_event_id c, x_order_id = o_id order, x_user_id = user,
         x_timeout_at = o_created_at order + c_order_timeout c, x_next_attempt_at = c_later c\<rparr> d3 = Inr d'"
    note cr = create_order_books[OF r(3) b]
    have oc: "order_checks order" using r(3) by (auto simp: dao_CreateOrder_def split: if_splits)
    have d1: "d1 = ?d\<lparr>t_orders := t_orders d @ [order]\<rparr>" and new: "o_id order \<notin> o_id ` set (t_orders d)"
      using cr by simp_all
    have mem: "o_id order \<in> o_id ` set (t_orders d1)" and st: "status_of d1 (o_id order) = OrderStatusPending"
      using cr r(2) by auto
    have pid: "p_id (the (products (ci_product_id i))) = ci_product_id i" if "i \<in> set items" for i
      using find_products_Inr[OF r(1) that] by auto
    obtain its where its: "t_items d2 = t_items d1 @ its" "map facts_of its = map (facts_for (o_id order) products) items"
        "\<forall>it \<in> set its. item_checks it" "prefix (t_logs d1) (t_logs d2)" "map i_product_id (t_inventories d2) = map i_product_id (t_inventories d1)"
      using place_items_adds[OF r(4) conjunct1[OF cr] pid mem st] by auto
    have same: "same_orders d1 d2" using place_items_books[OF r(4) conjunct1[OF cr] pid mem st] by simp
    have "d3 = d2\<lparr>t_keys := t_keys d @ [?k\<lparr>k_order_id := Some (o_id order), k_status := OrderAlreadyCreated\<rparr>]\<rparr>"
      using complete_key[OF r(5)] same d1 False by (simp add: same_orders_def same_key_def)
    moreover have "d' = d3\<lparr>t_outbox := t_outbox d3 @ [\<lparr>x_event_id = c_event_id c, x_order_id = o_id order, x_user_id = user,
         x_timeout_at = o_created_at order + c_order_timeout c, x_next_attempt_at = c_later c\<rparr>]\<rparr>"
      using r(6) by (auto simp: dao_CreateOrderTimeoutOutbox_def split: if_splits)
    moreover have "find_products items d = Inr products"
      using r(1) by (induction items arbitrary: products) (auto simp: dao_GetProductByID_def andThen_def split: sum.splits if_splits)
    ultimately show ?thesis
      unfolding placed_def using its same d1 new r(2) False oc
      by (intro exI[of _ its] exI[of _ products] exI) (auto simp: same_orders_def)
  qed
  moreover have "balanced d'" using new_order_books[OF n b] .
  ultimately show ?thesis using nr by simp
qed

lemma validate_distinct_from:
  "validateDuplicateItems_from seen items = Inr () \<longleftrightarrow>
     distinct (map ci_product_id items) \<and> (\<forall>i \<in> set items. ci_product_id i \<notin> set seen)"
  by (induction items arbitrary: seen) (auto intro: rev_image_eqI)

lemma validate_distinct: "validateDuplicateItems items = Inr () \<longleftrightarrow> distinct (map ci_product_id items)"
  by (simp add: validateDuplicateItems_def validate_distinct_from)

lemma sorted_items [simp]:
  "set (sortedOrderItems items) = set items" "sortedOrderItems items = [] \<longleftrightarrow> items = []"
  "distinct (map ci_product_id (sortedOrderItems items)) \<longleftrightarrow> distinct (map ci_product_id items)"
proof -
  have m: "mset (sortedOrderItems items) = mset items" by (simp add: sortedOrderItems_def)
  then show "set (sortedOrderItems items) = set items" by (rule mset_eq_setD)
  show "sortedOrderItems items = [] \<longleftrightarrow> items = []" using m by (metis mset_zero_iff)
  show "distinct (map ci_product_id (sortedOrderItems items)) \<longleftrightarrow> distinct (map ci_product_id items)"
    by (rule mset_eq_imp_distinct_iff) (simp add: m)
qed

text \<open>The items of the new order, read off the request.\<close>

lemma facts_items:
  assumes "map facts_of its = map (facts_for oid products) items"
  shows "map it_product_id its = map ci_product_id items"
    and "foldl (\<lambda>t it. wrap64 (t + it_subtotal_fen it)) a its =
      foldl (\<lambda>t i. wrap64 (t + wrap64 (p_price_fen (the (products (ci_product_id i))) * ci_quantity i))) a items"
    and "it \<in> set its \<Longrightarrow> it_order_id it = oid \<and> it_subtotal_fen it = wrap64 (it_product_price_fen it * it_quantity it)"
    and "its = [] \<longleftrightarrow> items = []"
    and "asked items p = in_items its p"
  using assms
proof (induction its arbitrary: items a)
  case (Cons j its)
  case 1
  then obtain i "is" where "items = i # is" "facts_of j = facts_for oid products i" by (cases items) auto
  then show ?case using 1 Cons.IH(1) by (auto simp: facts_of_def facts_for_def Let_def)
next
  case (Cons j its)
  case 2
  then obtain i "is" where "items = i # is" "facts_of j = facts_for oid products i" by (cases items) auto
  then show ?case using 2 Cons.IH(2) by (auto simp: facts_of_def facts_for_def Let_def)
next
  case (Cons j its)
  case 3
  then obtain i "is" where i: "items = i # is" "facts_of j = facts_for oid products i" by (cases items) auto
  then have "it_order_id j = oid \<and> it_subtotal_fen j = wrap64 (it_product_price_fen j * it_quantity j)"
    by (simp add: facts_of_def facts_for_def Let_def)
  then show ?case using 3 i Cons.IH(3) by auto
next
  case (Cons j its)
  case 4
  then show ?case by auto
next
  case (Cons j its)
  case 5
  then obtain i "is" where "items = i # is" "facts_of j = facts_for oid products i" by (cases items) auto
  then show ?case using 5 Cons.IH(5) by (auto simp: facts_of_def facts_for_def Let_def)
qed auto

lemma placed_records:
  assumes "placed env c user key hash items order d d'" "records env d" "balanced d"
    and "distinct (map ci_product_id items)" "items \<noteq> []" "0 < c_order_id c" "0 < user"
  shows "records env d'"
proof -
  obtain its products x where p: "t_products d' = t_products d" "t_orders d' = t_orders d @ [order]"
    "o_id order = c_order_id c" "o_user_id order = user" "o_status order = OrderStatusPending"
    "o_id order \<notin> o_id ` set (t_orders d)" "o_total_amount_fen order = totalAmountFen products items"
    "t_items d' = t_items d @ its" "map facts_of its = map (facts_for (o_id order) products) items"
    "t_keys d' = t_keys d @ [\<lparr>k_user_id = user, k_idempotency_key = key, k_request_hash = hash,
         k_order_id = Some (o_id order), k_status = OrderAlreadyCreated\<rparr>]"
    "t_outbox d' = t_outbox d @ [x]" "x_order_id x = o_id order" "x_user_id x = user"
    "\<forall>r \<in> set (t_keys d). \<not> same_key env user key r" "order_checks order" "\<forall>it \<in> set its. item_checks it"
    using assms(1) unfolding placed_def by blast
  note f = facts_items[OF p(9)]
  have old: "it_order_id it \<noteq> o_id order" if "it \<in> set (t_items d)" for it
    using booksD(4)[OF assms(3) that] p(6) by metis
  have "items_of (o_id r) d' = items_of (o_id r) d" if "r \<in> set (t_orders d)" for r
  proof -
    have "o_id r \<noteq> o_id order" using that p(6) by (metis imageI)
    then show ?thesis using f(3) by (auto simp: items_of_def p(8) filter_empty_conv)
  qed
  then have "\<forall>r \<in> set (t_orders d). order_ok d' r"
    using assms(2) by (auto simp: records_def order_ok_def)
  moreover have "items_of (o_id order) d' = its"
    using f(3) old by (simp add: items_of_def p(8) filter_empty_conv filter_id_conv)
  then have "order_ok d' order"
    using f assms(4-7) p(3-5,7,15,16) by (simp add: order_ok_def totalAmountFen_def go_status_defs)
  moreover have "(user, collate env key) \<notin> (\<lambda>k. (k_user_id k, collate env (k_idempotency_key k))) ` set (t_keys d)"
    using p(14) by (auto simp: same_key_def)
  ultimately show ?thesis using assms(2) p unfolding records_def by auto
qed

lemma placed_grows: "placed env c user key hash items order d d' \<Longrightarrow> grows d d'"
  by (auto simp: placed_def grows_def)

subsection \<open>The invariant of the runs\<close>

lemma records_products:
  "records env d \<Longrightarrow> map p_id rows = map (\<lambda>k. int k + 1) [0..<length rows] \<Longrightarrow> records env (d\<lparr>t_products := rows\<rparr>)"
  by (simp add: records_def order_ok_def items_of_def)

lemma product_status_sound:
  assumes "dao_UpdateProductStatus j st d = Inr (x, d')" "sound env d"
  shows "sound env d' \<and> grows d d'"
proof -
  obtain rows where r: "d' = d\<lparr>t_products := rows\<rparr>" "map p_id rows = map p_id (t_products d)"
    "map offer rows = map offer (t_products d)" "length rows = length (t_products d)"
    using assms(1) by (auto simp: dao_UpdateProductStatus_def andThen_def update_rows_def offer_def split: if_splits)
  then have "records env d'"
    using assms(2) unfolding r(1) by (intro records_products) (simp_all add: sound_def records_def)
  moreover have "balanced d'" using assms(2) books_same_tables[of d' d] by (simp add: r(1) sound_def)
  ultimately show ?thesis using r by (simp add: sound_def grows_def)
qed

lemma records_same:
  assumes "same_orders d d'" "t_items d' = t_items d" "records env d" shows "records env d'"
  using assms by (simp add: same_orders_def records_def order_ok_def items_of_def)

lemma add_transaction_adds:
  assumes "add_transaction p q d = Inr (after, d')" "balanced d" "int64 q"
  shows "t_items d' = t_items d \<and> prefix (t_logs d) (t_logs d') \<and> map i_product_id (t_inventories d') = map i_product_id (t_inventories d)"
  by (rule add_transaction_Inr[OF assms(1) booksD(1)[OF assms(2)] assms(3)]) (auto simp: moved_def)

lemma init_transaction_adds:
  assumes "init_transaction pr q d = Inr (x, d')"
  shows "t_items d' = t_items d \<and> prefix (t_logs d) (t_logs d') \<and> prefix (map i_product_id (t_inventories d)) (map i_product_id (t_inventories d'))"
  using assms by (auto simp: init_transaction_def dao_InitInventory_def dao_CreateStockLog_def onError_def andThen_def Let_def
        split: if_splits)

lemma sound_product_id: "records env d \<Longrightarrow> p \<in> set (t_products d) \<Longrightarrow> 0 < p_id p"
proof -
  assume "records env d" "p \<in> set (t_products d)"
  then have "p_id p \<in> set (map (\<lambda>k. int k + 1) [0..<length (t_products d)])"
    unfolding records_def by (metis image_eqI list.set_map)
  then show "0 < p_id p" by auto
qed

lemma committed_sound:
  assumes "committed env past op d d'" "sound env d" "\<forall>e \<in> set past. sound env e"
  shows "sound env d' \<and> grows d d'"
  using assms(1)
proof cases
  case (product n e price p served name desc)
  then have d': "d' = d\<lparr>t_products := t_products d @ [p]\<rparr>" and p: "p_id p = int (length (t_products d)) + 1"
    by (auto simp: dao_CreateProduct_def Let_def next_id_def split: if_splits)
  have "balanced d'" using assms(2) books_same_tables[of d' d] by (simp add: d' sound_def)
  moreover have "records env d'"
    unfolding d' using assms(2) p by (intro records_products) (auto simp: sound_def records_def)
  ultimately show ?thesis by (simp add: sound_def grows_def d')
next
  case (on_sale j x served i early)
  then show ?thesis using product_status_sound assms(2) by blast
next
  case (off_sale j x served i early)
  then show ?thesis using product_status_sound assms(2) by blast
next
  case (initialise early i p q x c)
  have "p \<in> set (t_products early)" using first_row_Inr[OF initialise(3)[unfolded dao_GetProductByID_def]] by simp
  then have "0 < p_id p" using sound_product_id assms(3) initialise(2) by (auto simp: sound_def)
  then show ?thesis
    using init_transaction_books[OF initialise(4)] init_transaction_adds[OF initialise(4)] assms(2) records_same
    by (auto simp: sound_def grows_def same_orders_def)
next
  case (add q p after c)
  then show ?thesis
    using add_transaction_books[OF add(3)] add_transaction_adds[OF add(3)] assms(2) records_same
    by (auto simp: sound_def grows_def same_orders_def)
next
  case (create req c user x)
  obtain order replay where x: "x = (order, replay)" by (rule prod.exhaust)
  have bal: "balanced d" and rec: "records env d" using assms(2) by (simp_all add: sound_def)
  have dist: "distinct (map ci_product_id (sortedOrderItems (co_items req)))" "sortedOrderItems (co_items req) \<noteq> []"
    using create by (simp_all add: validate_distinct)
  consider "d' = d" | "placed env c user (co_idempotency_key req) (buildCreateOrderRequestHash env req)
      (sortedOrderItems (co_items req)) order d d'" "balanced d'"
    using create_transaction_cases[OF create(6)[unfolded x] bal] by blast
  then show ?thesis
  proof cases
    case 2
    then show ?thesis
      using placed_records[OF 2(1) rec bal dist create(3,4)] placed_grows[OF 2(1)] by (simp add: sound_def)
  qed (use assms(2) in simp)
next
  case (cancel c user i how)
  then show ?thesis
    using cancel_transaction_restated[OF cancel(2)] assms(2) restated_records restated_grows
    by (auto simp: sound_def go_status_defs)
next
  case (expire c event i how)
  then show ?thesis
    using expire_transaction_restated[OF expire(2)] assms(2) restated_records restated_grows
    by (auto simp: sound_def go_status_defs)
next
  case (pay c user i x early)
  then show ?thesis
    using pay_transaction_restated[OF pay(2)] pay_transaction_books[OF pay(2)] assms(2) restated_records restated_grows
    by (auto simp: sound_def go_status_defs)
next
  case (finish c user i x early)
  then show ?thesis
    using finish_statement_restated[OF finish(2)] finish_statement_books[OF finish(2)] assms(2) restated_records restated_grows
    by (auto simp: sound_def go_status_defs)
qed

definition backend_ok :: "db_env \<Rightarrow> world \<Rightarrow> bool" where
  "backend_ok env w \<longleftrightarrow> (\<forall>e \<in> set (fst w). sound env e \<and> grows e (bk_db (snd w))) \<and> bk_db (snd w) \<in> set (fst w)"

lemma step_ok:
  assumes "backend_step env w op w'" "backend_ok env w"
  shows "backend_ok env w' \<and> grows (bk_db (snd w)) (bk_db (snd w'))"
  using assms(1)
proof cases
  case (call past b' b)
  have "sound env (bk_db b') \<and> grows (bk_db b) (bk_db b')"
    using step_committed[OF call(3), of env b] committed_sound[of env past op "bk_db b" "bk_db b'"] assms(2) call
    by (cases "bk_db b' = bk_db b") (auto simp: backend_ok_def)
  then show ?thesis using assms(2) call by (auto simp: backend_ok_def intro: grows_trans)
qed

lemma runs_ok:
  assumes "backend_runs env w w'" "backend_ok env w"
  shows "backend_ok env w' \<and> grows (bk_db (snd w)) (bk_db (snd w'))"
  using assms by induction (auto dest: step_ok intro: grows_trans)

lemma start_ok: "backend_ok env start_world"
  by (simp add: backend_ok_def start_world_def start_backend_def sound_empty)

lemma reachable_ok: "reachable env past b \<Longrightarrow> backend_ok env (past, b)"
  using runs_ok[OF _ start_ok] by simp

lemma reachable_sound: "reachable env past b \<Longrightarrow> sound env (bk_db b)"
  using reachable_ok by (fastforce simp: backend_ok_def)

end
