(* ===== verification/BackendProps.thy ===== *)
theory BackendProps
  imports Backend
begin

section \<open>What the backend guarantees\<close>

text \<open>
  The properties of the runs of the backend: the books of the stock, the life of an order compared
  with the state machine of the frontend, one order per key, and the amount of an order. The witnesses
  run the services on a small shop.
\<close>

subsection \<open>A small shop\<close>

definition shop_env :: db_env where
  "shop_env = \<lparr>collate = \<lambda>s. s, sha256_hex = \<lambda>s. s\<rparr>"

definition calm :: "int \<Rightarrow> surroundings" where
  "calm i = \<lparr>c_order_id = i, c_uuid = dec i, c_event_id = dec i, c_now = 1000, c_later = 1000, c_served = True,
     c_link = Unreachable, c_link_after = Unreachable, c_order_timeout = 900\<rparr>"

fun run_ops :: "db_env \<Rightarrow> backend_op list \<Rightarrow> world \<Rightarrow> world" where
  "run_ops env [] w = w"
| "run_ops env (op # ops) w = (let b' = run_op env op (snd w) in run_ops env ops (bk_db b' # fst w, b'))"

fun all_admitted :: "db_env \<Rightarrow> backend_op list \<Rightarrow> world \<Rightarrow> bool" where
  "all_admitted env [] w \<longleftrightarrow> True"
| "all_admitted env (op # ops) w \<longleftrightarrow> admitted (fst w) op \<and>
     (let b' = run_op env op (snd w) in all_admitted env ops (bk_db b' # fst w, b'))"

lemma run_ops_runs: "backend_runs env w0 w \<Longrightarrow> all_admitted env ops w \<Longrightarrow> backend_runs env w0 (run_ops env ops w)"
proof (induction ops arbitrary: w)
  case (Cons op ops)
  have "backend_step env w op (bk_db (run_op env op (snd w)) # fst w, run_op env op (snd w))"
    using Cons.prems(2) backend_step.call[of "fst w" op _ env "snd w"] by simp
  then show ?case using Cons.IH[OF backend_runs.more[OF Cons.prems(1)]] Cons.prems(2) by (simp add: Let_def)
qed simp

text \<open>The tables with a product, with it on sale, with five pieces of it, and with an order of two.\<close>

definition shop_product :: "int \<Rightarrow> products_row" where
  "shop_product st = \<lparr>p_id = 1, p_name = [0x41], p_description = [], p_price_fen = 250, p_status = st\<rparr>"

definition shop_db1 :: db where "shop_db1 = empty_db\<lparr>t_products := [shop_product 2]\<rparr>"
definition shop_db2 :: db where "shop_db2 = empty_db\<lparr>t_products := [shop_product 1]\<rparr>"

definition shop_log :: log_row where
  "shop_log = \<lparr>l_product_id = 1, l_change_quantity = 5, l_before_quantity = 0, l_after_quantity = 5, l_biz_type = 1,
     l_biz_id = None, l_remark = initInventoryRemarkPrefix @ [0x41]\<rparr>"

definition shop_db3 :: db where
  "shop_db3 = shop_db2\<lparr>t_inventories := [\<lparr>i_id = 1, i_product_id = 1, i_stock_quantity = 5, i_locked_quantity = 0\<rparr>],
     t_logs := [shop_log]\<rparr>"

definition shop_item :: create_item where "shop_item = \<lparr>ci_product_id = 1, ci_quantity = 2\<rparr>"

definition shop_request :: create_request where
  "shop_request = \<lparr>co_idempotency_key = [0x4B], co_items = [shop_item]\<rparr>"

definition shop_order :: orders_row where
  "shop_order = \<lparr>o_id = 7, o_user_id = 3, o_order_no = orderNoPrefix @ [0x37], o_total_amount_fen = 500, o_status = 1,
     o_paid_at = None, o_completed_at = None, o_cancelled_at = None, o_created_at = 1000\<rparr>"

definition shop_db4 :: db where
  "shop_db4 = \<lparr>t_products = [shop_product 1],
     t_inventories = [\<lparr>i_id = 1, i_product_id = 1, i_stock_quantity = 3, i_locked_quantity = 2\<rparr>],
     t_orders = [shop_order],
     t_items = [\<lparr>it_id = 1, it_order_id = 7, it_product_id = 1, it_product_name = [0x41], it_product_price_fen = 250,
       it_quantity = 2, it_subtotal_fen = 500\<rparr>],
     t_logs = [shop_log, \<lparr>l_product_id = 1, l_change_quantity = -2, l_before_quantity = 5, l_after_quantity = 3,
       l_biz_type = 3, l_biz_id = Some 7, l_remark = deduct_remark @ orderNoPrefix @ [0x37]\<rparr>],
     t_keys = [\<lparr>k_user_id = 3, k_idempotency_key = [0x4B], k_request_hash = marshal_payload [shop_item],
       k_order_id = Some 7, k_status = 2\<rparr>],
     t_outbox = [\<lparr>x_event_id = [0x37], x_order_id = 7, x_user_id = 3, x_timeout_at = 1900, x_next_attempt_at = 1000\<rparr>]\<rparr>"

definition shop_backend :: "db \<Rightarrow> backend" where
  "shop_backend d = \<lparr>bk_db = d, bk_redis = bk_redis start_backend, bk_metrics = []\<rparr>"

definition shop_placed :: backend where
  "shop_placed = recordOrderCreate ''success'' (shop_backend shop_db4)"

lemmas shop_defs = shop_env_def shop_product_def shop_item_def shop_log_def shop_request_def shop_order_def
  shop_backend_def calm_def

lemma shop_run1: "run_op shop_env (OpCreateProduct True [0x41] [] 250) start_backend = shop_backend shop_db1"
  by (simp add: CreateProduct_def service_CreateProduct_def go_trim_def go_space_def go_len_def start_backend_def
      shop_defs shop_db1_def transaction_def dao_CreateProduct_def empty_db_def next_id_def product_checks_def int64_def
      ProductStatusOffSale_def Let_def)

lemma shop_run2: "run_op shop_env (OpOnSale True 1 shop_db1) (shop_backend shop_db1) = shop_backend shop_db2"
  by (simp add: OnSaleProduct_def set_product_status_def dao_GetProductByID_def first_row_def dao_UpdateProductStatus_def
      update_rows_def shop_defs shop_db1_def shop_db2_def transaction_def empty_db_def product_checks_def int64_def
      ProductStatusOnSale_def Let_def)

lemma shop_run3: "run_op shop_env (OpInit (calm 0) 1 (Some 5) shop_db2) (shop_backend shop_db2) = shop_backend shop_db3"
  by (simp add: InitInventory_def dao_GetProductByID_def dao_GetInventoryByProductID_def first_row_def init_transaction_def
      dao_InitInventory_def dao_CreateStockLog_def inventory_checks_def log_checks_def int64_def next_id_def
      guard_SetInventoryStock_def over_def shop_defs shop_db2_def shop_db3_def transaction_def empty_db_def
      StockBizInit_def Let_def)

lemma sorted_one [simp]: "sortedOrderItems [i] = [i]"
  by (simp add: sortedOrderItems_def)

lemma shop_create:
  "create_transaction shop_env (calm 7) 3 [0x4B] (marshal_payload [shop_item]) [shop_item] shop_db3 =
     Inr ((shop_order, False), shop_db4)"
proof -
  let ?k = "\<lparr>k_user_id = 3, k_idempotency_key = [0x4B], k_request_hash = marshal_payload [shop_item],
     k_order_id = None, k_status = OrderBeingCreated\<rparr>"
  let ?d1 = "shop_db3\<lparr>t_keys := [?k]\<rparr>"
  let ?d2 = "?d1\<lparr>t_orders := [shop_order]\<rparr>"
  have w: "wrap64 500 = 500" "wrap64 3 = 3" "wrap64 (-2) = -2" by (simp_all add: wrap64_id int64_def)
  have "find_products [shop_item] ?d1 = Inr [1 \<mapsto> shop_product 1]"
    by (simp add: shop_item_def shop_db3_def shop_db2_def shop_product_def dao_GetProductByID_def first_row_def
        ProductStatusOnSale_def)
  moreover have "dao_CreateOrder shop_env shop_order ?d1 = Inr ?d2"
    by (simp add: dao_CreateOrder_def shop_order_def order_checks_def int64_def shop_db3_def shop_db2_def empty_db_def)
  moreover have "place_items shop_order [1 \<mapsto> shop_product 1] [shop_item] ?d2 = Inr (shop_db4\<lparr>t_keys := [?k], t_outbox := []\<rparr>)"
    by (simp add: place_item_def shop_item_def shop_product_def dao_GetInventoryByProductIDForUpdate_def first_row_def
        shop_db3_def shop_db2_def shop_db4_def empty_db_def dao_ReserveInventory_def patch_inventories_def update_rows_def
        inventory_checks_def int64_def w dao_CreateOrderItem_def item_checks_def dao_CreateStockLog_def log_checks_def
        go_biz_defs shop_order_def next_id_def Let_def)
  moreover have "dao_CompleteOrderIdempotencyKey shop_env 3 [0x4B] 7 (shop_db4\<lparr>t_keys := [?k], t_outbox := []\<rparr>) =
      Inr (1, shop_db4\<lparr>t_outbox := []\<rparr>)"
    by (simp add: dao_CompleteOrderIdempotencyKey_def update_rows_def same_key_def shop_env_def shop_db4_def
        OrderBeingCreated_def OrderAlreadyCreated_def)
  moreover have "dao_CreateOrderTimeoutOutbox shop_env \<lparr>x_event_id = [0x37], x_order_id = 7, x_user_id = 3,
      x_timeout_at = 1900, x_next_attempt_at = 1000\<rparr> (shop_db4\<lparr>t_outbox := []\<rparr>) = Inr shop_db4"
    by (simp add: dao_CreateOrderTimeoutOutbox_def shop_db4_def shop_order_def)
  moreover have "dec 7 = [0x37]" by (subst dec.simps) (simp add: digit_char_def)
  ultimately have "new_order shop_env (calm 7) 3 [0x4B] [shop_item] ?d1 = Inr (shop_order, shop_db4)"
    by (simp add: new_order_def calm_def generateOrderNo_def totalAmountFen_def shop_item_def shop_product_def w
        go_status_defs shop_order_def Let_def)
  then show ?thesis
    by (simp add: create_transaction_def dao_TryCreateOrderIdempotencyKey_def shop_db3_def shop_db2_def empty_db_def)
qed

lemma shop_run4: "CreateOrder shop_env (calm 7) 3 shop_request (shop_backend shop_db3) = (Inr shop_order, shop_placed)"
proof -
  have "go_trim [0x4B] = [0x4B]" "go_len [0x4B] = 1" by (simp_all add: go_trim_def go_space_def go_len_def utf8_point_def
        utf8_numbers_def high_surrogate_def low_surrogate_def)
  moreover have "buildCreateOrderRequestHash shop_env shop_request = marshal_payload [shop_item]"
    by (simp add: buildCreateOrderRequestHash_def shop_env_def shop_request_def)
  moreover have "PreDeductInventory (c_link (calm 7)) (c_order_id (calm 7)) [shop_item] (bk_redis start_backend) =
      ((False, False), bk_redis start_backend)"
    by (simp add: PreDeductInventory_def calm_def over_def case_prod_unfold)
  ultimately show ?thesis
    using shop_create
    by (simp add: CreateOrder_def shop_request_def validateDuplicateItems_def shop_backend_def shop_placed_def
        transaction_def Let_def) (simp add: calm_def)
qed

definition shop_past :: "db list" where
  "shop_past = [shop_db3, shop_db2, shop_db1, empty_db]"

lemma shop_stocked: "reachable shop_env shop_past (shop_backend shop_db3)"
proof -
  have "run_ops shop_env [OpCreateProduct True [0x41] [] 250, OpOnSale True 1 shop_db1, OpInit (calm 0) 1 (Some 5) shop_db2]
      start_world = (shop_past, shop_backend shop_db3)"
    unfolding run_ops.simps start_world_def snd_conv fst_conv Let_def shop_run1 shop_run2 shop_run3
    by (simp add: shop_backend_def shop_past_def)
  moreover have "all_admitted shop_env [OpCreateProduct True [0x41] [] 250, OpOnSale True 1 shop_db1,
      OpInit (calm 0) 1 (Some 5) shop_db2] start_world"
    unfolding all_admitted.simps start_world_def snd_conv fst_conv Let_def shop_run1 shop_run2 shop_run3
    by (simp add: shop_backend_def)
  ultimately show ?thesis using run_ops_runs[OF backend_runs.stop] by metis
qed

lemma shop_step: "backend_step shop_env (shop_past, shop_backend shop_db3) (OpCreateOrder (calm 7) 3 shop_request)
    (shop_db4 # shop_past, shop_placed)"
proof -
  have "bk_db shop_placed = shop_db4" by (simp add: shop_placed_def shop_backend_def)
  then show ?thesis
    using backend_step.call[of shop_past "OpCreateOrder (calm 7) 3 shop_request" shop_placed shop_env "shop_backend shop_db3"]
      shop_run4 by (simp add: shop_request_def calm_def)
qed

lemma shop_sold: "reachable shop_env (shop_db4 # shop_past) shop_placed"
  by (rule backend_runs.more[OF shop_stocked shop_step])

subsection \<open>The books\<close>

text \<open>
  C2: in every reachable state of the backend, whatever was called and failed in whatever order, the
  stock and the locked quantity of a product are not negative, the locked quantity is exactly what the
  orders awaiting payment hold, what was supplied is what is in stock, locked or sold, and the log of
  the product leads without a gap from nothing to the present stock.
\<close>

theorem stock_books_balance:
  assumes "reachable env past b" "iv \<in> set (t_inventories (bk_db b))"
  shows "0 \<le> i_stock_quantity iv \<and> 0 \<le> i_locked_quantity iv \<and>
    i_locked_quantity iv = pending (bk_db b) (i_product_id iv) \<and>
    i_stock_quantity iv + i_locked_quantity iv + sold (bk_db b) (i_product_id iv) = supplied (bk_db b) (i_product_id iv) \<and>
    balance 0 (logs_of (i_product_id iv) (bk_db b)) = Some (i_stock_quantity iv)"
proof -
  have "balanced (bk_db b)" using reachable_sound[OF assms(1)] by (simp add: sound_def)
  from booksD(3)[OF this assms(2)] show ?thesis by (simp add: inventory_ok_def inventory_checks_def)
qed

theorem stock_books_balance_witness:
  "reachable shop_env (shop_db4 # shop_past) shop_placed \<and> pending (bk_db shop_placed) 1 = 2 \<and>
   sold (bk_db shop_placed) 1 = 0 \<and> supplied (bk_db shop_placed) 1 = 5"
proof -
  have "t_inventories (bk_db shop_placed) = [\<lparr>i_id = 1, i_product_id = 1, i_stock_quantity = 3, i_locked_quantity = 2\<rparr>]"
    by (simp add: shop_placed_def shop_backend_def shop_db4_def)
  moreover have "sold (bk_db shop_placed) 1 = 0"
    by (simp add: shop_placed_def shop_backend_def shop_db4_def shop_order_def sold_def qty_def status_of_def go_status_defs)
  ultimately show ?thesis
    using stock_books_balance[OF shop_sold, of "\<lparr>i_id = 1, i_product_id = 1, i_stock_quantity = 3, i_locked_quantity = 2\<rparr>"]
      shop_sold by simp
qed

subsection \<open>The life of an order\<close>

fun op_action :: "backend_op \<Rightarrow> (int \<times> order_action) option" where
  "op_action (OpPay c user i early) = Some (i, Pay)"
| "op_action (OpFinish c user i early) = Some (i, Finish)"
| "op_action (OpCancel c user i) = Some (i, Cancel)"
| "op_action (OpExpire c event i) = Some (i, Cancel)"
| "op_action _ = None"

lemma order_statuses:
  "jint OrderStatusPending = ORDER_PENDING" "jint OrderStatusPaid = ORDER_PAID"
  "jint OrderStatusFinished = ORDER_FINISHED" "jint OrderStatusCancelled = ORDER_CANCELLED"
  by (simp_all add: go_status_defs order_status_defs)

lemma restated_status: "restated i to tf now d d' \<Longrightarrow> i \<in> o_id ` set (t_orders d) \<Longrightarrow> status_of d' = (status_of d)(i := to)"
  by (rule status_of_restatus) (auto simp: restated_def)

lemma placed_status:
  assumes "placed env c user key hash items order d d'"
  shows "status_of d' j = (if j = o_id order then OrderStatusPending else status_of d j)"
  using assms status_of_append[of order d d' j] by (auto simp: placed_def)

lemma status_of_mem: "status_of d i \<noteq> 0 \<Longrightarrow> i \<in> o_id ` set (t_orders d)"
  by (auto simp: status_of_def dest!: find_SomeD split: option.splits)

lemma go_steps:
  "order_step (jint OrderStatusPending) Cancel (jint OrderStatusCancelled)"
  "order_step (jint OrderStatusPending) Pay (jint OrderStatusPaid)"
  "order_step (jint OrderStatusPaid) Finish (jint OrderStatusFinished)"
  by (simp_all add: order_statuses order_step.intros)

text \<open>What an action makes of an order, and the clock of the call it is part of.\<close>

fun after_action :: "order_action \<Rightarrow> int \<Rightarrow> orders_row \<Rightarrow> orders_row" where
  "after_action Pay now r = r\<lparr>o_status := OrderStatusPaid, o_paid_at := Some now\<rparr>"
| "after_action Finish now r = r\<lparr>o_status := OrderStatusFinished, o_completed_at := Some now\<rparr>"
| "after_action Cancel now r = r\<lparr>o_status := OrderStatusCancelled, o_cancelled_at := Some now\<rparr>"

fun op_time :: "backend_op \<Rightarrow> int option" where
  "op_time (OpPay c user i early) = Some (c_now c)"
| "op_time (OpFinish c user i early) = Some (c_now c)"
| "op_time (OpCancel c user i) = Some (c_now c)"
| "op_time (OpExpire c event i) = Some (c_now c)"
| "op_time _ = None"

definition acted :: "backend_op \<Rightarrow> orders_row \<Rightarrow> orders_row \<Rightarrow> bool" where
  "acted op r r' \<longleftrightarrow> (\<exists>a now. op_action op = Some (o_id r, a) \<and> op_time op = Some now \<and>
     order_step (jint (o_status r)) a (jint (o_status r')) \<and> r' = after_action a now r)"

lemma restated_acted:
  assumes "restated k to tf now d d'" "status_of d k = st" "balanced d" "r \<in> set (t_orders d)"
    and "\<And>q. restatus to tf now q = after_action a now q" "order_step (jint st) a (jint to)"
    and "op_action op = Some (k, a)" "op_time op = Some now"
  shows "\<exists>r' \<in> set (t_orders d'). r' = r \<or> acted op r r'"
proof -
  have rows: "t_orders d' = map (\<lambda>q. if o_id q = k then restatus to tf now q else q) (t_orders d)"
    using assms(1) by (simp add: restated_def)
  show ?thesis
  proof (cases "o_id r = k")
    case True
    have "status_of d (o_id r) = o_status r" using status_of_row[OF booksD(2)[OF assms(3)] assms(4)] .
    then have st: "o_status r = st" using assms(2) True by simp
    have "o_status (restatus to tf now r) = to" by simp
    then have "acted op r (restatus to tf now r)"
      unfolding acted_def using assms(5-8) st True by metis
    moreover have "restatus to tf now r \<in> set (t_orders d')" unfolding rows using assms(4) True by force
    ultimately show ?thesis by blast
  next
    case False
    then have "r \<in> set (t_orders d')" unfolding rows using assms(4) by force
    then show ?thesis by blast
  qed
qed

text \<open>Which transactions change an order, and how.\<close>

lemma committed_orders:
  assumes "committed env past op d d'" "sound env d" "r \<in> set (t_orders d)"
  shows "\<exists>r' \<in> set (t_orders d'). r' = r \<or> acted op r r'"
proof -
  have bal: "balanced d" using assms(2) by (simp add: sound_def)
  have same: ?thesis if "t_orders d' = t_orders d" using that assms(3) by auto
  from assms(1) show ?thesis
  proof cases
    case (product n e price p served name desc)
    then show ?thesis by (intro same) (auto simp: dao_CreateProduct_def Let_def split: if_splits)
  next
    case (on_sale j x served k early)
    then show ?thesis by (intro same) (auto simp: dao_UpdateProductStatus_def andThen_def split: sum.splits)
  next
    case (off_sale j x served k early)
    then show ?thesis by (intro same) (auto simp: dao_UpdateProductStatus_def andThen_def split: sum.splits)
  next
    case (initialise early k p q x c)
    then show ?thesis
      by (intro same) (auto simp: init_transaction_def dao_InitInventory_def dao_CreateStockLog_def onError_def andThen_def
          Let_def split: if_splits)
  next
    case (add q p after c)
    then show ?thesis using add_transaction_books[OF add(3) bal add(2)] by (intro same) (simp add: same_orders_def)
  next
    case (create req c user x)
    obtain order replay where "x = (order, replay)" by (rule prod.exhaust)
    then consider "d' = d" | "placed env c user (co_idempotency_key req) (buildCreateOrderRequestHash env req)
        (sortedOrderItems (co_items req)) order d d'"
      using create_transaction_cases[of env c user _ _ _ d order replay d'] create(6) bal by auto
    then show ?thesis
    proof cases
      case 2
      then have "t_orders d' = t_orders d @ [order]" by (auto simp: placed_def)
      then show ?thesis using assms(3) by auto
    qed (use same in simp)
  next
    case (cancel c user k how)
    consider "d' = d" | "restated k OrderStatusCancelled CancelledAt (c_now c) d d'" "status_of d k = OrderStatusPending"
      using cancel_transaction_restated[OF cancel(2) bal] by blast
    then show ?thesis
    proof cases
      case 2
      show ?thesis by (rule restated_acted[OF 2 bal assms(3) _ go_steps(1)]) (simp_all add: cancel(1) restatus_def)
    qed (use same in simp)
  next
    case (expire c event k how)
    consider "d' = d" | "restated k OrderStatusCancelled CancelledAt (c_now c) d d'" "status_of d k = OrderStatusPending"
      using expire_transaction_restated[OF expire(2) bal] by blast
    then show ?thesis
    proof cases
      case 2
      show ?thesis by (rule restated_acted[OF 2 bal assms(3) _ go_steps(1)]) (simp_all add: expire(1) restatus_def)
    qed (use same in simp)
  next
    case (pay c user k x early)
    have "restated k OrderStatusPaid PaidAt (c_now c) d d'" "status_of d k = OrderStatusPending"
      using pay_transaction_restated[OF pay(2) bal] by blast+
    then show ?thesis by (rule restated_acted[OF _ _ bal assms(3) _ go_steps(2)]) (simp_all add: pay(1) restatus_def)
  next
    case (finish c user k x early)
    have "restated k OrderStatusFinished CompletedAt (c_now c) d d'" "status_of d k = OrderStatusPaid"
      using finish_statement_restated[OF finish(2) bal] by blast+
    then show ?thesis by (rule restated_acted[OF _ _ bal assms(3) _ go_steps(3)]) (simp_all add: finish(1) restatus_def)
  qed
qed

text \<open>
  C4: whatever call is made in whatever state, the row of an order stays as it is, every field of it, or
  takes exactly one step of the state machine the frontend goes by: with the action of that call
  (cancelling for a timeout), which writes the new status and the time of that action and nothing else (the tables of the
  model have no column \<open>updated_at\<close>).
  No order, no item of an order, no key, no timeout, no log entry and no product goes or moves, and a
  product keeps its name, description and price.
\<close>

theorem order_moves_follow_machine:
  assumes "reachable env past b" "backend_step env (past, b) op (past', b')" "r \<in> set (t_orders (bk_db b))"
  shows "(\<exists>r' \<in> set (t_orders (bk_db b')). r' = r \<or>
      (\<exists>a now. op_action op = Some (o_id r, a) \<and> op_time op = Some now \<and>
        order_step (jint (o_status r)) a (jint (o_status r')) \<and> r' = after_action a now r)) \<and>
    grows (bk_db b) (bk_db b')"
  using assms(2)
proof cases
  case call
  have "\<exists>r' \<in> set (t_orders (bk_db b')). r' = r \<or> acted op r r'"
    using step_committed[OF call(2), of env b] committed_orders[of env past op "bk_db b" "bk_db b'" r]
      reachable_sound[OF assms(1)] assms(3) call by (cases "bk_db b' = bk_db b") auto
  moreover have "grows (bk_db b) (bk_db b')"
    using step_ok[OF assms(2) reachable_ok[OF assms(1)]] by simp
  ultimately show ?thesis unfolding acted_def by blast
qed

text \<open>The shop after the order is paid.\<close>

definition shop_db5 :: db where
  "shop_db5 = shop_db4\<lparr>t_inventories := [\<lparr>i_id = 1, i_product_id = 1, i_stock_quantity = 3, i_locked_quantity = 0\<rparr>],
     t_orders := [shop_order\<lparr>o_status := 2, o_paid_at := Some 1000\<rparr>]\<rparr>"

definition shop_paid :: backend where
  "shop_paid = recordOrderTransition ''pay'' ''success'' (shop_placed\<lparr>bk_db := shop_db5, bk_redis := bk_redis start_backend\<rparr>)"

lemma shop_pay_transaction: "pay_transaction 1000 3 7 shop_db4 = Inr ((), shop_db5)"
  by (simp add: pay_transaction_def dao_PatchOrderStatus_def update_rows_def shop_db4_def shop_db5_def shop_order_def
      order_checks_def int64_def go_status_defs dao_ListOrderItemsByOrderIDForInventory_def aggregateAndSortOrderItems_def
      wrap64_def dao_ConsumeLockedInventory_def patch_inventories_def inventory_checks_def Let_def)

lemma shop_pay: "PayOrder (calm 0) 3 7 shop_db4 shop_placed = (Inr (), shop_paid)"
proof -
  have "pay_check 3 7 shop_db4 = Inr shop_order"
    by (simp add: pay_check_def dao_GetOrderByID_def first_row_def shop_db4_def shop_order_def go_status_defs)
  moreover have "bk_db shop_placed = shop_db4" "bk_redis shop_placed = bk_redis start_backend"
    by (simp_all add: shop_placed_def shop_backend_def)
  ultimately show ?thesis
    using shop_pay_transaction
    by (simp add: PayOrder_def transaction_def calm_def shop_order_def ConfirmPreDeductedInventory_def over_def shop_paid_def Let_def)
qed

lemma shop_pay_step: "backend_step shop_env (shop_db4 # shop_past, shop_placed) (OpPay (calm 0) 3 7 shop_db4)
    (shop_db5 # shop_db4 # shop_past, shop_paid)"
proof -
  have "bk_db shop_paid = shop_db5" by (simp add: shop_paid_def)
  then show ?thesis
    using backend_step.call[of "shop_db4 # shop_past" "OpPay (calm 0) 3 7 shop_db4" shop_paid shop_env shop_placed] shop_pay
    by simp
qed

theorem order_moves_follow_machine_witness:
  "backend_step shop_env (shop_db4 # shop_past, shop_placed) (OpPay (calm 0) 3 7 shop_db4) (shop_db5 # shop_db4 # shop_past, shop_paid) \<and>
   shop_order\<lparr>o_status := 2, o_paid_at := Some 1000\<rparr> = after_action Pay 1000 shop_order \<and> order_step ORDER_PENDING Pay ORDER_PAID"
proof -
  have mem: "shop_order \<in> set (t_orders (bk_db shop_placed))"
    and rows: "t_orders (bk_db shop_paid) = [shop_order\<lparr>o_status := 2, o_paid_at := Some 1000\<rparr>]"
    by (simp_all add: shop_placed_def shop_paid_def shop_backend_def shop_db4_def shop_db5_def)
  have "shop_order\<lparr>o_status := 2, o_paid_at := Some 1000\<rparr> \<noteq> shop_order" by (simp add: shop_order_def)
  then have "shop_order\<lparr>o_status := 2, o_paid_at := Some 1000\<rparr> = after_action Pay 1000 shop_order \<and>
      order_step (jint (o_status shop_order)) Pay (jint 2)"
    using order_moves_follow_machine[OF shop_sold shop_pay_step mem] unfolding rows by (auto simp: calm_def)
  then show ?thesis using shop_pay_step order_statuses by (simp add: shop_order_def go_status_defs)
qed

subsection \<open>One order for one key\<close>

text \<open>
  C19: in every reachable state the orders, the idempotency keys and the timeouts are in step, one of
  each in the order they were made and for the same user; every key is completed, and no user has the
  same key twice in the sense of the database's collation.
\<close>

theorem one_order_per_key:
  assumes "reachable env past b"
  shows "map (\<lambda>k. (k_user_id k, k_order_id k, k_status k)) (t_keys (bk_db b)) =
      map (\<lambda>r. (o_user_id r, Some (o_id r), OrderAlreadyCreated)) (t_orders (bk_db b)) \<and>
    map (\<lambda>x. (x_user_id x, x_order_id x)) (t_outbox (bk_db b)) = map (\<lambda>r. (o_user_id r, o_id r)) (t_orders (bk_db b)) \<and>
    distinct (map o_id (t_orders (bk_db b))) \<and>
    distinct (map (\<lambda>k. (k_user_id k, collate env (k_idempotency_key k))) (t_keys (bk_db b)))"
  using reachable_sound[OF assms] booksD(2) by (auto simp: sound_def records_def)

theorem one_order_per_key_witness:
  "reachable shop_env (shop_db4 # shop_past) shop_placed \<and>
   map k_order_id (t_keys (bk_db shop_placed)) = [Some 7]"
proof -
  have "map o_id (t_orders (bk_db shop_placed)) = [7]"
    by (simp add: shop_placed_def shop_backend_def shop_db4_def shop_order_def)
  moreover have "map k_order_id (t_keys (bk_db shop_placed)) = map (\<lambda>r. Some (o_id r)) (t_orders (bk_db shop_placed))"
    using arg_cong[OF conjunct1[OF one_order_per_key[OF shop_sold]], of "map (\<lambda>(_, i, _). i)"] by (simp add: comp_def)
  ultimately show ?thesis using shop_sold by (cases "t_orders (bk_db shop_placed)") auto
qed

subsection \<open>The amount of an order\<close>

lemma wrapped_sum:
  assumes "\<And>it. it \<in> set its \<Longrightarrow> 0 \<le> f it" "0 \<le> a" "a + sum_list (map f its) < 2 ^ 63"
  shows "foldl (\<lambda>t it. wrap64 (t + f it)) a its = a + sum_list (map f its)"
  using assms
proof (induction its arbitrary: a)
  case (Cons it its)
  have "0 \<le> sum_list (map f its)" using Cons.prems(1) by (intro sum_list_nonneg) auto
  moreover have "0 \<le> f it" using Cons.prems(1) by simp
  ultimately have "wrap64 (a + f it) = a + f it" using Cons.prems(2,3) by (intro wrap64_id) (simp add: int64_def)
  then show ?case using Cons by (simp add: algebra_simps)
qed simp

text \<open>
  C21: the amount of every order is the exact sum of price times quantity over its items whenever that
  sum is below \<open>2 ^ 63\<close>; the items are never empty and name each product once.
\<close>

theorem order_total_exact:
  assumes "reachable env past b" "r \<in> set (t_orders (bk_db b))"
    and "sum_list (map (\<lambda>it. it_product_price_fen it * it_quantity it) (items_of (o_id r) (bk_db b))) < 2 ^ 63"
  shows "o_total_amount_fen r = sum_list (map (\<lambda>it. it_product_price_fen it * it_quantity it) (items_of (o_id r) (bk_db b))) \<and>
    items_of (o_id r) (bk_db b) \<noteq> [] \<and> distinct (map it_product_id (items_of (o_id r) (bk_db b)))"
proof -
  let ?its = "items_of (o_id r) (bk_db b)"
  let ?f = "\<lambda>it. it_product_price_fen it * it_quantity it"
  have ok: "order_ok (bk_db b) r" using reachable_sound[OF assms(1)] assms(2) by (simp add: sound_def records_def)
  have "0 < it_product_price_fen it \<and> 0 < it_quantity it" if "it \<in> set ?its" for it
    using ok that by (simp add: order_ok_def item_checks_def)
  then have pos: "0 \<le> ?f it" if "it \<in> set ?its" for it
    using that by (metis less_imp_le mult_nonneg_nonneg)
  have "?f it < 2 ^ 63" if "it \<in> set ?its" for it
    using member_le_sum_list[of "?f it" "map ?f ?its"] pos that assms(3) by fastforce
  then have sub: "it_subtotal_fen it = ?f it" if "it \<in> set ?its" for it
    using ok pos[OF that] that wrap64_id[of "?f it"] by (simp add: order_ok_def int64_def)
  have "foldl (\<lambda>t it. wrap64 (t + it_subtotal_fen it)) 0 ?its = foldl (\<lambda>t it. wrap64 (t + ?f it)) 0 ?its"
    by (rule foldl_cong) (simp_all add: sub)
  then show ?thesis using wrapped_sum[of ?its ?f 0] pos assms(3) ok by (simp add: order_ok_def)
qed

theorem order_total_exact_witness: "o_total_amount_fen shop_order = 250 * 2"
proof -
  have "items_of 7 (bk_db shop_placed) = [\<lparr>it_id = 1, it_order_id = 7, it_product_id = 1, it_product_name = [0x41],
      it_product_price_fen = 250, it_quantity = 2, it_subtotal_fen = 500\<rparr>]" "o_id shop_order = 7"
      "shop_order \<in> set (t_orders (bk_db shop_placed))"
    by (simp_all add: items_of_def shop_placed_def shop_backend_def shop_db4_def shop_order_def)
  then show ?thesis using order_total_exact[OF shop_sold, of shop_order] by simp
qed

end
