(* ===== verification/Placing.thy ===== *)
theory Placing
  imports BackendProps
begin

section \<open>Retrying and failing to place an order\<close>

text \<open>
  What an idempotency key is worth: a request that was answered once is answered with the same order
  for ever, and the same key with other items is refused, provided that \<open>sha256\<close> tells the two payloads
  apart. The payloads themselves are told apart by their items alone, in any order.
\<close>

subsection \<open>The payload determines its items\<close>

lemma int_text_units: "u \<in> set (int_text n) \<Longrightarrow> is_digit u \<or> u = 0x2D"
  using dec_digits[of n] dec_digits[of "- n"] by (auto simp: int_text_def js_def split: if_splits)

lemma int_text_inject: "int_text m = int_text n \<longleftrightarrow> m = n"
proof
  assume eq: "int_text m = int_text n"
  have minus: "js ''-'' = [0x2D]" by (simp add: js_def)
  have d: "hd (dec k) \<noteq> 0x2D" if "0 \<le> k" for k
  proof -
    have "is_digit (hd (dec k))" using dec_digits[OF that] by simp
    then show ?thesis by (auto simp: is_digit_def)
  qed
  consider "m < 0" "n < 0" | "m < 0" "0 \<le> n" | "0 \<le> m" "n < 0" | "0 \<le> m" "0 \<le> n" by linarith
  then show "m = n"
  proof cases
    case 1
    then show ?thesis using eq dec_inject[of "- m" "- n"] by (simp add: int_text_def)
  next
    case 2
    then have "dec n = 0x2D # dec (- m)" using eq by (simp add: int_text_def minus)
    then show ?thesis using d[of n] 2 by simp
  next
    case 3
    then have "dec m = 0x2D # dec (- n)" using eq by (simp add: int_text_def minus)
    then show ?thesis using d[of m] 3 by simp
  next
    case 4
    then show ?thesis using eq dec_inject by (simp add: int_text_def)
  qed
qed simp

lemma not_in_int_text: "\<not> is_digit u \<Longrightarrow> u \<noteq> 0x2D \<Longrightarrow> u \<notin> set (int_text n)"
  using int_text_units by blast

text \<open>The text of an item without its closing brace, as two parts around the comma.\<close>

definition marshal_head :: "create_item \<Rightarrow> jsstr" where
  "marshal_head i = js ''{'' @ 0x22 # js ''product_id'' @ 0x22 # js '':'' @ int_text (ci_product_id i)"

definition marshal_tail :: "create_item \<Rightarrow> jsstr" where
  "marshal_tail i = 0x22 # js ''quantity'' @ 0x22 # js '':'' @ int_text (ci_quantity i)"

lemma marshal_item_parts: "marshal_item i = (marshal_head i @ 0x2C # marshal_tail i) @ [0x7D]"
  by (simp add: marshal_item_def marshal_head_def marshal_tail_def js_def)

lemma item_parts_units:
  "0x2C \<notin> set (marshal_head i)" "0x7D \<notin> set (marshal_head i)" "0x7D \<notin> set (marshal_tail i)"
  using not_in_int_text[of "0x2C"] not_in_int_text[of "0x7D"]
  by (simp_all add: marshal_head_def marshal_tail_def js_def is_digit_def)

lemma item_parts_inject:
  assumes "marshal_head i @ 0x2C # marshal_tail i = marshal_head j @ 0x2C # marshal_tail j"
  shows "i = j"
proof -
  have "marshal_head i = marshal_head j \<and> marshal_tail i = marshal_tail j"
    using append_sep_cancel[OF assms] item_parts_units by blast
  then have "ci_product_id i = ci_product_id j" "ci_quantity i = ci_quantity j"
    by (simp_all add: marshal_head_def marshal_tail_def int_text_inject)
  then show ?thesis by simp
qed

lemma marshal_items_inject:
  assumes "join (js '','') (map marshal_item xs) @ js '']'' @ r = join (js '','') (map marshal_item ys) @ js '']'' @ r"
  shows "xs = ys"
  using assms
proof (induction xs arbitrary: ys)
  case Nil
  show ?case
  proof (cases ys)
    case (Cons y ys')
    have "hd (join (js '','') (map marshal_item ys) @ js '']'' @ r) = 0x7B"
      using Cons by (cases ys') (simp_all add: marshal_item_def js_def)
    moreover have "hd (join (js '','') (map marshal_item []) @ js '']'' @ r) = 0x5D" by (simp add: js_def)
    ultimately show ?thesis using Nil by simp
  qed simp
next
  case (Cons x xs)
  note eq = Cons.prems
  have hx: "hd (join (js '','') (map marshal_item (x # xs)) @ js '']'' @ r) = 0x7B"
    by (cases xs) (simp_all add: marshal_item_def js_def)
  obtain y ys' where ys: "ys = y # ys'" using eq hx by (cases ys) (simp_all add: js_def)
  let ?rest = "\<lambda>zs. (if zs = [] then [] else js '','' @ join (js '','') (map marshal_item zs)) @ js '']'' @ r"
  have j: "join (js '','') (map marshal_item (z # zs)) @ js '']'' @ r = (marshal_head z @ 0x2C # marshal_tail z) @ 0x7D # ?rest zs" for z zs
    by (cases zs) (simp_all add: marshal_item_parts)
  have e: "(marshal_head x @ 0x2C # marshal_tail x) @ 0x7D # ?rest xs = (marshal_head y @ 0x2C # marshal_tail y) @ 0x7D # ?rest ys'"
    using eq unfolding ys j .
  have "marshal_head x @ 0x2C # marshal_tail x = marshal_head y @ 0x2C # marshal_tail y \<and> ?rest xs = ?rest ys'"
    using append_sep_cancel[OF e] item_parts_units by simp
  then have "x = y" and r: "?rest xs = ?rest ys'" using item_parts_inject by blast+
  have c: "js '','' = [0x2C]" "js '']'' = [0x5D]" by (simp_all add: js_def)
  have "(xs = []) = (ys' = [])" using r by (auto simp: c split: if_splits)
  then have "join (js '','') (map marshal_item xs) @ js '']'' @ r = join (js '','') (map marshal_item ys') @ js '']'' @ r"
    using r by (cases "xs = []") simp_all
  then show ?case using Cons.IH[of ys'] \<open>x = y\<close> ys by simp
qed

lemma marshal_payload_inject: "marshal_payload xs = marshal_payload ys \<Longrightarrow> xs = ys"
proof -
  assume eq: "marshal_payload xs = marshal_payload ys"
  have b: "js ''['' = [0x5B]" "js ''null'' = [0x6E, 0x75, 0x6C, 0x6C]" by (simp_all add: js_def)
  have "(xs = []) = (ys = [])" using eq by (auto simp: marshal_payload_def b split: if_splits)
  moreover have "xs = ys" if "xs \<noteq> []" "ys \<noteq> []"
    by (rule marshal_items_inject[where r = "js ''}''"]) (use eq that in \<open>simp add: marshal_payload_def\<close>)
  ultimately show "xs = ys" by auto
qed

text \<open>Sorting forgets the order of the items and nothing else.\<close>

lemma sortedOrderItems_eq_iff:
  assumes "distinct (map ci_product_id xs)"
  shows "sortedOrderItems xs = sortedOrderItems ys \<longleftrightarrow> mset xs = mset ys"
proof
  assume "sortedOrderItems xs = sortedOrderItems ys"
  then have "mset (sortedOrderItems xs) = mset (sortedOrderItems ys)" by simp
  then show "mset xs = mset ys" by (simp add: sortedOrderItems_def)
next
  assume m: "mset xs = mset ys"
  have "sort_key ci_product_id (sort_key ci_quantity xs) = sort_key ci_product_id (sort_key ci_quantity ys)"
  proof (rule sort_key_inj_key_eq)
    show "mset (sort_key ci_quantity xs) = mset (sort_key ci_product_id (sort_key ci_quantity ys))" using m by simp
    show "inj_on ci_product_id (set (sort_key ci_quantity xs))" using assms by (simp add: distinct_map)
  qed simp
  then show "sortedOrderItems xs = sortedOrderItems ys" by (simp add: sortedOrderItems_def)
qed

subsection \<open>What a call of CreateOrder comes to\<close>

text \<open>
  A request that the service accepts for its form, and that the guard does not refuse, is what its
  transaction makes of it.
\<close>

definition well_formed :: "int \<Rightarrow> create_request \<Rightarrow> bool" where
  "well_formed user req \<longleftrightarrow> 0 < user \<and> go_trim (co_idempotency_key req) \<noteq> [] \<and> go_len (co_idempotency_key req) \<le> 128 \<and>
     distinct (map ci_product_id (co_items req))"

definition refused_by_guard :: "surroundings \<Rightarrow> create_request \<Rightarrow> redis \<Rightarrow> bool" where
  "refused_by_guard c req r \<longleftrightarrow> snd (fst (PreDeductInventory (c_link c) (c_order_id c) (sortedOrderItems (co_items req)) r))"

abbreviation creation :: "db_env \<Rightarrow> surroundings \<Rightarrow> int \<Rightarrow> create_request \<Rightarrow> db \<Rightarrow> (go_error + orders_row \<times> bool) \<times> db" where
  "creation env c user req \<equiv> transaction (c_served c) (create_transaction env c user (co_idempotency_key req)
     (buildCreateOrderRequestHash env req) (sortedOrderItems (co_items req)))"

lemma CreateOrder_result:
  assumes "well_formed user req" "\<not> refused_by_guard c req (bk_redis b)"
  shows "fst (CreateOrder env c user req b) = (case fst (creation env c user req (bk_db b)) of Inl e \<Rightarrow> Inl e | Inr (r, _) \<Rightarrow> Inr r)"
    and "bk_db (snd (CreateOrder env c user req b)) = snd (creation env c user req (bk_db b))"
proof -
  obtain res d where t: "creation env c user req (bk_db b) = (res, d)" by (rule prod.exhaust)
  obtain a i r where p: "PreDeductInventory (c_link c) (c_order_id c) (sortedOrderItems (co_items req)) (bk_redis b) = ((a, i), r)"
    by (metis prod.exhaust)
  have "\<not> i" using assms(2) by (simp add: refused_by_guard_def p)
  then show "fst (CreateOrder env c user req b) = (case fst (creation env c user req (bk_db b)) of Inl e \<Rightarrow> Inl e | Inr (r, _) \<Rightarrow> Inr r)"
    "bk_db (snd (CreateOrder env c user req b)) = snd (creation env c user req (bk_db b))"
    using assms(1) by (auto simp: CreateOrder_def well_formed_def Let_def p t validate_distinct[symmetric] not_le
        split: sum.split prod.split bool.split)
qed

lemma CreateOrder_refused:
  assumes "well_formed user req" "refused_by_guard c req (bk_redis b)"
  shows "fst (CreateOrder env c user req b) = Inl ErrInsufficientStock \<and> bk_db (snd (CreateOrder env c user req b)) = bk_db b"
proof -
  obtain a i r where p: "PreDeductInventory (c_link c) (c_order_id c) (sortedOrderItems (co_items req)) (bk_redis b) = ((a, i), r)"
    by (metis prod.exhaust)
  then have "i" using assms(2) by (simp add: refused_by_guard_def)
  then show ?thesis using assms(1)
    by (simp add: CreateOrder_def well_formed_def Let_def p validate_distinct[symmetric] not_le)
qed

lemma CreateOrder_Inr:
  assumes "CreateOrder env c user req b = (Inr order, b1)"
  shows "well_formed user req \<and> \<not> refused_by_guard c req (bk_redis b) \<and>
    (\<exists>replay. create_transaction env c user (co_idempotency_key req) (buildCreateOrderRequestHash env req)
      (sortedOrderItems (co_items req)) (bk_db b) = Inr ((order, replay), bk_db b1))"
proof -
  have w: "well_formed user req"
    using assms by (auto simp: CreateOrder_def well_formed_def validate_distinct[symmetric] split: if_splits sum.splits)
  have g: "\<not> refused_by_guard c req (bk_redis b)"
    using assms by (auto simp: CreateOrder_def refused_by_guard_def Let_def split: if_splits sum.splits prod.splits)
  obtain res d where t: "creation env c user req (bk_db b) = (res, d)" by (rule prod.exhaust)
  have "(case res of Inl e \<Rightarrow> Inl e | Inr (r, _) \<Rightarrow> Inr r) = Inr order" "bk_db b1 = d"
    using CreateOrder_result[OF w g, of env] assms t by simp_all
  then show ?thesis using w g t by (auto simp: transaction_def split: if_splits sum.splits prod.splits)
qed

text \<open>The record of a key that was answered, and that it stays.\<close>

definition answered :: "db_env \<Rightarrow> int \<Rightarrow> jsstr \<Rightarrow> jsstr \<Rightarrow> orders_row \<Rightarrow> db \<Rightarrow> bool" where
  "answered env user key hash order d \<longleftrightarrow>
     (\<exists>k \<in> set (t_keys d). same_key env user key k \<and> k_request_hash k = hash \<and> k_order_id k = Some (o_id order) \<and>
        k_status k = OrderAlreadyCreated) \<and> o_user_id order = user \<and> core order \<in> core ` set (t_orders d)"

lemma prefix_set: "prefix xs ys \<Longrightarrow> set xs \<subseteq> set ys"
  by (auto simp: prefix_def)

lemma answered_grows: "answered env user key hash order d \<Longrightarrow> grows d d' \<Longrightarrow> answered env user key hash order d'"
  unfolding answered_def grows_def using prefix_set[of "t_keys d" "t_keys d'"]
    prefix_set[of "map core (t_orders d)" "map core (t_orders d')"] by auto

lemma first_key:
  assumes "records env d" "k \<in> set (t_keys d)" "same_key env user key k"
  shows "dao_GetOrderIdempotencyKey env user key d = Inr k"
proof -
  let ?g = "\<lambda>k. (k_user_id k, collate env (k_idempotency_key k))"
  have "distinct (map ?g (t_keys d))" using assms(1) by (simp add: records_def)
  moreover have "same_key env user key = (\<lambda>q. ?g q = ?g k)" using assms(3) by (auto simp: same_key_def fun_eq_iff)
  ultimately show ?thesis
    using first_row_distinct[of ?g "t_keys d" k] assms(2) by (simp add: dao_GetOrderIdempotencyKey_def)
qed

lemma order_by_core:
  assumes "balanced d" "core order \<in> core ` set (t_orders d)"
  shows "\<exists>r. dao_GetOrderByID (o_user_id order) (o_id order) d = Inr r \<and> core r = core order"
proof -
  obtain r where r: "r \<in> set (t_orders d)" "core r = core order" using assms(2) by auto
  have u: "o_user_id r = o_user_id order" "o_id r = o_id order" using r(2) by (simp_all add: core_def)
  have same: "q = r" if "q \<in> set (t_orders d)" "o_id q = o_id r" for q
    using booksD(2)[OF assms(1)] that r(1) by (auto simp: distinct_map dest: inj_onD)
  have "(o_user_id q = o_user_id order \<and> o_id q = o_id order) \<longleftrightarrow> o_id q = o_id r" if "q \<in> set (t_orders d)" for q
    using same[OF that] u by metis
  then have "find (\<lambda>q. o_user_id q = o_user_id order \<and> o_id q = o_id order) (t_orders d) = find (\<lambda>q. o_id q = o_id r) (t_orders d)"
    by (intro find_cong) auto
  then show ?thesis using find_distinct[OF booksD(2)[OF assms(1)] r(1)] r
    by (simp add: dao_GetOrderByID_def first_row_def)
qed

lemma creation_answered:
  assumes "create_transaction env c user key hash items d = Inr ((order, replay), d')" "sound env d"
  shows "answered env user key hash order d'"
proof (cases replay)
  case True
  then have d': "d' = d" and re: "replay_order env user key hash d = Inr order"
    and ex: "\<exists>r \<in> set (t_keys d). same_key env user key r"
    using create_transaction_cases[OF assms(1)] assms(2) by (auto simp: sound_def)
  obtain k where k: "k \<in> set (t_keys d)" "same_key env user key k" using ex by blast
  have "dao_GetOrderIdempotencyKey env user key d = Inr k" using first_key[OF _ k] assms(2) by (simp add: sound_def)
  then obtain i where "k_request_hash k = hash" "k_status k = OrderAlreadyCreated" "k_order_id k = Some i"
      "dao_GetOrderByID user i d = Inr order"
    using re by (auto simp: replay_order_def split: if_splits option.splits)
  then show ?thesis using k GetOrderByID_Inr by (auto simp: answered_def d')
next
  case False
  then have "placed env c user key hash items order d d'"
    using create_transaction_cases[OF assms(1)] assms(2) by (auto simp: sound_def)
  then show ?thesis by (auto simp: placed_def answered_def same_key_def)
qed

lemma answered_replay:
  assumes "answered env user key hash order d" "sound env d" "0 < o_id order" "same_key env user key = same_key env user key'"
  shows "if hash' = hash then \<exists>r. replay_order env user key' hash' d = Inr r \<and> core r = core order
    else replay_order env user key' hash' d = Inl ErrOrderIdempotencyConflict"
proof -
  obtain k where k: "k \<in> set (t_keys d)" "same_key env user key' k" "k_request_hash k = hash"
    "k_order_id k = Some (o_id order)" "k_status k = OrderAlreadyCreated"
    using assms(1,4) by (auto simp: answered_def)
  have "dao_GetOrderIdempotencyKey env user key' d = Inr k"
    using first_key[OF _ k(1,2)] assms(2) by (simp add: sound_def)
  then show ?thesis
    using k assms(1-3) order_by_core[of d order] by (auto simp: replay_order_def answered_def sound_def)
qed

subsection \<open>A key answers with one order\<close>

lemma answered_later:
  assumes "reachable env past b" "co_items req \<noteq> []" "0 < c_order_id c"
    and first: "CreateOrder env c user req b = (Inr order, b1)"
    and later: "backend_runs env (bk_db b1 # past, b1) (past2, b2)"
  shows "answered env user (co_idempotency_key req) (buildCreateOrderRequestHash env req) order (bk_db b2) \<and>
    sound env (bk_db b2) \<and> 0 < o_id order \<and> distinct (map ci_product_id (co_items req))"
proof -
  obtain replay where w: "well_formed user req" and t: "create_transaction env c user (co_idempotency_key req)
      (buildCreateOrderRequestHash env req) (sortedOrderItems (co_items req)) (bk_db b) = Inr ((order, replay), bk_db b1)"
    using CreateOrder_Inr[OF first] by blast
  have step: "backend_step env (past, b) (OpCreateOrder c user req) (bk_db b1 # past, b1)"
    using backend_step.call[of past "OpCreateOrder c user req" b1 env b] assms(2,3) first by simp
  have ok: "backend_ok env (bk_db b1 # past, b1)" using step_ok[OF step reachable_ok[OF assms(1)]] by simp
  have a: "answered env user (co_idempotency_key req) (buildCreateOrderRequestHash env req) order (bk_db b1)"
    using creation_answered[OF t reachable_sound[OF assms(1)]] .
  have ok2: "backend_ok env (past2, b2) \<and> grows (bk_db b1) (bk_db b2)" using runs_ok[OF later ok] by simp
  then have s2: "sound env (bk_db b2)" by (fastforce simp: backend_ok_def)
  have a2: "answered env user (co_idempotency_key req) (buildCreateOrderRequestHash env req) order (bk_db b2)"
    using answered_grows[OF a] ok2 by blast
  then obtain r where "r \<in> set (t_orders (bk_db b2))" "core r = core order" by (auto simp: answered_def)
  then have "0 < o_id order" using s2 by (auto simp: sound_def records_def order_ok_def core_def)
  then show ?thesis using a2 s2 w by (simp add: well_formed_def)
qed

lemma same_key_collate: "collate env key' = collate env key \<Longrightarrow> same_key env user key = same_key env user key'"
  by (simp add: same_key_def fun_eq_iff)

lemma replay_creation:
  assumes "replay_order env user key hash d = res" "\<exists>r \<in> set (t_keys d). same_key env user key r"
  shows "create_transaction env c user key hash items d = andThen res (\<lambda>order. Inr ((order, True), d))"
  using assms by (simp add: create_transaction_def dao_TryCreateOrderIdempotencyKey_def)

text \<open>
  C13: after an order was placed, whatever happened since, a request with the same key, as the
  database compares texts, and the same items, in any order, that is accepted for its form and finds the database serving, changes no table
  and is answered with that order; but where the guard counts too little stock left, which it looks at
  before the key, the answer is that the stock is short.
\<close>

theorem retry_returns_same_order:
  assumes "reachable env past b" "co_items req \<noteq> []" "0 < c_order_id c"
    and "CreateOrder env c user req b = (Inr order, b1)" "backend_runs env (bk_db b1 # past, b1) (past2, b2)"
    and "collate env (co_idempotency_key req') = collate env (co_idempotency_key req)"
    and "mset (co_items req') = mset (co_items req)" "well_formed user req'"
    and "c_served c'"
  shows "bk_db (snd (CreateOrder env c' user req' b2)) = bk_db b2 \<and>
    (if refused_by_guard c' req' (bk_redis b2) then fst (CreateOrder env c' user req' b2) = Inl ErrInsufficientStock
     else \<exists>r. fst (CreateOrder env c' user req' b2) = Inr r \<and> core r = core order)"
proof (cases "refused_by_guard c' req' (bk_redis b2)")
  case True
  then show ?thesis using CreateOrder_refused[OF assms(8)] by simp
next
  case False
  note a = answered_later[OF assms(1-5)]
  have "sortedOrderItems (co_items req) = sortedOrderItems (co_items req')"
    using sortedOrderItems_eq_iff[of "co_items req" "co_items req'"] a assms(7) by simp
  then have hash: "buildCreateOrderRequestHash env req' = buildCreateOrderRequestHash env req"
    by (simp add: buildCreateOrderRequestHash_def)
  obtain r where r: "replay_order env user (co_idempotency_key req') (buildCreateOrderRequestHash env req') (bk_db b2) = Inr r"
      "core r = core order"
    using answered_replay[of env user "co_idempotency_key req" "buildCreateOrderRequestHash env req" order "bk_db b2"
      "co_idempotency_key req'" "buildCreateOrderRequestHash env req'"] a same_key_collate[OF assms(6)] hash by auto
  have "\<exists>k \<in> set (t_keys (bk_db b2)). same_key env user (co_idempotency_key req') k"
    using a same_key_collate[OF assms(6)] by (auto simp: answered_def)
  from replay_creation[OF r(1) this] have t: "creation env c' user req' (bk_db b2) = (Inr (r, True), bk_db b2)"
    using assms(9) by (simp add: transaction_def)
  show ?thesis using CreateOrder_result[OF assms(8) False, of env] r(2) False by (simp add: t)
qed

text \<open>
  C14: after an order was placed, whatever happened since, a request with the same key and other items
  that is accepted for its form and finds the database serving changes no table and is refused as a
  conflict, if \<open>sha256\<close> tells the two payloads apart; but where the guard counts too little stock left,
  the answer is that the stock is short.
\<close>

theorem reused_key_conflicts:
  assumes "reachable env past b" "co_items req \<noteq> []" "0 < c_order_id c"
    and "CreateOrder env c user req b = (Inr order, b1)" "backend_runs env (bk_db b1 # past, b1) (past2, b2)"
    and "collate env (co_idempotency_key req') = collate env (co_idempotency_key req)"
    and "mset (co_items req') \<noteq> mset (co_items req)" "well_formed user req'"
    and "c_served c'"
    and "buildCreateOrderRequestHash env req' = buildCreateOrderRequestHash env req \<Longrightarrow>
      marshal_payload (sortedOrderItems (co_items req')) = marshal_payload (sortedOrderItems (co_items req))"
  shows "bk_db (snd (CreateOrder env c' user req' b2)) = bk_db b2 \<and>
    fst (CreateOrder env c' user req' b2) =
      Inl (if refused_by_guard c' req' (bk_redis b2) then ErrInsufficientStock else ErrOrderIdempotencyConflict)"
proof (cases "refused_by_guard c' req' (bk_redis b2)")
  case True
  then show ?thesis using CreateOrder_refused[OF assms(8)] by simp
next
  case False
  note a = answered_later[OF assms(1-5)]
  have "sortedOrderItems (co_items req) \<noteq> sortedOrderItems (co_items req')"
    using sortedOrderItems_eq_iff[of "co_items req" "co_items req'"] a assms(7) by auto
  then have hash: "buildCreateOrderRequestHash env req' \<noteq> buildCreateOrderRequestHash env req"
    using assms(10) marshal_payload_inject by metis
  have r: "replay_order env user (co_idempotency_key req') (buildCreateOrderRequestHash env req') (bk_db b2) =
      Inl ErrOrderIdempotencyConflict"
    using answered_replay[of env user "co_idempotency_key req" "buildCreateOrderRequestHash env req" order "bk_db b2"
      "co_idempotency_key req'" "buildCreateOrderRequestHash env req'"] a same_key_collate[OF assms(6)] hash by auto
  have "\<exists>k \<in> set (t_keys (bk_db b2)). same_key env user (co_idempotency_key req') k"
    using a same_key_collate[OF assms(6)] by (auto simp: answered_def)
  from replay_creation[OF r this] have t: "creation env c' user req' (bk_db b2) = (Inl ErrOrderIdempotencyConflict, bk_db b2)"
    using assms(9) by (simp add: transaction_def)
  show ?thesis using CreateOrder_result[OF assms(8) False, of env] False by (simp add: t)
qed

lemma shop_well_formed: "well_formed 3 (shop_request\<lparr>co_items := [i]\<rparr>)"
  by (simp add: well_formed_def shop_request_def go_trim_def go_space_def go_len_def utf8_point_def
        utf8_numbers_def high_surrogate_def low_surrogate_def)

lemma calm_not_refused: "\<not> refused_by_guard (calm i) req r"
  by (simp add: refused_by_guard_def PreDeductInventory_def calm_def Let_def case_prod_unfold)

theorem retry_returns_same_order_witness:
  "\<exists>r. fst (CreateOrder shop_env (calm 8) 3 shop_request shop_placed) = Inr r \<and> core r = core shop_order"
proof -
  have "well_formed 3 shop_request" using shop_well_formed[of shop_item] by (simp add: shop_request_def)
  then show ?thesis
    using retry_returns_same_order[OF shop_stocked _ _ shop_run4 backend_runs.stop, of shop_request "calm 8"] calm_not_refused
    by (auto simp: shop_request_def calm_def)
qed

theorem reused_key_conflicts_witness:
  "fst (CreateOrder shop_env (calm 8) 3 (shop_request\<lparr>co_items := [\<lparr>ci_product_id = 1, ci_quantity = 3\<rparr>]\<rparr>) shop_placed) =
     Inl ErrOrderIdempotencyConflict"
proof -
  let ?req' = "shop_request\<lparr>co_items := [\<lparr>ci_product_id = 1, ci_quantity = 3\<rparr>]\<rparr>"
  have "buildCreateOrderRequestHash shop_env ?req' = buildCreateOrderRequestHash shop_env shop_request \<Longrightarrow>
      marshal_payload (sortedOrderItems (co_items ?req')) = marshal_payload (sortedOrderItems (co_items shop_request))"
    by (simp add: buildCreateOrderRequestHash_def shop_env_def)
  then show ?thesis
    using reused_key_conflicts[OF shop_stocked _ _ shop_run4 backend_runs.stop, of ?req' "calm 8"]
      shop_well_formed calm_not_refused by (simp add: shop_request_def shop_item_def calm_def)
qed

subsection \<open>A failed request leaves no trace\<close>

lemma pre_deduct_undone:
  assumes "PreDeductInventory Answers order items r = ((applied, insufficient), r')" "r_reservation r order = None"
    and "exact_items items" "distinct (map ci_product_id items)" "redis_integers r"
  shows "(if applied then ReleasePreDeductedInventory Answers order r' else r') = r"
proof (cases "order \<le> 0 \<or> items = []")
  case False
  show ?thesis
  proof (cases "check_available (r_available r) items = 1")
    case True
    then have "applied" "r' = snd (preDeductInventoryScript order items r)"
      using assms(1) False pre_deduct_exact[OF assms(2) True assms(3-5)] by (auto simp: PreDeductInventory_def)
    then show ?thesis using release_after_pre_deduct[OF assms(2) True assms(3-5)] False
      by (simp add: ReleasePreDeductedInventory_def releaseReservation_def over_def)
  next
    case c: False
    then have "\<not> applied \<and> r' = r" using assms(1,2) False
      by (auto simp: PreDeductInventory_def preDeductInventoryScript_def Let_def split: if_splits)
    then show ?thesis by simp
  qed
qed (use assms in \<open>auto simp: PreDeductInventory_def\<close>)

text \<open>A creation that Redis answers either leaves everything as it was or places the order and keeps what it took.\<close>

lemma create_outcome:
  assumes "CreateOrder env c user req b = (res, b')" "c_link c = Answers" "c_link_after c = Answers"
    and "r_reservation (bk_redis b) (c_order_id c) = None" "exact_items (co_items req)" "redis_integers (bk_redis b)"
    and "balanced (bk_db b)"
  shows "(bk_db b' = bk_db b \<and> bk_redis b' = bk_redis b) \<or>
    (\<exists>order. res = Inr order \<and> last (bk_metrics b') = OrderCreate ''success'' \<and> distinct (map ci_product_id (co_items req)) \<and>
      create_transaction env c user (co_idempotency_key req) (buildCreateOrderRequestHash env req)
        (sortedOrderItems (co_items req)) (bk_db b) = Inr ((order, False), bk_db b') \<and>
      \<not> refused_by_guard c req (bk_redis b) \<and>
      bk_redis b' = snd (PreDeductInventory Answers (c_order_id c) (sortedOrderItems (co_items req)) (bk_redis b)))"
proof (cases "well_formed user req")
  case False
  then show ?thesis using assms(1)
    by (auto simp: CreateOrder_def well_formed_def validate_distinct[symmetric] not_le split: if_splits sum.splits)
next
  case True
  obtain a i r where p: "PreDeductInventory Answers (c_order_id c) (sortedOrderItems (co_items req)) (bk_redis b) = ((a, i), r)"
    by (metis prod.exhaust)
  obtain tres d where t: "creation env c user req (bk_db b) = (tres, d)" by (rule prod.exhaust)
  have "exact_items (sortedOrderItems (co_items req))" "distinct (map ci_product_id (sortedOrderItems (co_items req)))"
    using assms(5) True exact_items_set[of "sortedOrderItems (co_items req)" "co_items req"]
    by (simp_all add: well_formed_def)
  note undone = pre_deduct_undone[OF p assms(4) this assms(6)]
  have v: "validateDuplicateItems (co_items req) = Inr ()" using True by (simp add: well_formed_def validate_distinct)
  show ?thesis
  proof (cases i)
    case True
    then have "\<not> a" using p by (auto simp: PreDeductInventory_def Let_def split: if_splits prod.splits)
    then show ?thesis using assms(1,2) undone \<open>well_formed user req\<close> True
      by (auto simp: CreateOrder_def well_formed_def v p Let_def)
  next
    case False
    then have b': "bk_db b' = d" "(\<exists>e. tres = Inl e) \<or> (\<exists>o'. tres = Inr (o', True)) \<Longrightarrow> bk_redis b' = release_if a c r"
        "tres = Inr (order, False) \<Longrightarrow> res = Inr order \<and> last (bk_metrics b') = OrderCreate ''success'' \<and> bk_redis b' = r" for order
      using assms(1,2) True by (auto simp: CreateOrder_def well_formed_def v p t Let_def recordOrderCreate_def
          split: sum.splits prod.splits bool.splits)
    have rel: "release_if a c r = bk_redis b" using undone assms(3) by (simp add: release_if_def split: if_splits)
    have nr: "\<not> refused_by_guard c req (bk_redis b)" using False p assms(2) by (simp add: refused_by_guard_def)
    show ?thesis
    proof (cases tres)
      case (Inl e)
      then show ?thesis using b' rel transaction_cases[OF t] by auto
    next
      case (Inr x)
      obtain order replay where x: "x = (order, replay)" by (rule prod.exhaust)
      have tr: "create_transaction env c user (co_idempotency_key req) (buildCreateOrderRequestHash env req)
          (sortedOrderItems (co_items req)) (bk_db b) = Inr ((order, replay), d)"
        using t Inr x by (auto simp: transaction_def split: if_splits sum.splits prod.splits)
      show ?thesis
      proof (cases replay)
        case True
        then have "d = bk_db b" using create_transaction_cases[OF tr assms(7)] by simp
        then show ?thesis using b' rel Inr x True by auto
      next
        case False
        then show ?thesis using b' Inr x tr nr p \<open>well_formed user req\<close> by (auto simp: well_formed_def)
      qed
    qed
  qed
qed

text \<open>
  C15: while Redis answers, keeps 64-bit integers and has no reservation for the identifier of the order,
  and no quantity is negative or reaches \<open>10 ^ 14\<close>, the bound up to which the scripts are exact, a request that fails, at
  whatever step and for whatever reason, and a request that is answered with an earlier order leave every
  table and the stock kept in Redis as they were.
\<close>

theorem failed_create_leaves_no_trace:
  assumes "CreateOrder env c user req b = (res, b')" "c_link c = Answers" "c_link_after c = Answers"
    and "r_reservation (bk_redis b) (c_order_id c) = None" "exact_items (co_items req)" "redis_integers (bk_redis b)"
    and "(\<exists>e. res = Inl e) \<or> last (bk_metrics b') = OrderCreate ''idempotent_replay''" "reachable env past b"
  shows "bk_db b' = bk_db b \<and> bk_redis b' = bk_redis b"
  using create_outcome[OF assms(1-6)] assms(7) reachable_sound[OF assms(8)] by (auto simp: sound_def)

theorem failed_create_leaves_no_trace_witness:
  "\<exists>b'. CreateOrder shop_env ((calm 7)\<lparr>c_link := Answers, c_link_after := Answers\<rparr>) 3
      (shop_request\<lparr>co_items := [\<lparr>ci_product_id = 2, ci_quantity = 1\<rparr>]\<rparr>) (shop_backend shop_db3) = (Inl ErrProductNotFound, b') \<and>
    bk_db b' = shop_db3 \<and> bk_redis b' = bk_redis start_backend"
proof -
  let ?c = "(calm 7)\<lparr>c_link := Answers, c_link_after := Answers\<rparr>"
  let ?req = "shop_request\<lparr>co_items := [\<lparr>ci_product_id = 2, ci_quantity = 1\<rparr>]\<rparr>"
  have redis: "bk_redis (shop_backend shop_db3) = bk_redis start_backend" "bk_db (shop_backend shop_db3) = shop_db3"
    by (simp_all add: shop_backend_def)
  have "\<not> refused_by_guard ?c ?req (bk_redis (shop_backend shop_db3))"
    by (simp add: refused_by_guard_def PreDeductInventory_def preDeductInventoryScript_def redis start_backend_def Let_def)
  moreover have "creation shop_env ?c 3 ?req shop_db3 = (Inl ErrProductNotFound, shop_db3)"
    by (simp add: transaction_def calm_def create_transaction_def dao_TryCreateOrderIdempotencyKey_def shop_db3_def
        shop_db2_def empty_db_def new_order_def dao_GetProductByID_def first_row_def shop_product_def)
  ultimately have "fst (CreateOrder shop_env ?c 3 ?req (shop_backend shop_db3)) = Inl ErrProductNotFound"
    using CreateOrder_result[OF shop_well_formed, of ?c "\<lparr>ci_product_id = 2, ci_quantity = 1\<rparr>" "shop_backend shop_db3" shop_env]
    by (simp add: redis)
  then obtain b' where b': "CreateOrder shop_env ?c 3 ?req (shop_backend shop_db3) = (Inl ErrProductNotFound, b')"
    by (metis prod.collapse)
  have "bk_db b' = shop_db3 \<and> bk_redis b' = bk_redis start_backend"
    using failed_create_leaves_no_trace[OF b' _ _ _ _ _ _ shop_stocked]
    by (simp add: redis start_backend_def redis_integers_def shop_request_def)
  then show ?thesis using b' by blast
qed

end
