(* ===== verification/OrderLife.thy ===== *)
theory OrderLife
  imports Placing
begin

section \<open>What becomes of an order\<close>

text \<open>
  That the calls on an order succeed when they should: the frontend offers exactly the actions the
  backend carries out, and an order that is not paid is cancelled by its timeout with its stock given
  back. Both rest on the books: what an order holds is locked, so it can be consumed or released.
\<close>

subsection \<open>Statements that succeed\<close>

lemma aggregate_rows:
  assumes "\<And>it. it \<in> set its \<Longrightarrow> 0 \<le> it_quantity it \<and> 0 < it_product_id it"
    and "\<And>p. in_items its p < 2 ^ 63" and "a \<in> set (aggregateAndSortOrderItems its)"
  shows "it_product_id a \<in> it_product_id ` set its \<and> it_quantity a = in_items its (it_product_id a)"
proof -
  obtain p where p: "p \<in> it_product_id ` set its" and a: "a = (let mine = filter (\<lambda>it. it_product_id it = p) its;
      qty = foldl (\<lambda>q it. wrap64 (q + it_quantity it)) 0 mine; base = last mine
      in base\<lparr>it_quantity := qty, it_subtotal_fen := wrap64 (it_product_price_fen base * qty)\<rparr>)"
    using assms(3) by (auto simp: aggregateAndSortOrderItems_def)
  let ?mine = "filter (\<lambda>it. it_product_id it = p) its"
  have "?mine \<noteq> []" using p by (auto simp: filter_empty_conv)
  then have "last ?mine \<in> set ?mine" by (rule last_in_set)
  moreover have "sum_list (map it_quantity ?mine) = in_items its p" by (simp add: qty_def)
  ultimately show ?thesis using foldl_wrap64[of ?mine 0] assms(1,2) p by (simp add: a Let_def)
qed

lemma patch_succeeds:
  assumes "books lo so d" "iv \<in> set (t_inventories d)" "i_product_id iv = p" "c iv" "inventory_checks (f iv)"
  shows "\<exists>d'. patch_inventories e (\<lambda>i. i_product_id i = p \<and> c i) f d = Inr d'"
proof -
  have "j = iv" if "j \<in> set (t_inventories d)" "i_product_id j = p" for j
    using booksD(1)[OF assms(1)] that assms(2,3) by (auto simp: distinct_map dest: inj_onD)
  then have "\<forall>j \<in> set (t_inventories d). i_product_id j = p \<and> c j \<longrightarrow> inventory_checks (f j)" using assms(5) by blast
  moreover have "filter (\<lambda>i. i_product_id i = p \<and> c i) (t_inventories d) \<noteq> []"
    using assms(2-4) by (auto simp: filter_empty_conv)
  ultimately show ?thesis by (simp add: patch_inventories_def update_rows_def)
qed

lemma consume_succeeds:
  assumes "books lo so d" "\<And>p. in_items its p \<le> lo p"
    and "\<And>it. it \<in> set its \<Longrightarrow> 0 \<le> it_quantity it \<and> it_product_id it \<in> i_product_id ` set (t_inventories d)"
  shows "\<exists>d'. consume_items its d = Inr d'"
  using assms
proof (induction its arbitrary: d lo so)
  case (Cons it its)
  let ?p = "it_product_id it"
  obtain iv where iv: "iv \<in> set (t_inventories d)" "i_product_id iv = ?p" using Cons.prems(3)[of it] by auto
  have ok: "inventory_ok lo so d iv" using booksD(3)[OF Cons.prems(1) iv(1)] .
  have rest: "0 \<le> in_items its ?p" using Cons.prems(3) by (intro qty_nonneg) auto
  have "0 \<le> pending d ?p" unfolding pending_def using booksD(5)[OF Cons.prems(1)] by (intro qty_nonneg) (auto intro: less_imp_le)
  then have "it_quantity it \<le> i_locked_quantity iv"
    using ok iv(2) Cons.prems(2)[of ?p] rest by (simp add: inventory_ok_def)
  moreover have "0 \<le> it_quantity it" using Cons.prems(3) by simp
  ultimately have "\<exists>d1. dao_ConsumeLockedInventory ?p (it_quantity it) d = Inr d1"
    unfolding dao_moves using ok
    by (intro patch_succeeds[OF Cons.prems(1) iv]) (auto simp: inventory_ok_def inventory_checks_def int64_def)
  then obtain d1 where d1: "dao_ConsumeLockedInventory ?p (it_quantity it) d = Inr d1" by blast
  note b = consume_item_books[OF d1 Cons.prems(1)]
  have "map i_product_id (t_inventories d1) = map i_product_id (t_inventories d)"
    by (rule patch_move_Inr[OF d1[unfolded dao_moves] booksD(1)[OF Cons.prems(1)]]) (auto simp: moved_def)
  then have ids: "i_product_id ` set (t_inventories d1) = i_product_id ` set (t_inventories d)" by (metis set_map)
  have "\<exists>d'. consume_items its d1 = Inr d'"
  proof (rule Cons.IH[OF conjunct1[OF b]])
    show "in_items its p \<le> (lo(?p := lo ?p - it_quantity it)) p" for p using Cons.prems(2)[of p] by auto
  qed (use Cons.prems(3) ids in auto)
  then show ?case using d1 by simp
qed simp

lemma restore_succeeds:
  assumes "books lo so d" "\<And>p. in_items its p \<le> lo p"
    and "\<And>it. it \<in> set its \<Longrightarrow> 0 \<le> it_quantity it \<and> it_product_id it \<in> i_product_id ` set (t_inventories d)"
    and "\<forall>iv \<in> set (t_inventories d). i_stock_quantity iv + i_locked_quantity iv < 2 ^ 63"
  shows "\<exists>d'. restore_items order pre its d = Inr d'"
  using assms
proof (induction its arbitrary: d lo)
  case (Cons it its)
  let ?p = "it_product_id it"
  let ?q = "it_quantity it"
  obtain iv where iv: "iv \<in> set (t_inventories d)" "i_product_id iv = ?p" using Cons.prems(3)[of it] by auto
  have ok: "inventory_ok lo so d iv" using booksD(3)[OF Cons.prems(1) iv(1)] .
  have rest: "0 \<le> in_items its ?p" using Cons.prems(3) by (intro qty_nonneg) auto
  have "0 \<le> pending d ?p" unfolding pending_def using booksD(5)[OF Cons.prems(1)] by (intro qty_nonneg) (auto intro: less_imp_le)
  then have le: "?q \<le> i_locked_quantity iv" using ok iv(2) Cons.prems(2)[of ?p] rest by (simp add: inventory_ok_def)
  have q: "0 \<le> ?q" using Cons.prems(3) by simp
  have bound: "i_stock_quantity iv + i_locked_quantity iv < 2 ^ 63" using Cons.prems(4) iv(1) by simp
  have checks: "inventory_checks (move ?q (- ?q) iv)"
    using ok le q bound by (auto simp: inventory_ok_def inventory_checks_def int64_def)
  have w: "wrap64 (i_stock_quantity iv + ?q) = i_stock_quantity iv + ?q"
    using checks by (intro wrap64_id) (simp add: inventory_checks_def)
  obtain d0 where rel: "dao_ReleaseLockedInventory ?p ?q d = Inr d0"
    using patch_succeeds[OF Cons.prems(1) iv, of "\<lambda>i. i_locked_quantity i \<ge> ?q" "move ?q (- ?q)"] le checks
    unfolding dao_moves by blast
  have "dao_GetInventoryByProductIDForUpdate ?p d = Inr iv"
    using first_row_distinct[OF booksD(1)[OF Cons.prems(1)] iv(1)] iv(2) by (simp add: dao_GetInventoryByProductIDForUpdate_def)
  then obtain d1 where d1: "restore_item order pre it d = Inr d1"
    using rel w checks ok by (simp add: restore_item_def dao_CreateStockLog_def log_checks_def go_biz_defs
        inventory_ok_def inventory_checks_def Let_def)
  note b = restore_item_books[OF d1 Cons.prems(1)]
  have tab: "t_inventories d1 = moved ?p ?q (- ?q) (t_inventories d)"
    by (rule restore_item_Inr[OF d1 booksD(1)[OF Cons.prems(1)]]) simp
  have "map i_product_id (t_inventories d1) = map i_product_id (t_inventories d)" by (simp add: tab moved_def)
  then have ids: "i_product_id ` set (t_inventories d1) = i_product_id ` set (t_inventories d)" by (metis set_map)
  have "\<exists>d'. restore_items order pre its d1 = Inr d'"
  proof (rule Cons.IH[OF conjunct1[OF b]])
    show "in_items its p \<le> (lo(?p := lo ?p - ?q)) p" for p using Cons.prems(2)[of p] by auto
    show "\<forall>iv \<in> set (t_inventories d1). i_stock_quantity iv + i_locked_quantity iv < 2 ^ 63"
      using Cons.prems(4) by (auto simp: tab moved_def)
  qed (use Cons.prems(3) ids in auto)
  then show ?case using d1 by simp
qed simp

subsection \<open>Transactions that succeed\<close>

lemma patch_status_succeeds:
  assumes "sound env d" "r \<in> set (t_orders d)" "o_status r = from" "to \<in> {1, 2, 3, 4}"
  shows "\<exists>n d1. dao_PatchOrderStatus (o_user_id r) (o_id r) from to tf now d = Inr (n, d1) \<and> n \<noteq> 0"
proof -
  let ?c = "\<lambda>q. o_user_id q = o_user_id r \<and> o_id q = o_id r \<and> o_status q = from"
  have "order_checks (set_time tf now (q\<lparr>o_status := to\<rparr>))" if "q \<in> set (t_orders d)" for q
    using assms(1,4) that by (auto simp: sound_def records_def order_ok_def order_checks_def)
  moreover have "filter ?c (t_orders d) \<noteq> []" using assms(2,3) by (auto simp: filter_empty_conv)
  ultimately show ?thesis by (simp add: dao_PatchOrderStatus_def update_rows_def)
qed

text \<open>The items of a pending order, when their stock is about to follow the change of status.\<close>

lemma pending_items:
  assumes "balanced d" "status_of d i = OrderStatusPending" "t_items d1 = t_items d" "t_inventories d1 = t_inventories d"
  defines "its \<equiv> aggregateAndSortOrderItems (dao_ListOrderItemsByOrderIDForInventory i d1)"
  shows "in_items its p = order_qty d i p"
    and "it \<in> set its \<Longrightarrow> 0 \<le> it_quantity it \<and> it_product_id it \<in> i_product_id ` set (t_inventories d1)"
proof -
  have its: "its = aggregateAndSortOrderItems (dao_ListOrderItemsByOrderIDForInventory i d)"
    by (simp add: its_def dao_ListOrderItemsByOrderIDForInventory_def assms(3))
  then show "in_items its p = order_qty d i p" using aggregate_order[OF assms(1,2)] by simp
  let ?l = "dao_ListOrderItemsByOrderIDForInventory i d"
  have l: "x \<in> set (t_items d)" if "x \<in> set ?l" for x using that by (auto simp: dao_ListOrderItemsByOrderIDForInventory_def)
  have pos: "0 \<le> it_quantity x \<and> 0 < it_product_id x" if x: "x \<in> set ?l" for x
  proof -
    obtain iv where "iv \<in> set (t_inventories d)" "i_product_id iv = it_product_id x"
      using booksD(6)[OF assms(1) l[OF x]] by fastforce
    then have "0 < it_product_id x" using booksD(3)[OF assms(1), of iv] by (simp add: inventory_ok_def)
    then show ?thesis using booksD(5)[OF assms(1) l[OF x]] by simp
  qed
  have small: "in_items ?l p < 2 ^ 63" for p
    using order_qty_le_pending[OF assms(1,2), of p] pending_bound[OF assms(1), of p] by (simp add: in_items_order)
  show "0 \<le> it_quantity it \<and> it_product_id it \<in> i_product_id ` set (t_inventories d1)" if "it \<in> set its"
  proof -
    have a: "it_product_id it \<in> it_product_id ` set ?l \<and> it_quantity it = in_items ?l (it_product_id it)"
      by (rule aggregate_rows[OF pos small]) (use that its in auto)
    then have "it_product_id it \<in> i_product_id ` set (t_inventories d)"
      using booksD(6)[OF assms(1)] l by auto
    then show ?thesis using a order_qty_nonneg[OF assms(1)] by (simp add: in_items_order assms(4))
  qed
qed

lemma pay_succeeds:
  assumes "sound env d" "r \<in> set (t_orders d)" "o_status r = OrderStatusPending"
  shows "\<exists>d'. pay_transaction now (o_user_id r) (o_id r) d = Inr ((), d')"
proof -
  have bal: "balanced d" using assms(1) by (simp add: sound_def)
  obtain n d1 where patch: "dao_PatchOrderStatus (o_user_id r) (o_id r) OrderStatusPending OrderStatusPaid PaidAt now d = Inr (n, d1)"
    "n \<noteq> 0" using patch_status_succeeds[OF assms, of OrderStatusPaid PaidAt now] by (auto simp: go_status_defs)
  have d1: "d1 = d\<lparr>t_orders := map (\<lambda>q. if o_id q = o_id r then restatus OrderStatusPaid PaidAt now q else q) (t_orders d)\<rparr>"
    using PatchOrderStatus_Inr[OF patch(1) booksD(2)[OF bal]] patch(2) by auto
  have st: "status_of d (o_id r) = OrderStatusPending" using status_of_row[OF booksD(2)[OF bal] assms(2)] assms(3) by simp
  have b: "books (order_qty d (o_id r)) (order_qty d (o_id r)) d1"
    by (rule restatus_books[OF bal _ d1]) (use assms(2) st in \<open>auto simp: go_status_defs\<close>)
  have t: "t_items d1 = t_items d" "t_inventories d1 = t_inventories d" by (simp_all add: d1)
  have "\<exists>d'. consume_items (aggregateAndSortOrderItems (dao_ListOrderItemsByOrderIDForInventory (o_id r) d1)) d1 = Inr d'"
    by (rule consume_succeeds[OF b]) (use pending_items[OF bal st t] in auto)
  then show ?thesis using patch by (auto simp: pay_transaction_def)
qed

lemma cancel_pending_succeeds:
  assumes "sound env d" "r \<in> set (t_orders d)" "o_status r = OrderStatusPending" "\<And>p. supplied d p < 2 ^ 63"
  shows "\<exists>d'. cancelPendingOrder now r pre d = Inr (True, d')"
proof -
  have bal: "balanced d" using assms(1) by (simp add: sound_def)
  obtain n d1 where patch: "dao_PatchOrderStatus (o_user_id r) (o_id r) OrderStatusPending OrderStatusCancelled CancelledAt now d = Inr (n, d1)"
    "n \<noteq> 0" using patch_status_succeeds[OF assms(1-3), of OrderStatusCancelled CancelledAt now] by (auto simp: go_status_defs)
  have d1: "d1 = d\<lparr>t_orders := map (\<lambda>q. if o_id q = o_id r then restatus OrderStatusCancelled CancelledAt now q else q) (t_orders d)\<rparr>"
    using PatchOrderStatus_Inr[OF patch(1) booksD(2)[OF bal]] patch(2) by auto
  have st: "status_of d (o_id r) = OrderStatusPending" using status_of_row[OF booksD(2)[OF bal] assms(2)] assms(3) by simp
  have b: "books (order_qty d (o_id r)) (\<lambda>_. 0) d1"
    by (rule restatus_books[OF bal _ d1]) (use assms(2) st in \<open>auto simp: go_status_defs\<close>)
  have t: "t_items d1 = t_items d" "t_inventories d1 = t_inventories d" by (simp_all add: d1)
  have "i_stock_quantity iv + i_locked_quantity iv < 2 ^ 63" if "iv \<in> set (t_inventories d)" for iv
  proof -
    have "0 \<le> sold d (i_product_id iv)" unfolding sold_def
      using booksD(5)[OF bal] by (intro qty_nonneg) (auto intro: less_imp_le)
    then show ?thesis using booksD(3)[OF bal that] assms(4)[of "i_product_id iv"] by (simp add: inventory_ok_def)
  qed
  then have "\<exists>d'. restore_items r pre (aggregateAndSortOrderItems (dao_ListOrderItemsByOrderIDForInventory (o_id r) d1)) d1 = Inr d'"
    by (intro restore_succeeds[OF b]) (use pending_items[OF bal st t] t in auto)
  then show ?thesis using patch by (auto simp: cancelPendingOrder_def)
qed

lemma finish_succeeds:
  assumes "sound env d" "r \<in> set (t_orders d)" "o_status r = OrderStatusPaid"
  shows "\<exists>d'. finish_statement now (o_user_id r) (o_id r) d = Inr ((), d')"
  using patch_status_succeeds[OF assms, of OrderStatusFinished CompletedAt now]
  by (auto simp: go_status_defs finish_statement_def)

lemma get_order:
  assumes "balanced d" "r \<in> set (t_orders d)"
  shows "dao_GetOrderByID (o_user_id r) (o_id r) d = Inr r" "dao_GetOrderByIDForSystem (o_id r) d = Inr r"
proof -
  have "find (\<lambda>q. o_user_id q = o_user_id r \<and> o_id q = o_id r) (t_orders d) = find (\<lambda>q. o_id q = o_id r) (t_orders d)"
    using booksD(2)[OF assms(1)] assms(2) by (intro find_cong) (auto simp: distinct_map dest: inj_onD)
  then show "dao_GetOrderByID (o_user_id r) (o_id r) d = Inr r" "dao_GetOrderByIDForSystem (o_id r) d = Inr r"
    using find_distinct[OF booksD(2)[OF assms(1)] assms(2)]
    by (simp_all add: dao_GetOrderByID_def dao_GetOrderByIDForSystem_def first_row_def)
qed

subsection \<open>The frontend offers what the backend does\<close>

text \<open>A call of a user on an order of his own, with the tables as they are.\<close>

fun perform :: "order_action \<Rightarrow> surroundings \<Rightarrow> int \<Rightarrow> int \<Rightarrow> backend \<Rightarrow> (go_error + unit) \<times> backend" where
  "perform Pay c user i b = PayOrder c user i (bk_db b) b"
| "perform Finish c user i b = FinishOrder c user i (bk_db b) b"
| "perform Cancel c user i b = CancelOrder c user i b"

lemma allowed_go:
  assumes "st \<in> {1, 2, 3, 4}"
  shows "isOrderActionAllowed (jint st) a \<longleftrightarrow> (if a = Finish then st = OrderStatusPaid else st = OrderStatusPending)"
  using assms by (cases a) (auto simp: isOrderActionAllowed_def order_status_defs go_status_defs jeq_def)

lemma performed_Pay:
  assumes "sound env (bk_db b)" "r \<in> set (t_orders (bk_db b))" "c_served c"
  shows "(fst (perform Pay c (o_user_id r) (o_id r) b) = Inr () \<and>
      status_of (bk_db (snd (perform Pay c (o_user_id r) (o_id r) b))) (o_id r) \<noteq> o_status r) \<longleftrightarrow> o_status r = OrderStatusPending"
proof (cases "o_status r = OrderStatusPending")
  case True
  have bal: "balanced (bk_db b)" using assms(1) by (simp add: sound_def)
  have "pay_check (o_user_id r) (o_id r) (bk_db b) = Inr r"
    using get_order[OF bal assms(2)] True by (simp add: pay_check_def go_status_defs)
  moreover obtain d' where d': "pay_transaction (c_now c) (o_user_id r) (o_id r) (bk_db b) = Inr ((), d')"
    using pay_succeeds[OF assms(1,2) True] by blast
  moreover have "status_of d' (o_id r) = OrderStatusPaid"
    using pay_transaction_restated[OF d' bal] restated_status[of "o_id r" _ _ _ "bk_db b" d'] assms(2) by auto
  ultimately show ?thesis using assms(3) True
    by (simp add: PayOrder_def transaction_def Let_def go_status_defs)
next
  case False
  then have "pay_check (o_user_id r) (o_id r) (bk_db b) \<noteq> Inr x" for x
    using get_order[of "bk_db b" r] assms(1,2) by (auto simp: pay_check_def sound_def)
  then show ?thesis using False
    by (cases "pay_check (o_user_id r) (o_id r) (bk_db b)") (auto simp: PayOrder_def)
qed

lemma performed_Finish:
  assumes "sound env (bk_db b)" "r \<in> set (t_orders (bk_db b))" "c_served c"
  shows "(fst (perform Finish c (o_user_id r) (o_id r) b) = Inr () \<and>
      status_of (bk_db (snd (perform Finish c (o_user_id r) (o_id r) b))) (o_id r) \<noteq> o_status r) \<longleftrightarrow> o_status r = OrderStatusPaid"
proof (cases "o_status r = OrderStatusPaid")
  case True
  have bal: "balanced (bk_db b)" using assms(1) by (simp add: sound_def)
  have "finish_check (o_user_id r) (o_id r) (bk_db b) = Inr r"
    using get_order[OF bal assms(2)] True by (simp add: finish_check_def go_status_defs)
  moreover obtain d' where d': "finish_statement (c_now c) (o_user_id r) (o_id r) (bk_db b) = Inr ((), d')"
    using finish_succeeds[OF assms(1,2) True] by blast
  moreover have "status_of d' (o_id r) = OrderStatusFinished"
    using finish_statement_restated[OF d' bal] restated_status[of "o_id r" _ _ _ "bk_db b" d'] assms(2) by auto
  ultimately show ?thesis using assms(3) True
    by (simp add: FinishOrder_def transaction_def Let_def go_status_defs)
next
  case False
  then have "finish_check (o_user_id r) (o_id r) (bk_db b) \<noteq> Inr x" for x
    using get_order[of "bk_db b" r] assms(1,2) by (auto simp: finish_check_def sound_def)
  then show ?thesis using False
    by (cases "finish_check (o_user_id r) (o_id r) (bk_db b)") (auto simp: FinishOrder_def)
qed

lemma performed_Cancel:
  assumes "sound env (bk_db b)" "r \<in> set (t_orders (bk_db b))" "c_served c" "\<And>p. supplied (bk_db b) p < 2 ^ 63"
  shows "(fst (perform Cancel c (o_user_id r) (o_id r) b) = Inr () \<and>
      status_of (bk_db (snd (perform Cancel c (o_user_id r) (o_id r) b))) (o_id r) \<noteq> o_status r) \<longleftrightarrow> o_status r = OrderStatusPending"
proof -
  have bal: "balanced (bk_db b)" using assms(1) by (simp add: sound_def)
  have st: "status_of (bk_db b) (o_id r) = o_status r" using status_of_row[OF booksD(2)[OF bal] assms(2)] .
  show ?thesis
  proof (cases "o_status r = OrderStatusPending")
    case True
    obtain d' where c: "cancelPendingOrder (c_now c) r cancel_remark (bk_db b) = Inr (True, d')"
      using cancel_pending_succeeds[OF assms(1,2) True assms(4)] by blast
    then have d': "cancel_transaction (c_now c) (o_user_id r) (o_id r) (bk_db b) = Inr (Restored, d')"
      using get_order[OF bal assms(2)] True by (simp add: cancel_transaction_def go_status_defs)
    have "status_of d' (o_id r) = OrderStatusCancelled"
      using cancelPendingOrder_restated[OF c bal] restated_status[of "o_id r" _ _ _ "bk_db b" d'] assms(2) by auto
    then show ?thesis using d' assms(3) True
      by (simp add: CancelOrder_def transaction_def Let_def go_status_defs)
  next
    case False
    have "cancel_transaction (c_now c) (o_user_id r) (o_id r) (bk_db b) = Inr (how, d') \<Longrightarrow> d' = bk_db b" for how d'
      using cancel_transaction_restated[OF _ bal] False st by metis
    then have "bk_db (snd (CancelOrder c (o_user_id r) (o_id r) b)) = bk_db b"
      by (auto simp: CancelOrder_def transaction_def assms(3) Let_def split: sum.splits prod.splits)
    then show ?thesis using False st by simp
  qed
qed

text \<open>
  C9: the frontend allows an action on an order exactly when the backend, asked by the order's owner,
  carries it out: it answers without an error and the order has a new status. Cancelling needs that
  what was ever supplied of a product stays below \<open>2 ^ 63\<close>.
\<close>

theorem frontend_offers_what_backend_does:
  assumes "reachable env past b" "r \<in> set (t_orders (bk_db b))" "c_served c" "\<And>p. supplied (bk_db b) p < 2 ^ 63"
  shows "isOrderActionAllowed (jint (o_status r)) a \<longleftrightarrow>
    fst (perform a c (o_user_id r) (o_id r) b) = Inr () \<and>
    status_of (bk_db (snd (perform a c (o_user_id r) (o_id r) b))) (o_id r) \<noteq> o_status r"
proof -
  have s: "sound env (bk_db b)" using reachable_sound[OF assms(1)] .
  then have "o_status r \<in> {1, 2, 3, 4}" using assms(2) by (simp add: sound_def records_def order_ok_def order_checks_def)
  note allowed = allowed_go[OF this]
  show ?thesis
  proof (cases a)
    case Pay
    then show ?thesis using performed_Pay[OF s assms(2,3)] allowed by simp
  next
    case Finish
    then show ?thesis using performed_Finish[OF s assms(2,3)] allowed by simp
  next
    case Cancel
    then show ?thesis using performed_Cancel[OF s assms(2,3,4)] allowed by simp
  qed
qed

lemma shop_supplied: "supplied (bk_db shop_placed) p < 2 ^ 63"
  by (simp add: supplied_def logs_of_def shop_placed_def shop_backend_def shop_db4_def shop_log_def go_biz_defs)

theorem frontend_offers_what_backend_does_witness:
  "fst (CancelOrder (calm 0) 3 7 shop_placed) = Inr () \<and> status_of (bk_db (snd (CancelOrder (calm 0) 3 7 shop_placed))) 7 \<noteq> 1"
proof -
  have "shop_order \<in> set (t_orders (bk_db shop_placed))" "o_status shop_order = 1" "o_user_id shop_order = 3"
    "o_id shop_order = 7" "c_served (calm 0)"
    by (simp_all add: shop_placed_def shop_backend_def shop_db4_def shop_order_def calm_def)
  then show ?thesis
    using frontend_offers_what_backend_does[OF shop_sold, of shop_order "calm 0" Cancel] shop_supplied
      allowed_go[of 1 Cancel] by (simp add: go_status_defs)
qed

subsection \<open>Timeouts\<close>

lemma restore_items_supplied:
  assumes "restore_items order pre its d = Inr d'" "books lo so d"
  shows "supplied d' p = supplied d p"
  using assms
proof (induction its arbitrary: d lo)
  case (Cons it its)
  then obtain d1 where d1: "restore_item order pre it d = Inr d1" "restore_items order pre its d1 = Inr d'"
    by (auto simp: andThen_def split: sum.splits)
  have "supplied d1 p = supplied d p"
    by (rule restore_item_Inr[OF d1(1) booksD(1)[OF Cons.prems(2)]])
      (auto simp: supplied_def logs_of_def go_biz_defs)
  then show ?case using Cons.IH[OF d1(2) conjunct1[OF restore_item_books[OF d1(1) Cons.prems(2)]]] by simp
qed simp

lemma cancelPendingOrder_supplied:
  assumes "cancelPendingOrder now order pre d = Inr (True, d')" "balanced d"
  shows "supplied d' p = supplied d p"
proof -
  have st: "status_of d (o_id order) = OrderStatusPending" and mem: "o_id order \<in> o_id ` set (t_orders d)"
    using cancelPendingOrder_restated[OF assms] by auto
  obtain n d1 where patch: "dao_PatchOrderStatus (o_user_id order) (o_id order) OrderStatusPending
      OrderStatusCancelled CancelledAt now d = Inr (n, d1)" "n \<noteq> 0" and
    res: "restore_items order pre (aggregateAndSortOrderItems (dao_ListOrderItemsByOrderIDForInventory (o_id order) d1)) d1 = Inr d'"
    using assms(1) by (auto simp: cancelPendingOrder_def andThen_def split: sum.splits if_splits)
  have d1: "d1 = d\<lparr>t_orders := map (\<lambda>q. if o_id q = o_id order then restatus OrderStatusCancelled CancelledAt now q else q) (t_orders d)\<rparr>"
    using PatchOrderStatus_Inr[OF patch(1) booksD(2)[OF assms(2)]] patch(2) by auto
  have "books (order_qty d (o_id order)) (\<lambda>_. 0) d1"
    by (rule restatus_books[OF assms(2) mem d1]) (use st in \<open>auto simp: go_status_defs\<close>)
  from restore_items_supplied[OF res this] show ?thesis by (simp add: d1 supplied_def logs_of_def)
qed

lemma cancelled_stock:
  assumes "cancelPendingOrder now order pre d = Inr (True, d')" "balanced d" "iv' \<in> set (t_inventories d')"
  shows "\<exists>iv \<in> set (t_inventories d). i_product_id iv' = i_product_id iv \<and>
    i_stock_quantity iv' = i_stock_quantity iv + order_qty d (o_id order) (i_product_id iv)"
proof -
  have re: "restated (o_id order) OrderStatusCancelled CancelledAt now d d'" and st: "status_of d (o_id order) = OrderStatusPending"
    and mem: "o_id order \<in> o_id ` set (t_orders d)"
    using cancelPendingOrder_restated[OF assms(1,2)] by auto
  have bal: "balanced d'" using cancelPendingOrder_books[OF assms(1,2)] .
  have ids: "map i_product_id (t_inventories d') = map i_product_id (t_inventories d)" using re by (simp add: restated_def)
  obtain iv where iv: "iv \<in> set (t_inventories d)" "i_product_id iv' = i_product_id iv"
    using arg_cong[OF ids, of set] assms(3) by (metis (no_types, lifting) image_iff list.set_map)
  let ?p = "i_product_id iv"
  have st': "status_of d' = (status_of d)(o_id order := OrderStatusCancelled)" using restated_status[OF re mem] .
  have items: "t_items d' = t_items d" using re by (simp add: restated_def)
  have "pending d' ?p = pending d ?p - order_qty d (o_id order) ?p"
  proof -
    have "(\<lambda>j. status_of d' j = OrderStatusPending) = (\<lambda>j. status_of d j = OrderStatusPending)(o_id order := False)"
      by (auto simp: st' go_status_defs)
    then show ?thesis using st by (simp add: pending_def items qty_upd order_qty_def)
  qed
  moreover have "sold d' ?p = sold d ?p"
  proof -
    have "(\<lambda>j. status_of d' j \<in> {OrderStatusPaid, OrderStatusFinished}) =
        (\<lambda>j. status_of d j \<in> {OrderStatusPaid, OrderStatusFinished})(o_id order := False)"
      by (auto simp: st' go_status_defs)
    moreover have "\<not> status_of d (o_id order) \<in> {OrderStatusPaid, OrderStatusFinished}" using st by (simp add: go_status_defs)
    ultimately show ?thesis unfolding sold_def items by (simp only: qty_upd if_False simp_thms diff_0_right add_0_right)
  qed
  moreover have "supplied d' ?p = supplied d ?p" using cancelPendingOrder_supplied[OF assms(1,2)] .
  ultimately show ?thesis
    using booksD(3)[OF assms(2) iv(1)] booksD(3)[OF bal assms(3)] iv by (intro bexI[OF _ iv(1)]) (simp add: inventory_ok_def)
qed

lemma get_outbox:
  assumes "sound env d" "x \<in> set (t_outbox d)"
  shows "dao_GetOrderTimeoutOutbox env (x_event_id x) (x_order_id x) d = Inr x"
proof -
  have "map (\<lambda>x. (x_user_id x, x_order_id x)) (t_outbox d) = map (\<lambda>r. (o_user_id r, o_id r)) (t_orders d)"
    using assms(1) by (simp add: sound_def records_def)
  from arg_cong[OF this, of "map snd"] have "map x_order_id (t_outbox d) = map o_id (t_orders d)"
    by (simp add: comp_def)
  then have dist: "distinct (map x_order_id (t_outbox d))" using assms(1) booksD(2) by (auto simp: sound_def)
  have "y = x" if "y \<in> set (t_outbox d)" "x_order_id y = x_order_id x" for y
    using dist that assms(2) by (auto simp: distinct_map dest: inj_onD)
  then have "find (\<lambda>y. collate env (x_event_id y) = collate env (x_event_id x) \<and> x_order_id y = x_order_id x) (t_outbox d) =
      find (\<lambda>y. x_order_id y = x_order_id x) (t_outbox d)"
    by (intro find_cong) auto
  then show ?thesis using find_distinct[OF dist assms(2)] by (simp add: dao_GetOrderTimeoutOutbox_def first_row_def)
qed

text \<open>
  C20: a timeout of an order that awaits payment does nothing before its deadline and says so; from the
  deadline on it cancels the order and puts exactly what the order held back into stock. Every order
  has such a timeout.
\<close>

theorem timeout_cancels_unpaid_order:
  assumes "reachable env past b" "x \<in> set (t_outbox (bk_db b))"
    and "status_of (bk_db b) (x_order_id x) = OrderStatusPending" "c_served c" "\<And>p. supplied (bk_db b) p < 2 ^ 63"
    and "CancelExpiredOrder env c (x_event_id x) (x_order_id x) b = (res, b')"
  shows "if c_now c < x_timeout_at x then res = Inl ErrDeadlineNotReached \<and> bk_db b' = bk_db b
    else res = Inr () \<and> status_of (bk_db b') (x_order_id x) = OrderStatusCancelled \<and>
      (\<forall>iv' \<in> set (t_inventories (bk_db b')). \<exists>iv \<in> set (t_inventories (bk_db b)). i_product_id iv' = i_product_id iv \<and>
         i_stock_quantity iv' = i_stock_quantity iv + order_qty (bk_db b) (x_order_id x) (i_product_id iv))"
proof -
  have s: "sound env (bk_db b)" using reachable_sound[OF assms(1)] .
  then have bal: "balanced (bk_db b)" by (simp add: sound_def)
  note out = get_outbox[OF s assms(2)]
  show ?thesis
  proof (cases "c_now c < x_timeout_at x")
    case True
    then show ?thesis using assms(4,6) out
      by (auto simp: CancelExpiredOrder_def transaction_def expire_transaction_def Let_def)
  next
    case False
    have "x_order_id x \<in> o_id ` set (t_orders (bk_db b))"
      using assms(3) by (intro status_of_mem) (simp add: go_status_defs)
    then obtain r where r: "r \<in> set (t_orders (bk_db b))" "o_id r = x_order_id x" by auto
    have pend: "o_status r = OrderStatusPending" using status_of_row[OF booksD(2)[OF bal] r(1)] r(2) assms(3) by simp
    obtain d' where d': "cancelPendingOrder (c_now c) r timeout_remark (bk_db b) = Inr (True, d')"
      using cancel_pending_succeeds[OF s r(1) pend assms(5)] by blast
    have "expire_transaction env (c_now c) (x_event_id x) (x_order_id x) (bk_db b) = Inr (Restored, d')"
      using out get_order[OF bal r(1)] r(2) False pend d' by (simp add: expire_transaction_def go_status_defs)
    then have res: "res = Inr ()" "bk_db b' = d'"
      using assms(4,6) by (auto simp: CancelExpiredOrder_def transaction_def Let_def)
    have "status_of d' (x_order_id x) = OrderStatusCancelled"
      using cancelPendingOrder_restated[OF d' bal] restated_status[of "o_id r" _ _ _ "bk_db b" d'] r(2) by auto
    then show ?thesis using res False cancelled_stock[OF d' bal] r(2) by simp
  qed
qed

theorem timeout_cancels_unpaid_order_witness:
  "fst (CancelExpiredOrder shop_env ((calm 0)\<lparr>c_now := 1900\<rparr>) [0x37] 7 shop_placed) = Inr ()"
proof -
  let ?x = "\<lparr>x_event_id = [0x37], x_order_id = 7, x_user_id = 3, x_timeout_at = 1900, x_next_attempt_at = 1000\<rparr> :: outbox_row"
  have x: "?x \<in> set (t_outbox (bk_db shop_placed))" by (simp add: shop_placed_def shop_backend_def shop_db4_def)
  have st: "status_of (bk_db shop_placed) (x_order_id ?x) = OrderStatusPending"
    by (simp add: shop_placed_def shop_backend_def shop_db4_def shop_order_def status_of_def go_status_defs)
  have c: "c_served ((calm 0)\<lparr>c_now := 1900\<rparr>)" by (simp add: calm_def)
  from timeout_cancels_unpaid_order[OF shop_sold x st c shop_supplied surjective_pairing]
  show ?thesis by simp
qed

end
