(* ===== verification/GuardInStep.thy ===== *)
theory GuardInStep
  imports OrderLife
begin

section \<open>The guard and the tables in step\<close>

text \<open>
  As long as Redis answers every call, calls do not overlap, every order gets a new identifier, and no
  order asks for \<open>10 ^ 14\<close> pieces or more (the bound up to which the scripts are exact), the stock kept in
  Redis is the stock in the tables, and the reservations are those of the orders awaiting payment. The
  guard then refuses a request only for a shortage the tables would refuse it for.
\<close>

fun undisturbed :: "db \<Rightarrow> backend_op \<Rightarrow> bool" where
  "undisturbed d (OpInit c p stock early) \<longleftrightarrow> c_link_after c = Answers"
| "undisturbed d (OpAdd c p q) \<longleftrightarrow> c_link_after c = Answers"
| "undisturbed d (OpCreateOrder c user req) \<longleftrightarrow>
     c_link c = Answers \<and> c_link_after c = Answers \<and> c_order_id c \<notin> o_id ` set (t_orders d) \<and>
     exact_items (co_items req)"
| "undisturbed d (OpCancel c user i) \<longleftrightarrow> c_link_after c = Answers"
| "undisturbed d (OpExpire c event i) \<longleftrightarrow> c_link_after c = Answers"
| "undisturbed d (OpPay c user i early) \<longleftrightarrow> c_link_after c = Answers"
| "undisturbed d (OpRebuild l) \<longleftrightarrow> l = Answers"
| "undisturbed d (OpAutoFix is) \<longleftrightarrow> False"
| "undisturbed d _ \<longleftrightarrow> True"

inductive calm_runs :: "db_env \<Rightarrow> world \<Rightarrow> bool" for env where
  start: "calm_runs env start_world"
| step: "calm_runs env w \<Longrightarrow> backend_step env w op w' \<Longrightarrow> undisturbed (bk_db (snd w)) op \<Longrightarrow> calm_runs env w'"

lemma calm_runs_reachable: "calm_runs env w \<Longrightarrow> backend_runs env start_world w"
  by (induction rule: calm_runs.induct) (auto intro: backend_runs.intros)

subsection \<open>The stock by the books\<close>

text \<open>What is left of the supply of a product when every order that was not cancelled has its share.\<close>

definition takes :: "int \<Rightarrow> bool" where
  "takes st \<longleftrightarrow> st \<in> {OrderStatusPending, OrderStatusPaid, OrderStatusFinished}"

definition at_hand :: "db \<Rightarrow> int \<Rightarrow> int" where
  "at_hand d p = supplied d p - qty (t_items d) (\<lambda>i. takes (status_of d i)) p"

definition products_of :: "db \<Rightarrow> int set" where
  "products_of d = i_product_id ` set (t_inventories d)"

lemma qty_takes:
  "qty its (\<lambda>i. f i = OrderStatusPending) p + qty its (\<lambda>i. f i \<in> {OrderStatusPaid, OrderStatusFinished}) p =
   qty its (\<lambda>i. takes (f i)) p"
  by (induction its) (auto simp: takes_def go_status_defs)

lemma pending_sold: "pending d p + sold d p = qty (t_items d) (\<lambda>i. takes (status_of d i)) p"
  unfolding pending_def sold_def by (rule qty_takes)

lemma stock_at_hand:
  assumes "balanced d" "iv \<in> set (t_inventories d)"
  shows "i_stock_quantity iv = at_hand d (i_product_id iv)"
  using booksD(3)[OF assms] pending_sold[of d "i_product_id iv"] by (simp add: inventory_ok_def at_hand_def)

lemma at_hand_restated:
  assumes "restated i to tf now d d'" "i \<in> o_id ` set (t_orders d)" "supplied d' p = supplied d p"
  shows "at_hand d' p = at_hand d p + (if takes (status_of d i) then order_qty d i p else 0)
    - (if takes to then order_qty d i p else 0)"
proof -
  have "(\<lambda>j. takes (status_of d' j)) = (\<lambda>j. takes (status_of d j))(i := takes to)"
    by (simp add: restated_status[OF assms(1,2)] fun_eq_iff)
  then show ?thesis using assms(1,3) by (simp add: at_hand_def restated_def qty_upd order_qty_def)
qed

lemma restated_products:
  assumes "restated i to tf now d d'"
  shows "products_of d' = products_of d" "t_items d' = t_items d"
proof -
  have "map i_product_id (t_inventories d') = map i_product_id (t_inventories d)" using assms by (simp add: restated_def)
  then show "products_of d' = products_of d" unfolding products_of_def by (metis list.set_map)
qed (use assms in \<open>simp add: restated_def\<close>)

definition in_step :: "backend \<Rightarrow> bool" where
  "in_step b \<longleftrightarrow>
     r_available (bk_redis b) = (\<lambda>p. if p \<in> products_of (bk_db b) then Some (at_hand (bk_db b) p) else None) \<and>
     (\<forall>i. if status_of (bk_db b) i = OrderStatusPending
          then \<exists>items. r_reservation (bk_redis b) i = Some items \<and> exact_items items \<and> (\<forall>p. asked items p = order_qty (bk_db b) i p)
          else r_reservation (bk_redis b) i = None)"

lemma in_step_start: "in_step start_backend"
  by (simp add: in_step_def products_of_def start_backend_def empty_db_def status_of_def OrderStatusPending_def)

lemma in_step_fresh:
  assumes "in_step b" "i \<notin> o_id ` set (t_orders (bk_db b))" shows "r_reservation (bk_redis b) i = None"
proof -
  have "status_of (bk_db b) i \<noteq> OrderStatusPending" using assms(2) status_of_mem[of "bk_db b" i] by (auto simp: go_status_defs)
  then show ?thesis using assms(1) by (metis in_step_def)
qed

text \<open>Tables that agree in what the guard keeps.\<close>

lemma in_step_same:
  assumes "in_step b" "bk_redis b' = bk_redis b" "products_of (bk_db b') = products_of (bk_db b)"
    and "at_hand (bk_db b') = at_hand (bk_db b)" "t_items (bk_db b') = t_items (bk_db b)"
    and "\<And>i. status_of (bk_db b') i = OrderStatusPending \<longleftrightarrow> status_of (bk_db b) i = OrderStatusPending"
  shows "in_step b'"
proof -
  have "order_qty (bk_db b') = order_qty (bk_db b)" using assms(5) by (simp add: fun_eq_iff order_qty_def)
  then show ?thesis using assms(1,6) unfolding in_step_def assms(2-4) by presburger
qed

text \<open>The stock is a 64-bit number, in the tables and therefore in Redis.\<close>

lemma at_hand_int64:
  assumes "balanced d" "p \<in> products_of d" shows "int64 (at_hand d p)" "0 \<le> at_hand d p"
proof -
  obtain iv where "iv \<in> set (t_inventories d)" "i_product_id iv = p" using assms(2) by (auto simp: products_of_def)
  then show "int64 (at_hand d p)" "0 \<le> at_hand d p"
    using stock_at_hand[OF assms(1)] booksD(3)[OF assms(1)] by (metis inventory_checks_def inventory_ok_def)+
qed

lemma in_step_integers: "in_step b \<Longrightarrow> balanced (bk_db b) \<Longrightarrow> redis_integers (bk_redis b)"
  using at_hand_int64 by (simp add: in_step_def redis_integers_def)

subsection \<open>Placing\<close>

lemma place_items_supplied:
  assumes "place_items order products is d = Inr d'" "books lo so d"
    and "\<And>i. i \<in> set is \<Longrightarrow> p_id (the (products (ci_product_id i))) = ci_product_id i"
    and "o_id order \<in> o_id ` set (t_orders d)" "status_of d (o_id order) = OrderStatusPending"
  shows "supplied d' p = supplied d p"
  using assms
proof (induction "is" arbitrary: d)
  case (Cons i "is")
  then obtain d1 where d1: "place_item order products i d = Inr d1" "place_items order products is d1 = Inr d'"
    by (auto simp: andThen_def split: sum.splits)
  have b: "books lo so d1 \<and> same_orders d d1"
    using Cons.prems by (intro place_item_books[OF d1(1)]) auto
  then have "status_of d1 = status_of d" "t_orders d1 = t_orders d"
    by (auto simp: same_orders_def intro!: status_of_same_orders)
  then have "supplied d' p = supplied d1 p"
    using Cons.IH[OF d1(2) conjunct1[OF b]] Cons.prems by auto
  moreover have "supplied d1 p = supplied d p"
    by (rule place_item_Inr[OF d1(1) booksD(1)[OF Cons.prems(2)] Cons.prems(3)])
      (auto simp: supplied_def logs_of_def go_biz_defs)
  ultimately show ?case by simp
qed simp

lemma new_order_supplied:
  assumes "new_order env c user key items d = Inr (order, d')" "balanced d"
  shows "supplied d' p = supplied d p"
proof (rule new_order_Inr[OF assms(1)])
  fix products d1 d2 d3
  assume r: "find_products items d = Inr products"
    "order = \<lparr>o_id = c_order_id c, o_user_id = user, o_order_no = generateOrderNo c,
       o_total_amount_fen = totalAmountFen products items, o_status = OrderStatusPending, o_paid_at = None,
       o_completed_at = None, o_cancelled_at = None, o_created_at = c_now c\<rparr>"
    "dao_CreateOrder env order d = Inr d1" "place_items order products items d1 = Inr d2"
    "dao_CompleteOrderIdempotencyKey env user key (o_id order) d2 = Inr (1, d3)"
    "dao_CreateOrderTimeoutOutbox env \<lparr>x_event_id = c_event_id c, x_order_id = o_id order, x_user_id = user,
       x_timeout_at = o_created_at order + c_order_timeout c, x_next_attempt_at = c_later c\<rparr> d3 = Inr d'"
  note cr = create_order_books[OF r(3) assms(2)]
  have "supplied d2 p = supplied d1 p"
    by (rule place_items_supplied[OF r(4) conjunct1[OF cr]])
      (use cr r(2) find_products_Inr[OF r(1)] in fastforce)+
  moreover have "t_logs d1 = t_logs d" using cr by simp
  moreover have "t_logs d' = t_logs d2"
    using r(5,6) by (auto simp: dao_CompleteOrderIdempotencyKey_def andThen_def update_rows_def
        dao_CreateOrderTimeoutOutbox_def split: if_splits)
  ultimately show ?thesis by (simp add: supplied_def logs_of_def)
qed

lemma placed_supplied:
  assumes "create_transaction env c user key hash items d = Inr ((order, False), d')" "balanced d"
  shows "supplied d' p = supplied d p"
proof -
  obtain ks where "new_order env c user key items (d\<lparr>t_keys := ks\<rparr>) = Inr (order, d')"
    using assms(1) by (auto simp: create_transaction_def dao_TryCreateOrderIdempotencyKey_def andThen_Inr_iff split: if_splits)
  then obtain d0 where d0: "d0 = d\<lparr>t_keys := ks\<rparr>" "new_order env c user key items d0 = Inr (order, d')" by simp
  have "balanced d0" using books_same_tables[of d0 d] assms(2) by (simp add: d0(1))
  then show ?thesis using new_order_supplied[OF d0(2)] d0(1) by (simp add: supplied_def logs_of_def)
qed

lemma placed_stock:
  assumes "placed env c user key hash items order d d'" "balanced d" "balanced d'" "\<And>p. supplied d' p = supplied d p"
  shows "products_of d' = products_of d" "\<forall>i \<in> set items. ci_product_id i \<in> products_of d"
    and "at_hand d' p = at_hand d p - asked items p"
    and "order_qty d' i p = (if i = o_id order then asked items p else order_qty d i p)"
    and "o_id order = c_order_id c" and "\<forall>i \<in> set items. 0 < ci_quantity i"
proof -
  obtain its products where p: "o_status order = OrderStatusPending" "o_id order = c_order_id c"
    "o_id order \<notin> o_id ` set (t_orders d)" "t_items d' = t_items d @ its"
    "map facts_of its = map (facts_for (o_id order) products) items"
    "map i_product_id (t_inventories d') = map i_product_id (t_inventories d)"
    using assms(1) unfolding placed_def by blast
  note f = facts_items[OF p(5)]
  show pr: "products_of d' = products_of d" using p(6) unfolding products_of_def by (metis list.set_map)
  have "set (map ci_product_id items) \<subseteq> products_of d'"
    unfolding f(1)[symmetric] using booksD(6)[OF assms(3)] p(4) by (auto simp: products_of_def)
  then show "\<forall>i \<in> set items. ci_product_id i \<in> products_of d" unfolding pr by auto
  have old: "it_order_id it \<noteq> o_id order" if "it \<in> set (t_items d)" for it
    using booksD(4)[OF assms(2) that] p(3) by metis
  have new: "it_order_id it = o_id order" if "it \<in> set its" for it using f(3)[OF that] by simp
  have "qty (t_items d) (\<lambda>i. takes (status_of d' i)) p = qty (t_items d) (\<lambda>i. takes (status_of d i)) p"
    by (rule qty_cong) (use old placed_status[OF assms(1)] in auto)
  moreover have "qty its (\<lambda>i. takes (status_of d' i)) p = qty its (\<lambda>_. True) p"
    by (rule qty_cong) (use new placed_status[OF assms(1)] in \<open>auto simp: takes_def\<close>)
  ultimately show "at_hand d' p = at_hand d p - asked items p"
    using f(5)[of p] by (simp add: at_hand_def p(4) assms(4))
  have "qty its (\<lambda>j. j = i) p = (if i = o_id order then qty its (\<lambda>_. True) p else qty its (\<lambda>_. False) p)"
    using new by (auto intro!: qty_cong)
  moreover have "qty its (\<lambda>_. False) p = 0" by (simp add: qty_def)
  moreover have "qty (t_items d) (\<lambda>j. j = o_id order) p = qty (t_items d) (\<lambda>_. False) p"
    by (rule qty_cong) (use old in auto)
  moreover have "qty (t_items d) (\<lambda>_. False) p = 0" by (simp add: qty_def)
  ultimately show "order_qty d' i p = (if i = o_id order then asked items p else order_qty d i p)"
    using f(5)[of p] by (simp add: order_qty_def p(4))
  show "o_id order = c_order_id c" by (rule p(2))
  have "map it_quantity its = map ci_quantity items"
    using arg_cong[OF p(5), of "map (\<lambda>(a, b, q, e). q)"] by (simp add: comp_def facts_of_def facts_for_def Let_def)
  moreover have "\<forall>it \<in> set its. 0 < it_quantity it" using booksD(5)[OF assms(3)] p(4) by auto
  ultimately have "\<forall>q \<in> set (map ci_quantity items). 0 < q" by (metis (no_types, lifting) in_set_conv_nth length_map nth_map nth_mem)
  then show "\<forall>i \<in> set items. 0 < ci_quantity i" by simp
qed

text \<open>What the guard answers when it knows every product that is asked for.\<close>

lemma check_available_known:
  assumes "\<forall>i \<in> set items. avail (ci_product_id i) \<noteq> None"
  shows "check_available avail items \<in> {1, -1}"
  using assms by (induction items) (auto split: option.splits)

lemma pre_deduct_known:
  assumes "\<forall>i \<in> set items. r_available r (ci_product_id i) \<noteq> None" "r_reservation r order = None"
    and "exact_items items" "distinct (map ci_product_id items)" "redis_integers r"
    and "0 < order" "items \<noteq> []" "\<not> snd (fst (PreDeductInventory Answers order items r))"
  shows "snd (PreDeductInventory Answers order items r) =
    \<lparr>r_available = \<lambda>p. map_option (\<lambda>q. q - asked items p) (r_available r p),
     r_reservation = (r_reservation r)(order \<mapsto> items)\<rparr>"
proof -
  have "check_available (r_available r) items \<noteq> -1"
    using assms(2,6-8) by (auto simp: PreDeductInventory_def preDeductInventoryScript_def Let_def)
  then have "check_available (r_available r) items = 1" using check_available_known[OF assms(1)] by simp
  from pre_deduct_exact[OF assms(2) this assms(3-5)] show ?thesis
    using assms(6,7) by (simp add: PreDeductInventory_def)
qed

lemma in_step_placed:
  assumes "in_step b" "placed env c user key hash items order (bk_db b) (bk_db b')" "balanced (bk_db b)" "balanced (bk_db b')"
    and "\<And>p. supplied (bk_db b') p = supplied (bk_db b) p" "0 < c_order_id c" "items \<noteq> []"
    and "\<not> snd (fst (PreDeductInventory Answers (c_order_id c) items (bk_redis b)))"
    and "bk_redis b' = snd (PreDeductInventory Answers (c_order_id c) items (bk_redis b))"
    and "exact_items items" "distinct (map ci_product_id items)"
  shows "in_step b'"
proof -
  note pl = placed_stock[OF assms(2-5)]
  have av: "r_available (bk_redis b) = (\<lambda>p. if p \<in> products_of (bk_db b) then Some (at_hand (bk_db b) p) else None)"
    using assms(1) by (simp add: in_step_def)
  have fresh: "r_reservation (bk_redis b) (c_order_id c) = None"
    using in_step_fresh[OF assms(1)] pl(5) assms(2) unfolding placed_def by metis
  have r: "bk_redis b' = \<lparr>r_available = \<lambda>p. map_option (\<lambda>q. q - asked items p) (r_available (bk_redis b) p),
     r_reservation = (r_reservation (bk_redis b))(c_order_id c \<mapsto> items)\<rparr>"
    unfolding assms(9)
    by (rule pre_deduct_known[OF _ fresh assms(10,11) in_step_integers[OF assms(1,3)] assms(6,7,8)]) (use pl(2) av in auto)
  have "if status_of (bk_db b') i = OrderStatusPending
      then \<exists>is. r_reservation (bk_redis b') i = Some is \<and> exact_items is \<and> (\<forall>p. asked is p = order_qty (bk_db b') i p)
      else r_reservation (bk_redis b') i = None" for i
  proof (cases "i = o_id order")
    case True
    then show ?thesis using placed_status[OF assms(2), of i] pl(4,5) assms(10) by (simp add: r)
  next
    case False
    then have "status_of (bk_db b') i = status_of (bk_db b) i" "order_qty (bk_db b') i = order_qty (bk_db b) i"
      "r_reservation (bk_redis b') i = r_reservation (bk_redis b) i"
      using placed_status[OF assms(2), of i] pl(4,5) by (auto simp: r fun_eq_iff)
    then show ?thesis using assms(1) unfolding in_step_def by presburger
  qed
  moreover have "r_available (bk_redis b') = (\<lambda>p. if p \<in> products_of (bk_db b') then Some (at_hand (bk_db b') p) else None)"
    by (simp add: r av pl(1,3) fun_eq_iff)
  ultimately show ?thesis unfolding in_step_def by blast
qed

subsection \<open>Cancelling and paying\<close>

lemma in_step_eq: "bk_db b' = bk_db b \<Longrightarrow> bk_redis b' = bk_redis b \<Longrightarrow> in_step b' \<longleftrightarrow> in_step b"
  by (simp only: in_step_def)

text \<open>An order that awaits payment loses its share of the stock, or turns it into a sale.\<close>

lemma in_step_resolved:
  assumes "in_step b" "restated i to tf now (bk_db b) (bk_db b')" "i \<in> o_id ` set (t_orders (bk_db b))"
    and "status_of (bk_db b) i = OrderStatusPending" "to \<noteq> OrderStatusPending" "\<And>p. supplied (bk_db b') p = supplied (bk_db b) p"
    and "r_reservation (bk_redis b) i = Some items"
    and "bk_redis b' = \<lparr>r_available = \<lambda>p. map_option (\<lambda>q. q + (if takes to then 0 else asked items p)) (r_available (bk_redis b) p),
      r_reservation = (r_reservation (bk_redis b))(i := None)\<rparr>"
  shows "in_step b'"
proof -
  let ?d = "bk_db b" and ?d' = "bk_db b'"
  have items: "asked items p = order_qty ?d i p" for p using assms(1,4,7) by (simp add: in_step_def) (metis option.inject)
  have st: "status_of ?d' = (status_of ?d)(i := to)" by (rule restated_status[OF assms(2,3)])
  note pr = restated_products(1)[OF assms(2)] and it = restated_products(2)[OF assms(2)]
  have "at_hand ?d' p = at_hand ?d p + (if takes to then 0 else asked items p)" for p
    using at_hand_restated[OF assms(2,3,6), of p] assms(4) by (simp add: items takes_def)
  then have "r_available (bk_redis b') = (\<lambda>p. if p \<in> products_of ?d' then Some (at_hand ?d' p) else None)"
    using assms(1) by (simp add: assms(8) in_step_def pr fun_eq_iff)
  moreover have "if status_of ?d' j = OrderStatusPending
      then \<exists>is. r_reservation (bk_redis b') j = Some is \<and> exact_items is \<and> (\<forall>p. asked is p = order_qty ?d' j p)
      else r_reservation (bk_redis b') j = None" for j
  proof (cases "j = i")
    case True
    then show ?thesis using assms(5) by (simp add: st assms(8))
  next
    case False
    then have "status_of ?d' j = status_of ?d j" "order_qty ?d' j = order_qty ?d j"
      "r_reservation (bk_redis b') j = r_reservation (bk_redis b) j"
      by (simp_all add: st it order_qty_def fun_eq_iff assms(8))
    then show ?thesis using assms(1) unfolding in_step_def by presburger
  qed
  ultimately show ?thesis unfolding in_step_def by blast
qed

lemma reserved:
  assumes "in_step b" "status_of (bk_db b) i = OrderStatusPending"
  obtains items where "r_reservation (bk_redis b) i = Some items" "exact_items items"
    "\<And>p. asked items p = order_qty (bk_db b) i p"
  using assms unfolding in_step_def by (metis)

lemma release_idle:
  assumes "in_step b" "status_of (bk_db b) i \<noteq> OrderStatusPending"
  shows "releaseReservation Answers i (bk_redis b) = bk_redis b"
proof -
  have "r_reservation (bk_redis b) i = None" using assms unfolding in_step_def by metis
  then show ?thesis by (simp add: releaseReservation_def over_def releaseInventoryReservationScript_def)
qed

lemma release_reserved:
  assumes "r_reservation r i = Some items" "0 < i" "exact_items items"
    and "\<And>p q. r_available r p = Some q \<Longrightarrow> int64 q \<and> int64 (q + asked items p)"
  shows "releaseReservation Answers i r =
     \<lparr>r_available = \<lambda>p. map_option (\<lambda>q. q + asked items p) (r_available r p), r_reservation = (r_reservation r)(i := None)\<rparr>"
  using release_exact[OF assms(1,3)] assms(2,4) by (simp add: releaseReservation_def over_def)

lemma order_id_positive: "sound env d \<Longrightarrow> i \<in> o_id ` set (t_orders d) \<Longrightarrow> 0 < i"
  by (auto simp: sound_def records_def order_ok_def)

lemma in_step_cancelled:
  assumes "in_step b" "sound env (bk_db b)" "cancelPendingOrder now order pre (bk_db b) = Inr (True, bk_db b')"
    and "bk_redis b' = releaseReservation Answers (o_id order) (bk_redis b)"
  shows "in_step b'"
proof -
  have bal: "balanced (bk_db b)" using assms(2) by (simp add: sound_def)
  have re: "restated (o_id order) OrderStatusCancelled CancelledAt now (bk_db b) (bk_db b')"
    and st: "status_of (bk_db b) (o_id order) = OrderStatusPending" and mem: "o_id order \<in> o_id ` set (t_orders (bk_db b))"
    using cancelPendingOrder_restated[OF assms(3) bal] by auto
  obtain items where items: "r_reservation (bk_redis b) (o_id order) = Some items" and ex: "exact_items items"
    and qty: "\<And>p. asked items p = order_qty (bk_db b) (o_id order) p" using reserved[OF assms(1) st] by blast
  note sup = cancelPendingOrder_supplied[OF assms(3) bal]
  have bal': "balanced (bk_db b')" using cancelPendingOrder_books[OF assms(3) bal] by simp
  have "int64 q \<and> int64 (q + asked items p)" if "r_available (bk_redis b) p = Some q" for p q
  proof -
    have p: "p \<in> products_of (bk_db b)" "q = at_hand (bk_db b) p"
      using that assms(1) by (auto simp: in_step_def split: if_splits)
    have "at_hand (bk_db b') p = q + asked items p"
      using at_hand_restated[OF re mem sup, of p] st p(2) by (simp add: qty takes_def go_status_defs)
    then show ?thesis using at_hand_int64(1)[OF bal p(1)] at_hand_int64(1)[OF bal', of p] restated_products(1)[OF re] p by simp
  qed
  note given = release_reserved[OF items order_id_positive[OF assms(2) mem] ex this]
  show ?thesis
    by (rule in_step_resolved[OF assms(1) re mem st _ sup items]) (simp_all add: assms(4) given takes_def go_status_defs)
qed

lemma cancel_transaction_Inr:
  assumes "cancel_transaction now u i d = Inr (how, d')"
  shows "(how = AlreadyCancelled \<and> d' = d) \<or>
    (how = Restored \<and> (\<exists>r. o_id r = i \<and> cancelPendingOrder now r cancel_remark d = Inr (True, d')))"
  using assms by (auto simp: cancel_transaction_def andThen_Inr_iff dest!: GetOrderByID_Inr split: if_splits)

lemma expire_transaction_Inr:
  assumes "expire_transaction env now event i d = Inr (how, d')"
  shows "(how \<in> {Ignored, AlreadyCancelled} \<and> d' = d) \<or>
    (how \<in> {Restored, NotRestored} \<and>
     (\<exists>r. o_id r = i \<and> cancelPendingOrder now r timeout_remark d = Inr (how = Restored, d')))"
  using assms
  by (auto simp: expire_transaction_def andThen_Inr_iff dao_GetOrderByIDForSystem_def dest!: first_row_Inr
      split: sum.splits if_splits)

lemma transaction_Inl: "transaction served body d = (Inl e, d') \<Longrightarrow> d' = d"
  by (auto simp: transaction_def split: if_splits sum.splits)

lemma transaction_Inr: "transaction served body d = (Inr x, d') \<Longrightarrow> body d = Inr (x, d')"
  by (auto simp: transaction_def split: if_splits sum.splits)

lemma in_step_CancelOrder:
  assumes "in_step b" "sound env (bk_db b)" "c_link_after c = Answers"
  shows "in_step (snd (CancelOrder c user i b))"
proof -
  let ?b = "snd (CancelOrder c user i b)"
  have bal: "balanced (bk_db b)" using assms(2) by (simp add: sound_def)
  obtain res d where t: "transaction (c_served c) (cancel_transaction (c_now c) user i) (bk_db b) = (res, d)" by (rule prod.exhaust)
  show ?thesis
  proof (cases res)
    case (Inl e)
    then have "bk_db ?b = bk_db b \<and> bk_redis ?b = bk_redis b"
      using transaction_Inl[OF t[unfolded Inl]] by (simp add: CancelOrder_def t)
    then show ?thesis using in_step_eq assms(1) by blast
  next
    case (Inr how)
    have tr: "cancel_transaction (c_now c) user i (bk_db b) = Inr (how, d)" using transaction_Inr[OF t[unfolded Inr]] .
    have b: "bk_db ?b = d" "bk_redis ?b = releaseReservation Answers i (bk_redis b)"
      using Inr assms(3) by (simp_all add: CancelOrder_def t RestorePreDeductedInventory_def)
    from cancel_transaction_Inr[OF tr] show ?thesis
    proof (elim disjE conjE exE)
      assume "how = AlreadyCancelled" "d = bk_db b"
      then have "status_of (bk_db b) i \<noteq> OrderStatusPending"
        using cancel_transaction_restated[OF tr bal] by (auto simp: go_status_defs)
      then show ?thesis using in_step_eq[of ?b b] b release_idle[OF assms(1)] \<open>d = bk_db b\<close> assms(1) by simp
    next
      fix r assume "o_id r = i" "cancelPendingOrder (c_now c) r cancel_remark (bk_db b) = Inr (True, d)"
      then show ?thesis using in_step_cancelled[OF assms(1,2), of "c_now c" r cancel_remark ?b] b by simp
    qed
  qed
qed

lemma in_step_CancelExpiredOrder:
  assumes "in_step b" "sound env (bk_db b)" "c_link_after c = Answers"
  shows "in_step (snd (CancelExpiredOrder env c event i b))"
proof -
  let ?b = "snd (CancelExpiredOrder env c event i b)"
  have bal: "balanced (bk_db b)" using assms(2) by (simp add: sound_def)
  obtain res d where t: "transaction (c_served c) (expire_transaction env (c_now c) event i) (bk_db b) = (res, d)" by (rule prod.exhaust)
  show ?thesis
  proof (cases res)
    case (Inl e)
    then have "bk_db ?b = bk_db b \<and> bk_redis ?b = bk_redis b"
      using transaction_Inl[OF t[unfolded Inl]] by (simp add: CancelExpiredOrder_def t)
    then show ?thesis using in_step_eq assms(1) by blast
  next
    case (Inr how)
    have tr: "expire_transaction env (c_now c) event i (bk_db b) = Inr (how, d)" using transaction_Inr[OF t[unfolded Inr]] .
    have b: "bk_db ?b = d" "bk_redis ?b = (if how \<in> {Ignored, NotRestored} then bk_redis b else releaseReservation Answers i (bk_redis b))"
      using Inr assms(3) by (simp_all add: CancelExpiredOrder_def t RestorePreDeductedInventory_def)
    have idle: "in_step ?b" if "d = bk_db b" "how = AlreadyCancelled \<Longrightarrow> status_of (bk_db b) i \<noteq> OrderStatusPending" "how \<noteq> Restored"
      using in_step_eq[of ?b b] b release_idle[OF assms(1)] that assms(1) by (cases how) simp_all
    from expire_transaction_Inr[OF tr] show ?thesis
    proof (elim disjE conjE exE)
      assume how: "how \<in> {Ignored, AlreadyCancelled}" "d = bk_db b"
      moreover have "status_of (bk_db b) i \<noteq> OrderStatusPending" if h: "how = AlreadyCancelled"
      proof -
        obtain r where "dao_GetOrderByIDForSystem i (bk_db b) = Inr r" "o_status r = OrderStatusCancelled"
          using tr h by (auto simp: expire_transaction_def andThen_Inr_iff split: sum.splits if_splits)
        then show ?thesis using status_of_row[OF booksD(2)[OF bal], of r]
          by (auto simp: dao_GetOrderByIDForSystem_def go_status_defs dest!: first_row_Inr)
      qed
      ultimately show ?thesis using idle by auto
    next
      fix r assume r: "how \<in> {Restored, NotRestored}" "o_id r = i"
        "cancelPendingOrder (c_now c) r timeout_remark (bk_db b) = Inr (how = Restored, d)"
      show ?thesis
      proof (cases "how = Restored")
        case True
        then show ?thesis using in_step_cancelled[OF assms(1,2), of "c_now c" r timeout_remark ?b] b r by simp
      next
        case False
        then show ?thesis using cancelPendingOrder_restated[OF r(3) bal] idle r(1) by auto
      qed
    qed
  qed
qed

lemma consume_items_logs: "consume_items its d = Inr d' \<Longrightarrow> t_logs d' = t_logs d"
  by (induction its arbitrary: d) (fastforce simp: andThen_Inr_iff dao_ConsumeLockedInventory_def patch_inventories_def update_rows_def split: if_splits)+

lemma pay_transaction_supplied:
  assumes "pay_transaction now u i d = Inr (x, d')" shows "supplied d' p = supplied d p"
proof -
  have "t_logs d' = t_logs d"
    using assms by (auto simp: pay_transaction_def andThen_Inr_iff dao_PatchOrderStatus_def update_rows_def
        dest!: consume_items_logs split: if_splits)
  then show ?thesis by (simp add: supplied_def logs_of_def)
qed

lemma in_step_PayOrder:
  assumes "in_step b" "sound env (bk_db b)" "c_link_after c = Answers"
  shows "in_step (snd (PayOrder c user i early b))"
proof (cases "pay_check user i early")
  case (Inl e)
  then have "bk_db (snd (PayOrder c user i early b)) = bk_db b \<and> bk_redis (snd (PayOrder c user i early b)) = bk_redis b"
    by (simp add: PayOrder_def)
  then show ?thesis using in_step_eq assms(1) by blast
next
  case (Inr r)
  let ?b = "snd (PayOrder c user i early b)"
  have bal: "balanced (bk_db b)" using assms(2) by (simp add: sound_def)
  have oid: "o_id r = i" using pay_check_Inr[OF Inr] .
  obtain res d where t: "transaction (c_served c) (pay_transaction (c_now c) user i) (bk_db b) = (res, d)" by (rule prod.exhaust)
  show ?thesis
  proof (cases res)
    case (Inl e)
    then have "bk_db ?b = bk_db b \<and> bk_redis ?b = bk_redis b"
      using transaction_Inl[OF t[unfolded Inl]] by (simp add: PayOrder_def Inr oid t)
    then show ?thesis using in_step_eq assms(1) by blast
  next
    case paid: (Inr x)
    have tr: "pay_transaction (c_now c) user i (bk_db b) = Inr (x, d)" using transaction_Inr[OF t[unfolded paid]] .
    have re: "restated i OrderStatusPaid PaidAt (c_now c) (bk_db b) d" and st: "status_of (bk_db b) i = OrderStatusPending"
      and mem: "i \<in> o_id ` set (t_orders (bk_db b))"
      using pay_transaction_restated[OF tr bal] by auto
    obtain items where items: "r_reservation (bk_redis b) i = Some items" by (rule reserved[OF assms(1) st])
    have "0 < i" using order_id_positive[OF assms(2) mem] .
    then have b: "bk_db ?b = d" "bk_redis ?b = (bk_redis b)\<lparr>r_reservation := (r_reservation (bk_redis b))(i := None)\<rparr>"
      using paid assms(3) by (simp_all add: PayOrder_def Inr oid t ConfirmPreDeductedInventory_def over_def)
    show ?thesis
      by (rule in_step_resolved[OF assms(1) _ mem st _ _ items, of OrderStatusPaid PaidAt "c_now c"])
        (use re in \<open>simp_all add: b pay_transaction_supplied[OF tr] takes_def go_status_defs option.map_ident\<close>)
  qed
qed

subsection \<open>Stock put in\<close>

text \<open>The orders stay as they are, and the stock of the guard is that of the rows.\<close>

lemma in_step_rows:
  assumes "in_step b" "balanced (bk_db b')" "same_orders (bk_db b) (bk_db b')" "t_items (bk_db b') = t_items (bk_db b)"
    and "r_reservation (bk_redis b') = r_reservation (bk_redis b)"
    and "\<And>iv. iv \<in> set (t_inventories (bk_db b')) \<Longrightarrow> r_available (bk_redis b') (i_product_id iv) = Some (i_stock_quantity iv)"
    and "\<And>p. p \<notin> products_of (bk_db b') \<Longrightarrow> r_available (bk_redis b') p = None"
  shows "in_step b'"
proof -
  have "r_available (bk_redis b') p = (if p \<in> products_of (bk_db b') then Some (at_hand (bk_db b') p) else None)" for p
    using assms(7)[of p] assms(6) stock_at_hand[OF assms(2)] by (auto simp: products_of_def)
  moreover have "status_of (bk_db b') = status_of (bk_db b)" "order_qty (bk_db b') = order_qty (bk_db b)"
    using assms(3,4) by (auto simp: same_orders_def order_qty_def fun_eq_iff intro!: status_of_same_orders[THEN fun_cong])
  ultimately show ?thesis using assms(1,5) unfolding in_step_def fun_eq_iff by metis
qed

lemma in_step_row:
  assumes "in_step b" "balanced (bk_db b)" "iv \<in> set (t_inventories (bk_db b))"
  shows "r_available (bk_redis b) (i_product_id iv) = Some (i_stock_quantity iv)"
  using assms(1) stock_at_hand[OF assms(2,3)] assms(3) by (simp add: in_step_def products_of_def)

lemma in_step_none: "in_step b \<Longrightarrow> p \<notin> products_of (bk_db b) \<Longrightarrow> r_available (bk_redis b) p = None"
  by (simp add: in_step_def)

lemma init_transaction_items: "init_transaction p q d = Inr (x, d') \<Longrightarrow> t_items d' = t_items d"
  using init_transaction_adds by blast

lemma in_step_InitInventory:
  assumes "in_step b" "sound env (bk_db b)" "sound env early" "c_link_after c = Answers"
  shows "in_step (snd (InitInventory c i stock early b))"
proof (cases "bk_db (snd (InitInventory c i stock early b)) = bk_db b \<and> bk_redis (snd (InitInventory c i stock early b)) = bk_redis b")
  case True
  then show ?thesis using in_step_eq assms(1) by blast
next
  case False
  let ?b = "snd (InitInventory c i stock early b)"
  have bal: "balanced (bk_db b)" using assms(2) by (simp add: sound_def)
  obtain q p where q: "stock = Some q" "\<not> q < 0" "dao_GetProductByID i early = Inr p"
    "dao_GetInventoryByProductID i early = Inl ErrRecordNotFound"
    using False by (auto simp: InitInventory_def split: option.splits sum.splits if_splits)
  obtain res d where t: "transaction (c_served c) (init_transaction p q) (bk_db b) = (res, d)" by (rule prod.exhaust)
  obtain x where x: "res = Inr x"
    using False q transaction_Inl[of "c_served c" "init_transaction p q" "bk_db b" _ d] by (cases res) (auto simp: InitInventory_def t)
  have tr: "init_transaction p q (bk_db b) = Inr (x, d)" using transaction_Inr[OF t[unfolded x]] .
  have "p \<in> set (t_products early)" using first_row_Inr[OF q(3)[unfolded dao_GetProductByID_def]] by simp
  then have pos: "0 < p_id p" using sound_product_id assms(3) by (auto simp: sound_def)
  have b: "bk_db ?b = d" "bk_redis ?b = (bk_redis b)\<lparr>r_available := (r_available (bk_redis b))(p_id p \<mapsto> q)\<rparr>"
    using q x pos assms(4) by (simp_all add: InitInventory_def t guard_SetInventoryStock_def over_def)
  note ib = init_transaction_books[OF tr bal pos]
  then obtain iv where iv: "i_product_id iv = p_id p" "i_stock_quantity iv = q" "t_inventories d = t_inventories (bk_db b) @ [iv]"
    by auto
  show ?thesis
  proof (rule in_step_rows[OF assms(1)], unfold b)
    show "balanced d" "same_orders (bk_db b) d" using ib by simp_all
    show "t_items d = t_items (bk_db b)" by (rule init_transaction_items[OF tr])
    show "r_available ((bk_redis b)\<lparr>r_available := (r_available (bk_redis b))(p_id p \<mapsto> q)\<rparr>) (i_product_id jv) = Some (i_stock_quantity jv)"
      if "jv \<in> set (t_inventories d)" for jv
      using that iv ib in_step_row[OF assms(1) bal] by (auto simp: image_iff)
  qed (use iv in_step_none[OF assms(1)] in \<open>auto simp: products_of_def\<close>)
qed

lemma in_step_AddInventory:
  assumes "in_step b" "sound env (bk_db b)" "int64 q" "c_link_after c = Answers"
  shows "in_step (snd (AddInventory c p q b))"
proof -
  let ?b = "snd (AddInventory c p q b)"
  have bal: "balanced (bk_db b)" using assms(2) by (simp add: sound_def)
  obtain res d where t: "transaction (c_served c) (add_transaction p q) (bk_db b) = (res, d)" by (rule prod.exhaust)
  show ?thesis
  proof (cases "q \<le> 0 \<or> (\<exists>e. res = Inl e)")
    case True
    then have "bk_db ?b = bk_db b \<and> bk_redis ?b = bk_redis b"
      using transaction_Inl[of "c_served c" "add_transaction p q" "bk_db b" _ d] by (auto simp: AddInventory_def t)
    then show ?thesis using in_step_eq assms(1) by blast
  next
    case False
    then obtain after where r: "res = Inr after" "0 < q" by (cases res) auto
    have tr: "add_transaction p q (bk_db b) = Inr (after, d)" using transaction_Inr[OF t[unfolded r(1)]] .
    obtain iv where iv: "iv \<in> set (t_inventories (bk_db b))" "i_product_id iv = p" "after = i_stock_quantity iv + q"
      "t_inventories d = moved p q 0 (t_inventories (bk_db b))" "t_items d = t_items (bk_db b)"
      by (rule add_transaction_Inr[OF tr booksD(1)[OF bal] assms(3)]) auto
    have stock: "int64 (i_stock_quantity iv)" "int64 (i_stock_quantity iv + q)"
    proof -
      show "int64 (i_stock_quantity iv)" using booksD(3)[OF bal iv(1)] by (simp add: inventory_ok_def inventory_checks_def)
      have "move q 0 iv \<in> set (t_inventories d)" unfolding iv(4) moved_def using iv(1,2) by force
      then show "int64 (i_stock_quantity iv + q)"
        using booksD(3)[OF conjunct1[OF add_transaction_books[OF tr bal assms(3)]], of "move q 0 iv"]
        by (simp add: inventory_ok_def inventory_checks_def)
    qed
    have "0 < p" "0 \<le> after" using booksD(3)[OF bal iv(1)] iv r by (auto simp: inventory_ok_def inventory_checks_def)
    then have b: "bk_db ?b = d" "bk_redis ?b = (bk_redis b)\<lparr>r_available := (r_available (bk_redis b))(p \<mapsto> i_stock_quantity iv + q)\<rparr>"
      using r assms(4) in_step_row[OF assms(1) bal iv(1)] iv(2) stock
      by (simp_all add: AddInventory_def t guard_IncrInventoryStock_def over_def incrInventoryStockScript_def
          redis_incrby_def Let_def)
    have "map i_product_id (t_inventories d) = map i_product_id (t_inventories (bk_db b))"
      using add_transaction_adds[OF tr bal assms(3)] by simp
    then have pr: "products_of d = products_of (bk_db b)" unfolding products_of_def by (metis list.set_map)
    have in_products: "p \<in> products_of (bk_db b)" using iv(1,2) by (auto simp: products_of_def)
    have one: "jv = iv" if "jv \<in> set (t_inventories (bk_db b))" "i_product_id jv = p" for jv
      using booksD(1)[OF bal] that iv(1,2) by (auto simp: distinct_map dest: inj_onD)
    show ?thesis
    proof (rule in_step_rows[OF assms(1)], unfold b)
      show "balanced d" "same_orders (bk_db b) d" using add_transaction_books[OF tr bal assms(3)] by simp_all
      show "t_items d = t_items (bk_db b)" by (rule iv(5))
      show "r_available ((bk_redis b)\<lparr>r_available := (r_available (bk_redis b))(p \<mapsto> i_stock_quantity iv + q)\<rparr>) (i_product_id jv) = Some (i_stock_quantity jv)"
        if "jv \<in> set (t_inventories d)" for jv
        using that iv(4) one in_step_row[OF assms(1) bal] by (auto simp: moved_def)
    qed (use in_products in_step_none[OF assms(1)] in \<open>auto simp: pr\<close>)
  qed
qed

lemma foldl_known:
  "(\<And>iv. iv \<in> set rows \<Longrightarrow> avail (i_product_id iv) = Some (i_stock_quantity iv)) \<Longrightarrow>
   foldl (\<lambda>a i. a(i_product_id i \<mapsto> i_stock_quantity i)) avail rows = avail"
  by (induction rows) (simp_all add: fun_upd_idem)

text \<open>A rebuild finds nothing to repair.\<close>

lemma in_step_Rebuild:
  assumes "in_step b" "sound env (bk_db b)"
  shows "in_step (snd (RebuildRedisInventoryStock Answers b))"
proof -
  let ?rows = "filter (\<lambda>i. 0 < i_product_id i \<and> 0 \<le> i_stock_quantity i) (listAllInventories (bk_db b))"
  have bal: "balanced (bk_db b)" using assms(2) by (simp add: sound_def)
  have f: "foldl (\<lambda>a i. a(i_product_id i \<mapsto> i_stock_quantity i)) (r_available (bk_redis b)) ?rows = r_available (bk_redis b)"
    by (rule foldl_known) (auto simp: listAllInventories_def in_step_row[OF assms(1) bal])
  have "snd (RebuildRedisInventoryStock Answers b) = b"
    by (simp add: RebuildRedisInventoryStock_def RebuildInventoryStocks_def over_def Let_def f)
  then show ?thesis using assms(1) by simp
qed

subsection \<open>All calls\<close>

lemma in_step_CreateOrder:
  assumes "in_step b" "sound env (bk_db b)" "c_link c = Answers" "c_link_after c = Answers"
    and "c_order_id c \<notin> o_id ` set (t_orders (bk_db b))" "0 < c_order_id c" "co_items req \<noteq> []"
    and "exact_items (co_items req)"
  shows "in_step (snd (CreateOrder env c user req b))"
proof -
  obtain res b' where cr: "CreateOrder env c user req b = (res, b')" by (rule prod.exhaust)
  have bal: "balanced (bk_db b)" using assms(2) by (simp add: sound_def)
  from create_outcome[OF cr assms(3,4) in_step_fresh[OF assms(1,5)] assms(8) in_step_integers[OF assms(1) bal] bal] have "in_step b'"
  proof (elim disjE conjE exE)
    assume "bk_db b' = bk_db b" "bk_redis b' = bk_redis b"
    then show ?thesis using in_step_eq assms(1) by blast
  next
    fix order
    assume tr: "create_transaction env c user (co_idempotency_key req) (buildCreateOrderRequestHash env req)
        (sortedOrderItems (co_items req)) (bk_db b) = Inr ((order, False), bk_db b')"
      and "\<not> refused_by_guard c req (bk_redis b)" "distinct (map ci_product_id (co_items req))"
      and r: "bk_redis b' = snd (PreDeductInventory Answers (c_order_id c) (sortedOrderItems (co_items req)) (bk_redis b))"
    moreover have "placed env c user (co_idempotency_key req) (buildCreateOrderRequestHash env req)
        (sortedOrderItems (co_items req)) order (bk_db b) (bk_db b')" "balanced (bk_db b')"
      using create_transaction_cases[OF tr bal] by simp_all
    moreover have "exact_items (sortedOrderItems (co_items req))"
      using assms(8) exact_items_set[of "sortedOrderItems (co_items req)" "co_items req"] by simp
    ultimately show ?thesis
      using in_step_placed[OF assms(1) _ bal _ placed_supplied[OF tr bal] assms(6)] assms(3,7)
      by (simp add: refused_by_guard_def)
  qed
  then show ?thesis by (simp add: cr)
qed

lemma product_status_in_step:
  assumes "in_step b" "bk_redis b' = bk_redis b" "bk_db b' = bk_db b \<or> (\<exists>rows. bk_db b' = (bk_db b)\<lparr>t_products := rows\<rparr>)"
  shows "in_step b'"
  using assms(3)
proof (elim disjE exE)
  fix rows assume "bk_db b' = (bk_db b)\<lparr>t_products := rows\<rparr>"
  then have "status_of (bk_db b') = status_of (bk_db b)" "t_items (bk_db b') = t_items (bk_db b)"
    "supplied (bk_db b') = supplied (bk_db b)" "products_of (bk_db b') = products_of (bk_db b)"
    by (simp_all add: status_of_def supplied_def logs_of_def products_of_def fun_eq_iff)
  then show ?thesis by (intro in_step_same[OF assms(1,2)]) (simp_all add: at_hand_def fun_eq_iff)
qed (use assms in_step_eq in blast)

lemma in_step_FinishOrder:
  assumes "in_step b" "sound env (bk_db b)"
  shows "in_step (snd (FinishOrder c user i early b))"
proof (cases "bk_db (snd (FinishOrder c user i early b)) = bk_db b")
  case False
  let ?b = "snd (FinishOrder c user i early b)"
  have bal: "balanced (bk_db b)" using assms(2) by (simp add: sound_def)
  obtain r where r: "finish_check user i early = Inr r" using False by (cases "finish_check user i early") (simp_all add: FinishOrder_def)
  obtain res d where t: "transaction (c_served c) (finish_statement (c_now c) user i) (bk_db b) = (res, d)" by (rule prod.exhaust)
  have b: "bk_db ?b = d" "bk_redis ?b = bk_redis b"
    by (simp_all add: FinishOrder_def r finish_check_Inr[OF r] t split: sum.split)
  then obtain x where tr: "finish_statement (c_now c) user i (bk_db b) = Inr (x, d)" using transaction_cases[OF t] False by auto
  have re: "restated i OrderStatusFinished CompletedAt (c_now c) (bk_db b) d" and st: "status_of (bk_db b) i = OrderStatusPaid"
    and mem: "i \<in> o_id ` set (t_orders (bk_db b))"
    using finish_statement_restated[OF tr bal] by auto
  have "t_logs d = t_logs (bk_db b)"
    using tr by (auto simp: finish_statement_def andThen_Inr_iff dao_PatchOrderStatus_def update_rows_def split: if_splits)
  then have sup: "supplied d p = supplied (bk_db b) p" for p by (simp add: supplied_def logs_of_def)
  have "at_hand d p = at_hand (bk_db b) p" for p
    using at_hand_restated[OF re mem sup] st by (simp add: takes_def)
  moreover note restated_products[OF re]
  ultimately show ?thesis
    using restated_status[OF re mem] st by (intro in_step_same[OF assms(1)]) (auto simp: b go_status_defs)
next
  case True
  have "bk_redis (snd (FinishOrder c user i early b)) = bk_redis b"
    by (simp add: FinishOrder_def split: sum.split prod.split)
  then show ?thesis using in_step_eq True assms(1) by blast
qed

lemma set_product_status_rows:
  "bk_redis (snd (set_product_status st failed served i early b)) = bk_redis b \<and>
   (bk_db (snd (set_product_status st failed served i early b)) = bk_db b \<or>
    (\<exists>rows. bk_db (snd (set_product_status st failed served i early b)) = (bk_db b)\<lparr>t_products := rows\<rparr>))"
  by (auto simp: set_product_status_def dao_UpdateProductStatus_def andThen_def transaction_def update_rows_def
      split: sum.split prod.split)

lemma in_step_op:
  assumes "in_step b" "sound env (bk_db b)" "\<forall>e \<in> set past. sound env e" "admitted past op" "undisturbed (bk_db b) op"
  shows "in_step (run_op env op b)"
proof (cases op)
  case (OpCreateProduct served name desc price)
  have "bk_redis (snd (CreateProduct served name desc price b)) = bk_redis b \<and>
      (bk_db (snd (CreateProduct served name desc price b)) = bk_db b \<or>
       (\<exists>rows. bk_db (snd (CreateProduct served name desc price b)) = (bk_db b)\<lparr>t_products := rows\<rparr>))"
    by (auto simp: CreateProduct_def dao_CreateProduct_def transaction_def Let_def split: sum.split prod.split)
  then show ?thesis using product_status_in_step[OF assms(1)] OpCreateProduct by auto
next
  case (OpOnSale served i early)
  then show ?thesis using product_status_in_step[OF assms(1)] set_product_status_rows by (simp add: OnSaleProduct_def)
next
  case (OpOffSale served i early)
  then show ?thesis using product_status_in_step[OF assms(1)] set_product_status_rows by (simp add: OffSaleProduct_def)
next
  case (OpInit c p stock early)
  then show ?thesis using in_step_InitInventory[OF assms(1,2)] assms(3-5) by simp
next
  case (OpAdd c p q)
  then show ?thesis using in_step_AddInventory[OF assms(1,2)] assms(4,5) by simp
next
  case (OpCreateOrder c user req)
  then show ?thesis using in_step_CreateOrder[OF assms(1,2)] assms(4,5) by simp
next
  case (OpCancel c user i)
  then show ?thesis using in_step_CancelOrder[OF assms(1,2)] assms(5) by simp
next
  case (OpExpire c event i)
  then show ?thesis using in_step_CancelExpiredOrder[OF assms(1,2)] assms(5) by simp
next
  case (OpPay c user i early)
  then show ?thesis using in_step_PayOrder[OF assms(1,2)] assms(5) by simp
next
  case (OpFinish c user i early)
  then show ?thesis using in_step_FinishOrder[OF assms(1,2)] by simp
next
  case (OpRebuild l)
  then show ?thesis using in_step_Rebuild[OF assms(1,2)] assms(5) by simp
qed (use assms(5) in simp)

lemma calm_runs_in_step: "calm_runs env w \<Longrightarrow> in_step (snd w)"
proof (induction rule: calm_runs.induct)
  case start
  then show ?case by (simp add: start_world_def in_step_start)
next
  case (step w op w')
  from step(2) show ?case
  proof cases
    case (call past b' b)
    have "backend_ok env (past, b)" using reachable_ok calm_runs_reachable[OF step(1)] call(1) by simp
    then have "\<forall>e \<in> set past. sound env e" "sound env (bk_db b)" by (auto simp: backend_ok_def)
    then show ?thesis using in_step_op[of b env past op] step call by simp
  qed
qed

subsection \<open>What the guard says is what the tables say\<close>

lemma refused_shortage:
  "check_available avail items = -1 \<Longrightarrow> exact_items items \<Longrightarrow>
   \<exists>i \<in> set items. \<exists>q. avail (ci_product_id i) = Some q \<and> q < ci_quantity i"
  by (induction items) (auto simp: exact_number split: option.splits if_splits)

lemma refused_check:
  assumes "refused_by_guard c req r" "r_reservation r (c_order_id c) = None"
  shows "check_available (r_available r) (sortedOrderItems (co_items req)) = -1"
  using assms by (auto simp: refused_by_guard_def PreDeductInventory_def preDeductInventoryScript_def Let_def case_prod_unfold
      split: if_splits prod.splits)

text \<open>
  C16: as long as Redis answers, no two calls overlap, every order gets a new identifier and no order asks
  for \<open>10 ^ 14\<close> pieces or more, the stock kept in Redis is, after any calls in any order, the stock in the
  tables; exactly the orders that await payment have a reservation, and it holds what their items take.
\<close>

theorem guard_in_step:
  assumes "calm_runs env (past, b)"
  shows "(\<forall>iv \<in> set (t_inventories (bk_db b)). r_available (bk_redis b) (i_product_id iv) = Some (i_stock_quantity iv)) \<and>
    (\<forall>i. r_reservation (bk_redis b) i \<noteq> None \<longleftrightarrow> status_of (bk_db b) i = OrderStatusPending) \<and>
    (\<forall>i items p. r_reservation (bk_redis b) i = Some items \<longrightarrow> asked items p = order_qty (bk_db b) i p)"
proof -
  have st: "in_step b" using calm_runs_in_step[OF assms] by simp
  have bal: "balanced (bk_db b)" using reachable_sound calm_runs_reachable[OF assms] by (auto simp: sound_def)
  have res: "if status_of (bk_db b) i = OrderStatusPending
      then \<exists>items. r_reservation (bk_redis b) i = Some items \<and> exact_items items \<and> (\<forall>p. asked items p = order_qty (bk_db b) i p)
      else r_reservation (bk_redis b) i = None" for i using st by (simp add: in_step_def)
  show ?thesis
  proof (intro conjI ballI allI impI)
    show "r_available (bk_redis b) (i_product_id iv) = Some (i_stock_quantity iv)" if "iv \<in> set (t_inventories (bk_db b))" for iv
      by (rule in_step_row[OF st bal that])
    show "r_reservation (bk_redis b) i \<noteq> None \<longleftrightarrow> status_of (bk_db b) i = OrderStatusPending" for i
      using res[of i] by (auto split: if_splits)
    show "asked items p = order_qty (bk_db b) i p" if "r_reservation (bk_redis b) i = Some items" for i items p
      using res[of i] that by (auto split: if_splits)
  qed
qed

text \<open>
  C17: under the same conditions, the bound on what is asked for included, the guard refuses an order
  only when the tables hold less of one of its products than it asks for, and then the transaction would
  have refused it, too.
\<close>

theorem guard_refuses_shortages_only:
  assumes "calm_runs env (past, b)" "c_order_id c \<notin> o_id ` set (t_orders (bk_db b))" "refused_by_guard c req (bk_redis b)"
    and "exact_items (co_items req)"
  shows "(\<exists>i \<in> set (co_items req). \<exists>iv \<in> set (t_inventories (bk_db b)).
      i_product_id iv = ci_product_id i \<and> i_stock_quantity iv < ci_quantity i) \<and>
    (\<forall>order d'. create_transaction env c user key hash (sortedOrderItems (co_items req)) (bk_db b) \<noteq> Inr ((order, False), d'))"
proof -
  have st: "in_step b" using calm_runs_in_step[OF assms(1)] by simp
  have snd: "sound env (bk_db b)" using reachable_sound calm_runs_reachable[OF assms(1)] by auto
  then have bal: "balanced (bk_db b)" by (simp add: sound_def)
  obtain i q where i: "i \<in> set (co_items req)" "r_available (bk_redis b) (ci_product_id i) = Some q" "q < ci_quantity i"
    using refused_shortage[OF refused_check[OF assms(3) in_step_fresh[OF st assms(2)]]] assms(4)
      exact_items_set[of "sortedOrderItems (co_items req)" "co_items req"] by auto
  have mem: "ci_product_id i \<in> products_of (bk_db b)" using in_step_none[OF st] i(2) by (metis option.distinct(1))
  then obtain iv where iv: "iv \<in> set (t_inventories (bk_db b))" "i_product_id iv = ci_product_id i" by (auto simp: products_of_def)
  then have short: "i_stock_quantity iv < ci_quantity i" using in_step_row[OF st bal iv(1)] i by simp
  moreover have "create_transaction env c user key hash (sortedOrderItems (co_items req)) (bk_db b) \<noteq> Inr ((order, False), d')" for order d'
  proof
    assume tr: "create_transaction env c user key hash (sortedOrderItems (co_items req)) (bk_db b) = Inr ((order, False), d')"
    have pl: "placed env c user key hash (sortedOrderItems (co_items req)) order (bk_db b) d'" "balanced d'"
      using create_transaction_cases[OF tr bal] by simp_all
    note ps = placed_stock[OF pl(1) bal pl(2) placed_supplied[OF tr bal]]
    have "at_hand (bk_db b) (ci_product_id i) = i_stock_quantity iv" using stock_at_hand[OF bal iv(1)] iv(2) by simp
    moreover have "0 \<le> at_hand d' (ci_product_id i)" using at_hand_int64(2)[OF pl(2)] ps(1) mem by simp
    moreover have "ci_quantity i \<le> asked (sortedOrderItems (co_items req)) (ci_product_id i)"
      using assms(4) i(1) exact_items_set[of "sortedOrderItems (co_items req)" "co_items req"] by (intro asked_at_least) auto
    ultimately show False using ps(3)[of "ci_product_id i"] short by simp
  qed
  ultimately show ?thesis using i(1) iv by blast
qed

text \<open>The small shop with a stock of five, while Redis answers.\<close>

definition shop_guarded :: backend where
  "shop_guarded = (shop_backend shop_db3)\<lparr>bk_redis := \<lparr>r_available = [1 \<mapsto> 5], r_reservation = \<lambda>_. None\<rparr>\<rparr>"

definition answering :: "int \<Rightarrow> surroundings" where
  "answering i = (calm i)\<lparr>c_link := Answers, c_link_after := Answers\<rparr>"

lemma shop_run_guarded: "run_op shop_env (OpInit (answering 0) 1 (Some 5) shop_db2) (shop_backend shop_db2) = shop_guarded"
  by (simp add: InitInventory_def dao_GetProductByID_def dao_GetInventoryByProductID_def first_row_def init_transaction_def
      dao_InitInventory_def dao_CreateStockLog_def inventory_checks_def log_checks_def int64_def next_id_def
      guard_SetInventoryStock_def over_def shop_defs answering_def shop_guarded_def start_backend_def shop_db2_def
      shop_db3_def transaction_def empty_db_def StockBizInit_def Let_def)

lemma shop_calm: "calm_runs shop_env (shop_past, shop_guarded)"
proof -
  have dbs: "bk_db (shop_backend d) = d" for d by (simp add: shop_backend_def)
  have "backend_step shop_env start_world (OpCreateProduct True [0x41] [] 250) ([shop_db1, empty_db], shop_backend shop_db1)"
    using backend_step.call[of "[empty_db]" "OpCreateProduct True [0x41] [] 250" _ shop_env start_backend] shop_run1
    by (simp add: start_world_def dbs)
  then have "calm_runs shop_env ([shop_db1, empty_db], shop_backend shop_db1)"
    by (rule calm_runs.step[OF calm_runs.start]) simp
  moreover have "backend_step shop_env ([shop_db1, empty_db], shop_backend shop_db1) (OpOnSale True 1 shop_db1)
      ([shop_db2, shop_db1, empty_db], shop_backend shop_db2)"
    using backend_step.call[of "[shop_db1, empty_db]" "OpOnSale True 1 shop_db1" _ shop_env "shop_backend shop_db1"] shop_run2
    by (simp add: dbs)
  ultimately have "calm_runs shop_env ([shop_db2, shop_db1, empty_db], shop_backend shop_db2)"
    by (rule calm_runs.step) simp
  moreover have "backend_step shop_env ([shop_db2, shop_db1, empty_db], shop_backend shop_db2) (OpInit (answering 0) 1 (Some 5) shop_db2)
      (shop_past, shop_guarded)"
    using backend_step.call[of "[shop_db2, shop_db1, empty_db]" "OpInit (answering 0) 1 (Some 5) shop_db2" _ shop_env "shop_backend shop_db2"]
      shop_run_guarded by (simp add: shop_past_def shop_guarded_def dbs)
  ultimately show ?thesis by (rule calm_runs.step) (simp add: answering_def)
qed

theorem guard_in_step_witness: "r_available (bk_redis shop_guarded) 1 = Some 5"
proof -
  have "\<lparr>i_id = 1, i_product_id = 1, i_stock_quantity = 5, i_locked_quantity = 0\<rparr> \<in> set (t_inventories (bk_db shop_guarded))"
    by (simp add: shop_guarded_def shop_backend_def shop_db3_def)
  then show ?thesis using guard_in_step[OF shop_calm] by fastforce
qed

theorem guard_refuses_shortages_only_witness:
  "create_transaction shop_env (answering 7) 3 [0x4B] [] [\<lparr>ci_product_id = 1, ci_quantity = 6\<rparr>] shop_db3 \<noteq> Inr ((shop_order, False), shop_db4)"
proof -
  let ?req = "shop_request\<lparr>co_items := [\<lparr>ci_product_id = 1, ci_quantity = 6\<rparr>]\<rparr>"
  have db: "bk_db shop_guarded = shop_db3" by (simp add: shop_guarded_def shop_backend_def)
  have "refused_by_guard (answering 7) ?req (bk_redis shop_guarded)"
    by (simp add: refused_by_guard_def PreDeductInventory_def preDeductInventoryScript_def answering_def calm_def shop_guarded_def
        tonumber_exact Let_def)
  moreover have "c_order_id (answering 7) \<notin> o_id ` set (t_orders (bk_db shop_guarded))"
    by (simp add: db shop_db3_def shop_db2_def empty_db_def)
  ultimately show ?thesis
    using guard_refuses_shortages_only[OF shop_calm, of "answering 7" ?req 3 "[0x4B]" "[]"] by (simp add: db)
qed

end
