(* ===== verification/Gateway.thy ===== *)
theory Gateway
  imports GuardInStep Session RouteTree
begin

section \<open>What the backend makes of a request (router, middleware, handler, request)\<close>

text \<open>
  The routes with the access each needs, and for each handler what it reads from the path, the query and
  the body before it calls its service, with the rules of the request types. A request that passes ends
  as a call of a service with typed arguments. Who a token stands for and who is an administrator are
  parameters here, which the theory Users gives.
\<close>

subsection \<open>Numbers and texts as Go reads them\<close>

text \<open>\<open>strconv.ParseInt(s, 10, 64)\<close>, which \<open>Atoi\<close> and the JSON decoder use as well.\<close>

definition ParseInt :: "jsstr \<Rightarrow> int option" where
  "ParseInt s =
     (let (neg, t) = take_sign s
      in if t = [] \<or> (\<exists>c \<in> set t. \<not> is_digit c) then None
         else let n = (if neg then - undec t else undec t) in if int64 n then Some n else None)"

text \<open>A surrogate on its own becomes the replacement character; a rune is a code point.\<close>

fun go_text :: "jsstr \<Rightarrow> jsstr" where
  "go_text [] = []"
| "go_text [u] = (if high_surrogate u \<or> low_surrogate u then [0xFFFD] else [u])"
| "go_text (u # v # s) =
     (if high_surrogate u \<and> low_surrogate v then u # v # go_text s
      else (if high_surrogate u \<or> low_surrogate u then 0xFFFD else u) # go_text (v # s))"

fun rune_count :: "jsstr \<Rightarrow> nat" where
  "rune_count [] = 0"
| "rune_count [u] = 1"
| "rune_count (u # v # s) = (if high_surrogate u \<and> low_surrogate v then Suc (rune_count s) else Suc (rune_count (v # s)))"

text \<open>A number of a JSON body for an integer field: \<open>null\<close>, which is what JavaScript writes for a number
  that is not finite, leaves the field as it was.\<close>

definition json_int :: "jsnum \<Rightarrow> int option option" where
  "json_int n =
     (if stringify_number n = js ''null'' then Some None else map_option Some (ParseInt (stringify_number n)))"

subsection \<open>The fields of a body\<close>

type_synonym body = "(jsstr \<times> body_value) list"

definition int_field :: "string \<Rightarrow> body \<Rightarrow> int option option" where
  "int_field name b =
     (case map_of b (js name) of None \<Rightarrow> Some None | Some (BNum n) \<Rightarrow> json_int n | _ \<Rightarrow> None)"

definition text_field :: "string \<Rightarrow> body \<Rightarrow> jsstr option" where
  "text_field name b =
     (case map_of b (js name) of None \<Rightarrow> Some [] | Some (BStr s) \<Rightarrow> Some (go_text s) | _ \<Rightarrow> None)"

text \<open>An integer that is \<open>required\<close> and \<open>gt=0\<close>.\<close>

definition positive_field :: "string \<Rightarrow> body \<Rightarrow> int option" where
  "positive_field name b =
     (case int_field name b of Some (Some n) \<Rightarrow> if 0 < n then Some n else None | _ \<Rightarrow> None)"

text \<open>A text that is \<open>required\<close> and has between \<open>lo\<close> and \<open>hi\<close> runes.\<close>

definition bounded_field :: "nat \<Rightarrow> nat \<Rightarrow> string \<Rightarrow> body \<Rightarrow> jsstr option" where
  "bounded_field lo hi name b =
     (case text_field name b of None \<Rightarrow> None
      | Some s \<Rightarrow> if s \<noteq> [] \<and> lo \<le> rune_count s \<and> rune_count s \<le> hi then Some s else None)"

definition both :: "'a option \<Rightarrow> 'b option \<Rightarrow> ('a \<Rightarrow> 'b \<Rightarrow> 'c option) \<Rightarrow> 'c option" where
  "both x y f = (case x of None \<Rightarrow> None | Some a \<Rightarrow> case y of None \<Rightarrow> None | Some b \<Rightarrow> f a b)"

lemma both_simps [simp]: "both (Some a) (Some b) f = f a b" "both None y f = None" "both x None f = None"
  by (simp_all add: both_def split: option.split)

subsection \<open>The calls\<close>

datatype go_call =
  CallPing | CallLive | CallReady | CallMetrics
| CallRegister jsstr jsstr | CallLogin jsstr jsstr
| CallMe | CallUpdateProfile jsstr | CallUpdatePassword jsstr jsstr
| CallListProducts "int option" int int | CallGetProduct int | CallCreateProduct jsstr jsstr int
| CallOnSale int | CallOffSale int
| CallGetInventory int | CallInitInventory int int | CallAddInventory int int
| CallRebuild | CallReconcile
| CallStockLogs "int option" | CallOperationLogs "int option" jsstr int int
| CallCreateOrder create_request | CallGetOrder int | CallListOrders int int
| CallCancel int | CallPay int | CallFinish int | CallAdminOrders "int option" "int option" int int

subsection \<open>Reading the path and the query\<close>

type_synonym texts = "(jsstr \<times> jsstr) list"

text \<open>\<open>c.Param\<close> and \<open>c.Query\<close>: a missing one is the empty text.\<close>

definition given_text :: "texts \<Rightarrow> string \<Rightarrow> jsstr" where
  "given_text ts name = (case map_of ts (js name) of None \<Rightarrow> [] | Some s \<Rightarrow> s)"

definition parsePositiveID :: "texts \<Rightarrow> string \<Rightarrow> int option" where
  "parsePositiveID params name =
     (case ParseInt (given_text params name) of None \<Rightarrow> None | Some i \<Rightarrow> if i \<le> 0 then None else Some i)"

definition parseProductStatus :: "jsstr \<Rightarrow> int option option" where
  "parseProductStatus value =
     (if value = js ''all'' then Some None
      else if value = [] then Some (Some ProductStatusOffSale)
      else case ParseInt value of None \<Rightarrow> None
           | Some st \<Rightarrow> if st = ProductStatusOnSale \<or> st = ProductStatusOffSale then Some (Some st) else None)"

definition parse_page :: "int \<Rightarrow> jsstr \<Rightarrow> int option" where
  "parse_page dflt value = (if value = [] then Some dflt else ParseInt value)"

definition parseOptionalPagination :: "jsstr \<Rightarrow> jsstr \<Rightarrow> (int \<times> int) option" where
  "parseOptionalPagination pageValue pageSizeValue =
     (if pageValue = [] \<and> pageSizeValue = [] then Some (0, 0)
      else both (parse_page 1 pageValue) (parse_page 20 pageSizeValue) (\<lambda>page pageSize.
        if page \<le> 0 \<or> pageSize \<le> 0 \<or> pageSize > 100 then None else Some (page, pageSize)))"

definition parseOperationLogPagination :: "jsstr \<Rightarrow> jsstr \<Rightarrow> (int \<times> int) option" where
  "parseOperationLogPagination pageValue pageSizeValue =
     both (parse_page 1 pageValue) (parse_page 20 pageSizeValue) (\<lambda>page pageSize.
       if page \<le> 0 \<or> page > 1000000 \<or> pageSize \<le> 0 \<or> pageSize > 100 then None else Some (page, pageSize))"

text \<open>An optional positive integer of the query; the inner \<open>None\<close> is an absent one.\<close>

definition optional_id :: "jsstr \<Rightarrow> int option option" where
  "optional_id value =
     (if value = [] then Some None
      else case ParseInt value of None \<Rightarrow> None | Some i \<Rightarrow> if i \<le> 0 then None else Some (Some i))"

definition parseListOperationLogsRequest :: "texts \<Rightarrow> go_call option" where
  "parseListOperationLogsRequest q =
     both (parseOperationLogPagination (given_text q ''page'') (given_text q ''page_size''))
       (optional_id (given_text q ''user_id'')) (\<lambda>(page, pageSize) user.
       Some (CallOperationLogs user (go_trim (given_text q ''action'')) page pageSize))"

text \<open>\<open>ShouldBindQuery\<close> on an integer with a default: only an absent value keeps it, an empty one is 0.\<close>

definition query_int :: "texts \<Rightarrow> string \<Rightarrow> int \<Rightarrow> int option" where
  "query_int q name dflt =
     (case map_of q (js name) of None \<Rightarrow> Some dflt | Some s \<Rightarrow> if s = [] then Some 0 else ParseInt s)"

definition bind_ListOrderRequest :: "texts \<Rightarrow> go_call option" where
  "bind_ListOrderRequest q = both (query_int q ''page'' 1) (query_int q ''page_size'' 10) (\<lambda>page pageSize.
     if 1 \<le> page \<and> page \<le> 1000000 \<and> 1 \<le> pageSize \<and> pageSize \<le> 100 then Some (CallListOrders page pageSize) else None)"

definition query_int_ptr :: "texts \<Rightarrow> string \<Rightarrow> int option option" where
  "query_int_ptr q name =
     (case map_of q (js name) of None \<Rightarrow> Some None
      | Some s \<Rightarrow> if s = [] then Some (Some 0) else map_option Some (ParseInt s))"

definition bind_ListAdminOrdersRequest :: "texts \<Rightarrow> go_call option" where
  "bind_ListAdminOrdersRequest q =
     both (query_int_ptr q ''user_id'') (query_int_ptr q ''status'') (\<lambda>user status.
     both (query_int q ''page'' 1) (query_int q ''page_size'' 10) (\<lambda>page pageSize.
     let (page, pageSize) = NormalizePagination page pageSize in Some (CallAdminOrders user status page pageSize)))"

subsection \<open>Binding the bodies\<close>

definition bind_CreateProductRequest :: "body \<Rightarrow> go_call option" where
  "bind_CreateProductRequest b =
     both (bounded_field 1 100 ''name'' b) (text_field ''description'' b) (\<lambda>name description.
     if rune_count description > 500 then None
     else map_option (CallCreateProduct name description) (positive_field ''price_fen'' b))"

definition bind_InitInventoryRequest :: "body \<Rightarrow> go_call option" where
  "bind_InitInventoryRequest b =
     both (positive_field ''product_id'' b) (int_field ''stock_quantity'' b) (\<lambda>p stock.
     case stock of None \<Rightarrow> None | Some q \<Rightarrow> if 0 \<le> q then Some (CallInitInventory p q) else None)"

definition bind_AddInventoryRequest :: "body \<Rightarrow> go_call option" where
  "bind_AddInventoryRequest b =
     both (positive_field ''product_id'' b) (positive_field ''quantity'' b) (\<lambda>p q. Some (CallAddInventory p q))"

definition bind_item :: "payload_item \<Rightarrow> create_item option" where
  "bind_item i =
     both (positive_field ''product_id'' [(js ''product_id'', BNum (pi_product_id i))])
       (positive_field ''quantity'' [(js ''quantity'', BNum (pi_quantity i))])
       (\<lambda>p q. Some \<lparr>ci_product_id = p, ci_quantity = q\<rparr>)"

definition bind_CreateOrderRequest :: "body \<Rightarrow> go_call option" where
  "bind_CreateOrderRequest b =
     both (bounded_field 1 128 ''idempotency_key'' b)
       (case map_of b (js ''items'') of Some (BItems is) \<Rightarrow> those (map bind_item is) | _ \<Rightarrow> None) (\<lambda>key is.
     if is = [] then None else Some (CallCreateOrder \<lparr>co_idempotency_key = key, co_items = is\<rparr>))"

definition bind_RegisterRequest :: "body \<Rightarrow> go_call option" where
  "bind_RegisterRequest b =
     both (bounded_field 3 64 ''username'' b) (bounded_field 6 72 ''password'' b) (\<lambda>u p. Some (CallRegister u p))"

definition required_text :: "string \<Rightarrow> body \<Rightarrow> jsstr option" where
  "required_text name b = (case text_field name b of None \<Rightarrow> None | Some s \<Rightarrow> if s \<noteq> [] then Some s else None)"

definition bind_LoginRequest :: "body \<Rightarrow> go_call option" where
  "bind_LoginRequest b =
     both (required_text ''username'' b) (required_text ''password'' b) (\<lambda>u p. Some (CallLogin u p))"

definition bind_UpdateProfileRequest :: "body \<Rightarrow> go_call option" where
  "bind_UpdateProfileRequest b = map_option CallUpdateProfile (bounded_field 1 64 ''nickname'' b)"

definition bind_UpdatePasswordRequest :: "body \<Rightarrow> go_call option" where
  "bind_UpdatePasswordRequest b =
     both (required_text ''old_password'' b) (bounded_field 6 72 ''new_password'' b) (\<lambda>old new. Some (CallUpdatePassword old new))"

subsection \<open>The routes\<close>

datatype access = Anyone | SignedIn | Administrator

datatype health_handler = PingHandler | LiveHandler | ReadyzHandler
datatype metrics_handler = Prometheus
datatype user_handler = H_Register | H_Login | Me | H_UpdateProfile | H_UpdatePassword
datatype product_handler = ListProducts | GetProductByID | H_CreateProduct | H_OnSaleProduct | H_OffSaleProduct
datatype inventory_handler = GetInventoryByProductID | H_InitInventory | H_AddInventory | H_Rebuild | H_Reconcile
datatype stock_log_handler = ListStockLogs
datatype operation_log_handler = ListOperationLogs
datatype order_handler = H_CreateOrder | GetOrderByID | ListOrders | CancelOrders | H_PayOrder | H_FinishOrder | ListAdminOrders

text \<open>A handler of the router, by the member of \<open>Handlers\<close> it belongs to.\<close>

datatype handler =
  HealthHandler health_handler
| MetricsHandler metrics_handler
| UserHandler user_handler
| ProductHandler product_handler
| InventoryHandler inventory_handler
| StockLogHandler stock_log_handler
| OperationLogHandler operation_log_handler
| OrderHandler order_handler

type_synonym go_route = "access \<times> http_method \<times> jsstr \<times> handler"

definition registerHealthRouters :: "go_route list" where
  "registerHealthRouters =
     [(Anyone, GET, js ''/ping'', HealthHandler PingHandler), (Anyone, GET, js ''/live'', HealthHandler LiveHandler),
      (Anyone, GET, js ''/readyz'', HealthHandler ReadyzHandler), (Anyone, GET, js ''/metrics'', MetricsHandler Prometheus)]"

definition registerAuthAPIRouter :: "go_route list" where
  "registerAuthAPIRouter =
     [(Anyone, POST, js ''/api/v1/auth/register'', UserHandler H_Register), (Anyone, POST, js ''/api/v1/auth/login'', UserHandler H_Login)]"

definition registerUserAPIRouter :: "go_route list" where
  "registerUserAPIRouter =
     [(SignedIn, GET, js ''/api/v1/users/me'', UserHandler Me),
      (SignedIn, PUT, js ''/api/v1/users/me/profile'', UserHandler H_UpdateProfile),
      (SignedIn, PATCH, js ''/api/v1/users/me/password'', UserHandler H_UpdatePassword)]"

definition registerProductAPIRouter :: "go_route list" where
  "registerProductAPIRouter =
     [(SignedIn, GET, js ''/api/v1/products'', ProductHandler ListProducts),
      (SignedIn, GET, js ''/api/v1/products/:id'', ProductHandler GetProductByID),
      (Administrator, POST, js ''/api/v1/products'', ProductHandler H_CreateProduct),
      (Administrator, PATCH, js ''/api/v1/products/:id/on-sale'', ProductHandler H_OnSaleProduct),
      (Administrator, PATCH, js ''/api/v1/products/:id/off-sale'', ProductHandler H_OffSaleProduct)]"

definition registerInventoryAPIRouter :: "go_route list" where
  "registerInventoryAPIRouter =
     [(SignedIn, GET, js ''/api/v1/inventory/products/:product_id'', InventoryHandler GetInventoryByProductID),
      (Administrator, POST, js ''/api/v1/inventory/init'', InventoryHandler H_InitInventory),
      (Administrator, POST, js ''/api/v1/inventory/add'', InventoryHandler H_AddInventory),
      (Administrator, POST, js ''/api/v1/inventory/redis/rebuild'', InventoryHandler H_Rebuild),
      (Administrator, GET, js ''/api/v1/inventory/redis/reconcile'', InventoryHandler H_Reconcile)]"

definition registerStockLogAPIRouter :: "go_route list" where
  "registerStockLogAPIRouter = [(Administrator, GET, js ''/api/v1/stock-logs'', StockLogHandler ListStockLogs)]"

definition registerOperationLogAPIRouter :: "go_route list" where
  "registerOperationLogAPIRouter = [(Administrator, GET, js ''/api/v1/operation-logs'', OperationLogHandler ListOperationLogs)]"

definition registerOrderAPIRouter :: "go_route list" where
  "registerOrderAPIRouter =
     [(SignedIn, POST, js ''/api/v1/orders'', OrderHandler H_CreateOrder),
      (SignedIn, GET, js ''/api/v1/orders/:id'', OrderHandler GetOrderByID),
      (SignedIn, GET, js ''/api/v1/orders'', OrderHandler ListOrders),
      (SignedIn, PATCH, js ''/api/v1/orders/:id/cancel'', OrderHandler CancelOrders),
      (SignedIn, PATCH, js ''/api/v1/orders/:id/pay'', OrderHandler H_PayOrder),
      (SignedIn, PATCH, js ''/api/v1/orders/:id/finish'', OrderHandler H_FinishOrder),
      (Administrator, GET, js ''/api/v1/admin/orders'', OrderHandler ListAdminOrders)]"

definition SetupRouters :: "go_route list" where
  "SetupRouters = registerHealthRouters @ registerAuthAPIRouter @ registerUserAPIRouter @ registerProductAPIRouter @
     registerInventoryAPIRouter @ registerStockLogAPIRouter @ registerOperationLogAPIRouter @ registerOrderAPIRouter"

text \<open>A part of a pattern that starts with a colon stands for any text but the empty one.\<close>

definition path_parts :: "jsstr \<Rightarrow> jsstr list" where
  "path_parts path = js_split (js ''/'') path"

definition part_fits :: "jsstr \<Rightarrow> jsstr \<Rightarrow> bool" where
  "part_fits pat s \<longleftrightarrow> (if starts_with (js '':'') pat then s \<noteq> [] else pat = s)"

definition go_serves :: "http_method \<Rightarrow> jsstr list \<Rightarrow> go_route \<Rightarrow> bool" where
  "go_serves m parts = (\<lambda>(a, m', pat, h). m' = m \<and> list_all2 part_fits (path_parts pat) parts)"

definition path_params :: "jsstr \<Rightarrow> jsstr list \<Rightarrow> texts" where
  "path_params pat parts =
     map (\<lambda>(p, s). (tl p, s)) (filter (\<lambda>(p, s). starts_with (js '':'') p) (zip (path_parts pat) parts))"

subsection \<open>The handlers up to the call of the service\<close>

fun read_health :: "health_handler \<Rightarrow> texts \<Rightarrow> texts \<Rightarrow> body \<Rightarrow> go_call option" where
  "read_health PingHandler ps q b = Some CallPing"
| "read_health LiveHandler ps q b = Some CallLive"
| "read_health ReadyzHandler ps q b = Some CallReady"

fun read_metrics :: "metrics_handler \<Rightarrow> texts \<Rightarrow> texts \<Rightarrow> body \<Rightarrow> go_call option" where
  "read_metrics Prometheus ps q b = Some CallMetrics"

fun read_user :: "user_handler \<Rightarrow> texts \<Rightarrow> texts \<Rightarrow> body \<Rightarrow> go_call option" where
  "read_user H_Register ps q b = bind_RegisterRequest b"
| "read_user H_Login ps q b = bind_LoginRequest b"
| "read_user Me ps q b = Some CallMe"
| "read_user H_UpdateProfile ps q b = bind_UpdateProfileRequest b"
| "read_user H_UpdatePassword ps q b = bind_UpdatePasswordRequest b"

fun read_product :: "product_handler \<Rightarrow> texts \<Rightarrow> texts \<Rightarrow> body \<Rightarrow> go_call option" where
  "read_product ListProducts ps q b =
     both (parseProductStatus (given_text q ''status''))
       (parseOptionalPagination (given_text q ''page'') (given_text q ''page_size''))
       (\<lambda>status (page, pageSize). Some (CallListProducts status page pageSize))"
| "read_product GetProductByID ps q b = map_option CallGetProduct (parsePositiveID ps ''id'')"
| "read_product H_CreateProduct ps q b = bind_CreateProductRequest b"
| "read_product H_OnSaleProduct ps q b = map_option CallOnSale (parsePositiveID ps ''id'')"
| "read_product H_OffSaleProduct ps q b = map_option CallOffSale (parsePositiveID ps ''id'')"

fun read_inventory :: "inventory_handler \<Rightarrow> texts \<Rightarrow> texts \<Rightarrow> body \<Rightarrow> go_call option" where
  "read_inventory GetInventoryByProductID ps q b = map_option CallGetInventory (parsePositiveID ps ''product_id'')"
| "read_inventory H_InitInventory ps q b = bind_InitInventoryRequest b"
| "read_inventory H_AddInventory ps q b = bind_AddInventoryRequest b"
| "read_inventory H_Rebuild ps q b = Some CallRebuild"
| "read_inventory H_Reconcile ps q b = Some CallReconcile"

fun read_stock_log :: "stock_log_handler \<Rightarrow> texts \<Rightarrow> texts \<Rightarrow> body \<Rightarrow> go_call option" where
  "read_stock_log ListStockLogs ps q b = map_option CallStockLogs (optional_id (given_text q ''product_id''))"

fun read_operation_log :: "operation_log_handler \<Rightarrow> texts \<Rightarrow> texts \<Rightarrow> body \<Rightarrow> go_call option" where
  "read_operation_log ListOperationLogs ps q b = parseListOperationLogsRequest q"

fun read_order :: "order_handler \<Rightarrow> texts \<Rightarrow> texts \<Rightarrow> body \<Rightarrow> go_call option" where
  "read_order H_CreateOrder ps q b = bind_CreateOrderRequest b"
| "read_order GetOrderByID ps q b = map_option CallGetOrder (parsePositiveID ps ''id'')"
| "read_order ListOrders ps q b = bind_ListOrderRequest q"
| "read_order CancelOrders ps q b = map_option CallCancel (parsePositiveID ps ''id'')"
| "read_order H_PayOrder ps q b = map_option CallPay (parsePositiveID ps ''id'')"
| "read_order H_FinishOrder ps q b = map_option CallFinish (parsePositiveID ps ''id'')"
| "read_order ListAdminOrders ps q b = bind_ListAdminOrdersRequest q"

fun read_request :: "handler \<Rightarrow> texts \<Rightarrow> texts \<Rightarrow> body \<Rightarrow> go_call option" where
  "read_request (HealthHandler h) ps q b = read_health h ps q b"
| "read_request (MetricsHandler h) ps q b = read_metrics h ps q b"
| "read_request (UserHandler h) ps q b = read_user h ps q b"
| "read_request (ProductHandler h) ps q b = read_product h ps q b"
| "read_request (InventoryHandler h) ps q b = read_inventory h ps q b"
| "read_request (StockLogHandler h) ps q b = read_stock_log h ps q b"
| "read_request (OperationLogHandler h) ps q b = read_operation_log h ps q b"
| "read_request (OrderHandler h) ps q b = read_order h ps q b"

subsection \<open>The middleware\<close>

text \<open>What the middleware asks: the check of a token, which yields its user, and the role of a user.\<close>

record gate =
  ParseAccessToken :: "jsstr \<Rightarrow> int option"
  HasAdminRole :: "int \<Rightarrow> bool option"

fun go_fields_from :: "jsstr \<Rightarrow> jsstr \<Rightarrow> jsstr list" where
  "go_fields_from acc [] = (if acc = [] then [] else [rev acc])"
| "go_fields_from acc (u # s) =
     (if go_space u then (if acc = [] then [] else [rev acc]) @ go_fields_from [] s else go_fields_from (u # acc) s)"

definition ascii_lower :: "unit16 \<Rightarrow> unit16" where
  "ascii_lower u = (if 0x41 \<le> u \<and> u \<le> 0x5A then u + 0x20 else u)"

text \<open>A request answered with an error status, or run as a call for a user.\<close>

datatype served = Status nat | Run "int option" go_call

definition AuthMiddleware :: "gate \<Rightarrow> jsstr option \<Rightarrow> (int \<Rightarrow> served) \<Rightarrow> served" where
  "AuthMiddleware g authorization continue =
     (case go_fields_from [] (case authorization of None \<Rightarrow> [] | Some h \<Rightarrow> h) of
        [scheme, token] \<Rightarrow>
          if map ascii_lower scheme \<noteq> js ''bearer'' then Status 401
          else (case ParseAccessToken g token of None \<Rightarrow> Status 401 | Some user \<Rightarrow> continue user)
      | _ \<Rightarrow> Status 401)"

definition AdminMiddleware :: "gate \<Rightarrow> int \<Rightarrow> served \<Rightarrow> served" where
  "AdminMiddleware g user continue =
     (if user \<le> 0 then Status 401
      else case HasAdminRole g user of None \<Rightarrow> Status 500
           | Some allowed \<Rightarrow> if \<not> allowed then Status 403 else continue)"

text \<open>The handlers of one's own orders and account first ask for the user (\<open>currentUserID\<close>).\<close>

definition asks_user :: "handler \<Rightarrow> bool" where
  "asks_user h \<longleftrightarrow> h \<in> UserHandler ` {Me, H_UpdateProfile, H_UpdatePassword} \<union>
     OrderHandler ` {H_CreateOrder, GetOrderByID, ListOrders, CancelOrders, H_PayOrder, H_FinishOrder}"

definition run_handler :: "handler \<Rightarrow> int option \<Rightarrow> texts \<Rightarrow> texts \<Rightarrow> body \<Rightarrow> served" where
  "run_handler h user ps q b =
     (if asks_user h \<and> (case user of None \<Rightarrow> True | Some u \<Rightarrow> u \<le> 0) then Status 500
      else case read_request h ps q b of None \<Rightarrow> Status 400 | Some call \<Rightarrow> Run user call)"

definition serve :: "gate \<Rightarrow> jsstr option \<Rightarrow> http_method \<Rightarrow> jsstr \<Rightarrow> texts \<Rightarrow> body \<Rightarrow> served" where
  "serve g authorization m path q b =
     (case find (go_serves m (path_parts path)) SetupRouters of
        None \<Rightarrow> Status 404
      | Some (a, _, pat, h) \<Rightarrow>
          let ps = path_params pat (path_parts path) in
          (case a of
             Anyone \<Rightarrow> run_handler h None ps q b
           | SignedIn \<Rightarrow> AuthMiddleware g authorization (\<lambda>user. run_handler h (Some user) ps q b)
           | Administrator \<Rightarrow> AuthMiddleware g authorization (\<lambda>user.
               AdminMiddleware g user (run_handler h (Some user) ps q b))))"

subsection \<open>What the frontend sends\<close>

text \<open>The address, the query as texts, and the header of the interceptor; the base addresses are the default ones.\<close>

fun param_text :: "param \<Rightarrow> jsstr option" where
  "param_text (PNum n) = Some (to_string n)"
| "param_text (PStr s) = Some s"
| "param_text PUndefined = None"

definition query_of :: "request \<Rightarrow> texts" where
  "query_of r = (case req_params r of None \<Rightarrow> []
     | Some ps \<Rightarrow> concat (map (\<lambda>(k, p). case param_text p of None \<Rightarrow> [] | Some t \<Rightarrow> [(k, t)]) ps))"

definition address_of :: "request \<Rightarrow> jsstr" where
  "address_of r = (if req_client r = Api then apiBaseURL None
     else strip_suffix (js ''/'') (rootBaseURL None)) @ req_url r"

definition send :: "gate \<Rightarrow> auth_state \<Rightarrow> request \<Rightarrow> served" where
  "send g s r = serve g (request_interceptor s Map.empty (js ''Authorization'')) (req_method r) (address_of r)
     (query_of r) (case req_body r of None \<Rightarrow> [] | Some b \<Rightarrow> b)"

subsection \<open>Every call that is run is typed and permitted\<close>

abbreviation id_ok :: "int \<Rightarrow> bool" where "id_ok i \<equiv> 0 < i \<and> int64 i"

text \<open>What the request types and the handlers promise of the arguments.\<close>

fun typed_call :: "go_call \<Rightarrow> bool" where
  "typed_call (CallRegister u p) \<longleftrightarrow> 3 \<le> rune_count u \<and> rune_count u \<le> 64 \<and> 6 \<le> rune_count p \<and> rune_count p \<le> 72"
| "typed_call (CallLogin u p) \<longleftrightarrow> u \<noteq> [] \<and> p \<noteq> []"
| "typed_call (CallUpdateProfile n) \<longleftrightarrow> n \<noteq> [] \<and> rune_count n \<le> 64"
| "typed_call (CallUpdatePassword old new) \<longleftrightarrow> old \<noteq> [] \<and> 6 \<le> rune_count new \<and> rune_count new \<le> 72"
| "typed_call (CallListProducts st page per) \<longleftrightarrow> st \<in> {None, Some ProductStatusOnSale, Some ProductStatusOffSale} \<and>
     (page = 0 \<and> per = 0 \<or> 1 \<le> page \<and> int64 page \<and> 1 \<le> per \<and> per \<le> 100)"
| "typed_call (CallGetProduct i) \<longleftrightarrow> id_ok i"
| "typed_call (CallCreateProduct n d price) \<longleftrightarrow> n \<noteq> [] \<and> rune_count n \<le> 100 \<and> rune_count d \<le> 500 \<and> id_ok price"
| "typed_call (CallOnSale i) \<longleftrightarrow> id_ok i"
| "typed_call (CallOffSale i) \<longleftrightarrow> id_ok i"
| "typed_call (CallGetInventory i) \<longleftrightarrow> id_ok i"
| "typed_call (CallInitInventory i q) \<longleftrightarrow> id_ok i \<and> 0 \<le> q \<and> int64 q"
| "typed_call (CallAddInventory i q) \<longleftrightarrow> id_ok i \<and> id_ok q"
| "typed_call (CallStockLogs i) \<longleftrightarrow> (case i of None \<Rightarrow> True | Some i \<Rightarrow> id_ok i)"
| "typed_call (CallOperationLogs u a page per) \<longleftrightarrow> (case u of None \<Rightarrow> True | Some i \<Rightarrow> id_ok i) \<and>
     1 \<le> page \<and> page \<le> 1000000 \<and> 1 \<le> per \<and> per \<le> 100"
| "typed_call (CallCreateOrder req) \<longleftrightarrow> co_idempotency_key req \<noteq> [] \<and> rune_count (co_idempotency_key req) \<le> 128 \<and>
     co_items req \<noteq> [] \<and> (\<forall>i \<in> set (co_items req). id_ok (ci_product_id i) \<and> id_ok (ci_quantity i))"
| "typed_call (CallGetOrder i) \<longleftrightarrow> id_ok i"
| "typed_call (CallListOrders page per) \<longleftrightarrow> 1 \<le> page \<and> page \<le> maxOrderPage \<and> 1 \<le> per \<and> per \<le> maxOrderPageSize"
| "typed_call (CallCancel i) \<longleftrightarrow> id_ok i"
| "typed_call (CallPay i) \<longleftrightarrow> id_ok i"
| "typed_call (CallFinish i) \<longleftrightarrow> id_ok i"
| "typed_call (CallAdminOrders u st page per) \<longleftrightarrow> (case u of None \<Rightarrow> True | Some i \<Rightarrow> int64 i) \<and>
     (case st of None \<Rightarrow> True | Some i \<Rightarrow> int64 i) \<and> 1 \<le> page \<and> int64 page \<and> 1 \<le> per \<and> per \<le> 100"
| "typed_call _ \<longleftrightarrow> True"

text \<open>What may be called without a token, by a user, and by an administrator only.\<close>

fun needs :: "go_call \<Rightarrow> access" where
  "needs CallPing = Anyone" | "needs CallLive = Anyone" | "needs CallReady = Anyone" | "needs CallMetrics = Anyone"
| "needs (CallRegister u p) = Anyone" | "needs (CallLogin u p) = Anyone"
| "needs (CallCreateProduct n d price) = Administrator" | "needs (CallOnSale i) = Administrator"
| "needs (CallOffSale i) = Administrator" | "needs (CallInitInventory i q) = Administrator"
| "needs (CallAddInventory i q) = Administrator" | "needs CallRebuild = Administrator"
| "needs CallReconcile = Administrator" | "needs (CallStockLogs i) = Administrator"
| "needs (CallOperationLogs u a page per) = Administrator"
| "needs (CallAdminOrders u st page per) = Administrator"
| "needs _ = SignedIn"

lemma ParseInt_int64: "ParseInt s = Some n \<Longrightarrow> int64 n"
  by (auto simp: ParseInt_def Let_def split: prod.splits if_splits)

lemma json_int_int64: "json_int x = Some (Some n) \<Longrightarrow> int64 n"
  by (auto simp: json_int_def ParseInt_int64 split: if_splits)

lemma positive_field_Some: "positive_field name b = Some n \<Longrightarrow> id_ok n"
  by (auto simp: positive_field_def int_field_def json_int_int64 split: option.splits body_value.splits if_splits)

lemma bounded_field_Some: "bounded_field lo hi name b = Some s \<Longrightarrow> s \<noteq> [] \<and> lo \<le> rune_count s \<and> rune_count s \<le> hi"
  by (auto simp: bounded_field_def split: option.splits if_splits)

lemma parsePositiveID_Some: "parsePositiveID ps name = Some i \<Longrightarrow> id_ok i"
  by (auto simp: parsePositiveID_def ParseInt_int64 split: option.splits if_splits)

lemma optional_id_Some: "optional_id v = Some (Some i) \<Longrightarrow> id_ok i"
  by (auto simp: optional_id_def ParseInt_int64 split: option.splits if_splits)

lemma both_Some: "both x y f = Some c \<longleftrightarrow> (\<exists>a b. x = Some a \<and> y = Some b \<and> f a b = Some c)"
  by (auto simp: both_def split: option.splits)

lemma parse_page_int64: "parse_page d v = Some n \<Longrightarrow> int64 d \<Longrightarrow> int64 n"
  by (auto simp: parse_page_def ParseInt_int64 split: if_splits)

lemma those_Some: "those xs = Some ys \<Longrightarrow> y \<in> set ys \<Longrightarrow> Some y \<in> set xs"
proof (induction xs arbitrary: ys)
  case (Cons x xs)
  then show ?case by (cases x) auto
qed simp

lemma bind_item_Some: "bind_item i = Some c \<Longrightarrow> id_ok (ci_product_id c) \<and> id_ok (ci_quantity c)"
  by (auto simp: bind_item_def both_Some dest!: positive_field_Some)

lemma query_int64:
  "query_int_ptr q name = Some (Some n) \<Longrightarrow> int64 n"
  "query_int q name dflt = Some n \<Longrightarrow> int64 dflt \<Longrightarrow> int64 n"
proof -
  have "int64 0" by (simp add: int64_def)
  then show "query_int_ptr q name = Some (Some n) \<Longrightarrow> int64 n" "query_int q name dflt = Some n \<Longrightarrow> int64 dflt \<Longrightarrow> int64 n"
    by (auto simp: query_int_ptr_def query_int_def ParseInt_int64 split: option.splits if_splits)
qed

lemma bind_ListAdminOrders_Some:
  assumes "bind_ListAdminOrdersRequest q = Some call"
  obtains u st page per where "call = CallAdminOrders u st page per" "1 \<le> page" "int64 page" "1 \<le> per" "per \<le> 100"
    "case u of None \<Rightarrow> True | Some i \<Rightarrow> int64 i" "case st of None \<Rightarrow> True | Some i \<Rightarrow> int64 i"
proof -
  obtain u st pg ps where q: "query_int_ptr q ''user_id'' = Some u" "query_int_ptr q ''status'' = Some st"
    "query_int q ''page'' 1 = Some pg" "query_int q ''page_size'' 10 = Some ps"
    and call: "call = (let (page, per) = NormalizePagination pg ps in CallAdminOrders u st page per)"
    using assms by (auto simp: bind_ListAdminOrdersRequest_def both_Some Let_def case_prod_unfold)
  have "int64 (1::int)" by (simp add: int64_def)
  then have "int64 pg" by (rule query_int64(2)[OF q(3)])
  moreover have "case u of None \<Rightarrow> True | Some i \<Rightarrow> int64 i" "case st of None \<Rightarrow> True | Some i \<Rightarrow> int64 i"
    using query_int64(1) q(1,2) by (auto split: option.split)
  ultimately show thesis
    using that call \<open>int64 1\<close> by (auto simp: NormalizePagination_def Let_def split: if_splits)
qed

lemma bind_InitInventory_Some:
  assumes "bind_InitInventoryRequest b = Some call"
  obtains p n where "call = CallInitInventory p n" "id_ok p" "0 \<le> n" "int64 n"
  using assms
  by (auto simp: bind_InitInventoryRequest_def both_Some int_field_def dest!: positive_field_Some json_int_int64
      split: option.splits body_value.splits if_splits)

lemmas bind_defs = bind_CreateProductRequest_def bind_AddInventoryRequest_def
  bind_CreateOrderRequest_def bind_RegisterRequest_def bind_LoginRequest_def bind_UpdateProfileRequest_def
  bind_UpdatePasswordRequest_def bind_ListOrderRequest_def
  parseListOperationLogsRequest_def

lemmas route_lists = SetupRouters_def registerHealthRouters_def registerAuthAPIRouter_def
  registerUserAPIRouter_def registerProductAPIRouter_def registerInventoryAPIRouter_def registerStockLogAPIRouter_def
  registerOperationLogAPIRouter_def registerOrderAPIRouter_def

lemma read_request_needs:
  assumes "read_request h ps q b = Some call" "(a, m, pat, h) \<in> set SetupRouters"
  shows "needs call = a"
  using assms(2,1)
  by (auto simp: route_lists bind_defs both_Some elim!: bind_ListAdminOrders_Some bind_InitInventory_Some split: option.splits prod.splits if_splits)

lemmas request_facts = bind_defs both_Some required_text_def parseOperationLogPagination_def
  maxOrderPage_def maxOrderPageSize_def

lemma read_user_typed: "read_user h ps q b = Some call \<Longrightarrow> typed_call call"
  by (cases h) (auto simp: request_facts dest!: bounded_field_Some split: option.splits if_splits)

lemma read_product_typed:
  assumes "read_product h ps q b = Some call" shows "typed_call call"
proof (cases h)
  case ListProducts
  then show ?thesis using assms
    by (auto simp: both_Some parseProductStatus_def parseOptionalPagination_def int64_def
        dest!: parse_page_int64 split: option.splits if_splits)
qed (use assms in \<open>auto simp: request_facts dest!: bounded_field_Some positive_field_Some parsePositiveID_Some split: if_splits\<close>)

lemma read_inventory_typed: "read_inventory h ps q b = Some call \<Longrightarrow> typed_call call"
  by (cases h) (auto simp: request_facts elim!: bind_InitInventory_Some dest!: positive_field_Some parsePositiveID_Some split: if_splits)

lemma read_order_typed:
  assumes "read_order h ps q b = Some call" shows "typed_call call"
proof (cases h)
  case H_CreateOrder
  then obtain key "is" where r: "bounded_field 1 128 ''idempotency_key'' b = Some key" "is \<noteq> []"
    "call = CallCreateOrder \<lparr>co_idempotency_key = key, co_items = is\<rparr>" "\<exists>its. those (map bind_item its) = Some is"
    using assms by (auto simp: bind_CreateOrderRequest_def both_Some split: option.splits body_value.splits if_splits)
  then have "id_ok (ci_product_id i) \<and> id_ok (ci_quantity i)" if "i \<in> set is" for i
    using those_Some that bind_item_Some by fastforce
  then show ?thesis using r bounded_field_Some[OF r(1)] by simp
qed (use assms in \<open>auto simp: request_facts elim!: bind_ListAdminOrders_Some dest!: parsePositiveID_Some split: if_splits\<close>)

lemma read_logs_typed:
  "read_stock_log h ps q b = Some call \<Longrightarrow> typed_call call"
  "read_operation_log h' ps q b = Some call \<Longrightarrow> typed_call call"
  by (cases h; auto dest!: optional_id_Some split: option.splits)
    (cases h'; auto simp: request_facts dest!: optional_id_Some split: option.splits if_splits)

lemma read_request_typed: "read_request h ps q b = Some call \<Longrightarrow> typed_call call"
proof (cases h)
  case (HealthHandler k)
  then show "read_request h ps q b = Some call \<Longrightarrow> typed_call call" by (cases k) auto
next
  case (MetricsHandler k)
  then show "read_request h ps q b = Some call \<Longrightarrow> typed_call call" by (cases k) auto
qed (simp_all add: read_user_typed read_product_typed read_inventory_typed read_order_typed read_logs_typed)

text \<open>Who may run a call: the user of a token the backend accepts, an administrator where it is needed.\<close>

definition permitted :: "gate \<Rightarrow> jsstr option \<Rightarrow> int option \<Rightarrow> access \<Rightarrow> bool" where
  "permitted g authorization user a \<longleftrightarrow>
     (if a = Anyone then user = None
      else \<exists>scheme token u. authorization \<noteq> None \<and> go_fields_from [] (the authorization) = [scheme, token] \<and>
        map ascii_lower scheme = js ''bearer'' \<and> ParseAccessToken g token = Some u \<and> user = Some u \<and>
        (a = Administrator \<longrightarrow> 0 < u \<and> HasAdminRole g u = Some True))"

lemma run_handler_Run:
  "run_handler h v ps q b = Run user call \<Longrightarrow>
     user = v \<and> read_request h ps q b = Some call \<and> (asks_user h \<longrightarrow> (\<exists>u. v = Some u \<and> 0 < u))"
  by (auto simp: run_handler_def split: if_splits option.splits)

lemma AuthMiddleware_Run:
  assumes "AuthMiddleware g authorization continue = Run user call"
  obtains scheme token u where "authorization \<noteq> None" "go_fields_from [] (the authorization) = [scheme, token]"
    "map ascii_lower scheme = js ''bearer''" "ParseAccessToken g token = Some u" "continue u = Run user call"
  using assms by (auto simp: AuthMiddleware_def split: list.splits option.splits if_splits)

lemma AdminMiddleware_Run:
  "AdminMiddleware g u continue = Run user call \<Longrightarrow> 0 < u \<and> HasAdminRole g u = Some True \<and> continue = Run user call"
  by (auto simp: AdminMiddleware_def split: option.splits if_splits)

lemma serve_Run:
  assumes "serve g auth m path q b = Run user call"
  obtains a m' pat h ps where "(a, m', pat, h) \<in> set SetupRouters" "read_request h ps q b = Some call"
    "permitted g auth user a" "asks_user h \<Longrightarrow> \<exists>u. user = Some u \<and> 0 < u"
proof -
  obtain a m' pat h where r: "find (go_serves m (path_parts path)) SetupRouters = Some (a, m', pat, h)"
    using assms by (auto simp: serve_def split: option.splits)
  note run = assms[unfolded serve_def, unfolded r, simplified, unfolded Let_def]
  have route: "(a, m', pat, h) \<in> set SetupRouters" using find_SomeD[OF r] by blast
  show thesis
  proof (cases a)
    case Anyone
    then show ?thesis using that[OF route] run by (auto simp: permitted_def dest!: run_handler_Run)
  next
    case SignedIn
    then show ?thesis using that[OF route] run
      by (fastforce simp: permitted_def elim!: AuthMiddleware_Run dest!: run_handler_Run)
  next
    case Administrator
    then show ?thesis using that[OF route] run
      by (fastforce simp: permitted_def elim!: AuthMiddleware_Run dest!: AdminMiddleware_Run run_handler_Run)
  qed
qed

lemma serve_permitted: "serve g auth m path q b = Run user call \<Longrightarrow> permitted g auth user (needs call)"
  by (elim serve_Run) (auto dest: read_request_needs)

lemma serve_typed: "serve g auth m path q b = Run user call \<Longrightarrow> typed_call call"
  by (elim serve_Run) (auto dest: read_request_typed)

text \<open>C18: whatever request reaches the backend, a call that is run has typed arguments, in the ranges of
  the request types and of 64 bits, and is run for somebody who may: without a token only the public
  calls, otherwise for the user of a token that was accepted, and the calls that keep products and stock
  or read the logs and everybody's orders only for an administrator.\<close>

theorem served_calls_typed:
  assumes "serve g auth m path q b = Run user call"
  shows "typed_call call \<and> permitted g auth user (needs call)"
  using serve_typed[OF assms] serve_permitted[OF assms] by blast

end
