(* ===== verification/Served.thy ===== *)
theory Served
  imports Gateway
begin

section \<open>The requests of the frontend are served as they are meant\<close>

text \<open>
  Each function of the frontend's API objects, with the arguments its pages give, is a request that the
  routes, the middleware and the handlers of the backend turn into one call of a service. The judgement
  \<open>meant\<close> says which; the theorem says that the backend agrees.
\<close>

subsection \<open>Numbers in addresses, queries and bodies\<close>

lemma digit_char_js:
  assumes "0 \<le> d" "d < 10" obtains c where "js [c] = [digit_char d]" "c \<in> set ''0123456789''"
proof -
  have "d = 0 \<or> d = 1 \<or> d = 2 \<or> d = 3 \<or> d = 4 \<or> d = 5 \<or> d = 6 \<or> d = 7 \<or> d = 8 \<or> d = 9"
    using assms by presburger
  then have "\<exists>c \<in> set ''0123456789''. js [c] = [digit_char d]"
    by (elim disjE) (simp_all add: digit_char_def js_def)
  then show thesis using that by blast
qed

lemma dec_js: "0 \<le> n \<Longrightarrow> \<exists>t. dec n = js t \<and> t \<noteq> [] \<and> set t \<subseteq> set ''0123456789''"
proof (induction n rule: dec.induct)
  case (1 n)
  show ?case
  proof (cases "n < 10")
    case True
    then obtain c where "js [c] = [digit_char n]" "c \<in> set ''0123456789''" using "1.prems" digit_char_js by blast
    then have "dec n = js [c] \<and> [c] \<noteq> [] \<and> set [c] \<subseteq> set ''0123456789''"
      using True by (subst dec.simps) simp
    then show ?thesis by blast
  next
    case False
    have "0 \<le> n div 10" using "1.prems" by simp
    then obtain t where t: "dec (n div 10) = js t" "set t \<subseteq> set ''0123456789''" using "1.IH"[OF False] by blast
    obtain c where c: "js [c] = [digit_char (n mod 10)]" "c \<in> set ''0123456789''" using digit_char_js[of "n mod 10"] by auto
    have "dec n = js (t @ [c]) \<and> t @ [c] \<noteq> [] \<and> set (t @ [c]) \<subseteq> set ''0123456789''"
      using False t c by (subst dec.simps) (simp add: js_append)
    then show ?thesis by blast
  qed
qed

lemma ParseInt_dec: assumes "0 \<le> n" "int64 n" shows "ParseInt (dec n) = Some n"
proof -
  have "\<forall>c \<in> set (dec n). is_digit c" using dec_digits[OF assms(1)] .
  moreover have "take_sign (dec n) = (False, dec n)"
    using calculation by (auto simp: take_sign_def is_digit_def split: list.split)
  ultimately show ?thesis using assms by (simp add: ParseInt_def)
qed

lemma safe_int64: "0 \<le> n \<Longrightarrow> n \<le> max_safe \<Longrightarrow> int64 n"
  by (simp add: int64_def max_safe_def)

lemma to_string_dec: "0 \<le> n \<Longrightarrow> n \<le> max_safe \<Longrightarrow> to_string (jint n) = dec n"
  by (simp add: to_string_jint)

lemma dec_not_null: "0 \<le> n \<Longrightarrow> dec n \<noteq> js ''null''"
  using dec_js[of n] by (auto simp: js_eq_iff)

lemma json_int_jint: assumes "0 \<le> n" "n \<le> max_safe" shows "json_int (jint n) = Some (Some n)"
proof -
  have "stringify_number (jint n) = dec n" using to_string_dec[OF assms] by (simp add: jint_def)
  then show ?thesis using dec_not_null assms ParseInt_dec safe_int64 by (simp add: json_int_def)
qed

lemma positive_field_jint:
  assumes "map_of b (js name) = Some (BNum (jint n))" "0 < n" "n \<le> max_safe"
  shows "positive_field name b = Some n"
  using assms json_int_jint[of n] by (simp add: positive_field_def int_field_def)

lemma js_empty_iff: "js s = [] \<longleftrightarrow> s = []"
  by (simp add: js_def)

subsection \<open>Routes over character lists\<close>

lemma path_parts_js: "path_parts (js s) = map js (slash_parts [] s)"
  using split_slash[of "[]" s] js_eq_iff[of "''/''" "[]"] by (simp add: path_parts_def js_split_def)

lemma starts_colon: "starts_with (js '':'') (js p) \<longleftrightarrow> take 1 p = '':''"
  using js_eq_iff[of "take 1 p" "'':''"] by (simp add: starts_with_def js_def take_map)

definition fits :: "string \<Rightarrow> string \<Rightarrow> bool" where
  "fits pat s \<longleftrightarrow> (if take 1 pat = '':'' then s \<noteq> [] else pat = s)"

lemma part_fits_js [simp]: "part_fits (js pat) (js s) \<longleftrightarrow> fits pat s"
  by (simp add: part_fits_def starts_colon fits_def js_eq_iff js_empty_iff)

lemma part_fits_Nil [simp]: "part_fits [] s \<longleftrightarrow> s = []"
  using part_fits_js[of "[]"] starts_colon[of "[]"] by (auto simp: part_fits_def)

lemma go_serves_js [simp]:
  "go_serves m parts (a, m', js pat, h) \<longleftrightarrow> m' = m \<and> list_all2 part_fits (map js (slash_parts [] pat)) parts"
  by (simp add: go_serves_def path_parts_js)

lemma slash_parts_plain: "CHR ''/'' \<notin> set t \<Longrightarrow> slash_parts acc (t @ s) = slash_parts (rev t @ acc) s"
  by (induction t arbitrary: acc) auto

lemma slash_parts_end: "CHR ''/'' \<notin> set t \<Longrightarrow> slash_parts acc t = [rev acc @ t]"
  using slash_parts_plain[of t acc "[]"] by simp

text \<open>The first route that serves an address is the one the address was written for.\<close>

definition route_at :: "http_method \<Rightarrow> string \<Rightarrow> go_route option" where
  "route_at m path = find (go_serves m (path_parts (js path))) SetupRouters"

lemma path_params_js:
  "path_params (js pat) (path_parts (js path)) =
     map (\<lambda>(p, s). (js (tl p), js s)) (filter (\<lambda>(p, s). take 1 p = '':'') (zip (slash_parts [] pat) (slash_parts [] path)))"
proof -
  have "tl (js p) = js (tl p)" for p by (simp add: js_def map_tl)
  then show ?thesis
    by (simp add: path_params_def path_parts_js zip_map_map filter_map o_def starts_colon case_prod_beta')
qed

subsection \<open>The token of the session\<close>

text \<open>The session's token is one the backend accepts for the user, who is an administrator if that is needed.\<close>

definition signed_for :: "gate \<Rightarrow> auth_state \<Rightarrow> access \<Rightarrow> int option \<Rightarrow> bool" where
  "signed_for g s a user \<longleftrightarrow>
     (if a = Anyone then user = None
      else \<exists>u. user = Some u \<and> 0 < u \<and> accessToken s \<noteq> [] \<and> (\<forall>c \<in> set (accessToken s). \<not> go_space c) \<and>
        ParseAccessToken g (accessToken s) = Some u \<and> (a = Administrator \<longrightarrow> HasAdminRole g u = Some True))"

lemma go_fields_word:
  "\<forall>c \<in> set t. \<not> go_space c \<Longrightarrow> go_fields_from acc t = (if acc = [] \<and> t = [] then [] else [rev acc @ t])"
  by (induction t arbitrary: acc) auto

lemma go_fields_bearer:
  assumes "t \<noteq> []" "\<forall>c \<in> set t. \<not> go_space c"
  shows "go_fields_from [] (js ''Bearer '' @ t) = [js ''Bearer'', t]"
  using go_fields_word[OF assms(2), of "[]"] assms(1) by (simp add: js_def go_space_def)

lemma signed_header:
  assumes "signed_for g s a user" "a \<noteq> Anyone"
  obtains u where "user = Some u" "0 < u" "a = Administrator \<Longrightarrow> HasAdminRole g u = Some True"
    "\<And>k. AuthMiddleware g (request_interceptor s Map.empty (js ''Authorization'')) k = k u"
proof -
  obtain u where u: "user = Some u" "0 < u" "accessToken s \<noteq> []" "\<forall>c \<in> set (accessToken s). \<not> go_space c"
    "ParseAccessToken g (accessToken s) = Some u" "a = Administrator \<longrightarrow> HasAdminRole g u = Some True"
    using assms by (auto simp: signed_for_def split: if_splits)
  have "map ascii_lower (js ''Bearer'') = js ''bearer''" by (simp add: js_def ascii_lower_def)
  then have "AuthMiddleware g (request_interceptor s Map.empty (js ''Authorization'')) k = k u" for k
    using go_fields_bearer[OF u(3,4)] u(3,5) by (simp add: AuthMiddleware_def request_interceptor_header)
  then show thesis using that u by blast
qed

lemma send_Run:
  assumes "address_of r = js path" "route_at (req_method r) path = Some (a, m, js pat, h)"
    "read_request h (map (\<lambda>(p, s). (js (tl p), js s)) (filter (\<lambda>(p, s). take 1 p = '':'') (zip (slash_parts [] pat) (slash_parts [] path))))
       (query_of r) (case req_body r of None \<Rightarrow> [] | Some b \<Rightarrow> b) = Some call"
    "a = Anyone \<longrightarrow> \<not> asks_user h" "signed_for g s a user"
  shows "send g s r = Run user call"
proof -
  note call = assms(3)[folded path_params_js]
  have find: "find (go_serves (req_method r) (path_parts (address_of r))) SetupRouters = Some (a, m, js pat, h)"
    using assms(1,2) by (simp add: route_at_def)
  show ?thesis
  proof (cases "a = Anyone")
    case True
    then have "user = None" using assms(5) by (simp add: signed_for_def)
    then show ?thesis using True find call assms(1,4) by (simp add: send_def serve_def Let_def run_handler_def)
  next
    case False
    then obtain u where u: "user = Some u" "0 < u" "a = Administrator \<Longrightarrow> HasAdminRole g u = Some True"
      "\<And>k. AuthMiddleware g (request_interceptor s Map.empty (js ''Authorization'')) k = k u"
      using signed_header[OF assms(5)] by blast
    then show ?thesis using False find call assms(1)
      by (cases a) (simp_all add: send_def serve_def Let_def run_handler_def AdminMiddleware_def)
  qed
qed

subsection \<open>What each request is meant for\<close>

abbreviation sent_id :: "int \<Rightarrow> bool" where "sent_id i \<equiv> 0 < i \<and> i \<le> max_safe"

text \<open>A name as the backend decodes it, with a length between the bounds.\<close>

abbreviation between :: "nat \<Rightarrow> jsstr \<Rightarrow> nat \<Rightarrow> bool" where
  "between lo s hi \<equiv> go_text s \<noteq> [] \<and> lo \<le> rune_count (go_text s) \<and> rune_count (go_text s) \<le> hi"

fun listed :: "product_list_status option \<Rightarrow> int option" where
  "listed None = Some ProductStatusOffSale"
| "listed (Some ListOnSale) = Some ProductStatusOnSale"
| "listed (Some ListOffSale) = Some ProductStatusOffSale"
| "listed (Some ListAll) = None"

text \<open>Orders are known by the text of a 64-bit number; everything else by a number.\<close>

inductive meant :: "request \<Rightarrow> access \<Rightarrow> go_call \<Rightarrow> bool" where
  ping: "meant healthApi_ping Anyone CallPing"
| signUp: "between 3 name 64 \<Longrightarrow> between 6 password 72 \<Longrightarrow>
    meant (authApi_register name password) Anyone (CallRegister (go_text name) (go_text password))"
| signIn: "go_text name \<noteq> [] \<Longrightarrow> go_text password \<noteq> [] \<Longrightarrow>
    meant (authApi_login name password) Anyone (CallLogin (go_text name) (go_text password))"
| me: "meant authApi_me SignedIn CallMe"
| profile: "between 1 name 64 \<Longrightarrow> meant (authApi_updateProfile name) SignedIn (CallUpdateProfile (go_text name))"
| password: "go_text old \<noteq> [] \<Longrightarrow> between 6 new 72 \<Longrightarrow>
    meant (authApi_updatePassword old new) SignedIn (CallUpdatePassword (go_text old) (go_text new))"
| products: "sent_id page \<Longrightarrow> 0 < per \<Longrightarrow> per \<le> 100 \<Longrightarrow>
    meant (productApi_list st (Some (jint page)) (Some (jint per))) SignedIn (CallListProducts (listed st) page per)"
| product: "sent_id i \<Longrightarrow> meant (productApi_detail (jint i)) SignedIn (CallGetProduct i)"
| create_product: "between 1 name 100 \<Longrightarrow> rune_count (go_text descr) \<le> 500 \<Longrightarrow> sent_id price \<Longrightarrow>
    meant (productApi_create \<lparr>cp_name = name, cp_description = descr, cp_price_fen = jint price\<rparr>) Administrator
      (CallCreateProduct (go_text name) (go_text descr) price)"
| on_sale: "sent_id i \<Longrightarrow> meant (productApi_onSale (jint i)) Administrator (CallOnSale i)"
| off_sale: "sent_id i \<Longrightarrow> meant (productApi_offSale (jint i)) Administrator (CallOffSale i)"
| stock: "sent_id i \<Longrightarrow> meant (inventoryApi_detailByProductId (jint i)) SignedIn (CallGetInventory i)"
| init_stock: "sent_id i \<Longrightarrow> 0 \<le> q \<Longrightarrow> q \<le> max_safe \<Longrightarrow>
    meant (inventoryApi_init \<lparr>init_product_id = jint i, init_stock_quantity = jint q\<rparr>) Administrator (CallInitInventory i q)"
| add_stock: "sent_id i \<Longrightarrow> sent_id q \<Longrightarrow>
    meant (inventoryApi_add \<lparr>add_product_id = jint i, add_quantity = jint q\<rparr>) Administrator (CallAddInventory i q)"
| rebuild: "meant inventoryApi_rebuildRedis Administrator CallRebuild"
| reconcile: "meant inventoryApi_reconcileRedis Administrator CallReconcile"
| all_stock_logs: "meant (stockLogApi_list None) Administrator (CallStockLogs None)"
| stock_logs: "sent_id i \<Longrightarrow> meant (stockLogApi_list (Some (jint i))) Administrator (CallStockLogs (Some i))"
| operation_logs: "0 < page \<Longrightarrow> page \<le> 1000000 \<Longrightarrow> 0 < per \<Longrightarrow> per \<le> 100 \<Longrightarrow>
    meant (operationLogApi_list (Some (jint page)) (Some (jint per))) Administrator (CallOperationLogs None [] page per)"
| create_order: "between 1 key 128 \<Longrightarrow> pqs \<noteq> [] \<Longrightarrow> \<forall>(p, q) \<in> set pqs. sent_id p \<and> sent_id q \<Longrightarrow>
    meant (orderApi_create \<lparr>cop_items = map (\<lambda>(p, q). \<lparr>pi_product_id = jint p, pi_quantity = jint q\<rparr>) pqs\<rparr> key) SignedIn
      (CallCreateOrder \<lparr>co_idempotency_key = go_text key, co_items = map (\<lambda>(p, q). \<lparr>ci_product_id = p, ci_quantity = q\<rparr>) pqs\<rparr>)"
| orders: "0 < page \<Longrightarrow> page \<le> maxOrderPage \<Longrightarrow> 0 < per \<Longrightarrow> per \<le> maxOrderPageSize \<Longrightarrow>
    meant (orderApi_list (jint page) (jint per)) SignedIn (CallListOrders page per)"
| order: "id_ok i \<Longrightarrow> meant (orderApi_detail (dec i)) SignedIn (CallGetOrder i)"
| pay: "id_ok i \<Longrightarrow> meant (orderApi_pay (dec i)) SignedIn (CallPay i)"
| finish: "id_ok i \<Longrightarrow> meant (orderApi_finish (dec i)) SignedIn (CallFinish i)"
| cancel: "id_ok i \<Longrightarrow> meant (orderApi_cancel (dec i)) SignedIn (CallCancel i)"

lemmas api_defs = req_defs healthApi_ping_def authApi_register_def authApi_login_def authApi_me_def
  authApi_updateProfile_def authApi_updatePassword_def productApi_list_def productApi_detail_def productApi_create_def
  productApi_onSale_def productApi_offSale_def inventoryApi_detailByProductId_def inventoryApi_init_def
  inventoryApi_add_def inventoryApi_rebuildRedis_def inventoryApi_reconcileRedis_def stockLogApi_list_def
  operationLogApi_list_def orderApi_create_def orderApi_list_def orderApi_detail_def orderApi_pay_def
  orderApi_finish_def orderApi_cancel_def

lemma api_address: "req_client r = Api \<Longrightarrow> address_of r = js ''/api/v1'' @ req_url r"
  by (simp add: address_of_def apiBaseURL_def js_empty_iff)

lemma root_address: "req_client r = RootApi \<Longrightarrow> address_of r = req_url r"
  by (simp add: address_of_def rootBaseURL_def apiBaseURL_def js_empty_iff) (simp add: strip_suffix_def js_def ends_with_def starts_with_def)

text \<open>An identity is a part of an address without a slash.\<close>

lemma id_part:
  assumes "0 \<le> n" obtains t where "dec n = js t" "t \<noteq> []" "CHR ''/'' \<notin> set t"
  using dec_js[OF assms] by force

lemmas route_simps = route_at_def path_parts_js slash_parts_plain slash_parts_end route_lists fits_def js_eq_iff

lemmas serve_simps = api_address api_defs route_simps parsePositiveID_def given_text_def js_append[symmetric]

lemma order_served:
  assumes "id_ok i" "signed_for g s SignedIn user"
  shows "send g s (orderApi_detail (dec i)) = Run user (CallGetOrder i)"
    "send g s (orderApi_pay (dec i)) = Run user (CallPay i)"
    "send g s (orderApi_finish (dec i)) = Run user (CallFinish i)"
    "send g s (orderApi_cancel (dec i)) = Run user (CallCancel i)"
proof -
  obtain t where t: "dec i = js t" "t \<noteq> []" "CHR ''/'' \<notin> set t" "ParseInt (js t) = Some i"
    using id_part[of i] ParseInt_dec[of i] assms(1) by (metis less_imp_le)
  show "send g s (orderApi_detail (dec i)) = Run user (CallGetOrder i)"
    by (rule send_Run[where path = "''/api/v1/orders/'' @ t" and pat = "''/api/v1/orders/:id''" and a = SignedIn and m = GET and h = "OrderHandler GetOrderByID"])
      (use t assms in \<open>simp_all add: serve_simps\<close>)
  show "send g s (orderApi_pay (dec i)) = Run user (CallPay i)"
    by (rule send_Run[where path = "''/api/v1/orders/'' @ t @ ''/pay''" and pat = "''/api/v1/orders/:id/pay''" and a = SignedIn and m = PATCH and h = "OrderHandler H_PayOrder"])
      (use t assms in \<open>simp_all add: serve_simps\<close>)
  show "send g s (orderApi_finish (dec i)) = Run user (CallFinish i)"
    by (rule send_Run[where path = "''/api/v1/orders/'' @ t @ ''/finish''" and pat = "''/api/v1/orders/:id/finish''" and a = SignedIn and m = PATCH and h = "OrderHandler H_FinishOrder"])
      (use t assms in \<open>simp_all add: serve_simps\<close>)
  show "send g s (orderApi_cancel (dec i)) = Run user (CallCancel i)"
    by (rule send_Run[where path = "''/api/v1/orders/'' @ t @ ''/cancel''" and pat = "''/api/v1/orders/:id/cancel''" and a = SignedIn and m = PATCH and h = "OrderHandler CancelOrders"])
      (use t assms in \<open>simp_all add: serve_simps\<close>)
qed

lemma product_shown:
  assumes "sent_id i" "signed_for g s SignedIn user"
  shows "send g s (productApi_detail (jint i)) = Run user (CallGetProduct i)"
    "send g s (inventoryApi_detailByProductId (jint i)) = Run user (CallGetInventory i)"
proof -
  obtain t where t: "to_string (jint i) = js t" "t \<noteq> []" "CHR ''/'' \<notin> set t" "ParseInt (js t) = Some i"
    using id_part[of i] ParseInt_dec[of i] safe_int64[of i] to_string_dec[of i] assms(1) by (metis less_imp_le)
  show "send g s (productApi_detail (jint i)) = Run user (CallGetProduct i)"
    by (rule send_Run[where path = "''/api/v1/products/'' @ t" and pat = "''/api/v1/products/:id''" and a = SignedIn and m = GET and h = "ProductHandler GetProductByID"])
      (use t assms in \<open>simp_all add: serve_simps\<close>)
  show "send g s (inventoryApi_detailByProductId (jint i)) = Run user (CallGetInventory i)"
    by (rule send_Run[where path = "''/api/v1/inventory/products/'' @ t" and pat = "''/api/v1/inventory/products/:product_id''" and a = SignedIn and m = GET and h = "InventoryHandler GetInventoryByProductID"])
      (use t assms in \<open>simp_all add: serve_simps\<close>)
qed

lemma product_switched:
  assumes "sent_id i" "signed_for g s Administrator user"
  shows "send g s (productApi_onSale (jint i)) = Run user (CallOnSale i)"
    "send g s (productApi_offSale (jint i)) = Run user (CallOffSale i)"
proof -
  obtain t where t: "to_string (jint i) = js t" "t \<noteq> []" "CHR ''/'' \<notin> set t" "ParseInt (js t) = Some i"
    using id_part[of i] ParseInt_dec[of i] safe_int64[of i] to_string_dec[of i] assms(1) by (metis less_imp_le)
  show "send g s (productApi_onSale (jint i)) = Run user (CallOnSale i)"
    by (rule send_Run[where path = "''/api/v1/products/'' @ t @ ''/on-sale''" and pat = "''/api/v1/products/:id/on-sale''" and a = Administrator and m = PATCH and h = "ProductHandler H_OnSaleProduct"])
      (use t assms in \<open>simp_all add: serve_simps\<close>)
  show "send g s (productApi_offSale (jint i)) = Run user (CallOffSale i)"
    by (rule send_Run[where path = "''/api/v1/products/'' @ t @ ''/off-sale''" and pat = "''/api/v1/products/:id/off-sale''" and a = Administrator and m = PATCH and h = "ProductHandler H_OffSaleProduct"])
      (use t assms in \<open>simp_all add: serve_simps\<close>)
qed

lemma bound_items:
  "\<forall>(p, q) \<in> set pqs. sent_id p \<and> sent_id q \<Longrightarrow>
   those (map bind_item (map (\<lambda>(p, q). \<lparr>pi_product_id = jint p, pi_quantity = jint q\<rparr>) pqs)) =
   Some (map (\<lambda>(p, q). \<lparr>ci_product_id = p, ci_quantity = q\<rparr>) pqs)"
  by (induction pqs) (auto simp: bind_item_def positive_field_jint)

lemma text_field_Some: "map_of b (js name) = Some (BStr v) \<Longrightarrow> text_field name b = Some (go_text v)"
  by (simp add: text_field_def)

lemma dec_Int: "0 \<le> n \<Longrightarrow> n \<le> max_safe \<Longrightarrow> ParseInt (dec n) = Some n"
  by (simp add: ParseInt_dec safe_int64)

lemma small_number:
  assumes "0 < n" "n \<le> 1000000" shows "to_string (jint n) = dec n" "ParseInt (dec n) = Some n"
  using assms to_string_dec[of n] dec_Int[of n] by (simp_all add: max_safe_def)

lemma go_trim_Nil: "go_trim [] = []"
  by (simp add: go_trim_def)

lemmas body_simps = bind_defs bind_InitInventoryRequest_def text_field_Some bounded_field_def required_text_def positive_field_jint int_field_def json_int_jint
  query_of_def to_string_dec parse_page_def parseOptionalPagination_def parseOperationLogPagination_def query_int_def optional_id_def
  dec_Int ParseInt_dec small_number go_trim_Nil maxOrderPage_def maxOrderPageSize_def

lemma register_served:
  assumes "between 3 name 64" "between 6 password 72" "signed_for g s Anyone user"
  shows "send g s (authApi_register name password) = Run user (CallRegister (go_text name) (go_text password))"
  by (rule send_Run[where path = "''/api/v1/auth/register''" and pat = "''/api/v1/auth/register''" and a = Anyone and m = POST and h = "UserHandler H_Register"])
    (use assms in \<open>simp_all add: serve_simps asks_user_def body_simps\<close>)

lemma login_served:
  assumes "go_text name \<noteq> []" "go_text password \<noteq> []" "signed_for g s Anyone user"
  shows "send g s (authApi_login name password) = Run user (CallLogin (go_text name) (go_text password))"
  by (rule send_Run[where path = "''/api/v1/auth/login''" and pat = "''/api/v1/auth/login''" and a = Anyone and m = POST and h = "UserHandler H_Login"])
    (use assms in \<open>simp_all add: serve_simps asks_user_def body_simps\<close>)

lemma me_served:
  assumes "signed_for g s SignedIn user"
  shows "send g s (authApi_me) = Run user (CallMe)"
  by (rule send_Run[where path = "''/api/v1/users/me''" and pat = "''/api/v1/users/me''" and a = SignedIn and m = GET and h = "UserHandler Me"])
    (use assms in \<open>simp_all add: serve_simps body_simps\<close>)

lemma profile_served:
  assumes "between 1 name 64" "signed_for g s SignedIn user"
  shows "send g s (authApi_updateProfile name) = Run user (CallUpdateProfile (go_text name))"
  by (rule send_Run[where path = "''/api/v1/users/me/profile''" and pat = "''/api/v1/users/me/profile''" and a = SignedIn and m = PUT and h = "UserHandler H_UpdateProfile"])
    (use assms in \<open>simp_all add: serve_simps body_simps\<close>)

lemma password_served:
  assumes "go_text old \<noteq> []" "between 6 new 72" "signed_for g s SignedIn user"
  shows "send g s (authApi_updatePassword old new) = Run user (CallUpdatePassword (go_text old) (go_text new))"
  by (rule send_Run[where path = "''/api/v1/users/me/password''" and pat = "''/api/v1/users/me/password''" and a = SignedIn and m = PATCH and h = "UserHandler H_UpdatePassword"])
    (use assms in \<open>simp_all add: serve_simps body_simps\<close>)

lemma status_sent:
  "parseProductStatus (case param_text (status_param st) of None \<Rightarrow> [] | Some t \<Rightarrow> t) = Some (listed st)"
proof -
  have "to_string (jint 1) = js ''1''" "to_string (jint 2) = js ''2''" "ParseInt (js ''1'') = Some 1" "ParseInt (js ''2'') = Some 2"
    using to_string_dec[of 1] to_string_dec[of 2] by (simp_all add: dec.simps max_safe_def digit_char_def js_def
      ParseInt_def take_sign_def is_digit_def int64_def undec_Cons digit_val_def)
  moreover have "[] \<noteq> js ''all''" using js_empty_iff[of "''all''"] by auto
  ultimately show ?thesis
    by (cases st rule: listed.cases) (simp_all add: parseProductStatus_def js_eq_iff js_empty_iff
      ProductStatusOnSale_def ProductStatusOffSale_def)
qed

lemma products_served:
  assumes "sent_id page" "0 < per" "per \<le> 100" "signed_for g s SignedIn user"
  shows "send g s (productApi_list st (Some (jint page)) (Some (jint per))) = Run user (CallListProducts (listed st) page per)"
  by (rule send_Run[where path = "''/api/v1/products''" and pat = "''/api/v1/products''" and a = SignedIn and m = GET and h = "ProductHandler ListProducts"])
    (use assms status_sent[of st] in \<open>simp_all add: serve_simps body_simps map_add_def split: option.splits\<close>)

lemma create_product_served:
  assumes "between 1 name 100" "rune_count (go_text descr) \<le> 500" "sent_id price" "signed_for g s Administrator user"
  shows "send g s (productApi_create \<lparr>cp_name = name, cp_description = descr, cp_price_fen = jint price\<rparr>) = Run user (CallCreateProduct (go_text name) (go_text descr) price)"
  by (rule send_Run[where path = "''/api/v1/products''" and pat = "''/api/v1/products''" and a = Administrator and m = POST and h = "ProductHandler H_CreateProduct"])
    (use assms in \<open>simp_all add: serve_simps body_simps\<close>)

lemma init_stock_served:
  assumes "sent_id i" "0 \<le> q" "q \<le> max_safe" "signed_for g s Administrator user"
  shows "send g s (inventoryApi_init \<lparr>init_product_id = jint i, init_stock_quantity = jint q\<rparr>) = Run user (CallInitInventory i q)"
  by (rule send_Run[where path = "''/api/v1/inventory/init''" and pat = "''/api/v1/inventory/init''" and a = Administrator and m = POST and h = "InventoryHandler H_InitInventory"])
    (use assms in \<open>simp_all add: serve_simps body_simps\<close>)

lemma add_stock_served:
  assumes "sent_id i" "sent_id q" "signed_for g s Administrator user"
  shows "send g s (inventoryApi_add \<lparr>add_product_id = jint i, add_quantity = jint q\<rparr>) = Run user (CallAddInventory i q)"
  by (rule send_Run[where path = "''/api/v1/inventory/add''" and pat = "''/api/v1/inventory/add''" and a = Administrator and m = POST and h = "InventoryHandler H_AddInventory"])
    (use assms in \<open>simp_all add: serve_simps body_simps\<close>)

lemma rebuild_served:
  assumes "signed_for g s Administrator user"
  shows "send g s (inventoryApi_rebuildRedis) = Run user (CallRebuild)"
  by (rule send_Run[where path = "''/api/v1/inventory/redis/rebuild''" and pat = "''/api/v1/inventory/redis/rebuild''" and a = Administrator and m = POST and h = "InventoryHandler H_Rebuild"])
    (use assms in \<open>simp_all add: serve_simps body_simps\<close>)

lemma reconcile_served:
  assumes "signed_for g s Administrator user"
  shows "send g s (inventoryApi_reconcileRedis) = Run user (CallReconcile)"
  by (rule send_Run[where path = "''/api/v1/inventory/redis/reconcile''" and pat = "''/api/v1/inventory/redis/reconcile''" and a = Administrator and m = GET and h = "InventoryHandler H_Reconcile"])
    (use assms in \<open>simp_all add: serve_simps body_simps\<close>)

lemma all_stock_logs_served:
  assumes "signed_for g s Administrator user"
  shows "send g s (stockLogApi_list None) = Run user (CallStockLogs None)"
  by (rule send_Run[where path = "''/api/v1/stock-logs''" and pat = "''/api/v1/stock-logs''" and a = Administrator and m = GET and h = "StockLogHandler ListStockLogs"])
    (use assms in \<open>simp_all add: serve_simps body_simps\<close>)

lemma stock_logs_served:
  assumes "sent_id i" "signed_for g s Administrator user"
  shows "send g s (stockLogApi_list (Some (jint i))) = Run user (CallStockLogs (Some i))"
  by (rule send_Run[where path = "''/api/v1/stock-logs''" and pat = "''/api/v1/stock-logs''" and a = Administrator and m = GET and h = "StockLogHandler ListStockLogs"])
    (use assms in \<open>simp_all add: serve_simps body_simps\<close>)

lemma operation_logs_served:
  assumes "0 < page" "page \<le> 1000000" "0 < per" "per \<le> 100" "signed_for g s Administrator user"
  shows "send g s (operationLogApi_list (Some (jint page)) (Some (jint per))) = Run user (CallOperationLogs None [] page per)"
  by (rule send_Run[where path = "''/api/v1/operation-logs''" and pat = "''/api/v1/operation-logs''" and a = Administrator and m = GET and h = "OperationLogHandler ListOperationLogs"])
    (use assms in \<open>simp_all add: serve_simps body_simps\<close>)

lemma orders_served:
  assumes "0 < page" "page \<le> maxOrderPage" "0 < per" "per \<le> maxOrderPageSize" "signed_for g s SignedIn user"
  shows "send g s (orderApi_list (jint page) (jint per)) = Run user (CallListOrders page per)"
  by (rule send_Run[where path = "''/api/v1/orders''" and pat = "''/api/v1/orders''" and a = SignedIn and m = GET and h = "OrderHandler ListOrders"])
    (use assms in \<open>simp_all add: serve_simps body_simps\<close>)

lemma create_order_served:
  assumes "between 1 key 128" "pqs \<noteq> []" "\<forall>(p, q) \<in> set pqs. sent_id p \<and> sent_id q" "signed_for g s SignedIn user"
  shows "send g s (orderApi_create \<lparr>cop_items = map (\<lambda>(p, q). \<lparr>pi_product_id = jint p, pi_quantity = jint q\<rparr>) pqs\<rparr> key) =
    Run user (CallCreateOrder \<lparr>co_idempotency_key = go_text key, co_items = map (\<lambda>(p, q). \<lparr>ci_product_id = p, ci_quantity = q\<rparr>) pqs\<rparr>)"
  by (rule send_Run[where path = "''/api/v1/orders''" and pat = "''/api/v1/orders''" and a = SignedIn and m = POST and h = "OrderHandler H_CreateOrder"])
    (use assms bound_items[OF assms(3)] in \<open>simp_all add: serve_simps body_simps\<close>)

lemma ping_served: "signed_for g s Anyone user \<Longrightarrow> send g s healthApi_ping = Run user CallPing"
  by (rule send_Run[where path = "''/ping''" and pat = "''/ping''" and a = Anyone and m = GET and h = "HealthHandler PingHandler"])
    (simp_all add: root_address healthApi_ping_def req_defs route_simps asks_user_def)

lemmas all_served = order_served product_shown product_switched register_served login_served me_served profile_served
  password_served products_served create_product_served init_stock_served add_stock_served rebuild_served reconcile_served
  all_stock_logs_served stock_logs_served operation_logs_served orders_served create_order_served ping_served

lemma served_meant:
  assumes "meant r a call" "signed_for g s a user" shows "send g s r = Run user call"
  using assms by (cases rule: meant.cases) (simp_all add: all_served)

text \<open>C6: the frontend and the backend agree on every endpoint the frontend uses: a request built by a
  function of the API objects, from arguments in range and with a token the backend accepts for a user who
  has the role the endpoint needs, is not refused on its way (no wrong address, method, field name or
  format) and runs the service call it is meant for, with the very arguments: numbers as far as a
  JavaScript number is exact, order identities over all 64 bits.\<close>

theorem requests_served_as_meant:
  assumes "meant r a call" "signed_for g s a user"
  shows "send g s r = Run user call"
  by (rule served_meant[OF assms])

definition sample_gate :: gate where
  "sample_gate = \<lparr>ParseAccessToken = (\<lambda>t. if t = js ''t'' then Some 3 else None), HasAdminRole = (\<lambda>_. Some False)\<rparr>"

definition sample_session :: auth_state where
  "sample_session = \<lparr>auth_user_of = None, accessToken = js ''t'', auth_jar = []\<rparr>"

lemma sample_signed: "signed_for sample_gate sample_session SignedIn (Some 3)"
  by (simp add: signed_for_def sample_gate_def sample_session_def js_empty_iff) (simp add: js_def go_space_def)

theorem requests_served_as_meant_witness:
  "send sample_gate sample_session (orderApi_pay (dec 9007199254740993)) = Run (Some 3) (CallPay 9007199254740993)"
  using requests_served_as_meant[OF meant.pay[of 9007199254740993] sample_signed] by (simp add: int64_def)

theorem served_calls_typed_witness:
  "typed_call (CallPay 8) \<and> permitted sample_gate (request_interceptor sample_session Map.empty (js ''Authorization'')) (Some 3)
     (needs (CallPay 8))"
proof -
  have "send sample_gate sample_session (orderApi_pay (dec 8)) = Run (Some 3) (CallPay 8)"
    using order_served(2)[OF _ sample_signed, of 8] by (simp add: int64_def)
  from served_calls_typed[OF this[unfolded send_def]] show ?thesis .
qed

end
