(* ===== verification/Ownership.thy ===== *)
theory Ownership
  imports Served
begin

section \<open>Users keep to their own (handler, service, dao)\<close>

text \<open>
  From the request to the tables: the operation of the backend each handler calls its service for, and
  the orders it answers with. The theorem is about any request at all, also one the frontend never sends.
\<close>

subsection \<open>The service call of each handler\<close>

text \<open>What a call finds: the surroundings of its transaction and the tables as it read them before.\<close>

fun product_op :: "surroundings \<Rightarrow> db \<Rightarrow> go_call \<Rightarrow> backend_op option" where
  "product_op c early (CallCreateProduct name desc price) = Some (OpCreateProduct (c_served c) name desc price)"
| "product_op c early (CallOnSale i) = Some (OpOnSale (c_served c) i early)"
| "product_op c early (CallOffSale i) = Some (OpOffSale (c_served c) i early)"
| "product_op c early call = None"

fun inventory_op :: "surroundings \<Rightarrow> db \<Rightarrow> go_call \<Rightarrow> backend_op option" where
  "inventory_op c early (CallInitInventory i q) = Some (OpInit c i (Some q) early)"
| "inventory_op c early (CallAddInventory i q) = Some (OpAdd c i q)"
| "inventory_op c early CallRebuild = Some (OpRebuild (c_link c))"
| "inventory_op c early call = None"

fun order_op :: "surroundings \<Rightarrow> db \<Rightarrow> int \<Rightarrow> go_call \<Rightarrow> backend_op option" where
  "order_op c early u (CallCreateOrder req) = Some (OpCreateOrder c u req)"
| "order_op c early u (CallCancel i) = Some (OpCancel c u i)"
| "order_op c early u (CallPay i) = Some (OpPay c u i early)"
| "order_op c early u (CallFinish i) = Some (OpFinish c u i early)"
| "order_op c early u call = None"

definition handler_op :: "surroundings \<Rightarrow> db \<Rightarrow> int option \<Rightarrow> go_call \<Rightarrow> backend_op option" where
  "handler_op c early user call =
     (case product_op c early call of Some op \<Rightarrow> Some op
      | None \<Rightarrow> case inventory_op c early call of Some op \<Rightarrow> Some op
      | None \<Rightarrow> case user of None \<Rightarrow> None | Some u \<Rightarrow> order_op c early u call)"

text \<open>The orders in the answer: that of a creation is the new one, or for a used key one read from the table.\<close>

fun orders_answered :: "db_env \<Rightarrow> surroundings \<Rightarrow> backend \<Rightarrow> int option \<Rightarrow> go_call \<Rightarrow> orders_row list" where
  "orders_answered env c b (Some u) (CallCreateOrder req) =
     (case fst (CreateOrder env c u req b) of Inl e \<Rightarrow> [] | Inr r \<Rightarrow> [r])"
| "orders_answered env c b (Some u) (CallGetOrder i) =
     (case service_GetOrderByID u i (bk_db b) of Inl e \<Rightarrow> [] | Inr (r, _) \<Rightarrow> [r])"
| "orders_answered env c b (Some u) (CallListOrders page per) =
     (case service_ListOrders u page per (bk_db b) of Inl e \<Rightarrow> [] | Inr (rs, _) \<Rightarrow> rs)"
| "orders_answered env c b user (CallAdminOrders u st page per) =
     (case service_ListAdminOrders u st page per (bk_db b) of Inl e \<Rightarrow> [] | Inr (rs, _) \<Rightarrow> rs)"
| "orders_answered env c b user call = []"

subsection \<open>What a user's own calls leave alone\<close>

definition foreign :: "int option \<Rightarrow> db \<Rightarrow> orders_row list" where
  "foreign user d = filter (\<lambda>r. user \<noteq> Some (o_user_id r)) (t_orders d)"

text \<open>Tables that differ in the orders of one user only: no product, no supply, no order of others.\<close>

definition apart_from :: "int option \<Rightarrow> db \<Rightarrow> db \<Rightarrow> bool" where
  "apart_from user d d' \<longleftrightarrow> t_products d' = t_products d \<and> supplied d' = supplied d \<and> foreign user d' = foreign user d"

lemma apart_from_refl [simp]: "apart_from user d d"
  by (simp add: apart_from_def)

lemma filter_map_same: "(\<And>x. x \<in> set xs \<Longrightarrow> f x = x \<or> \<not> P x \<and> \<not> P (f x)) \<Longrightarrow> filter P (map f xs) = filter P xs"
  by (induction xs) (simp, metis (no_types, lifting) filter.simps(2) list.set_intros list.simps(9))

lemma restated_apart:
  assumes "restated i to tf now d d'" "balanced d" "\<exists>r \<in> set (t_orders d). o_id r = i \<and> o_user_id r = u"
    "\<And>p. supplied d' p = supplied d p"
  shows "apart_from (Some u) d d'"
proof -
  have own: "o_user_id r = u" if "r \<in> set (t_orders d)" "o_id r = i" for r
    using that assms(3) booksD(2)[OF assms(2)] by (metis (no_types, lifting) distinct_map inj_onD)
  then have "foreign (Some u) d' = foreign (Some u) d"
    using assms(1) by (simp add: restated_def foreign_def) (rule filter_map_same, auto)
  then show ?thesis using assms(1,4) by (simp add: apart_from_def restated_def fun_eq_iff)
qed

fun acting_user :: "backend_op \<Rightarrow> int option" where
  "acting_user (OpCreateOrder c u req) = Some u"
| "acting_user (OpCancel c u i) = Some u"
| "acting_user (OpPay c u i early) = Some u"
| "acting_user (OpFinish c u i early) = Some u"
| "acting_user _ = None"

lemma committed_apart:
  assumes "committed env past op d d'" "sound env d" "acting_user op = Some u"
  shows "apart_from (Some u) d d'"
  using assms(1)
proof cases
  case (create req c user x)
  obtain order replay where x: "x = (order, replay)" by (rule prod.exhaust)
  have bal: "balanced d" using assms(2) by (simp add: sound_def)
  note tr = create(6)[unfolded x]
  consider "d' = d" | "\<not> replay" "placed env c user (co_idempotency_key req) (buildCreateOrderRequestHash env req)
      (sortedOrderItems (co_items req)) order d d'"
    using create_transaction_cases[OF tr bal] by blast
  then show ?thesis
  proof cases
    case 1
    show ?thesis unfolding 1 by (rule apart_from_refl)
  next
    case 2
    have "replay = False" using 2(1) by simp
    then have "supplied d' p = supplied d p" for p using placed_supplied[OF _ bal] tr by blast
    then have "supplied d' = supplied d" by (rule ext)
    moreover have "t_products d' = t_products d" "t_orders d' = t_orders d @ [order]" "o_user_id order = user"
      using 2(2) unfolding placed_def by blast+
    moreover have "user = u" using create(1) assms(3) by simp
    ultimately show ?thesis by (simp add: apart_from_def foreign_def)
  qed
next
  case (cancel c user k how)
  have bal: "balanced d" using assms(2) by (simp add: sound_def)
  have u: "user = u" using cancel(1) assms(3) by simp
  consider "d' = d" | r where "restated k OrderStatusCancelled CancelledAt (c_now c) d d'"
      "cancelPendingOrder (c_now c) r cancel_remark d = Inr (True, d')" "\<exists>r \<in> set (t_orders d). o_id r = k \<and> o_user_id r = u"
    using cancel_transaction_restated[OF cancel(2) bal] cancel_transaction_Inr[OF cancel(2)] unfolding u by blast
  then show ?thesis
  proof cases
    case 1
    show ?thesis unfolding 1 by (rule apart_from_refl)
  next
    case 2
    show ?thesis by (rule restated_apart[OF 2(1) bal 2(3) cancelPendingOrder_supplied[OF 2(2) bal]])
  qed
next
  case (pay c user k x early)
  have bal: "balanced d" using assms(2) by (simp add: sound_def)
  have u: "user = u" using pay(1) assms(3) by simp
  have re: "restated k OrderStatusPaid PaidAt (c_now c) d d'" "\<exists>r \<in> set (t_orders d). o_id r = k \<and> o_user_id r = u"
    using pay_transaction_restated[OF pay(2) bal] unfolding u by blast+
  show ?thesis by (rule restated_apart[OF re(1) bal re(2) pay_transaction_supplied[OF pay(2)]])
next
  case (finish c user k x early)
  have bal: "balanced d" using assms(2) by (simp add: sound_def)
  have u: "user = u" using finish(1) assms(3) by simp
  have "t_logs d' = t_logs d" using finish(2) by (auto simp: finish_statement_def andThen_Inr_iff dao_PatchOrderStatus_def split: if_splits)
  then have su: "supplied d' p = supplied d p" for p by (simp add: supplied_def logs_of_def)
  have re: "restated k OrderStatusFinished CompletedAt (c_now c) d d'" "\<exists>r \<in> set (t_orders d). o_id r = k \<and> o_user_id r = u"
    using finish_statement_restated[OF finish(2) bal] unfolding u by blast+
  show ?thesis by (rule restated_apart[OF re(1) bal re(2) su])
qed (use assms(3) in simp_all)

lemma page_of_orders_where: "(rs, n) = page_of_orders c per offset d \<Longrightarrow> r \<in> set rs \<Longrightarrow> c r"
  by (auto simp: page_of_orders_def Let_def dest!: in_set_takeD in_set_dropD)

lemma created_own:
  assumes "Inr r = fst (CreateOrder env c u req b)" "sound env (bk_db b)" shows "o_user_id r = u"
proof -
  obtain b1 where "CreateOrder env c u req b = (Inr r, b1)" using assms(1) by (metis prod.collapse)
  from CreateOrder_Inr[OF this] obtain replay where
    "create_transaction env c u (co_idempotency_key req) (buildCreateOrderRequestHash env req)
      (sortedOrderItems (co_items req)) (bk_db b) = Inr ((r, replay), bk_db b1)" by blast
  from creation_answered[OF this assms(2)] show ?thesis by (simp add: answered_def)
qed

lemma answered_own:
  assumes "needs call \<noteq> Administrator" "sound env (bk_db b)" "r \<in> set (orders_answered env c b user call)"
  shows "user = Some (o_user_id r)"
  using assms
  by (cases "(env, c, b, user, call)" rule: orders_answered.cases)
    (auto simp: service_GetOrderByID_def andThen_Inr_iff onNotFound_def service_ListOrders_def dao_ListOrders_def
      dest!: GetOrderByID_Inr page_of_orders_where created_own split: sum.splits if_splits prod.splits)

lemma own_op:
  assumes "handler_op c early user call = Some op" "needs call \<noteq> Administrator" "typed_call call" "early \<in> set past" "0 < c_order_id c"
  shows "admitted past op \<and> acting_user op = user \<and> user \<noteq> None"
  using assms by (cases call) (auto simp: handler_op_def split: option.splits)

lemma step_apart:
  assumes "reachable env past b" "admitted past op" "acting_user op = Some u"
  shows "apart_from (Some u) (bk_db b) (bk_db (run_op env op b))"
  using step_committed[OF assms(2), of env b] committed_apart[OF _ reachable_sound[OF assms(1)] assms(3)]
  by (cases "bk_db (run_op env op b) = bk_db b") simp_all

text \<open>C5: nobody but an administrator gets at what is not theirs, whatever request they make up. In every
  reachable state a request that is run is either one that needs an administrator, made by one; or every
  order it is answered with, the one a creation answers with included, is the user's own, and what it does to the tables changes no product, no
  supply of stock and no order of anybody else. It is then a step the runs of the backend consist of.\<close>

theorem users_keep_to_their_own:
  assumes "reachable env past b" "serve g auth m path q body = Run user call"
  shows "needs call = Administrator \<and> permitted g auth user Administrator \<or>
    (\<forall>c. \<forall>r \<in> set (orders_answered env c b user call). user = Some (o_user_id r)) \<and>
    (\<forall>c early op. early \<in> set past \<and> 0 < c_order_id c \<and> handler_op c early user call = Some op \<longrightarrow>
       admitted past op \<and> apart_from user (bk_db b) (bk_db (run_op env op b)))"
proof (cases "needs call = Administrator")
  case True
  then show ?thesis using serve_permitted[OF assms(2)] by simp
next
  case False
  have "admitted past op \<and> apart_from user (bk_db b) (bk_db (run_op env op b))"
    if "early \<in> set past" "0 < c_order_id c" "handler_op c early user call = Some op" for c early op
    using own_op[OF that(3) False serve_typed[OF assms(2)] that(1,2)] step_apart[OF assms(1), of op] by auto
  then show ?thesis using answered_own[OF False reachable_sound[OF assms(1)]] by blast
qed

text \<open>A user with a token for the user of the sample order pays it.\<close>

theorem users_keep_to_their_own_witness:
  "apart_from (Some 3) (bk_db shop_placed) (bk_db (run_op shop_env (OpPay (calm 9) 3 7 shop_db4) shop_placed))"
proof -
  have "send sample_gate sample_session (orderApi_pay (dec 7)) = Run (Some 3) (CallPay 7)"
    using order_served(2)[OF _ sample_signed, of 7] by (simp add: int64_def)
  note own = users_keep_to_their_own[OF shop_sold this[unfolded send_def]]
  show ?thesis using own[simplified] by (auto simp: calm_def handler_op_def)
qed

end
