(* ===== verification/Users.thy ===== *)
theory Users
  imports Ownership
begin

section \<open>Users, roles and tokens (user_service.go, authorization_service.go, token_manager.go, dao)\<close>

text \<open>
  The tables of users and roles, every method of the user service, the check of a role and the tokens.
  Password hashing and signing are code outside the repository and parameters. The gate of the requests
  is built from these tables, so that the way of a user can be followed from the registration to the
  requests that are served.
\<close>

subsection \<open>The tables\<close>

record users_row =
  u_id :: int
  u_username :: jsstr
  u_password_hash :: jsstr
  u_nickname :: jsstr
  u_status :: int
  u_last_login_at :: "int option"
  u_deleted :: bool

definition UserStatusActive :: int where "UserStatusActive = 1"
definition UserStatusDisabled :: int where "UserStatusDisabled = 2"
definition RoleAdmin :: jsstr where "RoleAdmin = js ''admin''"
definition RoleUser :: jsstr where "RoleUser = js ''user''"

text \<open>A role is its number and name; the role of a user is a pair of their numbers.\<close>

record accounts =
  t_users :: "users_row list"
  t_roles :: "(int \<times> jsstr) list"
  t_user_roles :: "(int \<times> int) list"

record user_claims =
  claim_user_id :: int
  claim_username :: jsstr
  claim_issuer :: jsstr
  claim_subject :: jsstr
  claim_issued_at :: "int option"
  claim_expires_at :: "int option"

record crypto =
  bcrypt_generate :: "jsstr \<Rightarrow> jsstr \<Rightarrow> jsstr option"
  bcrypt_compare :: "jsstr \<Rightarrow> jsstr \<Rightarrow> bool"
  jwt_sign :: "jsstr \<Rightarrow> user_claims \<Rightarrow> jsstr option"
  jwt_parse :: "jsstr \<Rightarrow> jsstr \<Rightarrow> int \<Rightarrow> jsstr \<Rightarrow> user_claims option"

datatype user_error =
  ErrRegisterFailed | ErrUsernameAlreadyExists | ErrDefaultRoleNotFound
| ErrLoginFailed | ErrInvalidCredentials | ErrUserDisabled | ErrUserRoleCheckFailed
| ErrUserInvalid | ErrUserNotFound | ErrUserNotRead | ErrUpdateNicknameFailed
| ErrPasswordUnchanged | ErrOldPasswordIncorrect | ErrPasswordUpdateConflict | ErrUpdatePasswordFailed
| ErrTokenUserInvalid | ErrTokenUsernameInvalid | ErrTokenNotSigned
| ErrChecked service_error

subsection \<open>Queries\<close>

text \<open>GORM leaves out the rows that are marked as deleted; the query of a role is plain SQL and does not.\<close>

definition dao_GetUserByUsername :: "db_env \<Rightarrow> jsstr \<Rightarrow> accounts \<Rightarrow> users_row option" where
  "dao_GetUserByUsername env name s =
     find (\<lambda>u. \<not> u_deleted u \<and> collate env (u_username u) = collate env name) (t_users s)"

definition dao_GetUserByID :: "int \<Rightarrow> accounts \<Rightarrow> users_row option" where
  "dao_GetUserByID i s = find (\<lambda>u. \<not> u_deleted u \<and> u_id u = i) (t_users s)"

text \<open>An insert fails on a name that is taken; the number is the next one of the database.\<close>

definition dao_CreateUser :: "db_env \<Rightarrow> users_row \<Rightarrow> accounts \<Rightarrow> accounts option" where
  "dao_CreateUser env user s =
     (if \<exists>u \<in> set (t_users s). u_id u = u_id user \<or> collate env (u_username u) = collate env (u_username user)
      then None else Some (s\<lparr>t_users := t_users s @ [user]\<rparr>))"

definition update_user :: "(users_row \<Rightarrow> bool) \<Rightarrow> (users_row \<Rightarrow> users_row) \<Rightarrow> accounts \<Rightarrow> nat \<times> accounts" where
  "update_user c f s =
     (length (filter (\<lambda>u. \<not> u_deleted u \<and> c u) (t_users s)),
      s\<lparr>t_users := map (\<lambda>u. if \<not> u_deleted u \<and> c u then f u else u) (t_users s)\<rparr>)"

definition dao_UpdateNicknameByID :: "int \<Rightarrow> jsstr \<Rightarrow> accounts \<Rightarrow> accounts" where
  "dao_UpdateNicknameByID i name s = snd (update_user (\<lambda>u. u_id u = i) (\<lambda>u. u\<lparr>u_nickname := name\<rparr>) s)"

definition dao_UpdateLastLoginAtByID :: "int \<Rightarrow> int \<Rightarrow> accounts \<Rightarrow> accounts" where
  "dao_UpdateLastLoginAtByID i now s = snd (update_user (\<lambda>u. u_id u = i) (\<lambda>u. u\<lparr>u_last_login_at := Some now\<rparr>) s)"

definition dao_UpdateUserPassword :: "db_env \<Rightarrow> int \<Rightarrow> jsstr \<Rightarrow> jsstr \<Rightarrow> accounts \<Rightarrow> nat \<times> accounts" where
  "dao_UpdateUserPassword env i oldHash newHash =
     update_user (\<lambda>u. u_id u = i \<and> collate env (u_password_hash u) = collate env oldHash) (\<lambda>u. u\<lparr>u_password_hash := newHash\<rparr>)"

definition dao_GetRoleByRoleName :: "db_env \<Rightarrow> jsstr \<Rightarrow> accounts \<Rightarrow> (int \<times> jsstr) option" where
  "dao_GetRoleByRoleName env name s = find (\<lambda>(i, n). collate env n = collate env name) (t_roles s)"

text \<open>A user has at most one role.\<close>

definition dao_CreateUserRole :: "int \<Rightarrow> int \<Rightarrow> accounts \<Rightarrow> accounts option" where
  "dao_CreateUserRole user role s =
     (if user \<in> fst ` set (t_user_roles s) then None else Some (s\<lparr>t_user_roles := t_user_roles s @ [(user, role)]\<rparr>))"

definition dao_UserHasRole :: "db_env \<Rightarrow> int \<Rightarrow> jsstr \<Rightarrow> accounts \<Rightarrow> bool" where
  "dao_UserHasRole env user name s \<longleftrightarrow>
     (\<exists>(u, r) \<in> set (t_user_roles s). u = user \<and> (\<exists>(i, n) \<in> set (t_roles s). i = r \<and> collate env n = collate env name))"

text \<open>The names of the roles; the order of the query does not matter for a single one.\<close>

definition dao_ListRoleNamesByUserID :: "int \<Rightarrow> accounts \<Rightarrow> jsstr list" where
  "dao_ListRoleNamesByUserID user s =
     [n. (u, r) \<leftarrow> t_user_roles s, u = user, (i, n) \<leftarrow> t_roles s, i = r]"

subsection \<open>The user service\<close>

text \<open>\<open>served\<close> says whether the database answers; a transaction that is not served leaves nothing.\<close>

definition register_transaction :: "db_env \<Rightarrow> users_row \<Rightarrow> accounts \<Rightarrow> user_error + accounts" where
  "register_transaction env user s =
     (case dao_CreateUser env user s of None \<Rightarrow> Inl ErrUsernameAlreadyExists
      | Some s \<Rightarrow> case dao_GetRoleByRoleName env RoleUser s of None \<Rightarrow> Inl ErrDefaultRoleNotFound
      | Some (role, _) \<Rightarrow> case dao_CreateUserRole (u_id user) role s of None \<Rightarrow> Inl ErrUsernameAlreadyExists
      | Some s \<Rightarrow> Inr s)"

definition Register :: "db_env \<Rightarrow> crypto \<Rightarrow> bool \<Rightarrow> int \<Rightarrow> jsstr \<Rightarrow> jsstr \<Rightarrow> jsstr \<Rightarrow> accounts \<Rightarrow>
    (user_error + unit) \<times> accounts" where
  "Register env x served i salt req_username req_password s =
     (case service_Register req_username req_password of Inl e \<Rightarrow> (Inl (ErrChecked e), s)
      | Inr name \<Rightarrow> case bcrypt_generate x salt req_password of None \<Rightarrow> (Inl ErrRegisterFailed, s)
      | Some hash \<Rightarrow>
          if \<not> served then (Inl ErrRegisterFailed, s)
          else case register_transaction env \<lparr>u_id = i, u_username = name, u_password_hash = hash,
                 u_nickname = name, u_status = UserStatusActive, u_last_login_at = None, u_deleted = False\<rparr> s of
                 Inl e \<Rightarrow> (Inl e, s) | Inr s' \<Rightarrow> (Inr (), s'))"

text \<open>The roles are read last, when the time of the login is written.\<close>

definition Login :: "db_env \<Rightarrow> crypto \<Rightarrow> bool \<Rightarrow> bool \<Rightarrow> int \<Rightarrow> jsstr \<Rightarrow> jsstr \<Rightarrow> accounts \<Rightarrow>
    (user_error + users_row \<times> jsstr list) \<times> accounts" where
  "Login env x served roles_served now req_username req_password s =
     (if \<not> served then (Inl ErrLoginFailed, s)
      else case dao_GetUserByUsername env (go_trim req_username) s of None \<Rightarrow> (Inl ErrInvalidCredentials, s)
      | Some user \<Rightarrow>
          if u_status user \<noteq> UserStatusActive then (Inl ErrUserDisabled, s)
          else if \<not> bcrypt_compare x (u_password_hash user) req_password then (Inl ErrInvalidCredentials, s)
          else let s' = dao_UpdateLastLoginAtByID (u_id user) now s in
            if \<not> roles_served then (Inl ErrUserRoleCheckFailed, s')
            else (Inr (user\<lparr>u_last_login_at := Some now\<rparr>, dao_ListRoleNamesByUserID (u_id user) s'), s'))"

definition GetProfile :: "bool \<Rightarrow> bool \<Rightarrow> int \<Rightarrow> accounts \<Rightarrow> user_error + users_row \<times> jsstr list" where
  "GetProfile served roles_served i s =
     (if i \<le> 0 then Inl ErrUserInvalid
      else if \<not> served then Inl ErrUserNotRead
      else case dao_GetUserByID i s of None \<Rightarrow> Inl ErrUserNotFound
      | Some user \<Rightarrow>
          if u_status user \<noteq> UserStatusActive then Inl ErrUserDisabled
          else if \<not> roles_served then Inl ErrUserRoleCheckFailed
          else Inr (user, dao_ListRoleNamesByUserID (u_id user) s))"

text \<open>The profile is read in the tables of an earlier time.\<close>

definition UpdateNickname :: "bool \<Rightarrow> bool \<Rightarrow> bool \<Rightarrow> int \<Rightarrow> jsstr \<Rightarrow> accounts \<Rightarrow> accounts \<Rightarrow> (user_error + unit) \<times> accounts" where
  "UpdateNickname served roles_served written i req_nickname early s =
     (if i \<le> 0 then (Inl ErrUserInvalid, s)
      else case service_UpdateNickname req_nickname of Inl e \<Rightarrow> (Inl (ErrChecked e), s)
      | Inr name \<Rightarrow> case GetProfile served roles_served i early of Inl e \<Rightarrow> (Inl e, s)
      | Inr _ \<Rightarrow> if \<not> written then (Inl ErrUpdateNicknameFailed, s) else (Inr (), dao_UpdateNicknameByID i name s))"

text \<open>The transaction reads the user without a lock, hence in the tables of an earlier time.\<close>

definition UpdatePassword :: "db_env \<Rightarrow> crypto \<Rightarrow> bool \<Rightarrow> int \<Rightarrow> jsstr \<Rightarrow> jsstr \<Rightarrow> jsstr \<Rightarrow> accounts \<Rightarrow> accounts \<Rightarrow>
    (user_error + unit) \<times> accounts" where
  "UpdatePassword env x served i salt old new early s =
     (if i \<le> 0 then (Inl ErrUserInvalid, s)
      else if old = new then (Inl ErrPasswordUnchanged, s)
      else case service_validatePassword new of Inl e \<Rightarrow> (Inl (ErrChecked e), s)
      | Inr _ \<Rightarrow>
          if \<not> served then (Inl ErrUpdatePasswordFailed, s)
          else case dao_GetUserByID i early of None \<Rightarrow> (Inl ErrUserNotFound, s)
          | Some user \<Rightarrow>
              if \<not> bcrypt_compare x (u_password_hash user) old then (Inl ErrOldPasswordIncorrect, s)
              else case bcrypt_generate x salt new of None \<Rightarrow> (Inl ErrUpdatePasswordFailed, s)
              | Some newHash \<Rightarrow>
                  let (rows, s') = dao_UpdateUserPassword env i (u_password_hash user) newHash s in
                  if rows \<noteq> 1 then (Inl ErrPasswordUpdateConflict, s) else (Inr (), s'))"

subsection \<open>Tokens and the gate\<close>

text \<open>Times are in the unit of the clock; \<open>ttl\<close> is the time a token is valid.\<close>

record token_manager =
  tm_secret :: jsstr
  tm_issuer :: jsstr
  tm_ttl :: int

definition NewTokenManager :: "jsstr \<Rightarrow> jsstr \<Rightarrow> int \<Rightarrow> token_manager option" where
  "NewTokenManager req_secret issuer ttl =
     (let secret = go_trim req_secret
      in if go_len secret < 32 \<or> go_trim issuer = [] \<or> ttl \<le> 0 then None
         else Some \<lparr>tm_secret = secret, tm_issuer = issuer, tm_ttl = ttl\<rparr>)"

definition GenerateAccessToken :: "crypto \<Rightarrow> token_manager \<Rightarrow> int \<Rightarrow> int \<Rightarrow> jsstr \<Rightarrow> user_error + jsstr" where
  "GenerateAccessToken x m now user req_username =
     (let name = go_trim req_username
      in if user \<le> 0 then Inl ErrTokenUserInvalid
         else if name = [] then Inl ErrTokenUsernameInvalid
         else case jwt_sign x (tm_secret m) \<lparr>claim_user_id = user, claim_username = name, claim_issuer = tm_issuer m,
             claim_subject = dec user, claim_issued_at = Some now, claim_expires_at = Some (now + tm_ttl m)\<rparr> of
           None \<Rightarrow> Inl ErrTokenNotSigned | Some token \<Rightarrow> Inr token)"

definition tm_ParseAccessToken :: "crypto \<Rightarrow> token_manager \<Rightarrow> int \<Rightarrow> jsstr \<Rightarrow> user_claims option" where
  "tm_ParseAccessToken x m now token =
     (case jwt_parse x (tm_secret m) (tm_issuer m) now token of None \<Rightarrow> None
      | Some claims \<Rightarrow>
          if claim_expires_at claims = None \<or> claim_issued_at claims = None \<or> claim_user_id claims \<le> 0 \<or>
             go_trim (claim_username claims) = [] then None
          else Some claims)"

definition HasRole :: "db_env \<Rightarrow> bool \<Rightarrow> int \<Rightarrow> jsstr \<Rightarrow> accounts \<Rightarrow> bool option" where
  "HasRole env served user name s = (if \<not> served then None else Some (dao_UserHasRole env user name s))"

text \<open>What the middleware asks at a time, of the tables of that time.\<close>

definition gate_at :: "db_env \<Rightarrow> crypto \<Rightarrow> token_manager \<Rightarrow> int \<Rightarrow> accounts \<Rightarrow> gate" where
  "gate_at env x m now s = \<lparr>ParseAccessToken = (\<lambda>t. map_option claim_user_id (tm_ParseAccessToken x m now t)),
     HasAdminRole = (\<lambda>u. HasRole env True u RoleAdmin s)\<rparr>"

subsection \<open>What the tables say of each other\<close>

definition accounts_ok :: "db_env \<Rightarrow> accounts \<Rightarrow> bool" where
  "accounts_ok env s \<longleftrightarrow> distinct (map u_id (t_users s)) \<and> distinct (map (\<lambda>u. collate env (u_username u)) (t_users s)) \<and>
     (\<forall>u \<in> set (t_users s). 0 < u_id u \<and> u_status u \<in> {UserStatusActive, UserStatusDisabled}) \<and>
     distinct (map fst (t_user_roles s)) \<and> fst ` set (t_user_roles s) \<subseteq> u_id ` set (t_users s) \<and>
     distinct (map fst (t_roles s)) \<and> distinct (map (\<lambda>r. collate env (snd r)) (t_roles s))"

definition admins :: "db_env \<Rightarrow> accounts \<Rightarrow> int set" where
  "admins env s = {u. dao_UserHasRole env u RoleAdmin s}"

text \<open>The user that a registration adds, with the role of users.\<close>

lemma Register_Inr:
  assumes "Register env x served i salt name password s = (Inr (), s')"
  obtains hash rid rname row where
    "bcrypt_generate x salt password = Some hash" "go_trim name \<noteq> []"
    "row = \<lparr>u_id = i, u_username = go_trim name, u_password_hash = hash, u_nickname = go_trim name,
       u_status = UserStatusActive, u_last_login_at = None, u_deleted = False\<rparr>"
    "s' = s\<lparr>t_users := t_users s @ [row], t_user_roles := t_user_roles s @ [(i, rid)]\<rparr>"
    "(rid, rname) \<in> set (t_roles s)" "collate env rname = collate env RoleUser"
    "i \<notin> u_id ` set (t_users s)" "collate env (go_trim name) \<notin> (\<lambda>u. collate env (u_username u)) ` set (t_users s)"
    "i \<notin> fst ` set (t_user_roles s)"
proof -
  obtain n where n: "service_Register name password = Inr n"
    using assms by (cases "service_Register name password") (simp_all add: Register_def)
  then have nn: "n = go_trim name" "go_trim name \<noteq> []"
    by (auto simp: service_Register_def Let_def go_len_def split: if_splits sum.splits)
  obtain hash where h: "bcrypt_generate x salt password = Some hash"
    using assms n by (cases "bcrypt_generate x salt password") (simp_all add: Register_def)
  let ?row = "\<lparr>u_id = i, u_username = go_trim name, u_password_hash = hash, u_nickname = go_trim name,
       u_status = UserStatusActive, u_last_login_at = None, u_deleted = False\<rparr>"
  have "register_transaction env ?row s = Inr s'"
    using assms n h nn by (auto simp: Register_def split: if_splits sum.splits)
  then obtain rid rname where r: "dao_GetRoleByRoleName env RoleUser (s\<lparr>t_users := t_users s @ [?row]\<rparr>) = Some (rid, rname)"
    "s' = s\<lparr>t_users := t_users s @ [?row], t_user_roles := t_user_roles s @ [(i, rid)]\<rparr>" "i \<notin> fst ` set (t_user_roles s)"
    and new: "\<forall>u \<in> set (t_users s). u_id u \<noteq> i \<and> collate env (u_username u) \<noteq> collate env (go_trim name)"
    by (auto simp: register_transaction_def dao_CreateUser_def dao_CreateUserRole_def split: option.splits if_splits)
  have "(rid, rname) \<in> set (t_roles s)" "collate env rname = collate env RoleUser"
    using find_SomeD[OF r(1)[unfolded dao_GetRoleByRoleName_def]] by auto
  moreover have "i \<notin> u_id ` set (t_users s)" "collate env (go_trim name) \<notin> (\<lambda>u. collate env (u_username u)) ` set (t_users s)"
    using new by (blast, metis imageE)
  ultimately show thesis using that[OF h nn(2) refl r(2)] r(3) by blast
qed

subsection \<open>Runs of the user service\<close>

datatype account_op =
  DoRegister bool int jsstr jsstr jsstr
| DoLogin bool bool int jsstr jsstr
| DoNickname bool bool bool int jsstr accounts
| DoPassword bool int jsstr jsstr jsstr accounts

fun run_account :: "db_env \<Rightarrow> crypto \<Rightarrow> account_op \<Rightarrow> accounts \<Rightarrow> accounts" where
  "run_account env x (DoRegister served i salt name password) s = snd (Register env x served i salt name password s)"
| "run_account env x (DoLogin served readable now name password) s = snd (Login env x served readable now name password s)"
| "run_account env x (DoNickname served readable written i name early) s = snd (UpdateNickname served readable written i name early s)"
| "run_account env x (DoPassword served i salt old new early) s = snd (UpdatePassword env x served i salt old new early s)"

text \<open>Numbers of users are positive.\<close>

fun numbered :: "account_op \<Rightarrow> bool" where
  "numbered (DoRegister served i salt name password) \<longleftrightarrow> 0 < i"
| "numbered _ \<longleftrightarrow> True"

inductive account_runs :: "db_env \<Rightarrow> crypto \<Rightarrow> accounts \<Rightarrow> accounts \<Rightarrow> bool" for env x where
  stop: "account_runs env x s s"
| more: "account_runs env x s s' \<Longrightarrow> numbered op \<Longrightarrow> account_runs env x s (run_account env x op s')"

definition roles_apart :: "db_env \<Rightarrow> bool" where
  "roles_apart env \<longleftrightarrow> collate env RoleAdmin \<noteq> collate env RoleUser"

text \<open>An update keeps who the users are and what roles they have.\<close>

lemma update_user_keeps:
  assumes "update_user c f s = (n, s')" "\<And>u. u_id (f u) = u_id u" "\<And>u. u_username (f u) = u_username u"
    "\<And>u. u_status (f u) = u_status u" "accounts_ok env s"
  shows "accounts_ok env s' \<and> admins env s' = admins env s"
proof -
  have s': "s' = s\<lparr>t_users := map (\<lambda>u. if \<not> u_deleted u \<and> c u then f u else u) (t_users s)\<rparr>"
    using assms(1) by (simp add: update_user_def)
  have ids: "map u_id (t_users s') = map u_id (t_users s)"
    and names: "map (\<lambda>u. collate env (u_username u)) (t_users s') = map (\<lambda>u. collate env (u_username u)) (t_users s)"
    using assms(2,3) by (simp_all add: s')
  have set_ids: "u_id ` set (t_users s') = u_id ` set (t_users s)" using ids by (metis list.set_map)
  have rows: "\<forall>u \<in> set (t_users s'). 0 < u_id u \<and> u_status u \<in> {UserStatusActive, UserStatusDisabled}"
    using assms(2,4,5) by (auto simp: s' accounts_ok_def)
  have roles: "t_user_roles s' = t_user_roles s" "t_roles s' = t_roles s" by (simp_all add: s')
  then have "admins env s' = admins env s" by (simp add: admins_def dao_UserHasRole_def)
  moreover have "accounts_ok env s'"
    unfolding accounts_ok_def ids names set_ids roles using rows assms(5)[unfolded accounts_ok_def] by blast
  ultimately show ?thesis by blast
qed

lemma Register_keeps:
  assumes "accounts_ok env s" "roles_apart env" "0 < i"
  shows "accounts_ok env (snd (Register env x served i salt name password s)) \<and>
    admins env (snd (Register env x served i salt name password s)) = admins env s"
proof (cases "Register env x served i salt name password s")
  case (Pair res s')
  show ?thesis
  proof (cases res)
    case (Inl e)
    then have "s' = s" using Pair by (auto simp: Register_def split: sum.splits option.splits if_splits)
    then show ?thesis using Pair assms(1) by simp
  next
    case (Inr u)
    then have "Register env x served i salt name password s = (Inr (), s')" using Pair by simp
    then obtain hash rid rname row where r: "row = \<lparr>u_id = i, u_username = go_trim name, u_password_hash = hash,
        u_nickname = go_trim name, u_status = UserStatusActive, u_last_login_at = None, u_deleted = False\<rparr>"
      "s' = s\<lparr>t_users := t_users s @ [row], t_user_roles := t_user_roles s @ [(i, rid)]\<rparr>"
      "(rid, rname) \<in> set (t_roles s)" "collate env rname = collate env RoleUser"
      "i \<notin> u_id ` set (t_users s)" "collate env (go_trim name) \<notin> (\<lambda>u. collate env (u_username u)) ` set (t_users s)"
      "i \<notin> fst ` set (t_user_roles s)" by (rule Register_Inr)
    have "n = rname" if "(rid, n) \<in> set (t_roles s)" for n
      using that r(3) assms(1) by (auto simp: accounts_ok_def dest: eq_key_imp_eq_value)
    then have "\<not> (\<exists>(j, n) \<in> set (t_roles s). j = rid \<and> collate env n = collate env RoleAdmin)"
      using r(4) assms(2) by (auto simp: roles_apart_def)
    then have "admins env s' = admins env s" by (auto simp: admins_def dao_UserHasRole_def r(2))
    moreover have "accounts_ok env s'"
      using assms(1,3) r(5-7) by (auto simp: accounts_ok_def r(1,2))
    ultimately show ?thesis using Pair by simp
  qed
qed

lemma run_account_keeps:
  assumes "accounts_ok env s" "roles_apart env" "numbered op"
  shows "accounts_ok env (run_account env x op s) \<and> admins env (run_account env x op s) = admins env s"
proof (cases op)
  case (DoRegister served i salt name password)
  then show ?thesis using Register_keeps[OF assms(1,2)] assms(3) by simp
next
  case (DoLogin served readable now name password)
  have keeps: "accounts_ok env (dao_UpdateLastLoginAtByID i now s) \<and> admins env (dao_UpdateLastLoginAtByID i now s) = admins env s" for i
    unfolding dao_UpdateLastLoginAtByID_def by (rule update_user_keeps[OF surjective_pairing _ _ _ assms(1)]) simp_all
  have "snd (Login env x served readable now name password s) = s \<or>
      (\<exists>i. snd (Login env x served readable now name password s) = dao_UpdateLastLoginAtByID i now s)"
    by (auto simp: Login_def Let_def split: option.split)
  then show ?thesis using keeps assms(1) DoLogin by auto
next
  case (DoNickname served readable written i name early)
  have keeps: "accounts_ok env (dao_UpdateNicknameByID i n s) \<and> admins env (dao_UpdateNicknameByID i n s) = admins env s" for n
    unfolding dao_UpdateNicknameByID_def by (rule update_user_keeps[OF surjective_pairing _ _ _ assms(1)]) simp_all
  have "snd (UpdateNickname served readable written i name early s) = s \<or>
      (\<exists>n. snd (UpdateNickname served readable written i name early s) = dao_UpdateNicknameByID i n s)"
    by (auto simp: UpdateNickname_def split: sum.split)
  then show ?thesis using keeps assms(1) DoNickname by auto
next
  case (DoPassword served i salt old new early)
  have keeps: "accounts_ok env (snd (dao_UpdateUserPassword env i h h' s)) \<and> admins env (snd (dao_UpdateUserPassword env i h h' s)) = admins env s"
    for h h'
    unfolding dao_UpdateUserPassword_def by (rule update_user_keeps[OF surjective_pairing _ _ _ assms(1)]) simp_all
  have "snd (UpdatePassword env x served i salt old new early s) = s \<or>
      (\<exists>h h'. snd (UpdatePassword env x served i salt old new early s) = snd (dao_UpdateUserPassword env i h h' s))"
    by (auto simp: UpdatePassword_def case_prod_beta' Let_def split: option.split sum.split)
  then show ?thesis using keeps assms(1) DoPassword by auto
qed

subsection \<open>From the registration to the requests that are served\<close>

text \<open>
  The contracts of the libraries: a password fits its hash and, up to 72 bytes, no other does; a token is
  a text without white space, and until it expires it is read back as the claims it was signed for.
\<close>

definition bcrypt_contract :: "crypto \<Rightarrow> bool" where
  "bcrypt_contract x \<longleftrightarrow> (\<forall>salt p h q. bcrypt_generate x salt p = Some h \<and> go_len q \<le> 72 \<longrightarrow>
     (bcrypt_compare x h q \<longleftrightarrow> utf8 q = utf8 p))"

definition jwt_contract :: "crypto \<Rightarrow> jsstr \<Rightarrow> user_claims \<Rightarrow> bool" where
  "jwt_contract x secret c \<longleftrightarrow> (\<forall>token. jwt_sign x secret c = Some token \<longrightarrow>
     token \<noteq> [] \<and> (\<forall>u \<in> set token. \<not> go_space u) \<and>
     (\<forall>t. the (claim_issued_at c) \<le> t \<and> t < the (claim_expires_at c) \<longrightarrow>
        (\<exists>c'. jwt_parse x secret (claim_issuer c) t token = Some c' \<and> claim_user_id c' = claim_user_id c \<and>
           claim_username c' = claim_username c \<and> claim_issued_at c' \<noteq> None \<and> claim_expires_at c' \<noteq> None)))"

definition claims_for :: "token_manager \<Rightarrow> int \<Rightarrow> int \<Rightarrow> jsstr \<Rightarrow> user_claims" where
  "claims_for m now user name = \<lparr>claim_user_id = user, claim_username = go_trim name, claim_issuer = tm_issuer m,
     claim_subject = dec user, claim_issued_at = Some now, claim_expires_at = Some (now + tm_ttl m)\<rparr>"

lemma go_trim_idem: "go_trim (go_trim s) = go_trim s"
proof (cases "go_trim s = []")
  case False
  let ?d = "dropWhile go_space s"
  have "rev (go_trim s) = dropWhile go_space (rev ?d)" by (simp add: go_trim_def)
  then obtain zs where z: "rev ?d = zs @ rev (go_trim s)" using takeWhile_dropWhile_id by metis
  then have d: "?d = go_trim s @ rev zs" by (metis rev_append rev_rev_ident)
  then have "hd (go_trim s) = hd ?d" "?d \<noteq> []" using False by auto
  then have "dropWhile go_space (go_trim s) = go_trim s"
    using hd_dropWhile[of go_space s] False by (cases "go_trim s") auto
  then show ?thesis by (simp add: go_trim_def)
next
  case True
  show ?thesis unfolding True by (simp add: go_trim_def)
qed

lemma token_accepted:
  assumes "GenerateAccessToken x m now user name = Inr token" "jwt_contract x (tm_secret m) (claims_for m now user name)"
    "now \<le> t" "t < now + tm_ttl m"
  shows "0 < user \<and> token \<noteq> [] \<and> (\<forall>u \<in> set token. \<not> go_space u) \<and>
    map_option claim_user_id (tm_ParseAccessToken x m t token) = Some user"
proof -
  have g: "0 < user" "go_trim name \<noteq> []" "jwt_sign x (tm_secret m) (claims_for m now user name) = Some token"
    using assms(1) by (auto simp: GenerateAccessToken_def claims_for_def Let_def split: if_splits option.splits)
  then obtain c' where "jwt_parse x (tm_secret m) (tm_issuer m) t token = Some c'" "claim_user_id c' = user"
    "claim_username c' = go_trim name" "claim_issued_at c' \<noteq> None" "claim_expires_at c' \<noteq> None"
    "token \<noteq> []" "\<forall>u \<in> set token. \<not> go_space u"
    using assms(2-4) unfolding jwt_contract_def by (auto simp: claims_for_def)
  moreover have "go_trim (go_trim name) = go_trim name" by (rule go_trim_idem)
  ultimately show ?thesis using g by (auto simp: tm_ParseAccessToken_def)
qed

lemma find_new: "(\<And>u. u \<in> set us \<Longrightarrow> \<not> c u) \<Longrightarrow> find c (us @ [row]) = (if c row then Some row else None)"
  by (induction us) auto

text \<open>The first login of a user, with any spelling of the name the database takes for the same.\<close>

lemma first_login:
  assumes "accounts_ok env s" "Register env x served i salt name password s = (Inr (), s')" "bcrypt_contract x"
    "collate env (go_trim name') = collate env (go_trim name)" "go_len password' \<le> 72"
  obtains row where "u_id row = i" "u_username row = go_trim name" "go_trim name \<noteq> []"
    "Login env x True True now name' password' s' =
      (if utf8 password' = utf8 password
       then (Inr (row\<lparr>u_last_login_at := Some now\<rparr>, dao_ListRoleNamesByUserID i (dao_UpdateLastLoginAtByID i now s')),
         dao_UpdateLastLoginAtByID i now s')
       else (Inl ErrInvalidCredentials, s'))"
proof -
  from assms(2) obtain hash rid rname row where r: "bcrypt_generate x salt password = Some hash" "go_trim name \<noteq> []"
    "row = \<lparr>u_id = i, u_username = go_trim name, u_password_hash = hash, u_nickname = go_trim name,
       u_status = UserStatusActive, u_last_login_at = None, u_deleted = False\<rparr>"
    "s' = s\<lparr>t_users := t_users s @ [row], t_user_roles := t_user_roles s @ [(i, rid)]\<rparr>"
    "collate env (go_trim name) \<notin> (\<lambda>u. collate env (u_username u)) ` set (t_users s)"
    by (rule Register_Inr)
  have "dao_GetUserByUsername env (go_trim name') s' = Some row"
    unfolding dao_GetUserByUsername_def assms(4)
  proof -
    have "\<not> (\<not> u_deleted u \<and> collate env (u_username u) = collate env (go_trim name))" if "u \<in> set (t_users s)" for u
      using r(5) that by (metis imageI)
    then show "find (\<lambda>u. \<not> u_deleted u \<and> collate env (u_username u) = collate env (go_trim name)) (t_users s') = Some row"
      using find_new[of "t_users s" _ row] by (simp add: r(3,4))
  qed
  then show thesis
    using that[of row] r(1-3) assms(3,5) by (simp add: Login_def bcrypt_contract_def Let_def)
qed

lemma meant_needs: "meant r a call \<Longrightarrow> needs call = a"
  by (induction rule: meant.induct) simp_all

text \<open>A request an administrator could make is forbidden to a user who is none.\<close>

lemma serve_forbidden:
  assumes "serve (g\<lparr>HasAdminRole := \<lambda>_. Some True\<rparr>) auth m path q b = Run (Some u) call" "needs call = Administrator"
    "HasAdminRole g u = Some False"
  shows "serve g auth m path q b = Status 403"
proof -
  let ?g = "g\<lparr>HasAdminRole := \<lambda>_. Some True\<rparr>"
  obtain a m' pat h where r: "find (go_serves m (path_parts path)) SetupRouters = Some (a, m', pat, h)"
    using assms(1) by (auto simp: serve_def split: option.splits)
  let ?ps = "path_params pat (path_parts path)"
  let ?run = "\<lambda>v. run_handler h (Some v) ?ps q b"
  have route: "(a, m', pat, h) \<in> set SetupRouters" using find_SomeD[OF r] by blast
  have "read_request h ?ps q b = Some call"
    using assms(1) r by (cases a) (auto simp: serve_def Let_def elim!: AuthMiddleware_Run dest!: run_handler_Run AdminMiddleware_Run)
  then have a: "a = Administrator" using read_request_needs[OF _ route] assms(2) by simp
  then have "AuthMiddleware ?g auth (\<lambda>v. AdminMiddleware ?g v (?run v)) = Run (Some u) call"
    using assms(1) r by (simp add: serve_def Let_def)
  then obtain scheme token v where w: "go_fields_from [] (the auth) = [scheme, token]" "auth \<noteq> None"
    "map ascii_lower scheme = js ''bearer''" "ParseAccessToken ?g token = Some v" "AdminMiddleware ?g v (?run v) = Run (Some u) call"
    by (rule AuthMiddleware_Run)
  note run = AdminMiddleware_Run[OF w(5)]
  then have "Some u = Some v" using run_handler_Run[of h "Some v" ?ps q b "Some u" call] by blast
  then have v: "0 < v" "v = u" using run by simp_all
  have "AuthMiddleware g auth k = k u" for k
    using w(1-4) v(2) by (auto simp: AuthMiddleware_def)
  then show ?thesis using r a v assms(3) by (simp add: serve_def Let_def AdminMiddleware_def)
qed

lemma account_runs_keep:
  assumes "account_runs env x s s'" "accounts_ok env s" "roles_apart env"
  shows "accounts_ok env s' \<and> admins env s' = admins env s"
  using assms(1,2)
proof induction
  case (more s' op)
  then show ?case using run_account_keeps[OF _ assms(3)] by simp
qed simp

lemma token_served:
  assumes "GenerateAccessToken x m now i name = Inr (accessToken sess)" "jwt_contract x (tm_secret m) (claims_for m now i name)"
    "now \<le> t" "t < now + tm_ttl m" "i \<notin> admins env s" "meant r a call"
  shows "send (gate_at env x m t s) sess r =
    (if a = Administrator then Status 403 else Run (if a = Anyone then None else Some i) call)"
proof -
  let ?g = "gate_at env x m t s"
  note ok = token_accepted[OF assms(1-4)]
  have parse: "ParseAccessToken ?g (accessToken sess) = Some i" using ok by (simp add: gate_at_def)
  have no: "HasAdminRole ?g i = Some False" using assms(5) by (simp add: gate_at_def HasRole_def admins_def)
  show ?thesis
  proof (cases "a = Administrator")
    case True
    have "signed_for (?g\<lparr>HasAdminRole := \<lambda>_. Some True\<rparr>) sess a (Some i)"
      using ok parse True by (simp add: signed_for_def)
    then have "send (?g\<lparr>HasAdminRole := \<lambda>_. Some True\<rparr>) sess r = Run (Some i) call" by (rule served_meant[OF assms(6)])
    then show ?thesis using True serve_forbidden no meant_needs[OF assms(6)] unfolding send_def by simp
  next
    case False
    then have "signed_for ?g sess a (if a = Anyone then None else Some i)" using ok parse by (simp add: signed_for_def)
    then show ?thesis using served_meant[OF assms(6)] False by auto
  qed
qed

lemma new_user_roles:
  assumes "accounts_ok env s" "Register env x served i salt name password s = (Inr (), s')"
  shows "\<exists>n. dao_ListRoleNamesByUserID i (dao_UpdateLastLoginAtByID i now s') = [n] \<and> collate env n = collate env RoleUser"
proof -
  obtain rid rname row where r: "s' = s\<lparr>t_users := t_users s @ [row], t_user_roles := t_user_roles s @ [(i, rid)]\<rparr>"
    "(rid, rname) \<in> set (t_roles s)" "collate env rname = collate env RoleUser" "i \<notin> fst ` set (t_user_roles s)"
    using assms(2) by (rule Register_Inr) blast
  have none: "concat (map (\<lambda>(u, r). if u = i then f r else []) us) = []" if "i \<notin> fst ` set us"
    for us :: "(int \<times> int) list" and f :: "int \<Rightarrow> jsstr list"
    using that by (induction us) auto
  have one: "concat (map (\<lambda>(j, n). if j = rid then [n] else []) rs) = [rname]"
    if "distinct (map fst rs)" "(rid, rname) \<in> set rs" for rs :: "(int \<times> jsstr) list"
    using that by (induction rs) (force split: if_splits)+
  have "t_user_roles (dao_UpdateLastLoginAtByID i now s') = t_user_roles s @ [(i, rid)]"
    "t_roles (dao_UpdateLastLoginAtByID i now s') = t_roles s"
    by (simp_all add: dao_UpdateLastLoginAtByID_def update_user_def r(1))
  moreover have "distinct (map fst (t_roles s))" using assms(1) by (simp add: accounts_ok_def)
  ultimately show ?thesis using none[OF r(4)] one r(2,3) by (simp add: dao_ListRoleNamesByUserID_def)
qed

text \<open>C37: who registers signs in with the name, in any spelling the database takes for the same, and with no
  other password: the login answers with the new user and the one role of users, a wrong password (of at
  most 72 bytes) is refused and changes nothing. It rests on the contract of the hash.\<close>

theorem new_user_signs_in:
  assumes "accounts_ok env s" "Register env x served i salt name password s = (Inr (), s')" "bcrypt_contract x"
    "collate env (go_trim name') = collate env (go_trim name)" "go_len password' \<le> 72"
  shows "if utf8 password' = utf8 password
    then \<exists>user rname. Login env x True True now name' password' s' = (Inr (user, [rname]), dao_UpdateLastLoginAtByID i now s') \<and>
      u_id user = i \<and> u_username user = go_trim name \<and> collate env rname = collate env RoleUser
    else Login env x True True now name' password' s' = (Inl ErrInvalidCredentials, s')"
proof -
  obtain row where "u_id row = i" "u_username row = go_trim name" and login: "Login env x True True now name' password' s' =
      (if utf8 password' = utf8 password
       then (Inr (row\<lparr>u_last_login_at := Some now\<rparr>, dao_ListRoleNamesByUserID i (dao_UpdateLastLoginAtByID i now s')),
         dao_UpdateLastLoginAtByID i now s')
       else (Inl ErrInvalidCredentials, s'))"
    using first_login[OF assms] by blast
  moreover obtain n where "dao_ListRoleNamesByUserID i (dao_UpdateLastLoginAtByID i now s') = [n]" "collate env n = collate env RoleUser"
    using new_user_roles[OF assms(1,2)] by blast
  ultimately show ?thesis by (auto intro!: exI[of _ "row\<lparr>u_last_login_at := Some now\<rparr>"])
qed

text \<open>C8: nobody becomes an administrator: whatever is registered, signed in to or changed through the
  user service, in any order, the users with the role of administrators stay those they were, and the
  tables stay well-formed (distinct numbers and names, at most one role for each user).\<close>

theorem nobody_becomes_admin:
  assumes "account_runs env x s s'" "accounts_ok env s" "roles_apart env"
  shows "accounts_ok env s' \<and> (\<forall>u. dao_UserHasRole env u RoleAdmin s' \<longleftrightarrow> dao_UserHasRole env u RoleAdmin s)"
  using account_runs_keep[OF assms] by (auto simp: admins_def)

text \<open>C7: the way from the registration to the pages. The token of a new user's login is accepted until it
  expires, whatever happens to the accounts meanwhile: every request the frontend builds for a user is
  run, as the call it is meant for and for that very user, and every request for administrators is
  answered with 403. It rests on the contract of the signing library.\<close>

theorem new_account_is_served:
  assumes "accounts_ok env s" "roles_apart env" "Register env x served i salt name password s = (Inr (), s1)" "0 < i"
    "account_runs env x s1 s2" "GenerateAccessToken x m now i (go_trim name) = Inr (accessToken sess)"
    "jwt_contract x (tm_secret m) (claims_for m now i (go_trim name))" "now \<le> t" "t < now + tm_ttl m" "meant r a call"
  shows "send (gate_at env x m t s2) sess r =
    (if a = Administrator then Status 403 else Run (if a = Anyone then None else Some i) call)"
proof -
  have s1: "accounts_ok env s1" "admins env s1 = admins env s"
    using Register_keeps[OF assms(1,2,4), of x served salt name password] assms(3) by simp_all
  have "i \<notin> fst ` set (t_user_roles s)" using assms(3) by (rule Register_Inr)
  then have "i \<notin> admins env s" by (force simp: admins_def dao_UserHasRole_def)
  then have "i \<notin> admins env s2" using account_runs_keep[OF assms(5) s1(1) assms(2)] s1(2) by simp
  then show ?thesis by (rule token_served[OF assms(6-9) _ assms(10)])
qed

subsection \<open>The first user of a new program\<close>

text \<open>The tables as the migrations leave them, and libraries that keep their contracts.\<close>

definition first_accounts :: accounts where
  "first_accounts = \<lparr>t_users = [], t_roles = [(1, RoleAdmin), (2, RoleUser)], t_user_roles = []\<rparr>"

definition sample_manager :: token_manager where
  "sample_manager = \<lparr>tm_secret = js ''0123456789abcdef0123456789abcdef'', tm_issuer = js ''shop'', tm_ttl = 3600\<rparr>"

definition open_crypto :: crypto where
  "open_crypto = \<lparr>bcrypt_generate = (\<lambda>salt p. if go_len p \<le> 72 then Some p else None),
     bcrypt_compare = (\<lambda>h q. utf8 q = utf8 h), jwt_sign = (\<lambda>secret c. Some (js ''t'')),
     jwt_parse = (\<lambda>secret issuer t token. Some (claims_for sample_manager 0 1 (js ''ann'')))\<rparr>"

definition ann :: users_row where
  "ann = \<lparr>u_id = 1, u_username = js ''ann'', u_password_hash = js ''secret'', u_nickname = js ''ann'',
     u_status = UserStatusActive, u_last_login_at = None, u_deleted = False\<rparr>"

definition ann_accounts :: accounts where
  "ann_accounts = first_accounts\<lparr>t_users := [ann], t_user_roles := [(1, 2)]\<rparr>"

lemma ann_texts: "go_trim (js ''ann'') = js ''ann''" "go_len (js ''ann'') = 3" "go_len (js ''secret'') = 6" "go_len (js ''wrong!'') = 6"
  by (simp_all add: go_trim_def go_space_def js_def go_len_def high_surrogate_def low_surrogate_def utf8_point_def utf8_numbers_def)

lemma first_ok: "accounts_ok shop_env first_accounts" "roles_apart shop_env"
  by (simp_all add: accounts_ok_def first_accounts_def roles_apart_def shop_env_def RoleAdmin_def RoleUser_def js_eq_iff)

lemma ann_registered: "Register shop_env open_crypto True 1 [] (js ''ann'') (js ''secret'') first_accounts = (Inr (), ann_accounts)"
proof -
  have "service_Register (js ''ann'') (js ''secret'') = Inr (js ''ann'')"
    by (simp add: service_Register_def service_validatePassword_def ann_texts)
  moreover have "dao_GetRoleByRoleName shop_env RoleUser s = Some (2, RoleUser)" if "t_roles s = t_roles first_accounts" for s
    using that by (simp add: dao_GetRoleByRoleName_def first_accounts_def shop_env_def RoleAdmin_def RoleUser_def js_eq_iff)
  ultimately show ?thesis
    by (simp add: Register_def register_transaction_def dao_CreateUser_def dao_CreateUserRole_def open_crypto_def ann_texts
        ann_accounts_def ann_def first_accounts_def)
qed

lemma open_bcrypt: "bcrypt_contract open_crypto"
  by (auto simp: bcrypt_contract_def open_crypto_def)

lemma open_jwt: "jwt_contract open_crypto (tm_secret sample_manager) (claims_for sample_manager 0 1 (js ''ann''))"
proof -
  have "\<forall>u \<in> set (js ''t''). \<not> go_space u" by (simp add: js_def go_space_def)
  then show ?thesis by (simp add: jwt_contract_def open_crypto_def claims_for_def js_empty_iff)
qed

theorem new_user_signs_in_witness:
  "Login shop_env open_crypto True True 5 (js ''ann'') (js ''wrong!'') ann_accounts = (Inl ErrInvalidCredentials, ann_accounts)"
proof -
  have "utf8 (js ''wrong!'') \<noteq> utf8 (js ''secret'')"
    by (simp add: js_def high_surrogate_def low_surrogate_def utf8_point_def utf8_numbers_def)
  then show ?thesis
    using new_user_signs_in[OF first_ok(1) ann_registered open_bcrypt, of "js ''ann''" "js ''wrong!''" 5] by (simp add: ann_texts)
qed

theorem nobody_becomes_admin_witness: "\<not> dao_UserHasRole shop_env 1 RoleAdmin ann_accounts"
proof -
  have "account_runs shop_env open_crypto first_accounts (run_account shop_env open_crypto (DoRegister True 1 [] (js ''ann'') (js ''secret'')) first_accounts)"
    by (rule account_runs.more[OF account_runs.stop]) simp
  then have "account_runs shop_env open_crypto first_accounts ann_accounts" by (simp add: ann_registered)
  from nobody_becomes_admin[OF this first_ok] show ?thesis by (simp add: dao_UserHasRole_def first_accounts_def)
qed

theorem new_account_is_served_witness:
  "send (gate_at shop_env open_crypto sample_manager 10 ann_accounts) sample_session inventoryApi_rebuildRedis = Status 403 \<and>
   send (gate_at shop_env open_crypto sample_manager 10 ann_accounts) sample_session authApi_me = Run (Some 1) CallMe"
proof -
  have token: "GenerateAccessToken open_crypto sample_manager 0 1 (go_trim (js ''ann'')) = Inr (accessToken sample_session)"
    by (simp add: GenerateAccessToken_def open_crypto_def sample_session_def ann_texts js_empty_iff)
  note served = new_account_is_served[OF first_ok ann_registered _ account_runs.stop token, of 10]
  show ?thesis
    using served[OF _ _ _ _ meant.rebuild] served[OF _ _ _ _ meant.me] open_jwt by (simp add: ann_texts sample_manager_def)
qed

end
