(* ===== verification/Spec2Isabelle.thy ===== *)
theory Spec2Isabelle
  imports OrdersProps ProductsProps TableState RouteTree Rendering Users
begin

text \<open>
  This development models the TypeScript frontend of the repository (\<open>src/fronted/src\<close>), a single-page
  program, and the Go backend it is served by (\<open>src/router\<close>, \<open>src/internal\<close>).
  Users place and pay orders, administrators keep products and stock. The properties, numbered C1 to
  C40, stand in the theories of their components.

  \<^bold>\<open>The parts and how they interact.\<close> A route table with guards decides which page is entered
  (\<open>routes\<close>, \<open>auth/require-admin.ts\<close>). The guards read the session store (\<open>stores/auth-store.ts\<close>), which
  keeps its token in a cookie (\<open>lib/cookies.ts\<close>). A page (\<open>features/order-inventory\<close>) keeps its own state,
  reads the answers of its queries from the query library and sends mutations through \<open>api.ts\<close> and the
  interceptors of \<open>lib/api-client.ts\<close>, which add the token to a request and close the session when the
  backend rejects it. The shell around the pages (\<open>components/layout\<close>, \<open>context\<close>) holds the menu, the
  user's menus and the preferences, each with a cookie of its own. The services of the backend run their
  transactions on the tables of MySQL; \<open>order_service.go\<close> and \<open>inventory_service.go\<close> also keep a copy of the
  stock in Redis, the guard, which refuses orders before the database is asked. The pages do not depend on
  what the services do: their properties hold for arbitrary answers. The two sides meet in the endpoints,
  the state machine of an order, the idempotency key and the limits of the forms, where properties compare
  them.

  \<^bold>\<open>Theories.\<close> A definition has the name of the function, component or constant it models.

  The language:
  \<^item> \<open>Prelude\<close>: the fact collections, the type of calls that may throw, lemmas on lists.
  \<^item> \<open>JsString\<close>, \<open>JsNumber\<close>, \<open>JsConvert\<close>: strings as lists of 16-bit code units; numbers as doubles
    with their rounding; \<open>String(x)\<close>, \<open>toFixed\<close> and \<open>Number(s)\<close>.
  \<^item> \<open>Json\<close>, \<open>JsonText\<close>, \<open>Uri\<close>, \<open>Utf8\<close>: JSON values and their text, percent-encoding, bytes.
  \<^item> \<open>Jsx\<close>, \<open>Texts\<close>: rendered trees with the events their controls raise; the Chinese literals.

  Data and requests:
  \<^item> \<open>Types\<close>, \<open>Api\<close>: \<open>types.ts\<close>, \<open>api.ts\<close> and \<open>auth/api.ts\<close>, one request per function.
  \<^item> \<open>ApiClient\<close>: the errors and \<open>unwrap\<close>, \<open>getErrorMessage\<close>, \<open>handleServerError\<close>.
  \<^item> \<open>Queries\<close>: what a page sees of the query library.

  The order inventory:
  \<^item> \<open>Format\<close>, \<open>Money\<close>: \<open>format.ts\<close> and \<open>money.ts\<close>. Printing and parsing of amounts is exact up to
    \<open>100 * 2 ^ 46\<close> fen, and not further.
  \<^item> \<open>OrderActions\<close>, \<open>OrderSubmission\<close>, \<open>OrderDraft\<close>: the guards of an order's actions with the state
    machine they implement, the idempotency keys, the rows of the form. \<open>row_id_source\<close> is what the form
    relies on to have rows of distinct identities.
  \<^item> \<open>Orders\<close>, \<open>OrdersView\<close>, \<open>OrdersRun\<close>, \<open>OrdersProps\<close>: the handlers of \<open>orders.tsx\<close>, the page it renders,
    and its runs with a user who can only use what is rendered and answers that come in any order. The
    invariant of the runs and rule induction give the properties of keys, rows, actions and payloads.
  \<^item> \<open>Products\<close>, \<open>ProductsProps\<close>, \<open>Inventory\<close>, \<open>Logs\<close>, \<open>Dashboard\<close>: the other pages in the same way.
    \<open>Paging\<close> is the contract of the two lists that have pages; \<open>Components\<close> what the pages share.

  The session and the shell:
  \<^item> \<open>Cookies\<close>, \<open>AuthStore\<close>, \<open>Permissions\<close>, \<open>Session\<close>: cookies with the contract \<open>cookie_store\<close>, the
    store, the interceptors, the retry rule and error handlers of \<open>main.tsx\<close>, the guards' conditions.
  \<^item> \<open>Routes\<close>: the route table, the guards of a page in order, the error pages.
  \<^item> \<open>Sidebar\<close>: the menu by role, the active entry, the command dialog, user menus and sign-out.
  \<^item> \<open>Preferences\<close>, \<open>ConfigDrawer\<close>: the contract \<open>preference\<close>, interpreted for direction, theme, font
    and the two layout choices; the drawer that changes and resets them; the classes of the document.
  \<^item> \<open>AuthForms\<close>, \<open>ServiceLimits\<close>: the forms of sign-in, sign-up, account and profile, and the input
    checks of \<open>user_service.go\<close> and \<open>product_service.go\<close> they are compared with.
  \<^item> \<open>TableState\<close>: \<open>use-table-url-state.ts\<close> and the page buttons of \<open>utils.ts\<close>.
  \<^item> \<open>RouteTree\<close>: \<open>routeTree.gen.ts\<close>; an address decides its page by the paths and parents the routes are
    updated with, every link has a page.

  Components as drawn:
  \<^item> \<open>Ui\<close>, \<open>UiControls\<close>: \<open>components/ui\<close>, each component a function from its properties and children to
    the elements and library primitives it renders. Class names are left out; an attribute whose only use
    is to select class names stands for the class. No component drops what a child can raise.
  \<^item> \<open>Shell\<close>: the settings shell, the header, the search button, the skip link, the progress bar.
  \<^item> \<open>Rendering\<close>: the pages drawn down to elements offer the same events as their trees of components.

  The backend:
  \<^item> \<open>Store\<close>: the tables, their constraints, transactions, and the functions of \<open>dao\<close>.
  \<^item> \<open>StockGuard\<close>: \<open>inventory_stock_guard.go\<close> with its Lua scripts, over a link that answers, is not
    reached, or loses the answer, or without a client; what the scripts do to small quantities exactly,
    and to large ones not.
  \<^item> \<open>OrderService\<close>, \<open>StockService\<close>: \<open>order_service.go\<close>, \<open>product_service.go\<close>, \<open>inventory_service.go\<close>.
  \<^item> \<open>Books\<close>: the books of a product (stock, locked, sold, supplied, its log) and that every statement
    and every transaction keeps them balanced.
  \<^item> \<open>Backend\<close>: the calls of the services as steps, their runs, the transactions a step may have committed,
    and the invariant that orders, keys, timeouts and items agree; what is recorded only grows.
  \<^item> \<open>BackendProps\<close>, \<open>Placing\<close>, \<open>OrderLife\<close>: balanced books, one order per key, exact totals, retries and
    reused keys, failed creations; the row of an order changes only along the state machine of
    \<open>order-actions.ts\<close>, in its status and the time of the step, and the frontend offers exactly what the backend carries out; timeouts.
  \<^item> \<open>GuardInStep\<close>: as long as Redis answers, calls do not overlap, identifiers are new and quantities stay
    below \<open>10 ^ 14\<close>, the guard holds exactly the stock of the tables and one reservation for each unpaid order.
  \<^item> \<open>Gateway\<close>: routes, middleware, handlers and bindings (\<open>router.go\<close>, \<open>middleware\<close>, \<open>handler\<close>, \<open>request\<close>), from
    a request to a typed call of a service; \<open>Served\<close>: the requests of the API objects are served as meant;
    \<open>Ownership\<close>: from a request to the tables, nobody but an administrator gets at what is not theirs.
  \<^item> \<open>Users\<close>: users, roles and tokens (\<open>user_service.go\<close>, \<open>authorization_service.go\<close>, \<open>token_manager.go\<close>), from
    the registration to the requests that are served.

  \<^bold>\<open>How state and effects are modelled.\<close> The state of a component is a record, one field per state
  variable. A handler takes the state it was rendered with and returns the next state and the list of its
  effects (messages, mutations, invalidations, navigations) in the order of the calls. What a page renders
  is a tree; the events its enabled controls can raise are computed from the tree, so a disabled button is
  a guard of the model. Asynchronous answers are events of their own, and in a run they may come at any
  time and in any order. A call that may throw returns a sum. Randomness and the platform's date
  formatting are arguments. A method of a Go service is a function on the tables, the guard's store and the
  metrics. A transaction is one step, because it keeps the rows it changes locked until it commits, and
  leaves nothing when it fails; what a method reads before its transaction is read in the tables of any
  earlier time. Identifiers, texts, the clock and the outcome of each outside call are arguments.

  \<^bold>\<open>The platform.\<close> Of the browser and the libraries the model states documented behaviour only: the
  cookie jar is a list of pairs in which a name occurs once; the query library calls back each mutation
  once and says it is pending until then (\<open>lib_contract\<close>); the router runs the guards of a page from the
  root inwards and stops at the first that throws; a schema reports the issues of its checks in order and
  a form submits only without issues; the class list of an element is live. A router of gin runs the first
  route whose parts fit the path (its redirects for slashes are left out); a binding refuses what its tags
  exclude; a JSON body is an object whose names are distinct and spelled as the tags spell them. The
  database compares texts by a collation and Go hashes a payload: both are parameters (\<open>collate\<close>, \<open>sha256_hex\<close>), and
  that the hash tells two payloads apart is a premise where it is needed. Hashing of passwords and signing
  of tokens are parameters (\<open>crypto\<close>) with contracts: a password fits its hash and no other does, a token is
  read back as what was signed until it expires.

  A number of Lua is a double; \<open>cjson\<close> writes it with 14 digits, and as the argument of a command it is
  printed with 17; a command of Redis on a number fails outside 64 bits, and a script ends where a command
  fails and keeps what it wrote.

  \<^bold>\<open>Bounds and fuel.\<close> The scripts of the guard are exact for quantities below \<open>10 ^ 14\<close>; the properties that
  depend on that have \<open>exact_items\<close> as a premise, and \<open>scripts_round\<close> shows what happens beyond. The chain of a
  route's parents is followed for twenty steps, as many as there are routes. \<open>max_safe\<close> is \<open>2 ^ 53 - 1\<close>; the row counter is below it, since a user mints no more
  rows. The search for the shortest decimal of a double stops at seventeen digits, which always suffice
  for a double. The JSON parser's fuel bounds the nesting and is taken from the length of the text, of
  which every level consumes at least one unit. All other functions terminate without fuel.

  \<^bold>\<open>Not modelled.\<close> Icons, class names and styles; the primitive libraries below \<open>components/ui\<close> (Radix,
  cmdk, sonner), which are not part of the repository; route modules that only name their component. Of
  the backend: the answers of the handlers, logging, tracing and auditing of requests, the cache of product
  details, the RabbitMQ workers (a timeout is a call of \<open>CancelExpiredOrder\<close> at any time), a commit whose
  acknowledgement is lost, and start without a database. Lengths of texts are not checked by the tables of
  the model, since the bindings and services bound them. Messages and HTTP statuses of errors are left out.
\<close>

end
